(* ===== verification/Prelude.thy ===== *)
theory Prelude
  imports Main "HOL-Library.Word"
begin

text \<open>
  Shared vocabulary of the development.

  \<^item> \<open>fault\<close> and the error sum \<open>fault + 'a\<close> with its \<open>rbind\<close>: every
    undefined behaviour, failed assertion or out-of-range access of the C++ and
    D code is a value \<open>Inl f\<close>, every normal return a value \<open>Inr r\<close>.
  \<^item> \<open>block\<close>: a region of memory counted in elements, \<open>None\<close> being a cell that
    was allocated and never written; \<open>mem_read\<close>, \<open>mem_write\<close>, \<open>mem_move\<close>,
    \<open>mem_copy_in\<close> and \<open>mem_realloc\<close> are the C library calls on it, with their bounds.
  \<^item> the machine integer names and the lemmas on words the components share.
\<close>

named_theorems fault_simps \<open>evaluation of the error monad and of memory operations\<close>
named_theorems word_bounds \<open>values of word operations that do not wrap\<close>

type_synonym u8 = "8 word"
type_synonym u16 = "16 word"
type_synonym u32 = "32 word"
type_synonym u64 = "64 word"

section \<open>Errors as values\<close>

datatype fault =
    Out_Of_Bounds     \<comment> \<open>access outside an allocated block\<close>
  | Overlap           \<comment> \<open>\<open>memcpy\<close> of overlapping regions\<close>
  | Wrong_Member      \<comment> \<open>read of the inactive member of a union\<close>
  | Uninitialised     \<comment> \<open>use of a cell never written\<close>
  | Assertion         \<comment> \<open>a failed \<open>assert\<close>\<close>
  | Null_Deref        \<comment> \<open>use of a null pointer\<close>

primrec rbind :: "'e + 'a \<Rightarrow> ('a \<Rightarrow> 'e + 'b) \<Rightarrow> 'e + 'b" where
  "rbind (Inl e) f = Inl e"
| "rbind (Inr a) f = f a"

declare rbind.simps [fault_simps]

definition guard :: "'e \<Rightarrow> bool \<Rightarrow> 'e + unit" where
  "guard e b = (if b then Inr () else Inl e)"

lemma guard_True [fault_simps, simp]: "guard e True = Inr ()"
  by (simp add: guard_def)

lemma guard_False [fault_simps, simp]: "guard e False = Inl e"
  by (simp add: guard_def)

lemma rbind_Inr_iff: "rbind m f = Inr r \<longleftrightarrow> (\<exists>a. m = Inr a \<and> f a = Inr r)"
  by (cases m) auto

lemma rbind_assoc: "rbind (rbind m f) g = rbind m (\<lambda>x. rbind (f x) g)"
  by (cases m) auto

lemma rbind_guard_Inr: "rbind (guard e b) f = Inr r \<longleftrightarrow> b \<and> f () = Inr r"
  by (cases b) auto

section \<open>Blocks of memory\<close>

type_synonym 'a block = "'a option list"

definition mem_alloc :: "nat \<Rightarrow> 'a block" where
  "mem_alloc n = replicate n None"

definition mem_realloc :: "'a block \<Rightarrow> nat \<Rightarrow> 'a block" where
  "mem_realloc b n = take n b @ replicate (n - length b) None"

definition mem_read :: "'a block \<Rightarrow> nat \<Rightarrow> fault + 'a" where
  "mem_read b i = (if i < length b
     then (case b ! i of None \<Rightarrow> Inl Uninitialised | Some v \<Rightarrow> Inr v)
     else Inl Out_Of_Bounds)"

definition mem_write :: "'a block \<Rightarrow> nat \<Rightarrow> 'a \<Rightarrow> fault + 'a block" where
  "mem_write b i v = (if i < length b then Inr (b[i := Some v]) else Inl Out_Of_Bounds)"

text \<open>\<open>blit b dst xs\<close> overwrites the cells of \<open>b\<close> from \<open>dst\<close> on with \<open>xs\<close>.\<close>

definition blit :: "'a list \<Rightarrow> nat \<Rightarrow> 'a list \<Rightarrow> 'a list" where
  "blit b dst xs = take dst b @ xs @ drop (dst + length xs) b"

definition slice :: "'a list \<Rightarrow> nat \<Rightarrow> nat \<Rightarrow> 'a list" where
  "slice b off n = take n (drop off b)"

text \<open>\<open>memmove\<close> inside one block, in elements.\<close>

definition mem_move :: "'a block \<Rightarrow> nat \<Rightarrow> nat \<Rightarrow> nat \<Rightarrow> fault + 'a block" where
  "mem_move b dst src n =
     (if n = 0 then Inr b
      else if dst + n \<le> length b \<and> src + n \<le> length b
      then Inr (blit b dst (slice b src n)) else Inl Out_Of_Bounds)"

text \<open>\<open>memcpy\<close> from another block, and inside one block, where an overlap of the
  two regions is undefined behaviour.\<close>

definition mem_copy_in :: "'a block \<Rightarrow> nat \<Rightarrow> 'a block \<Rightarrow> nat \<Rightarrow> nat \<Rightarrow> fault + 'a block" where
  "mem_copy_in b dst c src n =
     (if n = 0 then Inr b
      else if dst + n \<le> length b \<and> src + n \<le> length c
      then Inr (blit b dst (slice c src n)) else Inl Out_Of_Bounds)"

definition mem_copy_within :: "'a block \<Rightarrow> nat \<Rightarrow> nat \<Rightarrow> nat \<Rightarrow> fault + 'a block" where
  "mem_copy_within b dst src n =
     (if n = 0 then Inr b
      else if \<not> (dst + n \<le> length b \<and> src + n \<le> length b) then Inl Out_Of_Bounds
      else if dst < src + n \<and> src < dst + n then Inl Overlap
      else Inr (blit b dst (slice b src n)))"

lemma length_mem_alloc [simp]: "length (mem_alloc n) = n"
  by (simp add: mem_alloc_def)

lemma length_mem_realloc [simp]: "length (mem_realloc b n) = n"
  by (simp add: mem_realloc_def)

lemma take_mem_realloc: "k \<le> length b \<Longrightarrow> k \<le> n \<Longrightarrow> take k (mem_realloc b n) = take k b"
  by (simp add: mem_realloc_def min_def)

lemma length_slice: "off + n \<le> length b \<Longrightarrow> length (slice b off n) = n"
  by (simp add: slice_def)

lemma length_blit: "dst + length xs \<le> length b \<Longrightarrow> length (blit b dst xs) = length b"
  by (simp add: blit_def)

lemma take_blit_before: "k \<le> dst \<Longrightarrow> dst \<le> length b \<Longrightarrow> take k (blit b dst xs) = take k b"
  by (simp add: blit_def min_def)

lemma take_blit_all:
  "dst \<le> length b \<Longrightarrow> take (dst + length xs) (blit b dst xs) = take dst b @ xs"
  by (simp add: blit_def min_def)

lemma take_blit_beyond:
  "dst + length xs \<le> k \<Longrightarrow> k \<le> length b \<Longrightarrow>
   take k (blit b dst xs) = take dst b @ xs @ take (k - (dst + length xs)) (drop (dst + length xs) b)"
  by (simp add: blit_def min.absorb1 min.absorb2)

lemma list_update_blit: "i < length b \<Longrightarrow> b[i := x] = blit b i [x]"
  by (simp add: blit_def upd_conv_take_nth_drop)

text \<open>Opening a gap at \<open>i\<close> in the first \<open>n\<close> cells and filling it with \<open>xs\<close>: the
  \<open>memmove\<close> and the copy of every insertion.\<close>

lemma length_open_gap:
  assumes "i \<le> n" "n + d \<le> length b"
  shows "length (blit b (i + d) (slice b i (n - i))) = length b"
  using assms by (intro length_blit) (simp add: slice_def)

lemma take_open_gap:
  assumes "i \<le> n" "n + length xs \<le> length b"
  shows "take (n + length xs) (blit (blit b (i + length xs) (slice b i (n - i))) i xs) =
     take i (take n b) @ xs @ drop i (take n b)"
proof -
  let ?s = "slice b i (n - i)"
  have s: "length ?s = n - i" "?s = drop i (take n b)"
    using assms by (auto simp: slice_def drop_take)
  let ?m = "take (i + length xs) b @ ?s @ drop (n + length xs) b"
  have m: "blit b (i + length xs) ?s = ?m"
    using assms s(1) by (simp add: blit_def add.commute)
  have "blit ?m i xs = take i b @ xs @ ?s @ drop (n + length xs) b"
    using assms s(1) by (simp add: blit_def min_def add.commute)
  then have "take (n + length xs) (blit ?m i xs) = take i b @ xs @ ?s"
    using assms s(1) by simp
  then show ?thesis
    using assms m s(2) by (simp add: min_def)
qed

lemma mem_write_in [fault_simps]: "i < length b \<Longrightarrow> mem_write b i v = Inr (b[i := Some v])"
  by (simp add: mem_write_def)

lemma mem_write_length: "mem_write b i v = Inr b' \<Longrightarrow> length b' = length b"
  by (auto simp: mem_write_def split: if_splits)

lemma mem_move_in:
  "dst + n \<le> length b \<Longrightarrow> src + n \<le> length b \<Longrightarrow>
   mem_move b dst src n = Inr (blit b dst (slice b src n))"
  by (simp add: mem_move_def blit_def slice_def)

lemma mem_copy_in_in:
  "dst + n \<le> length b \<Longrightarrow> src + n \<le> length c \<Longrightarrow>
   mem_copy_in b dst c src n = Inr (blit b dst (slice c src n))"
  by (simp add: mem_copy_in_def blit_def slice_def)

section \<open>Word arithmetic that does not wrap\<close>

lemma unat_plus_no_wrap [word_bounds]:
  "unat (a :: 'w::len word) + unat b < 2 ^ LENGTH('w) \<Longrightarrow> unat (a + b) = unat a + unat b"
  by (simp add: unat_add_lem)

lemma unat_minus_no_wrap [word_bounds]:
  "b \<le> (a :: 'w::len word) \<Longrightarrow> unat (a - b) = unat a - unat b"
  by (simp add: unat_sub)

lemma unat_u32_lt: "unat (a :: u32) < 4294967296"
  using unsigned_less [of a] by simp

lemma unat_u64_lt: "unat (a :: u64) < 18446744073709551616"
  using unsigned_less [of a] by simp

lemma unat_minus1 [simp]:
  "unat (- 1 :: u64) = 18446744073709551615" "unat (- 1 :: u32) = 4294967295"
  by (simp_all add: unsigned_minus_1_eq_mask mask_eq_exp_minus_1)

lemma unat_ucast_up [word_bounds, simp]:
  "unat (ucast (a :: u32) :: u64) = unat a"
  using unat_u32_lt [of a] by (simp add: unsigned_ucast_eq take_bit_nat_eq_self)

lemma unat_ucast_down: "unat (a :: u64) < 4294967296 \<Longrightarrow> unat (ucast a :: u32) = unat a"
  by (simp add: unsigned_ucast_eq take_bit_nat_eq_self)

end
