(* ===== verification/Dmd_Array.thy ===== *)
theory Dmd_Array
  imports Prelude
begin

text \<open>
  The growable array \<open>Array<TYPE>\<close> of compiler/include/dmd/root/array.h, with its
  small-array optimisation: a 32-bit \<open>length\<close> and \<open>allocated\<close>, and a union of one
  inline element and a pointer to a heap block.  Operations return \<open>Inl\<close> for what
  is undefined behaviour in C++ (an access outside the block that is live, a
  \<open>memcpy\<close> whose regions overlap).

  The contract the rest of the compiler relies on is the locale \<open>vector_spec\<close>: a
  representation invariant, an abstraction to a list of cells, and the list
  operation each method computes; its interpretation is on the code's model.
\<close>

section \<open>State\<close>

definition SMALLARRAYCAP :: u32 where "SMALLARRAYCAP = 1"

datatype 'a storage = Small "'a block" | Ptr "'a block"

record 'a dmd_array =
  len :: u32
  allocated :: u32
  store :: "'a storage"

text \<open>\<open>data\<close> selects the member of the union by \<open>allocated\<close>; the union itself
  remembers which member was written last.\<close>

definition data :: "'a dmd_array \<Rightarrow> fault + 'a block" where
  "data a = (if allocated a \<le> SMALLARRAYCAP
     then (case store a of Small b \<Rightarrow> Inr b | Ptr _ \<Rightarrow> Inl Wrong_Member)
     else (case store a of Ptr b \<Rightarrow> Inr b | Small _ \<Rightarrow> Inl Wrong_Member))"

definition set_data :: "'a dmd_array \<Rightarrow> 'a block \<Rightarrow> 'a dmd_array" where
  "set_data a b = a\<lparr>store := (case store a of Small _ \<Rightarrow> Small b | Ptr _ \<Rightarrow> Ptr b)\<rparr>"

definition Array_new :: "'a dmd_array" where
  "Array_new = \<lparr>len = 0, allocated = SMALLARRAYCAP, store = Small (mem_alloc (unat SMALLARRAYCAP))\<rparr>"

section \<open>Operations\<close>

text \<open>\<open>reserve\<close>.  \<open>allocated - length\<close> is a 32-bit subtraction compared as a
  \<open>size_t\<close>; every store into \<open>allocated\<close> truncates to 32 bits, while the number of
  bytes asked of the allocator is computed from the truncated value.\<close>

definition reserve :: "u64 \<Rightarrow> 'a dmd_array \<Rightarrow> fault + 'a dmd_array" where
  "reserve nentries a =
     (if ucast (allocated a - len a) < nentries then
        (if allocated a = 0 then
           (if nentries \<le> ucast SMALLARRAYCAP then Inr (a\<lparr>allocated := SMALLARRAYCAP\<rparr>)
            else Inr (a\<lparr>allocated := ucast nentries,
                        store := Ptr (mem_alloc (unat (ucast nentries :: u32)))\<rparr>))
         else if allocated a \<le> SMALLARRAYCAP then
           rbind (data a) (\<lambda>small.
           let n = ucast (ucast (len a) + nentries) :: u32 in
           rbind (mem_copy_in (mem_alloc (unat n)) 0 small 0 (unat (len a))) (\<lambda>p.
           Inr (a\<lparr>allocated := n, store := Ptr p\<rparr>)))
         else
           rbind (data a) (\<lambda>p.
           let increment = len a div 2;
               increment = (if ucast increment < nentries then ucast nentries else increment);
               n = len a + increment in
           Inr (a\<lparr>allocated := n, store := Ptr (mem_realloc p (unat n))\<rparr>)))
      else Inr a)"

definition push :: "'a \<Rightarrow> 'a dmd_array \<Rightarrow> fault + 'a dmd_array" where
  "push v a =
     rbind (reserve 1 a) (\<lambda>a.
     rbind (data a) (\<lambda>d.
     rbind (mem_write d (unat (len a)) v) (\<lambda>d.
     Inr ((set_data a d)\<lparr>len := len a + 1\<rparr>))))"

definition remove_at :: "u64 \<Rightarrow> 'a dmd_array \<Rightarrow> fault + 'a dmd_array" where
  "remove_at i a =
     (let n = ucast (len a) - i - 1 in
      rbind (if n \<noteq> 0 then
               rbind (data a) (\<lambda>d.
               rbind (mem_move d (unat i) (unat i + 1) (unat n)) (\<lambda>d.
               Inr (set_data a d)))
             else Inr a) (\<lambda>a.
      Inr (a\<lparr>len := len a - 1\<rparr>)))"

text \<open>The array argument of \<open>insert\<close> and \<open>append\<close>: a null pointer, another array,
  or the array itself, where the source block is the one just grown and moved.\<close>

datatype 'a array_arg = Null_Array | Other "'a dmd_array" | Self

definition arg_len :: "'a dmd_array \<Rightarrow> 'a array_arg \<Rightarrow> u32" where
  "arg_len this x = (case x of Null_Array \<Rightarrow> 0 | Other b \<Rightarrow> len b | Self \<Rightarrow> len this)"

definition insert_array :: "u64 \<Rightarrow> 'a array_arg \<Rightarrow> 'a dmd_array \<Rightarrow> fault + 'a dmd_array" where
  "insert_array index x a =
     (if x = Null_Array then Inr a else
      let d = arg_len a x in
      rbind (reserve (ucast d) a) (\<lambda>a.
      rbind (data a) (\<lambda>t.
      rbind (if ucast (len a) \<noteq> index
             then mem_move t (unat index + unat d) (unat index) (unat (ucast (len a) - index))
             else Inr t) (\<lambda>t.
      rbind (case x of
               Other b \<Rightarrow> rbind (data b) (\<lambda>s. mem_copy_in t (unat index) s 0 (unat d))
             | _ \<Rightarrow> mem_copy_within t (unat index) 0 (unat d)) (\<lambda>t.
      Inr ((set_data a t)\<lparr>len := len a + d\<rparr>))))))"

definition append_array :: "'a array_arg \<Rightarrow> 'a dmd_array \<Rightarrow> fault + 'a dmd_array" where
  "append_array x a = insert_array (ucast (len a)) x a"

definition insert_at :: "u64 \<Rightarrow> 'a \<Rightarrow> 'a dmd_array \<Rightarrow> fault + 'a dmd_array" where
  "insert_at index v a =
     rbind (reserve 1 a) (\<lambda>a.
     rbind (data a) (\<lambda>t.
     rbind (mem_move t (unat index + 1) (unat index) (unat (ucast (len a) - index))) (\<lambda>t.
     rbind (mem_write t (unat index) v) (\<lambda>t.
     Inr ((set_data a t)\<lparr>len := len a + 1\<rparr>)))))"

definition setDim :: "u64 \<Rightarrow> 'a dmd_array \<Rightarrow> fault + 'a dmd_array" where
  "setDim newdim a =
     rbind (if ucast (len a) < newdim then reserve (newdim - ucast (len a)) a else Inr a) (\<lambda>a.
     Inr (a\<lparr>len := ucast newdim\<rparr>))"

definition SIZE_MAX :: u64 where "SIZE_MAX = - 1"

text \<open>The scan of \<open>find\<close> from element \<open>i\<close> on, \<open>k\<close> elements being left.\<close>

primrec find_from :: "'a block \<Rightarrow> 'a \<Rightarrow> nat \<Rightarrow> nat \<Rightarrow> fault + u64" where
  "find_from d v i 0 = Inr SIZE_MAX"
| "find_from d v i (Suc k) =
     rbind (mem_read d i) (\<lambda>x. if x = v then Inr (of_nat i) else find_from d v (Suc i) k)"

definition find_index :: "'a \<Rightarrow> 'a dmd_array \<Rightarrow> fault + u64" where
  "find_index v a = (if len a = 0 then Inr SIZE_MAX
     else rbind (data a) (\<lambda>d. find_from d v 0 (unat (len a))))"

definition contains :: "'a \<Rightarrow> 'a dmd_array \<Rightarrow> fault + bool" where
  "contains v a = rbind (find_index v a) (\<lambda>i. Inr (i \<noteq> SIZE_MAX))"

text \<open>\<open>operator[]\<close>; \<open>debug\<close> says whether the assertion is compiled in.\<close>

definition index_get :: "bool \<Rightarrow> 'a dmd_array \<Rightarrow> u64 \<Rightarrow> fault + 'a" where
  "index_get debug a i =
     rbind (guard Assertion (debug \<longrightarrow> i < ucast (len a))) (\<lambda>_.
     rbind (data a) (\<lambda>d. mem_read d (unat i)))"

definition array_copy :: "'a dmd_array \<Rightarrow> fault + 'a dmd_array" where
  "array_copy a =
     rbind (setDim (ucast (len a)) Array_new) (\<lambda>b.
     rbind (data b) (\<lambda>t.
     rbind (data a) (\<lambda>s.
     rbind (mem_copy_in t 0 s 0 (unat (len a))) (\<lambda>t.
     Inr (set_data b t)))))"

definition shift :: "'a \<Rightarrow> 'a dmd_array \<Rightarrow> fault + 'a dmd_array" where
  "shift v a =
     rbind (reserve 1 a) (\<lambda>a.
     rbind (data a) (\<lambda>t.
     rbind (mem_move t 1 0 (unat (len a))) (\<lambda>t.
     rbind (mem_write t 0 v) (\<lambda>t.
     Inr ((set_data a t)\<lparr>len := len a + 1\<rparr>)))))"

text \<open>\<open>zero\<close> for an element type whose all-zero representation is the value \<open>z\<close>.\<close>

definition zero_fill :: "'a \<Rightarrow> 'a dmd_array \<Rightarrow> fault + 'a dmd_array" where
  "zero_fill z a =
     rbind (data a) (\<lambda>t.
     if unat (len a) \<le> length t
     then Inr (set_data a (blit t 0 (replicate (unat (len a)) (Some z))))
     else Inl Out_Of_Bounds)"

definition pop :: "'a dmd_array \<Rightarrow> fault + ('a \<times> 'a dmd_array)" where
  "pop a =
     (let a = a\<lparr>len := len a - 1\<rparr> in
      rbind (data a) (\<lambda>d. rbind (mem_read d (unat (len a))) (\<lambda>v. Inr (v, a))))"

text \<open>\<open>toChars\<close>, the elements' own \<open>toChars\<close> being the argument \<open>to_chars\<close>: the
  strings are first collected in \<open>buf\<close>, then joined between brackets.\<close>

primrec toChars_buf :: "('a \<Rightarrow> string) \<Rightarrow> 'a block \<Rightarrow> nat \<Rightarrow> nat \<Rightarrow> fault + string list" where
  "toChars_buf to_chars d u 0 = Inr []"
| "toChars_buf to_chars d u (Suc k) =
     rbind (mem_read d u) (\<lambda>x. rbind (toChars_buf to_chars d (Suc u) k) (\<lambda>r. Inr (to_chars x # r)))"

text \<open>The size of the buffer that \<open>toChars\<close> allocates: 2, and one more than each string.\<close>

definition toChars_len :: "string list \<Rightarrow> nat" where
  "toChars_len buf = foldl (\<lambda>n s. n + (length s + 1)) 2 buf"

text \<open>The second loop: \<open>u\<close> tells that this is not the first string, \<open>p\<close> is the
  position in the buffer \<open>str\<close>.\<close>

primrec toChars_write ::
  "string list \<Rightarrow> bool \<Rightarrow> nat \<Rightarrow> char block \<Rightarrow> fault + (nat \<times> char block)" where
  "toChars_write [] u p str = Inr (p, str)"
| "toChars_write (s # ss) u p str =
     rbind (if u then rbind (mem_write str p CHR '','') (\<lambda>str. Inr (p + 1, str)) else Inr (p, str))
       (\<lambda>(p, str).
     rbind (mem_copy_in str p (map Some s) 0 (length s)) (\<lambda>str.
     toChars_write ss True (p + length s) str))"

definition array_toChars :: "('a \<Rightarrow> string) \<Rightarrow> 'a dmd_array \<Rightarrow> fault + char block" where
  "array_toChars to_chars a =
     rbind (if len a = 0 then Inr [] else rbind (data a) (\<lambda>d. toChars_buf to_chars d 0 (unat (len a))))
       (\<lambda>buf.
     rbind (mem_write (mem_alloc (toChars_len buf)) 0 (CHR ''['')) (\<lambda>str.
     rbind (toChars_write buf False 1 str) (\<lambda>(p, str).
     rbind (mem_write str p (CHR '']'')) (\<lambda>str.
     mem_write str (p + 1) (CHR 0x00)))))"

section \<open>Representation invariant and abstraction\<close>

definition block_of :: "'a dmd_array \<Rightarrow> 'a block" where
  "block_of a = (case store a of Small b \<Rightarrow> b | Ptr b \<Rightarrow> b)"

definition array_inv :: "'a dmd_array \<Rightarrow> bool" where
  "array_inv a \<longleftrightarrow> len a \<le> allocated a \<and>
     (case store a of
        Small b \<Rightarrow> allocated a \<le> SMALLARRAYCAP \<and> length b = unat SMALLARRAYCAP
      | Ptr b \<Rightarrow> SMALLARRAYCAP < allocated a \<and> length b = unat (allocated a))"

text \<open>The cells of the elements, in order; \<open>None\<close> for one that was never written
  (after \<open>setDim\<close>).\<close>

definition cells :: "'a dmd_array \<Rightarrow> 'a block" where
  "cells a = take (unat (len a)) (block_of a)"

text \<open>\<open>n\<close> more elements fit without the 32-bit \<open>allocated\<close> wrapping around when the
  block has to grow by half.\<close>

definition room :: "nat \<Rightarrow> 'a dmd_array \<Rightarrow> bool" where
  "room n a \<longleftrightarrow> unat (len a) + max n (unat (len a) div 2) < 4294967296"

named_theorems array_simps \<open>facts on well-formed arrays\<close>

lemma data_inv [array_simps]: "array_inv a \<Longrightarrow> data a = Inr (block_of a)"
  by (auto simp: array_inv_def data_def block_of_def split: storage.splits)

lemma block_length: "array_inv a \<Longrightarrow> unat (allocated a) \<le> length (block_of a)"
  by (auto simp: array_inv_def block_of_def SMALLARRAYCAP_def word_le_nat_alt split: storage.splits)

lemma len_le_block [array_simps]: "array_inv a \<Longrightarrow> unat (len a) \<le> length (block_of a)"
  using block_length [of a] by (auto simp: array_inv_def word_le_nat_alt)

lemma length_cells [array_simps]: "array_inv a \<Longrightarrow> length (cells a) = unat (len a)"
  by (simp add: cells_def len_le_block)

lemma block_of_set_data [simp]: "block_of (set_data a b) = b"
  by (simp add: set_data_def block_of_def split: storage.splits)

lemma set_data_sel [simp]:
  "len (set_data a b) = len a" "allocated (set_data a b) = allocated a"
  by (simp_all add: set_data_def)

lemma block_of_len [simp]: "block_of (a\<lparr>len := n\<rparr>) = block_of a"
  by (simp add: block_of_def)

lemma array_inv_set_data:
  "array_inv a \<Longrightarrow> length b = length (block_of a) \<Longrightarrow> n \<le> allocated a \<Longrightarrow>
   array_inv ((set_data a b)\<lparr>len := n\<rparr>)"
  by (auto simp: array_inv_def set_data_def block_of_def split: storage.splits)

lemma array_inv_set_data0:
  "array_inv a \<Longrightarrow> length b = length (block_of a) \<Longrightarrow> array_inv (set_data a b)"
  by (auto simp: array_inv_def set_data_def block_of_def split: storage.splits)

lemma array_inv_len: "array_inv a \<Longrightarrow> n \<le> allocated a \<Longrightarrow> array_inv (a\<lparr>len := n\<rparr>)"
  by (auto simp: array_inv_def split: storage.splits)

lemma array_inv_new [simp]: "array_inv Array_new"
  by (simp add: array_inv_def Array_new_def SMALLARRAYCAP_def)

lemma len_new [simp]: "len Array_new = 0"
  by (simp add: Array_new_def)

lemma cells_new [simp]: "cells Array_new = []"
  by (simp add: cells_def Array_new_def)

section \<open>Growth\<close>

lemma unat_slack:
  "array_inv a \<Longrightarrow> unat (ucast (allocated a - len a) :: u64) = unat (allocated a) - unat (len a)"
  by (simp add: array_inv_def unat_sub)

lemma slack_less_iff:
  "array_inv a \<Longrightarrow>
   ucast (allocated a - len a) < n \<longleftrightarrow> unat (allocated a) < unat (len a) + unat (n :: u64)"
  by (auto simp: word_less_nat_alt array_inv_def unat_sub word_le_nat_alt)

lemma unat_ucast_sum:
  "unat (l :: u32) + unat (n :: u64) < 4294967296 \<Longrightarrow>
   unat (ucast (ucast l + n) :: u32) = unat l + unat n"
  by (simp add: unat_ucast_down unat_plus_no_wrap)

definition reserve_post :: "u64 \<Rightarrow> 'a dmd_array \<Rightarrow> 'a dmd_array \<Rightarrow> bool" where
  "reserve_post n a a' \<longleftrightarrow> array_inv a' \<and> len a' = len a \<and> cells a' = cells a \<and>
     unat (len a) + unat n \<le> unat (allocated a')"

lemma u32_le_one_cases: "(x :: u32) \<le> 1 \<Longrightarrow> x = 0 \<or> x = 1"
proof -
  assume "x \<le> 1"
  then have "unat x = unat (0 :: u32) \<or> unat x = unat (1 :: u32)"
    by (auto simp: word_le_nat_alt le_Suc_eq)
  then show ?thesis by (simp only: word_unat_eq_iff)
qed

lemma reserve_from_zero:
  assumes "array_inv a" "allocated a = 0" "room (unat n) a" "unat (allocated a) < unat (len a) + unat n"
  shows "\<exists>a'. reserve n a = Inr a' \<and> reserve_post n a a'"
proof -
  from assms(1,2) obtain b where b: "store a = Small b" "length b = 1" "len a = 0"
    by (auto simp: array_inv_def SMALLARRAYCAP_def split: storage.splits)
  from assms(3) b(3) have n: "unat (ucast n :: u32) = unat n" "unat n < 4294967296"
    by (auto simp: room_def unat_ucast_down)
  have one: "n \<le> ucast SMALLARRAYCAP \<longleftrightarrow> unat n \<le> 1"
    by (simp add: SMALLARRAYCAP_def word_le_nat_alt)
  show ?thesis
    using assms b n one
    by (auto simp: reserve_def slack_less_iff reserve_post_def array_inv_def cells_def
        SMALLARRAYCAP_def word_le_nat_alt word_less_nat_alt)
qed

lemma reserve_from_small:
  assumes "array_inv a" "allocated a = 1" "room (unat n) a" "unat (allocated a) < unat (len a) + unat n"
  shows "\<exists>a'. reserve n a = Inr a' \<and> reserve_post n a a'"
proof -
  from assms(1,2) obtain b where b: "store a = Small b" "length b = 1" "unat (len a) \<le> 1"
    by (auto simp: array_inv_def SMALLARRAYCAP_def word_le_nat_alt split: storage.splits)
  from assms(3) have n: "unat (ucast (ucast (len a) + n) :: u32) = unat (len a) + unat n"
    by (intro unat_ucast_sum) (auto simp: room_def)
  have c: "mem_copy_in (mem_alloc (unat (len a) + unat n)) 0 b 0 (unat (len a)) =
      Inr (blit (mem_alloc (unat (len a) + unat n)) 0 (slice b 0 (unat (len a))))"
    using b by (intro mem_copy_in_in) auto
  have "len a \<le> 1" using b by (simp add: word_le_nat_alt)
  moreover have "ucast (1 - len a) < n"
    using slack_less_iff [OF assms(1), of n] assms(2,4) by simp
  moreover have "1 < (ucast (ucast (len a) + n) :: u32)"
    using assms(2,4) n by (simp add: word_less_nat_alt)
  moreover have "len a \<le> (ucast (ucast (len a) + n) :: u32)"
    using n by (simp add: word_le_nat_alt)
  ultimately show ?thesis
    using assms b n c
    by (auto simp: reserve_def slack_less_iff reserve_post_def array_inv_def cells_def data_def
        fault_simps SMALLARRAYCAP_def Let_def block_of_def length_blit length_slice
        blit_def slice_def min_def)
qed

lemma reserve_from_heap:
  assumes "array_inv a" "1 < allocated a" "room (unat n) a" "unat (allocated a) < unat (len a) + unat n"
  shows "\<exists>a'. reserve n a = Inr a' \<and> reserve_post n a a'"
proof -
  from assms(1,2) obtain b where b: "store a = Ptr b" "length b = unat (allocated a)" "len a \<le> allocated a"
    by (auto simp: array_inv_def SMALLARRAYCAP_def word_le_nat_alt word_less_nat_alt split: storage.splits)
  define i :: u32 where "i = (if ucast (len a div 2) < n then ucast n else len a div 2)"
  have h: "unat (len a div 2) = unat (len a) div 2" by (simp add: unat_div)
  have i: "unat i = max (unat n) (unat (len a) div 2)"
  proof -
    have "unat (ucast n :: u32) = unat n" using assms(3) by (intro unat_ucast_down) (auto simp: room_def)
    then show ?thesis using h by (auto simp: i_def word_less_nat_alt)
  qed
  have s: "unat (len a + i) = unat (len a) + unat i"
    using assms(3) i by (intro unat_plus_no_wrap) (simp add: room_def)
  have "1 < len a + i" "len a \<le> len a + i" "allocated a \<noteq> 0" "\<not> allocated a \<le> 1"
    using assms(2,4) s i by (auto simp: word_less_nat_alt word_le_nat_alt)
  moreover have "unat (len a) \<le> length b" using b by (simp add: word_le_nat_alt)
  ultimately show ?thesis
    using assms b s i
    by (simp add: reserve_def slack_less_iff data_def fault_simps SMALLARRAYCAP_def Let_def
        i_def [symmetric] reserve_post_def array_inv_def cells_def block_of_def take_mem_realloc)
qed

lemma reserve_ok:
  assumes "array_inv a" "room (unat n) a"
  shows "\<exists>a'. reserve n a = Inr a' \<and> reserve_post n a a'"
proof (cases "unat (allocated a) < unat (len a) + unat n")
  case True
  consider "allocated a = 0" | "allocated a = 1" | "1 < allocated a"
    using u32_le_one_cases [of "allocated a"] by fastforce
  then show ?thesis
    using reserve_from_zero reserve_from_small reserve_from_heap assms True by cases blast+
next
  case False
  then show ?thesis using assms by (simp add: reserve_def slack_less_iff reserve_post_def)
qed

lemma reserve_obtain:
  assumes "array_inv a" "room (unat n) a"
  obtains a' where "reserve n a = Inr a'" "array_inv a'" "len a' = len a" "cells a' = cells a"
    "unat (len a) + unat n \<le> unat (allocated a')"
    "data a' = Inr (block_of a')" "unat (len a) + unat n \<le> length (block_of a')"
proof -
  obtain a' where r: "reserve n a = Inr a'" "reserve_post n a a'"
    using reserve_ok [OF assms] by blast
  then show ?thesis
    using that [of a'] block_length [of a'] by (simp add: reserve_post_def data_inv)
qed

section \<open>What each operation computes\<close>

text \<open>The tail that \<open>push\<close>, \<open>insert\<close>, \<open>append\<close> and \<open>shift\<close> share: the new block
  is stored and the length grows.\<close>

lemma finish_grow:
  assumes "array_inv a" "length t = length (block_of a)" "unat (len a) + unat d \<le> unat (allocated a)"
  shows "array_inv ((set_data a t)\<lparr>len := len a + d\<rparr>)"
    and "cells ((set_data a t)\<lparr>len := len a + d\<rparr>) = take (unat (len a) + unat d) t"
    and "unat (len a + d) = unat (len a) + unat d"
proof -
  show u: "unat (len a + d) = unat (len a) + unat d"
    using assms(3) unat_u32_lt [of "allocated a"] by (intro unat_plus_no_wrap) simp
  show "array_inv ((set_data a t)\<lparr>len := len a + d\<rparr>)"
    using assms u by (intro array_inv_set_data) (auto simp: word_le_nat_alt)
  show "cells ((set_data a t)\<lparr>len := len a + d\<rparr>) = take (unat (len a) + unat d) t"
    using u by (simp add: cells_def)
qed

lemma finish_grow1:
  assumes "array_inv a" "length t = length (block_of a)" "unat (len a) + 1 \<le> unat (allocated a)"
  shows "array_inv ((set_data a t)\<lparr>len := len a + 1\<rparr>)"
    and "cells ((set_data a t)\<lparr>len := len a + 1\<rparr>) = take (unat (len a) + 1) t"
  using finish_grow [of a t 1] assms by simp_all

lemma push_result:
  assumes "array_inv a" "room 1 a"
  shows "\<exists>b. push v a = Inr b \<and> array_inv b \<and> cells b = cells a @ [Some v]"
proof -
  from assms have "room (unat (1 :: u64)) a" by simp
  from reserve_obtain [OF assms(1) this] obtain c where c:
    "reserve 1 a = Inr c" "array_inv c" "len c = len a" "cells c = cells a"
    "unat (len a) + 1 \<le> unat (allocated c)" "data c = Inr (block_of c)"
    "unat (len a) + 1 \<le> length (block_of c)" by auto
  let ?t = "(block_of c)[unat (len c) := Some v]"
  have "take (unat (len c) + 1) ?t = cells c @ [Some v]"
    using c(3,7) by (simp add: cells_def take_Suc_conv_app_nth)
  then show ?thesis
    using c finish_grow1 [of c ?t] by (simp add: push_def fault_simps)
qed

lemma unat_minus64: "unat i \<le> unat (l :: u32) \<Longrightarrow> unat (ucast l - (i :: u64)) = unat l - unat i"
  by (subst unat_minus_no_wrap) (auto simp: word_le_nat_alt)

text \<open>After \<open>reserve\<close>, the block with a gap of \<open>length xs\<close> cells at \<open>i\<close> filled with \<open>xs\<close>.\<close>

lemma gap_result:
  assumes "array_inv c" "i \<le> unat (len c)" "unat (len c) + length xs \<le> unat (allocated c)"
    "length xs = unat d"
  defines "t \<equiv> blit (blit (block_of c) (i + length xs) (slice (block_of c) i (unat (len c) - i))) i xs"
  shows "array_inv ((set_data c t)\<lparr>len := len c + d\<rparr>) \<and>
     cells ((set_data c t)\<lparr>len := len c + d\<rparr>) = take i (cells c) @ xs @ drop i (cells c)"
proof -
  have b: "unat (len c) + length xs \<le> length (block_of c)"
    using assms(1,3) block_length [of c] by simp
  have l: "length t = length (block_of c)"
    unfolding t_def using assms(2) b
    by (subst length_blit) (simp_all add: length_open_gap)
  show ?thesis
    using finish_grow [of c t d] assms(1,3,4) l take_open_gap [OF assms(2) b]
    by (simp add: t_def cells_def)
qed

lemma gap_move:
  assumes "array_inv c" "i \<le> unat (len c)" "unat (len c) + d \<le> unat (allocated c)"
  shows "mem_move (block_of c) (i + d) i (unat (len c) - i) =
     Inr (blit (block_of c) (i + d) (slice (block_of c) i (unat (len c) - i)))"
    and "length (blit (block_of c) (i + d) (slice (block_of c) i (unat (len c) - i))) = length (block_of c)"
    and "unat (len c) + d \<le> length (block_of c)"
proof -
  show b: "unat (len c) + d \<le> length (block_of c)" using assms(1,3) block_length [of c] by simp
  show "mem_move (block_of c) (i + d) i (unat (len c) - i) =
     Inr (blit (block_of c) (i + d) (slice (block_of c) i (unat (len c) - i)))"
    using assms(2) b by (intro mem_move_in) auto
  show "length (blit (block_of c) (i + d) (slice (block_of c) i (unat (len c) - i))) = length (block_of c)"
    using assms(2) b by (intro length_open_gap) auto
qed

lemma insert_at_result:
  assumes "array_inv a" "room 1 a" "unat i \<le> unat (len a)"
  shows "\<exists>b. insert_at i v a = Inr b \<and> array_inv b \<and>
     cells b = take (unat i) (cells a) @ Some v # drop (unat i) (cells a)"
proof -
  from assms have "room (unat (1 :: u64)) a" by simp
  from reserve_obtain [OF assms(1) this] obtain c where c:
    "reserve 1 a = Inr c" "array_inv c" "len c = len a" "cells c = cells a"
    "unat (len a) + 1 \<le> unat (allocated c)" "data c = Inr (block_of c)" by auto
  have k: "unat (ucast (len c) - i) = unat (len c) - unat i"
    using assms(3) c(3) by (simp add: unat_minus64)
  show ?thesis
    using gap_result [of c "unat i" "[Some v]" 1] gap_move [of c "unat i" 1] assms(3) c k
    by (simp add: insert_at_def fault_simps list_update_blit)
qed

lemma shift_result:
  assumes "array_inv a" "room 1 a"
  shows "\<exists>b. shift v a = Inr b \<and> array_inv b \<and> cells b = Some v # cells a"
proof -
  from assms have "room (unat (1 :: u64)) a" by simp
  from reserve_obtain [OF assms(1) this] obtain c where c:
    "reserve 1 a = Inr c" "array_inv c" "len c = len a" "cells c = cells a"
    "unat (len a) + 1 \<le> unat (allocated c)" "data c = Inr (block_of c)" by auto
  show ?thesis
    using gap_result [of c 0 "[Some v]" 1] gap_move [of c 0 1] c
    by (simp add: shift_def mem_write_def fault_simps list_update_blit del: length_greater_0_conv)
qed

lemma insert_array_result:
  assumes "array_inv a" "array_inv x" "room (unat (len x)) a" "unat i \<le> unat (len a)"
  shows "\<exists>b. insert_array i (Other x) a = Inr b \<and> array_inv b \<and>
     cells b = take (unat i) (cells a) @ cells x @ drop (unat i) (cells a)"
proof -
  from assms have "room (unat (ucast (len x) :: u64)) a" by simp
  from reserve_obtain [OF assms(1) this] obtain c where c:
    "reserve (ucast (len x)) a = Inr c" "array_inv c" "len c = len a" "cells c = cells a"
    "unat (len a) + unat (len x) \<le> unat (allocated c)" "data c = Inr (block_of c)" by auto
  let ?i = "unat i" and ?d = "unat (len x)"
  let ?m = "blit (block_of c) (?i + ?d) (slice (block_of c) ?i (unat (len c) - ?i))"
  note g = gap_move [of c ?i ?d]
  have k: "unat (ucast (len c) - i) = unat (len c) - ?i"
    using assms(4) c(3) by (simp add: unat_minus64)
  have m: "(if ucast (len c) \<noteq> i then mem_move (block_of c) (?i + ?d) ?i (unat (ucast (len c) - i))
      else Inr (block_of c)) = Inr ?m"
    using g c assms(4) k by (auto simp: blit_def slice_def add.commute)
  have "mem_copy_in ?m ?i (block_of x) 0 ?d = Inr (blit ?m ?i (cells x))"
    using g c assms(2,4) by (simp add: mem_copy_in_in len_le_block slice_def cells_def)
  then show ?thesis
    using gap_result [of c ?i "cells x" "len x"] c m assms(2,4)
    by (simp add: insert_array_def arg_len_def fault_simps data_inv length_cells Let_def)
qed

lemma append_self_result:
  assumes "array_inv a" "room (unat (len a)) a"
  shows "\<exists>b. append_array Self a = Inr b \<and> array_inv b \<and> cells b = cells a @ cells a"
proof -
  from assms have "room (unat (ucast (len a) :: u64)) a" by simp
  from reserve_obtain [OF assms(1) this] obtain c where c:
    "reserve (ucast (len a)) a = Inr c" "array_inv c" "len c = len a" "cells c = cells a"
    "unat (len a) + unat (len a) \<le> unat (allocated c)" "data c = Inr (block_of c)" by auto
  let ?n = "unat (len a)"
  have g: "?n + ?n \<le> length (block_of c)"
    using c(2,5) block_length [of c] by simp
  then have "mem_copy_within (block_of c) ?n 0 ?n = Inr (blit (block_of c) ?n (cells c))"
    using c(3) by (auto simp: mem_copy_within_def slice_def cells_def blit_def)
  moreover have "blit (block_of c) ?n (cells c) =
      blit (blit (block_of c) (?n + ?n) (slice (block_of c) ?n (unat (len c) - ?n))) ?n (cells c)"
    using c(3) g by (simp add: blit_def slice_def add.commute)
  ultimately show ?thesis
    using gap_result [of c ?n "cells c" "len a"] c g length_cells [OF assms(1)]
    by (simp add: append_array_def insert_array_def arg_len_def fault_simps length_cells Let_def)
qed

lemma insert_self_overlaps:
  assumes "array_inv a" "room (unat (len a)) a" "unat i < unat (len a)"
  shows "insert_array i Self a = Inl Overlap"
proof -
  from assms have "room (unat (ucast (len a) :: u64)) a" by simp
  from reserve_obtain [OF assms(1) this] obtain c where c:
    "reserve (ucast (len a)) a = Inr c" "array_inv c" "len c = len a" "cells c = cells a"
    "unat (len a) + unat (len a) \<le> unat (allocated c)" "data c = Inr (block_of c)" by auto
  let ?i = "unat i" and ?n = "unat (len a)"
  note g = gap_move [of c ?i ?n]
  have k: "unat (ucast (len a) - i) = ?n - ?i"
    using assms(3) by (simp add: unat_minus64)
  have ne: "ucast (len a) \<noteq> i" using assms(3) by auto
  show ?thesis
    using assms(3) c g k ne
    by (simp add: insert_array_def arg_len_def fault_simps Let_def mem_copy_within_def)
qed

lemma len_minus_1:
  assumes "len a \<noteq> 0" "array_inv a"
  shows "unat (len a - 1) = unat (len a) - 1" and "len a - 1 \<le> allocated a" and "0 < unat (len a)"
proof -
  show p: "0 < unat (len a)" using assms(1) by (simp add: unat_gt_0)
  then have "1 \<le> len a" by (simp add: word_le_nat_alt)
  then show u: "unat (len a - 1) = unat (len a) - 1" by (subst unat_minus_no_wrap) auto
  show "len a - 1 \<le> allocated a"
    using assms(2) u by (auto simp: array_inv_def word_le_nat_alt)
qed

lemma block_length_u32: "array_inv a \<Longrightarrow> length (block_of a) < 4294967296"
  using unat_u32_lt [of "allocated a"]
  by (auto simp: array_inv_def block_of_def SMALLARRAYCAP_def split: storage.splits)

lemma remove_at_result:
  assumes "array_inv a" "unat i < unat (len a)"
  shows "\<exists>b. remove_at i a = Inr b \<and> array_inv b \<and>
     cells b = take (unat i) (cells a) @ drop (unat i + 1) (cells a)"
proof -
  let ?i = "unat i" and ?n = "unat (len a)" and ?b = "block_of a"
  have k: "unat (ucast (len a) - i - 1) = ?n - ?i - 1"
  proof -
    have "unat (ucast (len a) - i) = ?n - ?i" using assms(2) by (simp add: unat_minus64)
    moreover from this assms(2) have "1 \<le> ucast (len a) - i" by (simp add: word_le_nat_alt)
    ultimately show ?thesis by (subst unat_minus_no_wrap) auto
  qed
  have bl: "?n \<le> length ?b" using assms(1) by (rule len_le_block)
  let ?t = "blit ?b ?i (slice ?b (?i + 1) (?n - ?i - 1))"
  have sl: "length (slice ?b (?i + 1) (?n - ?i - 1)) = ?n - ?i - 1"
    using bl assms(2) by (intro length_slice) simp
  have mv: "mem_move ?b ?i (?i + 1) (?n - ?i - 1) = Inr ?t"
    using bl assms(2) by (intro mem_move_in) auto
  have z: "ucast (len a) - i - 1 = 0 \<Longrightarrow> ?t = ?b"
    using k by (simp add: slice_def blit_def)
  have nz: "len a \<noteq> 0" using assms(2) by auto
  note l1 = len_minus_1(1) [OF nz assms(1)] and l2 = len_minus_1(2) [OF nz assms(1)]
  have lt: "length ?t = length ?b" using sl bl assms(2) by (intro length_blit) simp
  have tk: "take (?n - 1) ?t = take ?i (cells a) @ drop (?i + 1) (cells a)"
    using sl bl assms(2)
    by (simp add: blit_def cells_def slice_def drop_take min.absorb1 min.absorb2)
  have e: "remove_at i a = Inr ((if ucast (len a) - i - 1 = 0 then a else set_data a ?t)\<lparr>len := len a - 1\<rparr>)"
    using mv k assms(1) by (simp add: remove_at_def Let_def fault_simps data_inv)
  show ?thesis
  proof (cases "ucast (len a) - i - 1 = 0")
    case True
    then show ?thesis
      using e z tk l1 l2 array_inv_len [OF assms(1) l2] by (simp add: cells_def)
  next
    case False
    then show ?thesis
      using e tk l1 array_inv_set_data [OF assms(1) lt l2] by (simp add: cells_def)
  qed
qed

lemma remove_at_out_of_range:
  assumes "array_inv a" "unat (len a) \<le> unat i" "len a = 0 \<longrightarrow> i \<noteq> SIZE_MAX"
  shows "remove_at i a = Inl Out_Of_Bounds"
proof -
  have "ucast (len a) - i - 1 \<noteq> 0"
  proof
    assume "ucast (len a) - i - 1 = 0"
    then have e: "ucast (len a) = i + 1" by (simp add: algebra_simps)
    show False
    proof (cases "unat i + 1 < 18446744073709551616")
      case True
      then have "unat (i + 1) = unat i + 1" by (subst unat_plus_no_wrap) simp_all
      with e [symmetric] assms(2) show False by simp
    next
      case False
      then have "i = SIZE_MAX"
        using unat_u64_lt [of i] by (simp add: SIZE_MAX_def word_unat_eq_iff)
      with e have "unat (len a) = 0" by (simp add: SIZE_MAX_def flip: unat_ucast_up)
      with \<open>i = SIZE_MAX\<close> assms(3) show False by (simp add: unat_eq_0)
    qed
  qed
  moreover have "\<not> unat i + 1 + unat (ucast (len a) - i - 1) \<le> length (block_of a)"
  proof
    let ?n = "ucast (len a) - i - 1"
    assume "unat i + 1 + unat ?n \<le> length (block_of a)"
    then have lt: "unat i + 1 + unat ?n < 18446744073709551616"
      using block_length_u32 [OF assms(1)] by simp
    then have "unat (i + 1) = unat i + 1" by (intro trans [OF unat_plus_no_wrap]) simp_all
    with lt have "unat (i + 1 + ?n) = unat i + 1 + unat ?n"
      by (subst unat_plus_no_wrap) simp_all
    then show False using assms(2) by simp
  qed
  ultimately show ?thesis
    using assms(1) by (auto simp: remove_at_def Let_def data_inv fault_simps mem_move_def unat_eq_0)
qed

lemma pop_result:
  assumes "array_inv a" "cells a = xs @ [Some v]"
  shows "\<exists>b. pop a = Inr (v, b) \<and> array_inv b \<and> cells b = xs"
proof -
  have l: "unat (len a) = length xs + 1" using assms length_cells [of a] by simp
  then have nz: "len a \<noteq> 0" by auto
  note m = len_minus_1 [OF nz assms(1)]
  have bl: "length xs < length (block_of a)" using len_le_block [OF assms(1)] l by simp
  have c: "take (Suc (length xs)) (block_of a) = xs @ [Some v]"
    using assms(2) l by (simp add: cells_def)
  then have "block_of a ! length xs = Some v" "take (length xs) (block_of a) = xs"
    using bl by (simp_all add: take_Suc_conv_app_nth)
  then show ?thesis
    using m l bl array_inv_len [OF assms(1) m(2)] data_inv [OF array_inv_len [OF assms(1) m(2)]]
    by (simp add: pop_def Let_def fault_simps mem_read_def cells_def)
qed

lemma pop_uninitialised:
  assumes "array_inv a" "cells a = xs @ [None]"
  shows "pop a = Inl Uninitialised"
proof -
  have l: "unat (len a) = length xs + 1" using assms length_cells [of a] by simp
  then have nz: "len a \<noteq> 0" by auto
  note m = len_minus_1 [OF nz assms(1)]
  have bl: "length xs < length (block_of a)" using len_le_block [OF assms(1)] l by simp
  have c: "take (Suc (length xs)) (block_of a) = xs @ [None]"
    using assms(2) l by (simp add: cells_def)
  then have "block_of a ! length xs = None"
    using bl by (simp add: take_Suc_conv_app_nth)
  then show ?thesis
    using m l bl data_inv [OF array_inv_len [OF assms(1) m(2)]]
    by (simp add: pop_def Let_def fault_simps mem_read_def)
qed

lemma data_len [simp]: "data (a\<lparr>len := n\<rparr>) = data a"
  by (simp add: data_def)

lemma pop_empty:
  assumes "array_inv a" "cells a = []"
  shows "pop a = Inl Out_Of_Bounds"
proof -
  have "len a = 0" using assms length_cells [of a] by (simp add: unat_eq_0)
  then show ?thesis
    using block_length_u32 [OF assms(1)] assms(1)
    by (simp add: pop_def Let_def data_inv fault_simps mem_read_def)
qed

lemma setDim_shrink:
  assumes "array_inv a" "unat n \<le> unat (len a)"
  shows "\<exists>b. setDim n a = Inr b \<and> array_inv b \<and> cells b = take (unat n) (cells a)"
proof -
  have u: "unat (ucast n :: u32) = unat n"
    using assms(2) unat_u32_lt [of "len a"] by (intro unat_ucast_down) simp
  have "ucast n \<le> allocated a"
    using assms u by (auto simp: array_inv_def word_le_nat_alt)
  moreover have "\<not> ucast (len a) < n" using assms(2) by (simp add: word_less_nat_alt)
  ultimately show ?thesis
    using assms u array_inv_len [of a "ucast n"]
    by (simp add: setDim_def fault_simps cells_def min.absorb1)
qed

lemma setDim_grow:
  assumes "array_inv a" "unat (len a) < unat n" "room (unat n - unat (len a)) a"
  shows "\<exists>b fresh. setDim n a = Inr b \<and> array_inv b \<and> cells b = cells a @ fresh \<and>
     length (cells b) = unat n"
proof -
  have k: "unat (n - ucast (len a)) = unat n - unat (len a)"
    using assms(2) by (subst unat_minus_no_wrap) (auto simp: word_le_nat_alt)
  from assms k have "room (unat (n - ucast (len a))) a" by simp
  from reserve_obtain [OF assms(1) this] obtain c where c:
    "reserve (n - ucast (len a)) a = Inr c" "array_inv c" "len c = len a" "cells c = cells a"
    "unat n \<le> unat (allocated c)" "data c = Inr (block_of c)"
    using k assms(2) by auto
  have n: "unat n < 4294967296" using c(5) unat_u32_lt [of "allocated c"] by simp
  then have u: "unat (ucast n :: u32) = unat n" by (rule unat_ucast_down)
  have i: "array_inv (c\<lparr>len := ucast n\<rparr>)"
    using c u by (intro array_inv_len) (auto simp: word_le_nat_alt)
  have l: "unat n \<le> length (block_of c)"
    using c block_length [of c] by simp
  have "take (unat n) (block_of c) = cells c @ take (unat n - unat (len a)) (drop (unat (len a)) (block_of c))"
    using assms(2) c(3) by (simp add: cells_def flip: take_add)
  moreover have "ucast (len a) < n" using assms(2) by (simp add: word_less_nat_alt)
  ultimately show ?thesis
    using c u i l by (auto simp: setDim_def fault_simps cells_def min.absorb1)
qed

text \<open>The specification of \<open>find\<close> on the list of elements.\<close>

primrec first_index :: "'a \<Rightarrow> 'a list \<Rightarrow> nat \<Rightarrow> u64" where
  "first_index v [] i = SIZE_MAX"
| "first_index v (x # xs) i = (if x = v then of_nat i else first_index v xs (Suc i))"

lemma find_from_spec:
  "slice d i k = map Some xs \<Longrightarrow> i + k \<le> length d \<Longrightarrow> find_from d v i k = Inr (first_index v xs i)"
proof (induction k arbitrary: i xs)
  case 0
  then show ?case by (simp add: slice_def)
next
  case (Suc k)
  from Suc.prems have "drop i d = d ! i # drop (Suc i) d" by (simp add: Cons_nth_drop_Suc)
  with Suc.prems obtain x ys where x: "xs = x # ys" "d ! i = Some x" "slice d (Suc i) k = map Some ys"
    by (auto simp: slice_def Cons_eq_map_conv)
  with Suc.IH [OF x(3)] Suc.prems show ?case
    by (simp add: mem_read_def fault_simps)
qed

lemma slice_cells: "slice (block_of a) 0 (unat (len a)) = cells a"
  by (simp add: slice_def cells_def)

lemma find_index_result:
  assumes "array_inv a" "cells a = map Some xs"
  shows "find_index v a = Inr (first_index v xs 0)"
proof -
  have "find_from (block_of a) v 0 (unat (len a)) = Inr (first_index v xs 0)"
    using assms len_le_block [OF assms(1)] by (intro find_from_spec) (simp_all add: slice_cells)
  moreover have "len a = 0 \<Longrightarrow> xs = []" using assms length_cells [of a] by simp
  ultimately show ?thesis using assms by (auto simp: find_index_def data_inv fault_simps)
qed

lemma first_index_in:
  "i + length xs < 18446744073709551616 \<Longrightarrow> v \<in> set xs \<Longrightarrow>
   \<exists>k < length xs. first_index v xs i = of_nat (i + k) \<and> xs ! k = v \<and> v \<notin> set (take k xs)"
proof (induction xs arbitrary: i)
  case (Cons x xs)
  show ?case
  proof (cases "x = v")
    case False
    with Cons.IH [of "Suc i"] Cons.prems obtain k where
      "k < length xs" "first_index v xs (Suc i) = of_nat (Suc i + k)" "xs ! k = v" "v \<notin> set (take k xs)"
      by auto
    with False show ?thesis by (intro exI [of _ "Suc k"]) auto
  qed (intro exI [of _ 0], simp)
qed simp

lemma first_index_notin: "v \<notin> set xs \<Longrightarrow> first_index v xs i = SIZE_MAX"
  by (induction xs arbitrary: i) auto

lemma first_index_SIZE_MAX:
  "length xs < 4294967296 \<Longrightarrow> first_index v xs 0 = SIZE_MAX \<longleftrightarrow> v \<notin> set xs"
proof
  assume l: "length xs < 4294967296" and e: "first_index v xs 0 = SIZE_MAX"
  show "v \<notin> set xs"
  proof
    assume "v \<in> set xs"
    with first_index_in [of 0 xs v] l obtain k where k: "k < length xs" "first_index v xs 0 = of_nat k"
      by auto
    with e have "unat (of_nat k :: u64) = unat SIZE_MAX" by simp
    then show False using k l by (simp add: SIZE_MAX_def unsigned_of_nat take_bit_nat_eq_self)
  qed
qed (rule first_index_notin)

lemma contains_result:
  assumes "array_inv a" "cells a = map Some xs"
  shows "contains v a = Inr (v \<in> set xs)"
proof -
  have "length xs < 4294967296"
    using length_cells [OF assms(1)] assms(2) unat_u32_lt [of "len a"] by simp
  then show ?thesis
    using find_index_result [OF assms] first_index_SIZE_MAX [of xs v]
    by (simp add: contains_def fault_simps)
qed

lemma index_get_result:
  assumes "array_inv a" "unat i < unat (len a)"
  shows "index_get debug a i = (case cells a ! unat i of None \<Rightarrow> Inl Uninitialised | Some v \<Rightarrow> Inr v)"
proof -
  have "i < ucast (len a)" using assms(2) by (simp add: word_less_nat_alt)
  then show ?thesis
    using assms len_le_block [OF assms(1)]
    by (simp add: index_get_def data_inv fault_simps mem_read_def cells_def)
qed

lemma zero_fill_result:
  assumes "array_inv a"
  shows "\<exists>b. zero_fill z a = Inr b \<and> array_inv b \<and> cells b = replicate (unat (len a)) (Some z)"
proof -
  let ?t = "blit (block_of a) 0 (replicate (unat (len a)) (Some z))"
  have l: "unat (len a) \<le> length (block_of a)" using assms by (rule len_le_block)
  then have "length ?t = length (block_of a)" by (intro length_blit) simp
  from array_inv_set_data0 [OF assms this] l assms show ?thesis
    by (simp add: zero_fill_def data_inv fault_simps cells_def blit_def)
qed

lemma array_copy_result:
  assumes "array_inv a"
  shows "\<exists>b. array_copy a = Inr b \<and> array_inv b \<and> cells b = cells a"
proof -
  let ?n = "unat (len a)"
  have "room (?n - 0) (Array_new :: 'a dmd_array)"
    using unat_u32_lt [of "len a"] by (simp add: room_def Array_new_def)
  then obtain b :: "'a dmd_array" where
    b: "setDim (ucast (len a)) Array_new = Inr b" "array_inv b" "length (cells b) = ?n"
    using setDim_grow [of "Array_new :: 'a dmd_array" "ucast (len a)"]
      setDim_shrink [of "Array_new :: 'a dmd_array" "ucast (len a)"]
    by (cases "?n = 0") fastforce+
  have lb: "?n \<le> length (block_of b)" "unat (len b) = ?n"
    using len_le_block [OF b(2)] b by (simp_all add: length_cells)
  have la: "?n \<le> length (block_of a)" using assms by (rule len_le_block)
  let ?t = "blit (block_of b) 0 (slice (block_of a) 0 ?n)"
  have m: "mem_copy_in (block_of b) 0 (block_of a) 0 ?n = Inr ?t"
    using lb la by (intro mem_copy_in_in) auto
  have "length ?t = length (block_of b)"
    using lb la by (intro length_blit) (simp add: slice_def)
  from array_inv_set_data0 [OF b(2) this] m b lb la assms show ?thesis
    by (simp add: array_copy_def data_inv fault_simps cells_def blit_def slice_def min_def)
qed

subsection \<open>\<open>toChars\<close>\<close>

primrec joined :: "bool \<Rightarrow> string list \<Rightarrow> string" where
  "joined u [] = []"
| "joined u (s # ss) = (if u then '','' else []) @ s @ joined True ss"

lemma toChars_len_joined: "toChars_len buf = 2 + length (joined True buf)"
proof -
  have "foldl (\<lambda>n s. n + (length s + 1)) n buf = n + length (joined True buf)" for n
    by (induction buf arbitrary: n) simp_all
  then show ?thesis by (simp add: toChars_len_def)
qed

lemma toChars_buf_spec:
  "slice d i k = map Some xs \<Longrightarrow> i + k \<le> length d \<Longrightarrow> toChars_buf f d i k = Inr (map f xs)"
proof (induction k arbitrary: i xs)
  case 0
  then show ?case by (simp add: slice_def)
next
  case (Suc k)
  from Suc.prems have "drop i d = d ! i # drop (Suc i) d" by (simp add: Cons_nth_drop_Suc)
  with Suc.prems obtain x ys where x: "xs = x # ys" "d ! i = Some x" "slice d (Suc i) k = map Some ys"
    by (auto simp: slice_def Cons_eq_map_conv)
  with Suc.IH [OF x(3)] Suc.prems show ?case
    by (simp add: mem_read_def fault_simps)
qed

lemma copy_after:
  "length s \<le> length rest \<Longrightarrow>
   mem_copy_in (map Some out @ rest) (length out) (map Some s) 0 (length s) =
   Inr (map Some (out @ s) @ drop (length s) rest)"
  by (simp add: mem_copy_in_in blit_def slice_def)

lemma write_after:
  "rest \<noteq> [] \<Longrightarrow>
   mem_write (map Some out @ rest) (length out) c = Inr (map Some (out @ [c]) @ drop 1 rest)"
  by (cases rest) (simp_all add: mem_write_def list_update_append)

lemma toChars_write_spec:
  "length (joined u ss) \<le> length rest \<Longrightarrow>
   toChars_write ss u (length out) (map Some out @ rest) =
   Inr (length out + length (joined u ss),
        map Some (out @ joined u ss) @ drop (length (joined u ss)) rest)"
proof (induction ss arbitrary: u out rest)
  case (Cons s ss)
  show ?case
  proof (cases u)
    case True
    with Cons.prems have r: "rest \<noteq> []" "length s \<le> length (drop 1 rest)"
      "length (joined True ss) \<le> length (drop (length s) (drop 1 rest))" by auto
    note w = write_after [OF r(1), of out "CHR '',''"]
    note c = copy_after [OF r(2), of "out @ '',''"]
    note i = Cons.IH [OF r(3), of "out @ '','' @ s"]
    show ?thesis using True w c i by (simp add: fault_simps add.commute add.left_commute)
  next
    case False
    with Cons.prems have r: "length s \<le> length rest"
      "length (joined True ss) \<le> length (drop (length s) rest)" by auto
    show ?thesis
      using False copy_after [OF r(1), of out] Cons.IH [OF r(2), of "out @ s"]
      by (simp add: fault_simps add.commute add.left_commute)
  qed
qed simp

lemma toChars_write_exact:
  "toChars_write ss False 1 (Some c # replicate (length (joined False ss) + k) None) =
   Inr (1 + length (joined False ss), map Some (c # joined False ss) @ replicate k None)"
  using toChars_write_spec [of False ss "replicate (length (joined False ss) + k) None" "[c]"]
  by simp

lemma toChars_close:
  "rbind (mem_write (map Some s @ replicate 2 None) (length s) c) (\<lambda>str. mem_write str (length s + 1) d) =
   Inr (map Some (s @ [c, d]))"
  using write_after [of "replicate 2 None" s c] write_after [of "[None]" "s @ [c]" d]
  by (simp add: fault_simps numeral_eq_Suc)

lemma array_toChars_result:
  assumes "array_inv a" "cells a = map Some xs" "xs \<noteq> []"
  shows "array_toChars f a = Inr (map Some
     (''['' @ joined False (map f xs) @ '']'' @ [CHR 0x00]))"
proof -
  define ss where "ss = map f xs"
  define j where "j = joined False ss"
  have n: "len a \<noteq> 0" using length_cells [OF assms(1)] assms(2,3) by auto
  have b: "toChars_buf f (block_of a) 0 (unat (len a)) = Inr ss"
    unfolding ss_def using assms len_le_block [OF assms(1)]
    by (intro toChars_buf_spec) (simp_all add: slice_cells)
  have l: "toChars_len ss = Suc (length j + 2)"
    using assms(3) by (cases xs) (simp_all add: toChars_len_joined j_def ss_def)
  have a0: "mem_write (mem_alloc (toChars_len ss)) 0 (CHR ''['') =
      Inr (Some (CHR ''['') # replicate (length j + 2) None)"
    unfolding l by (simp add: mem_write_def mem_alloc_def)
  have w: "toChars_write ss False 1 (Some (CHR ''['') # replicate (length j + 2) None) =
      Inr (length (CHR ''['' # j), map Some (CHR ''['' # j) @ replicate 2 None)"
    unfolding j_def by (subst toChars_write_exact) simp
  show ?thesis
    using assms(1) n b a0 w toChars_close [of "CHR ''['' # j" "CHR '']''" "CHR 0x00"]
    by (simp add: array_toChars_def data_inv fault_simps ss_def [symmetric] j_def [symmetric])
qed

text \<open>The two bytes allocated for an empty array do not hold its three: the
  terminating zero is written one past the end of the buffer.\<close>

lemma array_toChars_empty:
  assumes "array_inv a" "cells a = []"
  shows "array_toChars f a = Inl Out_Of_Bounds"
proof -
  have "len a = 0" using assms length_cells [of a] by (simp add: unat_eq_0)
  then show ?thesis
    by (simp add: array_toChars_def fault_simps toChars_len_def mem_alloc_def mem_write_def)
qed

section \<open>The contract of a vector\<close>

text \<open>Running an operation over a list of arguments, and taking \<open>n\<close> elements off the end.\<close>

primrec run_all :: "('x \<Rightarrow> 's \<Rightarrow> 'e + 's) \<Rightarrow> 'x list \<Rightarrow> 's \<Rightarrow> 'e + 's" where
  "run_all f [] s = Inr s"
| "run_all f (x # xs) s = rbind (f x s) (run_all f xs)"

primrec take_off :: "('s \<Rightarrow> 'e + ('x \<times> 's)) \<Rightarrow> nat \<Rightarrow> 's \<Rightarrow> 'e + ('x list \<times> 's)" where
  "take_off f 0 s = Inr ([], s)"
| "take_off f (Suc n) s = rbind (f s) (\<lambda>(x, s). rbind (take_off f n s) (\<lambda>(xs, s). Inr (x # xs, s)))"

text \<open>What a client of the array relies on: \<open>wf\<close> is kept by every operation,
  \<open>elems\<close> is the list the array stands for, and below \<open>limit\<close> elements no
  operation fails.\<close>

locale vector_spec =
  fixes wf :: "'s \<Rightarrow> bool"
    and elems :: "'s \<Rightarrow> 'a option list"
    and limit :: nat
    and add_last :: "'a \<Rightarrow> 's \<Rightarrow> 'e + 's"
    and add_at :: "u64 \<Rightarrow> 'a \<Rightarrow> 's \<Rightarrow> 'e + 's"
    and drop_at :: "u64 \<Rightarrow> 's \<Rightarrow> 'e + 's"
    and take_last :: "'s \<Rightarrow> 'e + ('a \<times> 's)"
  assumes size_bound: "wf s \<Longrightarrow> length (elems s) < 4294967296"
    and add_last: "wf s \<Longrightarrow> length (elems s) < limit \<Longrightarrow>
      \<exists>t. add_last v s = Inr t \<and> wf t \<and> elems t = elems s @ [Some v]"
    and add_at: "wf s \<Longrightarrow> length (elems s) < limit \<Longrightarrow> unat i \<le> length (elems s) \<Longrightarrow>
      \<exists>t. add_at i v s = Inr t \<and> wf t \<and>
        elems t = take (unat i) (elems s) @ Some v # drop (unat i) (elems s)"
    and drop_at: "wf s \<Longrightarrow> unat i < length (elems s) \<Longrightarrow>
      \<exists>t. drop_at i s = Inr t \<and> wf t \<and>
        elems t = take (unat i) (elems s) @ drop (unat i + 1) (elems s)"
    and take_last: "wf s \<Longrightarrow> elems s = xs @ [Some v] \<Longrightarrow>
      \<exists>t. take_last s = Inr (v, t) \<and> wf t \<and> elems t = xs"
begin

lemma add_all:
  "wf s \<Longrightarrow> length (elems s) + length xs \<le> limit \<Longrightarrow>
   \<exists>t. run_all add_last xs s = Inr t \<and> wf t \<and> elems t = elems s @ map Some xs"
proof (induction xs arbitrary: s)
  case (Cons x xs)
  from add_last [OF Cons.prems(1), of x] Cons.prems(2) obtain t where
    t: "add_last x s = Inr t" "wf t" "elems t = elems s @ [Some x]" by auto
  with Cons.IH [OF t(2)] Cons.prems(2) show ?case by auto
qed simp

lemma take_all:
  "wf s \<Longrightarrow> elems s = ys @ map Some xs \<Longrightarrow>
   \<exists>t. take_off take_last (length xs) s = Inr (rev xs, t) \<and> wf t \<and> elems t = ys"
proof (induction xs arbitrary: s rule: rev_induct)
  case (snoc x xs)
  from take_last [OF snoc.prems(1), of "ys @ map Some xs" x] snoc.prems(2) obtain t where
    t: "take_last s = Inr (x, t)" "wf t" "elems t = ys @ map Some xs" by auto
  with snoc.IH [OF t(2,3)] show ?case by auto
qed simp

lemma lifo:
  assumes "wf s" "length (elems s) + length xs \<le> limit"
  shows "\<exists>t u. run_all add_last xs s = Inr t \<and>
     take_off take_last (length xs) t = Inr (rev xs, u) \<and> wf u \<and> elems u = elems s"
  using add_all [OF assms] take_all by blast

lemma add_drop:
  assumes "wf s" "length (elems s) < limit" "unat i \<le> length (elems s)"
  shows "\<exists>t u. add_at i v s = Inr t \<and> drop_at i t = Inr u \<and> wf u \<and> elems u = elems s"
proof -
  from add_at [OF assms] obtain t where
    t: "add_at i v s = Inr t" "wf t"
      "elems t = take (unat i) (elems s) @ Some v # drop (unat i) (elems s)" by blast
  with drop_at [OF t(2), of i] assms(3) show ?thesis by auto
qed

lemma add_at_end:
  assumes "wf s" "length (elems s) < limit" "unat i = length (elems s)"
  shows "\<exists>t u. add_at i v s = Inr t \<and> add_last v s = Inr u \<and> elems t = elems u"
  using add_at [OF assms(1,2), of i v] add_last [OF assms(1,2), of v] assms(3) by auto

end

definition array_limit :: nat where "array_limit = 2863311531"

lemma room_limit:
  "room 1 a \<longleftrightarrow> unat (len a) < array_limit" "room (Suc 0) a \<longleftrightarrow> unat (len a) < array_limit"
  by (auto simp: room_def array_limit_def max_def)

interpretation arr: vector_spec array_inv cells array_limit push insert_at remove_at pop
proof unfold_locales
  fix s :: "'a dmd_array" and v :: 'a and i :: u64 and xs
  assume s: "array_inv s"
  note l = length_cells [OF s]
  show "length (cells s) < 4294967296" using l unat_u32_lt [of "len s"] by simp
  show "length (cells s) < array_limit \<Longrightarrow>
      \<exists>t. push v s = Inr t \<and> array_inv t \<and> cells t = cells s @ [Some v]"
    using push_result [OF s] l by (simp add: room_limit)
  show "length (cells s) < array_limit \<Longrightarrow> unat i \<le> length (cells s) \<Longrightarrow>
      \<exists>t. insert_at i v s = Inr t \<and> array_inv t \<and>
        cells t = take (unat i) (cells s) @ Some v # drop (unat i) (cells s)"
    using insert_at_result [OF s] l by (simp add: room_limit)
  show "unat i < length (cells s) \<Longrightarrow>
      \<exists>t. remove_at i s = Inr t \<and> array_inv t \<and>
        cells t = take (unat i) (cells s) @ drop (unat i + 1) (cells s)"
    using remove_at_result [OF s] l by simp
  show "cells s = xs @ [Some v] \<Longrightarrow> \<exists>t. pop s = Inr (v, t) \<and> array_inv t \<and> cells t = xs"
    using pop_result [OF s] by simp
qed

lemma growth_wrap:
  assumes "array_inv a" "len a = 2863311531" "allocated a = 2863311531"
  shows "\<exists>b. reserve 1 a = Inr b \<and> allocated b = 0 \<and> \<not> array_inv b" "push v a = Inl Wrong_Member"
proof -
  from assms obtain b where b: "store a = Ptr b"
    by (auto simp: array_inv_def SMALLARRAYCAP_def word_le_nat_alt split: storage.splits)
  have h: "(2863311531 :: u32) div 2 = 1431655765" by code_simp
  have r: "reserve 1 a = Inr (a\<lparr>allocated := 0, store := Ptr (mem_realloc b 0)\<rparr>)"
    using assms b h
    by (simp add: reserve_def data_def SMALLARRAYCAP_def fault_simps Let_def word_le_nat_alt)
  then show "\<exists>b. reserve 1 a = Inr b \<and> allocated b = 0 \<and> \<not> array_inv b"
    using assms by (auto simp: array_inv_def)
  show "push v a = Inl Wrong_Member"
    using r by (simp add: push_def fault_simps data_def)
qed

section \<open>Properties\<close>

text \<open>C9: The array is a stack.  From every well-formed array and every sequence of
  values that keeps the length within the limit, pushing the values one after the other
  succeeds and appends them in order, and popping as many values gives them back in
  reverse order and leaves the original contents, the invariant holding throughout.\<close>
theorem array_stack_discipline:
  assumes "array_inv a" and "length (cells a) + length xs \<le> array_limit"
  shows "\<exists>b c. run_all push xs a = Inr b \<and> array_inv b \<and> cells b = cells a @ map Some xs \<and>
     take_off pop (length xs) b = Inr (rev xs, c) \<and> array_inv c \<and> cells c = cells a"
  using arr.add_all [OF assms] arr.take_all by blast

theorem array_stack_discipline_witness:
  "\<exists>b c. run_all push [10, 20, 30 :: nat] Array_new = Inr b \<and> array_inv b \<and>
     cells b = [Some 10, Some 20, Some 30] \<and>
     take_off pop (Suc (Suc (Suc 0))) b = Inr ([30, 20, 10], c) \<and> array_inv c \<and> cells c = []"
  using array_stack_discipline [of Array_new "[10, 20, 30 :: nat]"]
  by (simp add: array_limit_def)

text \<open>C22: Insertion and removal at a position are inverse.  In range, \<open>insert\<close> puts the
  value before the element at the position and moves the others up, and \<open>remove\<close> at the
  same position restores the contents; both keep the invariant.\<close>
theorem array_insert_then_remove:
  assumes "array_inv a" and "length (cells a) < array_limit" and "unat i \<le> length (cells a)"
  shows "\<exists>b c. insert_at i v a = Inr b \<and> array_inv b \<and>
     cells b = take (unat i) (cells a) @ Some v # drop (unat i) (cells a) \<and>
     remove_at i b = Inr c \<and> array_inv c \<and> cells c = cells a"
  using arr.add_at [OF assms, of v] arr.add_drop [OF assms, of v] by auto

theorem array_insert_then_remove_witness:
  "\<exists>b c. insert_at 0 (7 :: nat) Array_new = Inr b \<and> array_inv b \<and> cells b = [Some 7] \<and>
     remove_at 0 b = Inr c \<and> array_inv c \<and> cells c = []"
  using array_insert_then_remove [of Array_new 0 "7 :: nat"] by (simp add: array_limit_def)

text \<open>C23: \<open>insert(index, Array*)\<close> splices the contents of another array in, for every
  index in range and whenever the growth does not overflow; \<open>append(this)\<close> doubles the
  contents, but \<open>insert(index, this)\<close> before the end copies between overlapping regions.\<close>
theorem array_insert_array:
  assumes "array_inv a" and "array_inv x" and "unat i \<le> length (cells a)"
    and "length (cells a) + max (length (cells x)) (length (cells a) div 2) < 4294967296"
    and "2 * length (cells a) < 4294967296"
  shows "(\<exists>b. insert_array i (Other x) a = Inr b \<and> array_inv b \<and>
       cells b = take (unat i) (cells a) @ cells x @ drop (unat i) (cells a)) \<and>
     (\<exists>b. append_array Self a = Inr b \<and> array_inv b \<and> cells b = cells a @ cells a) \<and>
     (unat i < length (cells a) \<longrightarrow> insert_array i Self a = Inl Overlap) \<and>
     insert_array i Null_Array a = Inr a"
proof -
  note l = length_cells [OF assms(1)] length_cells [OF assms(2)]
  have r: "room (unat (len x)) a" "room (unat (len a)) a"
    using assms(4,5) l by (auto simp: room_def)
  show ?thesis
    using insert_array_result [OF assms(1,2) r(1), of i] append_self_result [OF assms(1) r(2)]
      insert_self_overlaps [OF assms(1) r(2), of i] assms(3) l
    by (simp add: insert_array_def)
qed

definition array_of_2 :: "nat dmd_array" where
  "array_of_2 = \<lparr>len = 2, allocated = 2, store = Ptr [Some 5, Some 6]\<rparr>"

lemma array_of_2: "array_inv array_of_2" "cells array_of_2 = [Some 5, Some 6]"
  by (simp_all add: array_of_2_def array_inv_def cells_def block_of_def SMALLARRAYCAP_def)

theorem array_insert_array_witness:
  "(\<exists>b. insert_array 1 (Other array_of_2) array_of_2 = Inr b \<and> array_inv b \<and>
       cells b = [Some 5, Some 5, Some 6, Some 6]) \<and>
   (\<exists>b. append_array Self array_of_2 = Inr b \<and> array_inv b \<and>
       cells b = [Some 5, Some 6, Some 5, Some 6]) \<and>
   insert_array 1 Self array_of_2 = Inl Overlap \<and> insert_array 1 Null_Array array_of_2 = Inr array_of_2"
  using array_insert_array [of array_of_2 array_of_2 1] by (simp add: array_of_2)

text \<open>\<open>find\<close> returns the index of the first occurrence, and \<open>SIZE_MAX\<close> exactly
  when the value does not occur; \<open>contains\<close> decides membership; \<open>operator[]\<close> reads
  the element at every index below the length.\<close>
lemma array_find_contains:
  assumes "array_inv a" and "cells a = map Some xs"
  shows "contains v a = Inr (v \<in> set xs) \<and>
     (v \<notin> set xs \<longrightarrow> find_index v a = Inr SIZE_MAX) \<and>
     (v \<in> set xs \<longrightarrow> (\<exists>k < length xs. find_index v a = Inr (of_nat k) \<and>
        xs ! k = v \<and> v \<notin> set (take k xs))) \<and>
     (unat i < length xs \<longrightarrow> index_get debug a i = Inr (xs ! unat i))"
proof -
  have l: "unat (len a) = length xs" using length_cells [OF assms(1)] assms(2) by simp
  have "length xs < 18446744073709551616" using l unat_u32_lt [of "len a"] by simp
  then show ?thesis
    using find_index_result [OF assms, of v] contains_result [OF assms, of v]
      first_index_in [of 0 xs v] first_index_notin [of v xs 0]
      index_get_result [OF assms(1), of i debug] assms(2) l
    by auto
qed

text \<open>\<open>setDim\<close> sets the length: shrinking keeps the first elements, growing keeps
  all of them and adds cells; \<open>copy\<close> returns an array of the same contents, \<open>zero\<close>
  overwrites every element, and \<open>shift\<close> puts a value in front.\<close>
lemma array_setDim_copy:
  assumes "array_inv a" and "room 1 a" and "room (unat n - unat (len a)) a"
  shows "(\<exists>b. setDim n a = Inr b \<and> array_inv b \<and> length (cells b) = unat n \<and>
       take (min (unat n) (length (cells a))) (cells b) = take (unat n) (cells a)) \<and>
     (\<exists>b. array_copy a = Inr b \<and> array_inv b \<and> cells b = cells a) \<and>
     (\<exists>b. zero_fill z a = Inr b \<and> array_inv b \<and> cells b = replicate (length (cells a)) (Some z)) \<and>
     (\<exists>b. shift v a = Inr b \<and> array_inv b \<and> cells b = Some v # cells a)"
proof -
  have "\<exists>b. setDim n a = Inr b \<and> array_inv b \<and> length (cells b) = unat n \<and>
       take (min (unat n) (length (cells a))) (cells b) = take (unat n) (cells a)"
    using setDim_shrink [OF assms(1), of n] setDim_grow [OF assms(1) _ assms(3)]
      length_cells [OF assms(1)]
    by (cases "unat n \<le> unat (len a)") (fastforce simp: min_def)+
  then show ?thesis
    using array_copy_result [OF assms(1)] zero_fill_result [OF assms(1), of z]
      shift_result [OF assms(1,2), of v] length_cells [OF assms(1)] by simp
qed

text \<open>\<open>toChars\<close> of a non-empty array writes exactly the buffer it allocates with
  the bracketed, comma-separated texts of the elements and the terminating zero; of an
  empty array it writes the terminating zero behind the two bytes it allocated.\<close>
lemma array_toChars_text:
  assumes "array_inv a" and "cells a = map Some xs"
  shows "array_toChars f a =
     (if xs = [] then Inl Out_Of_Bounds
      else Inr (map Some (''['' @ joined False (map f xs) @ '']'' @ [CHR 0x00])))"
  using array_toChars_result [OF assms] array_toChars_empty [OF assms(1)] assms(2) by simp

text \<open>Growth by half overflows the 32-bit \<open>allocated\<close>.  A full array of 2863311531
  elements computes a capacity of zero when it grows, which makes the next access read
  the inline element where the pointer is stored.\<close>
lemma array_growth_wraps:
  assumes "array_inv a" and "len a = 2863311531" and "allocated a = 2863311531"
  shows "(\<exists>b. reserve 1 a = Inr b \<and> allocated b = 0 \<and> \<not> array_inv b) \<and> push v a = Inl Wrong_Member"
  using growth_wrap [OF assms] by blast

end
