(* ===== verification/Type_Mods.thy ===== *)
theory Type_Mods
  imports Prelude
begin

text \<open>
  Type qualifiers: the \<open>MODFlags\<close> bits and the qualifier predicates of \<open>class Type\<close>
  (compiler/include/dmd/mtype.h), the conversion and merge functions on them
  (compiler/src/dmd/mtype.d), and the functions of compiler/src/dmd/typesem.d that
  compute the qualified variant of a type, at the level of its \<open>mod\<close> field.

  A qualified variant is found in the cache \<open>mcache\<close> or made by \<open>makeConst\<close> and its
  siblings; in both cases the code asserts the \<open>mod\<close> of the result, and that \<open>mod\<close> is
  what the functions here return.
\<close>

type_synonym MOD = u8

unbundle bit_operations_syntax

section \<open>The bits\<close>

definition MODnone :: MOD where "MODnone = 0"
definition MODconst :: MOD where "MODconst = 1"
definition MODimmutable :: MOD where "MODimmutable = 4"
definition MODshared :: MOD where "MODshared = 2"
definition MODwild :: MOD where "MODwild = 8"
definition MODwildconst :: MOD where "MODwildconst = (MODwild OR MODconst)"
definition MODmutable :: MOD where "MODmutable = 0x10"

lemmas MOD_defs = MODnone_def MODconst_def MODimmutable_def MODshared_def MODwild_def
  MODwildconst_def MODmutable_def

text \<open>The nine values the \<open>mod\<close> field of a type takes: the cases of \<open>MODtoString\<close>.\<close>

definition type_mods :: "MOD list" where
  "type_mods = [0, MODimmutable, MODshared, MODshared OR MODconst, MODconst,
     MODshared OR MODwild, MODwild, MODshared OR MODwildconst, MODwildconst]"

section \<open>The predicates of class Type\<close>

definition isConst :: "MOD \<Rightarrow> bool" where "isConst m = (m AND MODconst \<noteq> 0)"
definition isImmutable :: "MOD \<Rightarrow> bool" where "isImmutable m = (m AND MODimmutable \<noteq> 0)"
definition isMutable :: "MOD \<Rightarrow> bool" where
  "isMutable m = (m AND (MODconst OR MODimmutable OR MODwild) = 0)"
definition isShared :: "MOD \<Rightarrow> bool" where "isShared m = (m AND MODshared \<noteq> 0)"
definition isSharedConst :: "MOD \<Rightarrow> bool" where
  "isSharedConst m = (m AND (MODshared OR MODconst) = (MODshared OR MODconst))"
definition isWild :: "MOD \<Rightarrow> bool" where "isWild m = (m AND MODwild \<noteq> 0)"
definition isWildConst :: "MOD \<Rightarrow> bool" where "isWildConst m = (m AND MODwildconst = MODwildconst)"
definition isSharedWild :: "MOD \<Rightarrow> bool" where
  "isSharedWild m = (m AND (MODshared OR MODwild) = (MODshared OR MODwild))"
definition isNaked :: "MOD \<Rightarrow> bool" where "isNaked m = (m = 0)"

lemmas type_pred_defs = isConst_def isImmutable_def isMutable_def isShared_def isSharedConst_def
  isWild_def isWildConst_def isSharedWild_def isNaked_def

section \<open>Conversion and merging\<close>

datatype MATCH = MATCH_nomatch | MATCH_convert | MATCH_constant | MATCH_exact

text \<open>The switches of the code are on the pair \<open>X(from, to)\<close>.\<close>

definition MODimplicitConv :: "MOD \<Rightarrow> MOD \<Rightarrow> bool" where
  "MODimplicitConv modfrom modto =
     (if modfrom = modto then True else
      let x = (modfrom AND NOT MODshared, modto AND NOT MODshared) in
      if x = (0, MODconst) \<or> x = (MODwild, MODconst) \<or> x = (MODwild, MODwildconst) \<or>
         x = (MODwildconst, MODconst)
      then modfrom AND MODshared = modto AND MODshared
      else x = (MODimmutable, MODconst) \<or> x = (MODimmutable, MODwildconst))"

definition MODmethodConv :: "MOD \<Rightarrow> MOD \<Rightarrow> MATCH" where
  "MODmethodConv modfrom modto =
     (if modfrom = modto then MATCH_exact
      else if MODimplicitConv modfrom modto then MATCH_constant
      else if (modfrom, modto) \<in> set [(0, MODwild), (MODimmutable, MODwild), (MODconst, MODwild),
          (MODwildconst, MODwild), (MODshared, MODshared OR MODwild),
          (MODshared OR MODimmutable, MODshared OR MODwild),
          (MODshared OR MODconst, MODshared OR MODwild),
          (MODshared OR MODwildconst, MODshared OR MODwild)]
      then MATCH_constant else MATCH_nomatch)"

definition MODmerge :: "MOD \<Rightarrow> MOD \<Rightarrow> fault + MOD" where
  "MODmerge mod1 mod2 =
     (if mod1 = mod2 then Inr mod1 else
      let sh = (mod1 OR mod2) AND MODshared \<noteq> 0;
          result = (if sh then MODshared else 0);
          mod1 = (if sh then mod1 AND NOT MODshared else mod1);
          mod2 = (if sh then mod2 AND NOT MODshared else mod2) in
      if mod1 = 0 \<or> mod1 = MODmutable \<or> mod1 = MODconst \<or>
         mod2 = 0 \<or> mod2 = MODmutable \<or> mod2 = MODconst
      then Inr (result OR MODconst)
      else rbind (guard Assertion (mod1 AND MODwild \<noteq> 0 \<or> mod2 AND MODwild \<noteq> 0))
             (\<lambda>_. Inr (result OR MODwildconst)))"

definition MODtoString :: "MOD \<Rightarrow> string option" where
  "MODtoString m =
     (if m = 0 then Some ''''
      else if m = MODimmutable then Some ''immutable''
      else if m = MODshared then Some ''shared''
      else if m = (MODshared OR MODconst) then Some ''shared const''
      else if m = MODconst then Some ''const''
      else if m = (MODshared OR MODwild) then Some ''shared inout''
      else if m = MODwild then Some ''inout''
      else if m = (MODshared OR MODwildconst) then Some ''shared inout const''
      else if m = MODwildconst then Some ''inout const''
      else None)"

section \<open>Qualified variants of a type\<close>

definition constOf :: "MOD \<Rightarrow> MOD" where "constOf m = MODconst"
definition immutableOf :: "MOD \<Rightarrow> MOD" where "immutableOf m = (if isImmutable m then m else MODimmutable)"
definition sharedOf :: "MOD \<Rightarrow> MOD" where "sharedOf m = MODshared"
definition sharedConstOf :: "MOD \<Rightarrow> MOD" where "sharedConstOf m = (MODshared OR MODconst)"
definition wildOf :: "MOD \<Rightarrow> MOD" where "wildOf m = MODwild"
definition wildConstOf :: "MOD \<Rightarrow> MOD" where "wildConstOf m = MODwildconst"
definition sharedWildOf :: "MOD \<Rightarrow> MOD" where "sharedWildOf m = (MODshared OR MODwild)"
definition sharedWildConstOf :: "MOD \<Rightarrow> MOD" where "sharedWildConstOf m = (MODshared OR MODwildconst)"

text \<open>\<open>mutableOf\<close> picks the cached naked or shared variant, or makes it.\<close>

definition mutableOf :: "MOD \<Rightarrow> MOD" where
  "mutableOf m =
     (if isImmutable m then 0
      else if isConst m then (if isShared m then MODshared else 0)
      else if isWild m then (if isShared m then MODshared else 0)
      else m)"

definition unSharedOf :: "MOD \<Rightarrow> MOD" where
  "unSharedOf m =
     (if isShared m then
        (if isWild m then (if isConst m then MODwildconst else MODwild)
         else (if isConst m then MODconst else 0))
      else m)"

definition castMod :: "MOD \<Rightarrow> MOD \<Rightarrow> fault + MOD" where
  "castMod t m =
     (if m = 0 then Inr (mutableOf (unSharedOf t))
      else if m = MODconst then Inr (constOf (unSharedOf t))
      else if m = MODwild then Inr (wildOf (unSharedOf t))
      else if m = MODwildconst then Inr (wildConstOf (unSharedOf t))
      else if m = MODshared then Inr (sharedOf (mutableOf t))
      else if m = (MODshared OR MODconst) then Inr (sharedConstOf t)
      else if m = (MODshared OR MODwild) then Inr (sharedWildOf t)
      else if m = (MODshared OR MODwildconst) then Inr (sharedWildConstOf t)
      else if m = MODimmutable then Inr (immutableOf t)
      else Inl Assertion)"

definition addMod :: "MOD \<Rightarrow> MOD \<Rightarrow> fault + MOD" where
  "addMod t m =
     (if isImmutable t then Inr t
      else if m = 0 then Inr t
      else if m = MODconst then Inr
        (if isShared t then (if isWild t then sharedWildConstOf t else sharedConstOf t)
         else (if isWild t then wildConstOf t else constOf t))
      else if m = MODwild then Inr
        (if isShared t then (if isConst t then sharedWildConstOf t else sharedWildOf t)
         else (if isConst t then wildConstOf t else wildOf t))
      else if m = MODwildconst then Inr (if isShared t then sharedWildConstOf t else wildConstOf t)
      else if m = MODshared then Inr
        (if isWild t then (if isConst t then sharedWildConstOf t else sharedWildOf t)
         else (if isConst t then sharedConstOf t else sharedOf t))
      else if m = (MODshared OR MODconst) then Inr
        (if isWild t then sharedWildConstOf t else sharedConstOf t)
      else if m = (MODshared OR MODwild) then Inr
        (if isConst t then sharedWildConstOf t else sharedWildOf t)
      else if m = (MODshared OR MODwildconst) then Inr (sharedWildConstOf t)
      else if m = MODimmutable then Inr (immutableOf t)
      else Inl Assertion)"

text \<open>\<open>inout\<close> resolution: what the argument qualifier \<open>this\<close> makes of the wild of the
  parameter qualifier \<open>t\<close>, and the substitution of the result at the top level of a type.\<close>

definition typeDeduceWild :: "MOD \<Rightarrow> MOD \<Rightarrow> fault + MOD" where
  "typeDeduceWild this t =
     (if isWild t then
        (if isImmutable this then Inr MODimmutable
         else if isWildConst this then Inr (if isWildConst t then MODwild else MODwildconst)
         else if isWild this then Inr MODwild
         else if isConst this then Inr MODconst
         else if isMutable this then Inr MODmutable
         else Inl Assertion)
      else Inr 0)"

definition substWildTo :: "MOD \<Rightarrow> MOD \<Rightarrow> fault + MOD" where
  "substWildTo type m =
     (let t = (if isWild type then
          (if m = MODimmutable then immutableOf type
           else if m = MODwildconst then wildConstOf type
           else if m = MODwild then (if isWildConst type then wildConstOf type else wildOf type)
           else if m = MODconst then constOf type
           else (if isWildConst type then constOf type else mutableOf type))
        else type) in
      rbind (if isConst type then addMod t MODconst else Inr t) (\<lambda>t.
      if isShared type then addMod t MODshared else Inr t))"

lemmas variant_defs = constOf_def immutableOf_def sharedOf_def sharedConstOf_def wildOf_def
  wildConstOf_def sharedWildOf_def sharedWildConstOf_def mutableOf_def unSharedOf_def

section \<open>Enumeration of the qualifiers\<close>

text \<open>The order of the qualifiers that implicit conversion defines, and the contract
  that merging satisfies on it.\<close>

definition mod_of :: "fault + MOD \<Rightarrow> MOD" where
  "mod_of r = (case r of Inr m \<Rightarrow> m | Inl _ \<Rightarrow> 0xFF)"

definition ok_mod :: "fault + MOD \<Rightarrow> bool" where
  "ok_mod r = (case r of Inr m \<Rightarrow> m \<in> set type_mods | Inl _ \<Rightarrow> False)"

lemma conv_refl: "MODimplicitConv a a"
  by (simp add: MODimplicitConv_def)

lemma conv_trans_all:
  "\<forall>a \<in> set type_mods. \<forall>b \<in> set type_mods. \<forall>c \<in> set type_mods.
     MODimplicitConv a b \<and> MODimplicitConv b c \<longrightarrow> MODimplicitConv a c"
  by code_simp

lemma conv_antisym_all:
  "\<forall>a \<in> set type_mods. \<forall>b \<in> set type_mods.
     MODimplicitConv a b \<and> MODimplicitConv b a \<longrightarrow> a = b"
  by code_simp

lemma merge_ok_all:
  "\<forall>a \<in> set type_mods. \<forall>b \<in> set type_mods.
     ok_mod (MODmerge a b) \<and> MODmerge a b = MODmerge b a"
  by code_simp

lemma merge_upper_all:
  "\<forall>a \<in> set type_mods. \<forall>b \<in> set type_mods. \<forall>c \<in> set type_mods.
     MODimplicitConv a c \<and> MODimplicitConv b c \<longrightarrow>
     MODimplicitConv a (mod_of (MODmerge a b)) \<and> MODimplicitConv (mod_of (MODmerge a b)) c"
  by code_simp

text \<open>A preorder with joins of the pairs that have an upper bound.\<close>

locale partial_join =
  fixes carrier :: "'m set" and le :: "'m \<Rightarrow> 'm \<Rightarrow> bool" and join :: "'m \<Rightarrow> 'm \<Rightarrow> 'm"
  assumes le_refl: "a \<in> carrier \<Longrightarrow> le a a"
    and le_trans: "a \<in> carrier \<Longrightarrow> b \<in> carrier \<Longrightarrow> c \<in> carrier \<Longrightarrow> le a b \<Longrightarrow> le b c \<Longrightarrow> le a c"
    and le_antisym: "a \<in> carrier \<Longrightarrow> b \<in> carrier \<Longrightarrow> le a b \<Longrightarrow> le b a \<Longrightarrow> a = b"
    and join_closed: "a \<in> carrier \<Longrightarrow> b \<in> carrier \<Longrightarrow> join a b \<in> carrier"
    and join_commute: "a \<in> carrier \<Longrightarrow> b \<in> carrier \<Longrightarrow> join a b = join b a"
    and join_upper: "a \<in> carrier \<Longrightarrow> b \<in> carrier \<Longrightarrow> c \<in> carrier \<Longrightarrow> le a c \<Longrightarrow> le b c \<Longrightarrow> le a (join a b)"
    and join_least: "a \<in> carrier \<Longrightarrow> b \<in> carrier \<Longrightarrow> c \<in> carrier \<Longrightarrow> le a c \<Longrightarrow> le b c \<Longrightarrow> le (join a b) c"
begin

lemma join_idem: "a \<in> carrier \<Longrightarrow> join a a = a"
  using join_upper [of a a a] join_least [of a a a] le_refl join_closed le_antisym by blast

lemma join_absorbs: "a \<in> carrier \<Longrightarrow> b \<in> carrier \<Longrightarrow> le a b \<Longrightarrow> join a b = b"
  using join_upper [of b a b] join_least [of a b b] le_refl [of b] join_closed le_antisym join_commute
  by metis

end

interpretation mods: partial_join "set type_mods" MODimplicitConv "\<lambda>a b. mod_of (MODmerge a b)"
proof
  fix a b c
  show "MODimplicitConv a a" by (rule conv_refl)
  assume ab: "a \<in> set type_mods" "b \<in> set type_mods"
  have m: "ok_mod (MODmerge a b)" "MODmerge a b = MODmerge b a"
    using merge_ok_all ab by blast+
  show "MODimplicitConv a b \<Longrightarrow> MODimplicitConv b a \<Longrightarrow> a = b"
    using conv_antisym_all ab by blast
  show "mod_of (MODmerge a b) \<in> set type_mods"
    using m(1) by (auto simp: ok_mod_def mod_of_def split: sum.splits)
  show "mod_of (MODmerge a b) = mod_of (MODmerge b a)" using m(2) by simp
  assume c: "c \<in> set type_mods"
  show "MODimplicitConv a b \<Longrightarrow> MODimplicitConv b c \<Longrightarrow> MODimplicitConv a c"
    using conv_trans_all ab c by blast
  show "MODimplicitConv a c \<Longrightarrow> MODimplicitConv b c \<Longrightarrow> MODimplicitConv a (mod_of (MODmerge a b))"
    "MODimplicitConv a c \<Longrightarrow> MODimplicitConv b c \<Longrightarrow> MODimplicitConv (mod_of (MODmerge a b)) c"
    using merge_upper_all ab c by blast+
qed

section \<open>Properties\<close>

text \<open>C10: Implicit conversion is a partial order on the nine qualifiers, and \<open>MODmerge\<close>
  never fails its assertion, is commutative, stays within the nine qualifiers, and is the
  least upper bound of two qualifiers whenever they have an upper bound at all.\<close>
theorem MODmerge_least_upper_bound:
  assumes "a \<in> set type_mods" and "b \<in> set type_mods" and "c \<in> set type_mods"
  shows "\<exists>m. MODmerge a b = Inr m \<and> m \<in> set type_mods \<and> MODmerge b a = Inr m \<and>
     (MODimplicitConv a c \<and> MODimplicitConv b c \<longrightarrow>
        MODimplicitConv a m \<and> MODimplicitConv b m \<and> MODimplicitConv m c) \<and>
     (MODimplicitConv a b \<and> MODimplicitConv b c \<longrightarrow> MODimplicitConv a c) \<and>
     (MODimplicitConv a b \<and> MODimplicitConv b a \<longrightarrow> a = b) \<and>
     (MODimplicitConv a b \<longrightarrow> m = b)"
proof -
  from merge_ok_all assms have "ok_mod (MODmerge a b)" "MODmerge a b = MODmerge b a" by blast+
  then obtain m where m: "MODmerge a b = Inr m" "m \<in> set type_mods" "MODmerge b a = Inr m"
    by (auto simp: ok_mod_def split: sum.splits)
  then have j: "mod_of (MODmerge a b) = m" "mod_of (MODmerge b a) = m" by (simp_all add: mod_of_def)
  show ?thesis
    using mods.join_upper [OF assms] mods.join_upper [OF assms(2,1,3)] mods.join_least [OF assms]
      mods.le_trans [OF assms] mods.le_antisym [OF assms(1,2)]
      mods.join_absorbs [OF assms(1,2)] m j by metis
qed

theorem MODmerge_least_upper_bound_witness:
  "\<exists>m. MODmerge MODimmutable MODwild = Inr m \<and> m \<in> set type_mods \<and>
     MODmerge MODwild MODimmutable = Inr m \<and> MODimplicitConv MODimmutable m \<and>
     MODimplicitConv MODwild m \<and> MODimplicitConv m MODconst"
proof -
  have "MODimmutable \<in> set type_mods" "MODwild \<in> set type_mods" "MODconst \<in> set type_mods"
    "MODimplicitConv MODimmutable MODconst" "MODimplicitConv MODwild MODconst" by code_simp+
  with MODmerge_least_upper_bound [of MODimmutable MODwild MODconst] show ?thesis by blast
qed

text \<open>\<open>castMod\<close> gives a type exactly the qualifier asked for, and \<open>addMod\<close> is the
  union of the qualifier bits, except that a type that is \<open>immutable\<close>, or becomes it,
  has no other bit; neither fails its assertion on a valid qualifier.\<close>
lemma castMod_addMod_result:
  assumes "t \<in> set type_mods" and "m \<in> set type_mods"
  shows "castMod t m = Inr m \<and>
     addMod t m = Inr (if isImmutable t \<or> isImmutable m then MODimmutable else t OR m) \<and>
     (t OR m \<in> set type_mods \<or> isImmutable t \<or> isImmutable m)"
proof -
  have "\<forall>t \<in> set type_mods. \<forall>m \<in> set type_mods. castMod t m = Inr m \<and>
     addMod t m = Inr (if isImmutable t \<or> isImmutable m then MODimmutable else t OR m) \<and>
     (t OR m \<in> set type_mods \<or> isImmutable t \<or> isImmutable m)" by code_simp
  with assms show ?thesis by blast
qed

text \<open>C21: When deduction of \<open>inout\<close> is sound.  For a parameter whose qualifier \<open>t\<close> has
  \<open>inout\<close>, some qualifier is deduced and substituted for any argument, no \<open>inout\<close> appears that
  the argument had not, and the argument converts to the resulting parameter exactly if it is
  \<open>immutable\<close> or as shared as the parameter: a mutable argument for a \<open>shared inout\<close> parameter, say,
  does not convert to what is deduced, and is left to the conversion check that follows.\<close>
theorem inout_deduction_sound:
  assumes "this \<in> set type_mods" and "t \<in> set type_mods" and "isWild t"
  shows "\<exists>wm r. typeDeduceWild this t = Inr wm \<and> substWildTo t wm = Inr r \<and> r \<in> set type_mods \<and>
     (MODimplicitConv this r \<longleftrightarrow> isImmutable this \<or> isShared this = isShared t) \<and> (isWild r \<longrightarrow> isWild this)"
proof -
  have "\<forall>this \<in> set type_mods. \<forall>t \<in> set type_mods. isWild t \<longrightarrow>
     (let r = rbind (typeDeduceWild this t) (substWildTo t) in ok_mod r \<and>
      (MODimplicitConv this (mod_of r) \<longleftrightarrow> isImmutable this \<or> isShared this = isShared t) \<and>
      (isWild (mod_of r) \<longrightarrow> isWild this))" by code_simp
  with assms have "let r = rbind (typeDeduceWild this t) (substWildTo t) in ok_mod r \<and>
      (MODimplicitConv this (mod_of r) \<longleftrightarrow> isImmutable this \<or> isShared this = isShared t) \<and>
      (isWild (mod_of r) \<longrightarrow> isWild this)" by blast
  then show ?thesis
    by (cases "typeDeduceWild this t"; cases "substWildTo t (projr (typeDeduceWild this t))")
      (auto simp: Let_def ok_mod_def mod_of_def)
qed

theorem inout_deduction_sound_witness:
  "\<exists>wm r. typeDeduceWild MODconst MODwild = Inr wm \<and> substWildTo MODwild wm = Inr r \<and>
     r \<in> set type_mods \<and> MODimplicitConv MODconst r \<and> (isWild r \<longrightarrow> isWild MODconst)"
proof -
  have "MODconst \<in> set type_mods" "MODwild \<in> set type_mods" "isWild MODwild"
    "isShared MODconst \<longleftrightarrow> isShared MODwild" by code_simp+
  with inout_deduction_sound [OF this(1-3)] show ?thesis by blast
qed

end
