(* ===== verification/Ctor_Flow.thy ===== *)
theory Ctor_Flow
  imports Prelude
begin

text \<open>
  The flow analysis of constructors: the \<open>CSX\<close> bits (compiler/include/dmd/scope.h), the
  merge of the states of two paths (compiler/src/dmd/ctorflow.d) and the places where
  the semantic passes change the state: constructor calls (expressionsem.d),
  \<open>return\<close>, \<open>if\<close> and blocks (statementsem.d, dscope.d) and the end of the
  constructor, where an implicit \<open>super()\<close> may be inserted (semantic3.d).

  The statement language keeps what the analysis looks at.  Its executions are given by
  an inductive relation that counts the constructor calls; the analysis is sound for it
  as long as halting paths do not make the analysis forget earlier events, and the last
  section shows that they can.
\<close>

unbundle bit_operations_syntax

section \<open>The state\<close>

type_synonym CSX = u16

definition CSX_none :: CSX where "CSX_none = 0"
definition CSX_this_ctor :: CSX where "CSX_this_ctor = 1"
definition CSX_super_ctor :: CSX where "CSX_super_ctor = 2"
definition CSX_label :: CSX where "CSX_label = 4"
definition CSX_return :: CSX where "CSX_return = 8"
definition CSX_any_ctor :: CSX where "CSX_any_ctor = 0x10"
definition CSX_halt :: CSX where "CSX_halt = 0x20"

lemmas CSX_defs = CSX_none_def CSX_this_ctor_def CSX_super_ctor_def CSX_label_def
  CSX_return_def CSX_any_ctor_def CSX_halt_def

definition has_all :: "CSX \<Rightarrow> bool" where "has_all c = (c AND (CSX_this_ctor OR CSX_super_ctor) \<noteq> 0)"
definition has_any :: "CSX \<Rightarrow> bool" where "has_any c = (c AND CSX_any_ctor \<noteq> 0)"
definition has_return :: "CSX \<Rightarrow> bool" where "has_return c = (c AND CSX_return \<noteq> 0)"
definition has_halt :: "CSX \<Rightarrow> bool" where "has_halt c = (c AND CSX_halt \<noteq> 0)"
definition has_label :: "CSX \<Rightarrow> bool" where "has_label c = (c AND CSX_label \<noteq> 0)"

text \<open>\<open>mergeCallSuper\<close>: the merged state, and whether no path skips construction.\<close>

definition mergeCallSuper :: "CSX \<Rightarrow> CSX \<Rightarrow> CSX \<times> bool" where
  "mergeCallSuper a b =
     (if b = a then (a, True) else
      let aAll = has_all a; bAll = has_all b; aAny = has_any a; bAny = has_any b;
          aRet = has_return a; bRet = has_return b; aHalt = has_halt a; bHalt = has_halt b in
      if aHalt \<and> bHalt then (CSX_halt, True)
      else if (\<not> bHalt \<and> bRet \<and> \<not> bAny \<and> aAny) \<or> (\<not> aHalt \<and> aRet \<and> \<not> aAny \<and> bAny) then (a, False)
      else if bHalt \<or> bRet \<and> bAll then (a OR (b AND (CSX_any_ctor OR CSX_label)), True)
      else if aHalt \<or> aRet \<and> aAll then (b OR (a AND (CSX_any_ctor OR CSX_label)), True)
      else if aAll \<noteq> bAll then (a, False)
      else ((if bRet \<and> \<not> bAny then a OR CSX_return else a) OR (b AND (CSX_any_ctor OR CSX_label)), True))"

section \<open>Constructor bodies and their analysis\<close>

text \<open>\<open>Logical s\<close> is the right operand of \<open>&&\<close> or \<open>||\<close>, \<open>If\<close> has both branches (a missing
  \<open>else\<close> is \<open>Other\<close>), \<open>Block\<close> is a statement in a scope of its own; \<open>Halt\<close> is
  \<open>assert(0)\<close>, a \<open>throw\<close> or an expression of type \<open>noreturn\<close>.\<close>

datatype cstmt =
    Other
  | Ctor_Call bool
  | Return
  | Halt
  | Label
  | Seq cstmt cstmt
  | If cstmt cstmt
  | Logical cstmt
  | Block cstmt

text \<open>\<open>ctor_call\<close> is the part of the semantic analysis of a call \<open>this(..)\<close> or
  \<open>super(..)\<close> outside loops that concerns the state; the flag tells that no error was
  reported.\<close>

definition ctor_call :: "bool \<Rightarrow> CSX \<Rightarrow> CSX \<times> bool" where
  "ctor_call isSuper c =
     (if has_halt c then (c, True)
      else (c OR (CSX_any_ctor OR (if isSuper then CSX_super_ctor else CSX_this_ctor)),
            \<not> has_label c \<and> \<not> has_all c \<and> \<not> (has_return c \<and> \<not> has_any c)))"

definition return_stmt :: "CSX \<Rightarrow> CSX \<times> bool" where
  "return_stmt c = (c OR CSX_return, \<not> (has_any c \<and> \<not> has_all c))"

text \<open>The analysis of a body from state \<open>c\<close>.  The branches of an \<open>if\<close> and a block run in a
  pushed scope, whose \<open>pop\<close> folds the state into the enclosing one; the result of the
  then branch is merged into that of the else branch.\<close>

fun analyse :: "cstmt \<Rightarrow> CSX \<Rightarrow> CSX \<times> bool" where
  "analyse Other c = (c, True)"
| "analyse (Ctor_Call isSuper) c = ctor_call isSuper c"
| "analyse Return c = return_stmt c"
| "analyse Halt c = (c OR CSX_halt, True)"
| "analyse Label c = (c OR CSX_label, True)"
| "analyse (Seq s t) c =
     (case analyse s c of (c1, ok1) \<Rightarrow> case analyse t c1 of (c2, ok2) \<Rightarrow> (c2, ok1 \<and> ok2))"
| "analyse (If s t) c =
     (case analyse s c of (c1, ok1) \<Rightarrow> case analyse t c of (c2, ok2) \<Rightarrow>
      case mergeCallSuper (c OR c2) (c OR c1) of (m, ok) \<Rightarrow> (m, ok1 \<and> ok2 \<and> ok))"
| "analyse (Logical s) c =
     (case analyse s c of (c1, ok1) \<Rightarrow> case mergeCallSuper c1 c of (m, ok) \<Rightarrow> (m, ok1 \<and> ok))"
| "analyse (Block s) c = (case analyse s c of (c1, ok1) \<Rightarrow> (c OR c1, ok1))"

text \<open>A statement that control can enter from elsewhere (\<open>comeFrom\<close>), and whether control can reach
  the end of one, as \<open>blockExit\<close> computes it: a statement after an exit counts if it has a label.\<close>

fun comes_from :: "cstmt \<Rightarrow> bool" where
  "comes_from Label = True"
| "comes_from (Seq s t) = (comes_from s \<or> comes_from t)"
| "comes_from (If s t) = (comes_from s \<or> comes_from t)"
| "comes_from (Block s) = comes_from s"
| "comes_from _ = False"

fun falls_through :: "cstmt \<Rightarrow> bool" where
  "falls_through Return = False"
| "falls_through Halt = False"
| "falls_through (Seq s t) = ((falls_through s \<or> comes_from t) \<and> falls_through t)"
| "falls_through (If s t) = (falls_through s \<or> falls_through t)"
| "falls_through (Block s) = falls_through s"
| "falls_through _ = True"

text \<open>The end of a constructor of a class whose base class has a constructor: an implicit
  \<open>super()\<close> is inserted at the start when no constructor call and no halt was seen, and
  the analysis of an implicit \<open>return\<close> follows when the end can be reached.  The result
  is the compiled body and whether it was accepted.\<close>

definition needs_super :: "CSX \<Rightarrow> bool" where
  "needs_super c = (c AND (CSX_any_ctor OR CSX_halt) = 0)"

definition compile_ctor :: "cstmt \<Rightarrow> cstmt \<times> bool" where
  "compile_ctor s =
     (case analyse s CSX_none of (c, ok) \<Rightarrow>
      let (c, ok, body) =
        (if needs_super c
         then (case ctor_call True CSX_none of (c', ok') \<Rightarrow> (c', ok \<and> ok', Seq (Ctor_Call True) s))
         else (c, ok, s)) in
      if falls_through s
      then (Seq body Return, ok \<and> snd (return_stmt c))
      else (body, ok))"

section \<open>Executions\<close>

datatype outcome = Normal | Returned | Halted

text \<open>\<open>exec s n m o\<close>: an execution of \<open>s\<close> that starts after \<open>n\<close> constructor calls ends
  after \<open>m\<close>; the conditions are not interpreted, so either branch may run.\<close>

inductive exec :: "cstmt \<Rightarrow> nat \<Rightarrow> nat \<Rightarrow> outcome \<Rightarrow> bool" where
  exec_other: "exec Other n n Normal"
| exec_ctor: "exec (Ctor_Call b) n (Suc n) Normal"
| exec_return: "exec Return n n Returned"
| exec_halt: "exec Halt n n Halted"
| exec_label: "exec Label n n Normal"
| exec_seq: "exec s n k Normal \<Longrightarrow> exec t k m out \<Longrightarrow> exec (Seq s t) n m out"
| exec_seq_exit: "exec s n m out \<Longrightarrow> out \<noteq> Normal \<Longrightarrow> exec (Seq s t) n m out"
| exec_then: "exec s n m out \<Longrightarrow> exec (If s t) n m out"
| exec_else: "exec t n m out \<Longrightarrow> exec (If s t) n m out"
| exec_operand: "exec s n m out \<Longrightarrow> exec (Logical s) n m out"
| exec_short: "exec (Logical s) n n Normal"
| exec_block: "exec s n m out \<Longrightarrow> exec (Block s) n m out"

code_pred exec .

inductive_cases exec_other_E: "exec Other n m out"
inductive_cases exec_ctor_E: "exec (Ctor_Call b) n m out"
inductive_cases exec_return_E: "exec Return n m out"
inductive_cases exec_halt_E: "exec Halt n m out"
inductive_cases exec_label_E: "exec Label n m out"
inductive_cases exec_seq_E: "exec (Seq s t) n m out"
inductive_cases exec_if_E: "exec (If s t) n m out"
inductive_cases exec_logical_E: "exec (Logical s) n m out"
inductive_cases exec_block_E: "exec (Block s) n m out"

lemmas exec_Es = exec_other_E exec_ctor_E exec_return_E exec_halt_E exec_label_E
lemmas exec_intros = exec.intros

section \<open>Soundness\<close>

text \<open>The bits of combined states.\<close>

named_theorems csx_simps \<open>the bits of a combined state\<close>

lemma mask_or: "((a :: 16 word) OR b) AND m \<noteq> 0 \<longleftrightarrow> a AND m \<noteq> 0 \<or> b AND m \<noteq> 0"
proof -
  have "(a OR b) AND m = (a AND m) OR (b AND m)" by (rule bit.conj_disj_distrib2)
  then show ?thesis by (simp add: or_eq_0_iff)
qed

lemma has_or [csx_simps]:
  "has_all (a OR b) \<longleftrightarrow> has_all a \<or> has_all b" "has_any (a OR b) \<longleftrightarrow> has_any a \<or> has_any b"
  "has_return (a OR b) \<longleftrightarrow> has_return a \<or> has_return b" "has_halt (a OR b) \<longleftrightarrow> has_halt a \<or> has_halt b"
  by (simp_all only: has_all_def has_any_def has_return_def has_halt_def mask_or)

lemma has_and_any_label [csx_simps]:
  "\<not> has_all (b AND (CSX_any_ctor OR CSX_label))" "\<not> has_return (b AND (CSX_any_ctor OR CSX_label))"
  "\<not> has_halt (b AND (CSX_any_ctor OR CSX_label))"
  "has_any (b AND (CSX_any_ctor OR CSX_label)) \<longleftrightarrow> has_any b"
proof -
  have m: "(b AND x) AND y = b AND (x AND y)" for x y :: CSX by (rule and.assoc)
  show "\<not> has_all (b AND (CSX_any_ctor OR CSX_label))" "\<not> has_return (b AND (CSX_any_ctor OR CSX_label))"
    "\<not> has_halt (b AND (CSX_any_ctor OR CSX_label))"
    "has_any (b AND (CSX_any_ctor OR CSX_label)) \<longleftrightarrow> has_any b"
    by (simp_all add: has_all_def has_return_def has_halt_def has_any_def m CSX_defs)
qed

lemma has_const [csx_simps]:
  "\<not> has_all CSX_none" "\<not> has_any CSX_none" "\<not> has_return CSX_none" "\<not> has_halt CSX_none"
  "\<not> has_all CSX_halt" "\<not> has_any CSX_halt" "\<not> has_return CSX_halt" "has_halt CSX_halt"
  "\<not> has_all CSX_return" "\<not> has_any CSX_return" "has_return CSX_return" "\<not> has_halt CSX_return"
  "\<not> has_all CSX_label" "\<not> has_any CSX_label" "\<not> has_return CSX_label" "\<not> has_halt CSX_label"
  "\<not> has_all CSX_any_ctor" "has_any CSX_any_ctor" "\<not> has_return CSX_any_ctor" "\<not> has_halt CSX_any_ctor"
  "has_all CSX_super_ctor" "\<not> has_any CSX_super_ctor" "\<not> has_return CSX_super_ctor" "\<not> has_halt CSX_super_ctor"
  "has_all CSX_this_ctor" "\<not> has_any CSX_this_ctor" "\<not> has_return CSX_this_ctor" "\<not> has_halt CSX_this_ctor"
  by (simp_all add: has_all_def has_return_def has_halt_def has_any_def CSX_defs)

text \<open>A merge of two halting paths forgets their constructor calls.\<close>

definition lossy :: "CSX \<Rightarrow> CSX \<Rightarrow> bool" where
  "lossy a b \<longleftrightarrow> a \<noteq> b \<and> has_halt a \<and> has_halt b \<and> (has_any a \<or> has_any b)"

text \<open>No halt follows a \<open>return\<close> that skipped the constructor nor the other way round, and
  no merge is lossy.\<close>

fun keeps_history :: "cstmt \<Rightarrow> CSX \<Rightarrow> bool" where
  "keeps_history Halt c = (\<not> (has_return c \<and> \<not> has_any c))"
| "keeps_history Return c = (\<not> (has_halt c \<and> \<not> has_any c))"
| "keeps_history (Seq s t) c = (keeps_history s c \<and> keeps_history t (fst (analyse s c)))"
| "keeps_history (If s t) c = (keeps_history s c \<and> keeps_history t c \<and>
     \<not> lossy (c OR fst (analyse t c)) (c OR fst (analyse s c)))"
| "keeps_history (Logical s) c = (keeps_history s c \<and> \<not> lossy (fst (analyse s c)) c)"
| "keeps_history (Block s) c = keeps_history s c"
| "keeps_history _ c = True"

text \<open>The states the analysis reaches, what a state says of an execution that is still
  running after \<open>n\<close> calls, and of one that returned after \<open>n\<close> calls.\<close>

definition csx_wf :: "CSX \<Rightarrow> bool" where
  "csx_wf c \<longleftrightarrow> (has_all c \<longrightarrow> has_any c) \<and> (has_return c \<and> \<not> has_any c \<longrightarrow> \<not> has_halt c) \<and>
     (has_return c \<and> has_any c \<longrightarrow> has_all c)"

definition live :: "CSX \<Rightarrow> nat \<Rightarrow> bool" where
  "live c n \<longleftrightarrow> \<not> has_halt c \<and> n = (if has_all c then 1 else 0) \<and> \<not> (has_return c \<and> has_any c)"

definition skipped :: "CSX \<Rightarrow> bool" where
  "skipped c \<longleftrightarrow> has_return c \<and> \<not> has_any c"

definition ended :: "CSX \<Rightarrow> nat \<Rightarrow> bool" where
  "ended c n \<longleftrightarrow> (n = 1 \<and> has_any c) \<or> (n = 0 \<and> skipped c)"

lemmas csx_pred_defs = csx_wf_def live_def skipped_def ended_def

text \<open>The accepting branches of the merge, by the bits of the result.\<close>

lemma branch_ladder:
  obtains "S" | "\<not> S" "H" | "\<not> S" "\<not> H" "X" | "\<not> S" "\<not> H" "\<not> X" "B"
  | "\<not> S" "\<not> H" "\<not> X" "\<not> B" "A" | "\<not> S" "\<not> H" "\<not> X" "\<not> B" "\<not> A" "D"
  | "\<not> S" "\<not> H" "\<not> X" "\<not> B" "\<not> A" "\<not> D"
  by blast

lemma merge_cases:
  assumes "mergeCallSuper a b = (m, True)"
  obtains (same) "b = a" "m = a"
  | (halts) "has_halt a" "has_halt b" "b \<noteq> a" "m = CSX_halt"
  | (b_exits) "has_halt b \<or> has_return b \<and> has_all b" "\<not> (has_halt a \<and> has_halt b)"
      "\<not> (\<not> has_halt b \<and> has_return b \<and> \<not> has_any b \<and> has_any a)"
      "\<not> (\<not> has_halt a \<and> has_return a \<and> \<not> has_any a \<and> has_any b)"
      "has_all m = has_all a" "has_any m = (has_any a \<or> has_any b)"
      "has_return m = has_return a" "has_halt m = has_halt a"
  | (a_exits) "has_halt a \<or> has_return a \<and> has_all a" "\<not> has_halt b" "\<not> (has_return b \<and> has_all b)"
      "\<not> (has_return b \<and> \<not> has_any b \<and> has_any a)"
      "has_all m = has_all b" "has_any m = (has_any a \<or> has_any b)"
      "has_return m = has_return b" "has_halt m = has_halt b"
  | (both) "\<not> has_halt a" "\<not> has_halt b" "\<not> (has_return b \<and> has_all b)" "\<not> (has_return a \<and> has_all a)"
      "\<not> (has_return b \<and> \<not> has_any b \<and> has_any a)" "\<not> (has_return a \<and> \<not> has_any a \<and> has_any b)"
      "has_all a = has_all b" "has_all m = has_all a" "has_any m = (has_any a \<or> has_any b)"
      "has_return m = (has_return a \<or> has_return b \<and> \<not> has_any b)" "\<not> has_halt m"
proof -
  let ?bad = "(\<not> has_halt b \<and> has_return b \<and> \<not> has_any b \<and> has_any a) \<or>
    (\<not> has_halt a \<and> has_return a \<and> \<not> has_any a \<and> has_any b)"
  note m = assms [unfolded mergeCallSuper_def Let_def]
  show thesis
  proof (cases rule: branch_ladder [where S = "b = a" and H = "has_halt a \<and> has_halt b" and
      X = ?bad and B = "has_halt b \<or> has_return b \<and> has_all b" and
      A = "has_halt a \<or> has_return a \<and> has_all a" and D = "has_all a \<noteq> has_all b"])
    case 1
    with m have "m = a" by (simp only: if_True simp_thms prod.inject)
    with 1 show thesis by (rule same)
  next
    case 2
    with m have "m = CSX_halt" by (simp only: if_True if_False simp_thms prod.inject)
    with 2 show thesis by (intro halts) blast+
  next
    case 3 with m show thesis by (simp only: if_True if_False simp_thms prod.inject)
  next
    case 4
    with m have "m = a OR (b AND (CSX_any_ctor OR CSX_label))"
      by (simp only: if_True if_False simp_thms prod.inject)
    with 4 show thesis by (intro b_exits) (simp_all only: csx_simps simp_thms de_Morgan_disj)
  next
    case 5
    with m have "m = b OR (a AND (CSX_any_ctor OR CSX_label))"
      by (simp only: if_True if_False simp_thms prod.inject)
    with 5 show thesis by (intro a_exits) (simp_all only: csx_simps simp_thms de_Morgan_disj, blast+)
  next
    case 6 with m show thesis by (simp only: if_True if_False simp_thms prod.inject)
  next
    case 7
    with m have "m = (if has_return b \<and> \<not> has_any b then a OR CSX_return else a) OR
        (b AND (CSX_any_ctor OR CSX_label))"
      by (simp only: if_True if_False simp_thms prod.inject)
    then have "has_all m = has_all a" "has_any m = (has_any a \<or> has_any b)"
      "has_return m = (has_return a \<or> has_return b \<and> \<not> has_any b)" "has_halt m = has_halt a"
      by (auto simp: csx_simps)
    with 7 show thesis by (intro both) blast+
  qed
qed

lemma merge_any:
  assumes "mergeCallSuper a b = (m, True)" "\<not> lossy a b"
  shows "has_any m \<longleftrightarrow> has_any a \<or> has_any b"
  using assms(1) by (cases rule: merge_cases) (use assms(2) in \<open>auto simp: lossy_def csx_simps\<close>)

lemma merge_halt:
  assumes "mergeCallSuper a b = (m, True)" "has_halt a" "has_halt b"
  shows "has_halt m"
  using assms(1) by (cases rule: merge_cases) (use assms(2,3) in \<open>auto simp: csx_simps\<close>)

lemma merge_skipped:
  assumes "mergeCallSuper a b = (m, True)" "csx_wf a" "skipped a" "skipped b"
  shows "skipped m"
  using assms(1) by (cases rule: merge_cases) (use assms(2-4) in \<open>auto simp: csx_pred_defs csx_simps\<close>)

lemma merge_wf:
  assumes "mergeCallSuper a b = (m, True)" "csx_wf a" "csx_wf b"
  shows "csx_wf m"
  using assms(1) by (cases rule: merge_cases) (use assms(2,3) in \<open>auto simp: csx_wf_def csx_simps\<close>)

lemma merge_live:
  assumes "mergeCallSuper a b = (m, True)" "csx_wf a" "csx_wf b" "live a n \<or> live b n"
  shows "live m n"
  using assms(1) by (cases rule: merge_cases)
    (use assms(2-4) in \<open>auto simp: csx_pred_defs csx_simps split: if_splits\<close>)

lemma merge_ended:
  assumes "mergeCallSuper a b = (m, True)" "\<not> lossy a b" "csx_wf a" "csx_wf b" "ended a n \<or> ended b n"
  shows "ended m n"
  using assms(1) by (cases rule: merge_cases)
    (use assms(2-5) in \<open>auto simp: csx_pred_defs csx_simps lossy_def\<close>)

text \<open>The state of a pushed scope folded into the enclosing one.\<close>

definition extends :: "CSX \<Rightarrow> CSX \<Rightarrow> bool" where
  "extends c t \<longleftrightarrow> csx_wf t \<and> (has_halt c \<longrightarrow> has_halt t) \<and> (has_any c \<longrightarrow> has_any t) \<and>
     (skipped c \<longrightarrow> skipped t)"

lemma extends_or: "csx_wf c \<Longrightarrow> extends c t \<Longrightarrow> extends c (c OR t)"
  by (auto simp: extends_def csx_pred_defs csx_simps)

lemma extends_trans: "extends a b \<Longrightarrow> extends b c \<Longrightarrow> extends a c"
  by (auto simp: extends_def)

lemma extends_refl: "csx_wf c \<Longrightarrow> extends c c"
  by (simp add: extends_def)

lemma live_or:
  assumes "csx_wf c" "extends c t" "live c n" "n \<le> k" "live t k"
  shows "live (c OR t) k"
  using assms by (cases "has_all c") (auto simp: extends_def csx_pred_defs csx_simps split: if_splits)

lemma ended_or: "extends c t \<Longrightarrow> csx_wf c \<Longrightarrow> ended t k \<Longrightarrow> ended (c OR t) k"
  by (auto simp: extends_def csx_pred_defs csx_simps)

lemma extends_ended: "extends c t \<Longrightarrow> ended c k \<Longrightarrow> ended t k"
  by (auto simp: extends_def ended_def)

lemma merge_extends:
  assumes "mergeCallSuper a b = (m, True)" "\<not> lossy a b" "extends c a" "extends c b"
  shows "extends c m"
proof -
  have w: "csx_wf a" "csx_wf b" using assms(3,4) by (simp_all add: extends_def)
  show ?thesis
    unfolding extends_def
    using merge_wf [OF assms(1) w] merge_any [OF assms(1,2)] merge_halt [OF assms(1)]
      merge_skipped [OF assms(1) w(1)] assms(3,4) by (auto simp: extends_def)
qed

lemma return_extends:
  assumes "csx_wf c" "\<not> (has_any c \<and> \<not> has_all c)" "\<not> (has_halt c \<and> \<not> has_any c)"
  shows "extends c (c OR CSX_return)"
  using assms
  by (cases "has_all c"; cases "has_any c"; cases "has_return c"; cases "has_halt c")
    (simp_all add: extends_def csx_pred_defs csx_simps)

lemma return_ended:
  assumes "csx_wf c" "\<not> (has_any c \<and> \<not> has_all c)" "live c n"
  shows "ended (c OR CSX_return) n"
  using assms
  by (cases "has_all c"; cases "has_any c") (simp_all add: csx_pred_defs csx_simps)

lemma analyse_SeqE:
  assumes "analyse (Seq s u) c = (t, True)"
  obtains c1 where "analyse s c = (c1, True)" "analyse u c1 = (t, True)"
  using assms by (auto split: prod.splits)

lemma analyse_IfE:
  assumes "analyse (If s u) c = (t, True)"
  obtains c1 c2 where "analyse s c = (c1, True)" "analyse u c = (c2, True)"
    "mergeCallSuper (c OR c2) (c OR c1) = (t, True)"
  using assms by (auto split: prod.splits)

lemma analyse_LogicalE:
  assumes "analyse (Logical s) c = (t, True)"
  obtains c1 where "analyse s c = (c1, True)" "mergeCallSuper c1 c = (t, True)"
  using assms by (auto split: prod.splits)

lemma analyse_BlockE:
  assumes "analyse (Block s) c = (t, True)"
  obtains c1 where "analyse s c = (c1, True)" "t = c OR c1"
  using assms by (auto split: prod.splits)

lemma analyse_extends:
  "csx_wf c \<Longrightarrow> analyse s c = (t, True) \<Longrightarrow> keeps_history s c \<Longrightarrow> extends c t"
proof (induction s arbitrary: c t)
  case (Ctor_Call b)
  then show ?case
    by (auto simp: ctor_call_def extends_def csx_pred_defs csx_simps split: if_splits)
next
  case Return
  then show ?case using return_extends [of c] by (auto simp only: return_stmt_def analyse.simps
      keeps_history.simps prod.inject)
next
  case (Seq s1 s2)
  from Seq.prems(2) obtain c1 where a: "analyse s1 c = (c1, True)" "analyse s2 c1 = (t, True)"
    by (rule analyse_SeqE)
  have "extends c c1" using Seq.IH(1) [OF Seq.prems(1) a(1)] Seq.prems(3) by simp
  moreover from this have "extends c1 t"
    using Seq.IH(2) [OF _ a(2)] Seq.prems(3) a(1) by (simp add: extends_def)
  ultimately show ?case by (rule extends_trans)
next
  case (If s1 s2)
  from If.prems(2) obtain c1 c2 where a: "analyse s1 c = (c1, True)" "analyse s2 c = (c2, True)"
    "mergeCallSuper (c OR c2) (c OR c1) = (t, True)"
    by (rule analyse_IfE)
  have "extends c (c OR c1)" "extends c (c OR c2)"
    using If.IH(1) [OF If.prems(1) a(1)] If.IH(2) [OF If.prems(1) a(2)] If.prems(1,3) extends_or
    by simp_all
  with a If.prems(3) merge_extends [OF a(3)] show ?case by simp
next
  case (Logical s)
  from Logical.prems(2) obtain c1 where
    a: "analyse s c = (c1, True)" "mergeCallSuper c1 c = (t, True)" by (rule analyse_LogicalE)
  have "extends c c1" using Logical.IH [OF Logical.prems(1) a(1)] Logical.prems(3) by simp
  with a Logical.prems merge_extends [OF a(2)] extends_refl show ?case by simp
next
  case (Block s)
  from Block.prems(2) obtain c1 where "analyse s c = (c1, True)" "t = c OR c1"
    by (rule analyse_BlockE)
  with Block extends_or show ?case by simp
qed (auto simp: extends_def csx_pred_defs csx_simps)

lemma exec_mono: "exec s n m out \<Longrightarrow> n \<le> m"
  by (induction rule: exec.induct) auto

lemma exec_shift: "exec s n m out \<Longrightarrow> k \<le> n \<Longrightarrow> exec s (n - k) (m - k) out"
proof (induction arbitrary: rule: exec.induct)
  case (exec_ctor b n)
  then show ?case using exec.exec_ctor [of b "n - k"] by (simp add: Suc_diff_le)
next
  case (exec_seq s n j t m out)
  then show ?case using exec_mono exec.exec_seq by (meson le_trans)
qed (auto intro: exec_intros)

lemma exec_falls_through: "exec s n m out \<Longrightarrow> out = Normal \<Longrightarrow> falls_through s"
  by (induction rule: exec.induct) auto

text \<open>What the state after the analysis says of an execution of the statement.\<close>

definition outcome_ok :: "CSX \<Rightarrow> nat \<Rightarrow> outcome \<Rightarrow> bool" where
  "outcome_ok t m out \<longleftrightarrow> (case out of Normal \<Rightarrow> live t m | Returned \<Rightarrow> ended t m
     | Halted \<Rightarrow> m = 0 \<or> m = 1 \<and> has_any t)"

lemma outcome_extends:
  "out \<noteq> Normal \<Longrightarrow> extends c t \<Longrightarrow> outcome_ok c m out \<Longrightarrow> outcome_ok t m out"
  using extends_ended by (cases out) (auto simp: outcome_ok_def extends_def)

lemma outcome_or:
  "csx_wf c \<Longrightarrow> extends c t \<Longrightarrow> live c n \<Longrightarrow> n \<le> m \<Longrightarrow> outcome_ok t m out \<Longrightarrow> outcome_ok (c OR t) m out"
  using live_or ended_or by (cases out) (auto simp: outcome_ok_def csx_simps)

lemma outcome_merge:
  assumes "mergeCallSuper a b = (t, True)" "\<not> lossy a b" "csx_wf a" "csx_wf b"
    "outcome_ok a m out \<or> outcome_ok b m out"
  shows "outcome_ok t m out"
  using assms(5) merge_live [OF assms(1,3,4)] merge_ended [OF assms(1-4)] merge_any [OF assms(1,2)]
  by (cases out) (auto simp: outcome_ok_def)

lemma analyse_sound:
  "exec s n m out \<Longrightarrow> csx_wf c \<Longrightarrow> analyse s c = (t, True) \<Longrightarrow> keeps_history s c \<Longrightarrow> live c n \<Longrightarrow>
   outcome_ok t m out"
proof (induction arbitrary: c t rule: exec.induct)
  case (exec_ctor b n)
  then show ?case
    by (auto simp: ctor_call_def outcome_ok_def csx_pred_defs csx_simps split: if_splits)
next
  case (exec_return n)
  then have "t = c OR CSX_return" "\<not> (has_any c \<and> \<not> has_all c)"
    by (simp_all only: return_stmt_def analyse.simps prod.inject simp_thms)
  with return_ended exec_return show ?case by (simp add: outcome_ok_def)
next
  case (exec_seq s n k u m out)
  from exec_seq.prems(2) obtain c1 where a: "analyse s c = (c1, True)" "analyse u c1 = (t, True)"
    by (rule analyse_SeqE)
  have k: "keeps_history s c" "keeps_history u c1" using exec_seq.prems(3) a(1) by simp_all
  have "outcome_ok c1 k Normal" by (rule exec_seq.IH(1) [OF exec_seq.prems(1) a(1) k(1) exec_seq.prems(4)])
  then have l: "live c1 k" by (simp add: outcome_ok_def)
  have "csx_wf c1" using analyse_extends [OF exec_seq.prems(1) a(1) k(1)] by (simp add: extends_def)
  from exec_seq.IH(2) [OF this a(2) k(2) l] show ?case .
next
  case (exec_seq_exit s n m out u)
  from exec_seq_exit.prems(2) obtain c1 where
    a: "analyse s c = (c1, True)" "analyse u c1 = (t, True)" by (rule analyse_SeqE)
  have k: "keeps_history s c" "keeps_history u c1" using exec_seq_exit.prems(3) a(1) by simp_all
  have "csx_wf c1" using analyse_extends [OF exec_seq_exit.prems(1) a(1) k(1)] by (simp add: extends_def)
  then have "extends c1 t" by (rule analyse_extends [OF _ a(2) k(2)])
  with exec_seq_exit.IH [OF exec_seq_exit.prems(1) a(1) k(1) exec_seq_exit.prems(4)] exec_seq_exit.hyps(2)
  show ?case using outcome_extends by blast
next
  case (exec_then s n m out u)
  from exec_then.prems(2) obtain c1 c2 where
    a: "analyse s c = (c1, True)" "analyse u c = (c2, True)"
      "mergeCallSuper (c OR c2) (c OR c1) = (t, True)" by (rule analyse_IfE)
  have k: "keeps_history s c" "keeps_history u c" "\<not> lossy (c OR c2) (c OR c1)"
    using exec_then.prems(3) a by simp_all
  note e = analyse_extends [OF exec_then.prems(1) a(1) k(1)] analyse_extends [OF exec_then.prems(1) a(2) k(2)]
  have "csx_wf (c OR c2)" "csx_wf (c OR c1)"
    using extends_or [OF exec_then.prems(1) e(1)] extends_or [OF exec_then.prems(1) e(2)]
    by (simp_all add: extends_def)
  moreover have "outcome_ok (c OR c1) m out"
    using exec_then.IH [OF exec_then.prems(1) a(1) k(1) exec_then.prems(4)]
    by (rule outcome_or [OF exec_then.prems(1) e(1) exec_then.prems(4) exec_mono [OF exec_then.hyps(1)]])
  ultimately show ?case by (intro outcome_merge [OF a(3) k(3)]) simp_all
next
  case (exec_else u n m out s)
  from exec_else.prems(2) obtain c1 c2 where
    a: "analyse s c = (c1, True)" "analyse u c = (c2, True)"
      "mergeCallSuper (c OR c2) (c OR c1) = (t, True)" by (rule analyse_IfE)
  have k: "keeps_history s c" "keeps_history u c" "\<not> lossy (c OR c2) (c OR c1)"
    using exec_else.prems(3) a by simp_all
  note e = analyse_extends [OF exec_else.prems(1) a(1) k(1)] analyse_extends [OF exec_else.prems(1) a(2) k(2)]
  have "csx_wf (c OR c2)" "csx_wf (c OR c1)"
    using extends_or [OF exec_else.prems(1) e(1)] extends_or [OF exec_else.prems(1) e(2)]
    by (simp_all add: extends_def)
  moreover have "outcome_ok (c OR c2) m out"
    using exec_else.IH [OF exec_else.prems(1) a(2) k(2) exec_else.prems(4)]
    by (rule outcome_or [OF exec_else.prems(1) e(2) exec_else.prems(4) exec_mono [OF exec_else.hyps(1)]])
  ultimately show ?case by (intro outcome_merge [OF a(3) k(3)]) simp_all
next
  case (exec_operand s n m out)
  from exec_operand.prems(2) obtain c1 where
    a: "analyse s c = (c1, True)" "mergeCallSuper c1 c = (t, True)" by (rule analyse_LogicalE)
  have k: "keeps_history s c" "\<not> lossy c1 c" using exec_operand.prems(3) a by simp_all
  have "csx_wf c1" using analyse_extends [OF exec_operand.prems(1) a(1) k(1)] by (simp add: extends_def)
  moreover have "outcome_ok c1 m out"
    by (rule exec_operand.IH [OF exec_operand.prems(1) a(1) k(1) exec_operand.prems(4)])
  ultimately show ?case using exec_operand.prems(1) by (intro outcome_merge [OF a(2) k(2)]) simp_all
next
  case (exec_short s n)
  from exec_short.prems(2) obtain c1 where
    a: "analyse s c = (c1, True)" "mergeCallSuper c1 c = (t, True)" by (rule analyse_LogicalE)
  have k: "keeps_history s c" "\<not> lossy c1 c" using exec_short.prems(3) a by simp_all
  have "csx_wf c1" using analyse_extends [OF exec_short.prems(1) a(1) k(1)] by (simp add: extends_def)
  moreover have "outcome_ok c n Normal" using exec_short.prems(4) by (simp add: outcome_ok_def)
  ultimately show ?case using exec_short.prems(1) by (intro outcome_merge [OF a(2) k(2)]) simp_all
next
  case (exec_block s n m out)
  from exec_block.prems(2) obtain c1 where a: "analyse s c = (c1, True)" "t = c OR c1"
    by (rule analyse_BlockE)
  have k: "keeps_history s c" using exec_block.prems(3) by simp
  note e = analyse_extends [OF exec_block.prems(1) a(1) k]
  show ?case
    unfolding a(2) using exec_block.IH [OF exec_block.prems(1) a(1) k exec_block.prems(4)]
    by (rule outcome_or [OF exec_block.prems(1) e exec_block.prems(4) exec_mono [OF exec_block.hyps(1)]])
qed (auto simp: outcome_ok_def csx_pred_defs csx_simps)

lemma start_state: "csx_wf CSX_none" "live CSX_none 0"
  by (simp_all add: csx_pred_defs csx_simps)

lemma needs_super_iff: "needs_super c \<longleftrightarrow> \<not> has_any c \<and> \<not> has_halt c"
  by (simp add: needs_super_def has_any_def has_halt_def bit.conj_disj_distrib or_eq_0_iff)

text \<open>The analysis of the explicit part of an accepted constructor.\<close>

lemma compile_ctor_accepts:
  assumes "compile_ctor s = (body, True)"
  shows "\<exists>c. analyse s CSX_none = (c, True) \<and>
    body = (let b = (if needs_super c then Seq (Ctor_Call True) s else s) in
       if falls_through s then Seq b Return else b) \<and>
    (falls_through s \<and> \<not> needs_super c \<longrightarrow> \<not> (has_any c \<and> \<not> has_all c))"
  using assms
  by (auto simp: compile_ctor_def return_stmt_def Let_def split: prod.splits if_splits)

text \<open>Executions of the explicit part, from the start.\<close>

lemma explicit_part:
  assumes "analyse s CSX_none = (c, True)" "keeps_history s CSX_none" "exec s 0 m out"
  shows "outcome_ok c m out" "csx_wf c"
  using analyse_sound [OF assms(3) start_state(1) assms(1,2) start_state(2)]
    analyse_extends [OF start_state(1) assms(1,2)] by (simp_all add: extends_def)

lemma implicit_super_count:
  assumes "analyse s CSX_none = (c, True)" "keeps_history s CSX_none" "needs_super c" "exec s 1 m out"
  shows "m = 1"
proof -
  have x: "exec s 0 (m - 1) out" using exec_shift [OF assms(4), of 1] by simp
  from explicit_part [OF assms(1,2) x] assms(3) have "m - 1 = 0"
    by (cases out) (auto simp: outcome_ok_def csx_pred_defs needs_super_iff split: if_splits)
  moreover have "1 \<le> m" using exec_mono [OF assms(4)] .
  ultimately show ?thesis by simp
qed

lemma explicit_count:
  assumes "analyse s CSX_none = (c, True)" "keeps_history s CSX_none" "\<not> needs_super c" "exec s 0 m out"
  shows "m \<le> 1" "out = Returned \<Longrightarrow> m = 1"
    "out = Normal \<Longrightarrow> \<not> (has_any c \<and> \<not> has_all c) \<Longrightarrow> m = 1"
  using explicit_part [OF assms(1,2,4)] assms(3)
  by (cases out; auto simp: outcome_ok_def csx_pred_defs needs_super_iff split: if_splits)+

lemma ctor_sound:
  assumes "compile_ctor s = (body, True)" "keeps_history s CSX_none" "exec body 0 m out"
  shows "m \<le> 1 \<and> (out \<noteq> Halted \<longrightarrow> m = 1 \<and> out = Returned \<or> m = 1 \<and> \<not> falls_through s)"
proof -
  from compile_ctor_accepts [OF assms(1)] obtain c where c: "analyse s CSX_none = (c, True)"
    "body = (let b = (if needs_super c then Seq (Ctor_Call True) s else s) in
       if falls_through s then Seq b Return else b)"
    "falls_through s \<and> \<not> needs_super c \<longrightarrow> \<not> (has_any c \<and> \<not> has_all c)" by blast
  let ?b = "if needs_super c then Seq (Ctor_Call True) s else s"
  have b: "m' \<le> 1 \<and> (out' = Returned \<longrightarrow> m' = 1) \<and> (out' = Normal \<longrightarrow> falls_through s \<and> m' = 1)"
    if "exec ?b 0 m' out'" for m' out'
  proof (cases "needs_super c")
    case True
    with that have e: "exec (Seq (Ctor_Call True) s) 0 m' out'" by simp
    have "exec s 1 m' out'" using e by (elim exec_seq_E exec_ctor_E) auto
    from implicit_super_count [OF c(1) assms(2) True this] exec_falls_through [OF this]
    show ?thesis by simp
  next
    case False
    with that have e: "exec s 0 m' out'" by simp
    from explicit_count [OF c(1) assms(2) False e] exec_falls_through [OF e] c(3) False
    show ?thesis by blast
  qed
  show ?thesis
  proof (cases "falls_through s")
    case True
    with c(2) assms(3) have "exec (Seq ?b Return) 0 m out" by (simp add: Let_def)
    then show ?thesis
    proof (rule exec_seq_E)
      fix k
      assume "exec ?b 0 k Normal" "exec Return k m out"
      with b [of k Normal] show ?thesis by (elim exec_return_E) auto
    next
      assume "exec ?b 0 m out" "out \<noteq> Normal"
      with b [of m out] show ?thesis by (cases out) auto
    qed
  next
    case False
    with c(2) assms(3) have "exec ?b 0 m out" by (simp add: Let_def)
    with b [of m out] False show ?thesis by (cases out) auto
  qed
qed

section \<open>Properties\<close>

text \<open>C1: The flow analysis of constructors is sound for bodies that keep their history.  If a
  constructor of a class with a base class constructor is accepted, and if no halt follows a
  \<open>return\<close> without constructor call or the other way round and no merge of two halting paths
  drops a call (\<open>keeps_history\<close>; the last section shows what happens otherwise), then every
  execution of the compiled body, with the implicit \<open>super()\<close> and \<open>return\<close> that the compiler
  adds, runs at most one constructor call, and exactly one when it returns; and it never runs off
  the end of the body.\<close>
theorem ctor_calls_exactly_once:
  assumes "compile_ctor s = (body, True)" and "keeps_history s CSX_none" and "exec body 0 m out"
  shows "m \<le> 1 \<and> (out = Returned \<longrightarrow> m = 1) \<and> out \<noteq> Normal"
proof -
  have "out \<noteq> Normal"
  proof
    assume n: "out = Normal"
    from compile_ctor_accepts [OF assms(1)] obtain c where
      "body = (let b = (if needs_super c then Seq (Ctor_Call True) s else s) in
         if falls_through s then Seq b Return else b)" by blast
    with exec_falls_through [OF assms(3) n] show False
      by (cases "falls_through s"; cases "needs_super c") (simp_all add: Let_def)
  qed
  with ctor_sound [OF assms] show ?thesis by (cases out) auto
qed

text \<open>A constructor that calls \<open>super\<close> and returns on one path, and calls it on the other.\<close>

definition early_super :: cstmt where
  "early_super = Seq (If (Seq (Ctor_Call True) Return) Other) (Ctor_Call True)"

theorem ctor_calls_exactly_once_witness:
  "compile_ctor early_super = (Seq early_super Return, True) \<and>
   exec (Seq early_super Return) 0 1 Returned \<and> (1 :: nat) \<le> 1 \<and> Returned \<noteq> Normal"
proof -
  have c: "compile_ctor early_super = (Seq early_super Return, True)" by code_simp
  have k: "keeps_history early_super CSX_none" by code_simp
  have "exec early_super 0 1 Returned"
    unfolding early_super_def
    by (rule exec_seq_exit, rule exec_then, rule exec_seq)
      (use exec_ctor [of True 0] exec_return [of 1] in simp_all)
  then have e: "exec (Seq early_super Return) 0 1 Returned" by (rule exec_seq_exit) simp
  with c ctor_calls_exactly_once [OF c k e] show ?thesis by simp
qed

text \<open>Bodies without any constructor call.\<close>

fun calls_ctor :: "cstmt \<Rightarrow> bool" where
  "calls_ctor (Ctor_Call b) = True"
| "calls_ctor (Seq s t) = (calls_ctor s \<or> calls_ctor t)"
| "calls_ctor (If s t) = (calls_ctor s \<or> calls_ctor t)"
| "calls_ctor (Logical s) = calls_ctor s"
| "calls_ctor (Block s) = calls_ctor s"
| "calls_ctor _ = False"

definition no_call_seen :: "CSX \<Rightarrow> bool" where "no_call_seen c \<longleftrightarrow> \<not> has_any c \<and> \<not> has_all c"

lemma no_call_seen_simps [simp]:
  "no_call_seen CSX_none" "no_call_seen (a OR b) \<longleftrightarrow> no_call_seen a \<and> no_call_seen b"
  "no_call_seen CSX_halt" "no_call_seen CSX_return" "no_call_seen CSX_label"
  "no_call_seen b \<Longrightarrow> no_call_seen (b AND (CSX_any_ctor OR CSX_label))"
  by (auto simp: no_call_seen_def csx_simps)

lemma merge_no_call:
  assumes "no_call_seen a" "no_call_seen b"
  shows "\<exists>m. mergeCallSuper a b = (m, True) \<and> no_call_seen m"
  using assms unfolding mergeCallSuper_def Let_def by (simp add: no_call_seen_def[of a] no_call_seen_def[of b])

lemma analyse_no_call:
  "\<not> calls_ctor s \<Longrightarrow> no_call_seen c \<Longrightarrow> \<exists>c'. analyse s c = (c', True) \<and> no_call_seen c'"
proof (induction s arbitrary: c)
  case Return
  then show ?case by (simp add: return_stmt_def no_call_seen_def csx_simps)
next
  case (Seq s t)
  then show ?case by fastforce
next
  case (If s t)
  then obtain c1 c2 where c: "analyse s c = (c1, True)" "no_call_seen c1" "analyse t c = (c2, True)" "no_call_seen c2"
    by fastforce
  then obtain m where "mergeCallSuper (c OR c2) (c OR c1) = (m, True)" "no_call_seen m"
    using merge_no_call[of "c OR c2" "c OR c1"] If.prems(2) by auto
  then show ?case using c by simp
next
  case (Logical s)
  then obtain c1 where c: "analyse s c = (c1, True)" "no_call_seen c1" by fastforce
  then obtain m where "mergeCallSuper c1 c = (m, True)" "no_call_seen m"
    using merge_no_call[of c1 c] Logical.prems(2) by auto
  then show ?case using c by simp
next
  case (Block s)
  then show ?case by fastforce
qed simp_all

lemma exec_no_call: "exec s n m out \<Longrightarrow> \<not> calls_ctor s \<Longrightarrow> m = n"
  by (induction rule: exec.induct) auto

text \<open>C24: A halt at the end makes the analysis forget every earlier \<open>return\<close>.  Whatever a constructor
  body does before a final \<open>assert(0)\<close>, as long as it has no constructor call, it is accepted as it
  stands and no \<open>super()\<close> is inserted, so that on every path that returns before, as in
  \<open>if (x) return; assert(0);\<close>, the base class has never been constructed.\<close>
theorem halt_skips_super:
  assumes "\<not> calls_ctor s" and "exec s 0 m Returned"
  shows "compile_ctor (Seq s Halt) = (Seq s Halt, True) \<and> exec (Seq s Halt) 0 0 Returned"
proof
  obtain c where c: "analyse s CSX_none = (c, True)" "no_call_seen c"
    using analyse_no_call[OF assms(1), of CSX_none] by auto
  have "\<not> needs_super (c OR CSX_halt)" by (simp add: needs_super_iff csx_simps)
  then show "compile_ctor (Seq s Halt) = (Seq s Halt, True)" using c(1) by (simp add: compile_ctor_def)
  have "m = 0" using exec_no_call[OF assms(2,1)] .
  then show "exec (Seq s Halt) 0 0 Returned" using exec_seq_exit[OF assms(2)] by simp
qed

theorem halt_skips_super_witness:
  "compile_ctor (Seq (If Return Other) Halt) = (Seq (If Return Other) Halt, True) \<and>
   exec (Seq (If Return Other) Halt) 0 0 Returned"
proof -
  have "exec (If Return Other) 0 0 Returned" by (rule exec_then[OF exec_return])
  from halt_skips_super[OF _ this] show ?thesis by simp
qed

text \<open>The body of the next lemma: in one branch \<open>if (y) { super(); return; }\<close> is followed
  by \<open>if (z) { super(); assert(0); } else assert(0);\<close>, and the other branch returns.\<close>

definition forgotten_super :: cstmt where
  "forgotten_super =
     If (Seq (If (Seq (Ctor_Call True) Return) Other) (If (Seq (Ctor_Call True) Halt) Halt)) Return"

text \<open>A merge of two halting paths makes the analysis forget an earlier constructor
  call.  The constructor \<open>forgotten_super\<close> calls \<open>super()\<close> on one path, is accepted,
  and gets an implicit \<open>super()\<close> as well, so that this path constructs the base twice.\<close>
lemma halting_merge_constructs_twice:
  "compile_ctor forgotten_super = (Seq (Ctor_Call True) forgotten_super, True) \<and>
   exec (Seq (Ctor_Call True) forgotten_super) 0 2 Returned"
proof
  show "compile_ctor forgotten_super = (Seq (Ctor_Call True) forgotten_super, True)" by code_simp
  have "exec (Seq (Ctor_Call True) Return) 1 2 Returned"
    using exec_seq [OF exec_ctor [of True 1], of Return] exec_return [of 2]
    by (simp add: numeral_2_eq_2)
  then have "exec (If (Seq (Ctor_Call True) Return) Other) 1 2 Returned" by (rule exec_then)
  then have "exec forgotten_super 1 2 Returned"
    unfolding forgotten_super_def by (intro exec_then, elim exec_seq_exit) simp
  with exec_ctor [of True 0]
  show "exec (Seq (Ctor_Call True) forgotten_super) 0 2 Returned"
    by (intro exec_seq) (simp_all add: numeral_2_eq_2)
qed

end
