(* ===== verification/Cpp_Class.thy ===== *)
theory Cpp_Class
  imports Prelude
begin

text \<open>
  Declarations of C++ classes with single inheritance, as the headers of
  compiler/include/dmd write them: base class, \<open>final\<close>, and the members in order.
  A method keeps its name, how it takes part in dynamic dispatch, and its body when the
  header has one; parameter lists are left out, because no class below \<open>RootObject\<close>
  overloads a virtual method.

  Dynamic dispatch is given twice: \<open>overrider\<close> looks for the nearest declaration along
  the chain of base classes, \<open>vtable\<close> builds the table a compiler emits.  The locale
  \<open>class_table\<close> states what makes a set of declarations well formed and shows that the
  two agree and that a table extends those of the base classes.
\<close>

section \<open>Declarations\<close>

text \<open>Types of members: a named type as the header writes it, a pointer, an array.\<close>

datatype ctype = Named string | Pointer ctype | Carray ctype nat

datatype mkind = Plain | Static | Virtual | Override

datatype DYNCAST =
    DYNCAST_OBJECT | DYNCAST_EXPRESSION | DYNCAST_DSYMBOL | DYNCAST_TYPE | DYNCAST_IDENTIFIER
  | DYNCAST_TUPLE | DYNCAST_PARAMETER | DYNCAST_STATEMENT | DYNCAST_CONDITION
  | DYNCAST_TEMPLATEPARAMETER | DYNCAST_INITIALIZER

text \<open>Bodies in the header: none, \<open>= 0\<close>, \<open>v->visit(this)\<close>, \<open>return this\<close>, a constant, the test of
  a tag followed by a cast, or code that has a definition of its own.\<close>

datatype 'c mbody =
    Extern | Pure | Visit_this | Return_this | Return_null | Return_bool bool | Return_dyncast DYNCAST
  | Cast_if string 'c | Inline

text \<open>Members: the flag of a method tells whether it is \<open>final\<close>.\<close>

datatype 'c member =
    Field ctype string
  | Static_field ctype string
  | Union_fields "(ctype \<times> string) list"
  | Method mkind bool string "'c mbody"

datatype 'c class_decl = Class "'c option" bool "'c member list"

primrec base_of :: "'c class_decl \<Rightarrow> 'c option" where "base_of (Class b f ms) = b"
primrec final_class :: "'c class_decl \<Rightarrow> bool" where "final_class (Class b f ms) = f"
primrec members :: "'c class_decl \<Rightarrow> 'c member list" where "members (Class b f ms) = ms"

section \<open>Inheritance\<close>

text \<open>The chain from a class to its root; the fuel bounds its length.\<close>

fun chain :: "('c \<Rightarrow> 'c class_decl) \<Rightarrow> nat \<Rightarrow> 'c \<Rightarrow> 'c list option" where
  "chain env 0 c = None"
| "chain env (Suc n) c =
     (case base_of (env c) of None \<Rightarrow> Some [c] | Some b \<Rightarrow> map_option ((#) c) (chain env n b))"

inductive inherits :: "('c \<Rightarrow> 'c class_decl) \<Rightarrow> 'c \<Rightarrow> 'c \<Rightarrow> bool" for env where
  inherits_refl: "inherits env c c"
| inherits_step: "base_of (env c) = Some b \<Longrightarrow> inherits env b d \<Longrightarrow> inherits env c d"

inductive_cases inherits_E: "inherits env c d"

section \<open>Dynamic dispatch\<close>

fun dispatched :: "'c member \<Rightarrow> bool" where
  "dispatched (Method Virtual f m b) = True"
| "dispatched (Method Override f m b) = True"
| "dispatched _ = False"

primrec member_name :: "'c member \<Rightarrow> string" where
  "member_name (Field t x) = x"
| "member_name (Static_field t x) = x"
| "member_name (Union_fields xs) = []"
| "member_name (Method k f m b) = m"

primrec member_body :: "'c member \<Rightarrow> 'c mbody option" where
  "member_body (Field t x) = None"
| "member_body (Static_field t x) = None"
| "member_body (Union_fields xs) = None"
| "member_body (Method k f m b) = Some b"

text \<open>The declaration of the virtual method \<open>m\<close> in a class.\<close>

definition own_decl :: "'c class_decl \<Rightarrow> string \<Rightarrow> 'c member option" where
  "own_decl d m = find (\<lambda>x. dispatched x \<and> member_name x = m) (members d)"

text \<open>The nearest class of a chain that declares the virtual method \<open>m\<close>: its final overrider.\<close>

fun overrider :: "('c \<Rightarrow> 'c class_decl) \<Rightarrow> 'c list \<Rightarrow> string \<Rightarrow> 'c option" where
  "overrider env [] m = None"
| "overrider env (c # cs) m = (if own_decl (env c) m \<noteq> None then Some c else overrider env cs m)"

text \<open>The table of a class: a new virtual method takes a new slot, an override replaces
  the entry of the slot it inherits.\<close>

fun add_slot :: "'c \<Rightarrow> (string \<times> 'c) list \<Rightarrow> 'c member \<Rightarrow> (string \<times> 'c) list" where
  "add_slot c vt (Method Virtual f m b) = vt @ [(m, c)]"
| "add_slot c vt (Method Override f m b) = map (\<lambda>(n, i). if n = m then (n, c) else (n, i)) vt"
| "add_slot c vt _ = vt"

definition extend_vtable :: "('c \<Rightarrow> 'c class_decl) \<Rightarrow> 'c \<Rightarrow> (string \<times> 'c) list \<Rightarrow> (string \<times> 'c) list" where
  "extend_vtable env c vt = foldl (add_slot c) vt (members (env c))"

definition vtable :: "('c \<Rightarrow> 'c class_decl) \<Rightarrow> 'c list \<Rightarrow> (string \<times> 'c) list" where
  "vtable env cs = foldr (extend_vtable env) cs []"

text \<open>The names a class introduces and overrides.\<close>

fun introduced :: "'c member \<Rightarrow> string list" where
  "introduced (Method Virtual f m b) = [m]"
| "introduced _ = []"

fun overridden :: "'c member \<Rightarrow> string list" where
  "overridden (Method Override f m b) = [m]"
| "overridden _ = []"

definition new_names :: "'c class_decl \<Rightarrow> string list" where
  "new_names d = concat (map introduced (members d))"

definition override_names :: "'c class_decl \<Rightarrow> string list" where
  "override_names d = concat (map overridden (members d))"

text \<open>The slots of a chain, and the well-formedness of one class over its bases.\<close>

definition slot_names :: "('c \<Rightarrow> 'c class_decl) \<Rightarrow> 'c list \<Rightarrow> string list" where
  "slot_names env cs = concat (map (\<lambda>c. new_names (env c)) (rev cs))"

fun final_method :: "'c member \<Rightarrow> string list" where
  "final_method (Method k True m b) = [m]"
| "final_method _ = []"

definition final_names :: "'c class_decl \<Rightarrow> string list" where
  "final_names d = concat (map final_method (members d))"

definition final_slots :: "('c \<Rightarrow> 'c class_decl) \<Rightarrow> 'c list \<Rightarrow> string list" where
  "final_slots env cs = concat (map (\<lambda>c. final_names (env c)) cs)"

definition class_ok :: "('c \<Rightarrow> 'c class_decl) \<Rightarrow> 'c \<Rightarrow> 'c list \<Rightarrow> bool" where
  "class_ok env c cs \<longleftrightarrow>
     distinct (new_names (env c) @ override_names (env c)) \<and>
     (\<forall>m \<in> set (override_names (env c)). m \<in> set (slot_names env cs)) \<and>
     (\<forall>m \<in> set (new_names (env c)). m \<notin> set (slot_names env cs)) \<and>
     (\<forall>m \<in> set (override_names (env c)). m \<notin> set (final_slots env cs)) \<and>
     (\<forall>b \<in> set (take 1 cs). \<not> final_class (env b))"

section \<open>Tables and overriders agree\<close>

lemma add_slot_names: "map fst (add_slot c vt x) = map fst vt @ introduced x"
  by (cases "(c, vt, x)" rule: add_slot.cases) (auto simp: comp_def split_def)

lemma fold_slot_names: "map fst (foldl (add_slot c) vt ms) = map fst vt @ concat (map introduced ms)"
  by (induction ms arbitrary: vt) (simp_all add: add_slot_names)

lemma vtable_Cons: "vtable env (c # cs) = extend_vtable env c (vtable env cs)"
  by (simp add: vtable_def)

lemma slot_names_Cons: "slot_names env (c # cs) = slot_names env cs @ new_names (env c)"
  by (simp add: slot_names_def)

lemma vtable_names: "map fst (vtable env cs) = slot_names env cs"
  by (induction cs)
    (simp_all add: vtable_Cons slot_names_Cons extend_vtable_def fold_slot_names new_names_def
      vtable_def slot_names_def)

lemma map_of_override:
  "map_of (map (\<lambda>(n, i). if n = k then (n, c) else (n, i)) vt) m =
   (if m = k \<and> k \<in> fst ` set vt then Some c else map_of vt m)"
proof (induction vt)
  case (Cons p vt)
  then show ?case by (cases p) (auto simp: image_iff, fastforce)
qed simp

lemma map_of_add_slot:
  assumes "set (introduced x) \<inter> fst ` set vt = {}" "set (overridden x) \<subseteq> fst ` set vt"
  shows "map_of (add_slot c vt x) m = (if dispatched x \<and> member_name x = m then Some c else map_of vt m)"
proof (cases "(c, vt, x)" rule: add_slot.cases)
  case (1 _ _ f k b)
  with assms have "map_of vt k = None" by (simp add: map_of_eq_None_iff)
  with 1 show ?thesis by (auto simp: map_add_def split: option.splits)
next
  case (2 _ _ f k b)
  with assms show ?thesis by (auto simp: map_of_override)
qed auto

lemma map_of_fold_slots:
  assumes "distinct (concat (map introduced ms))"
    "set (concat (map introduced ms)) \<inter> fst ` set vt = {}"
    "set (concat (map overridden ms)) \<subseteq> fst ` set vt"
  shows "map_of (foldl (add_slot c) vt ms) m =
    (if \<exists>x \<in> set ms. dispatched x \<and> member_name x = m then Some c else map_of vt m)"
  using assms
proof (induction ms arbitrary: vt)
  case (Cons x ms)
  have "set (map fst (add_slot c vt x)) = set (map fst vt @ introduced x)" by (simp only: add_slot_names)
  then have n: "fst ` set (add_slot c vt x) = fst ` set vt \<union> set (introduced x)" by simp
  have x: "map_of (add_slot c vt x) m = (if dispatched x \<and> member_name x = m then Some c else map_of vt m)"
    by (rule map_of_add_slot) (use Cons.prems in auto)
  have "map_of (foldl (add_slot c) (add_slot c vt x) ms) m =
    (if \<exists>y \<in> set ms. dispatched y \<and> member_name y = m then Some c else map_of (add_slot c vt x) m)"
    by (rule Cons.IH) (use Cons.prems n in auto)
  with x show ?case by (auto split: if_splits)
qed simp

lemma own_decl_iff: "own_decl d m \<noteq> None \<longleftrightarrow> (\<exists>x \<in> set (members d). dispatched x \<and> member_name x = m)"
  by (auto simp: own_decl_def find_None_iff)

fun chain_ok :: "('c \<Rightarrow> 'c class_decl) \<Rightarrow> 'c list \<Rightarrow> bool" where
  "chain_ok env [] = True"
| "chain_ok env (c # cs) = (class_ok env c cs \<and> chain_ok env cs)"

lemma vtable_overrider: "chain_ok env cs \<Longrightarrow> map_of (vtable env cs) m = overrider env cs m"
proof (induction cs)
  case Nil
  then show ?case by (simp add: vtable_def)
next
  case (Cons c cs)
  have "set (map fst (vtable env cs)) = set (slot_names env cs)" by (simp only: vtable_names)
  then have s: "fst ` set (vtable env cs) = set (slot_names env cs)" by simp
  have "map_of (extend_vtable env c (vtable env cs)) m =
    (if \<exists>x \<in> set (members (env c)). dispatched x \<and> member_name x = m then Some c
     else map_of (vtable env cs) m)"
    unfolding extend_vtable_def
    by (rule map_of_fold_slots)
      (use Cons.prems s in \<open>auto simp: class_ok_def new_names_def override_names_def\<close>)
  with Cons own_decl_iff [of "env c" m] show ?case
    by (simp only: vtable_Cons overrider.simps chain_ok.simps simp_thms if_True if_False split: if_splits)
qed

lemma dispatched_name:
  "x \<in> set ms \<Longrightarrow> dispatched x \<Longrightarrow> member_name x \<in> set (concat (map introduced ms) @ concat (map overridden ms))"
  by (cases x rule: dispatched.cases) force+

lemma own_decl_names: "own_decl d m \<noteq> None \<Longrightarrow> m \<in> set (new_names d) \<union> set (override_names d)"
  unfolding own_decl_iff new_names_def override_names_def using dispatched_name by fastforce

text \<open>A \<open>final\<close> method is what every class below dispatches to.\<close>

lemma final_not_overridden:
  assumes "chain_ok env (cs @ b # bs)" "m \<in> set (final_names (env b))"
    "m \<in> set (slot_names env (b # bs))"
  shows "overrider env (cs @ b # bs) m = overrider env (b # bs) m"
  using assms(1)
proof (induction cs)
  case (Cons c cs)
  have o: "class_ok env c (cs @ b # bs)" using Cons.prems by simp
  have "m \<in> set (slot_names env (cs @ b # bs))"
    using assms(3) by (auto simp: slot_names_def)
  then have "m \<notin> set (new_names (env c))" "m \<notin> set (override_names (env c))"
    using o assms(2) by (auto simp: class_ok_def final_slots_def)
  then have "own_decl (env c) m = None" using own_decl_names by fastforce
  with Cons show ?case by simp
qed simp

section \<open>Fuel\<close>

lemma chain_more_fuel: "chain env n c = Some cs \<Longrightarrow> chain env (n + k) c = Some cs"
proof (induction env n c arbitrary: cs rule: chain.induct)
  case (2 env n c)
  then show ?case by (auto split: option.splits)
qed simp

lemma chain_length: "chain env n c = Some cs \<Longrightarrow> length cs \<le> n"
proof (induction env n c arbitrary: cs rule: chain.induct)
  case (2 env n c)
  then show ?case by (fastforce split: option.splits)
qed simp

lemma chain_fuel_step:
  assumes "chain env n c \<noteq> None" "\<And>b. chain env n b \<noteq> None"
  shows "(case chain env n c of Some cs \<Rightarrow> cs | None \<Rightarrow> []) = c # (case base_of (env c) of None \<Rightarrow> []
      | Some b \<Rightarrow> (case chain env n b of Some cs \<Rightarrow> cs | None \<Rightarrow> []))"
proof (cases n)
  case (Suc k)
  show ?thesis
  proof (cases "base_of (env c)")
    case (Some b)
    with assms(1) Suc obtain cs where cs: "chain env k b = Some cs" by auto
    with chain_more_fuel [OF cs, of 1] Suc have "chain env n b = Some cs" by simp
    with Some Suc cs show ?thesis by simp
  qed (use Suc in simp)
qed (use assms(1) in simp)

section \<open>Class tables\<close>

text \<open>What a set of declarations has to satisfy: every class has the chain of its base
  class below itself, and is well formed over it.\<close>

locale class_table =
  fixes env :: "'c \<Rightarrow> 'c class_decl" and chain_of :: "'c \<Rightarrow> 'c list"
  assumes chain_step: "chain_of c = c # (case base_of (env c) of None \<Rightarrow> [] | Some b \<Rightarrow> chain_of b)"
    and declared_ok: "class_ok env c (tl (chain_of c))"
begin

lemma chain_root: "base_of (env c) = None \<Longrightarrow> chain_of c = [c]"
  by (subst chain_step) simp

lemma chain_base: "base_of (env c) = Some b \<Longrightarrow> chain_of c = c # chain_of b"
  by (subst chain_step) simp

lemma chain_split: "chain_of c = xs @ b # ys \<Longrightarrow> chain_of b = b # ys"
proof (induction xs arbitrary: c)
  case Nil
  then have "b = c" by (subst (asm) chain_step) simp
  with Nil show ?case by simp
next
  case (Cons x xs)
  show ?case
  proof (cases "base_of (env c)")
    case None
    with Cons.prems show ?thesis by (simp add: chain_root)
  next
    case (Some d)
    with Cons.prems have "chain_of d = xs @ b # ys" by (simp add: chain_base)
    then show ?thesis by (rule Cons.IH)
  qed
qed

lemma chain_all_ok: "chain_ok env (chain_of c)"
proof (induction "length (chain_of c)" arbitrary: c rule: less_induct)
  case less
  show ?case
  proof (cases "base_of (env c)")
    case None
    with declared_ok [of c] show ?thesis by (simp add: chain_root)
  next
    case (Some b)
    with declared_ok [of c] less show ?thesis by (simp add: chain_base)
  qed
qed

text \<open>The table of a class holds the final overrider of every virtual method.\<close>

lemma dispatch: "map_of (vtable env (chain_of c)) m = overrider env (chain_of c) m"
  by (rule vtable_overrider [OF chain_all_ok])

lemma inherits_suffix: "inherits env c d \<Longrightarrow> \<exists>pre. chain_of c = pre @ chain_of d"
proof (induction rule: inherits.induct)
  case (inherits_refl c)
  show ?case by (rule exI [of _ "[]"]) simp
next
  case (inherits_step c b d)
  then obtain pre where "chain_of b = pre @ chain_of d" by blast
  with inherits_step(1) show ?case by (intro exI [of _ "c # pre"]) (simp add: chain_base)
qed

lemma inherits_iff: "inherits env c d \<longleftrightarrow> d \<in> set (chain_of c)"
proof
  assume "inherits env c d"
  then obtain pre where "chain_of c = pre @ chain_of d" using inherits_suffix by blast
  then show "d \<in> set (chain_of c)" by (subst (asm) (2) chain_step) simp
next
  show "d \<in> set (chain_of c) \<Longrightarrow> inherits env c d"
  proof (induction "length (chain_of c)" arbitrary: c rule: less_induct)
    case less
    show ?case
    proof (cases "base_of (env c)")
      case None
      with less.prems show ?thesis by (simp add: chain_root inherits_refl)
    next
      case (Some b)
      with less show ?thesis
        using inherits_refl inherits_step [of env, OF Some] by (auto simp: chain_base)
    qed
  qed
qed

lemma inherits_antisym:
  assumes "inherits env c d" "inherits env d c"
  shows "c = d"
proof -
  obtain p q where "chain_of c = p @ chain_of d" "chain_of d = q @ chain_of c"
    using assms inherits_suffix by metis
  then have "chain_of c = chain_of d" by simp
  then show ?thesis by (metis chain_step list.inject)
qed

lemma inherits_trans: "inherits env c d \<Longrightarrow> inherits env d e \<Longrightarrow> inherits env c e"
proof (induction rule: inherits.induct)
  case (inherits_step c b d)
  then show ?case using inherits.inherits_step [of env, OF inherits_step(1)] by simp
qed

text \<open>A pointer to a derived object used through a base class finds the same slots.\<close>

lemma slots_of_base:
  assumes "inherits env c d"
  shows "\<exists>rest. map fst (vtable env (chain_of c)) = map fst (vtable env (chain_of d)) @ rest"
proof -
  obtain pre where "chain_of c = pre @ chain_of d" using inherits_suffix [OF assms] by blast
  then show ?thesis by (simp add: vtable_names slot_names_def)
qed

lemma final_method_kept:
  assumes "inherits env c d" "m \<in> set (final_names (env d))" "m \<in> set (slot_names env (chain_of d))"
  shows "overrider env (chain_of c) m = overrider env (chain_of d) m"
proof -
  obtain pre where p: "chain_of c = pre @ chain_of d" using inherits_suffix [OF assms(1)] by blast
  obtain bs where d: "chain_of d = d # bs" by (metis chain_step)
  have "chain_ok env (pre @ d # bs)" using chain_all_ok [of c] p d by simp
  from final_not_overridden [OF this assms(2)] assms(3) p d show ?thesis by simp
qed

lemma final_class_is_leaf:
  assumes "inherits env c d" "final_class (env d)"
  shows "c = d"
  using assms(1)
proof (cases rule: inherits.cases)
  case (inherits_step b)
  have "\<not> final_class (env d)"
    using inherits_step(2,1)
  proof (induction arbitrary: c rule: inherits.induct)
    case (inherits_refl b)
    have "take 1 (tl (chain_of c)) = [b]"
      using chain_base [OF inherits_refl] by (subst (asm) (2) chain_step) simp
    with declared_ok [of c] show ?case by (simp add: class_ok_def)
  next
    case (inherits_step b b' d)
    from inherits_step.IH [OF inherits_step.hyps(1)] show ?case .
  qed
  with assms(2) show ?thesis by simp
qed simp

end

end
