(* ===== verification/Ast_Names.thy ===== *)
theory Ast_Names
  imports Prelude
begin

text \<open>
  The names of the C++ classes that the headers of compiler/include/dmd declare below
  \<open>RootObject\<close>, one datatype per family of AST nodes, in the order of the headers:
  \<open>expression_node\<close> (expression.h, ctfe.h), \<open>statement_node\<close> (statement.h),
  \<open>type_node\<close> (mtype.h), \<open>dsymbol_node\<close> (dsymbol.h, declaration.h, aggregate.h,
  attrib.h, enum.h, import.h, module.h, nspace.h, statement.h, staticassert.h,
  template.h, version.h, aliasthis.h) and \<open>other_node\<close> for the others (rootobject.h,
  ast_node.h, cond.h, init.h, mtype.h, template.h, dsymbol.h, identifier.h, statement.h).
  The last constructors of a family are classes that visitor.h only declares forward.
\<close>

datatype (plugins only:) other_node =
    RootObject | ASTNode | Condition | StaticForeach | DVCondition | DebugCondition
    | VersionCondition | StaticIfCondition | Initializer | VoidInitializer | DefaultInitializer
    | ErrorInitializer | StructInitializer | ArrayInitializer | ExpInitializer | CInitializer
    | Parameter | Tuple | TemplateParameter | TemplateTypeParameter | TemplateThisParameter
    | TemplateValueParameter | TemplateAliasParameter | TemplateTupleParameter | DsymbolTable
    | Identifier | Catch

datatype (plugins only:) statement_node =
    Statement | ErrorStatement | PeelStatement | ExpStatement | DtorExpStatement
    | MixinStatement | CompoundStatement | CompoundDeclarationStatement | UnrolledLoopStatement
    | ScopeStatement | ForwardingStatement | WhileStatement | DoStatement | ForStatement
    | ForeachStatement | ForeachRangeStatement | IfStatement | ConditionalStatement
    | StaticForeachStatement | PragmaStatement | StaticAssertStatement | SwitchStatement
    | CaseStatement | CaseRangeStatement | DefaultStatement | GotoDefaultStatement
    | GotoCaseStatement | SwitchErrorStatement | ReturnStatement | BreakStatement
    | ContinueStatement | SynchronizedStatement | WithStatement | TryCatchStatement
    | TryFinallyStatement | ScopeGuardStatement | ThrowStatement | DebugStatement
    | GotoStatement | LabelStatement | AsmStatement | InlineAsmStatement | GccAsmStatement
    | CompoundAsmStatement | ImportStatement

datatype (plugins only:) type_node =
    Type | TypeError | TypeNext | TypeBasic | TypeVector | TypeArray | TypeSArray | TypeDArray
    | TypeAArray | TypePointer | TypeReference | TypeFunction | TypeDelegate | TypeTraits
    | TypeMixin | TypeQualified | TypeIdentifier | TypeInstance | TypeTypeof | TypeReturn
    | TypeStruct | TypeEnum | TypeClass | TypeTuple | TypeSlice | TypeNull | TypeNoreturn
    | TypeTag

datatype (plugins only:) dsymbol_node =
    Dsymbol | ScopeDsymbol | WithScopeSymbol | ArrayScopeSymbol | OverloadSet
    | ForwardingScopeDsymbol | ExpressionDsymbol | CAsmDeclaration | Declaration
    | TupleDeclaration | AliasDeclaration | OverDeclaration | VarDeclaration
    | BitFieldDeclaration | SymbolDeclaration | TypeInfoDeclaration | TypeInfoStructDeclaration
    | TypeInfoClassDeclaration | TypeInfoInterfaceDeclaration | TypeInfoPointerDeclaration
    | TypeInfoArrayDeclaration | TypeInfoStaticArrayDeclaration
    | TypeInfoAssociativeArrayDeclaration | TypeInfoEnumDeclaration
    | TypeInfoFunctionDeclaration | TypeInfoDelegateDeclaration | TypeInfoTupleDeclaration
    | TypeInfoConstDeclaration | TypeInfoInvariantDeclaration | TypeInfoSharedDeclaration
    | TypeInfoWildDeclaration | TypeInfoVectorDeclaration | ThisDeclaration | FuncDeclaration
    | FuncAliasDeclaration | FuncLiteralDeclaration | CtorDeclaration | PostBlitDeclaration
    | DtorDeclaration | StaticCtorDeclaration | SharedStaticCtorDeclaration
    | StaticDtorDeclaration | SharedStaticDtorDeclaration | InvariantDeclaration
    | UnitTestDeclaration | NewDeclaration | AggregateDeclaration | StructDeclaration
    | UnionDeclaration | ClassDeclaration | InterfaceDeclaration | AttribDeclaration
    | StorageClassDeclaration | DeprecatedDeclaration | LinkDeclaration | CPPMangleDeclaration
    | CPPNamespaceDeclaration | VisibilityDeclaration | AlignDeclaration | AnonDeclaration
    | PragmaDeclaration | ConditionalDeclaration | StaticIfDeclaration
    | StaticForeachDeclaration | ForwardingAttribDeclaration | MixinDeclaration
    | UserAttributeDeclaration | UnpackDeclaration | EnumDeclaration | EnumMember | Import
    | Package | Module | Nspace | LabelDsymbol | StaticAssert | TemplateDeclaration
    | TemplateInstance | TemplateMixin | DebugSymbol | VersionSymbol | AliasThis | AliasAssign

datatype (plugins only:) expression_node =
    Expression | IntegerExp | ErrorExp | RealExp | ComplexExp | IdentifierExp | DollarExp
    | DsymbolExp | ThisExp | SuperExp | NullExp | StringExp | InterpExp | TupleExp
    | ArrayLiteralExp | AssocArrayLiteralExp | StructLiteralExp | TypeExp | ScopeExp
    | TemplateExp | NewExp | NewAnonClassExp | SymbolExp | SymOffExp | VarExp | OverExp
    | FuncExp | DeclarationExp | TypeidExp | TraitsExp | HaltExp | IsExp | UnaExp | BinExp
    | BinAssignExp | MixinExp | ImportExp | AssertExp | ThrowExp | DotIdExp | DotTemplateExp
    | DotVarExp | DotTemplateInstanceExp | DelegateExp | DotTypeExp | CallExp | AddrExp | PtrExp
    | NegExp | UAddExp | ComExp | NotExp | DeleteExp | CastExp | VectorExp | VectorArrayExp
    | SliceExp | ArrayLengthExp | IntervalExp | DelegatePtrExp | DelegateFuncptrExp | ArrayExp
    | DotExp | CommaExp | IndexExp | PostExp | PreExp | AssignExp | ConstructExp
    | LoweredAssignExp | BlitExp | AddAssignExp | MinAssignExp | MulAssignExp | DivAssignExp
    | ModAssignExp | AndAssignExp | OrAssignExp | XorAssignExp | PowAssignExp | ShlAssignExp
    | ShrAssignExp | UshrAssignExp | CatAssignExp | CatElemAssignExp | CatDcharAssignExp
    | AddExp | MinExp | CatExp | MulExp | DivExp | ModExp | PowExp | ShlExp | ShrExp | UshrExp
    | AndExp | OrExp | XorExp | LogicalExp | CmpExp | InExp | RemoveExp | EqualExp | IdentityExp
    | CondExp | DefaultInitExp | ObjcClassReferenceExp | ClassReferenceExp | VoidInitExp
    | ThrownExceptionExp | CTFEExp | GenericExp | CompoundLiteralExp

text \<open>All classes: expressions, statements, types, symbols and other nodes.\<close>

datatype (plugins only:) cls =
    E expression_node | S statement_node | T type_node | D dsymbol_node | N other_node

end
