(* ===== verification/Ast_Nodes.thy ===== *)
theory Ast_Nodes
  imports Cpp_Class Ast_Names
begin

text \<open>
  The classes of the object hierarchy that are neither expressions, statements, types nor
  symbols: the roots (rootobject.h, ast_node.h), conditions (cond.h), initializers
  (init.h), template parameters (template.h), \<open>Parameter\<close> (mtype.h), \<open>Identifier\<close>,
  \<open>Catch\<close>, \<open>DsymbolTable\<close> and \<open>Tuple\<close>, each with its members in order.
\<close>

definition RootObject_class :: "cls class_decl" where
  "RootObject_class = Class None False
    [Method Plain False ''RootObject'' Inline, Method Virtual False ''toChars'' Extern,
     Method Virtual False ''toString'' Extern, Method Virtual False ''dyncast'' Extern]"

definition ASTNode_class :: "cls class_decl" where
  "ASTNode_class = Class (Some (N RootObject)) False
    [Method Virtual False ''accept'' Pure]"

definition Condition_class :: "cls class_decl" where
  "Condition_class = Class (Some (N ASTNode)) False
    [Field (Named ''Loc'') ''loc'', Field (Named ''Include'') ''inc'',
     Method Override True ''dyncast'' (Return_dyncast DYNCAST_CONDITION),
     Method Virtual False ''syntaxCopy'' Pure,
     Method Virtual False ''isDebugCondition'' Return_null,
     Method Virtual False ''isVersionCondition'' Return_null,
     Method Override False ''accept'' Visit_this]"

definition StaticForeach_class :: "cls class_decl" where
  "StaticForeach_class = Class (Some (N RootObject)) True
    [Field (Named ''Loc'') ''loc'', Field (Pointer (Named ''ForeachStatement'')) ''aggrfe'',
     Field (Pointer (Named ''ForeachRangeStatement'')) ''rangefe'',
     Field (Named ''d_bool'') ''needExpansion'']"

definition DVCondition_class :: "cls class_decl" where
  "DVCondition_class = Class (Some (N Condition)) False
    [Field (Pointer (Named ''Identifier'')) ''ident'',
     Field (Pointer (Named ''Module'')) ''mod'', Method Override True ''syntaxCopy'' Extern,
     Method Override False ''accept'' Visit_this]"

definition DebugCondition_class :: "cls class_decl" where
  "DebugCondition_class = Class (Some (N DVCondition)) True
    [Method Static False ''addGlobalIdent'' Extern, Method Override False ''accept'' Visit_this]"

definition VersionCondition_class :: "cls class_decl" where
  "VersionCondition_class = Class (Some (N DVCondition)) True
    [Method Static False ''addGlobalIdent'' Extern,
     Method Static False ''addPredefinedGlobalIdent'' Extern,
     Method Override False ''accept'' Visit_this]"

definition StaticIfCondition_class :: "cls class_decl" where
  "StaticIfCondition_class = Class (Some (N Condition)) True
    [Field (Pointer (Named ''Expression'')) ''exp'', Method Override False ''syntaxCopy'' Extern,
     Method Override False ''accept'' Visit_this]"

definition Initializer_class :: "cls class_decl" where
  "Initializer_class = Class (Some (N ASTNode)) False
    [Field (Named ''Loc'') ''loc'', Field (Named ''unsigned char'') ''kind'',
     Field (Named ''d_bool'') ''semanticDone'',
     Method Override False ''dyncast'' (Return_dyncast DYNCAST_INITIALIZER),
     Method Plain False ''isErrorInitializer'' Extern,
     Method Plain False ''isVoidInitializer'' Extern,
     Method Plain False ''isDefaultInitializer'' Extern,
     Method Plain False ''isStructInitializer'' Extern,
     Method Plain False ''isArrayInitializer'' Extern,
     Method Plain False ''isExpInitializer'' Extern,
     Method Plain False ''isCInitializer'' Extern, Method Override False ''accept'' Visit_this]"

definition VoidInitializer_class :: "cls class_decl" where
  "VoidInitializer_class = Class (Some (N Initializer)) True
    [Field (Pointer (Named ''Type'')) ''type'', Method Override False ''accept'' Visit_this]"

definition DefaultInitializer_class :: "cls class_decl" where
  "DefaultInitializer_class = Class (Some (N Initializer)) True
    [Field (Pointer (Named ''Type'')) ''type'', Method Override False ''accept'' Visit_this]"

definition ErrorInitializer_class :: "cls class_decl" where
  "ErrorInitializer_class = Class (Some (N Initializer)) True
    [Method Override False ''accept'' Visit_this]"

definition StructInitializer_class :: "cls class_decl" where
  "StructInitializer_class = Class (Some (N Initializer)) True
    [Field (Named ''Identifiers'') ''field'', Field (Named ''Initializers'') ''value'',
     Method Override False ''accept'' Visit_this]"

definition ArrayInitializer_class :: "cls class_decl" where
  "ArrayInitializer_class = Class (Some (N Initializer)) True
    [Field (Named ''Initializers'') ''index'', Field (Named ''Initializers'') ''value'',
     Field (Named ''unsigned'') ''dim'', Field (Pointer (Named ''Type'')) ''type'',
     Field (Named ''d_bool'') ''isCarray'', Method Plain False ''isAssociativeArray'' Extern,
     Method Override False ''accept'' Visit_this]"

definition ExpInitializer_class :: "cls class_decl" where
  "ExpInitializer_class = Class (Some (N Initializer)) True
    [Field (Named ''d_bool'') ''expandTuples'', Field (Pointer (Named ''Expression'')) ''exp'',
     Method Override False ''accept'' Visit_this]"

definition CInitializer_class :: "cls class_decl" where
  "CInitializer_class = Class (Some (N Initializer)) True
    [Field (Named ''DesigInits'') ''initializerList'',
     Method Override False ''accept'' Visit_this]"

definition Parameter_class :: "cls class_decl" where
  "Parameter_class = Class (Some (N ASTNode)) True
    [Field (Named ''Loc'') ''loc'', Field (Named ''StorageClass'') ''storageClass'',
     Field (Pointer (Named ''Type'')) ''type'', Field (Pointer (Named ''Identifier'')) ''ident'',
     Field (Pointer (Named ''Expression'')) ''defaultArg'',
     Field (Pointer (Named ''UserAttributeDeclaration'')) ''userAttribDecl'',
     Field (Pointer (Named ''UnpackDeclaration'')) ''unpack'',
     Method Static False ''create'' Extern, Method Plain False ''syntaxCopy'' Extern,
     Method Plain False ''isLazy'' Extern, Method Plain False ''isReference'' Extern,
     Method Override False ''dyncast'' (Return_dyncast DYNCAST_PARAMETER),
     Method Override False ''accept'' Visit_this, Method Static False ''dim'' Extern,
     Method Static False ''getNth'' Extern, Method Override False ''toChars'' Extern,
     Method Plain False ''isCovariant'' Extern]"

definition Tuple_class :: "cls class_decl" where
  "Tuple_class = Class (Some (N RootObject)) True
    [Field (Named ''Objects'') ''objects'',
     Method Override False ''dyncast'' (Return_dyncast DYNCAST_TUPLE),
     Method Override False ''toChars'' Extern]"

definition TemplateParameter_class :: "cls class_decl" where
  "TemplateParameter_class = Class (Some (N ASTNode)) False
    [Field (Pointer (Named ''Identifier'')) ''ident'', Field (Named ''Loc'') ''loc'',
     Field (Named ''d_bool'') ''dependent'',
     Method Virtual False ''isTemplateTypeParameter'' Extern,
     Method Virtual False ''isTemplateValueParameter'' Extern,
     Method Virtual False ''isTemplateAliasParameter'' Extern,
     Method Virtual False ''isTemplateThisParameter'' Extern,
     Method Virtual False ''isTemplateTupleParameter'' Extern,
     Method Virtual False ''syntaxCopy'' Pure, Method Virtual False ''print'' Pure,
     Method Virtual False ''specialization'' Pure, Method Virtual False ''hasDefaultArg'' Pure,
     Method Override False ''dyncast'' (Return_dyncast DYNCAST_TEMPLATEPARAMETER),
     Method Override False ''accept'' Visit_this]"

definition TemplateTypeParameter_class :: "cls class_decl" where
  "TemplateTypeParameter_class = Class (Some (N TemplateParameter)) False
    [Field (Pointer (Named ''Type'')) ''specType'',
     Field (Pointer (Named ''Type'')) ''defaultType'',
     Method Override True ''isTemplateTypeParameter'' Extern,
     Method Override False ''syntaxCopy'' Extern, Method Override True ''print'' Extern,
     Method Override True ''specialization'' Extern,
     Method Override True ''hasDefaultArg'' Extern, Method Override False ''accept'' Visit_this]"

definition TemplateThisParameter_class :: "cls class_decl" where
  "TemplateThisParameter_class = Class (Some (N TemplateTypeParameter)) True
    [Method Override False ''isTemplateThisParameter'' Extern,
     Method Override False ''syntaxCopy'' Extern, Method Override False ''accept'' Visit_this]"

definition TemplateValueParameter_class :: "cls class_decl" where
  "TemplateValueParameter_class = Class (Some (N TemplateParameter)) True
    [Field (Pointer (Named ''Type'')) ''valType'',
     Field (Pointer (Named ''Expression'')) ''specValue'',
     Field (Pointer (Named ''Expression'')) ''defaultValue'',
     Method Override False ''isTemplateValueParameter'' Extern,
     Method Override False ''syntaxCopy'' Extern, Method Override False ''print'' Extern,
     Method Override False ''specialization'' Extern,
     Method Override False ''hasDefaultArg'' Extern,
     Method Override False ''accept'' Visit_this]"

definition TemplateAliasParameter_class :: "cls class_decl" where
  "TemplateAliasParameter_class = Class (Some (N TemplateParameter)) True
    [Field (Pointer (Named ''Type'')) ''specType'',
     Field (Pointer (Named ''RootObject'')) ''specAlias'',
     Field (Pointer (Named ''RootObject'')) ''defaultAlias'',
     Method Override False ''isTemplateAliasParameter'' Extern,
     Method Override False ''syntaxCopy'' Extern, Method Override False ''print'' Extern,
     Method Override False ''specialization'' Extern,
     Method Override False ''hasDefaultArg'' Extern,
     Method Override False ''accept'' Visit_this]"

definition TemplateTupleParameter_class :: "cls class_decl" where
  "TemplateTupleParameter_class = Class (Some (N TemplateParameter)) True
    [Method Override False ''isTemplateTupleParameter'' Extern,
     Method Override False ''syntaxCopy'' Extern, Method Override False ''print'' Extern,
     Method Override False ''specialization'' Extern,
     Method Override False ''hasDefaultArg'' Extern,
     Method Override False ''accept'' Visit_this]"

definition DsymbolTable_class :: "cls class_decl" where
  "DsymbolTable_class = Class (Some (N RootObject)) True
    [Field (Pointer (Named ''AA'')) ''tab'', Method Plain False ''lookup'' Extern,
     Method Plain False ''update'' Extern, Method Plain False ''insert'' Extern,
     Method Plain False ''insert'' Extern, Method Plain False ''length'' Extern]"

definition Identifier_class :: "cls class_decl" where
  "Identifier_class = Class (Some (N RootObject)) True
    [Field (Named ''int'') ''value'', Field (Named ''d_bool'') ''isAnonymous_'',
     Field (Named ''DString'') ''string'', Method Static False ''create'' Extern,
     Method Override False ''toChars'' Extern, Method Plain False ''getValue'' Extern,
     Method Plain False ''isAnonymous'' Extern, Method Plain False ''toHChars2'' Extern,
     Method Override False ''dyncast'' Extern, Method Plain False ''equals'' Inline,
     Method Static False ''generateId'' Extern, Method Static False ''idPool'' Extern,
     Method Static False ''idPool'' Inline, Method Static False ''isValidIdentifier'' Extern]"

definition Catch_class :: "cls class_decl" where
  "Catch_class = Class (Some (N RootObject)) True
    [Field (Named ''Loc'') ''loc'', Field (Pointer (Named ''Type'')) ''type'',
     Field (Pointer (Named ''Identifier'')) ''ident'',
     Field (Pointer (Named ''Statement'')) ''handler'',
     Field (Pointer (Named ''VarDeclaration'')) ''var'', Field (Named ''d_bool'') ''errors'',
     Field (Named ''d_bool'') ''internalCatch'', Method Plain False ''syntaxCopy'' Extern]"

primrec other_decl :: "other_node \<Rightarrow> cls class_decl" where
  "other_decl RootObject = RootObject_class"
| "other_decl ASTNode = ASTNode_class"
| "other_decl Condition = Condition_class"
| "other_decl StaticForeach = StaticForeach_class"
| "other_decl DVCondition = DVCondition_class"
| "other_decl DebugCondition = DebugCondition_class"
| "other_decl VersionCondition = VersionCondition_class"
| "other_decl StaticIfCondition = StaticIfCondition_class"
| "other_decl Initializer = Initializer_class"
| "other_decl VoidInitializer = VoidInitializer_class"
| "other_decl DefaultInitializer = DefaultInitializer_class"
| "other_decl ErrorInitializer = ErrorInitializer_class"
| "other_decl StructInitializer = StructInitializer_class"
| "other_decl ArrayInitializer = ArrayInitializer_class"
| "other_decl ExpInitializer = ExpInitializer_class"
| "other_decl CInitializer = CInitializer_class"
| "other_decl Parameter = Parameter_class"
| "other_decl Tuple = Tuple_class"
| "other_decl TemplateParameter = TemplateParameter_class"
| "other_decl TemplateTypeParameter = TemplateTypeParameter_class"
| "other_decl TemplateThisParameter = TemplateThisParameter_class"
| "other_decl TemplateValueParameter = TemplateValueParameter_class"
| "other_decl TemplateAliasParameter = TemplateAliasParameter_class"
| "other_decl TemplateTupleParameter = TemplateTupleParameter_class"
| "other_decl DsymbolTable = DsymbolTable_class"
| "other_decl Identifier = Identifier_class"
| "other_decl Catch = Catch_class"

lemmas other_class_defs =
  RootObject_class_def ASTNode_class_def Condition_class_def StaticForeach_class_def
  DVCondition_class_def DebugCondition_class_def VersionCondition_class_def
  StaticIfCondition_class_def Initializer_class_def VoidInitializer_class_def
  DefaultInitializer_class_def ErrorInitializer_class_def StructInitializer_class_def
  ArrayInitializer_class_def ExpInitializer_class_def CInitializer_class_def Parameter_class_def
  Tuple_class_def TemplateParameter_class_def TemplateTypeParameter_class_def
  TemplateThisParameter_class_def TemplateValueParameter_class_def
  TemplateAliasParameter_class_def TemplateTupleParameter_class_def DsymbolTable_class_def
  Identifier_class_def Catch_class_def

end
