(* ===== verification/Ast_Statements.thy ===== *)
theory Ast_Statements
  imports Cpp_Class Ast_Names
begin

text \<open>
  The statement classes of compiler/include/dmd/statement.h, each with its members in
  the order of the header.
\<close>

definition Statement_class :: "cls class_decl" where
  "Statement_class = Class (Some (N ASTNode)) False
    [Field (Named ''Loc'') ''loc'', Field (Named ''STMT'') ''stmt'',
     Method Override True ''dyncast'' (Return_dyncast DYNCAST_STATEMENT),
     Method Virtual False ''syntaxCopy'' Extern,
     Method Virtual False ''getRelatedLabeled'' Return_this,
     Method Virtual False ''hasBreak'' Extern, Method Virtual False ''hasContinue'' Extern,
     Method Plain False ''hasCode'' Extern, Method Virtual False ''last'' Extern,
     Method Virtual False ''endsWithReturnStatement'' Return_null,
     Method Plain False ''isErrorStatement'' (Cast_if ''STMTerror'' (S ErrorStatement)),
     Method Plain False ''isScopeStatement'' (Cast_if ''STMTscope'' (S ScopeStatement)),
     Method Plain False ''isExpStatement'' (Cast_if ''STMTexp'' (S ExpStatement)),
     Method Plain False ''isCompoundStatement'' (Cast_if ''STMTcompound'' (S CompoundStatement)),
     Method Plain False ''isReturnStatement'' (Cast_if ''STMTreturn'' (S ReturnStatement)),
     Method Plain False ''isIfStatement'' (Cast_if ''STMTif'' (S IfStatement)),
     Method Plain False ''isConditionalStatement'' (Cast_if ''STMTconditional'' (S ConditionalStatement)),
     Method Plain False ''isStaticForeachStatement'' (Cast_if ''STMTstaticForeach'' (S StaticForeachStatement)),
     Method Plain False ''isCaseStatement'' (Cast_if ''STMTcase'' (S CaseStatement)),
     Method Plain False ''isDefaultStatement'' (Cast_if ''STMTdefault'' (S DefaultStatement)),
     Method Plain False ''isLabelStatement'' (Cast_if ''STMTlabel'' (S LabelStatement)),
     Method Plain False ''isGotoDefaultStatement'' (Cast_if ''STMTgotoDefault'' (S GotoDefaultStatement)),
     Method Plain False ''isGotoCaseStatement'' (Cast_if ''STMTgotoCase'' (S GotoCaseStatement)),
     Method Plain False ''isBreakStatement'' (Cast_if ''STMTbreak'' (S BreakStatement)),
     Method Plain False ''isDtorExpStatement'' (Cast_if ''STMTdtorExp'' (S DtorExpStatement)),
     Method Plain False ''isMixinStatement'' (Cast_if ''STMTmixin'' (S MixinStatement)),
     Method Plain False ''isForwardingStatement'' (Cast_if ''STMTforwarding'' (S ForwardingStatement)),
     Method Plain False ''isDoStatement'' (Cast_if ''STMTdo'' (S DoStatement)),
     Method Plain False ''isForStatement'' (Cast_if ''STMTfor'' (S ForStatement)),
     Method Plain False ''isForeachStatement'' (Cast_if ''STMTforeach'' (S ForeachStatement)),
     Method Plain False ''isSwitchStatement'' (Cast_if ''STMTswitch'' (S SwitchStatement)),
     Method Plain False ''isContinueStatement'' (Cast_if ''STMTcontinue'' (S ContinueStatement)),
     Method Plain False ''isWithStatement'' (Cast_if ''STMTwith'' (S WithStatement)),
     Method Plain False ''isTryCatchStatement'' (Cast_if ''STMTtryCatch'' (S TryCatchStatement)),
     Method Plain False ''isThrowStatement'' (Cast_if ''STMTthrow'' (S ThrowStatement)),
     Method Plain False ''isDebugStatement'' (Cast_if ''STMTdebug'' (S DebugStatement)),
     Method Plain False ''isTryFinallyStatement'' (Cast_if ''STMTtryFinally'' (S TryFinallyStatement)),
     Method Plain False ''isScopeGuardStatement'' (Cast_if ''STMTscopeGuard'' (S ScopeGuardStatement)),
     Method Plain False ''isSwitchErrorStatement'' (Cast_if ''STMTswitchError'' (S SwitchErrorStatement)),
     Method Plain False ''isUnrolledLoopStatement'' (Cast_if ''STMTunrolledLoop'' (S UnrolledLoopStatement)),
     Method Plain False ''isForeachRangeStatement'' (Cast_if ''STMTforeachRange'' (S ForeachRangeStatement)),
     Method Plain False ''isCompoundDeclarationStatement'' (Cast_if ''STMTcompoundDeclaration'' (S CompoundDeclarationStatement)),
     Method Override False ''accept'' Visit_this]"

definition ErrorStatement_class :: "cls class_decl" where
  "ErrorStatement_class = Class (Some (S Statement)) True
    [Method Override False ''syntaxCopy'' Extern, Method Override False ''accept'' Visit_this]"

definition PeelStatement_class :: "cls class_decl" where
  "PeelStatement_class = Class (Some (S Statement)) True
    [Field (Pointer (Named ''Statement'')) ''s'', Method Override False ''accept'' Visit_this]"

definition ExpStatement_class :: "cls class_decl" where
  "ExpStatement_class = Class (Some (S Statement)) False
    [Field (Pointer (Named ''Expression'')) ''exp'', Method Static False ''create'' Extern,
     Method Override False ''syntaxCopy'' Extern, Method Override False ''accept'' Visit_this]"

definition DtorExpStatement_class :: "cls class_decl" where
  "DtorExpStatement_class = Class (Some (S ExpStatement)) True
    [Field (Pointer (Named ''VarDeclaration'')) ''var'',
     Method Override False ''syntaxCopy'' Extern, Method Override False ''accept'' Visit_this]"

definition MixinStatement_class :: "cls class_decl" where
  "MixinStatement_class = Class (Some (S Statement)) True
    [Field (Pointer (Named ''Expressions'')) ''exps'',
     Method Override False ''syntaxCopy'' Extern, Method Override False ''accept'' Visit_this]"

definition CompoundStatement_class :: "cls class_decl" where
  "CompoundStatement_class = Class (Some (S Statement)) False
    [Field (Named ''Statements'') ''statements'', Method Static False ''create'' Extern,
     Method Override False ''syntaxCopy'' Extern,
     Method Override True ''endsWithReturnStatement'' Extern,
     Method Override True ''last'' Extern, Method Override False ''accept'' Visit_this]"

definition CompoundDeclarationStatement_class :: "cls class_decl" where
  "CompoundDeclarationStatement_class = Class (Some (S CompoundStatement)) True
    [Method Override False ''syntaxCopy'' Extern, Method Override False ''accept'' Visit_this]"

definition UnrolledLoopStatement_class :: "cls class_decl" where
  "UnrolledLoopStatement_class = Class (Some (S Statement)) True
    [Field (Named ''Statements'') ''statements'', Method Override False ''syntaxCopy'' Extern,
     Method Override False ''hasBreak'' Extern, Method Override False ''hasContinue'' Extern,
     Method Override False ''accept'' Visit_this]"

definition ScopeStatement_class :: "cls class_decl" where
  "ScopeStatement_class = Class (Some (S Statement)) True
    [Field (Pointer (Named ''Statement'')) ''statement'', Field (Named ''Loc'') ''endloc'',
     Method Override False ''syntaxCopy'' Extern,
     Method Override False ''endsWithReturnStatement'' Extern,
     Method Override False ''hasBreak'' Extern, Method Override False ''hasContinue'' Extern,
     Method Override False ''accept'' Visit_this]"

definition ForwardingStatement_class :: "cls class_decl" where
  "ForwardingStatement_class = Class (Some (S Statement)) True
    [Field (Pointer (Named ''ForwardingScopeDsymbol'')) ''sym'',
     Field (Pointer (Named ''Statement'')) ''statement'',
     Method Override False ''syntaxCopy'' Extern, Method Override False ''accept'' Visit_this]"

definition WhileStatement_class :: "cls class_decl" where
  "WhileStatement_class = Class (Some (S Statement)) True
    [Field (Pointer (Named ''Parameter'')) ''param'',
     Field (Pointer (Named ''Expression'')) ''condition'',
     Field (Pointer (Named ''Statement'')) ''_body'', Field (Named ''Loc'') ''endloc'',
     Method Override False ''syntaxCopy'' Extern, Method Override False ''hasBreak'' Extern,
     Method Override False ''hasContinue'' Extern, Method Override False ''accept'' Visit_this]"

definition DoStatement_class :: "cls class_decl" where
  "DoStatement_class = Class (Some (S Statement)) True
    [Field (Pointer (Named ''Statement'')) ''_body'',
     Field (Pointer (Named ''Expression'')) ''condition'', Field (Named ''Loc'') ''endloc'',
     Method Override False ''syntaxCopy'' Extern, Method Override False ''hasBreak'' Extern,
     Method Override False ''hasContinue'' Extern, Method Override False ''accept'' Visit_this]"

definition ForStatement_class :: "cls class_decl" where
  "ForStatement_class = Class (Some (S Statement)) True
    [Field (Pointer (Named ''Statement'')) ''_init'',
     Field (Pointer (Named ''Expression'')) ''condition'',
     Field (Pointer (Named ''Expression'')) ''increment'',
     Field (Pointer (Named ''Statement'')) ''_body'', Field (Named ''Loc'') ''endloc'',
     Field (Pointer (Named ''Statement'')) ''relatedLabeled'',
     Method Override False ''syntaxCopy'' Extern,
     Method Override False ''getRelatedLabeled'' Inline,
     Method Override False ''hasBreak'' Extern, Method Override False ''hasContinue'' Extern,
     Method Override False ''accept'' Visit_this]"

definition ForeachStatement_class :: "cls class_decl" where
  "ForeachStatement_class = Class (Some (S Statement)) True
    [Field (Named ''TOK'') ''op'', Field (Pointer (Named ''Parameters'')) ''parameters'',
     Field (Pointer (Named ''Expression'')) ''aggr'',
     Field (Pointer (Named ''Statement'')) ''_body'', Field (Named ''Loc'') ''endloc'',
     Field (Pointer (Named ''VarDeclaration'')) ''key'',
     Field (Pointer (Named ''VarDeclaration'')) ''value'',
     Field (Pointer (Named ''FuncDeclaration'')) ''func'',
     Field (Pointer (Named ''Statements'')) ''cases'',
     Field (Pointer (Named ''ScopeStatements'')) ''gotos'',
     Method Override False ''syntaxCopy'' Extern, Method Override False ''hasBreak'' Extern,
     Method Override False ''hasContinue'' Extern, Method Override False ''accept'' Visit_this]"

definition ForeachRangeStatement_class :: "cls class_decl" where
  "ForeachRangeStatement_class = Class (Some (S Statement)) True
    [Field (Named ''TOK'') ''op'', Field (Pointer (Named ''Parameter'')) ''param'',
     Field (Pointer (Named ''Expression'')) ''lwr'',
     Field (Pointer (Named ''Expression'')) ''upr'',
     Field (Pointer (Named ''Statement'')) ''_body'', Field (Named ''Loc'') ''endloc'',
     Field (Pointer (Named ''VarDeclaration'')) ''key'',
     Method Override False ''syntaxCopy'' Extern, Method Override False ''hasBreak'' Extern,
     Method Override False ''hasContinue'' Extern, Method Override False ''accept'' Visit_this]"

definition IfStatement_class :: "cls class_decl" where
  "IfStatement_class = Class (Some (S Statement)) True
    [Field (Pointer (Named ''Parameter'')) ''param'',
     Field (Pointer (Named ''Expression'')) ''condition'',
     Field (Pointer (Named ''Statement'')) ''ifbody'',
     Field (Pointer (Named ''Statement'')) ''elsebody'', Field (Named ''Loc'') ''endloc'',
     Method Override False ''syntaxCopy'' Extern, Method Override False ''accept'' Visit_this,
     Method Plain False ''isIfCtfeBlock'' Extern]"

definition ConditionalStatement_class :: "cls class_decl" where
  "ConditionalStatement_class = Class (Some (S Statement)) True
    [Field (Pointer (Named ''Condition'')) ''condition'',
     Field (Pointer (Named ''Statement'')) ''ifbody'',
     Field (Pointer (Named ''Statement'')) ''elsebody'',
     Method Override False ''syntaxCopy'' Extern, Method Override False ''accept'' Visit_this]"

definition StaticForeachStatement_class :: "cls class_decl" where
  "StaticForeachStatement_class = Class (Some (S Statement)) True
    [Field (Pointer (Named ''StaticForeach'')) ''sfe'',
     Method Override False ''syntaxCopy'' Extern, Method Override False ''accept'' Visit_this]"

definition PragmaStatement_class :: "cls class_decl" where
  "PragmaStatement_class = Class (Some (S Statement)) True
    [Field (Pointer (Named ''Identifier'')) ''ident'',
     Field (Pointer (Named ''Expressions'')) ''args'',
     Field (Pointer (Named ''Statement'')) ''_body'',
     Method Override False ''syntaxCopy'' Extern, Method Override False ''accept'' Visit_this]"

definition StaticAssertStatement_class :: "cls class_decl" where
  "StaticAssertStatement_class = Class (Some (S Statement)) True
    [Field (Pointer (Named ''StaticAssert'')) ''sa'',
     Method Override False ''syntaxCopy'' Extern, Method Override False ''accept'' Visit_this]"

definition SwitchStatement_class :: "cls class_decl" where
  "SwitchStatement_class = Class (Some (S Statement)) True
    [Field (Pointer (Named ''Parameter'')) ''param'',
     Field (Pointer (Named ''Expression'')) ''condition'',
     Field (Pointer (Named ''Statement'')) ''_body'', Field (Named ''d_bool'') ''isFinal'',
     Field (Named ''Loc'') ''endloc'', Field (Named ''d_bool'') ''hasDefault'',
     Field (Named ''d_bool'') ''hasVars'',
     Field (Pointer (Named ''DefaultStatement'')) ''sdefault'',
     Field (Pointer (Named ''Statement'')) ''tryBody'',
     Field (Pointer (Named ''TryFinallyStatement'')) ''tf'',
     Field (Named ''GotoCaseStatements'') ''gotoCases'',
     Field (Pointer (Named ''CaseStatements'')) ''cases'',
     Field (Pointer (Named ''VarDeclaration'')) ''lastVar'',
     Method Override False ''syntaxCopy'' Extern, Method Override False ''hasBreak'' Extern,
     Method Override False ''accept'' Visit_this]"

definition CaseStatement_class :: "cls class_decl" where
  "CaseStatement_class = Class (Some (S Statement)) True
    [Field (Pointer (Named ''Expression'')) ''exp'',
     Field (Pointer (Named ''Statement'')) ''statement'', Field (Named ''int'') ''index'',
     Field (Pointer (Named ''VarDeclaration'')) ''lastVar'',
     Field (Pointer (Named ''void'')) ''extra'', Method Override False ''syntaxCopy'' Extern,
     Method Override False ''accept'' Visit_this]"

definition CaseRangeStatement_class :: "cls class_decl" where
  "CaseRangeStatement_class = Class (Some (S Statement)) True
    [Field (Pointer (Named ''Expression'')) ''first'',
     Field (Pointer (Named ''Expression'')) ''last'',
     Field (Pointer (Named ''Statement'')) ''statement'',
     Method Override False ''syntaxCopy'' Extern, Method Override False ''accept'' Visit_this]"

definition DefaultStatement_class :: "cls class_decl" where
  "DefaultStatement_class = Class (Some (S Statement)) True
    [Field (Pointer (Named ''Statement'')) ''statement'',
     Field (Pointer (Named ''VarDeclaration'')) ''lastVar'',
     Method Override False ''syntaxCopy'' Extern, Method Override False ''accept'' Visit_this]"

definition GotoDefaultStatement_class :: "cls class_decl" where
  "GotoDefaultStatement_class = Class (Some (S Statement)) True
    [Field (Pointer (Named ''SwitchStatement'')) ''sw'',
     Method Override False ''syntaxCopy'' Extern, Method Override False ''accept'' Visit_this]"

definition GotoCaseStatement_class :: "cls class_decl" where
  "GotoCaseStatement_class = Class (Some (S Statement)) True
    [Field (Pointer (Named ''Expression'')) ''exp'',
     Field (Pointer (Named ''CaseStatement'')) ''cs'',
     Method Override False ''syntaxCopy'' Extern, Method Override False ''accept'' Visit_this]"

definition SwitchErrorStatement_class :: "cls class_decl" where
  "SwitchErrorStatement_class = Class (Some (S Statement)) True
    [Field (Pointer (Named ''Expression'')) ''exp'',
     Method Override False ''accept'' Visit_this]"

definition ReturnStatement_class :: "cls class_decl" where
  "ReturnStatement_class = Class (Some (S Statement)) True
    [Field (Pointer (Named ''Expression'')) ''exp'', Field (Named ''size_t'') ''caseDim'',
     Field (Pointer (Named ''FuncDeclaration'')) ''fesFunc'',
     Field (Pointer (Named ''Scope'')) ''scope_'', Method Override False ''syntaxCopy'' Extern,
     Method Override False ''endsWithReturnStatement'' Return_this,
     Method Override False ''accept'' Visit_this]"

definition BreakStatement_class :: "cls class_decl" where
  "BreakStatement_class = Class (Some (S Statement)) True
    [Field (Pointer (Named ''Identifier'')) ''ident'',
     Method Override False ''syntaxCopy'' Extern, Method Override False ''accept'' Visit_this]"

definition ContinueStatement_class :: "cls class_decl" where
  "ContinueStatement_class = Class (Some (S Statement)) True
    [Field (Pointer (Named ''Identifier'')) ''ident'',
     Method Override False ''syntaxCopy'' Extern, Method Override False ''accept'' Visit_this]"

definition SynchronizedStatement_class :: "cls class_decl" where
  "SynchronizedStatement_class = Class (Some (S Statement)) True
    [Field (Pointer (Named ''Expression'')) ''exp'',
     Field (Pointer (Named ''Statement'')) ''_body'',
     Method Override False ''syntaxCopy'' Extern, Method Override False ''hasBreak'' Extern,
     Method Override False ''hasContinue'' Extern, Method Override False ''accept'' Visit_this]"

definition WithStatement_class :: "cls class_decl" where
  "WithStatement_class = Class (Some (S Statement)) True
    [Field (Pointer (Named ''Parameter'')) ''prm'',
     Field (Pointer (Named ''Expression'')) ''exp'',
     Field (Pointer (Named ''Statement'')) ''_body'',
     Field (Pointer (Named ''VarDeclaration'')) ''wthis'', Field (Named ''Loc'') ''endloc'',
     Method Override False ''syntaxCopy'' Extern, Method Override False ''accept'' Visit_this]"

definition TryCatchStatement_class :: "cls class_decl" where
  "TryCatchStatement_class = Class (Some (S Statement)) True
    [Field (Pointer (Named ''Statement'')) ''_body'',
     Field (Pointer (Named ''Catches'')) ''catches'',
     Field (Pointer (Named ''Statement'')) ''tryBody'',
     Field (Named ''TOK'') ''loweredFromScopeGuard'',
     Method Override False ''syntaxCopy'' Extern, Method Override False ''hasBreak'' Extern,
     Method Override False ''accept'' Visit_this]"

definition TryFinallyStatement_class :: "cls class_decl" where
  "TryFinallyStatement_class = Class (Some (S Statement)) True
    [Field (Pointer (Named ''Statement'')) ''_body'',
     Field (Pointer (Named ''Statement'')) ''finalbody'',
     Field (Pointer (Named ''Statement'')) ''tryBody'',
     Field (Named ''d_bool'') ''bodyFallsThru'', Field (Named ''TOK'') ''loweredFromScopeGuard'',
     Field (Pointer (Named ''VarDeclaration'')) ''loweredFrom'',
     Method Static False ''create'' Extern, Method Override False ''syntaxCopy'' Extern,
     Method Override False ''hasBreak'' Extern, Method Override False ''hasContinue'' Extern,
     Method Override False ''accept'' Visit_this]"

definition ScopeGuardStatement_class :: "cls class_decl" where
  "ScopeGuardStatement_class = Class (Some (S Statement)) True
    [Field (Named ''TOK'') ''tok'', Field (Pointer (Named ''Statement'')) ''statement'',
     Method Override False ''syntaxCopy'' Extern, Method Override False ''accept'' Visit_this]"

definition ThrowStatement_class :: "cls class_decl" where
  "ThrowStatement_class = Class (Some (S Statement)) True
    [Field (Pointer (Named ''Expression'')) ''exp'', Field (Named ''d_bool'') ''internalThrow'',
     Method Override False ''syntaxCopy'' Extern, Method Override False ''accept'' Visit_this]"

definition DebugStatement_class :: "cls class_decl" where
  "DebugStatement_class = Class (Some (S Statement)) True
    [Field (Pointer (Named ''Statement'')) ''statement'',
     Method Override False ''syntaxCopy'' Extern, Method Override False ''accept'' Visit_this]"

definition GotoStatement_class :: "cls class_decl" where
  "GotoStatement_class = Class (Some (S Statement)) True
    [Field (Pointer (Named ''Identifier'')) ''ident'',
     Field (Pointer (Named ''LabelDsymbol'')) ''label'',
     Field (Pointer (Named ''Statement'')) ''tryBody'',
     Field (Pointer (Named ''TryFinallyStatement'')) ''tf'',
     Field (Pointer (Named ''ScopeGuardStatement'')) ''os'',
     Field (Pointer (Named ''VarDeclaration'')) ''lastVar'',
     Field (Named ''d_bool'') ''inCtfeBlock'', Method Override False ''syntaxCopy'' Extern,
     Method Override False ''accept'' Visit_this]"

definition LabelStatement_class :: "cls class_decl" where
  "LabelStatement_class = Class (Some (S Statement)) True
    [Field (Pointer (Named ''Identifier'')) ''ident'',
     Field (Pointer (Named ''Statement'')) ''statement'',
     Field (Pointer (Named ''Statement'')) ''tryBody'',
     Field (Pointer (Named ''TryFinallyStatement'')) ''tf'',
     Field (Pointer (Named ''ScopeGuardStatement'')) ''os'',
     Field (Pointer (Named ''VarDeclaration'')) ''lastVar'',
     Field (Pointer (Named ''Statement'')) ''gotoTarget'',
     Field (Pointer (Named ''void'')) ''extra'', Field (Named ''d_bool'') ''breaks'',
     Field (Named ''d_bool'') ''inCtfeBlock'', Method Override False ''syntaxCopy'' Extern,
     Method Override False ''accept'' Visit_this]"

definition AsmStatement_class :: "cls class_decl" where
  "AsmStatement_class = Class (Some (S Statement)) False
    [Field (Pointer (Named ''Token'')) ''tokens'', Field (Named ''uint8_t'') ''bitFields'',
     Method Plain False ''caseSensitive'' Extern, Method Plain False ''caseSensitive'' Extern,
     Method Plain False ''isVolatile'' Extern, Method Plain False ''isVolatile'' Extern,
     Method Plain False ''isInline'' Extern, Method Plain False ''isInline'' Extern,
     Method Override False ''syntaxCopy'' Extern, Method Override False ''accept'' Visit_this]"

definition InlineAsmStatement_class :: "cls class_decl" where
  "InlineAsmStatement_class = Class (Some (S AsmStatement)) True
    [Field (Pointer (Named ''void'')) ''asmcode'', Field (Named ''unsigned long long'') ''regs'',
     Field (Named ''unsigned'') ''asmalign'', Field (Named ''d_bool'') ''refparam'',
     Field (Named ''d_bool'') ''naked'', Method Override False ''syntaxCopy'' Extern,
     Method Override False ''accept'' Visit_this]"

definition GccAsmStatement_class :: "cls class_decl" where
  "GccAsmStatement_class = Class (Some (S AsmStatement)) True
    [Field (Named ''StorageClass'') ''stc'', Field (Pointer (Named ''Expression'')) ''insn'',
     Field (Pointer (Named ''Expressions'')) ''args'', Field (Named ''unsigned'') ''outputargs'',
     Field (Pointer (Named ''Identifiers'')) ''names'',
     Field (Pointer (Named ''Expressions'')) ''constraints'',
     Field (Pointer (Named ''Expressions'')) ''clobbers'',
     Field (Pointer (Named ''Identifiers'')) ''labels'',
     Field (Pointer (Named ''GotoStatements'')) ''gotos'',
     Method Override False ''syntaxCopy'' Extern, Method Override False ''accept'' Visit_this]"

definition CompoundAsmStatement_class :: "cls class_decl" where
  "CompoundAsmStatement_class = Class (Some (S CompoundStatement)) True
    [Field (Named ''StorageClass'') ''stc'', Method Override False ''syntaxCopy'' Extern,
     Method Override False ''accept'' Visit_this]"

definition ImportStatement_class :: "cls class_decl" where
  "ImportStatement_class = Class (Some (S Statement)) True
    [Field (Pointer (Named ''Dsymbols'')) ''imports'',
     Method Override False ''syntaxCopy'' Extern, Method Override False ''accept'' Visit_this]"

primrec statement_decl :: "statement_node \<Rightarrow> cls class_decl" where
  "statement_decl Statement = Statement_class"
| "statement_decl ErrorStatement = ErrorStatement_class"
| "statement_decl PeelStatement = PeelStatement_class"
| "statement_decl ExpStatement = ExpStatement_class"
| "statement_decl DtorExpStatement = DtorExpStatement_class"
| "statement_decl MixinStatement = MixinStatement_class"
| "statement_decl CompoundStatement = CompoundStatement_class"
| "statement_decl CompoundDeclarationStatement = CompoundDeclarationStatement_class"
| "statement_decl UnrolledLoopStatement = UnrolledLoopStatement_class"
| "statement_decl ScopeStatement = ScopeStatement_class"
| "statement_decl ForwardingStatement = ForwardingStatement_class"
| "statement_decl WhileStatement = WhileStatement_class"
| "statement_decl DoStatement = DoStatement_class"
| "statement_decl ForStatement = ForStatement_class"
| "statement_decl ForeachStatement = ForeachStatement_class"
| "statement_decl ForeachRangeStatement = ForeachRangeStatement_class"
| "statement_decl IfStatement = IfStatement_class"
| "statement_decl ConditionalStatement = ConditionalStatement_class"
| "statement_decl StaticForeachStatement = StaticForeachStatement_class"
| "statement_decl PragmaStatement = PragmaStatement_class"
| "statement_decl StaticAssertStatement = StaticAssertStatement_class"
| "statement_decl SwitchStatement = SwitchStatement_class"
| "statement_decl CaseStatement = CaseStatement_class"
| "statement_decl CaseRangeStatement = CaseRangeStatement_class"
| "statement_decl DefaultStatement = DefaultStatement_class"
| "statement_decl GotoDefaultStatement = GotoDefaultStatement_class"
| "statement_decl GotoCaseStatement = GotoCaseStatement_class"
| "statement_decl SwitchErrorStatement = SwitchErrorStatement_class"
| "statement_decl ReturnStatement = ReturnStatement_class"
| "statement_decl BreakStatement = BreakStatement_class"
| "statement_decl ContinueStatement = ContinueStatement_class"
| "statement_decl SynchronizedStatement = SynchronizedStatement_class"
| "statement_decl WithStatement = WithStatement_class"
| "statement_decl TryCatchStatement = TryCatchStatement_class"
| "statement_decl TryFinallyStatement = TryFinallyStatement_class"
| "statement_decl ScopeGuardStatement = ScopeGuardStatement_class"
| "statement_decl ThrowStatement = ThrowStatement_class"
| "statement_decl DebugStatement = DebugStatement_class"
| "statement_decl GotoStatement = GotoStatement_class"
| "statement_decl LabelStatement = LabelStatement_class"
| "statement_decl AsmStatement = AsmStatement_class"
| "statement_decl InlineAsmStatement = InlineAsmStatement_class"
| "statement_decl GccAsmStatement = GccAsmStatement_class"
| "statement_decl CompoundAsmStatement = CompoundAsmStatement_class"
| "statement_decl ImportStatement = ImportStatement_class"

lemmas statement_class_defs =
  Statement_class_def ErrorStatement_class_def PeelStatement_class_def ExpStatement_class_def
  DtorExpStatement_class_def MixinStatement_class_def CompoundStatement_class_def
  CompoundDeclarationStatement_class_def UnrolledLoopStatement_class_def ScopeStatement_class_def
  ForwardingStatement_class_def WhileStatement_class_def DoStatement_class_def
  ForStatement_class_def ForeachStatement_class_def ForeachRangeStatement_class_def
  IfStatement_class_def ConditionalStatement_class_def StaticForeachStatement_class_def
  PragmaStatement_class_def StaticAssertStatement_class_def SwitchStatement_class_def
  CaseStatement_class_def CaseRangeStatement_class_def DefaultStatement_class_def
  GotoDefaultStatement_class_def GotoCaseStatement_class_def SwitchErrorStatement_class_def
  ReturnStatement_class_def BreakStatement_class_def ContinueStatement_class_def
  SynchronizedStatement_class_def WithStatement_class_def TryCatchStatement_class_def
  TryFinallyStatement_class_def ScopeGuardStatement_class_def ThrowStatement_class_def
  DebugStatement_class_def GotoStatement_class_def LabelStatement_class_def AsmStatement_class_def
  InlineAsmStatement_class_def GccAsmStatement_class_def CompoundAsmStatement_class_def
  ImportStatement_class_def

end
