(* ===== verification/Ast_Types.thy ===== *)
theory Ast_Types
  imports Cpp_Class Ast_Names
begin

text \<open>
  The type classes of compiler/include/dmd/mtype.h, each with its members in the order
  of the header.
\<close>

definition Type_class :: "cls class_decl" where
  "Type_class = Class (Some (N ASTNode)) False
    [Field (Named ''TY'') ''ty'', Field (Named ''MOD'') ''mod'',
     Field (Pointer (Named ''char'')) ''deco'', Field (Pointer (Named ''void'')) ''mcache'',
     Field (Pointer (Named ''TypeInfoDeclaration'')) ''vtinfo'',
     Field (Pointer (Named ''type'')) ''ctype'',
     Static_field (Pointer (Named ''Type'')) ''tvoid'',
     Static_field (Pointer (Named ''Type'')) ''tint8'',
     Static_field (Pointer (Named ''Type'')) ''tuns8'',
     Static_field (Pointer (Named ''Type'')) ''tint16'',
     Static_field (Pointer (Named ''Type'')) ''tuns16'',
     Static_field (Pointer (Named ''Type'')) ''tint32'',
     Static_field (Pointer (Named ''Type'')) ''tuns32'',
     Static_field (Pointer (Named ''Type'')) ''tint64'',
     Static_field (Pointer (Named ''Type'')) ''tuns64'',
     Static_field (Pointer (Named ''Type'')) ''tint128'',
     Static_field (Pointer (Named ''Type'')) ''tuns128'',
     Static_field (Pointer (Named ''Type'')) ''tfloat32'',
     Static_field (Pointer (Named ''Type'')) ''tfloat64'',
     Static_field (Pointer (Named ''Type'')) ''tfloat80'',
     Static_field (Pointer (Named ''Type'')) ''timaginary32'',
     Static_field (Pointer (Named ''Type'')) ''timaginary64'',
     Static_field (Pointer (Named ''Type'')) ''timaginary80'',
     Static_field (Pointer (Named ''Type'')) ''tcomplex32'',
     Static_field (Pointer (Named ''Type'')) ''tcomplex64'',
     Static_field (Pointer (Named ''Type'')) ''tcomplex80'',
     Static_field (Pointer (Named ''Type'')) ''tbool'',
     Static_field (Pointer (Named ''Type'')) ''tchar'',
     Static_field (Pointer (Named ''Type'')) ''twchar'',
     Static_field (Pointer (Named ''Type'')) ''tdchar'',
     Static_field (Pointer (Named ''Type'')) ''tshiftcnt'',
     Static_field (Pointer (Named ''Type'')) ''tvoidptr'',
     Static_field (Pointer (Named ''Type'')) ''tstring'',
     Static_field (Pointer (Named ''Type'')) ''twstring'',
     Static_field (Pointer (Named ''Type'')) ''tdstring'',
     Static_field (Pointer (Named ''Type'')) ''terror'',
     Static_field (Pointer (Named ''Type'')) ''tnull'',
     Static_field (Pointer (Named ''Type'')) ''tnoreturn'',
     Static_field (Pointer (Named ''Type'')) ''tsize_t'',
     Static_field (Pointer (Named ''Type'')) ''tptrdiff_t'',
     Static_field (Pointer (Named ''Type'')) ''thash_t'',
     Static_field (Pointer (Named ''ClassDeclaration'')) ''dtypeinfo'',
     Static_field (Pointer (Named ''ClassDeclaration'')) ''typeinfoclass'',
     Static_field (Pointer (Named ''ClassDeclaration'')) ''typeinfointerface'',
     Static_field (Pointer (Named ''ClassDeclaration'')) ''typeinfostruct'',
     Static_field (Pointer (Named ''ClassDeclaration'')) ''typeinfopointer'',
     Static_field (Pointer (Named ''ClassDeclaration'')) ''typeinfoarray'',
     Static_field (Pointer (Named ''ClassDeclaration'')) ''typeinfostaticarray'',
     Static_field (Pointer (Named ''ClassDeclaration'')) ''typeinfoassociativearray'',
     Static_field (Pointer (Named ''ClassDeclaration'')) ''typeinfovector'',
     Static_field (Pointer (Named ''ClassDeclaration'')) ''typeinfoenum'',
     Static_field (Pointer (Named ''ClassDeclaration'')) ''typeinfofunction'',
     Static_field (Pointer (Named ''ClassDeclaration'')) ''typeinfodelegate'',
     Static_field (Pointer (Named ''ClassDeclaration'')) ''typeinfotypelist'',
     Static_field (Pointer (Named ''ClassDeclaration'')) ''typeinfoconst'',
     Static_field (Pointer (Named ''ClassDeclaration'')) ''typeinfoinvariant'',
     Static_field (Pointer (Named ''ClassDeclaration'')) ''typeinfoshared'',
     Static_field (Pointer (Named ''ClassDeclaration'')) ''typeinfowild'',
     Static_field (Pointer (Named ''TemplateDeclaration'')) ''rtinfo'',
     Static_field (Carray (Pointer (Named ''Type'')) 47) ''basic'',
     Method Static False ''_init'' Inline, Method Virtual False ''kind'' Extern,
     Method Plain False ''copy'' Extern, Method Virtual False ''syntaxCopy'' Extern,
     Method Plain False ''equals'' Extern,
     Method Override True ''dyncast'' (Return_dyncast DYNCAST_TYPE),
     Method Plain False ''getUniqueID'' Extern, Method Override False ''toChars'' Extern,
     Method Plain False ''toPrettyChars'' Extern, Method Plain False ''modToBuffer'' Extern,
     Method Plain False ''modToChars'' Extern, Method Virtual False ''isScopeClass'' Extern,
     Method Plain False ''isConst'' Inline, Method Plain False ''isImmutable'' Inline,
     Method Plain False ''isMutable'' Inline, Method Plain False ''isShared'' Inline,
     Method Plain False ''isSharedConst'' Inline, Method Plain False ''isWild'' Inline,
     Method Plain False ''isWildConst'' Inline, Method Plain False ''isSharedWild'' Inline,
     Method Plain False ''isNaked'' Inline, Method Plain False ''nullAttributes'' Extern,
     Method Plain False ''toBasetype'' Inline, Method Plain False ''nextOf'' Inline,
     Method Plain False ''baseElemOf'' Inline, Method Virtual False ''isClassHandle'' Extern,
     Method Virtual False ''hasWild'' Extern, Method Plain False ''toTypeFunction'' Extern,
     Method Virtual False ''isTypeBasic'' Extern, Method Plain False ''isPtrToFunction'' Extern,
     Method Plain False ''isFunction_Delegate_PtrToFunction'' Extern,
     Method Plain False ''isTypeError'' Extern, Method Plain False ''isTypeVector'' Extern,
     Method Plain False ''isTypeSArray'' Extern, Method Plain False ''isTypeDArray'' Extern,
     Method Plain False ''isTypeAArray'' Extern, Method Plain False ''isTypePointer'' Extern,
     Method Plain False ''isTypeReference'' Extern, Method Plain False ''isTypeFunction'' Extern,
     Method Plain False ''isTypeDelegate'' Extern,
     Method Plain False ''isTypeIdentifier'' Extern,
     Method Plain False ''isTypeInstance'' Extern, Method Plain False ''isTypeTypeof'' Extern,
     Method Plain False ''isTypeReturn'' Extern, Method Plain False ''isTypeStruct'' Extern,
     Method Plain False ''isTypeEnum'' Extern, Method Plain False ''isTypeClass'' Extern,
     Method Plain False ''isTypeTuple'' Extern, Method Plain False ''isTypeSlice'' Extern,
     Method Plain False ''isTypeNull'' Extern, Method Plain False ''isTypeMixin'' Extern,
     Method Plain False ''isTypeTraits'' Extern, Method Plain False ''isTypeNoreturn'' Extern,
     Method Plain False ''isTypeTag'' Extern, Method Override False ''accept'' Visit_this]"

definition TypeError_class :: "cls class_decl" where
  "TypeError_class = Class (Some (T Type)) True
    [Method Override False ''kind'' Extern, Method Override False ''syntaxCopy'' Extern,
     Method Override False ''accept'' Visit_this]"

definition TypeNext_class :: "cls class_decl" where
  "TypeNext_class = Class (Some (T Type)) False
    [Field (Pointer (Named ''Type'')) ''next'', Method Override True ''hasWild'' Extern,
     Method Override False ''accept'' Visit_this]"

definition TypeBasic_class :: "cls class_decl" where
  "TypeBasic_class = Class (Some (T Type)) True
    [Field (Pointer (Named ''const char'')) ''dstring'', Field (Named ''unsigned'') ''flags'',
     Method Override False ''kind'' Extern, Method Override False ''syntaxCopy'' Extern,
     Method Override False ''isTypeBasic'' Extern, Method Override False ''accept'' Visit_this]"

definition TypeVector_class :: "cls class_decl" where
  "TypeVector_class = Class (Some (T Type)) True
    [Field (Pointer (Named ''Type'')) ''basetype'', Method Static False ''create'' Extern,
     Method Override False ''kind'' Extern, Method Override False ''syntaxCopy'' Extern,
     Method Plain False ''elementType'' Extern, Method Override False ''accept'' Visit_this]"

definition TypeArray_class :: "cls class_decl" where
  "TypeArray_class = Class (Some (T TypeNext)) False
    [Method Override False ''accept'' Visit_this]"

definition TypeSArray_class :: "cls class_decl" where
  "TypeSArray_class = Class (Some (T TypeArray)) True
    [Field (Pointer (Named ''Expression'')) ''dim'', Method Override False ''kind'' Extern,
     Method Override False ''syntaxCopy'' Extern, Method Plain False ''isIncomplete'' Extern,
     Method Override False ''accept'' Visit_this]"

definition TypeDArray_class :: "cls class_decl" where
  "TypeDArray_class = Class (Some (T TypeArray)) True
    [Method Override False ''kind'' Extern, Method Override False ''syntaxCopy'' Extern,
     Method Override False ''accept'' Visit_this]"

definition TypeAArray_class :: "cls class_decl" where
  "TypeAArray_class = Class (Some (T TypeArray)) True
    [Field (Pointer (Named ''Type'')) ''index'', Field (Named ''Loc'') ''loc'',
     Method Static False ''create'' Extern, Method Override False ''kind'' Extern,
     Method Override False ''syntaxCopy'' Extern, Method Override False ''accept'' Visit_this]"

definition TypePointer_class :: "cls class_decl" where
  "TypePointer_class = Class (Some (T TypeNext)) True
    [Method Static False ''create'' Extern, Method Override False ''kind'' Extern,
     Method Override False ''syntaxCopy'' Extern, Method Override False ''accept'' Visit_this]"

definition TypeReference_class :: "cls class_decl" where
  "TypeReference_class = Class (Some (T TypeNext)) True
    [Method Override False ''kind'' Extern, Method Override False ''syntaxCopy'' Extern,
     Method Override False ''accept'' Visit_this]"

definition TypeFunction_class :: "cls class_decl" where
  "TypeFunction_class = Class (Some (T TypeNext)) True
    [Field (Named ''ParameterList'') ''parameterList'', Field (Named ''uint16_t'') ''bitFields'',
     Field (Named ''LINK'') ''linkage'', Field (Named ''TRUST'') ''trust'',
     Field (Named ''PURE'') ''purity'', Field (Named ''char'') ''inuse'',
     Field (Named ''ArgumentList'') ''inferenceArguments'',
     Method Static False ''create'' Extern, Method Override False ''kind'' Extern,
     Method Override False ''syntaxCopy'' Extern,
     Method Plain False ''hasLazyParameters'' Extern,
     Method Plain False ''isDstyleVariadic'' Extern, Method Plain False ''isNothrow'' Extern,
     Method Plain False ''isNothrow'' Extern, Method Plain False ''isNogc'' Extern,
     Method Plain False ''isNogc'' Extern, Method Plain False ''isProperty'' Extern,
     Method Plain False ''isProperty'' Extern, Method Plain False ''isRef'' Extern,
     Method Plain False ''isRef'' Extern, Method Plain False ''isReturn'' Extern,
     Method Plain False ''isReturn'' Extern, Method Plain False ''isReturnScope'' Extern,
     Method Plain False ''isReturnScope'' Extern, Method Plain False ''isRvalue'' Extern,
     Method Plain False ''isRvalue'' Extern, Method Plain False ''isCtfeOnly'' Extern,
     Method Plain False ''isCtfeOnly'' Extern, Method Plain False ''isScopeQual'' Extern,
     Method Plain False ''isScopeQual'' Extern, Method Plain False ''isReturnInferred'' Extern,
     Method Plain False ''isReturnInferred'' Extern,
     Method Plain False ''isScopeInferred'' Extern,
     Method Plain False ''isScopeInferred'' Extern, Method Plain False ''isLive'' Extern,
     Method Plain False ''isLive'' Extern, Method Plain False ''incomplete'' Extern,
     Method Plain False ''incomplete'' Extern, Method Plain False ''isInOutParam'' Extern,
     Method Plain False ''isInOutParam'' Extern, Method Plain False ''isInOutQual'' Extern,
     Method Plain False ''isInOutQual'' Extern, Method Plain False ''iswild'' Extern,
     Method Override False ''accept'' Visit_this]"

definition TypeDelegate_class :: "cls class_decl" where
  "TypeDelegate_class = Class (Some (T TypeNext)) True
    [Method Static False ''create'' Extern, Method Override False ''kind'' Extern,
     Method Override False ''syntaxCopy'' Extern, Method Override False ''accept'' Visit_this]"

definition TypeTraits_class :: "cls class_decl" where
  "TypeTraits_class = Class (Some (T Type)) True
    [Field (Named ''Loc'') ''loc'', Field (Pointer (Named ''TraitsExp'')) ''exp'',
     Field (Pointer (Named ''RootObject'')) ''obj'', Method Override False ''kind'' Extern,
     Method Override False ''syntaxCopy'' Extern, Method Override False ''accept'' Visit_this]"

definition TypeMixin_class :: "cls class_decl" where
  "TypeMixin_class = Class (Some (T Type)) True
    [Field (Named ''Loc'') ''loc'', Field (Pointer (Named ''Expressions'')) ''exps'',
     Field (Pointer (Named ''RootObject'')) ''obj'', Method Override False ''kind'' Extern,
     Method Override False ''syntaxCopy'' Extern, Method Override False ''accept'' Visit_this]"

definition TypeQualified_class :: "cls class_decl" where
  "TypeQualified_class = Class (Some (T Type)) False
    [Field (Named ''Loc'') ''loc'', Field (Named ''Objects'') ''idents'',
     Method Override False ''accept'' Visit_this]"

definition TypeIdentifier_class :: "cls class_decl" where
  "TypeIdentifier_class = Class (Some (T TypeQualified)) True
    [Field (Pointer (Named ''Identifier'')) ''ident'', Method Static False ''create'' Extern,
     Method Override False ''kind'' Extern, Method Override False ''syntaxCopy'' Extern,
     Method Override False ''accept'' Visit_this]"

definition TypeInstance_class :: "cls class_decl" where
  "TypeInstance_class = Class (Some (T TypeQualified)) True
    [Field (Pointer (Named ''TemplateInstance'')) ''tempinst'',
     Method Override False ''kind'' Extern, Method Override False ''syntaxCopy'' Extern,
     Method Override False ''accept'' Visit_this]"

definition TypeTypeof_class :: "cls class_decl" where
  "TypeTypeof_class = Class (Some (T TypeQualified)) True
    [Field (Pointer (Named ''Expression'')) ''exp'', Field (Named ''int'') ''inuse'',
     Method Override False ''kind'' Extern, Method Override False ''syntaxCopy'' Extern,
     Method Override False ''accept'' Visit_this]"

definition TypeReturn_class :: "cls class_decl" where
  "TypeReturn_class = Class (Some (T TypeQualified)) True
    [Method Override False ''kind'' Extern, Method Override False ''syntaxCopy'' Extern,
     Method Override False ''accept'' Visit_this]"

definition TypeStruct_class :: "cls class_decl" where
  "TypeStruct_class = Class (Some (T Type)) True
    [Field (Pointer (Named ''StructDeclaration'')) ''sym'',
     Field (Named ''AliasThisRec'') ''att'', Field (Named ''d_bool'') ''inuse'',
     Method Static False ''create'' Extern, Method Override False ''kind'' Extern,
     Method Override False ''syntaxCopy'' Extern, Method Override False ''accept'' Visit_this]"

definition TypeEnum_class :: "cls class_decl" where
  "TypeEnum_class = Class (Some (T Type)) True
    [Field (Pointer (Named ''EnumDeclaration'')) ''sym'', Method Override False ''kind'' Extern,
     Method Override False ''syntaxCopy'' Extern, Method Override False ''accept'' Visit_this]"

definition TypeClass_class :: "cls class_decl" where
  "TypeClass_class = Class (Some (T Type)) True
    [Field (Pointer (Named ''ClassDeclaration'')) ''sym'',
     Field (Named ''AliasThisRec'') ''att'', Field (Named ''CPPMANGLE'') ''cppmangle'',
     Method Override False ''kind'' Extern, Method Override False ''syntaxCopy'' Extern,
     Method Override False ''isClassHandle'' Extern,
     Method Override False ''isScopeClass'' Extern, Method Override False ''accept'' Visit_this]"

definition TypeTuple_class :: "cls class_decl" where
  "TypeTuple_class = Class (Some (T Type)) True
    [Static_field (Pointer (Named ''TypeTuple'')) ''empty'',
     Field (Pointer (Named ''Parameters'')) ''arguments'', Method Static False ''create'' Extern,
     Method Static False ''create'' Extern, Method Static False ''create'' Extern,
     Method Static False ''create'' Extern, Method Override False ''kind'' Extern,
     Method Override False ''syntaxCopy'' Extern, Method Override False ''accept'' Visit_this]"

definition TypeSlice_class :: "cls class_decl" where
  "TypeSlice_class = Class (Some (T TypeNext)) True
    [Field (Pointer (Named ''Expression'')) ''lwr'',
     Field (Pointer (Named ''Expression'')) ''upr'', Method Override False ''kind'' Extern,
     Method Override False ''syntaxCopy'' Extern, Method Override False ''accept'' Visit_this]"

definition TypeNull_class :: "cls class_decl" where
  "TypeNull_class = Class (Some (T Type)) True
    [Method Override False ''kind'' Extern, Method Override False ''syntaxCopy'' Extern,
     Method Override False ''accept'' Visit_this]"

definition TypeNoreturn_class :: "cls class_decl" where
  "TypeNoreturn_class = Class (Some (T Type)) True
    [Method Override False ''kind'' Extern, Method Override False ''syntaxCopy'' Extern,
     Method Override False ''accept'' Visit_this]"

definition TypeTag_class :: "cls class_decl" where
  "TypeTag_class = Class (Some (T Type)) True
    [Method Override False ''syntaxCopy'' Extern, Method Override False ''accept'' Visit_this]"

primrec type_decl :: "type_node \<Rightarrow> cls class_decl" where
  "type_decl Type = Type_class"
| "type_decl TypeError = TypeError_class"
| "type_decl TypeNext = TypeNext_class"
| "type_decl TypeBasic = TypeBasic_class"
| "type_decl TypeVector = TypeVector_class"
| "type_decl TypeArray = TypeArray_class"
| "type_decl TypeSArray = TypeSArray_class"
| "type_decl TypeDArray = TypeDArray_class"
| "type_decl TypeAArray = TypeAArray_class"
| "type_decl TypePointer = TypePointer_class"
| "type_decl TypeReference = TypeReference_class"
| "type_decl TypeFunction = TypeFunction_class"
| "type_decl TypeDelegate = TypeDelegate_class"
| "type_decl TypeTraits = TypeTraits_class"
| "type_decl TypeMixin = TypeMixin_class"
| "type_decl TypeQualified = TypeQualified_class"
| "type_decl TypeIdentifier = TypeIdentifier_class"
| "type_decl TypeInstance = TypeInstance_class"
| "type_decl TypeTypeof = TypeTypeof_class"
| "type_decl TypeReturn = TypeReturn_class"
| "type_decl TypeStruct = TypeStruct_class"
| "type_decl TypeEnum = TypeEnum_class"
| "type_decl TypeClass = TypeClass_class"
| "type_decl TypeTuple = TypeTuple_class"
| "type_decl TypeSlice = TypeSlice_class"
| "type_decl TypeNull = TypeNull_class"
| "type_decl TypeNoreturn = TypeNoreturn_class"
| "type_decl TypeTag = TypeTag_class"

lemmas type_class_defs =
  Type_class_def TypeError_class_def TypeNext_class_def TypeBasic_class_def TypeVector_class_def
  TypeArray_class_def TypeSArray_class_def TypeDArray_class_def TypeAArray_class_def
  TypePointer_class_def TypeReference_class_def TypeFunction_class_def TypeDelegate_class_def
  TypeTraits_class_def TypeMixin_class_def TypeQualified_class_def TypeIdentifier_class_def
  TypeInstance_class_def TypeTypeof_class_def TypeReturn_class_def TypeStruct_class_def
  TypeEnum_class_def TypeClass_class_def TypeTuple_class_def TypeSlice_class_def
  TypeNull_class_def TypeNoreturn_class_def TypeTag_class_def

end
