(* ===== verification/Ast_Dsymbols.thy ===== *)
theory Ast_Dsymbols
  imports Cpp_Class Ast_Names
begin

text \<open>
  The symbol classes: dsymbol.h, declaration.h, aggregate.h, attrib.h, enum.h, import.h,
  module.h, nspace.h, staticassert.h, template.h, version.h, aliasthis.h and the label of
  statement.h, each with its members in the order of the header.
\<close>

definition Dsymbol_class :: "cls class_decl" where
  "Dsymbol_class = Class (Some (N ASTNode)) False
    [Field (Pointer (Named ''Identifier'')) ''ident'',
     Field (Pointer (Named ''Dsymbol'')) ''parent'', Field (Pointer (Named ''Symbol'')) ''csym'',
     Field (Pointer (Named ''Scope'')) ''_scope'',
     Field (Pointer (Named ''DsymbolAttributes'')) ''atts'', Field (Named ''Loc'') ''loc'',
     Field (Named ''unsigned short'') ''localNum'', Method Plain False ''errors'' Extern,
     Method Plain False ''semanticRun'' Extern, Method Plain False ''semanticRun'' Extern,
     Field (Named ''unsigned char'') ''bitfields'', Field (Named ''unsigned char'') ''dsym'',
     Method Static False ''create'' Extern, Method Override True ''toChars'' Extern,
     Method Plain False ''depdecl'' Extern, Method Plain False ''cppnamespace'' Extern,
     Method Plain False ''userAttribDecl'' Extern, Method Plain False ''depdecl'' Extern,
     Method Plain False ''cppnamespace'' Extern, Method Plain False ''userAttribDecl'' Extern,
     Method Virtual False ''toPrettyCharsHelper'' Extern,
     Method Plain False ''isAnonymous'' Extern, Method Plain False ''getModule'' Extern,
     Method Plain False ''isCsymbol'' Extern, Method Plain False ''getAccessModule'' Extern,
     Method Plain False ''pastMixin'' Extern, Method Plain False ''toParent'' Extern,
     Method Plain False ''toParent2'' Extern, Method Plain False ''toParentDecl'' Extern,
     Method Plain False ''toParentLocal'' Extern, Method Plain False ''toParentP'' Extern,
     Method Plain False ''isInstantiated'' Extern,
     Method Plain False ''followInstantiationContext'' Extern,
     Method Plain False ''isSpeculative'' Extern, Method Plain False ''ungagSpeculative'' Extern,
     Method Override True ''dyncast'' (Return_dyncast DYNCAST_DSYMBOL),
     Method Virtual False ''getIdent'' Extern, Method Virtual False ''toPrettyChars'' Extern,
     Method Virtual False ''kind'' Extern, Method Virtual False ''isforwardRef'' Extern,
     Method Virtual False ''isThis'' Extern, Method Virtual False ''isExport'' Extern,
     Method Virtual False ''isImportedSymbol'' Extern,
     Method Virtual False ''isDeprecated'' Extern,
     Method Virtual False ''isOverloadable'' Extern, Method Virtual False ''isLabel'' Extern,
     Method Plain False ''isMember'' Extern, Method Plain False ''isMember2'' Extern,
     Method Plain False ''isMemberDecl'' Extern, Method Plain False ''isMemberLocal'' Extern,
     Method Plain False ''isClassMember'' Extern, Method Virtual False ''needThis'' Extern,
     Method Virtual False ''visible'' Extern, Method Virtual False ''syntaxCopy'' Extern,
     Method Plain False ''comment'' Extern, Method Plain False ''ddocUnittest'' Extern,
     Method Plain False ''ddocUnittest'' Extern, Method Plain False ''inNonRoot'' Extern,
     Method Plain False ''isPackage'' Extern, Method Plain False ''isModule'' Extern,
     Method Plain False ''isEnumMember'' Extern,
     Method Plain False ''isTemplateDeclaration'' Extern,
     Method Plain False ''isTemplateInstance'' Extern,
     Method Plain False ''isTemplateMixin'' Extern,
     Method Plain False ''isForwardingAttribDeclaration'' Extern,
     Method Plain False ''isNspace'' Extern, Method Plain False ''isDeclaration'' Extern,
     Method Plain False ''isStorageClassDeclaration'' Extern,
     Method Plain False ''isExpressionDsymbol'' Extern,
     Method Plain False ''isAliasAssign'' Extern,
     Method Plain False ''isThisDeclaration'' Extern,
     Method Plain False ''isBitFieldDeclaration'' Extern,
     Method Plain False ''isTypeInfoDeclaration'' Extern,
     Method Plain False ''isTupleDeclaration'' Extern,
     Method Plain False ''isUnpackDeclaration'' Extern,
     Method Plain False ''isAliasDeclaration'' Extern,
     Method Plain False ''isAggregateDeclaration'' Extern,
     Method Plain False ''isFuncDeclaration'' Extern,
     Method Plain False ''isFuncAliasDeclaration'' Extern,
     Method Plain False ''isOverDeclaration'' Extern,
     Method Plain False ''isFuncLiteralDeclaration'' Extern,
     Method Plain False ''isCtorDeclaration'' Extern,
     Method Plain False ''isPostBlitDeclaration'' Extern,
     Method Plain False ''isDtorDeclaration'' Extern,
     Method Plain False ''isStaticCtorDeclaration'' Extern,
     Method Plain False ''isStaticDtorDeclaration'' Extern,
     Method Plain False ''isSharedStaticCtorDeclaration'' Extern,
     Method Plain False ''isSharedStaticDtorDeclaration'' Extern,
     Method Plain False ''isInvariantDeclaration'' Extern,
     Method Plain False ''isUnitTestDeclaration'' Extern,
     Method Plain False ''isNewDeclaration'' Extern,
     Method Plain False ''isVarDeclaration'' Extern,
     Method Plain False ''isVersionSymbol'' Extern, Method Plain False ''isDebugSymbol'' Extern,
     Method Plain False ''isClassDeclaration'' Extern,
     Method Plain False ''isStructDeclaration'' Extern,
     Method Plain False ''isUnionDeclaration'' Extern,
     Method Plain False ''isInterfaceDeclaration'' Extern,
     Method Plain False ''isScopeDsymbol'' Extern,
     Method Plain False ''isForwardingScopeDsymbol'' Extern,
     Method Plain False ''isWithScopeSymbol'' Extern,
     Method Plain False ''isArrayScopeSymbol'' Extern, Method Plain False ''isImport'' Extern,
     Method Plain False ''isEnumDeclaration'' Extern,
     Method Plain False ''isSymbolDeclaration'' Extern,
     Method Plain False ''isAttribDeclaration'' Extern,
     Method Plain False ''isAnonDeclaration'' Extern,
     Method Plain False ''isCPPNamespaceDeclaration'' Extern,
     Method Plain False ''isVisibilityDeclaration'' Extern,
     Method Plain False ''isOverloadSet'' Extern,
     Method Plain False ''isMixinDeclaration'' Extern,
     Method Plain False ''isStaticAssert'' Extern,
     Method Plain False ''isStaticIfDeclaration'' Extern,
     Method Plain False ''isCAsmDeclaration'' Extern,
     Method Override False ''accept'' Visit_this]"

definition ScopeDsymbol_class :: "cls class_decl" where
  "ScopeDsymbol_class = Class (Some (D Dsymbol)) False
    [Field (Pointer (Named ''Dsymbols'')) ''members'',
     Field (Pointer (Named ''DsymbolTable'')) ''symtab'', Field (Named ''Loc'') ''endloc'',
     Field (Pointer (Named ''Dsymbols'')) ''importedScopes'',
     Field (Pointer (Named ''Visibility::Kind'')) ''visibilities'',
     Field (Named ''BitArray'') ''accessiblePackages'',
     Field (Named ''BitArray'') ''privateAccessiblePackages'',
     Method Override False ''syntaxCopy'' Extern, Method Virtual False ''importScope'' Extern,
     Method Virtual False ''isPackageAccessible'' Extern,
     Method Override True ''isforwardRef'' Extern,
     Method Static False ''multiplyDefined'' Extern, Method Override False ''kind'' Extern,
     Method Virtual False ''symtabInsert'' Extern, Method Virtual False ''symtabLookup'' Extern,
     Method Override False ''accept'' Visit_this]"

definition WithScopeSymbol_class :: "cls class_decl" where
  "WithScopeSymbol_class = Class (Some (D ScopeDsymbol)) True
    [Field (Pointer (Named ''WithStatement'')) ''withstate'',
     Method Override False ''accept'' Visit_this]"

definition ArrayScopeSymbol_class :: "cls class_decl" where
  "ArrayScopeSymbol_class = Class (Some (D ScopeDsymbol)) True
    [Field (Pointer (Named ''RootObject'')) ''arrayContent'',
     Method Override False ''accept'' Visit_this]"

definition OverloadSet_class :: "cls class_decl" where
  "OverloadSet_class = Class (Some (D Dsymbol)) True
    [Field (Named ''Dsymbols'') ''a'', Method Plain False ''push'' Extern,
     Method Override False ''kind'' Extern, Method Override False ''accept'' Visit_this]"

definition ForwardingScopeDsymbol_class :: "cls class_decl" where
  "ForwardingScopeDsymbol_class = Class (Some (D ScopeDsymbol)) True
    [Method Override False ''symtabInsert'' Extern,
     Method Override False ''symtabLookup'' Extern, Method Override False ''importScope'' Extern,
     Method Override False ''kind'' Extern]"

definition ExpressionDsymbol_class :: "cls class_decl" where
  "ExpressionDsymbol_class = Class (Some (D Dsymbol)) True
    [Field (Pointer (Named ''Expression'')) ''exp'']"

definition CAsmDeclaration_class :: "cls class_decl" where
  "CAsmDeclaration_class = Class (Some (D Dsymbol)) True
    [Field (Pointer (Named ''Expression'')) ''code'',
     Method Override False ''accept'' Visit_this]"

definition Declaration_class :: "cls class_decl" where
  "Declaration_class = Class (Some (D Dsymbol)) False
    [Field (Pointer (Named ''Type'')) ''type'',
     Field (Pointer (Named ''Type'')) ''originalType'',
     Field (Named ''StorageClass'') ''storage_class'',
     Field (Named ''DString'') ''mangleOverride'', Field (Named ''Visibility'') ''visibility'',
     Field (Named ''short'') ''inuse'', Field (Named ''uint8_t'') ''bitFields'',
     Method Plain False ''_linkage'' Extern, Method Plain False ''_linkage'' Extern,
     Method Plain False ''noUnderscore'' Extern, Method Override False ''kind'' Extern,
     Method Plain False ''isStatic'' Inline, Method Plain False ''resolvedLinkage'' Extern,
     Method Virtual False ''isDelete'' Extern, Method Virtual False ''isDataseg'' Extern,
     Method Virtual False ''isThreadlocal'' Extern, Method Virtual False ''isCodeseg'' Extern,
     Method Plain False ''isFinal'' Inline, Method Virtual False ''isAbstract'' Inline,
     Method Plain False ''isConst'' Inline, Method Plain False ''isImmutable'' Inline,
     Method Plain False ''isWild'' Inline, Method Plain False ''isAuto'' Inline,
     Method Plain False ''isScope'' Inline, Method Plain False ''isReturn'' Inline,
     Method Plain False ''isSynchronized'' Inline, Method Plain False ''isParameter'' Inline,
     Method Override True ''isDeprecated'' Inline, Method Plain False ''isOverride'' Inline,
     Method Plain False ''isResult'' Inline, Method Plain False ''isField'' Inline,
     Method Plain False ''isIn'' Inline, Method Plain False ''isOut'' Inline,
     Method Plain False ''isRef'' Inline, Method Plain False ''isReference'' Inline,
     Method Plain False ''isFuture'' Inline, Method Override True ''visible'' Extern,
     Method Override False ''accept'' Visit_this]"

definition TupleDeclaration_class :: "cls class_decl" where
  "TupleDeclaration_class = Class (Some (D Declaration)) True
    [Field (Pointer (Named ''Objects'')) ''objects'',
     Field (Pointer (Named ''TypeTuple'')) ''tupletype'', Field (Named ''d_bool'') ''isexp'',
     Field (Named ''d_bool'') ''building'', Method Override False ''syntaxCopy'' Extern,
     Method Override False ''kind'' Extern, Method Override False ''needThis'' Extern,
     Method Override False ''accept'' Visit_this]"

definition AliasDeclaration_class :: "cls class_decl" where
  "AliasDeclaration_class = Class (Some (D Declaration)) True
    [Field (Pointer (Named ''Dsymbol'')) ''aliassym'',
     Field (Pointer (Named ''Dsymbol'')) ''overnext'',
     Field (Pointer (Named ''Dsymbol'')) ''_import'', Method Static False ''create'' Extern,
     Method Override False ''syntaxCopy'' Extern, Method Override False ''kind'' Extern,
     Method Override False ''isOverloadable'' Extern,
     Method Override False ''accept'' Visit_this]"

definition OverDeclaration_class :: "cls class_decl" where
  "OverDeclaration_class = Class (Some (D Declaration)) True
    [Field (Pointer (Named ''Dsymbol'')) ''overnext'',
     Field (Pointer (Named ''Dsymbol'')) ''aliassym'', Method Override False ''kind'' Extern,
     Method Plain False ''isUnique'' Extern, Method Override False ''isOverloadable'' Extern,
     Method Override False ''accept'' Visit_this]"

definition VarDeclaration_class :: "cls class_decl" where
  "VarDeclaration_class = Class (Some (D Declaration)) False
    [Field (Pointer (Named ''Initializer'')) ''_init'',
     Field (Named ''FuncDeclarations'') ''nestedrefs'',
     Field (Pointer (Named ''TupleDeclaration'')) ''aliasTuple'',
     Field (Pointer (Named ''VarDeclaration'')) ''lastVar'',
     Field (Pointer (Named ''Expression'')) ''edtor'',
     Field (Pointer (Named ''IntRange'')) ''range'', Field (Named ''Loc'') ''endloc'',
     Field (Named ''unsigned'') ''offset'', Field (Named ''unsigned'') ''sequenceNumber'',
     Field (Named ''structalign_t'') ''alignment'',
     Field (Named ''unsigned'') ''ctfeAdrOnStack'', Field (Named ''uint32_t'') ''bitFields'',
     Field (Named ''int8_t'') ''canassign'', Field (Named ''uint8_t'') ''isdataseg'',
     Method Plain False ''isargptr'' Extern, Method Plain False ''isargptr'' Extern,
     Method Plain False ''ctorinit'' Extern, Method Plain False ''ctorinit'' Extern,
     Method Plain False ''iscatchvar'' Extern, Method Plain False ''iscatchvar'' Extern,
     Method Plain False ''isowner'' Extern, Method Plain False ''isowner'' Extern,
     Method Plain False ''setInCtorOnly'' Extern, Method Plain False ''setInCtorOnly'' Extern,
     Method Plain False ''onstack'' Extern, Method Plain False ''onstack'' Extern,
     Method Plain False ''overlapped'' Extern, Method Plain False ''overlapped'' Extern,
     Method Plain False ''overlapUnsafe'' Extern, Method Plain False ''overlapUnsafe'' Extern,
     Method Plain False ''maybeScope'' Extern, Method Plain False ''maybeScope'' Extern,
     Method Plain False ''doNotInferReturn'' Extern,
     Method Plain False ''doNotInferReturn'' Extern, Method Plain False ''isArgDtorVar'' Extern,
     Method Plain False ''isArgDtorVar'' Extern, Method Plain False ''isCmacro'' Extern,
     Method Plain False ''isCmacro'' Extern, Method Plain False ''inClosure'' Extern,
     Method Plain False ''inClosure'' Extern, Method Plain False ''inAlignSection'' Extern,
     Method Plain False ''inAlignSection'' Extern, Method Plain False ''systemInferred'' Extern,
     Method Plain False ''systemInferred'' Extern, Method Static False ''create'' Extern,
     Method Override False ''syntaxCopy'' Extern, Method Override False ''kind'' Extern,
     Method Override True ''isThis'' Extern, Method Override True ''needThis'' Extern,
     Method Override True ''isExport'' Extern, Method Override True ''isImportedSymbol'' Extern,
     Method Plain False ''isCtorinit'' Extern, Method Override True ''isDataseg'' Extern,
     Method Override True ''isThreadlocal'' Extern, Method Plain False ''isCTFE'' Extern,
     Method Plain False ''canTakeAddressOf'' Extern,
     Method Plain False ''needsScopeDtor'' Extern, Method Override False ''accept'' Visit_this]"

definition BitFieldDeclaration_class :: "cls class_decl" where
  "BitFieldDeclaration_class = Class (Some (D VarDeclaration)) False
    [Field (Pointer (Named ''Expression'')) ''width'', Field (Named ''unsigned'') ''fieldWidth'',
     Field (Named ''unsigned'') ''bitOffset'', Method Override False ''syntaxCopy'' Extern,
     Method Override False ''accept'' Visit_this]"

definition SymbolDeclaration_class :: "cls class_decl" where
  "SymbolDeclaration_class = Class (Some (D Declaration)) True
    [Field (Pointer (Named ''AggregateDeclaration'')) ''dsym'',
     Method Override False ''accept'' Visit_this]"

definition TypeInfoDeclaration_class :: "cls class_decl" where
  "TypeInfoDeclaration_class = Class (Some (D VarDeclaration)) False
    [Field (Pointer (Named ''Type'')) ''tinfo'', Field (Named ''d_bool'') ''hadCodegen'',
     Method Static False ''create'' Extern, Method Override True ''syntaxCopy'' Extern,
     Method Override False ''accept'' Visit_this]"

definition TypeInfoStructDeclaration_class :: "cls class_decl" where
  "TypeInfoStructDeclaration_class = Class (Some (D TypeInfoDeclaration)) True
    [Method Static False ''create'' Extern, Method Override False ''accept'' Visit_this]"

definition TypeInfoClassDeclaration_class :: "cls class_decl" where
  "TypeInfoClassDeclaration_class = Class (Some (D TypeInfoDeclaration)) True
    [Method Static False ''create'' Extern, Method Override False ''accept'' Visit_this]"

definition TypeInfoInterfaceDeclaration_class :: "cls class_decl" where
  "TypeInfoInterfaceDeclaration_class = Class (Some (D TypeInfoDeclaration)) True
    [Method Static False ''create'' Extern, Method Override False ''accept'' Visit_this]"

definition TypeInfoPointerDeclaration_class :: "cls class_decl" where
  "TypeInfoPointerDeclaration_class = Class (Some (D TypeInfoDeclaration)) True
    [Method Static False ''create'' Extern, Method Override False ''accept'' Visit_this]"

definition TypeInfoArrayDeclaration_class :: "cls class_decl" where
  "TypeInfoArrayDeclaration_class = Class (Some (D TypeInfoDeclaration)) True
    [Method Static False ''create'' Extern, Method Override False ''accept'' Visit_this]"

definition TypeInfoStaticArrayDeclaration_class :: "cls class_decl" where
  "TypeInfoStaticArrayDeclaration_class = Class (Some (D TypeInfoDeclaration)) True
    [Method Static False ''create'' Extern, Method Override False ''accept'' Visit_this]"

definition TypeInfoAssociativeArrayDeclaration_class :: "cls class_decl" where
  "TypeInfoAssociativeArrayDeclaration_class = Class (Some (D TypeInfoDeclaration)) True
    [Field (Pointer (Named ''Type'')) ''entry'',
     Field (Pointer (Named ''Declaration'')) ''xopEqual'',
     Field (Pointer (Named ''Declaration'')) ''xtoHash'', Method Static False ''create'' Extern,
     Method Override False ''accept'' Visit_this]"

definition TypeInfoEnumDeclaration_class :: "cls class_decl" where
  "TypeInfoEnumDeclaration_class = Class (Some (D TypeInfoDeclaration)) True
    [Method Static False ''create'' Extern, Method Override False ''accept'' Visit_this]"

definition TypeInfoFunctionDeclaration_class :: "cls class_decl" where
  "TypeInfoFunctionDeclaration_class = Class (Some (D TypeInfoDeclaration)) True
    [Method Static False ''create'' Extern, Method Override False ''accept'' Visit_this]"

definition TypeInfoDelegateDeclaration_class :: "cls class_decl" where
  "TypeInfoDelegateDeclaration_class = Class (Some (D TypeInfoDeclaration)) True
    [Method Static False ''create'' Extern, Method Override False ''accept'' Visit_this]"

definition TypeInfoTupleDeclaration_class :: "cls class_decl" where
  "TypeInfoTupleDeclaration_class = Class (Some (D TypeInfoDeclaration)) True
    [Method Static False ''create'' Extern, Method Override False ''accept'' Visit_this]"

definition TypeInfoConstDeclaration_class :: "cls class_decl" where
  "TypeInfoConstDeclaration_class = Class (Some (D TypeInfoDeclaration)) True
    [Method Static False ''create'' Extern, Method Override False ''accept'' Visit_this]"

definition TypeInfoInvariantDeclaration_class :: "cls class_decl" where
  "TypeInfoInvariantDeclaration_class = Class (Some (D TypeInfoDeclaration)) True
    [Method Static False ''create'' Extern, Method Override False ''accept'' Visit_this]"

definition TypeInfoSharedDeclaration_class :: "cls class_decl" where
  "TypeInfoSharedDeclaration_class = Class (Some (D TypeInfoDeclaration)) True
    [Method Static False ''create'' Extern, Method Override False ''accept'' Visit_this]"

definition TypeInfoWildDeclaration_class :: "cls class_decl" where
  "TypeInfoWildDeclaration_class = Class (Some (D TypeInfoDeclaration)) True
    [Method Static False ''create'' Extern, Method Override False ''accept'' Visit_this]"

definition TypeInfoVectorDeclaration_class :: "cls class_decl" where
  "TypeInfoVectorDeclaration_class = Class (Some (D TypeInfoDeclaration)) True
    [Method Static False ''create'' Extern, Method Override False ''accept'' Visit_this]"

definition ThisDeclaration_class :: "cls class_decl" where
  "ThisDeclaration_class = Class (Some (D VarDeclaration)) True
    [Method Override False ''syntaxCopy'' Extern, Method Override False ''accept'' Visit_this]"

definition FuncDeclaration_class :: "cls class_decl" where
  "FuncDeclaration_class = Class (Some (D Declaration)) False
    [Field (Pointer (Named ''Statement'')) ''fbody'',
     Field (Named ''FuncDeclarations'') ''foverrides'',
     Field (Pointer (Named ''ContractInfo'')) ''contracts'',
     Field (Pointer (Named ''const char'')) ''mangleString'',
     Field (Pointer (Named ''VarDeclaration'')) ''vresult'',
     Field (Pointer (Named ''LabelDsymbol'')) ''returnLabel'',
     Field (Pointer (Named ''void'')) ''isTypeIsolatedCache'',
     Field (Pointer (Named ''DsymbolTable'')) ''localsymtab'',
     Field (Pointer (Named ''VarDeclaration'')) ''vthis'',
     Field (Pointer (Named ''VarDeclaration'')) ''v_arguments'',
     Field (Pointer (Named ''VarDeclaration'')) ''v_argptr'',
     Field (Pointer (Named ''VarDeclarations'')) ''parameters'',
     Field (Pointer (Named ''DsymbolTable'')) ''labtab'',
     Field (Pointer (Named ''Dsymbol'')) ''overnext'',
     Field (Pointer (Named ''FuncDeclaration'')) ''overnext0'', Field (Named ''Loc'') ''endloc'',
     Field (Named ''int'') ''vtblIndex'', Field (Named ''ILS'') ''inlineStatusStmt'',
     Field (Named ''ILS'') ''inlineStatusExp'', Field (Named ''PINLINE'') ''inlining'',
     Field (Named ''BUILTIN'') ''builtin'', Field (Named ''int'') ''inlineNest'',
     Field (Pointer (Named ''ForeachStatement'')) ''fes'',
     Field (Pointer (Named ''BaseClass'')) ''interfaceVirtual'',
     Field (Pointer (Named ''Type'')) ''tintro'',
     Field (Named ''StorageClass'') ''storage_class2'',
     Field (Pointer (Named ''VarDeclaration'')) ''nrvo_var'',
     Field (Pointer (Named ''Symbol'')) ''shidden'',
     Field (Pointer (Named ''ReturnStatements'')) ''returns'',
     Field (Pointer (Named ''GotoStatements'')) ''gotos'',
     Field (Named ''int'') ''tookAddressOf'', Field (Named ''VarDeclarations'') ''closureVars'',
     Field (Named ''VarDeclarations'') ''outerVars'',
     Field (Named ''FuncDeclarations'') ''siblingCallers'',
     Field (Pointer (Named ''FuncDeclarations'')) ''inlinedNestedCallees'',
     Field (Pointer (Named ''AttributeViolation'')) ''safetyViolation'',
     Field (Pointer (Named ''AttributeViolation'')) ''nogcViolation'',
     Field (Pointer (Named ''AttributeViolation'')) ''pureViolation'',
     Field (Pointer (Named ''AttributeViolation'')) ''nothrowViolation'',
     Field (Pointer (Named ''void'')) ''parametersDFAInfo'',
     Field (Named ''uint32_t'') ''flags'', Field (Named ''d_bool'') ''requiresClosure'',
     Method Plain False ''purityInprocess'' Extern,
     Method Plain False ''purityInprocess'' Extern,
     Method Plain False ''safetyInprocess'' Extern,
     Method Plain False ''safetyInprocess'' Extern,
     Method Plain False ''nothrowInprocess'' Extern,
     Method Plain False ''nothrowInprocess'' Extern, Method Plain False ''nogcInprocess'' Extern,
     Method Plain False ''nogcInprocess'' Extern, Method Plain False ''saferD'' Extern,
     Method Plain False ''saferD'' Extern, Method Plain False ''scopeInprocess'' Extern,
     Method Plain False ''scopeInprocess'' Extern, Method Plain False ''inlineScanned'' Extern,
     Method Plain False ''inlineScanned'' Extern, Method Plain False ''hasCatches'' Extern,
     Method Plain False ''hasCatches'' Extern, Method Plain False ''skipCodegen'' Extern,
     Method Plain False ''skipCodegen'' Extern, Method Plain False ''printf'' Extern,
     Method Plain False ''printf'' Extern, Method Plain False ''scanf'' Extern,
     Method Plain False ''scanf'' Extern, Method Plain False ''noreturn'' Extern,
     Method Plain False ''noreturn'' Extern, Method Plain False ''isNRVO'' Extern,
     Method Plain False ''isNRVO'' Extern, Method Plain False ''isNaked'' Extern,
     Method Plain False ''isNaked'' Extern, Method Plain False ''isGenerated'' Extern,
     Method Plain False ''isGenerated'' Extern, Method Plain False ''isIntroducing'' Extern,
     Method Plain False ''isIntroducing'' Extern,
     Method Plain False ''hasSemantic3Errors'' Extern,
     Method Plain False ''hasSemantic3Errors'' Extern, Method Plain False ''hasNoEH'' Extern,
     Method Plain False ''hasNoEH'' Extern, Method Plain False ''inferRetType'' Extern,
     Method Plain False ''inferRetType'' Extern, Method Plain False ''hasDualContext'' Extern,
     Method Plain False ''hasDualContext'' Extern,
     Method Plain False ''hasAlwaysInlines'' Extern,
     Method Plain False ''hasAlwaysInlines'' Extern, Method Plain False ''isCrtCtor'' Extern,
     Method Plain False ''isCrtCtor'' Extern, Method Plain False ''isCrtDtor'' Extern,
     Method Plain False ''isCrtDtor'' Extern, Method Plain False ''dllImport'' Extern,
     Method Plain False ''dllImport'' Extern, Method Plain False ''dllExport'' Extern,
     Method Plain False ''dllExport'' Extern, Method Plain False ''hasReturnExp'' Extern,
     Method Plain False ''hasReturnExp'' Extern, Method Plain False ''hasInlineAsm'' Extern,
     Method Plain False ''hasInlineAsm'' Extern,
     Method Plain False ''hasMultipleReturnExp'' Extern,
     Method Plain False ''hasMultipleReturnExp'' Extern,
     Field (Named ''ObjcFuncDeclaration'') ''objc'', Method Static False ''create'' Extern,
     Method Override False ''syntaxCopy'' Extern, Method Plain False ''frequires'' Extern,
     Method Plain False ''fensures'' Extern, Method Plain False ''frequire'' Extern,
     Method Plain False ''fensure'' Extern, Method Plain False ''fdrequire'' Extern,
     Method Plain False ''fdensure'' Extern, Method Plain False ''fdrequireParams'' Extern,
     Method Plain False ''fdensureParams'' Extern, Method Plain False ''frequires'' Extern,
     Method Plain False ''fensures'' Extern, Method Plain False ''frequire'' Extern,
     Method Plain False ''fensure'' Extern, Method Plain False ''fdrequire'' Extern,
     Method Plain False ''fdensure'' Extern, Method Plain False ''fdrequireParams'' Extern,
     Method Plain False ''fdensureParams'' Extern, Method Plain False ''inUnittest'' Extern,
     Method Plain False ''searchLabel'' Extern, Method Override False ''toPrettyChars'' Extern,
     Method Plain False ''toFullSignature'' Extern, Method Plain False ''isDMain'' Extern,
     Method Plain False ''isCMain'' Extern, Method Plain False ''isWinMain'' Extern,
     Method Plain False ''isDllMain'' Extern, Method Override True ''isExport'' Extern,
     Method Override True ''isImportedSymbol'' Extern, Method Override True ''isCodeseg'' Extern,
     Method Override True ''isOverloadable'' Extern, Method Override True ''isAbstract'' Extern,
     Method Plain False ''isSafe'' Extern, Method Plain False ''isTrusted'' Extern,
     Method Virtual False ''isNested'' Extern, Method Override False ''isThis'' Extern,
     Method Override True ''needThis'' Extern, Method Plain False ''isVirtual'' Inline,
     Method Plain False ''isFinalFunc'' Extern, Method Override False ''kind'' Extern,
     Method Plain False ''getParameterList'' Extern,
     Method Virtual False ''toAliasFunc'' Return_this,
     Method Override False ''accept'' Visit_this]"

definition FuncAliasDeclaration_class :: "cls class_decl" where
  "FuncAliasDeclaration_class = Class (Some (D FuncDeclaration)) True
    [Field (Pointer (Named ''FuncDeclaration'')) ''funcalias'',
     Field (Named ''d_bool'') ''hasOverloads'', Method Override False ''kind'' Extern,
     Method Override False ''toAliasFunc'' Extern, Method Override False ''accept'' Visit_this]"

definition FuncLiteralDeclaration_class :: "cls class_decl" where
  "FuncLiteralDeclaration_class = Class (Some (D FuncDeclaration)) True
    [Field (Named ''TOK'') ''tok'', Field (Pointer (Named ''Type'')) ''treq'',
     Field (Named ''d_bool'') ''deferToObj'', Method Override False ''syntaxCopy'' Extern,
     Method Override False ''isNested'' Extern, Method Override False ''isThis'' Extern,
     Method Override False ''kind'' Extern, Method Override False ''toPrettyChars'' Extern,
     Method Override False ''accept'' Visit_this]"

definition CtorDeclaration_class :: "cls class_decl" where
  "CtorDeclaration_class = Class (Some (D FuncDeclaration)) True
    [Field (Named ''d_bool'') ''isCpCtor'', Field (Named ''d_bool'') ''isMoveCtor'',
     Field (Named ''d_bool'') ''isCppBaseCtor'',
     Field (Pointer (Named ''CtorDeclaration'')) ''cppBaseCtor'',
     Method Override False ''syntaxCopy'' Extern, Method Override False ''kind'' Extern,
     Method Override False ''accept'' Visit_this]"

definition PostBlitDeclaration_class :: "cls class_decl" where
  "PostBlitDeclaration_class = Class (Some (D FuncDeclaration)) True
    [Method Override False ''syntaxCopy'' Extern, Method Override False ''accept'' Visit_this]"

definition DtorDeclaration_class :: "cls class_decl" where
  "DtorDeclaration_class = Class (Some (D FuncDeclaration)) True
    [Method Override False ''syntaxCopy'' Extern, Method Override False ''kind'' Extern,
     Method Override False ''accept'' Visit_this]"

definition StaticCtorDeclaration_class :: "cls class_decl" where
  "StaticCtorDeclaration_class = Class (Some (D FuncDeclaration)) False
    [Method Override False ''syntaxCopy'' Extern, Method Override True ''isThis'' Extern,
     Method Override False ''accept'' Visit_this]"

definition SharedStaticCtorDeclaration_class :: "cls class_decl" where
  "SharedStaticCtorDeclaration_class = Class (Some (D StaticCtorDeclaration)) True
    [Field (Named ''bool'') ''standalone'', Method Override False ''syntaxCopy'' Extern,
     Method Override False ''accept'' Visit_this]"

definition StaticDtorDeclaration_class :: "cls class_decl" where
  "StaticDtorDeclaration_class = Class (Some (D FuncDeclaration)) False
    [Field (Pointer (Named ''VarDeclaration'')) ''vgate'',
     Method Override False ''syntaxCopy'' Extern, Method Override True ''isThis'' Extern,
     Method Override False ''accept'' Visit_this]"

definition SharedStaticDtorDeclaration_class :: "cls class_decl" where
  "SharedStaticDtorDeclaration_class = Class (Some (D StaticDtorDeclaration)) True
    [Method Override False ''syntaxCopy'' Extern, Method Override False ''accept'' Visit_this]"

definition InvariantDeclaration_class :: "cls class_decl" where
  "InvariantDeclaration_class = Class (Some (D FuncDeclaration)) True
    [Method Override False ''syntaxCopy'' Extern, Method Override False ''accept'' Visit_this]"

definition UnitTestDeclaration_class :: "cls class_decl" where
  "UnitTestDeclaration_class = Class (Some (D FuncDeclaration)) True
    [Field (Pointer (Named ''char'')) ''codedoc'',
     Field (Named ''FuncDeclarations'') ''deferredNested'',
     Method Override False ''syntaxCopy'' Extern, Method Override False ''isThis'' Extern,
     Method Override False ''accept'' Visit_this]"

definition NewDeclaration_class :: "cls class_decl" where
  "NewDeclaration_class = Class (Some (D FuncDeclaration)) True
    [Method Override False ''syntaxCopy'' Extern, Method Override False ''kind'' Extern,
     Method Override False ''accept'' Visit_this]"

definition AggregateDeclaration_class :: "cls class_decl" where
  "AggregateDeclaration_class = Class (Some (D ScopeDsymbol)) False
    [Field (Pointer (Named ''Type'')) ''type'', Field (Named ''StorageClass'') ''storage_class'',
     Field (Named ''unsigned'') ''structsize'', Field (Named ''unsigned'') ''alignsize'',
     Field (Named ''VarDeclarations'') ''fields'',
     Field (Pointer (Named ''Dsymbol'')) ''deferred'', Field (Named ''ClassKind'') ''classKind'',
     Field (Named ''CPPMANGLE'') ''cppmangle'',
     Field (Pointer (Named ''MangleOverride'')) ''pMangleOverride'',
     Field (Pointer (Named ''Dsymbol'')) ''enclosing'',
     Field (Pointer (Named ''VarDeclaration'')) ''vthis'',
     Field (Pointer (Named ''VarDeclaration'')) ''vthis2'',
     Field (Named ''FuncDeclarations'') ''invs'',
     Field (Pointer (Named ''FuncDeclaration'')) ''inv'',
     Field (Pointer (Named ''Dsymbol'')) ''ctor'',
     Field (Pointer (Named ''CtorDeclaration'')) ''defaultCtor'',
     Field (Pointer (Named ''AliasThis'')) ''aliasthis'',
     Field (Named ''DtorDeclarations'') ''userDtors'',
     Field (Pointer (Named ''DtorDeclaration'')) ''aggrDtor'',
     Field (Pointer (Named ''DtorDeclaration'')) ''dtor'',
     Field (Pointer (Named ''DtorDeclaration'')) ''tidtor'',
     Field (Pointer (Named ''DtorDeclaration'')) ''fieldDtor'',
     Field (Pointer (Named ''DtorDeclaration'')) ''cppBaseDtor'',
     Field (Pointer (Named ''Expression'')) ''getRTInfo'',
     Field (Pointer (Named ''Scope'')) ''rtInfoScope'',
     Field (Named ''Visibility'') ''visibility'', Field (Named ''d_bool'') ''noDefaultCtor'',
     Field (Named ''d_bool'') ''disableNew'', Field (Named ''Sizeok'') ''sizeok'',
     Method Override True ''isDeprecated'' Extern, Method Plain False ''isNested'' Extern,
     Method Override True ''isExport'' Extern, Method Override True ''visible'' Extern,
     Method Plain False ''handleType'' Inline, Method Plain False ''hasInvariant'' Extern,
     Field (Pointer (Named ''void'')) ''sinit'', Method Override False ''accept'' Visit_this]"

definition StructDeclaration_class :: "cls class_decl" where
  "StructDeclaration_class = Class (Some (D AggregateDeclaration)) False
    [Field (Named ''FuncDeclarations'') ''postblits'',
     Field (Pointer (Named ''FuncDeclaration'')) ''postblit'',
     Field (Pointer (Named ''FuncDeclaration'')) ''xeq'',
     Field (Pointer (Named ''FuncDeclaration'')) ''xcmp'',
     Field (Pointer (Named ''FuncDeclaration'')) ''xhash'',
     Static_field (Pointer (Named ''FuncDeclaration'')) ''xerreq'',
     Static_field (Pointer (Named ''FuncDeclaration'')) ''xerrcmp'',
     Field (Pointer (Named ''TypeTuple'')) ''argTypes'',
     Field (Named ''structalign_t'') ''alignment'', Field (Named ''ThreeState'') ''ispod'',
     Field (Named ''uint16_t'') ''bitFields'', Method Static False ''create'' Extern,
     Method Override False ''syntaxCopy'' Extern, Method Override False ''kind'' Extern,
     Method Plain False ''hasCopyConstruction'' Extern, Method Plain False ''zeroInit'' Extern,
     Method Plain False ''zeroInit'' Extern, Method Plain False ''hasIdentityAssign'' Extern,
     Method Plain False ''hasIdentityAssign'' Extern,
     Method Plain False ''hasBlitAssign'' Extern, Method Plain False ''hasBlitAssign'' Extern,
     Method Plain False ''hasIdentityEquals'' Extern,
     Method Plain False ''hasIdentityEquals'' Extern, Method Plain False ''hasNoFields'' Extern,
     Method Plain False ''hasNoFields'' Extern, Method Plain False ''hasCopyCtor'' Extern,
     Method Plain False ''hasCopyCtor'' Extern, Method Override False ''accept'' Visit_this,
     Method Plain False ''numArgTypes'' Extern, Method Plain False ''argType'' Extern]"

definition UnionDeclaration_class :: "cls class_decl" where
  "UnionDeclaration_class = Class (Some (D StructDeclaration)) True
    [Method Override False ''syntaxCopy'' Extern, Method Override False ''kind'' Extern,
     Method Override False ''accept'' Visit_this]"

definition ClassDeclaration_class :: "cls class_decl" where
  "ClassDeclaration_class = Class (Some (D AggregateDeclaration)) False
    [Static_field (Pointer (Named ''ClassDeclaration'')) ''object'',
     Static_field (Pointer (Named ''ClassDeclaration'')) ''throwable'',
     Static_field (Pointer (Named ''ClassDeclaration'')) ''exception'',
     Static_field (Pointer (Named ''ClassDeclaration'')) ''errorException'',
     Static_field (Pointer (Named ''ClassDeclaration'')) ''cpp_type_info_ptr'',
     Field (Pointer (Named ''ClassDeclaration'')) ''baseClass'',
     Field (Named ''Dsymbols'') ''vtbl'', Field (Named ''Dsymbols'') ''vtblFinal'',
     Field (Pointer (Named ''BaseClasses'')) ''baseclasses'',
     Field (Named ''DArray<BaseClass*>'') ''interfaces'',
     Field (Pointer (Named ''BaseClasses'')) ''vtblInterfaces'',
     Field (Pointer (Named ''TypeInfoClassDeclaration'')) ''vclassinfo'',
     Field (Named ''uint32_t'') ''bitFields'', Method Plain False ''com'' Extern,
     Method Plain False ''com'' Extern, Method Plain False ''stack'' Extern,
     Method Plain False ''stack'' Extern, Method Plain False ''inuse'' Extern,
     Method Plain False ''inuse'' Extern, Method Plain False ''isabstract'' Extern,
     Method Plain False ''isabstract'' Extern, Method Plain False ''baseok'' Extern,
     Method Plain False ''baseok'' Extern, Field (Named ''int'') ''cppDtorVtblIndex'',
     Field (Named ''ObjcClassDeclaration'') ''objc'', Method Static False ''create'' Extern,
     Method Override False ''toPrettyChars'' Extern, Method Override False ''syntaxCopy'' Extern,
     Method Virtual False ''isBaseOf'' Extern, Method Plain False ''isBaseInfoComplete'' Extern,
     Method Plain False ''hasMonitor'' Extern, Method Plain False ''isCOMclass'' Extern,
     Method Virtual False ''isCOMinterface'' Extern, Method Plain False ''isCPPclass'' Extern,
     Method Virtual False ''isCPPinterface'' Extern, Method Virtual False ''vtblOffset'' Extern,
     Method Override False ''kind'' Extern, Field (Pointer (Named ''Dsymbol'')) ''vtblsym'',
     Method Override False ''accept'' Visit_this]"

definition InterfaceDeclaration_class :: "cls class_decl" where
  "InterfaceDeclaration_class = Class (Some (D ClassDeclaration)) True
    [Method Override False ''syntaxCopy'' Extern, Method Override False ''isBaseOf'' Extern,
     Method Override False ''kind'' Extern, Method Override False ''vtblOffset'' Extern,
     Method Override False ''isCPPinterface'' Extern,
     Method Override False ''isCOMinterface'' Extern,
     Method Override False ''accept'' Visit_this]"

definition AttribDeclaration_class :: "cls class_decl" where
  "AttribDeclaration_class = Class (Some (D Dsymbol)) False
    [Field (Pointer (Named ''Dsymbols'')) ''decl'', Method Override False ''kind'' Extern,
     Method Override False ''accept'' Visit_this]"

definition StorageClassDeclaration_class :: "cls class_decl" where
  "StorageClassDeclaration_class = Class (Some (D AttribDeclaration)) False
    [Field (Named ''StorageClass'') ''stc'', Method Override False ''syntaxCopy'' Extern,
     Method Override False ''accept'' Visit_this]"

definition DeprecatedDeclaration_class :: "cls class_decl" where
  "DeprecatedDeclaration_class = Class (Some (D StorageClassDeclaration)) True
    [Field (Pointer (Named ''Expression'')) ''msg'',
     Field (Pointer (Named ''const char'')) ''msgstr'',
     Method Override False ''syntaxCopy'' Extern, Method Override False ''accept'' Visit_this]"

definition LinkDeclaration_class :: "cls class_decl" where
  "LinkDeclaration_class = Class (Some (D AttribDeclaration)) True
    [Field (Named ''LINK'') ''linkage'', Method Static False ''create'' Extern,
     Method Override False ''syntaxCopy'' Extern, Method Override False ''accept'' Visit_this]"

definition CPPMangleDeclaration_class :: "cls class_decl" where
  "CPPMangleDeclaration_class = Class (Some (D AttribDeclaration)) True
    [Field (Named ''CPPMANGLE'') ''cppmangle'', Method Override False ''syntaxCopy'' Extern,
     Method Override False ''accept'' Visit_this]"

definition CPPNamespaceDeclaration_class :: "cls class_decl" where
  "CPPNamespaceDeclaration_class = Class (Some (D AttribDeclaration)) True
    [Field (Pointer (Named ''Expression'')) ''exp'', Method Override False ''syntaxCopy'' Extern,
     Method Override False ''accept'' Visit_this]"

definition VisibilityDeclaration_class :: "cls class_decl" where
  "VisibilityDeclaration_class = Class (Some (D AttribDeclaration)) True
    [Field (Named ''Visibility'') ''visibility'',
     Field (Named ''DArray<Identifier*>'') ''pkg_identifiers'',
     Method Override False ''syntaxCopy'' Extern, Method Override False ''kind'' Extern,
     Method Override False ''toPrettyChars'' Extern,
     Method Override False ''accept'' Visit_this]"

definition AlignDeclaration_class :: "cls class_decl" where
  "AlignDeclaration_class = Class (Some (D AttribDeclaration)) True
    [Field (Pointer (Named ''Expressions'')) ''alignExps'',
     Field (Named ''structalign_t'') ''salign'', Method Override False ''syntaxCopy'' Extern,
     Method Override False ''accept'' Visit_this]"

definition AnonDeclaration_class :: "cls class_decl" where
  "AnonDeclaration_class = Class (Some (D AttribDeclaration)) True
    [Field (Named ''d_bool'') ''isunion'', Field (Named ''unsigned'') ''anonoffset'',
     Field (Named ''unsigned'') ''anonstructsize'', Field (Named ''unsigned'') ''anonalignsize'',
     Method Override False ''syntaxCopy'' Extern, Method Override False ''kind'' Extern,
     Method Override False ''accept'' Visit_this]"

definition PragmaDeclaration_class :: "cls class_decl" where
  "PragmaDeclaration_class = Class (Some (D AttribDeclaration)) True
    [Field (Pointer (Named ''Expressions'')) ''args'',
     Method Override False ''syntaxCopy'' Extern, Method Override False ''kind'' Extern,
     Method Override False ''accept'' Visit_this]"

definition ConditionalDeclaration_class :: "cls class_decl" where
  "ConditionalDeclaration_class = Class (Some (D AttribDeclaration)) False
    [Field (Pointer (Named ''Condition'')) ''condition'',
     Field (Pointer (Named ''Dsymbols'')) ''elsedecl'',
     Method Override False ''syntaxCopy'' Extern, Method Override False ''accept'' Visit_this]"

definition StaticIfDeclaration_class :: "cls class_decl" where
  "StaticIfDeclaration_class = Class (Some (D ConditionalDeclaration)) True
    [Field (Pointer (Named ''ScopeDsymbol'')) ''scopesym'',
     Field (Named ''d_bool'') ''addisdone'', Field (Named ''d_bool'') ''onStack'',
     Method Override False ''syntaxCopy'' Extern, Method Override False ''kind'' Extern,
     Method Override False ''accept'' Visit_this]"

definition StaticForeachDeclaration_class :: "cls class_decl" where
  "StaticForeachDeclaration_class = Class (Some (D AttribDeclaration)) True
    [Field (Pointer (Named ''StaticForeach'')) ''sfe'',
     Field (Pointer (Named ''ScopeDsymbol'')) ''scopesym'', Field (Named ''d_bool'') ''onStack'',
     Field (Named ''d_bool'') ''cached'', Field (Pointer (Named ''Dsymbols'')) ''cache'',
     Method Override False ''syntaxCopy'' Extern, Method Override False ''kind'' Extern,
     Method Override False ''accept'' Visit_this]"

definition ForwardingAttribDeclaration_class :: "cls class_decl" where
  "ForwardingAttribDeclaration_class = Class (Some (D AttribDeclaration)) True
    [Field (Pointer (Named ''ForwardingScopeDsymbol'')) ''sym'',
     Method Override False ''accept'' Visit_this]"

definition MixinDeclaration_class :: "cls class_decl" where
  "MixinDeclaration_class = Class (Some (D AttribDeclaration)) True
    [Field (Pointer (Named ''Expressions'')) ''exps'',
     Field (Pointer (Named ''ScopeDsymbol'')) ''scopesym'',
     Field (Named ''d_bool'') ''compiled'', Method Override False ''syntaxCopy'' Extern,
     Method Override False ''kind'' Extern, Method Override False ''accept'' Visit_this]"

definition UserAttributeDeclaration_class :: "cls class_decl" where
  "UserAttributeDeclaration_class = Class (Some (D AttribDeclaration)) True
    [Field (Pointer (Named ''Expressions'')) ''atts'',
     Method Override False ''syntaxCopy'' Extern, Method Override False ''kind'' Extern,
     Method Override False ''accept'' Visit_this]"

definition UnpackDeclaration_class :: "cls class_decl" where
  "UnpackDeclaration_class = Class (Some (D AttribDeclaration)) True
    [Field (Pointer (Named ''Expression'')) ''_init'',
     Field (Pointer (Named ''ScopeDsymbol'')) ''scopesym'',
     Field (Named ''StorageClass'') ''declared_storage_class'',
     Field (Named ''StorageClass'') ''storage_class'', Field (Named ''bool'') ''onStack'',
     Field (Named ''bool'') ''lowered'', Method Override False ''syntaxCopy'' Extern,
     Method Override False ''kind'' Extern, Method Override False ''accept'' Visit_this]"

definition EnumDeclaration_class :: "cls class_decl" where
  "EnumDeclaration_class = Class (Some (D ScopeDsymbol)) True
    [Field (Pointer (Named ''Type'')) ''type'', Field (Pointer (Named ''Type'')) ''memtype'',
     Field (Named ''Visibility'') ''visibility'',
     Field (Pointer (Named ''Expression'')) ''maxval'',
     Field (Pointer (Named ''Expression'')) ''minval'',
     Field (Pointer (Named ''Expression'')) ''defaultval'',
     Field (Named ''uint8_t'') ''bitFields'', Method Plain False ''isdeprecated'' Extern,
     Method Plain False ''isdeprecated'' Extern, Method Plain False ''added'' Extern,
     Method Plain False ''added'' Extern, Method Plain False ''inuse'' Extern,
     Method Plain False ''inuse'' Extern, Method Override False ''syntaxCopy'' Extern,
     Method Override False ''kind'' Extern, Method Override False ''isDeprecated'' Extern,
     Method Override False ''visible'' Extern, Method Plain False ''isSpecial'' Extern,
     Field (Pointer (Named ''void'')) ''sinit'', Method Override False ''accept'' Visit_this]"

definition EnumMember_class :: "cls class_decl" where
  "EnumMember_class = Class (Some (D VarDeclaration)) True
    [Method Plain False ''value'' Extern, Field (Pointer (Named ''Expression'')) ''origValue'',
     Field (Pointer (Named ''Type'')) ''origType'',
     Field (Pointer (Named ''EnumDeclaration'')) ''ed'',
     Method Override False ''syntaxCopy'' Extern, Method Override False ''kind'' Extern,
     Method Override False ''accept'' Visit_this]"

definition Import_class :: "cls class_decl" where
  "Import_class = Class (Some (D Dsymbol)) True
    [Field (Named ''DArray<Identifier*>'') ''packages'',
     Field (Pointer (Named ''Identifier'')) ''id'',
     Field (Pointer (Named ''Identifier'')) ''aliasId'', Field (Named ''int'') ''isstatic'',
     Field (Named ''Visibility'') ''visibility'', Field (Named ''Identifiers'') ''names'',
     Field (Named ''Identifiers'') ''aliases'', Field (Pointer (Named ''Module'')) ''mod'',
     Field (Pointer (Named ''Package'')) ''pkg'',
     Field (Named ''AliasDeclarations'') ''aliasdecls'', Method Override False ''kind'' Extern,
     Method Override False ''visible'' Extern, Method Override False ''syntaxCopy'' Extern,
     Method Override False ''accept'' Visit_this]"

definition Package_class :: "cls class_decl" where
  "Package_class = Class (Some (D ScopeDsymbol)) False
    [Field (Named ''PKG'') ''isPkgMod'', Field (Named ''unsigned'') ''tag'',
     Field (Pointer (Named ''Module'')) ''mod'', Method Override False ''kind'' Extern,
     Method Plain False ''isAncestorPackageOf'' Extern,
     Method Override False ''accept'' Visit_this, Method Plain False ''isPackageMod'' Extern]"

definition Module_class :: "cls class_decl" where
  "Module_class = Class (Some (D Package)) True
    [Static_field (Pointer (Named ''Module'')) ''rootModule'',
     Static_field (Pointer (Named ''DsymbolTable'')) ''modules'',
     Static_field (Named ''Modules'') ''amodules'',
     Static_field (Named ''Dsymbols'') ''deferred'',
     Static_field (Named ''Dsymbols'') ''deferred2'',
     Static_field (Named ''Dsymbols'') ''deferred3'', Method Static False ''_init'' Extern,
     Static_field (Pointer (Named ''AggregateDeclaration'')) ''moduleinfo'',
     Field (Named ''DString'') ''arg'', Field (Pointer (Named ''ModuleDeclaration'')) ''md'',
     Field (Named ''FileName'') ''srcfile'', Field (Named ''FileName'') ''objfile'',
     Field (Named ''FileName'') ''hdrfile'', Field (Named ''FileName'') ''docfile'',
     Field (Named ''DArray<unsigned char>'') ''src'', Field (Named ''unsigned'') ''errors'',
     Field (Named ''unsigned'') ''numlines'', Field (Named ''FileType'') ''filetype'',
     Field (Named ''d_bool'') ''hasAlwaysInlines'', Field (Named ''d_bool'') ''isPackageFile'',
     Field (Named ''Edition'') ''edition'', Field (Pointer (Named ''Package'')) ''pkg'',
     Field (Named ''Strings'') ''contentImportedFiles'',
     Field (Named ''int'') ''needmoduleinfo'', Field (Named ''ThreeState'') ''selfimports'',
     Field (Named ''ThreeState'') ''rootimports'',
     Field (Pointer (Named ''void'')) ''tagSymTab'', Field (Named ''OutBuffer'') ''defines'',
     Method Plain False ''selfImports'' Extern, Method Plain False ''rootImports'' Extern,
     Field (Pointer (Named ''Identifier'')) ''searchCacheIdent'',
     Field (Pointer (Named ''Dsymbol'')) ''searchCacheSymbol'',
     Field (Named ''SearchOptFlags'') ''searchCacheFlags'',
     Field (Named ''d_bool'') ''insearch'', Field (Named ''d_bool'') ''isExplicitlyOutOfBinary'',
     Field (Pointer (Named ''Module'')) ''importedFrom'', Field (Named ''Modules'') ''aimports'',
     Field (Pointer (Named ''Identifiers'')) ''debugids'',
     Field (Pointer (Named ''Identifiers'')) ''debugidsNot'',
     Field (Pointer (Named ''Identifiers'')) ''versionids'',
     Field (Pointer (Named ''Identifiers'')) ''versionidsNot'',
     Field (Named ''MacroTable'') ''macrotable'',
     Field (Pointer (Named ''void'')) ''escapetable'', Method Static False ''create'' Extern,
     Method Static False ''load'' Extern, Method Override False ''kind'' Extern,
     Method Plain False ''read'' Extern, Method Plain False ''parse'' Extern,
     Method Plain False ''needModuleInfo'' Extern,
     Method Override False ''isPackageAccessible'' Extern,
     Method Override False ''symtabInsert'' Extern, Method Plain False ''imports'' Extern,
     Method Plain False ''isRoot'' Inline, Method Plain False ''isCoreModule'' Extern,
     Field (Pointer (Named ''Symbol'')) ''cov'', Field (Named ''DArray<unsigned>'') ''covb'',
     Field (Pointer (Named ''Symbol'')) ''sfilename'', Field (Named ''bool'') ''hasCDtor'',
     Field (Pointer (Named ''void'')) ''ctfe_cov'', Method Override False ''accept'' Visit_this]"

definition Nspace_class :: "cls class_decl" where
  "Nspace_class = Class (Some (D ScopeDsymbol)) True
    [Field (Pointer (Named ''Expression'')) ''identExp'',
     Method Override False ''syntaxCopy'' Extern, Method Override False ''kind'' Extern,
     Method Override False ''accept'' Visit_this]"

definition LabelDsymbol_class :: "cls class_decl" where
  "LabelDsymbol_class = Class (Some (D Dsymbol)) True
    [Field (Pointer (Named ''LabelStatement'')) ''statement'',
     Field (Named ''d_bool'') ''deleted'', Field (Named ''d_bool'') ''iasm'',
     Field (Named ''d_bool'') ''duplicated'', Method Static False ''create'' Extern,
     Method Override False ''isLabel'' Extern, Method Override False ''accept'' Visit_this]"

definition StaticAssert_class :: "cls class_decl" where
  "StaticAssert_class = Class (Some (D Dsymbol)) False
    [Field (Pointer (Named ''Expression'')) ''exp'',
     Field (Pointer (Named ''Expressions'')) ''msg'',
     Method Override False ''syntaxCopy'' Extern, Method Override False ''kind'' Extern,
     Method Override False ''accept'' Visit_this]"

definition TemplateDeclaration_class :: "cls class_decl" where
  "TemplateDeclaration_class = Class (Some (D ScopeDsymbol)) True
    [Field (Pointer (Named ''TemplateParameters'')) ''parameters'',
     Field (Pointer (Named ''TemplateParameters'')) ''origParameters'',
     Field (Pointer (Named ''Expression'')) ''constraint'',
     Field (Pointer (Named ''void'')) ''instances'',
     Field (Pointer (Named ''TemplateDeclaration'')) ''overnext'',
     Field (Pointer (Named ''TemplateDeclaration'')) ''overroot'',
     Field (Pointer (Named ''FuncDeclaration'')) ''funcroot'',
     Field (Pointer (Named ''Dsymbol'')) ''onemember'', Field (Named ''d_bool'') ''literal'',
     Field (Named ''d_bool'') ''ismixin'', Field (Named ''d_bool'') ''isstatic'',
     Field (Named ''d_bool'') ''isTrivialAliasSeq'', Field (Named ''d_bool'') ''isTrivialAlias'',
     Field (Named ''d_bool'') ''deprecated_'', Field (Named ''d_bool'') ''isCmacro'',
     Field (Named ''d_bool'') ''haveComputedOneMember'',
     Field (Named ''Visibility'') ''visibility'',
     Field (Pointer (Named ''TemplatePrevious'')) ''previous'',
     Field (Pointer (Named ''Expression'')) ''lastConstraint'',
     Field (Named ''Expressions'') ''lastConstraintNegs'',
     Field (Pointer (Named ''Objects'')) ''lastConstraintTiargs'',
     Method Override False ''syntaxCopy'' Extern, Method Override False ''kind'' Extern,
     Method Override False ''visible'' Extern, Method Override False ''isDeprecated'' Extern,
     Method Override False ''isOverloadable'' Extern,
     Method Override False ''accept'' Visit_this]"

definition TemplateInstance_class :: "cls class_decl" where
  "TemplateInstance_class = Class (Some (D ScopeDsymbol)) False
    [Field (Pointer (Named ''Identifier'')) ''name'',
     Field (Pointer (Named ''Objects'')) ''tiargs'', Field (Named ''Objects'') ''tdtypes'',
     Field (Named ''Modules'') ''importedModules'',
     Field (Pointer (Named ''Dsymbol'')) ''tempdecl'',
     Field (Pointer (Named ''Dsymbol'')) ''enclosing'',
     Field (Pointer (Named ''Dsymbol'')) ''aliasdecl'',
     Field (Pointer (Named ''TemplateInstance'')) ''inst'',
     Field (Pointer (Named ''ScopeDsymbol'')) ''argsym'',
     Field (Pointer (Named ''Expressions'')) ''fargs'',
     Field (Pointer (Named ''Identifiers'')) ''fnames'',
     Field (Pointer (Named ''TemplateInstances'')) ''deferred'',
     Field (Pointer (Named ''Module'')) ''memberOf'',
     Field (Pointer (Named ''TemplateInstance'')) ''tinst'',
     Field (Pointer (Named ''TemplateInstance'')) ''tnext'',
     Field (Pointer (Named ''Module'')) ''minst'', Field (Named ''unsigned short'') ''_nest'',
     Field (Named ''unsigned char'') ''inuse'', Method Override False ''syntaxCopy'' Extern,
     Method Override False ''kind'' Extern, Method Override True ''toPrettyCharsHelper'' Extern,
     Method Override True ''getIdent'' Extern, Method Override False ''accept'' Visit_this]"

definition TemplateMixin_class :: "cls class_decl" where
  "TemplateMixin_class = Class (Some (D TemplateInstance)) True
    [Field (Pointer (Named ''TypeQualified'')) ''tqual'',
     Method Override False ''syntaxCopy'' Extern, Method Override False ''kind'' Extern,
     Method Override False ''accept'' Visit_this]"

definition DebugSymbol_class :: "cls class_decl" where
  "DebugSymbol_class = Class (Some (D Dsymbol)) True
    [Method Override False ''syntaxCopy'' Extern, Method Override False ''kind'' Extern,
     Method Override False ''accept'' Visit_this]"

definition VersionSymbol_class :: "cls class_decl" where
  "VersionSymbol_class = Class (Some (D Dsymbol)) True
    [Method Override False ''syntaxCopy'' Extern, Method Override False ''kind'' Extern,
     Method Override False ''accept'' Visit_this]"

definition AliasThis_class :: "cls class_decl" where
  "AliasThis_class = Class (Some (D Dsymbol)) True
    [Field (Pointer (Named ''Identifier'')) ''ident'',
     Field (Pointer (Named ''Dsymbol'')) ''sym'', Field (Named ''d_bool'') ''isDeprecated_'',
     Method Override False ''syntaxCopy'' Extern, Method Override False ''kind'' Extern,
     Method Plain False ''isAliasThis'' Return_this, Method Override False ''accept'' Visit_this,
     Method Override False ''isDeprecated'' Inline]"

text \<open>Only declared forward in the headers; the class of the D sources.\<close>

definition AliasAssign_class :: "cls class_decl" where
  "AliasAssign_class = Class (Some (D Dsymbol)) True
    [Field (Pointer (Named ''Identifier'')) ''ident'', Field (Pointer (Named ''Type'')) ''type'',
     Field (Pointer (Named ''Dsymbol'')) ''aliassym'',
     Method Override False ''syntaxCopy'' Extern, Method Override False ''kind'' Extern,
     Method Override False ''accept'' Visit_this]"

primrec dsymbol_decl :: "dsymbol_node \<Rightarrow> cls class_decl" where
  "dsymbol_decl Dsymbol = Dsymbol_class"
| "dsymbol_decl ScopeDsymbol = ScopeDsymbol_class"
| "dsymbol_decl WithScopeSymbol = WithScopeSymbol_class"
| "dsymbol_decl ArrayScopeSymbol = ArrayScopeSymbol_class"
| "dsymbol_decl OverloadSet = OverloadSet_class"
| "dsymbol_decl ForwardingScopeDsymbol = ForwardingScopeDsymbol_class"
| "dsymbol_decl ExpressionDsymbol = ExpressionDsymbol_class"
| "dsymbol_decl CAsmDeclaration = CAsmDeclaration_class"
| "dsymbol_decl Declaration = Declaration_class"
| "dsymbol_decl TupleDeclaration = TupleDeclaration_class"
| "dsymbol_decl AliasDeclaration = AliasDeclaration_class"
| "dsymbol_decl OverDeclaration = OverDeclaration_class"
| "dsymbol_decl VarDeclaration = VarDeclaration_class"
| "dsymbol_decl BitFieldDeclaration = BitFieldDeclaration_class"
| "dsymbol_decl SymbolDeclaration = SymbolDeclaration_class"
| "dsymbol_decl TypeInfoDeclaration = TypeInfoDeclaration_class"
| "dsymbol_decl TypeInfoStructDeclaration = TypeInfoStructDeclaration_class"
| "dsymbol_decl TypeInfoClassDeclaration = TypeInfoClassDeclaration_class"
| "dsymbol_decl TypeInfoInterfaceDeclaration = TypeInfoInterfaceDeclaration_class"
| "dsymbol_decl TypeInfoPointerDeclaration = TypeInfoPointerDeclaration_class"
| "dsymbol_decl TypeInfoArrayDeclaration = TypeInfoArrayDeclaration_class"
| "dsymbol_decl TypeInfoStaticArrayDeclaration = TypeInfoStaticArrayDeclaration_class"
| "dsymbol_decl TypeInfoAssociativeArrayDeclaration = TypeInfoAssociativeArrayDeclaration_class"
| "dsymbol_decl TypeInfoEnumDeclaration = TypeInfoEnumDeclaration_class"
| "dsymbol_decl TypeInfoFunctionDeclaration = TypeInfoFunctionDeclaration_class"
| "dsymbol_decl TypeInfoDelegateDeclaration = TypeInfoDelegateDeclaration_class"
| "dsymbol_decl TypeInfoTupleDeclaration = TypeInfoTupleDeclaration_class"
| "dsymbol_decl TypeInfoConstDeclaration = TypeInfoConstDeclaration_class"
| "dsymbol_decl TypeInfoInvariantDeclaration = TypeInfoInvariantDeclaration_class"
| "dsymbol_decl TypeInfoSharedDeclaration = TypeInfoSharedDeclaration_class"
| "dsymbol_decl TypeInfoWildDeclaration = TypeInfoWildDeclaration_class"
| "dsymbol_decl TypeInfoVectorDeclaration = TypeInfoVectorDeclaration_class"
| "dsymbol_decl ThisDeclaration = ThisDeclaration_class"
| "dsymbol_decl FuncDeclaration = FuncDeclaration_class"
| "dsymbol_decl FuncAliasDeclaration = FuncAliasDeclaration_class"
| "dsymbol_decl FuncLiteralDeclaration = FuncLiteralDeclaration_class"
| "dsymbol_decl CtorDeclaration = CtorDeclaration_class"
| "dsymbol_decl PostBlitDeclaration = PostBlitDeclaration_class"
| "dsymbol_decl DtorDeclaration = DtorDeclaration_class"
| "dsymbol_decl StaticCtorDeclaration = StaticCtorDeclaration_class"
| "dsymbol_decl SharedStaticCtorDeclaration = SharedStaticCtorDeclaration_class"
| "dsymbol_decl StaticDtorDeclaration = StaticDtorDeclaration_class"
| "dsymbol_decl SharedStaticDtorDeclaration = SharedStaticDtorDeclaration_class"
| "dsymbol_decl InvariantDeclaration = InvariantDeclaration_class"
| "dsymbol_decl UnitTestDeclaration = UnitTestDeclaration_class"
| "dsymbol_decl NewDeclaration = NewDeclaration_class"
| "dsymbol_decl AggregateDeclaration = AggregateDeclaration_class"
| "dsymbol_decl StructDeclaration = StructDeclaration_class"
| "dsymbol_decl UnionDeclaration = UnionDeclaration_class"
| "dsymbol_decl ClassDeclaration = ClassDeclaration_class"
| "dsymbol_decl InterfaceDeclaration = InterfaceDeclaration_class"
| "dsymbol_decl AttribDeclaration = AttribDeclaration_class"
| "dsymbol_decl StorageClassDeclaration = StorageClassDeclaration_class"
| "dsymbol_decl DeprecatedDeclaration = DeprecatedDeclaration_class"
| "dsymbol_decl LinkDeclaration = LinkDeclaration_class"
| "dsymbol_decl CPPMangleDeclaration = CPPMangleDeclaration_class"
| "dsymbol_decl CPPNamespaceDeclaration = CPPNamespaceDeclaration_class"
| "dsymbol_decl VisibilityDeclaration = VisibilityDeclaration_class"
| "dsymbol_decl AlignDeclaration = AlignDeclaration_class"
| "dsymbol_decl AnonDeclaration = AnonDeclaration_class"
| "dsymbol_decl PragmaDeclaration = PragmaDeclaration_class"
| "dsymbol_decl ConditionalDeclaration = ConditionalDeclaration_class"
| "dsymbol_decl StaticIfDeclaration = StaticIfDeclaration_class"
| "dsymbol_decl StaticForeachDeclaration = StaticForeachDeclaration_class"
| "dsymbol_decl ForwardingAttribDeclaration = ForwardingAttribDeclaration_class"
| "dsymbol_decl MixinDeclaration = MixinDeclaration_class"
| "dsymbol_decl UserAttributeDeclaration = UserAttributeDeclaration_class"
| "dsymbol_decl UnpackDeclaration = UnpackDeclaration_class"
| "dsymbol_decl EnumDeclaration = EnumDeclaration_class"
| "dsymbol_decl EnumMember = EnumMember_class"
| "dsymbol_decl Import = Import_class"
| "dsymbol_decl Package = Package_class"
| "dsymbol_decl Module = Module_class"
| "dsymbol_decl Nspace = Nspace_class"
| "dsymbol_decl LabelDsymbol = LabelDsymbol_class"
| "dsymbol_decl StaticAssert = StaticAssert_class"
| "dsymbol_decl TemplateDeclaration = TemplateDeclaration_class"
| "dsymbol_decl TemplateInstance = TemplateInstance_class"
| "dsymbol_decl TemplateMixin = TemplateMixin_class"
| "dsymbol_decl DebugSymbol = DebugSymbol_class"
| "dsymbol_decl VersionSymbol = VersionSymbol_class"
| "dsymbol_decl AliasThis = AliasThis_class"
| "dsymbol_decl AliasAssign = AliasAssign_class"

lemmas dsymbol_class_defs =
  Dsymbol_class_def ScopeDsymbol_class_def WithScopeSymbol_class_def ArrayScopeSymbol_class_def
  OverloadSet_class_def ForwardingScopeDsymbol_class_def ExpressionDsymbol_class_def
  CAsmDeclaration_class_def Declaration_class_def TupleDeclaration_class_def
  AliasDeclaration_class_def OverDeclaration_class_def VarDeclaration_class_def
  BitFieldDeclaration_class_def SymbolDeclaration_class_def TypeInfoDeclaration_class_def
  TypeInfoStructDeclaration_class_def TypeInfoClassDeclaration_class_def
  TypeInfoInterfaceDeclaration_class_def TypeInfoPointerDeclaration_class_def
  TypeInfoArrayDeclaration_class_def TypeInfoStaticArrayDeclaration_class_def
  TypeInfoAssociativeArrayDeclaration_class_def TypeInfoEnumDeclaration_class_def
  TypeInfoFunctionDeclaration_class_def TypeInfoDelegateDeclaration_class_def
  TypeInfoTupleDeclaration_class_def TypeInfoConstDeclaration_class_def
  TypeInfoInvariantDeclaration_class_def TypeInfoSharedDeclaration_class_def
  TypeInfoWildDeclaration_class_def TypeInfoVectorDeclaration_class_def ThisDeclaration_class_def
  FuncDeclaration_class_def FuncAliasDeclaration_class_def FuncLiteralDeclaration_class_def
  CtorDeclaration_class_def PostBlitDeclaration_class_def DtorDeclaration_class_def
  StaticCtorDeclaration_class_def SharedStaticCtorDeclaration_class_def
  StaticDtorDeclaration_class_def SharedStaticDtorDeclaration_class_def
  InvariantDeclaration_class_def UnitTestDeclaration_class_def NewDeclaration_class_def
  AggregateDeclaration_class_def StructDeclaration_class_def UnionDeclaration_class_def
  ClassDeclaration_class_def InterfaceDeclaration_class_def AttribDeclaration_class_def
  StorageClassDeclaration_class_def DeprecatedDeclaration_class_def LinkDeclaration_class_def
  CPPMangleDeclaration_class_def CPPNamespaceDeclaration_class_def VisibilityDeclaration_class_def
  AlignDeclaration_class_def AnonDeclaration_class_def PragmaDeclaration_class_def
  ConditionalDeclaration_class_def StaticIfDeclaration_class_def
  StaticForeachDeclaration_class_def ForwardingAttribDeclaration_class_def
  MixinDeclaration_class_def UserAttributeDeclaration_class_def UnpackDeclaration_class_def
  EnumDeclaration_class_def EnumMember_class_def Import_class_def Package_class_def
  Module_class_def Nspace_class_def LabelDsymbol_class_def StaticAssert_class_def
  TemplateDeclaration_class_def TemplateInstance_class_def TemplateMixin_class_def
  DebugSymbol_class_def VersionSymbol_class_def AliasThis_class_def AliasAssign_class_def

end
