(* ===== verification/Ast_Expressions.thy ===== *)
theory Ast_Expressions
  imports Cpp_Class Ast_Names
begin

text \<open>
  The expression classes of expression.h and ctfe.h, each with its members in the order
  of the header.
\<close>

definition Expression_class :: "cls class_decl" where
  "Expression_class = Class (Some (N ASTNode)) False
    [Field (Pointer (Named ''Type'')) ''type'', Field (Named ''Loc'') ''loc'',
     Field (Named ''EXP'') ''op'', Field (Named ''uint8_t'') ''bitFields'',
     Method Plain False ''parens'' Extern, Method Plain False ''parens'' Extern,
     Method Plain False ''rvalue'' Extern, Method Plain False ''rvalue'' Extern,
     Method Plain False ''size'' Extern, Method Static False ''_init'' Extern,
     Method Virtual False ''syntaxCopy'' Extern,
     Method Override True ''dyncast'' (Return_dyncast DYNCAST_EXPRESSION),
     Method Override True ''toChars'' Extern, Method Plain False ''addressOf'' Extern,
     Method Plain False ''deref'' Extern, Method Plain False ''isConst'' Extern,
     Method Virtual False ''hasCode'' (Return_bool True),
     Method Plain False ''isIntegerExp'' Extern, Method Plain False ''isErrorExp'' Extern,
     Method Plain False ''isVoidInitExp'' Extern, Method Plain False ''isRealExp'' Extern,
     Method Plain False ''isComplexExp'' Extern, Method Plain False ''isIdentifierExp'' Extern,
     Method Plain False ''isDollarExp'' Extern, Method Plain False ''isDsymbolExp'' Extern,
     Method Plain False ''isThisExp'' Extern, Method Plain False ''isSuperExp'' Extern,
     Method Plain False ''isNullExp'' Extern, Method Plain False ''isStringExp'' Extern,
     Method Plain False ''isInterpExp'' Extern, Method Plain False ''isTupleExp'' Extern,
     Method Plain False ''isArrayLiteralExp'' Extern,
     Method Plain False ''isAssocArrayLiteralExp'' Extern,
     Method Plain False ''isStructLiteralExp'' Extern, Method Plain False ''isTypeExp'' Extern,
     Method Plain False ''isScopeExp'' Extern, Method Plain False ''isTemplateExp'' Extern,
     Method Plain False ''isNewExp'' Extern, Method Plain False ''isNewAnonClassExp'' Extern,
     Method Plain False ''isSymOffExp'' Extern, Method Plain False ''isVarExp'' Extern,
     Method Plain False ''isOverExp'' Extern, Method Plain False ''isFuncExp'' Extern,
     Method Plain False ''isDeclarationExp'' Extern, Method Plain False ''isTypeidExp'' Extern,
     Method Plain False ''isTraitsExp'' Extern, Method Plain False ''isHaltExp'' Extern,
     Method Plain False ''isIsExp'' Extern, Method Plain False ''isMixinExp'' Extern,
     Method Plain False ''isImportExp'' Extern, Method Plain False ''isAssertExp'' Extern,
     Method Plain False ''isDotIdExp'' Extern, Method Plain False ''isDotTemplateExp'' Extern,
     Method Plain False ''isDotVarExp'' Extern,
     Method Plain False ''isDotTemplateInstanceExp'' Extern,
     Method Plain False ''isDelegateExp'' Extern, Method Plain False ''isDotTypeExp'' Extern,
     Method Plain False ''isCallExp'' Extern, Method Plain False ''isAddrExp'' Extern,
     Method Plain False ''isPtrExp'' Extern, Method Plain False ''isNegExp'' Extern,
     Method Plain False ''isUAddExp'' Extern, Method Plain False ''isComExp'' Extern,
     Method Plain False ''isNotExp'' Extern, Method Plain False ''isDeleteExp'' Extern,
     Method Plain False ''isCastExp'' Extern, Method Plain False ''isVectorExp'' Extern,
     Method Plain False ''isVectorArrayExp'' Extern, Method Plain False ''isSliceExp'' Extern,
     Method Plain False ''isArrayLengthExp'' Extern, Method Plain False ''isArrayExp'' Extern,
     Method Plain False ''isDotExp'' Extern, Method Plain False ''isCommaExp'' Extern,
     Method Plain False ''isIntervalExp'' Extern, Method Plain False ''isDelegatePtrExp'' Extern,
     Method Plain False ''isDelegateFuncptrExp'' Extern,
     Method Plain False ''isIndexExp'' Extern, Method Plain False ''isPostExp'' Extern,
     Method Plain False ''isPreExp'' Extern, Method Plain False ''isAssignExp'' Extern,
     Method Plain False ''isConstructExp'' Extern, Method Plain False ''isBlitExp'' Extern,
     Method Plain False ''isAddAssignExp'' Extern, Method Plain False ''isMinAssignExp'' Extern,
     Method Plain False ''isMulAssignExp'' Extern, Method Plain False ''isDivAssignExp'' Extern,
     Method Plain False ''isModAssignExp'' Extern, Method Plain False ''isAndAssignExp'' Extern,
     Method Plain False ''isOrAssignExp'' Extern, Method Plain False ''isXorAssignExp'' Extern,
     Method Plain False ''isPowAssignExp'' Extern, Method Plain False ''isShlAssignExp'' Extern,
     Method Plain False ''isShrAssignExp'' Extern, Method Plain False ''isUshrAssignExp'' Extern,
     Method Plain False ''isCatAssignExp'' Extern,
     Method Plain False ''isCatElemAssignExp'' Extern,
     Method Plain False ''isCatDcharAssignExp'' Extern, Method Plain False ''isAddExp'' Extern,
     Method Plain False ''isMinExp'' Extern, Method Plain False ''isCatExp'' Extern,
     Method Plain False ''isMulExp'' Extern, Method Plain False ''isDivExp'' Extern,
     Method Plain False ''isModExp'' Extern, Method Plain False ''isPowExp'' Extern,
     Method Plain False ''isShlExp'' Extern, Method Plain False ''isShrExp'' Extern,
     Method Plain False ''isUshrExp'' Extern, Method Plain False ''isAndExp'' Extern,
     Method Plain False ''isOrExp'' Extern, Method Plain False ''isXorExp'' Extern,
     Method Plain False ''isLogicalExp'' Extern, Method Plain False ''isInExp'' Extern,
     Method Plain False ''isRemoveExp'' Extern, Method Plain False ''isEqualExp'' Extern,
     Method Plain False ''isIdentityExp'' Extern, Method Plain False ''isCondExp'' Extern,
     Method Plain False ''isGenericExp'' Extern, Method Plain False ''isDefaultInitExp'' Extern,
     Method Plain False ''isClassReferenceExp'' Extern,
     Method Plain False ''isThrownExceptionExp'' Extern, Method Plain False ''isUnaExp'' Extern,
     Method Plain False ''isBinExp'' Extern, Method Plain False ''isBinAssignExp'' Extern,
     Method Plain False ''isLoweredAssignExp'' Extern,
     Method Override False ''accept'' Visit_this]"

definition IntegerExp_class :: "cls class_decl" where
  "IntegerExp_class = Class (Some (E Expression)) True
    [Field (Named ''dinteger_t'') ''value'', Method Static False ''create'' Extern,
     Method Override False ''accept'' Visit_this, Method Plain False ''getInteger'' Inline,
     Method Static False ''literal'' Extern]"

definition ErrorExp_class :: "cls class_decl" where
  "ErrorExp_class = Class (Some (E Expression)) True
    [Method Override False ''accept'' Visit_this,
     Static_field (Pointer (Named ''ErrorExp'')) ''errorexp'']"

definition RealExp_class :: "cls class_decl" where
  "RealExp_class = Class (Some (E Expression)) True
    [Field (Named ''real_t'') ''value'', Method Static False ''create'' Extern,
     Method Override False ''accept'' Visit_this]"

definition ComplexExp_class :: "cls class_decl" where
  "ComplexExp_class = Class (Some (E Expression)) True
    [Field (Named ''complex_t'') ''value'', Method Static False ''create'' Extern,
     Method Override False ''accept'' Visit_this]"

definition IdentifierExp_class :: "cls class_decl" where
  "IdentifierExp_class = Class (Some (E Expression)) False
    [Field (Pointer (Named ''Identifier'')) ''ident'', Method Static False ''create'' Extern,
     Method Override False ''accept'' Visit_this]"

definition DollarExp_class :: "cls class_decl" where
  "DollarExp_class = Class (Some (E IdentifierExp)) True
    [Method Override False ''accept'' Visit_this]"

definition DsymbolExp_class :: "cls class_decl" where
  "DsymbolExp_class = Class (Some (E Expression)) True
    [Field (Pointer (Named ''Dsymbol'')) ''s'', Field (Named ''d_bool'') ''hasOverloads'',
     Method Override False ''accept'' Visit_this]"

definition ThisExp_class :: "cls class_decl" where
  "ThisExp_class = Class (Some (E Expression)) False
    [Field (Pointer (Named ''VarDeclaration'')) ''var'',
     Method Override False ''syntaxCopy'' Extern, Method Override False ''accept'' Visit_this]"

definition SuperExp_class :: "cls class_decl" where
  "SuperExp_class = Class (Some (E ThisExp)) True
    [Method Override False ''accept'' Visit_this]"

definition NullExp_class :: "cls class_decl" where
  "NullExp_class = Class (Some (E Expression)) True
    [Method Override False ''accept'' Visit_this]"

definition StringExp_class :: "cls class_decl" where
  "StringExp_class = Class (Some (E Expression)) True
    [Field (Named ''utf8_t'') ''postfix'', Field (Named ''OwnedBy'') ''ownedByCtfe'',
     Field (Pointer (Named ''void'')) ''string'',
     Union_fields [(Named ''size_t'', ''length''), (Named ''size_t'', ''len'')],
     Field (Named ''unsigned char'') ''sz'', Field (Named ''d_bool'') ''committed'',
     Field (Named ''d_bool'') ''hexString'', Field (Named ''d_bool'') ''cMacro'',
     Method Static False ''create'' Extern, Method Static False ''create'' Extern,
     Method Plain False ''getCodeUnit'' Extern, Method Plain False ''getIndex'' Extern,
     Method Override False ''accept'' Visit_this,
     Method Plain False ''numberOfCodeUnits'' Extern, Method Plain False ''writeTo'' Extern]"

definition InterpExp_class :: "cls class_decl" where
  "InterpExp_class = Class (Some (E Expression)) True
    [Field (Named ''utf8_t'') ''postfix'', Field (Pointer (Named ''void'')) ''interpolatedSet'',
     Method Override False ''accept'' Visit_this]"

definition TupleExp_class :: "cls class_decl" where
  "TupleExp_class = Class (Some (E Expression)) True
    [Field (Pointer (Named ''Expression'')) ''e0'',
     Field (Pointer (Named ''Expressions'')) ''exps'', Method Static False ''create'' Extern,
     Method Override False ''syntaxCopy'' Extern, Method Override False ''accept'' Visit_this]"

definition ArrayLiteralExp_class :: "cls class_decl" where
  "ArrayLiteralExp_class = Class (Some (E Expression)) True
    [Field (Named ''OwnedBy'') ''ownedByCtfe'', Field (Named ''d_bool'') ''onstack'',
     Field (Pointer (Named ''Expression'')) ''basis'',
     Field (Pointer (Named ''Expressions'')) ''elements'',
     Field (Pointer (Named ''Expression'')) ''lowering'',
     Field (Pointer (Named ''AssocArrayLiteralExp'')) ''aaLiteral'',
     Method Static False ''create'' Extern, Method Override False ''syntaxCopy'' Extern,
     Method Plain False ''getElement'' Extern, Method Override False ''accept'' Visit_this]"

definition AssocArrayLiteralExp_class :: "cls class_decl" where
  "AssocArrayLiteralExp_class = Class (Some (E Expression)) True
    [Field (Named ''OwnedBy'') ''ownedByCtfe'', Field (Pointer (Named ''Expressions'')) ''keys'',
     Field (Pointer (Named ''Expressions'')) ''values'',
     Field (Pointer (Named ''Expression'')) ''lowering'',
     Field (Pointer (Named ''Expression'')) ''loweringCtfe'',
     Method Override False ''syntaxCopy'' Extern, Method Override False ''accept'' Visit_this]"

definition StructLiteralExp_class :: "cls class_decl" where
  "StructLiteralExp_class = Class (Some (E Expression)) True
    [Field (Named ''uint8_t'') ''bitFields'', Method Plain False ''useStaticInit'' Extern,
     Method Plain False ''useStaticInit'' Extern, Method Plain False ''isOriginal'' Extern,
     Method Plain False ''isOriginal'' Extern, Method Plain False ''ownedByCtfe'' Extern,
     Method Plain False ''ownedByCtfe'' Extern, Field (Named ''uint8_t'') ''stageflags'',
     Field (Pointer (Named ''StructDeclaration'')) ''sd'',
     Field (Pointer (Named ''Expressions'')) ''elements'',
     Field (Pointer (Named ''Type'')) ''stype'',
     Union_fields [(Pointer (Named ''Symbol''), ''sym''), (Pointer (Named ''StructLiteralExp''), ''inlinecopy'')],
     Field (Pointer (Named ''StructLiteralExp'')) ''origin'',
     Method Static False ''create'' Extern, Method Override False ''syntaxCopy'' Extern,
     Method Override False ''accept'' Visit_this]"

definition TypeExp_class :: "cls class_decl" where
  "TypeExp_class = Class (Some (E Expression)) True
    [Method Override False ''syntaxCopy'' Extern, Method Override False ''accept'' Visit_this]"

definition ScopeExp_class :: "cls class_decl" where
  "ScopeExp_class = Class (Some (E Expression)) True
    [Field (Pointer (Named ''ScopeDsymbol'')) ''sds'',
     Method Override False ''syntaxCopy'' Extern, Method Override False ''accept'' Visit_this]"

definition TemplateExp_class :: "cls class_decl" where
  "TemplateExp_class = Class (Some (E Expression)) True
    [Field (Pointer (Named ''TemplateDeclaration'')) ''td'',
     Field (Pointer (Named ''FuncDeclaration'')) ''fd'',
     Method Override False ''accept'' Visit_this]"

definition NewExp_class :: "cls class_decl" where
  "NewExp_class = Class (Some (E Expression)) True
    [Field (Pointer (Named ''Expression'')) ''thisexp'',
     Field (Pointer (Named ''Type'')) ''newtype'',
     Field (Pointer (Named ''Expressions'')) ''arguments'',
     Field (Pointer (Named ''ArgumentLabels'')) ''names'',
     Field (Pointer (Named ''Expression'')) ''placement'',
     Field (Pointer (Named ''Expression'')) ''argprefix'',
     Field (Pointer (Named ''CtorDeclaration'')) ''member'',
     Field (Named ''d_bool'') ''onstack'', Field (Named ''d_bool'') ''thrownew'',
     Field (Pointer (Named ''Expression'')) ''lowering'', Method Static False ''create'' Extern,
     Method Override False ''syntaxCopy'' Extern, Method Override False ''accept'' Visit_this]"

definition NewAnonClassExp_class :: "cls class_decl" where
  "NewAnonClassExp_class = Class (Some (E Expression)) True
    [Field (Pointer (Named ''Expression'')) ''thisexp'',
     Field (Pointer (Named ''ClassDeclaration'')) ''cd'',
     Field (Pointer (Named ''Expressions'')) ''arguments'',
     Field (Pointer (Named ''Expression'')) ''placement'',
     Method Override False ''syntaxCopy'' Extern, Method Override False ''accept'' Visit_this]"

definition SymbolExp_class :: "cls class_decl" where
  "SymbolExp_class = Class (Some (E Expression)) False
    [Field (Pointer (Named ''Declaration'')) ''var'',
     Field (Pointer (Named ''Dsymbol'')) ''originalScope'',
     Field (Named ''d_bool'') ''hasOverloads'', Method Override False ''accept'' Visit_this]"

definition SymOffExp_class :: "cls class_decl" where
  "SymOffExp_class = Class (Some (E SymbolExp)) True
    [Field (Named ''dinteger_t'') ''offset'', Method Override False ''accept'' Visit_this]"

definition VarExp_class :: "cls class_decl" where
  "VarExp_class = Class (Some (E SymbolExp)) True
    [Field (Named ''d_bool'') ''delegateWasExtracted'', Method Static False ''create'' Extern,
     Method Override False ''accept'' Visit_this]"

definition OverExp_class :: "cls class_decl" where
  "OverExp_class = Class (Some (E Expression)) True
    [Field (Pointer (Named ''OverloadSet'')) ''vars'',
     Method Override False ''accept'' Visit_this]"

definition FuncExp_class :: "cls class_decl" where
  "FuncExp_class = Class (Some (E Expression)) True
    [Field (Pointer (Named ''FuncLiteralDeclaration'')) ''fd'',
     Field (Pointer (Named ''TemplateDeclaration'')) ''td'', Field (Named ''TOK'') ''tok'',
     Method Override False ''syntaxCopy'' Extern, Method Override False ''accept'' Visit_this]"

definition DeclarationExp_class :: "cls class_decl" where
  "DeclarationExp_class = Class (Some (E Expression)) True
    [Field (Pointer (Named ''Dsymbol'')) ''declaration'',
     Method Override False ''syntaxCopy'' Extern, Method Override False ''hasCode'' Extern,
     Method Override False ''accept'' Visit_this]"

definition TypeidExp_class :: "cls class_decl" where
  "TypeidExp_class = Class (Some (E Expression)) True
    [Field (Pointer (Named ''RootObject'')) ''obj'', Method Override False ''syntaxCopy'' Extern,
     Method Override False ''accept'' Visit_this]"

definition TraitsExp_class :: "cls class_decl" where
  "TraitsExp_class = Class (Some (E Expression)) True
    [Field (Pointer (Named ''Identifier'')) ''ident'',
     Field (Pointer (Named ''Objects'')) ''args'', Method Override False ''syntaxCopy'' Extern,
     Method Override False ''accept'' Visit_this]"

definition HaltExp_class :: "cls class_decl" where
  "HaltExp_class = Class (Some (E Expression)) True
    [Method Override False ''accept'' Visit_this]"

definition IsExp_class :: "cls class_decl" where
  "IsExp_class = Class (Some (E Expression)) True
    [Field (Pointer (Named ''Type'')) ''targ'', Field (Pointer (Named ''Identifier'')) ''id'',
     Field (Pointer (Named ''Type'')) ''tspec'',
     Field (Pointer (Named ''TemplateParameters'')) ''parameters'',
     Field (Named ''TOK'') ''tok'', Field (Named ''TOK'') ''tok2'',
     Method Override False ''syntaxCopy'' Extern, Method Override False ''accept'' Visit_this]"

definition UnaExp_class :: "cls class_decl" where
  "UnaExp_class = Class (Some (E Expression)) False
    [Field (Pointer (Named ''Expression'')) ''e1'', Method Override False ''syntaxCopy'' Extern,
     Method Override False ''accept'' Visit_this]"

definition BinExp_class :: "cls class_decl" where
  "BinExp_class = Class (Some (E Expression)) False
    [Field (Pointer (Named ''Expression'')) ''e1'',
     Field (Pointer (Named ''Expression'')) ''e2'', Method Override False ''syntaxCopy'' Extern,
     Method Override False ''accept'' Visit_this]"

definition BinAssignExp_class :: "cls class_decl" where
  "BinAssignExp_class = Class (Some (E BinExp)) False
    [Method Override False ''accept'' Visit_this]"

definition MixinExp_class :: "cls class_decl" where
  "MixinExp_class = Class (Some (E UnaExp)) True
    [Method Override False ''accept'' Visit_this]"

definition ImportExp_class :: "cls class_decl" where
  "ImportExp_class = Class (Some (E UnaExp)) True
    [Method Override False ''accept'' Visit_this]"

definition AssertExp_class :: "cls class_decl" where
  "AssertExp_class = Class (Some (E UnaExp)) True
    [Field (Pointer (Named ''Expression'')) ''msg'',
     Field (Pointer (Named ''Expression'')) ''loweredFrom'',
     Method Override False ''syntaxCopy'' Extern, Method Override False ''accept'' Visit_this]"

definition ThrowExp_class :: "cls class_decl" where
  "ThrowExp_class = Class (Some (E UnaExp)) True
    [Method Override False ''syntaxCopy'' Extern, Method Override False ''accept'' Visit_this]"

definition DotIdExp_class :: "cls class_decl" where
  "DotIdExp_class = Class (Some (E UnaExp)) True
    [Field (Pointer (Named ''Identifier'')) ''ident'', Field (Named ''d_bool'') ''noderef'',
     Field (Named ''d_bool'') ''wantsym'', Field (Named ''d_bool'') ''arrow'',
     Method Static False ''create'' Extern, Method Override False ''accept'' Visit_this]"

definition DotTemplateExp_class :: "cls class_decl" where
  "DotTemplateExp_class = Class (Some (E UnaExp)) True
    [Field (Pointer (Named ''TemplateDeclaration'')) ''td'',
     Method Override False ''accept'' Visit_this]"

definition DotVarExp_class :: "cls class_decl" where
  "DotVarExp_class = Class (Some (E UnaExp)) True
    [Field (Pointer (Named ''Declaration'')) ''var'', Field (Named ''d_bool'') ''hasOverloads'',
     Method Override False ''accept'' Visit_this]"

definition DotTemplateInstanceExp_class :: "cls class_decl" where
  "DotTemplateInstanceExp_class = Class (Some (E UnaExp)) True
    [Field (Pointer (Named ''TemplateInstance'')) ''ti'',
     Method Override False ''syntaxCopy'' Extern, Method Override False ''accept'' Visit_this]"

definition DelegateExp_class :: "cls class_decl" where
  "DelegateExp_class = Class (Some (E UnaExp)) True
    [Field (Pointer (Named ''FuncDeclaration'')) ''func'',
     Field (Named ''d_bool'') ''hasOverloads'',
     Field (Pointer (Named ''VarDeclaration'')) ''vthis2'',
     Method Override False ''accept'' Visit_this]"

definition DotTypeExp_class :: "cls class_decl" where
  "DotTypeExp_class = Class (Some (E UnaExp)) True
    [Field (Pointer (Named ''Dsymbol'')) ''sym'', Method Override False ''accept'' Visit_this]"

definition CallExp_class :: "cls class_decl" where
  "CallExp_class = Class (Some (E UnaExp)) True
    [Field (Pointer (Named ''Expressions'')) ''arguments'',
     Field (Pointer (Named ''ArgumentLabels'')) ''names'',
     Field (Pointer (Named ''FuncDeclaration'')) ''f'', Field (Named ''d_bool'') ''directcall'',
     Field (Named ''d_bool'') ''inDebugStatement'',
     Field (Named ''d_bool'') ''ignoreAttributes'', Field (Named ''d_bool'') ''isUfcsRewrite'',
     Field (Named ''d_bool'') ''fromOpOverload'', Field (Named ''d_bool'') ''fromOpAssignment'',
     Field (Pointer (Named ''VarDeclaration'')) ''vthis2'',
     Field (Pointer (Named ''Expression'')) ''loweredFrom'',
     Method Static False ''create'' Extern, Method Static False ''create'' Extern,
     Method Static False ''create'' Extern, Method Static False ''create'' Extern,
     Method Override False ''syntaxCopy'' Extern, Method Override False ''accept'' Visit_this]"

definition AddrExp_class :: "cls class_decl" where
  "AddrExp_class = Class (Some (E UnaExp)) True
    [Method Override False ''accept'' Visit_this]"

definition PtrExp_class :: "cls class_decl" where
  "PtrExp_class = Class (Some (E UnaExp)) True
    [Method Override False ''accept'' Visit_this]"

definition NegExp_class :: "cls class_decl" where
  "NegExp_class = Class (Some (E UnaExp)) True
    [Method Override False ''accept'' Visit_this]"

definition UAddExp_class :: "cls class_decl" where
  "UAddExp_class = Class (Some (E UnaExp)) True
    [Method Override False ''accept'' Visit_this]"

definition ComExp_class :: "cls class_decl" where
  "ComExp_class = Class (Some (E UnaExp)) True
    [Method Override False ''accept'' Visit_this]"

definition NotExp_class :: "cls class_decl" where
  "NotExp_class = Class (Some (E UnaExp)) True
    [Field (Pointer (Named ''Expression'')) ''loweredFrom'',
     Method Override False ''accept'' Visit_this]"

definition DeleteExp_class :: "cls class_decl" where
  "DeleteExp_class = Class (Some (E UnaExp)) True
    [Method Override False ''accept'' Visit_this]"

definition CastExp_class :: "cls class_decl" where
  "CastExp_class = Class (Some (E UnaExp)) True
    [Field (Pointer (Named ''Type'')) ''to'', Field (Named ''unsigned char'') ''mod'',
     Field (Named ''d_bool'') ''trusted'', Field (Pointer (Named ''Expression'')) ''lowering'',
     Method Override False ''syntaxCopy'' Extern, Method Override False ''accept'' Visit_this]"

definition VectorExp_class :: "cls class_decl" where
  "VectorExp_class = Class (Some (E UnaExp)) True
    [Field (Pointer (Named ''TypeVector'')) ''to'', Field (Named ''unsigned'') ''dim'',
     Field (Named ''OwnedBy'') ''ownedByCtfe'', Method Static False ''create'' Extern,
     Method Override False ''syntaxCopy'' Extern, Method Override False ''accept'' Visit_this]"

definition VectorArrayExp_class :: "cls class_decl" where
  "VectorArrayExp_class = Class (Some (E UnaExp)) True
    [Method Override False ''accept'' Visit_this]"

definition SliceExp_class :: "cls class_decl" where
  "SliceExp_class = Class (Some (E UnaExp)) True
    [Field (Pointer (Named ''Expression'')) ''upr'',
     Field (Pointer (Named ''Expression'')) ''lwr'',
     Field (Pointer (Named ''VarDeclaration'')) ''lengthVar'',
     Method Plain False ''upperIsInBounds'' Extern,
     Method Plain False ''upperIsInBounds'' Extern,
     Method Plain False ''lowerIsLessThanUpper'' Extern,
     Method Plain False ''lowerIsLessThanUpper'' Extern, Field (Named ''uint8_t'') ''bitFields'',
     Method Override False ''syntaxCopy'' Extern, Method Override False ''accept'' Visit_this]"

definition ArrayLengthExp_class :: "cls class_decl" where
  "ArrayLengthExp_class = Class (Some (E UnaExp)) True
    [Method Override False ''accept'' Visit_this]"

definition IntervalExp_class :: "cls class_decl" where
  "IntervalExp_class = Class (Some (E Expression)) True
    [Field (Pointer (Named ''Expression'')) ''lwr'',
     Field (Pointer (Named ''Expression'')) ''upr'', Method Override False ''syntaxCopy'' Extern,
     Method Override False ''accept'' Visit_this]"

definition DelegatePtrExp_class :: "cls class_decl" where
  "DelegatePtrExp_class = Class (Some (E UnaExp)) True
    [Method Override False ''accept'' Visit_this]"

definition DelegateFuncptrExp_class :: "cls class_decl" where
  "DelegateFuncptrExp_class = Class (Some (E UnaExp)) True
    [Method Override False ''accept'' Visit_this]"

definition ArrayExp_class :: "cls class_decl" where
  "ArrayExp_class = Class (Some (E UnaExp)) True
    [Field (Pointer (Named ''Expressions'')) ''arguments'',
     Field (Named ''size_t'') ''currentDimension'',
     Field (Pointer (Named ''VarDeclaration'')) ''lengthVar'',
     Field (Named ''d_bool'') ''modifiable'', Method Override False ''syntaxCopy'' Extern,
     Method Override False ''accept'' Visit_this]"

definition DotExp_class :: "cls class_decl" where
  "DotExp_class = Class (Some (E BinExp)) True
    [Method Override False ''accept'' Visit_this]"

definition CommaExp_class :: "cls class_decl" where
  "CommaExp_class = Class (Some (E BinExp)) True
    [Field (Named ''d_bool'') ''isGenerated'', Field (Named ''d_bool'') ''isInlineSequence'',
     Field (Named ''d_bool'') ''allowCommaExp'',
     Field (Pointer (Named ''Expression'')) ''originalExp'',
     Method Override False ''accept'' Visit_this]"

definition IndexExp_class :: "cls class_decl" where
  "IndexExp_class = Class (Some (E BinExp)) True
    [Field (Pointer (Named ''VarDeclaration'')) ''lengthVar'',
     Field (Pointer (Named ''Expression'')) ''loweredFrom'',
     Field (Named ''d_bool'') ''modifiable'', Field (Named ''d_bool'') ''indexIsInBounds'',
     Method Override False ''syntaxCopy'' Extern, Method Override False ''accept'' Visit_this]"

definition PostExp_class :: "cls class_decl" where
  "PostExp_class = Class (Some (E BinExp)) True
    [Method Override False ''accept'' Visit_this]"

definition PreExp_class :: "cls class_decl" where
  "PreExp_class = Class (Some (E UnaExp)) True
    [Method Override False ''accept'' Visit_this]"

definition AssignExp_class :: "cls class_decl" where
  "AssignExp_class = Class (Some (E BinExp)) False
    [Field (Named ''MemorySet'') ''memset'', Method Override False ''accept'' Visit_this]"

definition ConstructExp_class :: "cls class_decl" where
  "ConstructExp_class = Class (Some (E AssignExp)) True
    [Field (Pointer (Named ''Expression'')) ''lowering'',
     Method Override False ''accept'' Visit_this]"

definition LoweredAssignExp_class :: "cls class_decl" where
  "LoweredAssignExp_class = Class (Some (E AssignExp)) True
    [Field (Pointer (Named ''Expression'')) ''lowering'',
     Method Override False ''accept'' Visit_this]"

definition BlitExp_class :: "cls class_decl" where
  "BlitExp_class = Class (Some (E AssignExp)) True
    [Method Override False ''accept'' Visit_this]"

definition AddAssignExp_class :: "cls class_decl" where
  "AddAssignExp_class = Class (Some (E BinAssignExp)) True
    [Method Override False ''accept'' Visit_this]"

definition MinAssignExp_class :: "cls class_decl" where
  "MinAssignExp_class = Class (Some (E BinAssignExp)) True
    [Method Override False ''accept'' Visit_this]"

definition MulAssignExp_class :: "cls class_decl" where
  "MulAssignExp_class = Class (Some (E BinAssignExp)) True
    [Method Override False ''accept'' Visit_this]"

definition DivAssignExp_class :: "cls class_decl" where
  "DivAssignExp_class = Class (Some (E BinAssignExp)) True
    [Method Override False ''accept'' Visit_this]"

definition ModAssignExp_class :: "cls class_decl" where
  "ModAssignExp_class = Class (Some (E BinAssignExp)) True
    [Method Override False ''accept'' Visit_this]"

definition AndAssignExp_class :: "cls class_decl" where
  "AndAssignExp_class = Class (Some (E BinAssignExp)) True
    [Method Override False ''accept'' Visit_this]"

definition OrAssignExp_class :: "cls class_decl" where
  "OrAssignExp_class = Class (Some (E BinAssignExp)) True
    [Method Override False ''accept'' Visit_this]"

definition XorAssignExp_class :: "cls class_decl" where
  "XorAssignExp_class = Class (Some (E BinAssignExp)) True
    [Method Override False ''accept'' Visit_this]"

definition PowAssignExp_class :: "cls class_decl" where
  "PowAssignExp_class = Class (Some (E BinAssignExp)) True
    [Method Override False ''accept'' Visit_this]"

definition ShlAssignExp_class :: "cls class_decl" where
  "ShlAssignExp_class = Class (Some (E BinAssignExp)) True
    [Method Override False ''accept'' Visit_this]"

definition ShrAssignExp_class :: "cls class_decl" where
  "ShrAssignExp_class = Class (Some (E BinAssignExp)) True
    [Method Override False ''accept'' Visit_this]"

definition UshrAssignExp_class :: "cls class_decl" where
  "UshrAssignExp_class = Class (Some (E BinAssignExp)) True
    [Method Override False ''accept'' Visit_this]"

definition CatAssignExp_class :: "cls class_decl" where
  "CatAssignExp_class = Class (Some (E BinAssignExp)) False
    [Field (Pointer (Named ''Expression'')) ''lowering'',
     Method Override False ''accept'' Visit_this]"

definition CatElemAssignExp_class :: "cls class_decl" where
  "CatElemAssignExp_class = Class (Some (E CatAssignExp)) True
    [Method Override False ''accept'' Visit_this]"

definition CatDcharAssignExp_class :: "cls class_decl" where
  "CatDcharAssignExp_class = Class (Some (E CatAssignExp)) True
    [Method Override False ''accept'' Visit_this]"

definition AddExp_class :: "cls class_decl" where
  "AddExp_class = Class (Some (E BinExp)) True
    [Method Override False ''accept'' Visit_this]"

definition MinExp_class :: "cls class_decl" where
  "MinExp_class = Class (Some (E BinExp)) True
    [Method Override False ''accept'' Visit_this]"

definition CatExp_class :: "cls class_decl" where
  "CatExp_class = Class (Some (E BinExp)) True
    [Field (Pointer (Named ''Expression'')) ''lowering'',
     Method Override False ''accept'' Visit_this]"

definition MulExp_class :: "cls class_decl" where
  "MulExp_class = Class (Some (E BinExp)) True
    [Method Override False ''accept'' Visit_this]"

definition DivExp_class :: "cls class_decl" where
  "DivExp_class = Class (Some (E BinExp)) True
    [Method Override False ''accept'' Visit_this]"

definition ModExp_class :: "cls class_decl" where
  "ModExp_class = Class (Some (E BinExp)) True
    [Method Override False ''accept'' Visit_this]"

definition PowExp_class :: "cls class_decl" where
  "PowExp_class = Class (Some (E BinExp)) True
    [Method Override False ''accept'' Visit_this]"

definition ShlExp_class :: "cls class_decl" where
  "ShlExp_class = Class (Some (E BinExp)) True
    [Method Override False ''accept'' Visit_this]"

definition ShrExp_class :: "cls class_decl" where
  "ShrExp_class = Class (Some (E BinExp)) True
    [Method Override False ''accept'' Visit_this]"

definition UshrExp_class :: "cls class_decl" where
  "UshrExp_class = Class (Some (E BinExp)) True
    [Method Override False ''accept'' Visit_this]"

definition AndExp_class :: "cls class_decl" where
  "AndExp_class = Class (Some (E BinExp)) True
    [Method Override False ''accept'' Visit_this]"

definition OrExp_class :: "cls class_decl" where
  "OrExp_class = Class (Some (E BinExp)) True
    [Method Override False ''accept'' Visit_this]"

definition XorExp_class :: "cls class_decl" where
  "XorExp_class = Class (Some (E BinExp)) True
    [Method Override False ''accept'' Visit_this]"

definition LogicalExp_class :: "cls class_decl" where
  "LogicalExp_class = Class (Some (E BinExp)) True
    [Method Override False ''accept'' Visit_this]"

definition CmpExp_class :: "cls class_decl" where
  "CmpExp_class = Class (Some (E BinExp)) True
    [Method Override False ''accept'' Visit_this]"

definition InExp_class :: "cls class_decl" where
  "InExp_class = Class (Some (E BinExp)) True
    [Method Override False ''accept'' Visit_this]"

definition RemoveExp_class :: "cls class_decl" where
  "RemoveExp_class = Class (Some (E BinExp)) True
    [Method Override False ''accept'' Visit_this]"

definition EqualExp_class :: "cls class_decl" where
  "EqualExp_class = Class (Some (E BinExp)) True
    [Field (Pointer (Named ''Expression'')) ''lowering'',
     Method Override False ''accept'' Visit_this]"

definition IdentityExp_class :: "cls class_decl" where
  "IdentityExp_class = Class (Some (E BinExp)) True
    [Method Override False ''accept'' Visit_this]"

definition CondExp_class :: "cls class_decl" where
  "CondExp_class = Class (Some (E BinExp)) True
    [Field (Pointer (Named ''Expression'')) ''econd'',
     Method Override False ''syntaxCopy'' Extern, Method Override False ''accept'' Visit_this]"

definition DefaultInitExp_class :: "cls class_decl" where
  "DefaultInitExp_class = Class (Some (E Expression)) False
    [Field (Named ''TOK'') ''tok'', Method Override False ''accept'' Visit_this,
     Method Override False ''syntaxCopy'' Extern]"

definition ObjcClassReferenceExp_class :: "cls class_decl" where
  "ObjcClassReferenceExp_class = Class (Some (E Expression)) True
    [Field (Pointer (Named ''ClassDeclaration'')) ''classDeclaration'',
     Method Override False ''accept'' Visit_this]"

definition ClassReferenceExp_class :: "cls class_decl" where
  "ClassReferenceExp_class = Class (Some (E Expression)) True
    [Field (Pointer (Named ''StructLiteralExp'')) ''value'',
     Method Plain False ''originalClass'' Extern,
     Method Plain False ''findFieldIndexByName'' Extern,
     Method Override False ''accept'' Visit_this]"

definition VoidInitExp_class :: "cls class_decl" where
  "VoidInitExp_class = Class (Some (E Expression)) True
    [Field (Pointer (Named ''VarDeclaration'')) ''var'',
     Method Override False ''accept'' Visit_this]"

definition ThrownExceptionExp_class :: "cls class_decl" where
  "ThrownExceptionExp_class = Class (Some (E Expression)) True
    [Field (Pointer (Named ''ClassReferenceExp'')) ''thrown'',
     Method Override False ''accept'' Visit_this]"

definition CTFEExp_class :: "cls class_decl" where
  "CTFEExp_class = Class (Some (E Expression)) True
    []"

text \<open>Only declared forward in the headers; the class of the D sources.\<close>

definition CompoundLiteralExp_class :: "cls class_decl" where
  "CompoundLiteralExp_class = Class (Some (E Expression)) True
    [Field (Pointer (Named ''Initializer'')) ''initializer'',
     Method Override False ''accept'' Visit_this]"

text \<open>Only declared forward in the headers; the class of the D sources.\<close>

definition GenericExp_class :: "cls class_decl" where
  "GenericExp_class = Class (Some (E Expression)) True
    [Field (Pointer (Named ''Expression'')) ''cntlExp'',
     Field (Pointer (Named ''Types'')) ''types'',
     Field (Pointer (Named ''Expressions'')) ''exps'',
     Method Override False ''syntaxCopy'' Extern, Method Override False ''accept'' Visit_this]"

primrec expression_decl :: "expression_node \<Rightarrow> cls class_decl" where
  "expression_decl Expression = Expression_class"
| "expression_decl IntegerExp = IntegerExp_class"
| "expression_decl ErrorExp = ErrorExp_class"
| "expression_decl RealExp = RealExp_class"
| "expression_decl ComplexExp = ComplexExp_class"
| "expression_decl IdentifierExp = IdentifierExp_class"
| "expression_decl DollarExp = DollarExp_class"
| "expression_decl DsymbolExp = DsymbolExp_class"
| "expression_decl ThisExp = ThisExp_class"
| "expression_decl SuperExp = SuperExp_class"
| "expression_decl NullExp = NullExp_class"
| "expression_decl StringExp = StringExp_class"
| "expression_decl InterpExp = InterpExp_class"
| "expression_decl TupleExp = TupleExp_class"
| "expression_decl ArrayLiteralExp = ArrayLiteralExp_class"
| "expression_decl AssocArrayLiteralExp = AssocArrayLiteralExp_class"
| "expression_decl StructLiteralExp = StructLiteralExp_class"
| "expression_decl TypeExp = TypeExp_class"
| "expression_decl ScopeExp = ScopeExp_class"
| "expression_decl TemplateExp = TemplateExp_class"
| "expression_decl NewExp = NewExp_class"
| "expression_decl NewAnonClassExp = NewAnonClassExp_class"
| "expression_decl SymbolExp = SymbolExp_class"
| "expression_decl SymOffExp = SymOffExp_class"
| "expression_decl VarExp = VarExp_class"
| "expression_decl OverExp = OverExp_class"
| "expression_decl FuncExp = FuncExp_class"
| "expression_decl DeclarationExp = DeclarationExp_class"
| "expression_decl TypeidExp = TypeidExp_class"
| "expression_decl TraitsExp = TraitsExp_class"
| "expression_decl HaltExp = HaltExp_class"
| "expression_decl IsExp = IsExp_class"
| "expression_decl UnaExp = UnaExp_class"
| "expression_decl BinExp = BinExp_class"
| "expression_decl BinAssignExp = BinAssignExp_class"
| "expression_decl MixinExp = MixinExp_class"
| "expression_decl ImportExp = ImportExp_class"
| "expression_decl AssertExp = AssertExp_class"
| "expression_decl ThrowExp = ThrowExp_class"
| "expression_decl DotIdExp = DotIdExp_class"
| "expression_decl DotTemplateExp = DotTemplateExp_class"
| "expression_decl DotVarExp = DotVarExp_class"
| "expression_decl DotTemplateInstanceExp = DotTemplateInstanceExp_class"
| "expression_decl DelegateExp = DelegateExp_class"
| "expression_decl DotTypeExp = DotTypeExp_class"
| "expression_decl CallExp = CallExp_class"
| "expression_decl AddrExp = AddrExp_class"
| "expression_decl PtrExp = PtrExp_class"
| "expression_decl NegExp = NegExp_class"
| "expression_decl UAddExp = UAddExp_class"
| "expression_decl ComExp = ComExp_class"
| "expression_decl NotExp = NotExp_class"
| "expression_decl DeleteExp = DeleteExp_class"
| "expression_decl CastExp = CastExp_class"
| "expression_decl VectorExp = VectorExp_class"
| "expression_decl VectorArrayExp = VectorArrayExp_class"
| "expression_decl SliceExp = SliceExp_class"
| "expression_decl ArrayLengthExp = ArrayLengthExp_class"
| "expression_decl IntervalExp = IntervalExp_class"
| "expression_decl DelegatePtrExp = DelegatePtrExp_class"
| "expression_decl DelegateFuncptrExp = DelegateFuncptrExp_class"
| "expression_decl ArrayExp = ArrayExp_class"
| "expression_decl DotExp = DotExp_class"
| "expression_decl CommaExp = CommaExp_class"
| "expression_decl IndexExp = IndexExp_class"
| "expression_decl PostExp = PostExp_class"
| "expression_decl PreExp = PreExp_class"
| "expression_decl AssignExp = AssignExp_class"
| "expression_decl ConstructExp = ConstructExp_class"
| "expression_decl LoweredAssignExp = LoweredAssignExp_class"
| "expression_decl BlitExp = BlitExp_class"
| "expression_decl AddAssignExp = AddAssignExp_class"
| "expression_decl MinAssignExp = MinAssignExp_class"
| "expression_decl MulAssignExp = MulAssignExp_class"
| "expression_decl DivAssignExp = DivAssignExp_class"
| "expression_decl ModAssignExp = ModAssignExp_class"
| "expression_decl AndAssignExp = AndAssignExp_class"
| "expression_decl OrAssignExp = OrAssignExp_class"
| "expression_decl XorAssignExp = XorAssignExp_class"
| "expression_decl PowAssignExp = PowAssignExp_class"
| "expression_decl ShlAssignExp = ShlAssignExp_class"
| "expression_decl ShrAssignExp = ShrAssignExp_class"
| "expression_decl UshrAssignExp = UshrAssignExp_class"
| "expression_decl CatAssignExp = CatAssignExp_class"
| "expression_decl CatElemAssignExp = CatElemAssignExp_class"
| "expression_decl CatDcharAssignExp = CatDcharAssignExp_class"
| "expression_decl AddExp = AddExp_class"
| "expression_decl MinExp = MinExp_class"
| "expression_decl CatExp = CatExp_class"
| "expression_decl MulExp = MulExp_class"
| "expression_decl DivExp = DivExp_class"
| "expression_decl ModExp = ModExp_class"
| "expression_decl PowExp = PowExp_class"
| "expression_decl ShlExp = ShlExp_class"
| "expression_decl ShrExp = ShrExp_class"
| "expression_decl UshrExp = UshrExp_class"
| "expression_decl AndExp = AndExp_class"
| "expression_decl OrExp = OrExp_class"
| "expression_decl XorExp = XorExp_class"
| "expression_decl LogicalExp = LogicalExp_class"
| "expression_decl CmpExp = CmpExp_class"
| "expression_decl InExp = InExp_class"
| "expression_decl RemoveExp = RemoveExp_class"
| "expression_decl EqualExp = EqualExp_class"
| "expression_decl IdentityExp = IdentityExp_class"
| "expression_decl CondExp = CondExp_class"
| "expression_decl DefaultInitExp = DefaultInitExp_class"
| "expression_decl ObjcClassReferenceExp = ObjcClassReferenceExp_class"
| "expression_decl ClassReferenceExp = ClassReferenceExp_class"
| "expression_decl VoidInitExp = VoidInitExp_class"
| "expression_decl ThrownExceptionExp = ThrownExceptionExp_class"
| "expression_decl CTFEExp = CTFEExp_class"
| "expression_decl CompoundLiteralExp = CompoundLiteralExp_class"
| "expression_decl GenericExp = GenericExp_class"

lemmas expression_class_defs =
  Expression_class_def IntegerExp_class_def ErrorExp_class_def RealExp_class_def
  ComplexExp_class_def IdentifierExp_class_def DollarExp_class_def DsymbolExp_class_def
  ThisExp_class_def SuperExp_class_def NullExp_class_def StringExp_class_def InterpExp_class_def
  TupleExp_class_def ArrayLiteralExp_class_def AssocArrayLiteralExp_class_def
  StructLiteralExp_class_def TypeExp_class_def ScopeExp_class_def TemplateExp_class_def
  NewExp_class_def NewAnonClassExp_class_def SymbolExp_class_def SymOffExp_class_def
  VarExp_class_def OverExp_class_def FuncExp_class_def DeclarationExp_class_def
  TypeidExp_class_def TraitsExp_class_def HaltExp_class_def IsExp_class_def UnaExp_class_def
  BinExp_class_def BinAssignExp_class_def MixinExp_class_def ImportExp_class_def
  AssertExp_class_def ThrowExp_class_def DotIdExp_class_def DotTemplateExp_class_def
  DotVarExp_class_def DotTemplateInstanceExp_class_def DelegateExp_class_def DotTypeExp_class_def
  CallExp_class_def AddrExp_class_def PtrExp_class_def NegExp_class_def UAddExp_class_def
  ComExp_class_def NotExp_class_def DeleteExp_class_def CastExp_class_def VectorExp_class_def
  VectorArrayExp_class_def SliceExp_class_def ArrayLengthExp_class_def IntervalExp_class_def
  DelegatePtrExp_class_def DelegateFuncptrExp_class_def ArrayExp_class_def DotExp_class_def
  CommaExp_class_def IndexExp_class_def PostExp_class_def PreExp_class_def AssignExp_class_def
  ConstructExp_class_def LoweredAssignExp_class_def BlitExp_class_def AddAssignExp_class_def
  MinAssignExp_class_def MulAssignExp_class_def DivAssignExp_class_def ModAssignExp_class_def
  AndAssignExp_class_def OrAssignExp_class_def XorAssignExp_class_def PowAssignExp_class_def
  ShlAssignExp_class_def ShrAssignExp_class_def UshrAssignExp_class_def CatAssignExp_class_def
  CatElemAssignExp_class_def CatDcharAssignExp_class_def AddExp_class_def MinExp_class_def
  CatExp_class_def MulExp_class_def DivExp_class_def ModExp_class_def PowExp_class_def
  ShlExp_class_def ShrExp_class_def UshrExp_class_def AndExp_class_def OrExp_class_def
  XorExp_class_def LogicalExp_class_def CmpExp_class_def InExp_class_def RemoveExp_class_def
  EqualExp_class_def IdentityExp_class_def CondExp_class_def DefaultInitExp_class_def
  ObjcClassReferenceExp_class_def ClassReferenceExp_class_def VoidInitExp_class_def
  ThrownExceptionExp_class_def CTFEExp_class_def CompoundLiteralExp_class_def GenericExp_class_def

end
