(* ===== verification/Class_Table.thy ===== *)
theory Class_Table
  imports Ast_Nodes Ast_Statements Ast_Types Ast_Dsymbols Ast_Expressions
begin

text \<open>
  All class declarations of the AST as one table, and the proof that it is well formed:
  the interpretation of \<open>class_table\<close>.  With it, dynamic dispatch, inheritance and the
  slots of every class follow from the lemmas of the locale.
\<close>

primrec cls_decl :: "cls \<Rightarrow> cls class_decl" where
  "cls_decl (E c) = expression_decl c"
| "cls_decl (S c) = statement_decl c"
| "cls_decl (T c) = type_decl c"
| "cls_decl (D c) = dsymbol_decl c"
| "cls_decl (N c) = other_decl c"

text \<open>No chain of base classes is longer than eight classes.\<close>

definition class_depth :: nat where "class_depth = 8"

definition class_chain :: "cls \<Rightarrow> cls list" where
  "class_chain c = (case chain cls_decl class_depth c of Some cs \<Rightarrow> cs | None \<Rightarrow> [])"

lemmas names_defs = class_ok_def new_names_def override_names_def slot_names_def final_slots_def
  final_names_def

lemma depth_Suc: "class_depth = Suc (Suc (Suc (Suc (Suc (Suc (Suc (Suc 0)))))))"
  by (simp add: class_depth_def)

lemma chain_other: "chain cls_decl class_depth (N c) \<noteq> None"
  by (cases c) (simp_all add: depth_Suc other_class_defs)

lemma chain_statement: "chain cls_decl class_depth (S c) \<noteq> None"
  by (cases c) (simp_all add: depth_Suc other_class_defs statement_class_defs)

lemma chain_type: "chain cls_decl class_depth (T c) \<noteq> None"
  by (cases c) (simp_all add: depth_Suc other_class_defs type_class_defs)

lemma chain_dsymbol: "chain cls_decl class_depth (D c) \<noteq> None"
  by (cases c) (simp_all add: depth_Suc other_class_defs dsymbol_class_defs)

lemma chain_expression: "chain cls_decl class_depth (E c) \<noteq> None"
  by (cases c) (simp_all add: depth_Suc other_class_defs expression_class_defs)

lemma chain_defined: "chain cls_decl class_depth c \<noteq> None"
  by (cases c) (simp_all only: chain_other chain_statement chain_type chain_dsymbol chain_expression not_False_eq_True)

lemma class_chain_step:
  "class_chain c = c # (case base_of (cls_decl c) of None \<Rightarrow> [] | Some b \<Rightarrow> class_chain b)"
  unfolding class_chain_def by (rule chain_fuel_step [OF chain_defined chain_defined])

lemma ok_other: "class_ok cls_decl (N c) (tl (class_chain (N c)))"
  by (cases c) (simp_all add: class_chain_step names_defs other_class_defs)

lemma ok_statement: "class_ok cls_decl (S c) (tl (class_chain (S c)))"
  by (cases c) (simp_all add: class_chain_step names_defs other_class_defs statement_class_defs)

lemma ok_type: "class_ok cls_decl (T c) (tl (class_chain (T c)))"
  by (cases c) (simp_all add: class_chain_step names_defs other_class_defs type_class_defs)

lemma ok_expression: "class_ok cls_decl (E c) (tl (class_chain (E c)))"
  by (cases c) (simp_all add: class_chain_step names_defs other_class_defs expression_class_defs)

lemma ok_dsymbol: "class_ok cls_decl (D c) (tl (class_chain (D c)))"
  by (cases c) (simp_all add: class_chain_step names_defs other_class_defs dsymbol_class_defs)

interpretation ast: class_table cls_decl class_chain
proof
  fix c
  show "class_chain c = c # (case base_of (cls_decl c) of None \<Rightarrow> [] | Some b \<Rightarrow> class_chain b)"
    by (rule class_chain_step)
  show "class_ok cls_decl c (tl (class_chain c))"
    by (cases c) (simp_all only: ok_other ok_statement ok_type ok_dsymbol ok_expression)
qed

end
