(* ===== verification/Visitor_Methods.thy ===== *)
theory Visitor_Methods
  imports Class_Table
begin

text \<open>
  The methods \<open>visit\<close> of \<open>ParseTimeVisitor\<close> and \<open>Visitor\<close> in
  compiler/include/dmd/visitor.h, and their agreement with the class declarations: the
  visit of a class casts to its nearest base class that has a visit.
\<close>

section \<open>The bodies of \<open>visit\<close>\<close>

text \<open>No overload of its own, \<open>assert(0)\<close>, or a cast and another visit.\<close>

datatype 'c visit_impl = No_visit | Assert_0 | Visit_as 'c

text \<open>The class \<open>ParseTimeVisitor\<close>: symbols.\<close>

primrec parse_time_dsymbol :: "dsymbol_node \<Rightarrow> cls visit_impl" where
  "parse_time_dsymbol Dsymbol = Assert_0"
| "parse_time_dsymbol ScopeDsymbol = Visit_as (D Dsymbol)"
| "parse_time_dsymbol WithScopeSymbol = No_visit"
| "parse_time_dsymbol ArrayScopeSymbol = No_visit"
| "parse_time_dsymbol OverloadSet = No_visit"
| "parse_time_dsymbol ForwardingScopeDsymbol = No_visit"
| "parse_time_dsymbol ExpressionDsymbol = No_visit"
| "parse_time_dsymbol CAsmDeclaration = Visit_as (D Dsymbol)"
| "parse_time_dsymbol Declaration = Visit_as (D Dsymbol)"
| "parse_time_dsymbol TupleDeclaration = Visit_as (D Declaration)"
| "parse_time_dsymbol AliasDeclaration = Visit_as (D Declaration)"
| "parse_time_dsymbol OverDeclaration = No_visit"
| "parse_time_dsymbol VarDeclaration = Visit_as (D Declaration)"
| "parse_time_dsymbol BitFieldDeclaration = Visit_as (D VarDeclaration)"
| "parse_time_dsymbol SymbolDeclaration = No_visit"
| "parse_time_dsymbol TypeInfoDeclaration = No_visit"
| "parse_time_dsymbol TypeInfoStructDeclaration = No_visit"
| "parse_time_dsymbol TypeInfoClassDeclaration = No_visit"
| "parse_time_dsymbol TypeInfoInterfaceDeclaration = No_visit"
| "parse_time_dsymbol TypeInfoPointerDeclaration = No_visit"
| "parse_time_dsymbol TypeInfoArrayDeclaration = No_visit"
| "parse_time_dsymbol TypeInfoStaticArrayDeclaration = No_visit"
| "parse_time_dsymbol TypeInfoAssociativeArrayDeclaration = No_visit"
| "parse_time_dsymbol TypeInfoEnumDeclaration = No_visit"
| "parse_time_dsymbol TypeInfoFunctionDeclaration = No_visit"
| "parse_time_dsymbol TypeInfoDelegateDeclaration = No_visit"
| "parse_time_dsymbol TypeInfoTupleDeclaration = No_visit"
| "parse_time_dsymbol TypeInfoConstDeclaration = No_visit"
| "parse_time_dsymbol TypeInfoInvariantDeclaration = No_visit"
| "parse_time_dsymbol TypeInfoSharedDeclaration = No_visit"
| "parse_time_dsymbol TypeInfoWildDeclaration = No_visit"
| "parse_time_dsymbol TypeInfoVectorDeclaration = No_visit"
| "parse_time_dsymbol ThisDeclaration = No_visit"
| "parse_time_dsymbol FuncDeclaration = Visit_as (D Declaration)"
| "parse_time_dsymbol FuncAliasDeclaration = No_visit"
| "parse_time_dsymbol FuncLiteralDeclaration = Visit_as (D FuncDeclaration)"
| "parse_time_dsymbol CtorDeclaration = Visit_as (D FuncDeclaration)"
| "parse_time_dsymbol PostBlitDeclaration = Visit_as (D FuncDeclaration)"
| "parse_time_dsymbol DtorDeclaration = Visit_as (D FuncDeclaration)"
| "parse_time_dsymbol StaticCtorDeclaration = Visit_as (D FuncDeclaration)"
| "parse_time_dsymbol SharedStaticCtorDeclaration = Visit_as (D StaticCtorDeclaration)"
| "parse_time_dsymbol StaticDtorDeclaration = Visit_as (D FuncDeclaration)"
| "parse_time_dsymbol SharedStaticDtorDeclaration = Visit_as (D StaticDtorDeclaration)"
| "parse_time_dsymbol InvariantDeclaration = Visit_as (D FuncDeclaration)"
| "parse_time_dsymbol UnitTestDeclaration = Visit_as (D FuncDeclaration)"
| "parse_time_dsymbol NewDeclaration = Visit_as (D FuncDeclaration)"
| "parse_time_dsymbol AggregateDeclaration = Visit_as (D ScopeDsymbol)"
| "parse_time_dsymbol StructDeclaration = Visit_as (D AggregateDeclaration)"
| "parse_time_dsymbol UnionDeclaration = Visit_as (D StructDeclaration)"
| "parse_time_dsymbol ClassDeclaration = Visit_as (D AggregateDeclaration)"
| "parse_time_dsymbol InterfaceDeclaration = Visit_as (D ClassDeclaration)"
| "parse_time_dsymbol AttribDeclaration = Visit_as (D Dsymbol)"
| "parse_time_dsymbol StorageClassDeclaration = Visit_as (D AttribDeclaration)"
| "parse_time_dsymbol DeprecatedDeclaration = Visit_as (D StorageClassDeclaration)"
| "parse_time_dsymbol LinkDeclaration = Visit_as (D AttribDeclaration)"
| "parse_time_dsymbol CPPMangleDeclaration = Visit_as (D AttribDeclaration)"
| "parse_time_dsymbol CPPNamespaceDeclaration = Visit_as (D AttribDeclaration)"
| "parse_time_dsymbol VisibilityDeclaration = Visit_as (D AttribDeclaration)"
| "parse_time_dsymbol AlignDeclaration = Visit_as (D AttribDeclaration)"
| "parse_time_dsymbol AnonDeclaration = Visit_as (D AttribDeclaration)"
| "parse_time_dsymbol PragmaDeclaration = Visit_as (D AttribDeclaration)"
| "parse_time_dsymbol ConditionalDeclaration = Visit_as (D AttribDeclaration)"
| "parse_time_dsymbol StaticIfDeclaration = Visit_as (D ConditionalDeclaration)"
| "parse_time_dsymbol StaticForeachDeclaration = Visit_as (D AttribDeclaration)"
| "parse_time_dsymbol ForwardingAttribDeclaration = No_visit"
| "parse_time_dsymbol MixinDeclaration = Visit_as (D AttribDeclaration)"
| "parse_time_dsymbol UserAttributeDeclaration = Visit_as (D AttribDeclaration)"
| "parse_time_dsymbol UnpackDeclaration = Visit_as (D AttribDeclaration)"
| "parse_time_dsymbol EnumDeclaration = Visit_as (D ScopeDsymbol)"
| "parse_time_dsymbol EnumMember = Visit_as (D VarDeclaration)"
| "parse_time_dsymbol Import = Visit_as (D Dsymbol)"
| "parse_time_dsymbol Package = Visit_as (D ScopeDsymbol)"
| "parse_time_dsymbol Module = Visit_as (D Package)"
| "parse_time_dsymbol Nspace = Visit_as (D ScopeDsymbol)"
| "parse_time_dsymbol LabelDsymbol = No_visit"
| "parse_time_dsymbol StaticAssert = Visit_as (D Dsymbol)"
| "parse_time_dsymbol TemplateDeclaration = Visit_as (D ScopeDsymbol)"
| "parse_time_dsymbol TemplateInstance = Visit_as (D ScopeDsymbol)"
| "parse_time_dsymbol TemplateMixin = Visit_as (D TemplateInstance)"
| "parse_time_dsymbol DebugSymbol = Visit_as (D Dsymbol)"
| "parse_time_dsymbol VersionSymbol = Visit_as (D Dsymbol)"
| "parse_time_dsymbol AliasThis = Visit_as (D Dsymbol)"
| "parse_time_dsymbol AliasAssign = Visit_as (D Dsymbol)"

text \<open>Statements.\<close>

primrec parse_time_statement :: "statement_node \<Rightarrow> cls visit_impl" where
  "parse_time_statement Statement = Assert_0"
| "parse_time_statement ErrorStatement = No_visit"
| "parse_time_statement PeelStatement = No_visit"
| "parse_time_statement ExpStatement = Visit_as (S Statement)"
| "parse_time_statement DtorExpStatement = No_visit"
| "parse_time_statement MixinStatement = Visit_as (S Statement)"
| "parse_time_statement CompoundStatement = Visit_as (S Statement)"
| "parse_time_statement CompoundDeclarationStatement = Visit_as (S CompoundStatement)"
| "parse_time_statement UnrolledLoopStatement = No_visit"
| "parse_time_statement ScopeStatement = Visit_as (S Statement)"
| "parse_time_statement ForwardingStatement = No_visit"
| "parse_time_statement WhileStatement = Visit_as (S Statement)"
| "parse_time_statement DoStatement = Visit_as (S Statement)"
| "parse_time_statement ForStatement = Visit_as (S Statement)"
| "parse_time_statement ForeachStatement = Visit_as (S Statement)"
| "parse_time_statement ForeachRangeStatement = Visit_as (S Statement)"
| "parse_time_statement IfStatement = Visit_as (S Statement)"
| "parse_time_statement ConditionalStatement = Visit_as (S Statement)"
| "parse_time_statement StaticForeachStatement = Visit_as (S Statement)"
| "parse_time_statement PragmaStatement = Visit_as (S Statement)"
| "parse_time_statement StaticAssertStatement = Visit_as (S Statement)"
| "parse_time_statement SwitchStatement = Visit_as (S Statement)"
| "parse_time_statement CaseStatement = Visit_as (S Statement)"
| "parse_time_statement CaseRangeStatement = Visit_as (S Statement)"
| "parse_time_statement DefaultStatement = Visit_as (S Statement)"
| "parse_time_statement GotoDefaultStatement = Visit_as (S Statement)"
| "parse_time_statement GotoCaseStatement = Visit_as (S Statement)"
| "parse_time_statement SwitchErrorStatement = No_visit"
| "parse_time_statement ReturnStatement = Visit_as (S Statement)"
| "parse_time_statement BreakStatement = Visit_as (S Statement)"
| "parse_time_statement ContinueStatement = Visit_as (S Statement)"
| "parse_time_statement SynchronizedStatement = Visit_as (S Statement)"
| "parse_time_statement WithStatement = Visit_as (S Statement)"
| "parse_time_statement TryCatchStatement = Visit_as (S Statement)"
| "parse_time_statement TryFinallyStatement = Visit_as (S Statement)"
| "parse_time_statement ScopeGuardStatement = Visit_as (S Statement)"
| "parse_time_statement ThrowStatement = Visit_as (S Statement)"
| "parse_time_statement DebugStatement = No_visit"
| "parse_time_statement GotoStatement = Visit_as (S Statement)"
| "parse_time_statement LabelStatement = Visit_as (S Statement)"
| "parse_time_statement AsmStatement = Visit_as (S Statement)"
| "parse_time_statement InlineAsmStatement = Visit_as (S AsmStatement)"
| "parse_time_statement GccAsmStatement = Visit_as (S AsmStatement)"
| "parse_time_statement CompoundAsmStatement = Visit_as (S CompoundStatement)"
| "parse_time_statement ImportStatement = Visit_as (S Statement)"

text \<open>Types.\<close>

primrec parse_time_type :: "type_node \<Rightarrow> cls visit_impl" where
  "parse_time_type Type = Assert_0"
| "parse_time_type TypeError = Visit_as (T Type)"
| "parse_time_type TypeNext = Visit_as (T Type)"
| "parse_time_type TypeBasic = Visit_as (T Type)"
| "parse_time_type TypeVector = Visit_as (T Type)"
| "parse_time_type TypeArray = Visit_as (T TypeNext)"
| "parse_time_type TypeSArray = Visit_as (T TypeArray)"
| "parse_time_type TypeDArray = Visit_as (T TypeArray)"
| "parse_time_type TypeAArray = Visit_as (T TypeArray)"
| "parse_time_type TypePointer = Visit_as (T TypeNext)"
| "parse_time_type TypeReference = Visit_as (T TypeNext)"
| "parse_time_type TypeFunction = Visit_as (T TypeNext)"
| "parse_time_type TypeDelegate = Visit_as (T TypeNext)"
| "parse_time_type TypeTraits = Visit_as (T Type)"
| "parse_time_type TypeMixin = Visit_as (T Type)"
| "parse_time_type TypeQualified = Visit_as (T Type)"
| "parse_time_type TypeIdentifier = Visit_as (T TypeQualified)"
| "parse_time_type TypeInstance = Visit_as (T TypeQualified)"
| "parse_time_type TypeTypeof = Visit_as (T TypeQualified)"
| "parse_time_type TypeReturn = Visit_as (T TypeQualified)"
| "parse_time_type TypeStruct = Visit_as (T Type)"
| "parse_time_type TypeEnum = Visit_as (T Type)"
| "parse_time_type TypeClass = Visit_as (T Type)"
| "parse_time_type TypeTuple = Visit_as (T Type)"
| "parse_time_type TypeSlice = Visit_as (T TypeNext)"
| "parse_time_type TypeNull = Visit_as (T Type)"
| "parse_time_type TypeNoreturn = Visit_as (T Type)"
| "parse_time_type TypeTag = Visit_as (T Type)"

text \<open>Expressions.\<close>

primrec parse_time_expression :: "expression_node \<Rightarrow> cls visit_impl" where
  "parse_time_expression Expression = Assert_0"
| "parse_time_expression IntegerExp = Visit_as (E Expression)"
| "parse_time_expression ErrorExp = No_visit"
| "parse_time_expression RealExp = Visit_as (E Expression)"
| "parse_time_expression ComplexExp = No_visit"
| "parse_time_expression IdentifierExp = Visit_as (E Expression)"
| "parse_time_expression DollarExp = Visit_as (E IdentifierExp)"
| "parse_time_expression DsymbolExp = Visit_as (E Expression)"
| "parse_time_expression ThisExp = Visit_as (E Expression)"
| "parse_time_expression SuperExp = Visit_as (E ThisExp)"
| "parse_time_expression NullExp = Visit_as (E Expression)"
| "parse_time_expression StringExp = Visit_as (E Expression)"
| "parse_time_expression InterpExp = Visit_as (E Expression)"
| "parse_time_expression TupleExp = Visit_as (E Expression)"
| "parse_time_expression ArrayLiteralExp = Visit_as (E Expression)"
| "parse_time_expression AssocArrayLiteralExp = Visit_as (E Expression)"
| "parse_time_expression StructLiteralExp = No_visit"
| "parse_time_expression TypeExp = Visit_as (E Expression)"
| "parse_time_expression ScopeExp = Visit_as (E Expression)"
| "parse_time_expression TemplateExp = Visit_as (E Expression)"
| "parse_time_expression NewExp = Visit_as (E Expression)"
| "parse_time_expression NewAnonClassExp = Visit_as (E Expression)"
| "parse_time_expression SymbolExp = Visit_as (E Expression)"
| "parse_time_expression SymOffExp = No_visit"
| "parse_time_expression VarExp = Visit_as (E SymbolExp)"
| "parse_time_expression OverExp = No_visit"
| "parse_time_expression FuncExp = Visit_as (E Expression)"
| "parse_time_expression DeclarationExp = Visit_as (E Expression)"
| "parse_time_expression TypeidExp = Visit_as (E Expression)"
| "parse_time_expression TraitsExp = Visit_as (E Expression)"
| "parse_time_expression HaltExp = No_visit"
| "parse_time_expression IsExp = Visit_as (E Expression)"
| "parse_time_expression UnaExp = Visit_as (E Expression)"
| "parse_time_expression BinExp = Visit_as (E Expression)"
| "parse_time_expression BinAssignExp = Visit_as (E BinExp)"
| "parse_time_expression MixinExp = Visit_as (E Expression)"
| "parse_time_expression ImportExp = Visit_as (E UnaExp)"
| "parse_time_expression AssertExp = Visit_as (E UnaExp)"
| "parse_time_expression ThrowExp = Visit_as (E UnaExp)"
| "parse_time_expression DotIdExp = Visit_as (E UnaExp)"
| "parse_time_expression DotTemplateExp = No_visit"
| "parse_time_expression DotVarExp = No_visit"
| "parse_time_expression DotTemplateInstanceExp = Visit_as (E UnaExp)"
| "parse_time_expression DelegateExp = No_visit"
| "parse_time_expression DotTypeExp = No_visit"
| "parse_time_expression CallExp = Visit_as (E UnaExp)"
| "parse_time_expression AddrExp = Visit_as (E UnaExp)"
| "parse_time_expression PtrExp = Visit_as (E UnaExp)"
| "parse_time_expression NegExp = Visit_as (E UnaExp)"
| "parse_time_expression UAddExp = Visit_as (E UnaExp)"
| "parse_time_expression ComExp = Visit_as (E UnaExp)"
| "parse_time_expression NotExp = Visit_as (E UnaExp)"
| "parse_time_expression DeleteExp = Visit_as (E UnaExp)"
| "parse_time_expression CastExp = Visit_as (E UnaExp)"
| "parse_time_expression VectorExp = No_visit"
| "parse_time_expression VectorArrayExp = No_visit"
| "parse_time_expression SliceExp = No_visit"
| "parse_time_expression ArrayLengthExp = No_visit"
| "parse_time_expression IntervalExp = Visit_as (E Expression)"
| "parse_time_expression DelegatePtrExp = No_visit"
| "parse_time_expression DelegateFuncptrExp = No_visit"
| "parse_time_expression ArrayExp = Visit_as (E UnaExp)"
| "parse_time_expression DotExp = No_visit"
| "parse_time_expression CommaExp = Visit_as (E BinExp)"
| "parse_time_expression IndexExp = No_visit"
| "parse_time_expression PostExp = Visit_as (E BinExp)"
| "parse_time_expression PreExp = Visit_as (E UnaExp)"
| "parse_time_expression AssignExp = Visit_as (E BinExp)"
| "parse_time_expression ConstructExp = No_visit"
| "parse_time_expression LoweredAssignExp = No_visit"
| "parse_time_expression BlitExp = No_visit"
| "parse_time_expression AddAssignExp = Visit_as (E BinAssignExp)"
| "parse_time_expression MinAssignExp = Visit_as (E BinAssignExp)"
| "parse_time_expression MulAssignExp = Visit_as (E BinAssignExp)"
| "parse_time_expression DivAssignExp = Visit_as (E BinAssignExp)"
| "parse_time_expression ModAssignExp = Visit_as (E BinAssignExp)"
| "parse_time_expression AndAssignExp = Visit_as (E BinAssignExp)"
| "parse_time_expression OrAssignExp = Visit_as (E BinAssignExp)"
| "parse_time_expression XorAssignExp = Visit_as (E BinAssignExp)"
| "parse_time_expression PowAssignExp = Visit_as (E BinAssignExp)"
| "parse_time_expression ShlAssignExp = Visit_as (E BinAssignExp)"
| "parse_time_expression ShrAssignExp = Visit_as (E BinAssignExp)"
| "parse_time_expression UshrAssignExp = Visit_as (E BinAssignExp)"
| "parse_time_expression CatAssignExp = Visit_as (E BinAssignExp)"
| "parse_time_expression CatElemAssignExp = Visit_as (E CatAssignExp)"
| "parse_time_expression CatDcharAssignExp = Visit_as (E CatAssignExp)"
| "parse_time_expression AddExp = Visit_as (E BinExp)"
| "parse_time_expression MinExp = Visit_as (E BinExp)"
| "parse_time_expression CatExp = Visit_as (E BinExp)"
| "parse_time_expression MulExp = Visit_as (E BinExp)"
| "parse_time_expression DivExp = Visit_as (E BinExp)"
| "parse_time_expression ModExp = Visit_as (E BinExp)"
| "parse_time_expression PowExp = Visit_as (E BinExp)"
| "parse_time_expression ShlExp = Visit_as (E BinExp)"
| "parse_time_expression ShrExp = Visit_as (E BinExp)"
| "parse_time_expression UshrExp = Visit_as (E BinExp)"
| "parse_time_expression AndExp = Visit_as (E BinExp)"
| "parse_time_expression OrExp = Visit_as (E BinExp)"
| "parse_time_expression XorExp = Visit_as (E BinExp)"
| "parse_time_expression LogicalExp = Visit_as (E BinExp)"
| "parse_time_expression CmpExp = Visit_as (E BinExp)"
| "parse_time_expression InExp = Visit_as (E BinExp)"
| "parse_time_expression RemoveExp = No_visit"
| "parse_time_expression EqualExp = Visit_as (E BinExp)"
| "parse_time_expression IdentityExp = Visit_as (E BinExp)"
| "parse_time_expression CondExp = Visit_as (E BinExp)"
| "parse_time_expression DefaultInitExp = Visit_as (E Expression)"
| "parse_time_expression ObjcClassReferenceExp = No_visit"
| "parse_time_expression ClassReferenceExp = No_visit"
| "parse_time_expression VoidInitExp = No_visit"
| "parse_time_expression ThrownExceptionExp = No_visit"
| "parse_time_expression CTFEExp = No_visit"
| "parse_time_expression GenericExp = Visit_as (E Expression)"
| "parse_time_expression CompoundLiteralExp = No_visit"

text \<open>Template parameters, conditions, initializers and parameters.\<close>

primrec parse_time_other :: "other_node \<Rightarrow> cls visit_impl" where
  "parse_time_other RootObject = No_visit"
| "parse_time_other ASTNode = No_visit"
| "parse_time_other Condition = Assert_0"
| "parse_time_other StaticForeach = No_visit"
| "parse_time_other DVCondition = Visit_as (N Condition)"
| "parse_time_other DebugCondition = Visit_as (N DVCondition)"
| "parse_time_other VersionCondition = Visit_as (N DVCondition)"
| "parse_time_other StaticIfCondition = Visit_as (N Condition)"
| "parse_time_other Initializer = Assert_0"
| "parse_time_other VoidInitializer = Visit_as (N Initializer)"
| "parse_time_other DefaultInitializer = Visit_as (N Initializer)"
| "parse_time_other ErrorInitializer = No_visit"
| "parse_time_other StructInitializer = Visit_as (N Initializer)"
| "parse_time_other ArrayInitializer = Visit_as (N Initializer)"
| "parse_time_other ExpInitializer = Visit_as (N Initializer)"
| "parse_time_other CInitializer = Visit_as (N Initializer)"
| "parse_time_other Parameter = Assert_0"
| "parse_time_other Tuple = No_visit"
| "parse_time_other TemplateParameter = Assert_0"
| "parse_time_other TemplateTypeParameter = Visit_as (N TemplateParameter)"
| "parse_time_other TemplateThisParameter = Visit_as (N TemplateTypeParameter)"
| "parse_time_other TemplateValueParameter = Visit_as (N TemplateParameter)"
| "parse_time_other TemplateAliasParameter = Visit_as (N TemplateParameter)"
| "parse_time_other TemplateTupleParameter = Visit_as (N TemplateParameter)"
| "parse_time_other DsymbolTable = No_visit"
| "parse_time_other Identifier = No_visit"
| "parse_time_other Catch = No_visit"

text \<open>The class \<open>Visitor\<close>, which adds the nodes of later compiler passes.\<close>

primrec visitor_dsymbol :: "dsymbol_node \<Rightarrow> cls visit_impl" where
  "visitor_dsymbol Dsymbol = No_visit"
| "visitor_dsymbol ScopeDsymbol = No_visit"
| "visitor_dsymbol WithScopeSymbol = Visit_as (D ScopeDsymbol)"
| "visitor_dsymbol ArrayScopeSymbol = Visit_as (D ScopeDsymbol)"
| "visitor_dsymbol OverloadSet = Visit_as (D Dsymbol)"
| "visitor_dsymbol ForwardingScopeDsymbol = No_visit"
| "visitor_dsymbol ExpressionDsymbol = No_visit"
| "visitor_dsymbol CAsmDeclaration = No_visit"
| "visitor_dsymbol Declaration = No_visit"
| "visitor_dsymbol TupleDeclaration = No_visit"
| "visitor_dsymbol AliasDeclaration = No_visit"
| "visitor_dsymbol OverDeclaration = Visit_as (D Declaration)"
| "visitor_dsymbol VarDeclaration = No_visit"
| "visitor_dsymbol BitFieldDeclaration = No_visit"
| "visitor_dsymbol SymbolDeclaration = Visit_as (D Declaration)"
| "visitor_dsymbol TypeInfoDeclaration = Visit_as (D VarDeclaration)"
| "visitor_dsymbol TypeInfoStructDeclaration = Visit_as (D TypeInfoDeclaration)"
| "visitor_dsymbol TypeInfoClassDeclaration = Visit_as (D TypeInfoDeclaration)"
| "visitor_dsymbol TypeInfoInterfaceDeclaration = Visit_as (D TypeInfoDeclaration)"
| "visitor_dsymbol TypeInfoPointerDeclaration = Visit_as (D TypeInfoDeclaration)"
| "visitor_dsymbol TypeInfoArrayDeclaration = Visit_as (D TypeInfoDeclaration)"
| "visitor_dsymbol TypeInfoStaticArrayDeclaration = Visit_as (D TypeInfoDeclaration)"
| "visitor_dsymbol TypeInfoAssociativeArrayDeclaration = Visit_as (D TypeInfoDeclaration)"
| "visitor_dsymbol TypeInfoEnumDeclaration = Visit_as (D TypeInfoDeclaration)"
| "visitor_dsymbol TypeInfoFunctionDeclaration = Visit_as (D TypeInfoDeclaration)"
| "visitor_dsymbol TypeInfoDelegateDeclaration = Visit_as (D TypeInfoDeclaration)"
| "visitor_dsymbol TypeInfoTupleDeclaration = Visit_as (D TypeInfoDeclaration)"
| "visitor_dsymbol TypeInfoConstDeclaration = Visit_as (D TypeInfoDeclaration)"
| "visitor_dsymbol TypeInfoInvariantDeclaration = Visit_as (D TypeInfoDeclaration)"
| "visitor_dsymbol TypeInfoSharedDeclaration = Visit_as (D TypeInfoDeclaration)"
| "visitor_dsymbol TypeInfoWildDeclaration = Visit_as (D TypeInfoDeclaration)"
| "visitor_dsymbol TypeInfoVectorDeclaration = Visit_as (D TypeInfoDeclaration)"
| "visitor_dsymbol ThisDeclaration = Visit_as (D VarDeclaration)"
| "visitor_dsymbol FuncDeclaration = No_visit"
| "visitor_dsymbol FuncAliasDeclaration = Visit_as (D FuncDeclaration)"
| "visitor_dsymbol FuncLiteralDeclaration = No_visit"
| "visitor_dsymbol CtorDeclaration = No_visit"
| "visitor_dsymbol PostBlitDeclaration = No_visit"
| "visitor_dsymbol DtorDeclaration = No_visit"
| "visitor_dsymbol StaticCtorDeclaration = No_visit"
| "visitor_dsymbol SharedStaticCtorDeclaration = No_visit"
| "visitor_dsymbol StaticDtorDeclaration = No_visit"
| "visitor_dsymbol SharedStaticDtorDeclaration = No_visit"
| "visitor_dsymbol InvariantDeclaration = No_visit"
| "visitor_dsymbol UnitTestDeclaration = No_visit"
| "visitor_dsymbol NewDeclaration = No_visit"
| "visitor_dsymbol AggregateDeclaration = No_visit"
| "visitor_dsymbol StructDeclaration = No_visit"
| "visitor_dsymbol UnionDeclaration = No_visit"
| "visitor_dsymbol ClassDeclaration = No_visit"
| "visitor_dsymbol InterfaceDeclaration = No_visit"
| "visitor_dsymbol AttribDeclaration = No_visit"
| "visitor_dsymbol StorageClassDeclaration = No_visit"
| "visitor_dsymbol DeprecatedDeclaration = No_visit"
| "visitor_dsymbol LinkDeclaration = No_visit"
| "visitor_dsymbol CPPMangleDeclaration = No_visit"
| "visitor_dsymbol CPPNamespaceDeclaration = No_visit"
| "visitor_dsymbol VisibilityDeclaration = No_visit"
| "visitor_dsymbol AlignDeclaration = No_visit"
| "visitor_dsymbol AnonDeclaration = No_visit"
| "visitor_dsymbol PragmaDeclaration = No_visit"
| "visitor_dsymbol ConditionalDeclaration = No_visit"
| "visitor_dsymbol StaticIfDeclaration = No_visit"
| "visitor_dsymbol StaticForeachDeclaration = No_visit"
| "visitor_dsymbol ForwardingAttribDeclaration = Visit_as (D AttribDeclaration)"
| "visitor_dsymbol MixinDeclaration = No_visit"
| "visitor_dsymbol UserAttributeDeclaration = No_visit"
| "visitor_dsymbol UnpackDeclaration = No_visit"
| "visitor_dsymbol EnumDeclaration = No_visit"
| "visitor_dsymbol EnumMember = No_visit"
| "visitor_dsymbol Import = No_visit"
| "visitor_dsymbol Package = No_visit"
| "visitor_dsymbol Module = No_visit"
| "visitor_dsymbol Nspace = No_visit"
| "visitor_dsymbol LabelDsymbol = Visit_as (D Dsymbol)"
| "visitor_dsymbol StaticAssert = No_visit"
| "visitor_dsymbol TemplateDeclaration = No_visit"
| "visitor_dsymbol TemplateInstance = No_visit"
| "visitor_dsymbol TemplateMixin = No_visit"
| "visitor_dsymbol DebugSymbol = No_visit"
| "visitor_dsymbol VersionSymbol = No_visit"
| "visitor_dsymbol AliasThis = No_visit"
| "visitor_dsymbol AliasAssign = No_visit"

primrec visitor_statement :: "statement_node \<Rightarrow> cls visit_impl" where
  "visitor_statement Statement = No_visit"
| "visitor_statement ErrorStatement = Visit_as (S Statement)"
| "visitor_statement PeelStatement = Visit_as (S Statement)"
| "visitor_statement ExpStatement = No_visit"
| "visitor_statement DtorExpStatement = Visit_as (S ExpStatement)"
| "visitor_statement MixinStatement = No_visit"
| "visitor_statement CompoundStatement = No_visit"
| "visitor_statement CompoundDeclarationStatement = No_visit"
| "visitor_statement UnrolledLoopStatement = Visit_as (S Statement)"
| "visitor_statement ScopeStatement = No_visit"
| "visitor_statement ForwardingStatement = Visit_as (S Statement)"
| "visitor_statement WhileStatement = No_visit"
| "visitor_statement DoStatement = No_visit"
| "visitor_statement ForStatement = No_visit"
| "visitor_statement ForeachStatement = No_visit"
| "visitor_statement ForeachRangeStatement = No_visit"
| "visitor_statement IfStatement = No_visit"
| "visitor_statement ConditionalStatement = No_visit"
| "visitor_statement StaticForeachStatement = No_visit"
| "visitor_statement PragmaStatement = No_visit"
| "visitor_statement StaticAssertStatement = No_visit"
| "visitor_statement SwitchStatement = No_visit"
| "visitor_statement CaseStatement = No_visit"
| "visitor_statement CaseRangeStatement = No_visit"
| "visitor_statement DefaultStatement = No_visit"
| "visitor_statement GotoDefaultStatement = No_visit"
| "visitor_statement GotoCaseStatement = No_visit"
| "visitor_statement SwitchErrorStatement = Visit_as (S Statement)"
| "visitor_statement ReturnStatement = No_visit"
| "visitor_statement BreakStatement = No_visit"
| "visitor_statement ContinueStatement = No_visit"
| "visitor_statement SynchronizedStatement = No_visit"
| "visitor_statement WithStatement = No_visit"
| "visitor_statement TryCatchStatement = No_visit"
| "visitor_statement TryFinallyStatement = No_visit"
| "visitor_statement ScopeGuardStatement = No_visit"
| "visitor_statement ThrowStatement = No_visit"
| "visitor_statement DebugStatement = Visit_as (S Statement)"
| "visitor_statement GotoStatement = No_visit"
| "visitor_statement LabelStatement = No_visit"
| "visitor_statement AsmStatement = No_visit"
| "visitor_statement InlineAsmStatement = No_visit"
| "visitor_statement GccAsmStatement = No_visit"
| "visitor_statement CompoundAsmStatement = No_visit"
| "visitor_statement ImportStatement = No_visit"

primrec visitor_expression :: "expression_node \<Rightarrow> cls visit_impl" where
  "visitor_expression Expression = No_visit"
| "visitor_expression IntegerExp = No_visit"
| "visitor_expression ErrorExp = Visit_as (E Expression)"
| "visitor_expression RealExp = No_visit"
| "visitor_expression ComplexExp = Visit_as (E Expression)"
| "visitor_expression IdentifierExp = No_visit"
| "visitor_expression DollarExp = No_visit"
| "visitor_expression DsymbolExp = No_visit"
| "visitor_expression ThisExp = No_visit"
| "visitor_expression SuperExp = No_visit"
| "visitor_expression NullExp = No_visit"
| "visitor_expression StringExp = No_visit"
| "visitor_expression InterpExp = No_visit"
| "visitor_expression TupleExp = No_visit"
| "visitor_expression ArrayLiteralExp = No_visit"
| "visitor_expression AssocArrayLiteralExp = No_visit"
| "visitor_expression StructLiteralExp = Visit_as (E Expression)"
| "visitor_expression TypeExp = No_visit"
| "visitor_expression ScopeExp = No_visit"
| "visitor_expression TemplateExp = No_visit"
| "visitor_expression NewExp = No_visit"
| "visitor_expression NewAnonClassExp = No_visit"
| "visitor_expression SymbolExp = No_visit"
| "visitor_expression SymOffExp = Visit_as (E SymbolExp)"
| "visitor_expression VarExp = No_visit"
| "visitor_expression OverExp = Visit_as (E Expression)"
| "visitor_expression FuncExp = No_visit"
| "visitor_expression DeclarationExp = No_visit"
| "visitor_expression TypeidExp = No_visit"
| "visitor_expression TraitsExp = No_visit"
| "visitor_expression HaltExp = Visit_as (E Expression)"
| "visitor_expression IsExp = No_visit"
| "visitor_expression UnaExp = No_visit"
| "visitor_expression BinExp = No_visit"
| "visitor_expression BinAssignExp = No_visit"
| "visitor_expression MixinExp = No_visit"
| "visitor_expression ImportExp = No_visit"
| "visitor_expression AssertExp = No_visit"
| "visitor_expression ThrowExp = No_visit"
| "visitor_expression DotIdExp = No_visit"
| "visitor_expression DotTemplateExp = Visit_as (E UnaExp)"
| "visitor_expression DotVarExp = Visit_as (E UnaExp)"
| "visitor_expression DotTemplateInstanceExp = No_visit"
| "visitor_expression DelegateExp = Visit_as (E UnaExp)"
| "visitor_expression DotTypeExp = Visit_as (E UnaExp)"
| "visitor_expression CallExp = No_visit"
| "visitor_expression AddrExp = No_visit"
| "visitor_expression PtrExp = No_visit"
| "visitor_expression NegExp = No_visit"
| "visitor_expression UAddExp = No_visit"
| "visitor_expression ComExp = No_visit"
| "visitor_expression NotExp = No_visit"
| "visitor_expression DeleteExp = No_visit"
| "visitor_expression CastExp = No_visit"
| "visitor_expression VectorExp = Visit_as (E UnaExp)"
| "visitor_expression VectorArrayExp = Visit_as (E UnaExp)"
| "visitor_expression SliceExp = Visit_as (E UnaExp)"
| "visitor_expression ArrayLengthExp = Visit_as (E UnaExp)"
| "visitor_expression IntervalExp = No_visit"
| "visitor_expression DelegatePtrExp = Visit_as (E UnaExp)"
| "visitor_expression DelegateFuncptrExp = Visit_as (E UnaExp)"
| "visitor_expression ArrayExp = No_visit"
| "visitor_expression DotExp = Visit_as (E BinExp)"
| "visitor_expression CommaExp = No_visit"
| "visitor_expression IndexExp = Visit_as (E BinExp)"
| "visitor_expression PostExp = No_visit"
| "visitor_expression PreExp = No_visit"
| "visitor_expression AssignExp = No_visit"
| "visitor_expression ConstructExp = Visit_as (E AssignExp)"
| "visitor_expression LoweredAssignExp = Visit_as (E AssignExp)"
| "visitor_expression BlitExp = Visit_as (E AssignExp)"
| "visitor_expression AddAssignExp = No_visit"
| "visitor_expression MinAssignExp = No_visit"
| "visitor_expression MulAssignExp = No_visit"
| "visitor_expression DivAssignExp = No_visit"
| "visitor_expression ModAssignExp = No_visit"
| "visitor_expression AndAssignExp = No_visit"
| "visitor_expression OrAssignExp = No_visit"
| "visitor_expression XorAssignExp = No_visit"
| "visitor_expression PowAssignExp = No_visit"
| "visitor_expression ShlAssignExp = No_visit"
| "visitor_expression ShrAssignExp = No_visit"
| "visitor_expression UshrAssignExp = No_visit"
| "visitor_expression CatAssignExp = No_visit"
| "visitor_expression CatElemAssignExp = No_visit"
| "visitor_expression CatDcharAssignExp = No_visit"
| "visitor_expression AddExp = No_visit"
| "visitor_expression MinExp = No_visit"
| "visitor_expression CatExp = No_visit"
| "visitor_expression MulExp = No_visit"
| "visitor_expression DivExp = No_visit"
| "visitor_expression ModExp = No_visit"
| "visitor_expression PowExp = No_visit"
| "visitor_expression ShlExp = No_visit"
| "visitor_expression ShrExp = No_visit"
| "visitor_expression UshrExp = No_visit"
| "visitor_expression AndExp = No_visit"
| "visitor_expression OrExp = No_visit"
| "visitor_expression XorExp = No_visit"
| "visitor_expression LogicalExp = No_visit"
| "visitor_expression CmpExp = No_visit"
| "visitor_expression InExp = No_visit"
| "visitor_expression RemoveExp = Visit_as (E BinExp)"
| "visitor_expression EqualExp = No_visit"
| "visitor_expression IdentityExp = No_visit"
| "visitor_expression CondExp = No_visit"
| "visitor_expression DefaultInitExp = No_visit"
| "visitor_expression ObjcClassReferenceExp = Visit_as (E Expression)"
| "visitor_expression ClassReferenceExp = Visit_as (E Expression)"
| "visitor_expression VoidInitExp = Visit_as (E Expression)"
| "visitor_expression ThrownExceptionExp = Visit_as (E Expression)"
| "visitor_expression CTFEExp = No_visit"
| "visitor_expression GenericExp = No_visit"
| "visitor_expression CompoundLiteralExp = Visit_as (E Expression)"

primrec visitor_other :: "other_node \<Rightarrow> cls visit_impl" where
  "visitor_other RootObject = No_visit"
| "visitor_other ASTNode = No_visit"
| "visitor_other Condition = No_visit"
| "visitor_other StaticForeach = No_visit"
| "visitor_other DVCondition = No_visit"
| "visitor_other DebugCondition = No_visit"
| "visitor_other VersionCondition = No_visit"
| "visitor_other StaticIfCondition = No_visit"
| "visitor_other Initializer = No_visit"
| "visitor_other VoidInitializer = No_visit"
| "visitor_other DefaultInitializer = No_visit"
| "visitor_other ErrorInitializer = Visit_as (N Initializer)"
| "visitor_other StructInitializer = No_visit"
| "visitor_other ArrayInitializer = No_visit"
| "visitor_other ExpInitializer = No_visit"
| "visitor_other CInitializer = No_visit"
| "visitor_other Parameter = No_visit"
| "visitor_other Tuple = No_visit"
| "visitor_other TemplateParameter = No_visit"
| "visitor_other TemplateTypeParameter = No_visit"
| "visitor_other TemplateThisParameter = No_visit"
| "visitor_other TemplateValueParameter = No_visit"
| "visitor_other TemplateAliasParameter = No_visit"
| "visitor_other TemplateTupleParameter = No_visit"
| "visitor_other DsymbolTable = No_visit"
| "visitor_other Identifier = No_visit"
| "visitor_other Catch = No_visit"

text \<open>An overload declared in \<open>Visitor\<close> comes before that of its base class.\<close>

primrec visit_body :: "cls \<Rightarrow> cls visit_impl" where
  "visit_body (E c) = (case visitor_expression c of No_visit \<Rightarrow> parse_time_expression c | b \<Rightarrow> b)"
| "visit_body (S c) = (case visitor_statement c of No_visit \<Rightarrow> parse_time_statement c | b \<Rightarrow> b)"
| "visit_body (T c) = parse_time_type c"
| "visit_body (D c) = (case visitor_dsymbol c of No_visit \<Rightarrow> parse_time_dsymbol c | b \<Rightarrow> b)"
| "visit_body (N c) = (case visitor_other c of No_visit \<Rightarrow> parse_time_other c | b \<Rightarrow> b)"

definition visitable :: "cls \<Rightarrow> bool" where "visitable c \<longleftrightarrow> visit_body c \<noteq> No_visit"

section \<open>Agreement with the class declarations\<close>

definition declares_accept :: "cls \<Rightarrow> bool" where
  "declares_accept c \<longleftrightarrow> (case own_decl (cls_decl c) ''accept'' of
     Some d \<Rightarrow> member_body d = Some Visit_this | None \<Rightarrow> False)"

text \<open>The visit of a class casts to its nearest base class that has a visit.\<close>

definition visit_agrees :: "cls \<Rightarrow> bool" where
  "visit_agrees c \<longleftrightarrow> visit_body c =
     (case find visitable (tl (class_chain c)) of Some b \<Rightarrow> Visit_as b | None \<Rightarrow> Assert_0)"

definition class_agrees :: "cls \<Rightarrow> bool" where
  "class_agrees c \<longleftrightarrow>
     (if c = N ASTNode then \<not> visitable c \<and> \<not> declares_accept c
      else (own_decl (cls_decl c) ''accept'' \<noteq> None \<longleftrightarrow> visitable c) \<and>
        (visitable c \<longrightarrow> declares_accept c \<and> (c \<noteq> E MixinExp \<longrightarrow> visit_agrees c)))"

lemmas agree_defs = class_agrees_def visit_agrees_def declares_accept_def visitable_def own_decl_def

lemma agrees_other: "class_agrees (N c)"
  by (cases c) (simp_all add: agree_defs class_chain_step other_class_defs)

lemma agrees_statement: "class_agrees (S c)"
  by (cases c) (simp_all add: agree_defs class_chain_step other_class_defs statement_class_defs)

lemma agrees_type: "class_agrees (T c)"
  by (cases c) (simp_all add: agree_defs class_chain_step other_class_defs type_class_defs)

lemma agrees_expression: "class_agrees (E c)"
  by (cases c) (simp_all add: agree_defs class_chain_step other_class_defs expression_class_defs)

lemma agrees_dsymbol: "class_agrees (D c)"
  by (cases c) (simp_all add: agree_defs class_chain_step other_class_defs dsymbol_class_defs)

lemma agrees: "class_agrees c"
  by (cases c) (simp_all only: agrees_other agrees_statement agrees_type agrees_dsymbol agrees_expression)

end
