(* ===== verification/Visitor.thy ===== *)
theory Visitor
  imports Visitor_Methods
begin

text \<open>
  Double dispatch through \<open>accept\<close> and the visitors of compiler/include/dmd/visitor.h.
  A node class overrides \<open>accept\<close> with \<open>v->visit(this)\<close>, which picks the overload of
  \<open>visit\<close> for that class; unless the visitor at hand overrides it, its body casts the node
  to another class and visits it as that, down to the \<open>assert(0)\<close> of the roots.

  The main theorem says which handler runs: that of the nearest class, among the node's
  own and its base classes, that the visitor overrides.  It holds for every class but
  one, whose declared base class is not the one its visit casts to.
\<close>

section \<open>Double dispatch\<close>

text \<open>A visitor gives the handlers it overrides; running one changes the visitor's state.\<close>

type_synonym 's visitor = "cls \<Rightarrow> ('s \<Rightarrow> 's) option"

text \<open>\<open>v->visit(p)\<close> for a pointer of static type \<open>c\<close>; the fuel bounds the casts.\<close>

fun visit :: "'s visitor \<Rightarrow> nat \<Rightarrow> cls \<Rightarrow> 's \<Rightarrow> (fault + 's) option" where
  "visit v 0 c s = None"
| "visit v (Suc n) c s =
     (case v c of
        Some h \<Rightarrow> Some (Inr (h s))
      | None \<Rightarrow> (case visit_body c of
          Visit_as b \<Rightarrow> visit v n b s
        | Assert_0 \<Rightarrow> Some (Inl Assertion)
        | No_visit \<Rightarrow> None))"

text \<open>The class whose \<open>accept\<close> a node of class \<open>c\<close> runs, if that calls \<open>visit(this)\<close>.\<close>

definition accept_class :: "cls \<Rightarrow> cls option" where
  "accept_class c =
     (case overrider cls_decl (class_chain c) ''accept'' of
        None \<Rightarrow> None
      | Some a \<Rightarrow> (case own_decl (cls_decl a) ''accept'' of
          Some d \<Rightarrow> (if member_body d = Some Visit_this then Some a else None)
        | None \<Rightarrow> None))"

definition accept :: "'s visitor \<Rightarrow> cls \<Rightarrow> 's \<Rightarrow> (fault + 's) option" where
  "accept v c s = (case accept_class c of None \<Rightarrow> None | Some a \<Rightarrow> visit v class_depth a s)"

section \<open>Which handler runs\<close>

lemma class_chain_length: "length (class_chain c) \<le> class_depth"
  using chain_defined [of c] chain_length [of cls_decl class_depth c]
  by (auto simp: class_chain_def)

lemma find_split: "find P xs = Some b \<Longrightarrow> \<exists>us vs. xs = us @ b # vs \<and> (\<forall>u \<in> set us. \<not> P u) \<and> P b"
proof (induction xs)
  case (Cons x xs)
  show ?case
  proof (cases "P x")
    case True
    with Cons.prems have "x # xs = [] @ b # xs" "P b" by auto
    then show ?thesis by (intro exI [of _ "[]"] exI [of _ xs]) simp
  next
    case False
    with Cons obtain us vs where "xs = us @ b # vs" "\<forall>u \<in> set us. \<not> P u" "P b" by auto
    with False show ?thesis by (intro exI [of _ "x # us"] exI [of _ vs]) simp
  qed
qed simp

lemma find_prefix:
  "\<forall>x \<in> set xs. \<not> P x \<Longrightarrow> find (\<lambda>d. P d \<and> Q d) (xs @ ys) = find (\<lambda>d. P d \<and> Q d) ys"
  by (induction xs) auto

lemma not_below_mixin: "class_chain c = xs @ E MixinExp # ys \<Longrightarrow> xs = []"
proof -
  assume a: "class_chain c = xs @ E MixinExp # ys"
  then have "inherits cls_decl c (E MixinExp)" by (simp add: ast.inherits_iff)
  then have "c = E MixinExp" by (rule ast.final_class_is_leaf) (simp add: MixinExp_class_def)
  with a ast.chain_split [OF a] show ?thesis by simp
qed

text \<open>The handler a visitor has for a node of class \<open>c\<close>: that of the nearest class.\<close>

definition handler :: "'s visitor \<Rightarrow> cls \<Rightarrow> cls option" where
  "handler v c = find (\<lambda>d. visitable d \<and> v d \<noteq> None) (class_chain c)"

definition run_handler :: "'s visitor \<Rightarrow> cls \<Rightarrow> 's \<Rightarrow> fault + 's" where
  "run_handler v c s = (case handler v c of Some d \<Rightarrow> Inr (the (v d) s) | None \<Rightarrow> Inl Assertion)"

lemma visit_nearest:
  assumes "visitable c" "c \<noteq> E MixinExp" "length (class_chain c) \<le> n"
  shows "visit v n c s = Some (run_handler v c s)"
  using assms
proof (induction n arbitrary: c)
  case 0
  then show ?case by (subst (asm) class_chain_step) simp
next
  case (Suc n)
  have hd: "class_chain c = c # tl (class_chain c)" by (subst (1 2) class_chain_step) simp
  have a: "visit_agrees c" using agrees [of c] Suc.prems by (simp add: class_agrees_def split: if_splits)
  show ?case
  proof (cases "v c")
    case (Some h)
    then have "handler v c = Some c" unfolding handler_def using Suc.prems(1) by (subst hd) simp
    with Some show ?thesis by (simp add: run_handler_def)
  next
    case None
    have tl: "handler v c = find (\<lambda>d. visitable d \<and> v d \<noteq> None) (tl (class_chain c))"
      unfolding handler_def using None by (subst hd) simp
    show ?thesis
    proof (cases "find visitable (tl (class_chain c))")
      case f: None
      then have "\<forall>x \<in> set (tl (class_chain c)). \<not> visitable x" by (simp add: find_None_iff)
      then have "handler v c = None" by (auto simp: tl find_None_iff)
      with f a None show ?thesis by (simp add: visit_agrees_def run_handler_def)
    next
      case (Some b)
      then obtain xs ys where b: "tl (class_chain c) = xs @ b # ys" "\<forall>x \<in> set xs. \<not> visitable x" "visitable b"
        using find_split by metis
      have cb: "class_chain c = (c # xs) @ b # ys" using hd b(1) by simp
      then have bys: "class_chain b = b # ys" by (rule ast.chain_split)
      have "b \<noteq> E MixinExp" using not_below_mixin cb by blast
      moreover have "length (class_chain b) \<le> n" using Suc.prems(3) cb bys by simp
      ultimately have "visit v n b s = Some (run_handler v b s)" using Suc.IH b(3) by simp
      moreover have "handler v c = handler v b"
        unfolding tl b(1) handler_def [of v b] bys by (rule find_prefix [OF b(2)])
      ultimately show ?thesis using Some a None by (simp add: visit_agrees_def run_handler_def)
    qed
  qed
qed

lemma accept_visitable:
  "accept_class c = Some a \<Longrightarrow> visitable a \<and> (\<exists>xs ys. class_chain c = xs @ a # ys \<and> (\<forall>x \<in> set xs. \<not> visitable x))"
proof -
  assume "accept_class c = Some a"
  then have o: "overrider cls_decl (class_chain c) ''accept'' = Some a" and d: "declares_accept a"
    by (auto simp: accept_class_def declares_accept_def split: option.splits if_splits)
  then have "own_decl (cls_decl a) ''accept'' \<noteq> None"
    by (auto simp: declares_accept_def split: option.splits)
  then have v: "visitable a"
    using agrees [of a] d by (simp add: class_agrees_def split: if_splits)
  have "\<exists>xs ys. cs = xs @ a # ys \<and> (\<forall>x \<in> set xs. own_decl (cls_decl x) ''accept'' = None)"
    if "overrider cls_decl cs ''accept'' = Some a" for cs
    using that
  proof (induction cs)
    case (Cons c cs)
    show ?case
    proof (cases "own_decl (cls_decl c) ''accept'' = None")
      case True
      with Cons obtain xs ys where "cs = xs @ a # ys" "\<forall>x \<in> set xs. own_decl (cls_decl x) ''accept'' = None"
        by auto
      with True show ?thesis by (intro exI [of _ "c # xs"] exI [of _ ys]) simp
    next
      case False
      with Cons.prems show ?thesis by (intro exI [of _ "[]"] exI [of _ cs]) auto
    qed
  qed simp
  from this [OF o] obtain xs ys where
    x: "class_chain c = xs @ a # ys" "\<forall>x \<in> set xs. own_decl (cls_decl x) ''accept'' = None" by blast
  have "\<not> visitable x" if "x \<in> set xs" for x
    using agrees [of x] x(2) that by (auto simp: class_agrees_def split: if_splits)
  with v x(1) show ?thesis by blast
qed

lemma accept_run:
  assumes "accept_class c = Some a" "a \<noteq> E MixinExp"
  shows "accept v c s = Some (run_handler v c s)"
proof -
  from accept_visitable [OF assms(1)] obtain xs ys where
    a: "visitable a" "class_chain c = xs @ a # ys" "\<forall>x \<in> set xs. \<not> visitable x" by blast
  have "handler v c = handler v a"
    unfolding handler_def a(2) ast.chain_split [OF a(2)] by (rule find_prefix [OF a(3)])
  then show ?thesis
    using visit_nearest [OF a(1) assms(2) class_chain_length] assms(1)
    by (simp add: accept_def run_handler_def)
qed

section \<open>Properties\<close>

text \<open>C6: Double dispatch finds the nearest handler.  For every node class that can be
  visited, except \<open>MixinExp\<close>, \<open>accept\<close> terminates and runs the handler of the first
  class, going up from the node's class along the declared base classes, that the visitor
  overrides, whatever the casts in between; without any it fails the \<open>assert(0)\<close>.\<close>
theorem accept_runs_nearest_handler:
  assumes "accept_class c \<noteq> None" and "c \<noteq> E MixinExp"
  shows "accept v c s =
    (case find (\<lambda>d. visitable d \<and> v d \<noteq> None) (class_chain c) of
       Some d \<Rightarrow> Some (Inr (the (v d) s))
     | None \<Rightarrow> Some (Inl Assertion))"
proof -
  obtain a where a: "accept_class c = Some a" using assms(1) by blast
  have "a \<noteq> E MixinExp" using accept_visitable [OF a] not_below_mixin assms(2) ast.chain_split
    by (metis append_Nil list.inject class_chain_step)
  from accept_run [OF a this, of v s] show ?thesis
    by (simp add: run_handler_def handler_def split: option.splits)
qed

text \<open>A visitor that handles binary expressions and all expressions, and counts in its state.\<close>

definition count_visitor :: "nat visitor" where
  "count_visitor c = (if c = E BinExp then Some (\<lambda>n. n + 1)
     else if c = E Expression then Some (\<lambda>n. n + 100) else None)"

theorem accept_runs_nearest_handler_witness:
  "accept count_visitor (E AddExp) 5 = Some (Inr 6) \<and>
   accept count_visitor (E NegExp) 5 = Some (Inr 105) \<and>
   accept count_visitor (S IfStatement) 5 = Some (Inl Assertion)"
proof -
  have a: "accept_class (E AddExp) = Some (E AddExp)" "accept_class (E NegExp) = Some (E NegExp)"
    "accept_class (S IfStatement) = Some (S IfStatement)"
    by (simp_all add: accept_class_def class_chain_step own_decl_def AddExp_class_def NegExp_class_def
        IfStatement_class_def)
  show ?thesis
    using accept_runs_nearest_handler [of "E AddExp" count_visitor 5]
      accept_runs_nearest_handler [of "E NegExp" count_visitor 5]
      accept_runs_nearest_handler [of "S IfStatement" count_visitor 5]
    by (simp add: a class_chain_step count_visitor_def visitable_def AddExp_class_def NegExp_class_def
        IfStatement_class_def BinExp_class_def UnaExp_class_def Expression_class_def
        Statement_class_def ASTNode_class_def RootObject_class_def)
qed

text \<open>\<open>MixinExp\<close> is declared as a \<open>UnaExp\<close> in expression.h, but its visit casts it to
  \<open>Expression\<close>: a visitor that overrides only the handlers of unary and of all
  expressions runs the latter on a \<open>MixinExp\<close>, and the former on \<open>AssertExp\<close>, which is
  declared below \<open>UnaExp\<close> in the same way.\<close>
lemma mixin_exp_visited_as_expression:
  "inherits cls_decl (E MixinExp) (E UnaExp) \<and> inherits cls_decl (E AssertExp) (E UnaExp) \<and>
   accept (\<lambda>c. if c = E UnaExp then Some (\<lambda>_. ''unary'') else if c = E Expression
     then Some (\<lambda>_. ''any'') else None) (E MixinExp) [] = Some (Inr ''any'') \<and>
   accept (\<lambda>c. if c = E UnaExp then Some (\<lambda>_. ''unary'') else if c = E Expression
     then Some (\<lambda>_. ''any'') else None) (E AssertExp) [] = Some (Inr ''unary'')"
proof -
  have "inherits cls_decl (E MixinExp) (E UnaExp)" "inherits cls_decl (E AssertExp) (E UnaExp)"
    by (simp_all add: ast.inherits_iff class_chain_step expression_class_defs other_class_defs)
  moreover have "accept_class (E MixinExp) = Some (E MixinExp)"
    "accept_class (E AssertExp) = Some (E AssertExp)"
    by (simp_all add: accept_class_def class_chain_step own_decl_def expression_class_defs
        other_class_defs)
  ultimately show ?thesis by (simp add: accept_def class_depth_def numeral_eq_Suc)
qed

end
