(* ===== verification/Downcasts.thy ===== *)
theory Downcasts
  imports Class_Table
begin

text \<open>
  How the AST finds out the class of a node without \<open>dynamic_cast\<close>: the virtual
  \<open>dyncast\<close> that every family overrides (rootobject.h and the headers of the families),
  and the \<open>is...Statement\<close> methods of statement.h, which compare the tag \<open>stmt\<close> that the
  constructors of compiler/src/dmd/statement.d store.
\<close>

section \<open>\<open>dyncast\<close>\<close>

text \<open>The two bodies that are in the D sources (rootobject.d and identifier.d).\<close>

definition extern_dyncast :: "cls \<Rightarrow> DYNCAST option" where
  "extern_dyncast c = (if c = N RootObject then Some DYNCAST_OBJECT
     else if c = N Identifier then Some DYNCAST_IDENTIFIER else None)"

text \<open>The constant that \<open>dyncast\<close> returns on a node of class \<open>c\<close>: that of its final overrider.\<close>

definition dyncast :: "cls \<Rightarrow> DYNCAST option" where
  "dyncast c = (case overrider cls_decl (class_chain c) ''dyncast'' of
     Some d \<Rightarrow> (case own_decl (cls_decl d) ''dyncast'' of
       Some m \<Rightarrow> (case member_body m of
           Some (Return_dyncast x) \<Rightarrow> Some x
         | Some Extern \<Rightarrow> extern_dyncast d
         | _ \<Rightarrow> None)
     | None \<Rightarrow> None)
   | None \<Rightarrow> None)"

section \<open>The tag of a statement\<close>

text \<open>The value the constructors of a statement class pass for \<open>stmt\<close>; \<open>Statement\<close> itself
  is abstract.\<close>

primrec statement_tag :: "statement_node \<Rightarrow> string option" where
  "statement_tag Statement = None"
| "statement_tag ErrorStatement = Some ''STMTerror''"
| "statement_tag PeelStatement = Some ''STMTpeel''"
| "statement_tag ExpStatement = Some ''STMTexp''"
| "statement_tag DtorExpStatement = Some ''STMTdtorExp''"
| "statement_tag MixinStatement = Some ''STMTmixin''"
| "statement_tag CompoundStatement = Some ''STMTcompound''"
| "statement_tag CompoundDeclarationStatement = Some ''STMTcompoundDeclaration''"
| "statement_tag UnrolledLoopStatement = Some ''STMTunrolledLoop''"
| "statement_tag ScopeStatement = Some ''STMTscope''"
| "statement_tag ForwardingStatement = Some ''STMTforwarding''"
| "statement_tag WhileStatement = Some ''STMTwhile''"
| "statement_tag DoStatement = Some ''STMTdo''"
| "statement_tag ForStatement = Some ''STMTfor''"
| "statement_tag ForeachStatement = Some ''STMTforeach''"
| "statement_tag ForeachRangeStatement = Some ''STMTforeachRange''"
| "statement_tag IfStatement = Some ''STMTif''"
| "statement_tag ConditionalStatement = Some ''STMTconditional''"
| "statement_tag StaticForeachStatement = Some ''STMTstaticForeach''"
| "statement_tag PragmaStatement = Some ''STMTpragma''"
| "statement_tag StaticAssertStatement = Some ''STMTstaticAssert''"
| "statement_tag SwitchStatement = Some ''STMTswitch''"
| "statement_tag CaseStatement = Some ''STMTcase''"
| "statement_tag CaseRangeStatement = Some ''STMTcaseRange''"
| "statement_tag DefaultStatement = Some ''STMTdefault''"
| "statement_tag GotoDefaultStatement = Some ''STMTgotoDefault''"
| "statement_tag GotoCaseStatement = Some ''STMTgotoCase''"
| "statement_tag SwitchErrorStatement = Some ''STMTswitchError''"
| "statement_tag ReturnStatement = Some ''STMTreturn''"
| "statement_tag BreakStatement = Some ''STMTbreak''"
| "statement_tag ContinueStatement = Some ''STMTcontinue''"
| "statement_tag SynchronizedStatement = Some ''STMTsynchronized''"
| "statement_tag WithStatement = Some ''STMTwith''"
| "statement_tag TryCatchStatement = Some ''STMTtryCatch''"
| "statement_tag TryFinallyStatement = Some ''STMTtryFinally''"
| "statement_tag ScopeGuardStatement = Some ''STMTscopeGuard''"
| "statement_tag ThrowStatement = Some ''STMTthrow''"
| "statement_tag DebugStatement = Some ''STMTdebug''"
| "statement_tag GotoStatement = Some ''STMTgoto''"
| "statement_tag LabelStatement = Some ''STMTlabel''"
| "statement_tag AsmStatement = Some ''STMTasm''"
| "statement_tag InlineAsmStatement = Some ''STMTinlineAsm''"
| "statement_tag GccAsmStatement = Some ''STMTgccAsm''"
| "statement_tag CompoundAsmStatement = Some ''STMTcompoundAsm''"
| "statement_tag ImportStatement = Some ''STMTimport''"

text \<open>The downcast methods of \<open>Statement\<close>: the tag each one tests and the class it casts to.\<close>

primrec cast_method :: "'c member \<Rightarrow> (string \<times> string \<times> 'c) list" where
  "cast_method (Field t x) = []"
| "cast_method (Static_field t x) = []"
| "cast_method (Union_fields xs) = []"
| "cast_method (Method k f m b) = (case b of Cast_if t c \<Rightarrow> [(m, t, c)] | _ \<Rightarrow> [])"

definition statement_casts :: "(string \<times> string \<times> cls) list" where
  "statement_casts = concat (map cast_method (members Statement_class))"

text \<open>The result of the method \<open>m\<close> on a node of class \<open>c\<close>: the static type of the pointer
  returned, or \<open>None\<close> for a null pointer.\<close>

definition downcast :: "string \<Rightarrow> statement_node \<Rightarrow> cls option" where
  "downcast m c =
     (case map_of statement_casts m of
        Some (t, d) \<Rightarrow> if statement_tag c = Some t then Some d else None
      | None \<Rightarrow> None)"

section \<open>Families\<close>

text \<open>The families are closed under inheritance, and every node of a family is below its root.\<close>

lemma expression_below: "inherits cls_decl (E c) (E Expression)"
  by (cases c) (simp_all add: ast.inherits_iff class_chain_step expression_class_defs other_class_defs)

lemma statement_below: "inherits cls_decl (S c) (S Statement)"
  by (cases c) (simp_all add: ast.inherits_iff class_chain_step statement_class_defs other_class_defs)

lemma type_below: "inherits cls_decl (T c) (T Type)"
  by (cases c) (simp_all add: ast.inherits_iff class_chain_step type_class_defs other_class_defs)

lemma dsymbol_below: "inherits cls_decl (D c) (D Dsymbol)"
  by (cases c) (simp_all add: ast.inherits_iff class_chain_step dsymbol_class_defs other_class_defs)

lemma roots_below:
  "inherits cls_decl (E Expression) (N RootObject)" "inherits cls_decl (S Statement) (N RootObject)"
  "inherits cls_decl (T Type) (N RootObject)" "inherits cls_decl (D Dsymbol) (N RootObject)"
  by (simp_all add: ast.inherits_iff class_chain_step Expression_class_def Statement_class_def
      Type_class_def Dsymbol_class_def other_class_defs)

lemma other_below: "inherits cls_decl (N c) (N RootObject)"
  by (cases c) (simp_all add: ast.inherits_iff class_chain_step other_class_defs)

lemma root_object: "inherits cls_decl c (N RootObject)"
  using ast.inherits_trans [OF expression_below roots_below(1)]
    ast.inherits_trans [OF statement_below roots_below(2)]
    ast.inherits_trans [OF type_below roots_below(3)]
    ast.inherits_trans [OF dsymbol_below roots_below(4)] other_below
  by (cases c) simp_all

text \<open>No class of a family inherits from another family.\<close>

fun same_family :: "cls \<Rightarrow> cls \<Rightarrow> bool" where
  "same_family (E a) (E b) = True" | "same_family (S a) (S b) = True"
| "same_family (T a) (T b) = True" | "same_family (D a) (D b) = True"
| "same_family a (N b) = True" | "same_family a b = False"

lemma base_family:
  "base_of (cls_decl c) = Some b \<Longrightarrow> same_family c b"
proof (cases c)
  fix x assume "base_of (cls_decl c) = Some b" "c = E x"
  then show ?thesis by (cases x) (auto simp: expression_class_defs)
next
  fix x assume "base_of (cls_decl c) = Some b" "c = S x"
  then show ?thesis by (cases x) (auto simp: statement_class_defs)
next
  fix x assume "base_of (cls_decl c) = Some b" "c = T x"
  then show ?thesis by (cases x) (auto simp: type_class_defs)
next
  fix x assume "base_of (cls_decl c) = Some b" "c = D x"
  then show ?thesis by (cases x) (auto simp: dsymbol_class_defs)
next
  fix x assume "base_of (cls_decl c) = Some b" "c = N x"
  then show ?thesis by (cases x) (auto simp: other_class_defs)
qed

lemma same_family_trans: "same_family a b \<Longrightarrow> same_family b c \<Longrightarrow> same_family a c"
  by (cases a; cases b; cases c) simp_all

lemma inherits_family: "inherits cls_decl c d \<Longrightarrow> same_family c d"
proof (induction rule: inherits.induct)
  case (inherits_refl c)
  then show ?case by (cases c) simp_all
next
  case (inherits_step c b d)
  then show ?case using base_family same_family_trans by blast
qed

text \<open>A final \<open>dyncast\<close> is that of the root of the family.\<close>

lemma dyncast_final:
  assumes "inherits cls_decl c d" "''dyncast'' \<in> set (final_names (cls_decl d))"
  shows "dyncast c = dyncast d"
proof -
  have "inherits cls_decl d (N RootObject)"
    using root_object [of d] .
  then obtain pre where "class_chain d = pre @ class_chain (N RootObject)"
    using ast.inherits_suffix by blast
  then have "''dyncast'' \<in> set (slot_names cls_decl (class_chain d))"
    by (simp add: slot_names_def class_chain_step RootObject_class_def new_names_def)
  with ast.final_method_kept [OF assms] show ?thesis by (simp add: dyncast_def)
qed

lemmas dyncast_eval = dyncast_def class_chain_step own_decl_def extern_dyncast_def

lemma dyncast_roots:
  "dyncast (E Expression) = Some DYNCAST_EXPRESSION" "dyncast (S Statement) = Some DYNCAST_STATEMENT"
  "dyncast (T Type) = Some DYNCAST_TYPE" "dyncast (D Dsymbol) = Some DYNCAST_DSYMBOL"
  by (simp_all add: dyncast_eval Expression_class_def Statement_class_def Type_class_def
      Dsymbol_class_def)

lemma dyncast_families:
  "dyncast (E e) = Some DYNCAST_EXPRESSION" "dyncast (S s) = Some DYNCAST_STATEMENT"
  "dyncast (T t) = Some DYNCAST_TYPE" "dyncast (D d) = Some DYNCAST_DSYMBOL"
  using dyncast_final [OF expression_below [of e]] dyncast_final [OF statement_below [of s]]
    dyncast_final [OF type_below [of t]] dyncast_final [OF dsymbol_below [of d]]
  by (simp_all add: dyncast_roots final_names_def Expression_class_def Statement_class_def
      Type_class_def Dsymbol_class_def)

text \<open>The other nodes.\<close>

fun other_dyncast :: "other_node \<Rightarrow> DYNCAST" where
  "other_dyncast c =
     (if inherits cls_decl (N c) (N Condition) then DYNCAST_CONDITION
      else if inherits cls_decl (N c) (N Initializer) then DYNCAST_INITIALIZER
      else if inherits cls_decl (N c) (N TemplateParameter) then DYNCAST_TEMPLATEPARAMETER
      else if c = Parameter then DYNCAST_PARAMETER
      else if c = Tuple then DYNCAST_TUPLE
      else if c = Identifier then DYNCAST_IDENTIFIER
      else DYNCAST_OBJECT)"

lemma dyncast_other: "dyncast (N c) = Some (other_dyncast c)"
  by (cases c) (simp_all add: dyncast_eval ast.inherits_iff other_class_defs)

text \<open>A class of one of the four families has no base among the other nodes but the roots.\<close>

lemma nodes_below:
  "inherits cls_decl (E e) (N n) \<Longrightarrow> n = ASTNode \<or> n = RootObject"
  "inherits cls_decl (S s) (N n) \<Longrightarrow> n = ASTNode \<or> n = RootObject"
  "inherits cls_decl (T t) (N n) \<Longrightarrow> n = ASTNode \<or> n = RootObject"
  "inherits cls_decl (D d) (N n) \<Longrightarrow> n = ASTNode \<or> n = RootObject"
     apply (cases e; simp add: ast.inherits_iff class_chain_step expression_class_defs other_class_defs)
    apply (cases s; simp add: ast.inherits_iff class_chain_step statement_class_defs other_class_defs)
   apply (cases t; simp add: ast.inherits_iff class_chain_step type_class_defs other_class_defs)
  apply (cases d; simp add: ast.inherits_iff class_chain_step dsymbol_class_defs other_class_defs)
  done

lemma other_not_below:
  "\<forall>x. c \<noteq> N x \<Longrightarrow> \<not> inherits cls_decl c (N Condition) \<and>
     \<not> inherits cls_decl c (N Initializer) \<and> \<not> inherits cls_decl c (N TemplateParameter)"
  by (cases c) (use nodes_below in fastforce)+

lemma family_iff:
  "inherits cls_decl c (E Expression) \<longleftrightarrow> (\<exists>e. c = E e)"
  "inherits cls_decl c (S Statement) \<longleftrightarrow> (\<exists>s. c = S s)"
  "inherits cls_decl c (T Type) \<longleftrightarrow> (\<exists>t. c = T t)"
  "inherits cls_decl c (D Dsymbol) \<longleftrightarrow> (\<exists>d. c = D d)"
  using inherits_family [of c] expression_below statement_below type_below dsymbol_below
  by (cases c; fastforce)+

lemma dyncast_family_iff:
  "dyncast c = Some DYNCAST_EXPRESSION \<longleftrightarrow> (\<exists>e. c = E e)"
  "dyncast c = Some DYNCAST_STATEMENT \<longleftrightarrow> (\<exists>s. c = S s)"
  "dyncast c = Some DYNCAST_TYPE \<longleftrightarrow> (\<exists>t. c = T t)"
  "dyncast c = Some DYNCAST_DSYMBOL \<longleftrightarrow> (\<exists>d. c = D d)"
  by (cases c; simp add: dyncast_families dyncast_other)+

lemma statement_casts_list:
  "statement_casts =
    [(''isErrorStatement'', ''STMTerror'', S ErrorStatement),
     (''isScopeStatement'', ''STMTscope'', S ScopeStatement),
     (''isExpStatement'', ''STMTexp'', S ExpStatement),
     (''isCompoundStatement'', ''STMTcompound'', S CompoundStatement),
     (''isReturnStatement'', ''STMTreturn'', S ReturnStatement),
     (''isIfStatement'', ''STMTif'', S IfStatement),
     (''isConditionalStatement'', ''STMTconditional'', S ConditionalStatement),
     (''isStaticForeachStatement'', ''STMTstaticForeach'', S StaticForeachStatement),
     (''isCaseStatement'', ''STMTcase'', S CaseStatement),
     (''isDefaultStatement'', ''STMTdefault'', S DefaultStatement),
     (''isLabelStatement'', ''STMTlabel'', S LabelStatement),
     (''isGotoDefaultStatement'', ''STMTgotoDefault'', S GotoDefaultStatement),
     (''isGotoCaseStatement'', ''STMTgotoCase'', S GotoCaseStatement),
     (''isBreakStatement'', ''STMTbreak'', S BreakStatement),
     (''isDtorExpStatement'', ''STMTdtorExp'', S DtorExpStatement),
     (''isMixinStatement'', ''STMTmixin'', S MixinStatement),
     (''isForwardingStatement'', ''STMTforwarding'', S ForwardingStatement),
     (''isDoStatement'', ''STMTdo'', S DoStatement),
     (''isForStatement'', ''STMTfor'', S ForStatement),
     (''isForeachStatement'', ''STMTforeach'', S ForeachStatement),
     (''isSwitchStatement'', ''STMTswitch'', S SwitchStatement),
     (''isContinueStatement'', ''STMTcontinue'', S ContinueStatement),
     (''isWithStatement'', ''STMTwith'', S WithStatement),
     (''isTryCatchStatement'', ''STMTtryCatch'', S TryCatchStatement),
     (''isThrowStatement'', ''STMTthrow'', S ThrowStatement),
     (''isDebugStatement'', ''STMTdebug'', S DebugStatement),
     (''isTryFinallyStatement'', ''STMTtryFinally'', S TryFinallyStatement),
     (''isScopeGuardStatement'', ''STMTscopeGuard'', S ScopeGuardStatement),
     (''isSwitchErrorStatement'', ''STMTswitchError'', S SwitchErrorStatement),
     (''isUnrolledLoopStatement'', ''STMTunrolledLoop'', S UnrolledLoopStatement),
     (''isForeachRangeStatement'', ''STMTforeachRange'', S ForeachRangeStatement),
     (''isCompoundDeclarationStatement'', ''STMTcompoundDeclaration'', S CompoundDeclarationStatement)]"
  by (simp add: statement_casts_def Statement_class_def)

lemma statement_tag_exact:
  "(m, t, d) \<in> set statement_casts \<Longrightarrow> statement_tag c = Some t \<longleftrightarrow> d = S c"
  unfolding statement_casts_list by (cases c; auto)

section \<open>Properties\<close>

text \<open>\<open>dyncast\<close> tells the family of a node.  On every class it returns a constant, and
  it returns that of expressions, statements, types, symbols, conditions, initializers or
  template parameters exactly on the classes that inherit from the root of the family, so
  that the cast that follows such a test is always to a class of the object.\<close>
lemma dyncast_decides_family:
  "(dyncast c = Some DYNCAST_EXPRESSION \<longleftrightarrow> inherits cls_decl c (E Expression)) \<and>
   (dyncast c = Some DYNCAST_STATEMENT \<longleftrightarrow> inherits cls_decl c (S Statement)) \<and>
   (dyncast c = Some DYNCAST_TYPE \<longleftrightarrow> inherits cls_decl c (T Type)) \<and>
   (dyncast c = Some DYNCAST_DSYMBOL \<longleftrightarrow> inherits cls_decl c (D Dsymbol)) \<and>
   (dyncast c = Some DYNCAST_CONDITION \<longleftrightarrow> inherits cls_decl c (N Condition)) \<and>
   (dyncast c = Some DYNCAST_INITIALIZER \<longleftrightarrow> inherits cls_decl c (N Initializer)) \<and>
   (dyncast c = Some DYNCAST_TEMPLATEPARAMETER \<longleftrightarrow> inherits cls_decl c (N TemplateParameter)) \<and>
   (\<exists>x. dyncast c = Some x)"
proof (cases c)
  case (N x)
  have "dyncast c = Some DYNCAST_CONDITION \<longleftrightarrow> inherits cls_decl c (N Condition)"
    "dyncast c = Some DYNCAST_INITIALIZER \<longleftrightarrow> inherits cls_decl c (N Initializer)"
    "dyncast c = Some DYNCAST_TEMPLATEPARAMETER \<longleftrightarrow> inherits cls_decl c (N TemplateParameter)"
    unfolding N by (cases x; simp add: dyncast_eval ast.inherits_iff other_class_defs)+
  with N show ?thesis by (simp only: dyncast_family_iff family_iff) (simp add: dyncast_other)
next
  case (E x)
  then show ?thesis using other_not_below [of c] by (simp add: family_iff dyncast_families)
next
  case (S x)
  then show ?thesis using other_not_below [of c] by (simp add: family_iff dyncast_families)
next
  case (T x)
  then show ?thesis using other_not_below [of c] by (simp add: family_iff dyncast_families)
next
  case (D x)
  then show ?thesis using other_not_below [of c] by (simp add: family_iff dyncast_families)
qed


text \<open>C20: The downcasts of statements are sound and exact.  The method \<open>is...Statement\<close> of
  every statement class returns a non-null pointer exactly on the objects of that very
  class, never on one of another class or of a derived class, so that its cast is always
  to the class of the object.\<close>
theorem statement_downcasts_exact:
  assumes "(m, t, d) \<in> set statement_casts"
  shows "(downcast m c = Some d \<longleftrightarrow> d = S c) \<and> (downcast m c = None \<longleftrightarrow> d \<noteq> S c) \<and>
    (downcast m c = Some d \<longrightarrow> inherits cls_decl (S c) d)"
proof -
  have d: "distinct (map fst statement_casts)"
    by (simp add: statement_casts_list)
  then have "map_of statement_casts m = Some (t, d)" using assms by simp
  then have dc: "downcast m c = (if statement_tag c = Some t then Some d else None)"
    by (simp add: downcast_def)
  with statement_tag_exact [OF assms] show ?thesis using inherits_refl by auto
qed

theorem statement_downcasts_exact_witness:
  "(''isIfStatement'', ''STMTif'', S IfStatement) \<in> set statement_casts \<and>
   downcast ''isIfStatement'' IfStatement = Some (S IfStatement) \<and>
   downcast ''isIfStatement'' ForStatement = None \<and>
   downcast ''isCompoundStatement'' CompoundDeclarationStatement = None"
proof -
  have i: "(''isIfStatement'', ''STMTif'', S IfStatement) \<in> set statement_casts"
    "(''isCompoundStatement'', ''STMTcompound'', S CompoundStatement) \<in> set statement_casts"
    by (simp_all add: statement_casts_list)
  show ?thesis
    using i statement_downcasts_exact [OF i(1), of IfStatement]
      statement_downcasts_exact [OF i(1), of ForStatement]
      statement_downcasts_exact [OF i(2), of CompoundDeclarationStatement] by simp
qed

end
