(* ===== verification/Diagnostics.thy ===== *)
theory Diagnostics
  imports Prelude
begin

text \<open>
  Reporting of errors, warnings and deprecations: the counters of \<open>Global\<close> (globals.h), the
  gating of \<open>ErrorSinkCompiler\<close> (errors.h, errorsink.h, errors.d), and gagging, which hides
  the errors of speculative compilation (\<open>startGagging\<close>, \<open>endGagging\<close>, and the guard
  \<open>Ungag\<close> of dsymbol.h).  Runs of the compiler are trees of reports, in which a region is
  gagged, or made real again inside of a gagged one; the flow through each region is the
  code's, with counters of 32 bits.
\<close>

section \<open>State\<close>

datatype ErrorKind = Kind_warning | Kind_deprecation | Kind_error | Kind_message

datatype Diagnostic = Diag_error | Diag_inform | Diag_off

text \<open>What \<open>emit\<close> is called with: the kind, whether it is supplemental, whether it is gagged.\<close>

datatype emission = Emit ErrorKind bool bool

record error_sink =
  errorLimit :: u32
  useWarnings :: Diagnostic
  useDeprecated :: Diagnostic
  showGaggedErrors :: bool

record diag =
  errors :: u32
  deprecations :: u32
  warnings :: u32
  gag :: u32
  gaggedErrors :: u32
  gaggedDeprecations :: u32
  out :: "emission list"

abbreviation emit :: "ErrorKind \<Rightarrow> bool \<Rightarrow> bool \<Rightarrow> diag \<Rightarrow> diag" where
  "emit k supplemental gagged s \<equiv> s\<lparr>out := out s @ [Emit k supplemental gagged]\<rparr>"

section \<open>Operations\<close>

text \<open>A report returns the new state, or leaves the compiler through \<open>fatal()\<close>: the left
  injection holds the state at that moment.\<close>

definition limit_reached :: "error_sink \<Rightarrow> u32 \<Rightarrow> bool" where
  "limit_reached k n \<longleftrightarrow> errorLimit k \<noteq> 0 \<and> errorLimit k \<le> n"

definition count_error :: "error_sink \<Rightarrow> ErrorKind \<Rightarrow> diag \<Rightarrow> diag + diag" where
  "count_error k kind s =
     (let s = s\<lparr>errors := errors s + 1\<rparr> in
      if gag s = 0 then
        (let s = emit kind False False s in
         if limit_reached k (errors s) then Inl s else Inr s)
      else
        (let s = (if showGaggedErrors k then emit kind False True s else s) in
         Inr (s\<lparr>gaggedErrors := gaggedErrors s + 1\<rparr>)))"

definition verror :: "error_sink \<Rightarrow> diag \<Rightarrow> diag + diag" where
  "verror k s = count_error k Kind_error s"

definition vwarning :: "error_sink \<Rightarrow> diag \<Rightarrow> diag + diag" where
  "vwarning k s =
     (if useWarnings k = Diag_off \<or> gag s \<noteq> 0 then Inr s
      else
        (let s = emit Kind_warning False False s in
         Inr (if useWarnings k = Diag_error then s\<lparr>warnings := warnings s + 1\<rparr> else s)))"

definition vdeprecation :: "error_sink \<Rightarrow> diag \<Rightarrow> diag + diag" where
  "vdeprecation k s =
     (if useDeprecated k = Diag_off then Inr s
      else if useDeprecated k = Diag_error then count_error k Kind_deprecation s
      else if gag s \<noteq> 0 then Inr (s\<lparr>gaggedDeprecations := gaggedDeprecations s + 1\<rparr>)
      else
        (let s = s\<lparr>deprecations := deprecations s + 1\<rparr> in
         Inr (if errorLimit k = 0 \<or> deprecations s \<le> errorLimit k
              then emit Kind_deprecation False False s else s)))"

definition vmessage :: "error_sink \<Rightarrow> diag \<Rightarrow> diag + diag" where
  "vmessage k s = Inr (emit Kind_message False False s)"

definition supplement :: "error_sink \<Rightarrow> ErrorKind \<Rightarrow> diag \<Rightarrow> diag" where
  "supplement k kind s =
     (if gag s \<noteq> 0 then (if showGaggedErrors k then emit kind True True s else s)
      else emit kind True False s)"

definition verrorSupplemental :: "error_sink \<Rightarrow> diag \<Rightarrow> diag + diag" where
  "verrorSupplemental k s = Inr (supplement k Kind_error s)"

definition vwarningSupplemental :: "error_sink \<Rightarrow> diag \<Rightarrow> diag + diag" where
  "vwarningSupplemental k s =
     Inr (if useWarnings k \<noteq> Diag_off \<and> gag s = 0 then emit Kind_warning True False s else s)"

definition vdeprecationSupplemental :: "error_sink \<Rightarrow> diag \<Rightarrow> diag + diag" where
  "vdeprecationSupplemental k s =
     Inr (if useDeprecated k = Diag_error then supplement k Kind_deprecation s
          else if useDeprecated k = Diag_inform \<and> gag s = 0 \<and>
                  (errorLimit k = 0 \<or> deprecations s \<le> errorLimit k)
          then emit Kind_deprecation True False s else s)"

definition startGagging :: "diag \<Rightarrow> u32 \<times> diag" where
  "startGagging s =
     (let s = s\<lparr>gag := gag s + 1, gaggedDeprecations := 0\<rparr> in (gaggedErrors s, s))"

definition endGagging :: "u32 \<Rightarrow> diag \<Rightarrow> bool \<times> diag" where
  "endGagging oldGagged s =
     (let anyErrs = (gaggedErrors s \<noteq> oldGagged);
          s = s\<lparr>gag := gag s - 1\<rparr>;
          s = s\<lparr>errors := errors s - (gaggedErrors s - oldGagged)\<rparr> in
      (anyErrs, s\<lparr>gaggedErrors := oldGagged\<rparr>))"

definition increaseErrorCount :: "diag \<Rightarrow> diag" where
  "increaseErrorCount s =
     (let s = (if gag s \<noteq> 0 then s\<lparr>gaggedErrors := gaggedErrors s + 1\<rparr> else s) in
      s\<lparr>errors := errors s + 1\<rparr>)"

text \<open>\<open>ungagSpeculative\<close> saves the counter, and makes errors real when the symbol is not
  speculative (the flag); the destructor of \<open>Ungag\<close> puts the saved counter back.\<close>

definition ungag_enter :: "bool \<Rightarrow> diag \<Rightarrow> u32 \<times> diag" where
  "ungag_enter real s = (gag s, if gag s \<noteq> 0 \<and> real then s\<lparr>gag := 0\<rparr> else s)"

definition ungag_exit :: "u32 \<Rightarrow> diag \<Rightarrow> diag" where
  "ungag_exit oldgag s = s\<lparr>gag := oldgag\<rparr>"

section \<open>Runs\<close>

datatype activity =
    Error | Warning | Deprecation | Message
  | Error_supplemental | Warning_supplemental | Deprecation_supplemental
  | Increase_count
  | Gagged "activity list"
  | Ungagged bool "activity list"

fun run :: "error_sink \<Rightarrow> activity list \<Rightarrow> diag \<Rightarrow> diag + diag"
  and act :: "error_sink \<Rightarrow> activity \<Rightarrow> diag \<Rightarrow> diag + diag" where
  "run k [] s = Inr s"
| "run k (a # as) s = rbind (act k a s) (run k as)"
| "act k Error s = verror k s"
| "act k Warning s = vwarning k s"
| "act k Deprecation s = vdeprecation k s"
| "act k Message s = vmessage k s"
| "act k Error_supplemental s = verrorSupplemental k s"
| "act k Warning_supplemental s = vwarningSupplemental k s"
| "act k Deprecation_supplemental s = vdeprecationSupplemental k s"
| "act k Increase_count s = Inr (increaseErrorCount s)"
| "act k (Gagged as) s =
     (case startGagging s of (old, s) \<Rightarrow> rbind (run k as s) (\<lambda>s. Inr (snd (endGagging old s))))"
| "act k (Ungagged real as) s =
     (case ungag_enter real s of (old, s) \<Rightarrow> rbind (run k as s) (\<lambda>s. Inr (ungag_exit old s)))"

section \<open>What a run counts\<close>

text \<open>\<open>real_errors\<close> are the errors counted while nothing is gagged, \<open>hidden_errors\<close> those
  counted while gagged, outside of nested gagged regions; \<open>g\<close> tells whether the run starts
  gagged.  \<open>depth\<close> is the nesting of gagged regions.\<close>

definition is_error :: "error_sink \<Rightarrow> activity \<Rightarrow> bool" where
  "is_error k a \<longleftrightarrow> a = Error \<or> a = Increase_count \<or> (a = Deprecation \<and> useDeprecated k = Diag_error)"

fun real_errors :: "error_sink \<Rightarrow> bool \<Rightarrow> activity list \<Rightarrow> nat" where
  "real_errors k g [] = 0"
| "real_errors k g (Gagged bs # as) = real_errors k True bs + real_errors k g as"
| "real_errors k g (Ungagged real bs # as) = real_errors k (g \<and> \<not> real) bs + real_errors k g as"
| "real_errors k g (a # as) = (if is_error k a \<and> \<not> g then 1 else 0) + real_errors k g as"

fun hidden_errors :: "error_sink \<Rightarrow> bool \<Rightarrow> activity list \<Rightarrow> nat" where
  "hidden_errors k g [] = 0"
| "hidden_errors k g (Gagged bs # as) = hidden_errors k g as"
| "hidden_errors k g (Ungagged real bs # as) = hidden_errors k (g \<and> \<not> real) bs + hidden_errors k g as"
| "hidden_errors k g (a # as) = (if is_error k a \<and> g then 1 else 0) + hidden_errors k g as"

fun depth :: "activity list \<Rightarrow> nat" where
  "depth [] = 0"
| "depth (Gagged bs # as) = max (Suc (depth bs)) (depth as)"
| "depth (Ungagged real bs # as) = max (depth bs) (depth as)"
| "depth (a # as) = depth as"

definition gagged :: "diag \<Rightarrow> bool" where "gagged s \<longleftrightarrow> gag s \<noteq> 0"

definition fits :: "diag \<Rightarrow> activity list \<Rightarrow> bool" where
  "fits s as \<longleftrightarrow> unat (gag s) + depth as < 2 ^ 32"

text \<open>The effect of a run on the counters.\<close>

definition effect :: "error_sink \<Rightarrow> activity list \<Rightarrow> diag \<Rightarrow> diag \<Rightarrow> bool" where
  "effect k as s s' \<longleftrightarrow>
     gag s' = gag s \<and>
     gaggedErrors s' = gaggedErrors s + of_nat (hidden_errors k (gagged s) as) \<and>
     errors s' = errors s + of_nat (real_errors k (gagged s) as + hidden_errors k (gagged s) as)"

lemmas report_defs = verror_def vwarning_def vdeprecation_def vmessage_def verrorSupplemental_def
  vwarningSupplemental_def vdeprecationSupplemental_def supplement_def count_error_def
  increaseErrorCount_def Let_def

lemma effect_Nil: "effect k [] s s"
  by (simp add: effect_def)

lemma simple_effect:
  assumes "act k a s = Inr s'" and "\<forall>as. a \<noteq> Gagged as" and "\<forall>r as. a \<noteq> Ungagged r as"
  shows "effect k [a] s s'"
  using assms
  by (cases a) (auto simp: effect_def gagged_def is_error_def report_defs split: if_splits)

lemma effect_Cons:
  assumes "effect k [a] s t" and "effect k as t s'"
  shows "effect k (a # as) s s'"
  using assms by (cases a) (auto simp: effect_def gagged_def)

lemma fits_simple: "fits s (a # as) \<Longrightarrow> fits s as"
  by (cases a) (auto simp: fits_def)

lemma fits_cong: "gag t = gag s \<Longrightarrow> fits t as = fits s as"
  by (simp add: fits_def)

lemma gag_increments:
  assumes "fits s (Gagged bs # as)"
  shows "gag s + 1 \<noteq> 0" and "unat (gag s + 1) = unat (gag s) + 1"
proof -
  have *: "unat (gag s) + 1 < 2 ^ 32" using assms by (simp add: fits_def)
  then show **: "unat (gag s + 1) = unat (gag s) + 1"
    by (simp add: unat_word_ariths)
  then show "gag s + 1 \<noteq> 0" by (metis Suc_eq_plus1 nat.distinct(1) unat_0)
qed

lemma gag_effect:
  assumes "fits s [Gagged bs]" and "startGagging s = (old, s1)"
    and "\<And>s'. run k bs s1 = Inr s' \<Longrightarrow> fits s1 bs \<Longrightarrow> effect k bs s1 s'"
    and "run k bs s1 = Inr s2"
  shows "endGagging old s2 = (of_nat (hidden_errors k True bs) \<noteq> (0 :: u32), snd (endGagging old s2))"
    and "effect k [Gagged bs] s (snd (endGagging old s2))"
proof -
  have "fits s1 bs"
    using assms(1,2) gag_increments[OF assms(1)] by (auto simp: startGagging_def fits_def Let_def)
  from assms(3)[OF assms(4) this] have e: "effect k bs s1 s2" .
  have g: "gagged s1" using gag_increments(1)[OF assms(1)] assms(2)
    by (auto simp: startGagging_def gagged_def Let_def)
  have old: "old = gaggedErrors s1" "errors s1 = errors s" "gag s1 = gag s + 1"
    "gaggedErrors s1 = gaggedErrors s"
    using assms(2) by (auto simp: startGagging_def Let_def)
  show "endGagging old s2 = (of_nat (hidden_errors k True bs) \<noteq> (0 :: u32), snd (endGagging old s2))"
    using e g old by (simp add: endGagging_def effect_def Let_def)
  show "effect k [Gagged bs] s (snd (endGagging old s2))"
    using e g old by (simp add: endGagging_def effect_def Let_def algebra_simps)
qed

lemma run_effect:
  "run k as s = Inr s' \<Longrightarrow> fits s as \<Longrightarrow> effect k as s s'"
  "act k a s = Inr s' \<Longrightarrow> fits s [a] \<Longrightarrow> effect k [a] s s'"
proof (induction k as s and k a s arbitrary: s' and s' rule: run_act.induct)
  case (1 k s)
  then show ?case by (simp add: effect_Nil)
next
  case (2 k a as s)
  then obtain t where t: "act k a s = Inr t" "run k as t = Inr s'"
    by (auto simp: rbind_Inr_iff)
  have "fits s [a]" using "2.prems"(2) by (cases a) (auto simp: fits_def)
  with 2 t have a: "effect k [a] s t" by blast
  then have "fits t as" using fits_simple[OF "2.prems"(2)] by (simp add: effect_def fits_def)
  with 2 t have "effect k as t s'" by blast
  with a show ?case by (rule effect_Cons)
next
  case (11 k as s)
  obtain old s1 where s1: "startGagging s = (old, s1)" by fastforce
  with "11.prems" obtain s2 where s2: "run k as s1 = Inr s2" "s' = snd (endGagging old s2)"
    by (auto simp: rbind_Inr_iff)
  show ?case unfolding s2(2)
    by (rule gag_effect(2)[OF "11.prems"(2) s1 _ s2(1)]) (use "11.IH" s1 in auto)
next
  case (12 k real as s)
  obtain old s1 where s1: "ungag_enter real s = (old, s1)" by fastforce
  with "12.prems" obtain s2 where s2: "run k as s1 = Inr s2" "s' = ungag_exit old s2"
    by (auto simp: rbind_Inr_iff)
  have f: "fits s1 as" and o: "old = gag s" and g: "gagged s1 = (gagged s \<and> \<not> real)"
    and c: "errors s1 = errors s" "gaggedErrors s1 = gaggedErrors s"
    using s1 "12.prems"(2) by (auto simp: ungag_enter_def fits_def gagged_def split: if_splits)
  from "12.IH"[OF s1[symmetric] s2(1) f] have "effect k as s1 s2" .
  with o g c show ?case by (simp add: effect_def s2(2) ungag_exit_def)
qed (auto intro: simple_effect)

section \<open>Silence of a speculative region\<close>

fun messages :: "activity list \<Rightarrow> nat" where
  "messages [] = 0"
| "messages (Gagged bs # as) = messages bs + messages as"
| "messages (Ungagged real bs # as) = messages bs + messages as"
| "messages (a # as) = (if a = Message then 1 else 0) + messages as"

fun speculative :: "activity list \<Rightarrow> bool" where
  "speculative [] = True"
| "speculative (Gagged bs # as) = (speculative bs \<and> speculative as)"
| "speculative (Ungagged real bs # as) = (\<not> real \<and> speculative bs \<and> speculative as)"
| "speculative (a # as) = speculative as"

definition quiet :: "activity list \<Rightarrow> diag \<Rightarrow> diag \<Rightarrow> bool" where
  "quiet as s s' \<longleftrightarrow> out s' = out s @ replicate (messages as) (Emit Kind_message False False) \<and>
     warnings s' = warnings s \<and> deprecations s' = deprecations s \<and> gag s' = gag s"

lemma quiet_Cons: "quiet [a] s t \<Longrightarrow> quiet as t s' \<Longrightarrow> quiet (a # as) s s'"
  by (cases a) (auto simp: quiet_def replicate_add)

lemma run_quiet:
  assumes "\<not> showGaggedErrors k"
  shows "gagged s \<Longrightarrow> fits s as \<Longrightarrow> speculative as \<Longrightarrow> \<exists>s'. run k as s = Inr s' \<and> quiet as s s'"
    and "gagged s \<Longrightarrow> fits s [a] \<Longrightarrow> speculative [a] \<Longrightarrow> \<exists>s'. act k a s = Inr s' \<and> quiet [a] s s'"
  using assms
proof (induction k as s and k a s rule: run_act.induct)
  case (1 k s)
  then show ?case by (simp add: quiet_def)
next
  case (2 k a as s)
  have "fits s [a]" "speculative [a]" "speculative as"
    using "2.prems" by (cases a; auto simp: fits_def)+
  with 2 obtain t where t: "act k a s = Inr t" "quiet [a] s t" by blast
  with "2.prems" fits_simple[of s a as] have "gagged t" "fits t as"
    by (auto simp: quiet_def gagged_def fits_def)
  with "2.IH"(2) \<open>speculative as\<close> "2.prems"(4) obtain s' where
    "run k as t = Inr s'" "quiet as t s'" by blast
  with t show ?case by (auto intro: quiet_Cons)
next
  case (11 k as s)
  obtain old s1 where s1: "startGagging s = (old, s1)" by fastforce
  have "gagged s1" "fits s1 as" "speculative as" "out s1 = out s" "warnings s1 = warnings s"
    "deprecations s1 = deprecations s" "gag s1 = gag s + 1"
    using s1 gag_increments[OF "11.prems"(2)] "11.prems"(2,3)
    by (auto simp: startGagging_def gagged_def fits_def Let_def)
  with "11.IH"[OF s1[symmetric] _ _ _ "11.prems"(4)] obtain s2 where
    "run k as s1 = Inr s2" "quiet as s1 s2" by blast
  with s1 \<open>out s1 = _\<close> \<open>warnings s1 = _\<close> \<open>deprecations s1 = _\<close> \<open>gag s1 = _\<close> show ?case
    by (auto simp: quiet_def endGagging_def Let_def)
next
  case (12 k real as s)
  have r: "ungag_enter real s = (gag s, s)" and p: "fits s as" "speculative as"
    using "12.prems"(2,3) by (auto simp: ungag_enter_def fits_def)
  from "12.IH"[OF r[symmetric] "12.prems"(1) p "12.prems"(4)] obtain s2 where
    "run k as s = Inr s2" "quiet as s s2" by blast
  with r show ?case by (auto simp: quiet_def ungag_exit_def)
qed (auto simp: quiet_def gagged_def report_defs)

section \<open>Properties\<close>


definition fresh_diag :: diag where
  "fresh_diag = \<lparr>errors = 0, deprecations = 0, warnings = 0, gag = 0, gaggedErrors = 0,
     gaggedDeprecations = 0, out = []\<rparr>"

definition default_sink :: error_sink where
  "default_sink = \<lparr>errorLimit = 20, useWarnings = Diag_off, useDeprecated = Diag_inform,
     showGaggedErrors = False\<rparr>"

lemmas diag_eval = fresh_diag_def default_sink_def startGagging_def endGagging_def ungag_enter_def
  ungag_exit_def limit_reached_def report_defs


text \<open>C25: A speculative region is silent.  When nothing is made real inside, a gagged
  region never leaves the compiler and emits nothing but messages, it counts no warning and
  no deprecation, and afterwards \<open>errors\<close> is what it was.\<close>
theorem speculation_is_silent:
  assumes "unat (gag s) + 1 + depth as < 2 ^ 32" and "speculative as" and "\<not> showGaggedErrors k"
  shows "\<exists>s'. act k (Gagged as) s = Inr s' \<and>
     out s' = out s @ replicate (messages as) (Emit Kind_message False False) \<and>
     warnings s' = warnings s \<and> deprecations s' = deprecations s \<and> errors s' = errors s"
proof -
  have f: "fits s [Gagged as]" using assms(1) by (simp add: fits_def)
  obtain old s1 where s1: "startGagging s = (old, s1)" by fastforce
  have "gagged s1" "fits s1 as" using s1 gag_increments[OF f] f
    by (auto simp: startGagging_def gagged_def fits_def Let_def)
  from run_quiet(1)[OF assms(3) this assms(2)] obtain s2 where
    r: "run k as s1 = Inr s2" "quiet as s1 s2" by blast
  let ?s' = "snd (endGagging old s2)"
  have a: "act k (Gagged as) s = Inr ?s'" using s1 r by simp
  have "real_errors k True as = 0" using assms(2)
    by (induction k True as rule: real_errors.induct) auto
  with run_effect(2)[OF a f] have "errors ?s' = errors s" by (simp add: effect_def)
  with a r s1 show ?thesis by (auto simp: quiet_def endGagging_def startGagging_def Let_def)
qed

theorem speculation_is_silent_witness:
  "\<exists>s'. act default_sink (Gagged [Error, Message, Warning]) fresh_diag = Inr s' \<and>
     out s' = [Emit Kind_message False False] \<and> errors s' = 0"
  using speculation_is_silent [of fresh_diag "[Error, Message, Warning]" default_sink]
  by (auto simp: fresh_diag_def default_sink_def simp del: act.simps run.simps)

text \<open>C26: The error limit counts hidden errors.  When a gagged region has hidden all but
  one of the errors of the limit, the first real error reported inside of it ends the
  compilation, although it is the only one that was ever emitted.\<close>
theorem error_limit_counts_hidden:
  assumes "errorLimit k = of_nat n + 1" and "n < 2 ^ 32 - 1" and "\<not> showGaggedErrors k"
    and "gag s = 0" and "errors s = 0"
  shows "\<exists>s'. act k (Gagged (replicate n Error @ [Ungagged True [Error]])) s = Inl s' \<and>
     out s' = out s @ [Emit Kind_error False False]"
proof -
  have step: "run k (replicate m Error @ as) t =
      run k as (t\<lparr>errors := errors t + of_nat m, gaggedErrors := gaggedErrors t + of_nat m\<rparr>)"
    if "gag t \<noteq> 0" for m as t
    using that assms(3)
    by (induction m arbitrary: t) (simp_all add: report_defs algebra_simps)
  have "\<not> 2 ^ 32 dvd Suc n" using assms(2) by (auto dest: dvd_imp_le)
  then have "(of_nat (Suc n) :: u32) \<noteq> 0" by (simp only: word_of_nat_eq_0_iff) simp
  then have "(of_nat n :: u32) + 1 \<noteq> 0" by (simp add: add.commute)
  with assms show ?thesis
    by (simp add: step startGagging_def ungag_enter_def limit_reached_def report_defs)
qed

theorem error_limit_counts_hidden_witness:
  "\<exists>s'. act default_sink (Gagged (replicate 19 Error @ [Ungagged True [Error]])) fresh_diag = Inl s' \<and>
     out s' = [Emit Kind_error False False]"
  using error_limit_counts_hidden [of default_sink 19 fresh_diag]
  by (simp add: fresh_diag_def default_sink_def del: replicate.simps)

end
