(* ===== verification/Aa_Table.thy ===== *)
theory Aa_Table
  imports Prelude
begin

text \<open>
  The associative array of the compiler (struct \<open>AA\<close>, declared in scope.h and dsymbol.h and
  implemented in root/aav.d): a hash table with open addressing whose keys are pointers.
  An array of one entry is kept in place, a larger one in a table whose length is a power
  of four, searched by steps of 1, 2, 3 and so on.  The loops over the table have no bound
  in the code; they are modelled as partial functions, and that they end is proved.
\<close>

section \<open>State\<close>

definition KEY_EMPTY :: u64 where "KEY_EMPTY = - 1"

type_synonym 'v key_value = "u64 \<times> 'v"

datatype 'v aa_storage = Binit "'v key_value" | Buckets "'v key_value list"

record 'v aa =
  nodes :: u64
  storage :: "'v aa_storage"

text \<open>Where a returned pointer to a value points.\<close>

datatype value_ref = Ref_binit | Ref_bucket u64

section \<open>Operations\<close>

text \<open>A computation that may not end, may fail, or returns.\<close>

definition obind :: "(fault + 'a) option \<Rightarrow> ('a \<Rightarrow> (fault + 'b) option) \<Rightarrow> (fault + 'b) option" where
  "obind m f = (case m of None \<Rightarrow> None | Some (Inl e) \<Rightarrow> Some (Inl e) | Some (Inr a) \<Rightarrow> f a)"

definition oguard :: "fault \<Rightarrow> bool \<Rightarrow> (fault + unit) option" where
  "oguard e b = Some (guard e b)"

unbundle bit_operations_syntax

definition aa_hash :: "u64 \<Rightarrow> u64" where
  "aa_hash a = (let a = a XOR (drop_bit 20 a XOR drop_bit 12 a) in a XOR drop_bit 7 a XOR drop_bit 4 a)"

text \<open>The search for a key: the flag tells whether the key was found at the index returned,
  or that the index is that of an empty entry.\<close>

partial_function (option) aa_probe ::
  "'v key_value list \<Rightarrow> u64 \<Rightarrow> u64 \<Rightarrow> u64 \<Rightarrow> u64 \<Rightarrow> (fault + (bool \<times> u64)) option" where
  [code]: "aa_probe b msk key i j =
     (if unat i < length b then
        (let bkey = fst (b ! unat i) in
         if key = bkey then Some (Inr (True, i))
         else if bkey = KEY_EMPTY then Some (Inr (False, i))
         else aa_probe b msk key ((i + j) AND msk) (j + 1))
      else Some (Inl Out_Of_Bounds))"

partial_function (option) aa_probe_empty ::
  "'v key_value list \<Rightarrow> u64 \<Rightarrow> u64 \<Rightarrow> u64 \<Rightarrow> (fault + u64) option" where
  [code]: "aa_probe_empty b msk i j =
     (if unat i < length b then
        (if fst (b ! unat i) = KEY_EMPTY then Some (Inr i)
         else aa_probe_empty b msk ((i + j) AND msk) (j + 1))
      else Some (Inl Out_Of_Bounds))"

primrec aa_move_all ::
  "'v key_value list \<Rightarrow> u64 \<Rightarrow> 'v key_value list \<Rightarrow> (fault + 'v key_value list) option" where
  "aa_move_all [] msk newb = Some (Inr newb)"
| "aa_move_all (kv # b) msk newb =
     (if fst kv \<noteq> KEY_EMPTY then
        obind (aa_probe_empty newb msk (aa_hash (fst kv) AND msk) 1) (\<lambda>i.
          aa_move_all b msk (newb[unat i := kv]))
      else aa_move_all b msk newb)"

definition dmd_aaRehash :: "'v \<Rightarrow> 'v key_value list \<Rightarrow> (fault + 'v key_value list) option" where
  "dmd_aaRehash null b =
     (let len = length b * 4; newb = replicate len (KEY_EMPTY, null); msk = of_nat len - 1 in
      aa_move_all b msk newb)"

definition dmd_aaLen :: "'v aa option \<Rightarrow> u64" where
  "dmd_aaLen aa = (case aa of None \<Rightarrow> 0 | Some a \<Rightarrow> nodes a)"

definition aa_grown :: "'v \<Rightarrow> u64 \<Rightarrow> 'v aa \<Rightarrow> (fault + 'v key_value list) option" where
  "aa_grown null key a =
     (case storage a of
        Binit kv \<Rightarrow> if nodes a = 1 then dmd_aaRehash null [kv] else Some (Inl Wrong_Member)
      | Buckets b \<Rightarrow>
          if nodes a = 1 then Some (Inl Wrong_Member)
          else if of_nat (length b) < nodes a * 2 then dmd_aaRehash null b else Some (Inr b))"

definition dmd_aaGet :: "'v \<Rightarrow> 'v aa option \<Rightarrow> u64 \<Rightarrow> (fault + (value_ref \<times> 'v aa)) option" where
  "dmd_aaGet null paa key =
     obind (oguard Assertion (key \<noteq> KEY_EMPTY)) (\<lambda>_.
     case paa of
       None \<Rightarrow> Some (Inr (Ref_binit, \<lparr>nodes = 1, storage = Binit (key, null)\<rparr>))
     | Some a \<Rightarrow>
         obind (oguard Assertion (nodes a \<noteq> 0)) (\<lambda>_.
         if nodes a = 1 \<and> (case storage a of Binit kv \<Rightarrow> key = fst kv | Buckets b \<Rightarrow> False)
         then Some (Inr (Ref_binit, a))
         else
           obind (aa_grown null key a) (\<lambda>b.
           let msk = of_nat (length b) - 1 in
           obind (aa_probe b msk key (aa_hash key AND msk) 1) (\<lambda>(found, i).
           if found then Some (Inr (Ref_bucket i, a\<lparr>storage := Buckets b\<rparr>))
           else Some (Inr (Ref_bucket i,
                  \<lparr>nodes = nodes a + 1, storage = Buckets (b[unat i := (key, snd (b ! unat i))])\<rparr>))))))"

definition dmd_aaGetRvalue :: "'v \<Rightarrow> 'v aa option \<Rightarrow> u64 \<Rightarrow> (fault + 'v) option" where
  "dmd_aaGetRvalue null aa key =
     obind (oguard Assertion (key \<noteq> KEY_EMPTY)) (\<lambda>_.
     case aa of
       None \<Rightarrow> Some (Inr null)
     | Some a \<Rightarrow>
         (case storage a of
            Binit kv \<Rightarrow>
              if nodes a = 1 then Some (Inr (if key = fst kv then snd kv else null))
              else Some (Inl Wrong_Member)
          | Buckets b \<Rightarrow>
              if nodes a = 1 then Some (Inl Wrong_Member)
              else
                (let msk = of_nat (length b) - 1 in
                 obind (aa_probe b msk key (aa_hash key AND msk) 1) (\<lambda>(found, i).
                   Some (Inr (if found then snd (b ! unat i) else null))))))"

text \<open>Writing through the pointer that \<open>dmd_aaGet\<close> returned.\<close>

definition aa_store :: "value_ref \<Rightarrow> 'v \<Rightarrow> 'v aa \<Rightarrow> 'v aa" where
  "aa_store r v a =
     (case (r, storage a) of
        (Ref_binit, Binit kv) \<Rightarrow> a\<lparr>storage := Binit (fst kv, v)\<rparr>
      | (Ref_bucket i, Buckets b) \<Rightarrow> a\<lparr>storage := Buckets (b[unat i := (fst (b ! unat i), v)])\<rparr>
      | _ \<Rightarrow> a)"

text \<open>Iteration: \<open>asRange\<close> skips the empty entries, before the first and after every step.\<close>

definition aa_buckets :: "'v aa option \<Rightarrow> 'v key_value list" where
  "aa_buckets aa = (case aa of None \<Rightarrow> [] | Some a \<Rightarrow>
     (case storage a of Binit kv \<Rightarrow> [kv] | Buckets b \<Rightarrow> b))"

fun range_next :: "'v key_value list \<Rightarrow> nat \<Rightarrow> nat" where
  "range_next [] n = n"
| "range_next (kv # b) n = (if fst kv = KEY_EMPTY then range_next b (Suc n) else n)"

lemma range_next_le: "n \<le> range_next b n"
  by (induction b n rule: range_next.induct) auto

function range_from :: "'v key_value list \<Rightarrow> nat \<Rightarrow> 'v key_value list" where
  "range_from b n =
     (let n = range_next (drop n b) n in
      if length b \<le> n then [] else b ! n # range_from b (Suc n))"
  by pat_completeness auto

termination
proof (relation "measure (\<lambda>(b, n). length b - n)", goal_cases)
  case (2 b n x)
  then show ?case using range_next_le[of n "drop n b"] by simp
qed simp

declare range_from.simps [simp del]

definition asRange :: "'v aa option \<Rightarrow> 'v key_value list" where
  "asRange aa = range_from (aa_buckets aa) 0"

section \<open>The probe sequence\<close>

text \<open>The steps 1, 2, 3, ... visit the triangular numbers, which cover every residue of a
  power of two.\<close>

definition tri :: "nat \<Rightarrow> nat" where "tri n = n * (n + 1) div 2"

lemma tri_0 [simp]: "tri 0 = 0"
  by (simp add: tri_def)

lemma tri_Suc: "tri (Suc n) = tri n + Suc n"
proof -
  have "Suc n * (Suc n + 1) = n * (n + 1) + 2 * Suc n" by simp
  then show ?thesis by (simp add: tri_def)
qed

lemma two_tri: "2 * tri n = n * (n + 1)"
  by (induction n) (simp_all add: tri_Suc)

lemma power_dvd_odd_mult:
  assumes "2 ^ n dvd a * (b :: nat)" and "odd a"
  shows "2 ^ n dvd b"
proof -
  have "coprime (2 ^ n) a" using assms(2) by simp
  with assms(1) show ?thesis by (simp add: coprime_dvd_mult_right_iff)
qed

lemma tri_mono: "a \<le> b \<Longrightarrow> tri a \<le> tri b"
  unfolding tri_def by (intro div_le_mono mult_le_mono) auto

lemma tri_not_dvd:
  assumes "a < b" and "b < 2 ^ m"
  shows "\<not> 2 ^ m dvd tri b - tri a"
proof
  assume "2 ^ m dvd tri b - tri a"
  then have d: "2 ^ Suc m dvd 2 * tri b - 2 * tri a"
    by (metis diff_mult_distrib2 nat_mult_dvd_cancel_disj power_Suc)
  have "2 * tri b - 2 * tri a = (b - a) * (a + b + 1)"
  proof -
    obtain c where "b = a + c" using assms(1) less_imp_add_positive by blast
    then show ?thesis unfolding two_tri by (simp add: algebra_simps)
  qed
  with d have d: "2 ^ Suc m dvd (b - a) * (a + b + 1)" by simp
  have small: "b - a < 2 ^ Suc m" "a + b + 1 < 2 ^ Suc m" "b - a > 0" "a + b + 1 > 0"
    using assms by auto
  show False
  proof (cases "odd (b - a)")
    case True
    with power_dvd_odd_mult[OF d] small show False by (auto dest!: dvd_imp_le)
  next
    case False
    then have "odd (a + b + 1)" using assms(1) by (auto simp: even_diff_nat)
    with power_dvd_odd_mult[of "Suc m" "a + b + 1" "b - a"] d small show False
      by (auto simp: mult.commute dest!: dvd_imp_le)
  qed
qed

definition pos :: "nat \<Rightarrow> nat \<Rightarrow> nat \<Rightarrow> nat" where
  "pos m h j = (h + tri j) mod 2 ^ m"

lemma pos_distinct: "a < b \<Longrightarrow> b < 2 ^ m \<Longrightarrow> pos m h a \<noteq> pos m h b"
  using mod_eq_dvd_iff_nat[of "h + tri a" "h + tri b" "2 ^ m"] tri_not_dvd[of a b m] tri_mono[of a b]
  by (auto simp: pos_def)

lemma pos_inj: "inj_on (pos m h) {..<2 ^ m}"
  by (rule linorder_inj_onI) (auto simp: pos_distinct)

lemma pos_covers: "i < 2 ^ m \<Longrightarrow> \<exists>j < 2 ^ m. pos m h j = i"
proof -
  assume "i < 2 ^ m"
  have "pos m h ` {..<2 ^ m} = {..<2 ^ m}"
    by (rule endo_inj_surj) (auto simp: pos_inj, auto simp: pos_def)
  then show ?thesis using \<open>i < 2 ^ m\<close> by (metis imageE lessThan_iff)
qed

lemma pos_less: "pos m h j < 2 ^ m"
  by (simp add: pos_def)

lemma pos_Suc: "(pos m h j + Suc j) mod 2 ^ m = pos m h (Suc j)"
  unfolding pos_def tri_Suc by (metis add.assoc mod_add_left_eq)

section \<open>Probing a table\<close>

text \<open>A table of length \<open>2 ^ m\<close> with an empty entry; indices stay far below the width.\<close>

definition table_size :: "nat \<Rightarrow> 'v key_value list \<Rightarrow> bool" where
  "table_size m b \<longleftrightarrow> length b = 2 ^ m \<and> m < 62"

abbreviation msk_of :: "'v key_value list \<Rightarrow> u64" where
  "msk_of b \<equiv> of_nat (length b) - 1"

abbreviation home :: "nat \<Rightarrow> u64 \<Rightarrow> nat" where
  "home m key \<equiv> unat (aa_hash key) mod 2 ^ m"

abbreviation key_at :: "'v key_value list \<Rightarrow> nat \<Rightarrow> u64" where
  "key_at b p \<equiv> fst (b ! p)"

lemma msk_of_mask: "table_size m b \<Longrightarrow> msk_of b = mask m"
  by (simp add: table_size_def mask_eq_exp_minus_1)

lemma unat_and_msk: "table_size m b \<Longrightarrow> unat (w AND msk_of b) = unat w mod 2 ^ m"
  by (simp only: msk_of_mask take_bit_eq_mask[symmetric] unsigned_take_bit_eq) (simp add: take_bit_eq_mod)

lemma step_unat:
  assumes "table_size m b" and "unat i < 2 ^ m" and "j \<le> 2 ^ m"
  shows "unat ((i + of_nat j) AND msk_of b) = (unat i + j) mod 2 ^ m"
proof -
  have "(2::nat) ^ m \<le> 2 ^ 61" using assms(1)
    by (intro power_increasing) (auto simp: table_size_def)
  then have "unat i + j < 2 ^ 64" "j < 2 ^ 64" using assms(2,3) by auto
  then have "unat (i + of_nat j) = unat i + j"
    by (simp add: unat_word_ariths unat_of_nat)
  then show ?thesis by (simp add: unat_and_msk[OF assms(1)])
qed

text \<open>The first entry on the sequence from \<open>h\<close> that satisfies \<open>P\<close>, if there is one at all, is
  reached after fewer steps than the table is long.\<close>

definition first_hit :: "nat \<Rightarrow> nat \<Rightarrow> (nat \<Rightarrow> bool) \<Rightarrow> nat \<Rightarrow> bool" where
  "first_hit m h P j \<longleftrightarrow> j < 2 ^ m \<and> P (pos m h j) \<and> (\<forall>l < j. \<not> P (pos m h l))"

lemma first_hit_exists:
  assumes "p < 2 ^ m" and "P p"
  obtains j where "first_hit m h P j"
proof -
  from pos_covers[OF assms(1)] obtain j where j: "j < 2 ^ m" "pos m h j = p" by blast
  then have "\<exists>L. P (pos m h L) \<and> (\<forall>l < L. \<not> P (pos m h l))"
    using assms(2) exists_least_iff[of "\<lambda>l. P (pos m h l)"] by blast
  then obtain L where L: "P (pos m h L)" "\<forall>l < L. \<not> P (pos m h l)" by blast
  then have "L \<le> j" using j assms(2) by (metis not_less)
  with L j(1) show thesis by (intro that[of L]) (simp add: first_hit_def)
qed

lemma probe_from:
  assumes "table_size m b" and "key \<noteq> KEY_EMPTY"
    and "first_hit m h (\<lambda>p. key_at b p = key \<or> key_at b p = KEY_EMPTY) (l + n)"
    and "unat i = pos m h l"
  shows "\<exists>i'. aa_probe b (msk_of b) key i (of_nat (Suc l)) =
           Some (Inr (key_at b (pos m h (l + n)) = key, i')) \<and> unat i' = pos m h (l + n)"
  using assms(3,4)
proof (induction n arbitrary: l i)
  case 0
  have "unat i < length b" using assms(1) 0(2) pos_less by (simp add: table_size_def)
  with 0 show ?case by (subst aa_probe.simps) (auto simp: first_hit_def Let_def)
next
  case (Suc n)
  have l: "l < 2 ^ m" using Suc.prems(1) by (simp add: first_hit_def)
  have miss: "key_at b (unat i) \<noteq> key" "key_at b (unat i) \<noteq> KEY_EMPTY"
    using Suc.prems by (auto simp: first_hit_def)
  have len: "unat i < length b" using assms(1) Suc.prems(2) pos_less by (simp add: table_size_def)
  let ?i = "(i + of_nat (Suc l)) AND msk_of b"
  have "unat ?i = pos m h (Suc l)"
    using step_unat[OF assms(1), of i "Suc l"] Suc.prems(2) l pos_less pos_Suc[of m h l] by simp
  moreover have "first_hit m h (\<lambda>p. key_at b p = key \<or> key_at b p = KEY_EMPTY) (Suc l + n)"
    using Suc.prems(1) by simp
  ultimately have ih: "\<exists>i'. aa_probe b (msk_of b) key ?i (of_nat (Suc (Suc l))) =
      Some (Inr (key_at b (pos m h (Suc l + n)) = key, i')) \<and> unat i' = pos m h (Suc l + n)"
    by (intro Suc.IH) auto
  have "aa_probe b (msk_of b) key i (of_nat (Suc l)) =
      aa_probe b (msk_of b) key ?i (of_nat (Suc (Suc l)))"
    by (subst aa_probe.simps) (use miss len in \<open>auto simp: Let_def algebra_simps\<close>)
  with ih show ?case by simp
qed

lemma probe_empty_from:
  assumes "table_size m b"
    and "first_hit m h (\<lambda>p. key_at b p = KEY_EMPTY) (l + n)"
    and "unat i = pos m h l"
  shows "\<exists>i'. aa_probe_empty b (msk_of b) i (of_nat (Suc l)) = Some (Inr i') \<and>
           unat i' = pos m h (l + n)"
  using assms(2,3)
proof (induction n arbitrary: l i)
  case 0
  have "unat i < length b" using assms(1) 0(2) pos_less by (simp add: table_size_def)
  with 0 show ?case by (subst aa_probe_empty.simps) (auto simp: first_hit_def)
next
  case (Suc n)
  have l: "l < 2 ^ m" using Suc.prems(1) by (simp add: first_hit_def)
  have miss: "key_at b (unat i) \<noteq> KEY_EMPTY"
    using Suc.prems by (auto simp: first_hit_def)
  have len: "unat i < length b" using assms(1) Suc.prems(2) pos_less by (simp add: table_size_def)
  let ?i = "(i + of_nat (Suc l)) AND msk_of b"
  have "unat ?i = pos m h (Suc l)"
    using step_unat[OF assms(1), of i "Suc l"] Suc.prems(2) l pos_less pos_Suc[of m h l] by simp
  with Suc.IH[of "Suc l" ?i] Suc.prems(1) have ih:
    "\<exists>i'. aa_probe_empty b (msk_of b) ?i (of_nat (Suc (Suc l))) = Some (Inr i') \<and>
       unat i' = pos m h (Suc l + n)" by simp
  have "aa_probe_empty b (msk_of b) i (of_nat (Suc l)) =
      aa_probe_empty b (msk_of b) ?i (of_nat (Suc (Suc l)))"
    by (subst aa_probe_empty.simps) (use miss len in \<open>auto simp: algebra_simps\<close>)
  with ih show ?case by simp
qed

section \<open>Invariant and contents of a table\<close>

text \<open>A key can be put at a position of its sequence that no empty entry comes before.\<close>

definition reachable :: "nat \<Rightarrow> 'v key_value list \<Rightarrow> u64 \<Rightarrow> nat \<Rightarrow> bool" where
  "reachable m b key p \<longleftrightarrow>
     (\<exists>j < 2 ^ m. pos m (home m key) j = p \<and> (\<forall>l < j. key_at b (pos m (home m key) l) \<noteq> KEY_EMPTY))"

definition table_inv :: "nat \<Rightarrow> 'v key_value list \<Rightarrow> bool" where
  "table_inv m b \<longleftrightarrow> table_size m b \<and>
     (\<forall>p < 2 ^ m. key_at b p \<noteq> KEY_EMPTY \<longrightarrow> reachable m b (key_at b p) p) \<and>
     (\<forall>p < 2 ^ m. \<forall>q < 2 ^ m. key_at b p = key_at b q \<and> key_at b p \<noteq> KEY_EMPTY \<longrightarrow> p = q)"

definition table_map :: "'v key_value list \<Rightarrow> u64 \<Rightarrow> 'v option" where
  "table_map b key = (if key = KEY_EMPTY then None else map_of b key)"

definition filled :: "'v key_value list \<Rightarrow> nat" where
  "filled b = length (filter (\<lambda>kv. fst kv \<noteq> KEY_EMPTY) b)"

lemma table_map_Some:
  assumes "table_inv m b"
  shows "table_map b key = Some v \<longleftrightarrow> key \<noteq> KEY_EMPTY \<and> (\<exists>p < 2 ^ m. b ! p = (key, v))"
proof -
  have len: "length b = 2 ^ m" using assms by (simp add: table_inv_def table_size_def)
  have "map_of b key = Some v" if "key \<noteq> KEY_EMPTY" "p < 2 ^ m" "b ! p = (key, v)" for p
  proof -
    from that len have "(key, v) \<in> set b" by (metis nth_mem)
    then obtain w where w: "map_of b key = Some w" by (meson weak_map_of_SomeI)
    then obtain q where "q < 2 ^ m" "b ! q = (key, w)"
      using len by (metis in_set_conv_nth map_of_SomeD)
    then show ?thesis using assms that w by (metis table_inv_def fst_conv snd_conv)
  qed
  moreover have "\<exists>p < 2 ^ m. b ! p = (key, v)" if "map_of b key = Some v"
    using that len by (metis in_set_conv_nth map_of_SomeD)
  ultimately show ?thesis by (auto simp: table_map_def)
qed

lemma table_map_None:
  assumes "table_inv m b" and "key \<noteq> KEY_EMPTY"
  shows "table_map b key = None \<longleftrightarrow> (\<forall>p < 2 ^ m. key_at b p \<noteq> key)"
  using table_map_Some[OF assms(1), of key] assms(2)
  by (metis not_Some_eq prod.collapse fst_conv)

lemma filled_le: "filled b \<le> length b"
  by (simp add: filled_def)

lemma has_empty:
  assumes "filled b < length b"
  shows "\<exists>p < length b. key_at b p = KEY_EMPTY"
proof (rule ccontr)
  assume "\<not> ?thesis"
  then have "\<forall>kv \<in> set b. fst kv \<noteq> KEY_EMPTY" by (metis in_set_conv_nth)
  then have "filter (\<lambda>kv. fst kv \<noteq> KEY_EMPTY) b = b" by (simp add: filter_id_conv)
  with assms show False by (simp add: filled_def)
qed

lemma filled_update:
  assumes "p < length b" and "fst kv \<noteq> KEY_EMPTY"
  shows "filled (b[p := kv]) = (if key_at b p = KEY_EMPTY then Suc (filled b) else filled b)"
proof -
  have "b = take p b @ b ! p # drop (Suc p) b" using assms(1) by (simp add: id_take_nth_drop)
  then have "filled b = filled (take p b @ b ! p # drop (Suc p) b)" by simp
  moreover have "b[p := kv] = take p b @ kv # drop (Suc p) b" using assms(1)
    by (simp add: upd_conv_take_nth_drop)
  ultimately show ?thesis using assms(2) by (simp add: filled_def)
qed

text \<open>The search finds a key that is in the table, and otherwise an empty entry that is
  reachable for it.\<close>

lemma aa_probe_result:
  assumes "table_inv m b" and "filled b < length b" and "key \<noteq> KEY_EMPTY"
  obtains i where "aa_probe b (msk_of b) key (aa_hash key AND msk_of b) 1 =
      Some (Inr (table_map b key \<noteq> None, i))"
    and "unat i < 2 ^ m" and "reachable m b key (unat i)"
    and "key_at b (unat i) = (if table_map b key \<noteq> None then key else KEY_EMPTY)"
proof -
  let ?P = "\<lambda>p. key_at b p = key \<or> key_at b p = KEY_EMPTY"
  have size: "table_size m b" and len: "length b = 2 ^ m"
    using assms(1) by (simp_all add: table_inv_def table_size_def)
  obtain p where "p < 2 ^ m" "?P p" using has_empty[OF assms(2)] len by auto
  then obtain j where j: "first_hit m (home m key) ?P j" by (rule first_hit_exists)
  have "unat (aa_hash key AND msk_of b) = pos m (home m key) 0"
    by (simp add: unat_and_msk[OF size] pos_def)
  from probe_from[OF size assms(3), of "home m key" 0 j, OF _ this] j obtain i where
    i: "aa_probe b (msk_of b) key (aa_hash key AND msk_of b) 1 =
      Some (Inr (key_at b (pos m (home m key) j) = key, i))" "unat i = pos m (home m key) j"
    by auto
  have absent: "table_map b key = None" if "key_at b (pos m (home m key) j) \<noteq> key"
  proof (rule ccontr)
    assume "table_map b key \<noteq> None"
    then obtain q where "q < 2 ^ m" "key_at b q = key"
      using table_map_None[OF assms(1,3)] by auto
    then obtain l where l: "pos m (home m key) l = q"
      "\<forall>x < l. key_at b (pos m (home m key) x) \<noteq> KEY_EMPTY"
      using assms(1,3) by (auto simp: table_inv_def reachable_def)
    have "key_at b (pos m (home m key) j) = KEY_EMPTY" using j that by (auto simp: first_hit_def)
    moreover have "\<not> l < j" using j l(1) \<open>key_at b q = key\<close> by (auto simp: first_hit_def)
    ultimately show False using l \<open>key_at b q = key\<close> that by (metis linorder_neqE_nat)
  qed
  have present: "table_map b key \<noteq> None" if "key_at b (pos m (home m key) j) = key"
    using that table_map_None[OF assms(1,3)] pos_less by blast
  have hit: "(key_at b (pos m (home m key) j) = key) = (table_map b key \<noteq> None)"
    using absent present by metis
  have "reachable m b key (unat i)" using j i(2) by (auto simp: reachable_def first_hit_def)
  moreover have "key_at b (unat i) = (if table_map b key \<noteq> None then key else KEY_EMPTY)"
    using j i(2) hit by (auto simp: first_hit_def)
  ultimately show thesis using that[of i] i hit pos_less by simp
qed

lemma reachable_update:
  assumes "reachable m b key p" and "fst kv \<noteq> KEY_EMPTY"
  shows "reachable m (b[q := kv]) key p"
proof -
  have "key_at (b[q := kv]) l \<noteq> KEY_EMPTY" if "key_at b l \<noteq> KEY_EMPTY" for l
    using that assms(2) by (cases "q < length b") (auto simp: nth_list_update not_less list_update_beyond)
  with assms(1) show ?thesis by (auto simp: reachable_def)
qed

text \<open>Writing a pair into an entry that is empty, or has the key already.\<close>

lemma table_put:
  assumes "table_inv m b" and "p < 2 ^ m" and "key \<noteq> KEY_EMPTY" and "reachable m b key p"
    and "key_at b p = (if table_map b key \<noteq> None then key else KEY_EMPTY)"
  shows "table_inv m (b[p := (key, v)])" and "table_map (b[p := (key, v)]) = (table_map b)(key \<mapsto> v)"
proof -
  let ?b = "b[p := (key, v)]"
  have len: "length b = 2 ^ m" and size: "table_size m ?b"
    using assms(1) by (auto simp: table_inv_def table_size_def)
  have at: "key_at ?b q = (if q = p then key else key_at b q)" if "q < 2 ^ m" for q
    using that len assms(2) by (simp add: nth_list_update)
  have other: "key_at b q \<noteq> key" if "q < 2 ^ m" "q \<noteq> p" for q
    using that assms table_map_None[OF assms(1,3)] by (metis table_inv_def)
  have "reachable m ?b (key_at ?b q) q" if "q < 2 ^ m" "key_at ?b q \<noteq> KEY_EMPTY" for q
    using that assms(1,3,4) by (auto simp: at table_inv_def intro!: reachable_update split: if_splits)
  moreover have "q = r" if "q < 2 ^ m" "r < 2 ^ m" "key_at ?b q = key_at ?b r" "key_at ?b q \<noteq> KEY_EMPTY"
    for q r
    using that other assms(1) by (auto simp: at table_inv_def split: if_splits)
  ultimately show inv: "table_inv m ?b" using size by (auto simp: table_inv_def)
  have "table_map ?b k = Some w \<longleftrightarrow> ((table_map b)(key \<mapsto> v)) k = Some w" for k w
  proof (cases "k = key")
    case True
    then show ?thesis using assms(2,3) len other
      by (auto simp: table_map_Some[OF inv] nth_list_update split: if_splits; metis fst_conv)
  next
    case False
    have "(\<exists>q < 2 ^ m. ?b ! q = (k, w)) \<longleftrightarrow> (\<exists>q < 2 ^ m. b ! q = (k, w))" if "k \<noteq> KEY_EMPTY"
    proof -
      have "q \<noteq> p" if "b ! q = (k, w)" for q
        using that False assms(5) \<open>k \<noteq> KEY_EMPTY\<close> by (auto split: if_splits)
      then have "(?b ! q = (k, w)) = (b ! q = (k, w))" for q
        using False len assms(2) by (cases "q = p") auto
      then show ?thesis by simp
    qed
    with False show ?thesis
      by (auto simp: table_map_Some[OF inv] table_map_Some[OF assms(1)])
  qed
  then show "table_map ?b = (table_map b)(key \<mapsto> v)"
    by (intro ext) (metis option.exhaust)
qed

section \<open>Rehashing\<close>

definition empties_null :: "'v \<Rightarrow> 'v key_value list \<Rightarrow> bool" where
  "empties_null null b \<longleftrightarrow> (\<forall>kv \<in> set b. fst kv = KEY_EMPTY \<longrightarrow> snd kv = null)"

definition distinct_keys :: "'v key_value list \<Rightarrow> bool" where
  "distinct_keys b \<longleftrightarrow> distinct (map fst (filter (\<lambda>kv. fst kv \<noteq> KEY_EMPTY) b))"

lemma empties_null_update:
  "empties_null null b \<Longrightarrow> fst kv \<noteq> KEY_EMPTY \<Longrightarrow> empties_null null (b[i := kv])"
  using set_update_subset_insert[of b i kv] by (auto simp: empties_null_def)

lemma table_inv_distinct_keys:
  assumes "table_inv m b"
  shows "distinct_keys b"
proof -
  have len: "length b = 2 ^ m" using assms by (simp add: table_inv_def table_size_def)
  have "distinct (map fst (filter (\<lambda>kv. fst kv \<noteq> KEY_EMPTY) b))"
    if "\<And>p q. p < length b \<Longrightarrow> q < length b \<Longrightarrow> fst (b ! p) = fst (b ! q) \<Longrightarrow>
      fst (b ! p) \<noteq> KEY_EMPTY \<Longrightarrow> p = q" for b :: "'a key_value list"
    using that
  proof (induction b)
    case (Cons kv b)
    have "distinct (map fst (filter (\<lambda>kv. fst kv \<noteq> KEY_EMPTY) b))"
      using Cons.prems[of "Suc _" "Suc _"] by (intro Cons.IH) auto
    moreover have "fst kv \<notin> fst ` set b" if "fst kv \<noteq> KEY_EMPTY"
      using that Cons.prems[of 0 "Suc _"] by (force simp: in_set_conv_nth)
    ultimately show ?case by auto
  qed simp
  with assms len show ?thesis by (simp add: distinct_keys_def table_inv_def)
qed

lemma aa_probe_empty_result:
  assumes "table_inv m b" and "filled b < length b"
  obtains i where "aa_probe_empty b (msk_of b) (aa_hash key AND msk_of b) 1 = Some (Inr i)"
    and "unat i < 2 ^ m" and "reachable m b key (unat i)" and "key_at b (unat i) = KEY_EMPTY"
proof -
  have size: "table_size m b" and len: "length b = 2 ^ m"
    using assms(1) by (simp_all add: table_inv_def table_size_def)
  obtain p where "p < 2 ^ m" "key_at b p = KEY_EMPTY" using has_empty[OF assms(2)] len by auto
  then obtain j where j: "first_hit m (home m key) (\<lambda>p. key_at b p = KEY_EMPTY) j"
    by (rule first_hit_exists)
  have "unat (aa_hash key AND msk_of b) = pos m (home m key) 0"
    by (simp add: unat_and_msk[OF size] pos_def)
  from probe_empty_from[OF size, of "home m key" 0 j, OF _ this] j obtain i where
    "aa_probe_empty b (msk_of b) (aa_hash key AND msk_of b) 1 = Some (Inr i)"
    "unat i = pos m (home m key) j" by auto
  then show thesis using j pos_less by (intro that) (auto simp: reachable_def first_hit_def)
qed

lemma table_map_Cons:
  "table_map (kv # b) = (if fst kv \<noteq> KEY_EMPTY then (table_map b)(fst kv \<mapsto> snd kv) else table_map b)"
  by (auto simp: table_map_def fun_eq_iff)

lemma table_map_Nil: "table_map [] = Map.empty"
  by (simp add: table_map_def fun_eq_iff)

lemma table_map_absent: "fst kv \<notin> fst ` set (filter (\<lambda>kv. fst kv \<noteq> KEY_EMPTY) b) \<Longrightarrow> table_map b (fst kv) = None"
  by (force simp: table_map_def map_of_eq_None_iff)

lemma aa_move_all_result:
  assumes "table_inv m newb" and "distinct_keys b" and "\<forall>k. table_map b k \<noteq> None \<longrightarrow> table_map newb k = None"
    and "filled newb + filled b < 2 ^ m" and "empties_null null newb"
  shows "\<exists>newb'. aa_move_all b (msk_of newb) newb = Some (Inr newb') \<and> table_inv m newb' \<and>
     filled newb' = filled newb + filled b \<and> table_map newb' = table_map newb ++ table_map b \<and>
     empties_null null newb'"
  using assms
proof (induction b arbitrary: newb)
  case Nil
  then show ?case by (simp add: filled_def table_map_Nil)
next
  case (Cons kv b)
  show ?case
  proof (cases "fst kv = KEY_EMPTY")
    case True
    then show ?thesis using Cons.IH[of newb] Cons.prems
      by (simp add: table_map_Cons filled_def distinct_keys_def)
  next
    case False
    have len: "length newb = 2 ^ m" using Cons.prems(1) by (simp add: table_inv_def table_size_def)
    have fresh: "table_map newb (fst kv) = None"
      using Cons.prems(3) False by (auto simp: table_map_Cons)
    have absent: "table_map b (fst kv) = None"
      using Cons.prems(2) False by (intro table_map_absent) (simp add: distinct_keys_def)
    have "filled newb < length newb" using Cons.prems(4) len by simp
    from aa_probe_empty_result[OF Cons.prems(1) this] obtain i where
      i: "aa_probe_empty newb (msk_of newb) (aa_hash (fst kv) AND msk_of newb) 1 = Some (Inr i)"
        "unat i < 2 ^ m" "reachable m newb (fst kv) (unat i)" "key_at newb (unat i) = KEY_EMPTY"
      by blast
    let ?b = "newb[unat i := kv]"
    have put: "table_inv m ?b" "table_map ?b = (table_map newb)(fst kv \<mapsto> snd kv)"
      using table_put[OF Cons.prems(1) i(2) False i(3), of "snd kv"] i(4) fresh by simp_all
    have fill: "filled ?b = Suc (filled newb)" "filled (kv # b) = Suc (filled b)"
      using filled_update[of "unat i" newb kv] i len False by (simp_all add: filled_def)
    have "\<exists>newb'. aa_move_all b (msk_of ?b) ?b = Some (Inr newb') \<and> table_inv m newb' \<and>
       filled newb' = filled ?b + filled b \<and> table_map newb' = table_map ?b ++ table_map b \<and>
       empties_null null newb'"
      using Cons.prems(2-5) put fill absent False
      by (intro Cons.IH) (auto simp: distinct_keys_def table_map_Cons intro: empties_null_update)
    moreover have "table_map ?b ++ table_map b = table_map newb ++ table_map (kv # b)"
      unfolding put(2) using absent False by (simp add: table_map_Cons map_add_upd_left domIff)
    ultimately show ?thesis using i(1) False fill by (simp add: obind_def)
  qed
qed

lemma table_map_replicate: "table_map (replicate n (KEY_EMPTY, null)) = Map.empty"
  by (auto simp: table_map_def fun_eq_iff map_of_eq_None_iff)

lemma table_inv_replicate:
  assumes "m < 62"
  shows "table_inv m (replicate (2 ^ m) (KEY_EMPTY, null))"
  using assms by (simp add: table_inv_def table_size_def)

lemma dmd_aaRehash_result:
  assumes "length b = 2 ^ m" and "m < 60" and "distinct_keys b"
  shows "\<exists>b'. dmd_aaRehash null b = Some (Inr b') \<and> table_inv (m + 2) b' \<and>
     filled b' = filled b \<and> table_map b' = table_map b \<and> empties_null null b'"
proof -
  let ?new = "replicate (2 ^ (m + 2)) (KEY_EMPTY, null)"
  have "filled b < 2 ^ (m + 2)" using filled_le[of b] assms(1) by (simp add: le_less_trans)
  moreover have "filled ?new = 0" by (simp add: filled_def)
  ultimately have "\<exists>b'. aa_move_all b (msk_of ?new) ?new = Some (Inr b') \<and> table_inv (m + 2) b' \<and>
     filled b' = filled ?new + filled b \<and> table_map b' = table_map ?new ++ table_map b \<and>
     empties_null null b'"
    using assms by (intro aa_move_all_result table_inv_replicate)
      (simp_all add: table_map_replicate empties_null_def)
  moreover have "length b * 4 = 2 ^ (m + 2)" using assms(1) by simp
  ultimately show ?thesis using \<open>filled ?new = 0\<close>
    by (simp add: dmd_aaRehash_def Let_def table_map_replicate mult.commute)
qed

section \<open>Invariant and contents of an array\<close>

fun aa_inv :: "'v \<Rightarrow> 'v aa option \<Rightarrow> bool" where
  "aa_inv null None = True"
| "aa_inv null (Some a) =
     (case storage a of
        Binit kv \<Rightarrow> nodes a = 1 \<and> fst kv \<noteq> KEY_EMPTY
      | Buckets b \<Rightarrow>
          (\<exists>m \<ge> 2. table_inv m b) \<and> empties_null null b \<and> nodes a = of_nat (filled b) \<and>
          2 \<le> filled b \<and> 2 * filled b \<le> length b + 2 \<and> length b \<le> 8 * filled b)"

fun aa_map :: "'v aa option \<Rightarrow> u64 \<Rightarrow> 'v option" where
  "aa_map None = Map.empty"
| "aa_map (Some a) = (case storage a of Binit kv \<Rightarrow> [fst kv \<mapsto> snd kv] | Buckets b \<Rightarrow> table_map b)"

definition aa_room :: "'v aa option \<Rightarrow> bool" where
  "aa_room aa \<longleftrightarrow> length (aa_buckets aa) < 2 ^ 59"

lemma power_less_59: "(2 :: nat) ^ m < 2 ^ 59 \<Longrightarrow> m < 59"
  by (rule power_less_imp_less_exp[of 2]) auto

lemma table_length: "table_inv m b \<Longrightarrow> length b = 2 ^ m"
  by (simp add: table_inv_def table_size_def)

lemma four_le: "2 \<le> m \<Longrightarrow> (4 :: nat) \<le> 2 ^ m"
  using power_increasing[of 2 m "2 :: nat"] by simp

lemma aa_grown_result:
  assumes "aa_inv null (Some a)" and "aa_room (Some a)"
    and "\<forall>kv. storage a = Binit kv \<longrightarrow> fst kv \<noteq> key"
  obtains m b where "aa_grown null key a = Some (Inr b)" and "2 \<le> m" and "table_inv m b"
    and "table_map b = aa_map (Some a)" and "empties_null null b" and "nodes a = of_nat (filled b)"
    and "2 * filled b \<le> length b" and "1 \<le> filled b"
    and "table_map b key \<noteq> None \<Longrightarrow> 2 \<le> filled b" and "filled b < 2 ^ 60" and "length b \<le> 8 * filled b"
proof (cases "storage a")
  case (Binit kv)
  then have kv: "nodes a = 1" "fst kv \<noteq> KEY_EMPTY" using assms(1) by auto
  have "distinct_keys [kv]" by (simp add: distinct_keys_def)
  then have "\<exists>b. dmd_aaRehash null [kv] = Some (Inr b) \<and> table_inv (0 + 2) b \<and> filled b = filled [kv] \<and>
      table_map b = table_map [kv] \<and> empties_null null b"
    by (intro dmd_aaRehash_result) simp_all
  then obtain b where
    b: "dmd_aaRehash null [kv] = Some (Inr b)" "table_inv 2 b" "filled b = filled [kv]"
      "table_map b = table_map [kv]" "empties_null null b" by (auto simp only: add_0)
  then have "table_map b = [fst kv \<mapsto> snd kv]" "filled b = 1"
    using kv by (simp_all add: table_map_Cons table_map_Nil filled_def)
  then show thesis using that[of b 2] b kv Binit assms(3) table_length[OF b(2)]
    by (simp add: aa_grown_def)
next
  case (Buckets b)
  with assms(1) obtain m where m: "2 \<le> m" "table_inv m b" and b: "empties_null null b"
    "nodes a = of_nat (filled b)" "2 \<le> filled b" "2 * filled b \<le> length b + 2" "length b \<le> 8 * filled b" by auto
  have len: "length b = 2 ^ m" using m(2) by (rule table_length)
  have small: "length b < 2 ^ 59" using assms(2) Buckets by (simp add: aa_room_def aa_buckets_def)
  have f: "filled b < 2 ^ 60" using filled_le[of b] small by simp
  have un: "unat (nodes a) = filled b" "nodes a \<noteq> 1" "unat (nodes a * 2) = filled b * 2"
    "unat (of_nat (length b) :: u64) = length b"
    using b(2,3) f small by (auto simp: unat_of_nat unat_word_ariths dest: arg_cong[where f = unat])
  show thesis
  proof (cases "length b < filled b * 2")
    case True
    from dmd_aaRehash_result[OF len _ table_inv_distinct_keys[OF m(2)], of null]
      power_less_59[of m] small len obtain b' where
      b': "dmd_aaRehash null b = Some (Inr b')" "table_inv (m + 2) b'" "filled b' = filled b"
        "table_map b' = table_map b" "empties_null null b'" by auto
    have "2 * filled b' \<le> length b'" "length b' \<le> 8 * filled b'" using True b(4) b'(3) table_length[OF b'(2)] len four_le[OF m(1)] by simp_all
    then show thesis using that[of b' "m + 2"] b' b Buckets True un f
      by (simp add: aa_grown_def word_less_nat_alt)
  next
    case False
    then show thesis using that[of b m] m b Buckets un f
      by (simp add: aa_grown_def word_less_nat_alt)
  qed
qed

text \<open>\<open>dmd_aaGet\<close> always returns, and storing through its result updates the contents.\<close>

lemma dmd_aaGet_result:
  assumes "aa_inv null aa" and "aa_room aa" and "key \<noteq> KEY_EMPTY"
  obtains r a where "dmd_aaGet null aa key = Some (Inr (r, a))"
    and "aa_inv null (Some a)"
    and "aa_map (Some a) = (aa_map aa)(key \<mapsto> (case aa_map aa key of None \<Rightarrow> null | Some v \<Rightarrow> v))"
    and "\<And>v. aa_inv null (Some (aa_store r v a))"
    and "\<And>v. aa_map (Some (aa_store r v a)) = (aa_map aa)(key \<mapsto> v)"
proof (cases aa)
  case None
  then show thesis using assms(3)
    by (intro that) (auto simp: dmd_aaGet_def obind_def oguard_def aa_store_def)
next
  case (Some a)
  have n0: "nodes a \<noteq> 0"
  proof (cases "storage a")
    case (Buckets b)
    with assms(1) Some obtain m where "table_inv m b" "nodes a = of_nat (filled b)" "2 \<le> filled b"
      by auto
    moreover have "length b < 2 ^ 59" using assms(2) Some Buckets by (simp add: aa_room_def aa_buckets_def)
    ultimately have "unat (nodes a) = filled b" using filled_le[of b] by (simp add: unat_of_nat)
    then show ?thesis using \<open>2 \<le> filled b\<close> by auto
  qed (use assms(1) Some in auto)
  show thesis
  proof (cases "\<exists>kv. storage a = Binit kv \<and> fst kv = key")
    case True
    then obtain v where s: "storage a = Binit (key, v)" by (metis prod.collapse)
    then have "nodes a = 1" using assms(1) Some by simp
    then show thesis using s Some assms(3)
      by (intro that[of Ref_binit a])
        (auto simp: dmd_aaGet_def obind_def oguard_def aa_store_def fun_upd_idem)
  next
    case False
    from False have nb: "\<forall>kv. storage a = Binit kv \<longrightarrow> fst kv \<noteq> key" by blast
    obtain m b where g: "aa_grown null key a = Some (Inr b)" "2 \<le> m" "table_inv m b"
      "table_map b = aa_map (Some a)" "empties_null null b" "nodes a = of_nat (filled b)"
      "2 * filled b \<le> length b" "1 \<le> filled b" "table_map b key \<noteq> None \<Longrightarrow> 2 \<le> filled b"
      "filled b < 2 ^ 60" "length b \<le> 8 * filled b"
      by (rule aa_grown_result[OF _ _ nb, of null]) (use assms(1,2) Some in auto)
    have len: "length b = 2 ^ m" using g(3) by (rule table_length)
    with g(7) four_le[OF g(2)] have "filled b < length b" by simp
    from aa_probe_result[OF g(3) this assms(3)] obtain i where
      i: "aa_probe b (msk_of b) key (aa_hash key AND msk_of b) 1 =
          Some (Inr (table_map b key \<noteq> None, i))" "unat i < 2 ^ m" "reachable m b key (unat i)"
        "key_at b (unat i) = (if table_map b key \<noteq> None then key else KEY_EMPTY)" by blast
    have get: "dmd_aaGet null aa key = Some (Inr (Ref_bucket i,
        if table_map b key \<noteq> None then a\<lparr>storage := Buckets b\<rparr>
        else \<lparr>nodes = nodes a + 1, storage = Buckets (b[unat i := (key, snd (b ! unat i))])\<rparr>))"
      using n0 nb i(1) g(1) Some assms(3)
      by (auto simp: dmd_aaGet_def obind_def oguard_def split: aa_storage.splits)
    note put = table_put[OF g(3) i(2) assms(3) i(3,4)]
    have fill: "filled (b[unat i := (key, v)]) =
        (if table_map b key \<noteq> None then filled b else Suc (filled b))" for v
      using filled_update[of "unat i" b "(key, v)"] i(2,4) len assms(3) by (auto split: if_splits)
    have nul: "empties_null null (b[unat i := (key, v)])" for v
      using empties_null_update[OF g(5), of "(key, v)"] assms(3) by simp
    show thesis
    proof (cases "table_map b key")
      case None
      have "snd (b ! unat i) = null" using g(5) i(2,4) len None by (auto simp: empties_null_def)
      then show thesis using get None put fill nul g(2,4,6-8,11) len Some i(2)
        by (intro that[OF get])
          (auto simp: aa_store_def nth_list_update intro!: exI[of _ m])
    next
      case (Some w)
      have at: "b ! unat i = (key, w)"
      proof -
        have "key_at b (unat i) = key" using i(4) Some by simp
        moreover have "table_map b key = Some (snd (b ! unat i))"
          using table_map_Some[OF g(3)] i(2) calculation assms(3) by (metis prod.collapse)
        ultimately show ?thesis using Some by (metis option.inject prod.collapse)
      qed
      then show thesis using get Some put fill nul g(2-9,11) len \<open>aa = Some a\<close> i(2)
        by (intro that[OF get])
          (auto simp: aa_store_def fun_upd_idem intro!: exI[of _ m])
    qed
  qed
qed

lemma dom_table_map: "dom (table_map b) = fst ` set (filter (\<lambda>kv. fst kv \<noteq> KEY_EMPTY) b)"
  by (induction b) (simp_all add: table_map_Nil table_map_Cons del: fun_upd_apply)

lemma card_table_map:
  assumes "table_inv m b"
  shows "card (dom (table_map b)) = filled b"
  using distinct_card[of "map fst (filter (\<lambda>kv. fst kv \<noteq> KEY_EMPTY) b)"]
    table_inv_distinct_keys[OF assms]
  by (simp add: distinct_keys_def filled_def dom_table_map)

lemma aa_finite: "finite (dom (aa_map aa))"
  by (cases aa rule: aa_map.cases) (auto simp: dom_table_map split: aa_storage.split)

lemma aa_occupancy:
  assumes "aa_inv null aa"
  shows "length (aa_buckets aa) \<le> 8 * card (dom (aa_map aa))"
    and "dmd_aaLen aa = of_nat (card (dom (aa_map aa)))"
  using assms by (cases aa rule: aa_map.cases;
      auto simp: aa_buckets_def dmd_aaLen_def card_table_map split: aa_storage.splits)+

lemma aa_load:
  assumes "aa_inv null aa"
  shows "2 * card (dom (aa_map aa)) \<le> length (aa_buckets aa) + 2"
  using assms
  by (cases aa rule: aa_map.cases) (auto simp: aa_buckets_def card_table_map split: aa_storage.splits)

definition aa_limit :: nat where "aa_limit = 2 ^ 56"

lemma aa_room_of_count:
  assumes "aa_inv null aa" and "card (dom (aa_map aa)) < aa_limit"
  shows "aa_room aa"
  using aa_occupancy(1)[OF assms(1)] assms(2) by (simp add: aa_room_def aa_limit_def)

lemma dmd_aaGetRvalue_result:
  assumes "aa_inv null aa" and "key \<noteq> KEY_EMPTY"
  shows "dmd_aaGetRvalue null aa key =
     Some (Inr (case aa_map aa key of None \<Rightarrow> null | Some v \<Rightarrow> v))"
proof (cases "\<exists>a b. aa = Some a \<and> storage a = Buckets b")
  case False
  then show ?thesis using assms
    by (cases aa rule: aa_map.cases)
      (auto simp: dmd_aaGetRvalue_def obind_def oguard_def split: aa_storage.splits)
next
  case True
  then obtain a b where a: "aa = Some a" "storage a = Buckets b" by blast
  with assms(1) obtain m where m: "2 \<le> m" "table_inv m b" and b: "nodes a = of_nat (filled b)"
    "2 \<le> filled b" "2 * filled b \<le> length b + 2" by auto
  have len: "length b = 2 ^ m" and size: "m < 62"
    using m(2) by (auto simp: table_inv_def table_size_def)
  with b(3) four_le[OF m(1)] have lt: "filled b < length b" by simp
  have "filled b < 2 ^ 64"
    using lt len size power_strict_increasing[of m 64 "2 :: nat"] by simp
  then have n1: "nodes a \<noteq> 1" using b(1,2) by (auto simp: unat_of_nat dest: arg_cong[where f = unat])
  from aa_probe_result[OF m(2) lt assms(2)] obtain i where
    i: "aa_probe b (msk_of b) key (aa_hash key AND msk_of b) 1 =
        Some (Inr (table_map b key \<noteq> None, i))" "unat i < 2 ^ m"
      "key_at b (unat i) = (if table_map b key \<noteq> None then key else KEY_EMPTY)" by blast
  have "table_map b key = Some (snd (b ! unat i))" if "table_map b key \<noteq> None"
    using table_map_Some[OF m(2)] i(2,3) that assms(2) by (metis prod.collapse)
  then show ?thesis using a i(1) n1 assms(2)
    by (auto simp: dmd_aaGetRvalue_def obind_def oguard_def)
qed

section \<open>The contract of an associative array\<close>

text \<open>Storing a value under a key, as \<open>*getLvalue(key) = v\<close> does.\<close>

definition aa_set :: "'v \<Rightarrow> u64 \<Rightarrow> 'v \<Rightarrow> 'v aa option \<Rightarrow> (fault + 'v aa option) option" where
  "aa_set null key v aa =
     obind (dmd_aaGet null aa key) (\<lambda>(r, a). Some (Inr (Some (aa_store r v a))))"

primrec set_all :: "('k \<Rightarrow> 'v \<Rightarrow> 'a \<Rightarrow> (fault + 'a) option) \<Rightarrow> ('k \<times> 'v) list \<Rightarrow> 'a \<Rightarrow> (fault + 'a) option" where
  "set_all put [] a = Some (Inr a)"
| "set_all put (kv # kvs) a = obind (put (fst kv) (snd kv) a) (set_all put kvs)"

locale assoc_spec =
  fixes inv :: "'a \<Rightarrow> bool" and contents :: "'a \<Rightarrow> 'k \<Rightarrow> 'v option" and good :: "'k \<Rightarrow> bool"
    and limit :: nat and put :: "'k \<Rightarrow> 'v \<Rightarrow> 'a \<Rightarrow> (fault + 'a) option"
    and look :: "'a \<Rightarrow> 'k \<Rightarrow> (fault + 'v) option" and null :: 'v
  assumes finite_contents: "finite (dom (contents a))"
    and put_ok: "\<lbrakk>inv a; good k; card (dom (contents a)) < limit\<rbrakk> \<Longrightarrow>
      \<exists>b. put k v a = Some (Inr b) \<and> inv b \<and> contents b = (contents a)(k \<mapsto> v)"
    and look_ok: "\<lbrakk>inv a; good k\<rbrakk> \<Longrightarrow>
      look a k = Some (Inr (case contents a k of None \<Rightarrow> null | Some v \<Rightarrow> v))"
begin

lemma put_all:
  assumes "inv a" and "\<forall>kv \<in> set kvs. good (fst kv)" and "card (dom (contents a)) + length kvs \<le> limit"
  shows "\<exists>b. set_all put kvs a = Some (Inr b) \<and> inv b \<and> contents b = contents a ++ map_of (rev kvs)"
  using assms
proof (induction kvs arbitrary: a)
  case (Cons kv kvs)
  then obtain b where b: "put (fst kv) (snd kv) a = Some (Inr b)" "inv b"
    "contents b = (contents a)(fst kv \<mapsto> snd kv)"
    using put_ok[of a "fst kv" "snd kv"] by auto
  have "card (dom (contents b)) \<le> Suc (card (dom (contents a)))"
    using finite_contents[of a] by (simp add: b(3) card_insert_if)
  then have "card (dom (contents b)) + length kvs \<le> limit" using Cons.prems(3) by simp
  with Cons.IH[of b] Cons.prems(2) b(2) obtain c where
    "set_all put kvs b = Some (Inr c)" "inv c" "contents c = contents b ++ map_of (rev kvs)" by auto
  with b show ?case by (auto simp: obind_def map_add_def fun_eq_iff split: option.splits)
qed simp

lemma look_after_put_all:
  assumes "inv a" and "\<forall>kv \<in> set kvs. good (fst kv)" and "card (dom (contents a)) + length kvs \<le> limit"
  obtains b where "set_all put kvs a = Some (Inr b)" and "inv b"
    and "contents b = contents a ++ map_of (rev kvs)"
    and "\<And>k. good k \<Longrightarrow> look b k = Some (Inr (case map_of (rev kvs) k of
        Some v \<Rightarrow> v | None \<Rightarrow> (case contents a k of None \<Rightarrow> null | Some v \<Rightarrow> v)))"
proof -
  from put_all[OF assms] obtain b where b: "set_all put kvs a = Some (Inr b)" "inv b"
    "contents b = contents a ++ map_of (rev kvs)" by blast
  show thesis
    by (rule that[OF b]) (use look_ok[OF b(2)] in \<open>simp add: b(3) map_add_def split: option.splits\<close>)
qed

end

interpretation aa: assoc_spec "aa_inv null" aa_map "\<lambda>k. k \<noteq> KEY_EMPTY" aa_limit "aa_set null"
  "dmd_aaGetRvalue null" null
  for null :: 'v
proof
  fix a :: "'v aa option" and k v
  show "finite (dom (aa_map a))" by (rule aa_finite)
  show "dmd_aaGetRvalue null a k = Some (Inr (case aa_map a k of None \<Rightarrow> null | Some v \<Rightarrow> v))"
    if "aa_inv null a" "k \<noteq> KEY_EMPTY"
    using that by (rule dmd_aaGetRvalue_result)
  assume a: "aa_inv null a" "k \<noteq> KEY_EMPTY" "card (dom (aa_map a)) < aa_limit"
  from dmd_aaGet_result[OF a(1) aa_room_of_count[OF a(1,3)] a(2)]
  show "\<exists>b. aa_set null k v a = Some (Inr b) \<and> aa_inv null b \<and> aa_map b = (aa_map a)(k \<mapsto> v)"
    by (metis (mono_tags, lifting) aa_set_def obind_def option.simps(5) sum.simps(6) prod.simps(2))
qed

section \<open>Iteration\<close>

lemma range_next_result:
  "\<exists>k \<le> length b. range_next b n = n + k \<and> (k < length b \<longrightarrow> fst (b ! k) \<noteq> KEY_EMPTY) \<and>
     filter (\<lambda>kv. fst kv \<noteq> KEY_EMPTY) b = filter (\<lambda>kv. fst kv \<noteq> KEY_EMPTY) (drop k b)"
proof (induction b n rule: range_next.induct)
  case (2 kv b n)
  show ?case
  proof (cases "fst kv = KEY_EMPTY")
    case True
    with 2 obtain k where "k \<le> length b" "range_next b (Suc n) = Suc n + k"
      "k < length b \<longrightarrow> fst (b ! k) \<noteq> KEY_EMPTY"
      "filter (\<lambda>kv. fst kv \<noteq> KEY_EMPTY) b = filter (\<lambda>kv. fst kv \<noteq> KEY_EMPTY) (drop k b)" by blast
    then show ?thesis using True by (intro exI[of _ "Suc k"]) auto
  qed (intro exI[of _ 0]; simp)
qed simp

lemma range_from_filter: "range_from b n = filter (\<lambda>kv. fst kv \<noteq> KEY_EMPTY) (drop n b)"
proof (induction b n rule: range_from.induct)
  case (1 b n)
  obtain k where k: "k \<le> length (drop n b)" "range_next (drop n b) n = n + k"
    "k < length (drop n b) \<longrightarrow> fst (drop n b ! k) \<noteq> KEY_EMPTY"
    "filter (\<lambda>kv. fst kv \<noteq> KEY_EMPTY) (drop n b) =
       filter (\<lambda>kv. fst kv \<noteq> KEY_EMPTY) (drop k (drop n b))"
    using range_next_result by blast
  show ?case
  proof (cases "length b \<le> n + k")
    case True
    then show ?thesis using k by (subst range_from.simps) (simp add: Let_def add.commute)
  next
    case False
    then have "drop k (drop n b) = b ! (n + k) # drop (Suc (n + k)) b"
      by (simp add: Cons_nth_drop_Suc add.commute)
    moreover have "range_from b (Suc (n + k)) = filter (\<lambda>kv. fst kv \<noteq> KEY_EMPTY) (drop (Suc (n + k)) b)"
      using 1 False k(2) by (simp add: Let_def)
    ultimately show ?thesis using k False
      by (subst range_from.simps) (simp add: Let_def)
  qed
qed

lemma map_of_filter_empty: "map_of (filter (\<lambda>kv. fst kv \<noteq> KEY_EMPTY) b) = table_map b"
  by (induction b) (simp_all add: table_map_Nil table_map_Cons del: fun_upd_apply)

section \<open>Properties\<close>

text \<open>C5: The associative array is a map.  Whatever sequence of values is stored under
  whatever keys but the reserved one, every search of the table ends, a lookup gives the
  value stored last under its key and null under any other, \<open>length\<close> is the number of
  keys, and the table is at most eight times as long.\<close>
theorem aa_refines_map:
  assumes "\<forall>kv \<in> set kvs. fst kv \<noteq> KEY_EMPTY" and "length kvs \<le> aa_limit"
  shows "\<exists>a. set_all (aa_set null) kvs None = Some (Inr a) \<and>
     (\<forall>k. k \<noteq> KEY_EMPTY \<longrightarrow> dmd_aaGetRvalue null a k =
        Some (Inr (case map_of (rev kvs) k of Some v \<Rightarrow> v | None \<Rightarrow> null))) \<and>
     dmd_aaLen a = of_nat (card (fst ` set kvs)) \<and>
     length (aa_buckets a) \<le> 8 * card (fst ` set kvs)"
proof -
  have *: "aa_inv null None" "card (dom (aa_map None)) + length kvs \<le> aa_limit"
    using assms(2) by simp_all
  obtain a where a: "set_all (aa_set null) kvs None = Some (Inr a)" "aa_inv null a"
    "aa_map a = aa_map None ++ map_of (rev kvs)"
    "\<And>k. k \<noteq> KEY_EMPTY \<Longrightarrow> dmd_aaGetRvalue null a k = Some (Inr (case map_of (rev kvs) k of
        Some v \<Rightarrow> v | None \<Rightarrow> (case aa_map None k of None \<Rightarrow> null | Some v \<Rightarrow> v)))"
    using aa.look_after_put_all[OF *(1) assms(1) *(2)] by blast
  have "dom (aa_map a) = fst ` set kvs" by (simp add: a(3) dom_map_of_conv_image_fst)
  with aa_occupancy[OF a(2)] a show ?thesis by (simp split: option.split)
qed

theorem aa_refines_map_witness:
  "\<exists>a. set_all (aa_set 0) [(0, 7), (5, 8), (0, 9 :: nat)] None = Some (Inr a) \<and>
     dmd_aaGetRvalue 0 a 0 = Some (Inr 9) \<and> dmd_aaGetRvalue 0 a 6 = Some (Inr 0) \<and> dmd_aaLen a = 2"
  using aa_refines_map [of "[(0, 7), (5, 8), (0, 9 :: nat)]" 0]
  by (auto simp: KEY_EMPTY_def aa_limit_def card_insert_if simp del: set_all.simps)

text \<open>C27: \<open>dmd_aaGet\<close> returns on every well-formed array with room, although its probe loop has no
  bound of its own: the array stays well formed, its contents change at most by a null value under
  a new key, a value written through the address is what the key then has, all other keys being
  untouched, and at most one key more than half of the buckets is filled.\<close>
theorem aa_get_returns:
  assumes "aa_inv null aa" and "card (dom (aa_map aa)) < aa_limit" and "key \<noteq> KEY_EMPTY"
  shows "\<exists>r a. dmd_aaGet null aa key = Some (Inr (r, a)) \<and> aa_inv null (Some a) \<and>
     aa_map (Some a) = (aa_map aa)(key \<mapsto> (case aa_map aa key of None \<Rightarrow> null | Some v \<Rightarrow> v)) \<and>
     2 * card (dom (aa_map (Some a))) \<le> length (aa_buckets (Some a)) + 2 \<and>
     (\<forall>v. aa_inv null (Some (aa_store r v a)) \<and>
          aa_map (Some (aa_store r v a)) = (aa_map aa)(key \<mapsto> v))"
proof (rule dmd_aaGet_result [OF assms(1) aa_room_of_count [OF assms(1,2)] assms(3)])
  fix r a
  assume "dmd_aaGet null aa key = Some (Inr (r, a))" and i: "aa_inv null (Some a)"
    and "aa_map (Some a) = (aa_map aa)(key \<mapsto> (case aa_map aa key of None \<Rightarrow> null | Some v \<Rightarrow> v))"
    and "\<And>v. aa_inv null (Some (aa_store r v a))"
    and "\<And>v. aa_map (Some (aa_store r v a)) = (aa_map aa)(key \<mapsto> v)"
  then show ?thesis using aa_load[OF i] by (simp del: aa_inv.simps aa_map.simps)
qed

theorem aa_get_returns_witness:
  "\<exists>r a. dmd_aaGet 0 (Some \<lparr>nodes = 1, storage = Binit (4, 2 :: nat)\<rparr>) 5 = Some (Inr (r, a)) \<and>
     aa_inv 0 (Some a) \<and> aa_map (Some a) = [4 \<mapsto> 2, 5 \<mapsto> 0]"
  using aa_get_returns [of 0 "Some \<lparr>nodes = 1, storage = Binit (4, 2 :: nat)\<rparr>" 5]
  by (auto simp: KEY_EMPTY_def aa_limit_def)

text \<open>C28: Iterating over an array ends and enumerates it: every key with its value, each
  once, and nothing else, as many as \<open>length\<close> says.\<close>
theorem aa_range_enumerates:
  assumes "aa_inv null aa"
  shows "map_of (asRange aa) = aa_map aa \<and> distinct (map fst (asRange aa)) \<and>
     dmd_aaLen aa = of_nat (length (asRange aa))"
proof (cases aa rule: aa_map.cases)
  case 1
  then show ?thesis by (simp add: asRange_def range_from_filter aa_buckets_def dmd_aaLen_def)
next
  case (2 a)
  then show ?thesis
    using assms table_inv_distinct_keys
    by (auto simp: asRange_def range_from_filter aa_buckets_def dmd_aaLen_def map_of_filter_empty
        table_map_Cons table_map_Nil distinct_keys_def filled_def split: aa_storage.splits)
qed

theorem aa_range_enumerates_witness:
  "asRange (Some \<lparr>nodes = 1, storage = Binit (4, 2 :: nat)\<rparr>) = [(4, 2)] \<and>
   distinct (map fst (asRange (Some \<lparr>nodes = 1, storage = Binit (4, 2 :: nat)\<rparr>)))"
  using aa_range_enumerates [of 0 "Some \<lparr>nodes = 1, storage = Binit (4, 2 :: nat)\<rparr>"]
  by (simp add: KEY_EMPTY_def asRange_def range_from_filter aa_buckets_def)

end
