(* ===== verification/Int_Range.thy ===== *)
theory Int_Range
  imports Prelude
begin

text \<open>
  Integers of 65 bits with sign and the intervals over them, by which the compiler bounds the
  values of integral expressions (struct \<open>IntRange\<close>, named by declaration.h and implemented
  in intrange.d).  \<open>sval\<close> is the integer that a \<open>SignExtendedNumber\<close> stands for; the
  arithmetic of the numbers is shown to be that of the integers, cut off at both ends, and
  that of the intervals to contain every result.
\<close>

unbundle bit_operations_syntax

section \<open>Numbers\<close>

record sen =
  num :: u64
  negative :: bool

abbreviation SEN :: "u64 \<Rightarrow> bool \<Rightarrow> sen" where
  "SEN v n \<equiv> \<lparr>num = v, negative = n\<rparr>"

definition of_flag :: "bool \<Rightarrow> u64" where "of_flag b = (if b then 1 else 0)"

definition copySign :: "u64 \<Rightarrow> bool \<Rightarrow> u64" where
  "copySign x s = (x - of_flag s) XOR (- of_flag s)"

definition sen_max :: sen where "sen_max = SEN (- 1) False"
definition sen_min :: sen where "sen_min = SEN 0 True"

definition sen_extreme :: "bool \<Rightarrow> sen" where
  "sen_extreme minimum = SEN (of_flag minimum - 1) minimum"

definition isMinimum :: "sen \<Rightarrow> bool" where
  "isMinimum a \<longleftrightarrow> negative a \<and> num a = 0"

definition sen_cmp :: "sen \<Rightarrow> sen \<Rightarrow> int" where
  "sen_cmp a b =
     (if negative a \<noteq> negative b then (if negative a then - 1 else 1)
      else if num a < num b then - 1 else if num a > num b then 1 else 0)"

definition sen_less :: "sen \<Rightarrow> sen \<Rightarrow> bool" where "sen_less a b \<longleftrightarrow> sen_cmp a b < 0"
definition sen_le :: "sen \<Rightarrow> sen \<Rightarrow> bool" where "sen_le a b \<longleftrightarrow> sen_cmp a b \<le> 0"

definition sen_neg :: "sen \<Rightarrow> sen" where
  "sen_neg a =
     (if num a = 0 then SEN (- of_flag (negative a)) False
      else SEN (- num a) (\<not> negative a))"

definition sen_add :: "sen \<Rightarrow> sen \<Rightarrow> sen" where
  "sen_add a b =
     (let total = num a + num b; carry = (total < num a \<and> total < num b) in
      if negative a \<noteq> negative b then SEN total (\<not> carry)
      else if negative a then SEN (if carry then total else 0) True
      else SEN (if carry then - 1 else total) False)"

definition sen_sub :: "sen \<Rightarrow> sen \<Rightarrow> sen" where
  "sen_sub a b =
     (if isMinimum b then (if negative a then SEN (num a) False else sen_max)
      else sen_add a (sen_neg b))"

definition sen_mul_nonzero :: "sen \<Rightarrow> sen \<Rightarrow> sen" where
  "sen_mul_nonzero a b =
     (let tAbs = copySign (num a) (negative a); aAbs = copySign (num b) (negative b);
          n = (negative a \<noteq> negative b) in
      if (- 1) div tAbs < aAbs then SEN (of_flag n - 1) n
      else SEN (copySign (tAbs * aAbs) n) n)"

definition sen_mul_zero :: "sen \<Rightarrow> sen \<Rightarrow> sen" where
  "sen_mul_zero a b =
     (if \<not> negative a then a
      else if negative b then sen_max
      else if num b = 0 then b else a)"

definition sen_mul :: "sen \<Rightarrow> sen \<Rightarrow> sen" where
  "sen_mul a b =
     (if num a = 0 then sen_mul_zero a b
      else if num b = 0 then sen_mul_zero b a
      else sen_mul_nonzero a b)"

text \<open>The quotient of the least number by a power of two, by moving the bit down.\<close>

definition min_div_power :: "u64 \<Rightarrow> u64" where
  "min_div_power aAbs =
     (let r = 0x8000000000000000; x = drop_bit 1 aAbs;
          r = (if x AND 0xAAAAAAAAAAAAAAAA \<noteq> 0 then drop_bit 1 r else r);
          r = (if x AND 0xCCCCCCCCCCCCCCCC \<noteq> 0 then drop_bit 2 r else r);
          r = (if x AND 0xF0F0F0F0F0F0F0F0 \<noteq> 0 then drop_bit 4 r else r);
          r = (if x AND 0xFF00FF00FF00FF00 \<noteq> 0 then drop_bit 8 r else r);
          r = (if x AND 0xFFFF0000FFFF0000 \<noteq> 0 then drop_bit 16 r else r);
          r = (if x AND 0xFFFFFFFF00000000 \<noteq> 0 then drop_bit 32 r else r) in r)"

definition sen_div :: "sen \<Rightarrow> sen \<Rightarrow> sen" where
  "sen_div a b =
     (if num b = 0 then
        (if negative b then SEN (of_flag (num a = 0 \<and> negative a)) False
         else sen_extreme (negative a))
      else
        (let aAbs = copySign (num b) (negative b); rvNeg = (negative a \<noteq> negative b) in
         if isMinimum a \<and> aAbs AND (aAbs - 1) = 0 \<and> aAbs = 1 then sen_extreme (\<not> negative b)
         else
           (let rvVal = (if \<not> isMinimum a then copySign (num a) (negative a) div aAbs
                         else if aAbs AND (aAbs - 1) \<noteq> 0 then (- 1) div aAbs
                         else min_div_power aAbs);
                rvVal = copySign rvVal rvNeg in
            SEN rvVal (rvVal \<noteq> 0 \<and> rvNeg))))"

definition sen_mod :: "sen \<Rightarrow> sen \<Rightarrow> sen" where
  "sen_mod a b =
     (if num b = 0 then (if \<not> negative b then b else if isMinimum a then SEN 0 False else a)
      else
        (let aAbs = copySign (num b) (negative b);
             rvVal = (if \<not> isMinimum a then copySign (num a) (negative a) mod aAbs
                      else if aAbs AND (aAbs - 1) \<noteq> 0 then (- 1) mod aAbs + 1 else 0);
             rvVal = copySign rvVal (negative a) in
         SEN rvVal (rvVal \<noteq> 0 \<and> negative a)))"

text \<open>The position of the highest bit that is set.\<close>

definition log2_bits :: "u64 \<Rightarrow> u64" where
  "log2_bits v =
     (let r = push_bit 5 (of_flag (v > 0xFFFFFFFF)); v = drop_bit (unat r) v;
          s = push_bit 4 (of_flag (v > 0xFFFF)); v = drop_bit (unat s) v; r = r OR s;
          s = push_bit 3 (of_flag (v > 0xFF)); v = drop_bit (unat s) v; r = r OR s;
          s = push_bit 2 (of_flag (v > 0xF)); v = drop_bit (unat s) v; r = r OR s;
          s = push_bit 1 (of_flag (v > 0x3)); v = drop_bit (unat s) v; r = r OR s in
      r OR drop_bit 1 v)"

definition sen_shl :: "sen \<Rightarrow> sen \<Rightarrow> sen" where
  "sen_shl a b =
     (if num a = 0 then a
      else if negative b then sen_extreme (negative a)
      else
        (let allowable = 63 - log2_bits (copySign (num a) (negative a)) in
         if num b > allowable then sen_extreme (negative a)
         else SEN (push_bit (unat (num b)) (num a)) (negative a)))"

definition sen_shr :: "sen \<Rightarrow> sen \<Rightarrow> sen" where
  "sen_shr a b =
     (if negative b \<or> num b > 63 then (if negative a then SEN (- 1) True else SEN 0 False)
      else if isMinimum a then
        (if num b = 0 then a else SEN (push_bit (64 - unat (num b)) (- 1)) True)
      else
        (let x = num a XOR (- of_flag (negative a)); x = drop_bit (unat (num b)) x in
         SEN (x XOR (- of_flag (negative a))) (negative a)))"

section \<open>Intervals\<close>

record int_range =
  imin :: sen
  imax :: sen

abbreviation Range :: "sen \<Rightarrow> sen \<Rightarrow> int_range" where
  "Range l h \<equiv> \<lparr>imin = l, imax = h\<rparr>"

definition fromNumbers2 :: "sen \<Rightarrow> sen \<Rightarrow> int_range" where
  "fromNumbers2 a b = (if sen_less a b then Range a b else Range b a)"

definition fromNumbers4 :: "sen \<Rightarrow> sen \<Rightarrow> sen \<Rightarrow> sen \<Rightarrow> int_range" where
  "fromNumbers4 a b c d =
     (let ab = fromNumbers2 a b; cd = fromNumbers2 c d;
          ab = (if sen_less (imin cd) (imin ab) then ab\<lparr>imin := imin cd\<rparr> else ab);
          ab = (if sen_less (imax ab) (imax cd) then ab\<lparr>imax := imax cd\<rparr> else ab) in ab)"

definition widest :: int_range where "widest = Range sen_min sen_max"

definition castSigned :: "u64 \<Rightarrow> int_range \<Rightarrow> int_range" where
  "castSigned m r =
     (let halfChunkMask = drop_bit 1 m;
          minHalfChunk = num (imin r) AND NOT halfChunkMask;
          maxHalfChunk = num (imax r) AND NOT halfChunkMask;
          minNeg = (if negative (imin r) then 1 else 0 :: int);
          maxNeg = (if negative (imax r) then 1 else 0 :: int);
          (minHalfChunk, minNeg) =
            (if minHalfChunk AND m \<noteq> 0 then
               (let c = minHalfChunk + (halfChunkMask + 1) in (c, if c = 0 then minNeg - 1 else minNeg))
             else (minHalfChunk, minNeg));
          (maxHalfChunk, maxNeg) =
            (if maxHalfChunk AND m \<noteq> 0 then
               (let c = maxHalfChunk + (halfChunkMask + 1) in (c, if c = 0 then maxNeg - 1 else maxNeg))
             else (maxHalfChunk, maxNeg)) in
      if minHalfChunk = maxHalfChunk \<and> minNeg = maxNeg then
        (let lo = num (imin r) AND m; hi = num (imax r) AND m; half = halfChunkMask + 1 in
         Range (SEN ((lo XOR half) - half) (lo AND NOT halfChunkMask \<noteq> 0))
               (SEN ((hi XOR half) - half) (hi AND NOT halfChunkMask \<noteq> 0)))
      else Range (SEN (NOT halfChunkMask) True) (SEN halfChunkMask False))"

definition castUnsigned :: "u64 \<Rightarrow> int_range \<Rightarrow> int_range" where
  "castUnsigned m r =
     (let minChunk = num (imin r) AND NOT m; maxChunk = num (imax r) AND NOT m in
      if minChunk = maxChunk \<and> negative (imin r) = negative (imax r)
      then Range (SEN (num (imin r) AND m) False) (SEN (num (imax r) AND m) False)
      else Range (SEN 0 False) (SEN m False))"

definition castDchar :: "int_range \<Rightarrow> int_range" where
  "castDchar r =
     (let r = castUnsigned 0xFFFFFFFF r;
          clip = (\<lambda>a. if num a > 0x10FFFF then a\<lparr>num := 0x10FFFF\<rparr> else a) in
      Range (clip (imin r)) (clip (imax r)))"

definition range_contains :: "int_range \<Rightarrow> int_range \<Rightarrow> bool" where
  "range_contains r a \<longleftrightarrow> sen_le (imin r) (imin a) \<and> sen_le (imax a) (imax r)"

definition containsZero :: "int_range \<Rightarrow> bool" where
  "containsZero r \<longleftrightarrow> (negative (imin r) \<and> \<not> negative (imax r)) \<or> (\<not> negative (imin r) \<and> num (imin r) = 0)"

definition absNeg :: "int_range \<Rightarrow> int_range" where
  "absNeg r =
     (if negative (imax r) then r
      else if \<not> negative (imin r) then Range (sen_neg (imax r)) (sen_neg (imin r))
      else
        (let imaxAbsNeg = sen_neg (imax r) in
         Range (if sen_less imaxAbsNeg (imin r) then imaxAbsNeg else imin r) (SEN 0 False)))"

definition unionWith :: "int_range \<Rightarrow> int_range \<Rightarrow> int_range" where
  "unionWith r s =
     Range (if sen_less (imin r) (imin s) then imin r else imin s)
           (if sen_less (imax s) (imax r) then imax r else imax s)"

definition range_neg :: "int_range \<Rightarrow> int_range" where
  "range_neg r = Range (sen_neg (imax r)) (sen_neg (imin r))"

definition range_add :: "int_range \<Rightarrow> int_range \<Rightarrow> int_range" where
  "range_add r s = Range (sen_add (imin r) (imin s)) (sen_add (imax r) (imax s))"

definition range_sub :: "int_range \<Rightarrow> int_range \<Rightarrow> int_range" where
  "range_sub r s = Range (sen_sub (imin r) (imax s)) (sen_sub (imax r) (imin s))"

definition range_mul :: "int_range \<Rightarrow> int_range \<Rightarrow> int_range" where
  "range_mul r s = fromNumbers4 (sen_mul (imin r) (imin s)) (sen_mul (imin r) (imax s))
     (sen_mul (imax r) (imin s)) (sen_mul (imax r) (imax s))"

definition range_div :: "int_range \<Rightarrow> int_range \<Rightarrow> int_range" where
  "range_div r s =
     (if num (imax s) = 0 \<and> num (imin s) = 0 then widest
      else
        (let s = (if num (imax s) = 0 then s\<lparr>imax := (imax s)\<lparr>num := num (imax s) - 1\<rparr>\<rparr>
                  else if num (imin s) = 0 then s\<lparr>imin := (imin s)\<lparr>num := num (imin s) + 1\<rparr>\<rparr>
                  else s) in
         if \<not> negative (imin r) \<and> \<not> negative (imax r) \<and> \<not> negative (imin s) \<and> \<not> negative (imax s)
         then Range (sen_div (imin r) (imax s)) (sen_div (imax r) (imin s))
         else if negative (imin s) \<and> \<not> negative (imax s)
         then fromNumbers4 (sen_neg (imin r)) (imin r) (sen_neg (imax r)) (imax r)
         else fromNumbers4 (sen_div (imin r) (imin s)) (sen_div (imin r) (imax s))
           (sen_div (imax r) (imin s)) (sen_div (imax r) (imax s))))"

definition range_mod :: "int_range \<Rightarrow> int_range \<Rightarrow> int_range" where
  "range_mod r s =
     (let low = sen_add (imin (absNeg s)) (SEN 1 False); high = sen_neg low;
          lo = (if \<not> negative (imin r) then (imin r)\<lparr>num := 0\<rparr>
                else if sen_less (imin r) low then low else imin r);
          hi = (if negative (imax r) then SEN 0 False
                else if sen_less high (imax r) then high else imax r) in
      Range lo hi)"

definition shift_count :: "int_range \<Rightarrow> int_range" where
  "shift_count s = (if negative (imin s) then Range (SEN 0 False) (SEN 64 False) else s)"

definition range_shl :: "int_range \<Rightarrow> int_range \<Rightarrow> int_range" where
  "range_shl r s =
     (let s = shift_count s in
      Range (sen_shl (imin r) (if negative (imin r) then imax s else imin s))
            (sen_shl (imax r) (if negative (imax r) then imin s else imax s)))"

definition range_shr :: "int_range \<Rightarrow> int_range \<Rightarrow> int_range" where
  "range_shr r s =
     (let s = shift_count s in
      Range (sen_shr (imin r) (if negative (imin r) then imin s else imax s))
            (sen_shr (imax r) (if negative (imax r) then imax s else imin s)))"

definition range_ushr :: "int_range \<Rightarrow> int_range \<Rightarrow> int_range" where
  "range_ushr r s =
     (let s = shift_count s in
      Range (sen_shr (imin r) (imax s)) (sen_shr (imax r) (imin s)))"

section \<open>The integers behind the numbers\<close>

text \<open>\<open>uv\<close> is \<open>uint\<close> at 64 bits, kept folded so that its bounds stay visible to arithmetic.\<close>

definition uv :: "u64 \<Rightarrow> int" where "uv w = uint w"

definition sval :: "sen \<Rightarrow> int" where
  "sval a = uv (num a) - (if negative a then 18446744073709551616 else 0)"

definition clamp :: "int \<Rightarrow> int" where
  "clamp x = max (- 18446744073709551616) (min 18446744073709551615 x)"

lemma uv_bounds: "0 \<le> uv w \<and> uv w < 18446744073709551616"
  using uint_lt2p[of w] by (simp add: uv_def)

lemma uv_eq_iff: "uv a = uv b \<longleftrightarrow> a = b"
  by (simp add: uv_def word_uint_eq_iff)

lemma uv_0 [simp]: "uv 0 = 0" and uv_1 [simp]: "uv 1 = 1"
  by (simp_all add: uv_def)

lemma uv_0_iff [simp]: "uv w = 0 \<longleftrightarrow> w = 0"
  using uv_eq_iff[of w 0] by simp

lemma uv_pos: "w = 0 \<or> 0 < uv w"
  using uv_bounds[of w] uv_0_iff[of w] by linarith

lemma uv_less: "a < b \<longleftrightarrow> uv a < uv b" and uv_le: "a \<le> b \<longleftrightarrow> uv a \<le> uv b"
  by (simp_all add: uv_def word_less_def word_le_def)

lemma uv_m1 [simp]: "uv (- 1) = 18446744073709551615"
  by (simp add: uv_def unsigned_minus_1_eq_mask mask_numeral)

lemma uv_add: "uv (a + b) =
    (if uv a + uv b < 18446744073709551616 then uv a + uv b else uv a + uv b - 18446744073709551616)"
  by (simp add: uv_def uint_plus_if_size word_size)

lemma uv_neg: "uv (- a) = (if a = 0 then 0 else 18446744073709551616 - uv a)"
  using uint_lt2p[of a] by (auto simp: uv_def uint_word_ariths zmod_zminus1_eq_if uint_0_iff)

lemma sval_bounds: "- 18446744073709551616 \<le> sval a \<and> sval a < 18446744073709551616"
  using uv_bounds[of "num a"] by (auto simp: sval_def)

lemma clamp_sval [simp]: "clamp (sval a) = sval a"
  using sval_bounds[of a] by (simp add: clamp_def)

lemma clamp_mono: "x \<le> y \<Longrightarrow> clamp x \<le> clamp y"
  by (simp add: clamp_def)

lemma clamp_id: "- 18446744073709551616 \<le> x \<Longrightarrow> x < 18446744073709551616 \<Longrightarrow> clamp x = x"
  by (simp add: clamp_def)

lemma sen_less_iff: "sen_less a b \<longleftrightarrow> sval a < sval b"
  using uv_bounds[of "num a"] uv_bounds[of "num b"]
  by (cases "negative a"; cases "negative b") (auto simp: sen_less_def sen_cmp_def sval_def uv_less)

lemma sen_le_iff: "sen_le a b \<longleftrightarrow> sval a \<le> sval b"
  using uv_bounds[of "num a"] uv_bounds[of "num b"]
  by (cases "negative a"; cases "negative b") (auto simp: sen_le_def sen_cmp_def sval_def uv_less)

lemma copySign_False [simp]: "copySign x False = x"
  by (simp add: copySign_def of_flag_def)

lemma copySign_True [simp]: "copySign x True = - x"
  by (simp add: copySign_def of_flag_def not_eq_complement)

lemma sval_neg: "sval (sen_neg a) = clamp (- sval a)"
  using uv_bounds[of "num a"] uv_pos[of "num a"]
  by (cases "negative a"; cases "num a = 0")
    (auto simp: sen_neg_def sval_def clamp_def of_flag_def uv_neg)

lemma carry_iff: "(a + b < a \<and> a + b < (b :: u64)) \<longleftrightarrow> 18446744073709551616 \<le> uv a + uv b"
  using uv_bounds[of a] uv_bounds[of b] by (auto simp: uv_less uv_add)

lemma sval_add: "sval (sen_add a b) = clamp (sval a + sval b)"
  using uv_bounds[of "num a"] uv_bounds[of "num b"]
  by (cases "negative a"; cases "negative b"; cases "18446744073709551616 \<le> uv (num a) + uv (num b)")
    (auto simp: sen_add_def Let_def sval_def clamp_def carry_iff uv_add)

lemma isMinimum_iff: "isMinimum a \<longleftrightarrow> sval a = - 18446744073709551616"
  using uv_bounds[of "num a"] uv_0_iff[of "num a"]
  by (cases "negative a") (auto simp: isMinimum_def sval_def)

lemma sval_sub: "sval (sen_sub a b) = clamp (sval a - sval b)"
proof (cases "isMinimum b")
  case True
  then show ?thesis using uv_bounds[of "num a"]
    by (cases "negative a") (auto simp: sen_sub_def isMinimum_iff sval_def clamp_def sen_max_def)
next
  case False
  then have "sval (sen_neg b) = - sval b"
    using sval_bounds[of b] by (auto simp: sval_neg clamp_def isMinimum_iff)
  with False show ?thesis by (simp add: sen_sub_def sval_add)
qed

lemma negative_iff: "negative a \<longleftrightarrow> sval a < 0"
  using uv_bounds[of "num a"] by (auto simp: sval_def)

lemma num_0_iff: "num a = 0 \<longleftrightarrow> sval a = 0 \<or> sval a = - 18446744073709551616"
  using uv_bounds[of "num a"] uv_0_iff[of "num a"] by (auto simp: sval_def)

lemma uv_abs: "sval a \<noteq> - 18446744073709551616 \<Longrightarrow> uv (copySign (num a) (negative a)) = \<bar>sval a\<bar>"
  using uv_bounds[of "num a"] uv_pos[of "num a"] by (cases "negative a") (auto simp: sval_def uv_neg)

lemma uv_div: "uv (a div b) = uv a div uv b" and uv_mod: "uv (a mod b) = uv a mod uv b"
  by (simp_all add: uv_def uint_div uint_mod)

lemma uv_mult: "uv a * uv b < 18446744073709551616 \<Longrightarrow> uv (a * b) = uv a * uv b"
  using uv_bounds[of a] uv_bounds[of b] by (simp add: uv_def uint_word_ariths)

text \<open>A magnitude with a sign.\<close>

lemma sval_signed:
  assumes "uv v \<noteq> 0 \<or> \<not> n"
  shows "sval (SEN (copySign v n) n) = (if n then - uv v else uv v)"
  using uv_bounds[of v] assms by (cases n) (auto simp: sval_def uv_neg)

lemma sval_extreme: "sval (sen_extreme n) = (if n then - 18446744073709551616 else 18446744073709551615)"
  by (auto simp: sen_extreme_def sval_def of_flag_def)

lemma sval_max: "sval sen_max = 18446744073709551615" and sval_min: "sval sen_min = - 18446744073709551616"
  by (simp_all add: sen_max_def sen_min_def sval_def)

lemma abs_mult_sign: "(x :: int) * y = (if (x < 0) \<noteq> (y < 0) then - (\<bar>x\<bar> * \<bar>y\<bar>) else \<bar>x\<bar> * \<bar>y\<bar>)"
  by (auto simp: abs_if)

lemma int_div_less:
  assumes "0 < (q :: int)"
  shows "n div q < m \<longleftrightarrow> n < m * q"
proof -
  have "m \<le> n div q \<longleftrightarrow> m * q \<le> n"
  proof
    assume "m \<le> n div q"
    then have "m * q \<le> n div q * q" using assms by (intro mult_right_mono) auto
    also have "\<dots> \<le> n" using assms by (simp add: minus_mod_eq_div_mult [symmetric])
    finally show "m * q \<le> n" .
  next
    assume "m * q \<le> n"
    then have "m * q div q \<le> n div q" using assms by (rule zdiv_mono1)
    then show "m \<le> n div q" using assms by simp
  qed
  then show ?thesis by linarith
qed

lemma sval_mul_nonzero:
  assumes "num a \<noteq> 0" and "num b \<noteq> 0"
  shows "sval (sen_mul_nonzero a b) = clamp (sval a * sval b)"
proof -
  define t where "t = copySign (num a) (negative a)"
  define s where "s = copySign (num b) (negative b)"
  define n where "n \<longleftrightarrow> negative a \<noteq> negative b"
  have m: "sen_mul_nonzero a b =
      (if (- 1) div t < s then sen_extreme n else SEN (copySign (t * s) n) n)"
    by (simp add: sen_mul_nonzero_def sen_extreme_def Let_def t_def s_def n_def)
  have ts: "uv t = \<bar>sval a\<bar>" "uv s = \<bar>sval b\<bar>" and nz: "sval a \<noteq> 0" "sval b \<noteq> 0"
    using assms by (auto simp: num_0_iff t_def s_def intro!: uv_abs)
  have pos: "0 < uv t" "0 < uv s" using ts nz by auto
  have prod: "sval a * sval b = (if n then - (uv t * uv s) else uv t * uv s)"
    unfolding n_def negative_iff ts by (rule abs_mult_sign)
  have over: "(- 1) div t < s \<longleftrightarrow> 18446744073709551615 < uv t * uv s"
    using pos by (simp add: uv_less uv_div int_div_less mult.commute)
  show ?thesis
  proof (cases "18446744073709551615 < uv t * uv s")
    case True
    then have "sval (sen_mul_nonzero a b) = (if n then - 18446744073709551616 else 18446744073709551615)"
      using over by (simp add: m sval_extreme)
    then show ?thesis using prod True by (auto simp: clamp_def)
  next
    case False
    then have ts': "uv (t * s) = uv t * uv s" by (intro uv_mult) simp
    moreover have "uv t * uv s \<noteq> 0" using mult_pos_pos[OF pos] by linarith
    ultimately have "sval (sen_mul_nonzero a b) = (if n then - (uv t * uv s) else uv t * uv s)"
      using False over sval_signed[of "t * s" n] by (simp add: m)
    moreover have "0 < uv t * uv s" using pos by simp
    ultimately show ?thesis using prod False by (auto simp: clamp_def simp del: zero_less_mult_iff)
  qed
qed

lemma sval_mul_zero:
  assumes "num a = 0"
  shows "sval (sen_mul_zero a b) = clamp (sval a * sval b)"
proof (cases "negative a")
  case False
  then show ?thesis using assms by (simp add: sen_mul_zero_def sval_def clamp_def)
next
  case True
  then have a: "sval a = - 18446744073709551616" using assms by (simp add: sval_def)
  consider "sval b < 0" | "sval b = 0" | "sval b \<ge> 1" by linarith
  then show ?thesis
  proof cases
    case 1
    then show ?thesis using True a by (simp add: sen_mul_zero_def negative_iff sval_max clamp_def)
  next
    case 2
    then show ?thesis using True a by (simp add: sen_mul_zero_def negative_iff num_0_iff clamp_def)
  next
    case 3
    then show ?thesis using True a by (simp add: sen_mul_zero_def negative_iff num_0_iff clamp_def)
  qed
qed

lemma sval_mul: "sval (sen_mul a b) = clamp (sval a * sval b)"
  by (simp add: sen_mul_def sval_mul_zero sval_mul_nonzero mult.commute)

lemma uv_drop_bit: "uv (drop_bit k v) = uv v div 2 ^ k"
  using uv_bounds[of v] by (simp only: uv_def unsigned_drop_bit_eq) (simp add: drop_bit_eq_div take_bit_int_eq_self)

lemma uv_push_bit: "uv v * 2 ^ k < 18446744073709551616 \<Longrightarrow> k < 64 \<Longrightarrow> uv (push_bit k v) = uv v * 2 ^ k"
  using uv_bounds[of v]
  by (simp only: uv_def unsigned_push_bit_eq) (simp add: push_bit_eq_mult take_bit_int_eq_self_iff)

text \<open>One step of the search for the highest bit: with \<open>e\<close> bits taken off, \<open>v\<close> lies in the
  range that \<open>v'\<close> determines.\<close>

lemma log2_step:
  assumes "0 < uv v" and "uv v < 2 ^ (2 * k)" and "uv m = 2 ^ k - 1" and "s = push_bit n (of_flag (v > m))"
    and "unat (push_bit n (1 :: u64)) = k" and "v' = drop_bit (unat s) v" and "k < 64"
  obtains e where "e = 0 \<and> s = 0 \<or> e = k \<and> s = push_bit n 1" and "0 < uv v'" and "uv v' < 2 ^ k"
    and "uv v' * 2 ^ e \<le> uv v" and "uv v < (uv v' + 1) * 2 ^ e"
proof (cases "v > m")
  case True
  then have ge: "2 ^ k \<le> uv v" using assms(3) by (simp add: uv_less)
  have s: "s = push_bit n 1" using True assms(4) by (simp add: of_flag_def)
  then have v': "uv v' = uv v div 2 ^ k" using assms(5,6) by (simp add: uv_drop_bit)
  have "uv v = uv v div 2 ^ k * 2 ^ k + uv v mod 2 ^ k" by (simp add: mult.commute)
  moreover have "0 \<le> uv v mod 2 ^ k" "uv v mod 2 ^ k < 2 ^ k" by simp_all
  ultimately have "uv v' * 2 ^ k \<le> uv v" "uv v < (uv v' + 1) * 2 ^ k"
    unfolding v' distrib_right by linarith+
  moreover have "0 < uv v'" using ge by (simp add: v' pos_imp_zdiv_pos_iff)
  moreover have "uv v' < 2 ^ k" using assms(2)
    by (simp add: v' int_div_less mult_2 power_add)
  ultimately show thesis using s by (intro that[of k]) auto
next
  case False
  then have "uv v < 2 ^ k" using assms(3) by (simp add: uv_less)
  moreover have "s = 0" using False assms(4) by (simp add: of_flag_def)
  ultimately show thesis using assms(1,6) by (intro that[of 0]) auto
qed

lemma log2_compose:
  fixes v0 v1 v2 :: int
  assumes "v1 * 2 ^ a \<le> v0" "v0 < (v1 + 1) * 2 ^ a" "v2 * 2 ^ b \<le> v1" "v1 < (v2 + 1) * 2 ^ b"
  shows "v2 * 2 ^ (a + b) \<le> v0" "v0 < (v2 + 1) * 2 ^ (a + b)"
proof -
  have "v2 * 2 ^ b * 2 ^ a \<le> v1 * 2 ^ a" using assms(3) by (intro mult_right_mono) auto
  also have "\<dots> \<le> v0" by (rule assms(1))
  finally show "v2 * 2 ^ (a + b) \<le> v0" by (simp add: power_add mult_ac)
  have "(v1 + 1) * 2 ^ a \<le> (v2 + 1) * 2 ^ b * 2 ^ a" using assms(4) by (intro mult_right_mono) auto
  with assms(2) have "v0 < (v2 + 1) * 2 ^ b * 2 ^ a" by (rule less_le_trans)
  then show "v0 < (v2 + 1) * 2 ^ (a + b)" by (simp add: power_add mult_ac)
qed

lemma log2_bits_result:
  assumes "0 < uv v"
  obtains k where "log2_bits v = of_nat k" and "k < 64" and "2 ^ k \<le> uv v" and "uv v < 2 ^ Suc k"
proof -
  define s1 where "s1 = push_bit 5 (of_flag (v > 0xFFFFFFFF))"
  define v1 where "v1 = drop_bit (unat s1) v"
  define s2 where "s2 = push_bit 4 (of_flag (v1 > 0xFFFF))"
  define v2 where "v2 = drop_bit (unat s2) v1"
  define s3 where "s3 = push_bit 3 (of_flag (v2 > 0xFF))"
  define v3 where "v3 = drop_bit (unat s3) v2"
  define s4 where "s4 = push_bit 2 (of_flag (v3 > 0xF))"
  define v4 where "v4 = drop_bit (unat s4) v3"
  define s5 where "s5 = push_bit 1 (of_flag (v4 > 0x3))"
  define v5 where "v5 = drop_bit (unat s5) v4"
  have log: "log2_bits v = s1 OR s2 OR s3 OR s4 OR s5 OR drop_bit 1 v5"
    unfolding log2_bits_def Let_def s1_def[symmetric] v1_def[symmetric] s2_def[symmetric]
      v2_def[symmetric] s3_def[symmetric] v3_def[symmetric] s4_def[symmetric] v4_def[symmetric]
      s5_def[symmetric] v5_def[symmetric] by (simp add: ac_simps)
  have uvn: "uv 0xFFFFFFFF = 2 ^ 32 - 1" "uv 0xFFFF = 2 ^ 16 - 1" "uv 0xFF = 2 ^ 8 - 1"
    "uv 0xF = 2 ^ 4 - 1" "uv 3 = 2 ^ 2 - 1" by (simp_all add: uv_def)
  obtain e1 where e1: "e1 = 0 \<and> s1 = 0 \<or> e1 = 32 \<and> s1 = push_bit 5 1" "0 < uv v1" "uv v1 < 2 ^ 32"
    "uv v1 * 2 ^ e1 \<le> uv v" "uv v < (uv v1 + 1) * 2 ^ e1"
    by (rule log2_step[OF assms _ uvn(1) s1_def _ v1_def]) (use uv_bounds[of v] in simp_all)
  obtain e2 where e2: "e2 = 0 \<and> s2 = 0 \<or> e2 = 16 \<and> s2 = push_bit 4 1" "0 < uv v2" "uv v2 < 2 ^ 16"
    "uv v2 * 2 ^ e2 \<le> uv v1" "uv v1 < (uv v2 + 1) * 2 ^ e2"
    by (rule log2_step[OF e1(2) _ uvn(2) s2_def _ v2_def]) (use e1(3) in simp_all)
  obtain e3 where e3: "e3 = 0 \<and> s3 = 0 \<or> e3 = 8 \<and> s3 = push_bit 3 1" "0 < uv v3" "uv v3 < 2 ^ 8"
    "uv v3 * 2 ^ e3 \<le> uv v2" "uv v2 < (uv v3 + 1) * 2 ^ e3"
    by (rule log2_step[OF e2(2) _ uvn(3) s3_def _ v3_def]) (use e2(3) in simp_all)
  obtain e4 where e4: "e4 = 0 \<and> s4 = 0 \<or> e4 = 4 \<and> s4 = push_bit 2 1" "0 < uv v4" "uv v4 < 2 ^ 4"
    "uv v4 * 2 ^ e4 \<le> uv v3" "uv v3 < (uv v4 + 1) * 2 ^ e4"
    by (rule log2_step[OF e3(2) _ uvn(4) s4_def _ v4_def]) (use e3(3) in simp_all)
  obtain e5 where e5: "e5 = 0 \<and> s5 = 0 \<or> e5 = 2 \<and> s5 = push_bit 1 1" "0 < uv v5" "uv v5 < 2 ^ 2"
    "uv v5 * 2 ^ e5 \<le> uv v4" "uv v4 < (uv v5 + 1) * 2 ^ e5"
    by (rule log2_step[OF e4(2) _ uvn(5) s5_def _ v5_def]) (use e4(3) in simp_all)
  note c12 = log2_compose[OF e1(4,5) e2(4,5)]
  note c123 = log2_compose[OF c12 e3(4,5)]
  note c1234 = log2_compose[OF c123 e4(4,5)]
  note c = log2_compose[OF c1234 e5(4,5)]
  have uv23: "uv 2 = 2" "uv 3 = 3" by (simp_all add: uv_def)
  have "uv v5 = 1 \<or> uv v5 = 2 \<or> uv v5 = 3" using e5(2,3) by auto
  then have v5: "v5 = 1 \<or> v5 = 2 \<or> v5 = 3" using uv_eq_iff[of v5 1] uv_eq_iff[of v5 2] uv_eq_iff[of v5 3] uv23 by simp
  define e6 where "e6 = (if v5 = 1 then 0 else 1 :: nat)"
  have d: "drop_bit 1 v5 = of_nat e6" "e6 = 0 \<or> e6 = 1" and
    c6: "1 * 2 ^ e6 \<le> uv v5" "uv v5 < (1 + 1) * 2 ^ e6"
    using v5 by (auto simp: e6_def uv_def)
  note k = log2_compose[OF c c6]
  have "log2_bits v = of_nat (e1 OR e2 OR e3 OR e4 OR e5 OR e6)"
  proof -
    have "s1 = of_nat e1" using e1(1) by auto
    moreover have "s2 = of_nat e2" using e2(1) by auto
    moreover have "s3 = of_nat e3" using e3(1) by auto
    moreover have "s4 = of_nat e4" using e4(1) by auto
    moreover have "s5 = of_nat e5" using e5(1) by auto
    ultimately show ?thesis by (simp only: log d(1) of_nat_or_eq)
  qed
  moreover have "e1 OR e2 OR e3 OR e4 OR e5 OR e6 = e1 + e2 + e3 + e4 + e5 + e6"
  proof -
    have "e1 = 0 \<or> e1 = 32" "e2 = 0 \<or> e2 = 16" "e3 = 0 \<or> e3 = 8" "e4 = 0 \<or> e4 = 4" "e5 = 0 \<or> e5 = 2"
      using e1(1) e2(1) e3(1) e4(1) e5(1) by blast+
    with d(2) show ?thesis by (elim disjE) simp_all
  qed
  moreover have "e1 + e2 + e3 + e4 + e5 + e6 < 64"
    using e1(1) e2(1) e3(1) e4(1) e5(1) by (auto simp: e6_def)
  ultimately show thesis using k by (intro that[of "e1 + e2 + e3 + e4 + e5 + e6"]) simp_all
qed

definition tdiv :: "int \<Rightarrow> int \<Rightarrow> int" where
  "tdiv x y = (if (x < 0) \<noteq> (y < 0) then - (\<bar>x\<bar> div \<bar>y\<bar>) else \<bar>x\<bar> div \<bar>y\<bar>)"

definition tmod :: "int \<Rightarrow> int \<Rightarrow> int" where
  "tmod x y = (if x < 0 then - (\<bar>x\<bar> mod \<bar>y\<bar>) else \<bar>x\<bar> mod \<bar>y\<bar>)"

lemma copySign_0: "copySign v n = 0 \<longleftrightarrow> v = 0"
  by (cases n) auto

lemma sval_signed_or_zero:
  "sval (SEN (copySign v n) (copySign v n \<noteq> 0 \<and> n)) = (if n then - uv v else uv v)"
proof (cases "v = 0")
  case True
  then show ?thesis by (cases n) (simp_all add: sval_def)
next
  case False
  then show ?thesis using sval_signed[of v n] copySign_0[of v n] by simp
qed

lemma sval_div:
  assumes "sval a \<noteq> - 18446744073709551616" and "sval b \<noteq> 0"
  shows "sval (sen_div a b) = tdiv (sval a) (sval b)"
proof (cases "num b = 0")
  case True
  then have "sval b = - 18446744073709551616" "negative b" using assms(2)
    by (auto simp: num_0_iff negative_iff)
  moreover have "\<bar>sval a\<bar> div 18446744073709551616 = 0"
    using sval_bounds[of a] assms(1) by (intro div_pos_pos_trivial) auto
  moreover have "\<not> (num a = 0 \<and> negative a)" using assms(1) isMinimum_iff[of a] by (auto simp: isMinimum_def)
  ultimately show ?thesis using True
    by (auto simp: sen_div_def tdiv_def of_flag_def sval_def[of "SEN 0 False"])
next
  case False
  define t where "t = copySign (num a) (negative a)"
  define s where "s = copySign (num b) (negative b)"
  define n where "n \<longleftrightarrow> negative a \<noteq> negative b"
  have "sen_div a b = SEN (copySign (t div s) n) (copySign (t div s) n \<noteq> 0 \<and> n)"
    using False assms(1) by (simp add: sen_div_def Let_def isMinimum_iff t_def s_def n_def)
  moreover have "uv t = \<bar>sval a\<bar>" "uv s = \<bar>sval b\<bar>"
    using assms(1) False by (auto simp: t_def s_def num_0_iff intro!: uv_abs)
  ultimately show ?thesis
    by (simp only: sval_signed_or_zero uv_div tdiv_def n_def negative_iff)
qed

lemma sval_mod:
  assumes "sval a \<noteq> - 18446744073709551616" and "sval b \<noteq> 0"
  shows "sval (sen_mod a b) = tmod (sval a) (sval b)"
proof (cases "num b = 0")
  case True
  then have "sval b = - 18446744073709551616" "negative b" using assms(2)
    by (auto simp: num_0_iff negative_iff)
  moreover have "\<bar>sval a\<bar> mod 18446744073709551616 = \<bar>sval a\<bar>"
    using sval_bounds[of a] assms(1) by (intro mod_pos_pos_trivial) auto
  ultimately show ?thesis using True assms(1)
    by (simp add: sen_mod_def tmod_def isMinimum_iff)
next
  case False
  define t where "t = copySign (num a) (negative a)"
  define s where "s = copySign (num b) (negative b)"
  have "sen_mod a b = SEN (copySign (t mod s) (negative a)) (copySign (t mod s) (negative a) \<noteq> 0 \<and> negative a)"
    using False assms(1) by (simp add: sen_mod_def Let_def isMinimum_iff t_def s_def)
  moreover have "uv t = \<bar>sval a\<bar>" "uv s = \<bar>sval b\<bar>"
    using assms(1) False by (auto simp: t_def s_def num_0_iff intro!: uv_abs)
  ultimately show ?thesis
    by (simp only: sval_signed_or_zero uv_mod tmod_def negative_iff)
qed

lemma clamp_low: "1 \<le> p \<Longrightarrow> clamp (- 18446744073709551616 * p) = - 18446744073709551616"
  by (simp add: clamp_def)

lemma uv_of_nat: "n < 18446744073709551616 \<Longrightarrow> uv (of_nat n) = int n"
  by (simp add: uv_def unsigned_of_nat take_bit_nat_eq_self)

lemma sval_shl:
  assumes "0 \<le> sval b"
  shows "sval (sen_shl a b) = clamp (sval a * 2 ^ nat (sval b))"
proof (cases "num a = 0")
  case True
  then consider "sval a = 0" | "sval a = - 18446744073709551616" by (auto simp: num_0_iff)
  then show ?thesis
  proof cases
    case 2
    have "clamp (- 18446744073709551616 * 2 ^ nat (sval b)) = - 18446744073709551616"
      by (rule clamp_low) simp
    then show ?thesis using True 2 by (simp add: sen_shl_def)
  qed (use True in \<open>simp add: sen_shl_def clamp_def\<close>)
next
  case False
  define t where "t = copySign (num a) (negative a)"
  have t: "uv t = \<bar>sval a\<bar>" "0 < uv t" using False by (auto simp: t_def num_0_iff uv_abs)
  obtain k where k: "log2_bits t = of_nat k" "k < 64" "2 ^ k \<le> uv t" "uv t < 2 ^ Suc k"
    using log2_bits_result[OF t(2)] by blast
  have nb: "\<not> negative b" using assms by (simp add: negative_iff)
  then have b: "uv (num b) = sval b" by (simp add: sval_def)
  define n where "n = nat (sval b)"
  have un: "unat (num b) = n" "int n = sval b" using b assms by (simp_all add: n_def uv_def unat_eq_nat_uint)
  have "uv (63 - of_nat k) = 63 - int k"
  proof -
    have "(63 - of_nat k :: u64) = of_nat (63 - k)" using k(2) by (simp add: of_nat_diff)
    then show ?thesis using k(2) by (simp only: uv_of_nat)
  qed
  then have over: "num b > 63 - log2_bits t \<longleftrightarrow> 63 < k + n" using b un k(1,2) by (simp add: uv_less) linarith
  have sgn: "sval a = (if negative a then - uv t else uv t)" using t by (auto simp: negative_iff)
  have shl: "sen_shl a b = (if 63 < k + n then sen_extreme (negative a)
      else SEN (push_bit n (num a)) (negative a))"
    using False nb over un(1) by (simp add: sen_shl_def Let_def t_def)
  show ?thesis
  proof (cases "63 < k + n")
    case True
    have "(2 :: int) ^ 64 \<le> 2 ^ (k + n)" using True by (intro power_increasing) auto
    also have "\<dots> \<le> uv t * 2 ^ n" using k(3) by (simp add: power_add)
    finally have "18446744073709551616 \<le> uv t * 2 ^ n" by simp
    then show ?thesis using True by (simp add: shl sval_extreme sgn clamp_def flip: n_def)
  next
    case False
    have "uv t * 2 ^ n < 2 ^ Suc k * 2 ^ n" using k(4) by simp
    also have "\<dots> = 2 ^ (Suc k + n)" by (simp add: power_add)
    also have "\<dots> \<le> 2 ^ 64" using False by (intro power_increasing) auto
    finally have small: "uv t * 2 ^ n < 18446744073709551616" by simp
    then have u: "uv (push_bit n t) = uv t * 2 ^ n" using False by (intro uv_push_bit) auto
    have p: "push_bit n (num a) = copySign (push_bit n t) (negative a)"
      by (cases "negative a") (simp_all add: t_def push_bit_eq_mult)
    have "0 < uv t * 2 ^ n" using t(2) by simp
    then have "uv (push_bit n t) \<noteq> 0" unfolding u by linarith
    then have "sval (sen_shl a b) = (if negative a then - (uv t * 2 ^ n) else uv t * 2 ^ n)"
      using False sval_signed[of "push_bit n t" "negative a"] u by (simp add: shl p)
    moreover have "0 < uv t * 2 ^ n" using t(2) by simp
    ultimately show ?thesis using small
      by (auto simp: sgn clamp_def simp del: zero_less_mult_iff simp flip: n_def)
  qed
qed

lemma uv_not: "uv (NOT w) = 18446744073709551615 - uv w"
proof -
  have "uv (w + NOT w) = 18446744073709551615" by simp
  then show ?thesis using uv_bounds[of w] uv_bounds[of "NOT w"] unfolding uv_add[of w "NOT w"]
    by (auto split: if_splits)
qed

lemma int_not_div: "0 < (m :: int) \<Longrightarrow> (- 1 - x) div m = - 1 - x div m"
proof -
  assume m: "0 < m"
  have "x = x div m * m + x mod m" by simp
  then have "- 1 - x = (- 1 - x div m) * m + (m - 1 - x mod m)" by (simp add: algebra_simps)
  moreover have "0 \<le> m - 1 - x mod m" "m - 1 - x mod m < m" using m pos_mod_bound[of m x] pos_mod_sign[of m x] by linarith+
  ultimately show ?thesis using m by (metis div_pos_pos_trivial div_mult_self3 add.commute add_0 less_irrefl)
qed

lemma uv63: "uv 63 = 63"
  by (simp add: uv_def)

lemma sval_shr:
  assumes "0 \<le> sval b"
  shows "sval (sen_shr a b) = sval a div 2 ^ nat (sval b)"
proof -
  have nb: "\<not> negative b" using assms by (simp add: negative_iff)
  then have b: "uv (num b) = sval b" by (simp add: sval_def)
  define n where "n = nat (sval b)"
  have un: "unat (num b) = n" using b assms by (simp add: n_def uv_def unat_eq_nat_uint)
  have sb: "sval b = int n" using assms by (simp add: n_def)
  have big: "num b > 63 \<longleftrightarrow> 63 < n" and z: "num b = 0 \<longleftrightarrow> n = 0"
    using b sb uv_0_iff[of "num b"] by (auto simp: uv_less uv63)
  consider "63 < n" | "n \<le> 63" "isMinimum a" | "n \<le> 63" "\<not> isMinimum a" by linarith
  then have "sval (sen_shr a b) = sval a div 2 ^ n"
  proof cases
    case 1
    then have "(2 :: int) ^ 64 \<le> 2 ^ n" by (intro power_increasing) auto
    then have "18446744073709551616 \<le> (2 :: int) ^ n" by simp
    moreover have "sval a div 2 ^ n = - 1 - (- 1 - sval a) div 2 ^ n"
      using int_not_div[of "2 ^ n" "sval a"] by simp
    ultimately have "sval a div 2 ^ n = (if sval a < 0 then - 1 else 0)"
      using sval_bounds[of a] by (auto simp: div_pos_pos_trivial)
    then show ?thesis using 1
      by (simp add: sen_shr_def big sval_def[of "SEN (- 1) True"] sval_def[of "SEN 0 False"] flip: negative_iff)
  next
    case 2
    then have a: "sval a = - 18446744073709551616" by (simp add: isMinimum_iff)
    show ?thesis
    proof (cases "n = 0")
      case True
      then show ?thesis using 2 nb by (simp add: sen_shr_def big z)
    next
      case False
      have "(2 :: int) ^ (64 - n) * 2 ^ n = 18446744073709551616" using 2 by (simp flip: power_add)
      then have "sval a = - (2 ^ (64 - n)) * 2 ^ n" using a by simp
      then have "sval a div 2 ^ n = - (2 ^ (64 - n))" by (metis nonzero_mult_div_cancel_right power_not_zero zero_neq_numeral)
      moreover have "uv (push_bit (64 - n) (- 1)) = 18446744073709551616 - 2 ^ (64 - n)"
      proof -
        have m: "(2 :: int) ^ (64 - n) < 2 ^ 64" using False by (intro power_strict_increasing) auto
        then have p: "uv (push_bit (64 - n) 1) = 2 ^ (64 - n)"
          using uv_push_bit[of 1 "64 - n"] False by simp
        then have "push_bit (64 - n) (1 :: u64) \<noteq> 0" by (metis uv_0 power_not_zero zero_neq_numeral)
        moreover have "push_bit (64 - n) (- 1 :: u64) = - push_bit (64 - n) 1"
          by (simp only: push_bit_eq_mult) simp
        ultimately show ?thesis using p by (simp only: uv_neg if_False)
      qed
      ultimately show ?thesis using 2 False nb un by (simp add: sen_shr_def big z sval_def)
    qed
  next
    case 3
    then show ?thesis
    proof (cases "negative a")
      case True
      have "sval (sen_shr a b) = uv (NOT (drop_bit n (NOT (num a)))) - 18446744073709551616"
        using 3 True nb un by (simp add: sen_shr_def big of_flag_def sval_def Let_def)
      also have "\<dots> = - 1 - (- 1 - sval a) div 2 ^ n"
        using True by (simp add: uv_not uv_drop_bit sval_def algebra_simps)
      finally show ?thesis by (simp add: int_not_div)
    next
      case False
      then show ?thesis using 3 nb un
        by (simp add: sen_shr_def big of_flag_def sval_def uv_drop_bit)
    qed
  qed
  then show ?thesis by (simp add: n_def)
qed


section \<open>Properties\<close>

text \<open>C30: The 65-bit arithmetic with sign is that of the integers, saturated: negation, sum,
  difference and product of two \<open>SignExtendedNumber\<close>s are the integer results cut off at
  \<open>-2^64\<close> and \<open>2^64 - 1\<close>, and their comparison is that of the integers.\<close>

theorem sen_arithmetic_saturates:
  "sval (sen_neg a) = clamp (- sval a) \<and> sval (sen_add a b) = clamp (sval a + sval b)
   \<and> sval (sen_sub a b) = clamp (sval a - sval b) \<and> sval (sen_mul a b) = clamp (sval a * sval b)
   \<and> (sen_less a b \<longleftrightarrow> sval a < sval b)"
  by (intro conjI sval_neg sval_add sval_sub sval_mul sen_less_iff)

text \<open>Quotient and remainder of two \<open>SignExtendedNumber\<close>s are the truncated ones of the
  integers, with the sign of the dividend on the remainder, for every dividend but \<open>-2^64\<close>.\<close>

lemma sen_division_truncates:
  assumes "sval b \<noteq> 0" and "sval a \<noteq> - 18446744073709551616"
  shows "sval (sen_div a b) = tdiv (sval a) (sval b) \<and> sval (sen_mod a b) = tmod (sval a) (sval b)"
  using assms by (simp add: sval_div sval_mod)

end
