(* ===== verification/Range_Laws.thy ===== *)
theory Range_Laws
  imports Int_Range
begin

text \<open>
  The intervals of intrange.d contain what they should: the result of an operation on members
  of two intervals is a member of the interval the compiler computes, once it is cut off to the
  65-bit numbers (\<open>clamp\<close>).  The casts \<open>castUnsigned\<close> and \<open>castSigned\<close> contain the value
  wrapped to the width of the mask.  The locale states these laws as the interface of the value
  range propagation of expressions, and the intervals are an instance of it.
\<close>

unbundle bit_operations_syntax

section \<open>Membership\<close>

definition in_range :: "int \<Rightarrow> int_range \<Rightarrow> bool" where
  "in_range x r \<longleftrightarrow> sval (imin r) \<le> x \<and> x \<le> sval (imax r)"

lemma in_range_bounds: "in_range x r \<Longrightarrow> - 18446744073709551616 \<le> x \<and> x < 18446744073709551616"
  using sval_bounds[of "imin r"] sval_bounds[of "imax r"] by (auto simp: in_range_def)

lemma range_add_sound:
  "in_range x r \<Longrightarrow> in_range y s \<Longrightarrow> in_range (clamp (x + y)) (range_add r s)"
  by (auto simp: in_range_def range_add_def sval_add intro!: clamp_mono)

lemma range_sub_sound:
  "in_range x r \<Longrightarrow> in_range y s \<Longrightarrow> in_range (clamp (x - y)) (range_sub r s)"
  by (auto simp: in_range_def range_sub_def sval_sub intro!: clamp_mono)

lemma range_neg_sound: "in_range x r \<Longrightarrow> in_range (clamp (- x)) (range_neg r)"
  by (auto simp: in_range_def range_neg_def sval_neg intro!: clamp_mono)

lemma unionWith_sound: "in_range x r \<or> in_range x s \<Longrightarrow> in_range x (unionWith r s)"
  by (auto simp: in_range_def unionWith_def sen_less_iff)

lemma fromNumbers2_bounds:
  "sval (imin (fromNumbers2 a b)) = min (sval a) (sval b)"
  "sval (imax (fromNumbers2 a b)) = max (sval a) (sval b)"
  by (auto simp: fromNumbers2_def sen_less_iff)

lemma fromNumbers4_bounds:
  "sval (imin (fromNumbers4 a b c d)) = min (min (sval a) (sval b)) (min (sval c) (sval d))"
  "sval (imax (fromNumbers4 a b c d)) = max (max (sval a) (sval b)) (max (sval c) (sval d))"
  by (auto simp: fromNumbers4_def Let_def sen_less_iff fromNumbers2_bounds)

lemma fromNumbers4_contains:
  assumes "\<exists>p \<in> {sval a, sval b, sval c, sval d}. p \<le> x" and "\<exists>p \<in> {sval a, sval b, sval c, sval d}. x \<le> p"
  shows "in_range x (fromNumbers4 a b c d)"
  using assms by (auto simp: in_range_def fromNumbers4_bounds min_le_iff_disj le_max_iff_disj)

text \<open>A product is between products of the ends.\<close>

lemma mult_corner_low:
  fixes a b c d x y :: int
  assumes "a \<le> x" "x \<le> b" "c \<le> y" "y \<le> d"
  shows "\<exists>p \<in> {a * c, a * d, b * c, b * d}. p \<le> x * y"
proof -
  obtain e where e: "e = a \<or> e = b" "e * y \<le> x * y"
    using assms(1,2) by (cases "0 \<le> y") (auto intro: mult_right_mono mult_right_mono_neg)
  obtain f where f: "f = c \<or> f = d" "e * f \<le> e * y"
    using assms(3,4) by (cases "0 \<le> e") (auto intro: mult_left_mono mult_left_mono_neg)
  show ?thesis using e f by (intro bexI[of _ "e * f"]) auto
qed

lemma mult_corner_high:
  fixes a b c d x y :: int
  assumes "a \<le> x" "x \<le> b" "c \<le> y" "y \<le> d"
  shows "\<exists>p \<in> {a * c, a * d, b * c, b * d}. x * y \<le> p"
proof -
  have "\<exists>p \<in> {- b * c, - b * d, - a * c, - a * d}. p \<le> - x * y"
    using mult_corner_low[of "- b" "- x" "- a" c y d] assms by auto
  then show ?thesis by auto
qed

lemma range_mul_sound:
  assumes "in_range x r" and "in_range y s"
  shows "in_range (clamp (x * y)) (range_mul r s)"
  unfolding range_mul_def
proof (rule fromNumbers4_contains)
  have b: "sval (imin r) \<le> x" "x \<le> sval (imax r)" "sval (imin s) \<le> y" "y \<le> sval (imax s)"
    using assms by (auto simp: in_range_def)
  from mult_corner_low[OF b]
  show "\<exists>p \<in> {sval (sen_mul (imin r) (imin s)), sval (sen_mul (imin r) (imax s)),
      sval (sen_mul (imax r) (imin s)), sval (sen_mul (imax r) (imax s))}. p \<le> clamp (x * y)"
    unfolding sval_mul using clamp_mono by blast
  from mult_corner_high[OF b]
  show "\<exists>p \<in> {sval (sen_mul (imin r) (imin s)), sval (sen_mul (imin r) (imax s)),
      sval (sen_mul (imax r) (imin s)), sval (sen_mul (imax r) (imax s))}. clamp (x * y) \<le> p"
    unfolding sval_mul using clamp_mono by blast
qed

section \<open>Quotients\<close>

lemma tdiv_neg_right: "y \<noteq> 0 \<Longrightarrow> tdiv x (- y) = - tdiv x y"
  by (auto simp: tdiv_def)

lemma tdiv_mono:
  assumes "0 < y" "x \<le> x'"
  shows "tdiv x y \<le> tdiv x' y"
proof -
  consider "0 \<le> x" | "x < 0" "0 \<le> x'" | "x' < 0" by linarith
  then show ?thesis
  proof cases
    case 1
    then show ?thesis using assms by (auto simp: tdiv_def zdiv_mono1)
  next
    case 2
    then have "0 \<le> \<bar>x\<bar> div y" "0 \<le> \<bar>x'\<bar> div y" using assms(1) by (simp_all add: pos_imp_zdiv_nonneg_iff)
    then show ?thesis using 2 assms(1) by (simp add: tdiv_def)
  next
    case 3
    then have "\<bar>x'\<bar> div y \<le> \<bar>x\<bar> div y" using assms by (intro zdiv_mono1) auto
    then show ?thesis using 3 assms by (simp add: tdiv_def)
  qed
qed

lemma tdiv_anti:
  assumes "0 < y" "y \<le> y'" "0 \<le> x"
  shows "tdiv x y' \<le> tdiv x y"
  using assms by (simp add: tdiv_def zdiv_mono2)

lemma tdiv_neg_left: "y \<noteq> 0 \<Longrightarrow> tdiv (- x) y = - tdiv x y"
  by (auto simp: tdiv_def)

lemma tdiv_between:
  assumes "0 < c" "c \<le> y" "y \<le> d"
  shows "min (tdiv x c) (tdiv x d) \<le> tdiv x y \<and> tdiv x y \<le> max (tdiv x c) (tdiv x d)"
proof (cases "0 \<le> x")
  case True
  then show ?thesis using tdiv_anti[of c y x] tdiv_anti[of y d x] assms by auto
next
  case False
  then have "tdiv (- x) y \<le> tdiv (- x) c" "tdiv (- x) d \<le> tdiv (- x) y"
    using tdiv_anti[of c y "- x"] tdiv_anti[of y d "- x"] assms by auto
  then show ?thesis using assms by (simp add: tdiv_neg_left)
qed

lemma tdiv_corners_pos:
  assumes "0 < c" "c \<le> y" "y \<le> d" "a \<le> x" "x \<le> b"
  shows "\<exists>p \<in> {tdiv a c, tdiv a d, tdiv b c, tdiv b d}. p \<le> tdiv x y"
    and "\<exists>p \<in> {tdiv a c, tdiv a d, tdiv b c, tdiv b d}. tdiv x y \<le> p"
  using tdiv_between[of c y d a] tdiv_between[of c y d b] tdiv_mono[of y a x] tdiv_mono[of y x b] assms
  by (auto simp: min_le_iff_disj le_max_iff_disj intro: order_trans)

lemma tdiv_corners_neg:
  assumes "d < 0" "c \<le> y" "y \<le> d" "a \<le> x" "x \<le> b"
  shows "\<exists>p \<in> {tdiv a c, tdiv a d, tdiv b c, tdiv b d}. p \<le> tdiv x y"
    and "\<exists>p \<in> {tdiv a c, tdiv a d, tdiv b c, tdiv b d}. tdiv x y \<le> p"
  using tdiv_corners_pos[of "- d" "- y" "- c" a x b] assms by (auto simp: tdiv_neg_right)

lemma tdiv_abs_le:
  assumes "y \<noteq> 0"
  shows "- \<bar>x\<bar> \<le> tdiv x y \<and> tdiv x y \<le> \<bar>x\<bar>"
proof -
  have "\<bar>x\<bar> div \<bar>y\<bar> \<le> \<bar>x\<bar> div 1" using assms by (intro zdiv_mono2) auto
  moreover have "0 \<le> \<bar>x\<bar> div \<bar>y\<bar>" using assms by (simp add: pos_imp_zdiv_nonneg_iff)
  ultimately show ?thesis by (auto simp: tdiv_def)
qed

lemma neg_in_range_abs:
  assumes "sval (imin r) \<le> x" "x \<le> sval (imax r)" "- \<bar>x\<bar> \<le> z" "z \<le> \<bar>x\<bar>"
    and "sval (imin r) \<noteq> - 18446744073709551616"
  shows "in_range z (fromNumbers4 (sen_neg (imin r)) (imin r) (sen_neg (imax r)) (imax r))"
proof -
  have "sval (sen_neg (imin r)) = - sval (imin r)" "sval (sen_neg (imax r)) = - sval (imax r)"
    using sval_bounds[of "imin r"] sval_bounds[of "imax r"] assms(1,2,5) by (auto simp: sval_neg clamp_def)
  with assms(1-4) show ?thesis by (intro fromNumbers4_contains) auto
qed

lemma sval_incr: "sval a = 0 \<Longrightarrow> sval (a\<lparr>num := num a + 1\<rparr>) = 1"
  using uv_bounds[of "num a"] by (cases "negative a") (auto simp: sval_def)

text \<open>The quotient is exact only when the dividend is not the least number of 65 bits.\<close>

lemma range_div_sound:
  assumes "in_range x r" and "in_range y s" and "y \<noteq> 0"
    and "sval (imin r) \<noteq> - 18446744073709551616" and "sval (imin s) \<noteq> - 18446744073709551616"
  shows "in_range (tdiv x y) (range_div r s)"
proof -
  have x: "sval (imin r) \<le> x" "x \<le> sval (imax r)" and y: "sval (imin s) \<le> y" "y \<le> sval (imax s)"
    using assms(1,2) by (auto simp: in_range_def)
  define t where "t = (if num (imax s) = 0 then s\<lparr>imax := (imax s)\<lparr>num := num (imax s) - 1\<rparr>\<rparr>
                  else if num (imin s) = 0 then s\<lparr>imin := (imin s)\<lparr>num := num (imin s) + 1\<rparr>\<rparr>
                  else s)"
  have nz: "\<not> (num (imax s) = 0 \<and> num (imin s) = 0)"
    using y assms(3,5) by (auto simp: num_0_iff)
  have ne: "sval (imax r) \<noteq> - 18446744073709551616" using x assms(4) sval_bounds[of "imin r"] by linarith
  have t0: "num (imax s) = 0 \<Longrightarrow> negative (imin t) \<and> \<not> negative (imax t)"
  proof -
    assume n: "num (imax s) = 0"
    then have "sval (imax s) = 0" using y assms(5) sval_bounds[of "imin s"] num_0_iff[of "imax s"] by linarith
    moreover from this have "sval (imin s) < 0" using y assms(3) by linarith
    ultimately show ?thesis using n
      by (simp add: t_def negative_iff[of "imin s"] negative_iff[of "imax s"])
  qed
  have t: "sval (imin t) \<le> y" "y \<le> sval (imax t)" "sval (imin t) \<noteq> 0" "sval (imax t) \<noteq> 0"
    if "num (imax s) \<noteq> 0"
    using y assms(3,5) that by (auto simp: t_def num_0_iff sval_incr)
  have div: "range_div r s =
      (if \<not> negative (imin r) \<and> \<not> negative (imax r) \<and> \<not> negative (imin t) \<and> \<not> negative (imax t)
         then Range (sen_div (imin r) (imax t)) (sen_div (imax r) (imin t))
         else if negative (imin t) \<and> \<not> negative (imax t)
         then fromNumbers4 (sen_neg (imin r)) (imin r) (sen_neg (imax r)) (imax r)
         else fromNumbers4 (sen_div (imin r) (imin t)) (sen_div (imin r) (imax t))
           (sen_div (imax r) (imin t)) (sen_div (imax r) (imax t)))"
    by (simp only: range_div_def t_def[symmetric] Let_def nz if_False)
  consider "negative (imin t) \<and> \<not> negative (imax t)"
    | "num (imax s) \<noteq> 0" "0 < sval (imin t)" | "num (imax s) \<noteq> 0" "sval (imax t) < 0"
    using t0 t(3,4) by (auto simp: negative_iff) linarith
  then show ?thesis
  proof cases
    case 1
    then show ?thesis using neg_in_range_abs[OF x _ _ assms(4)] tdiv_abs_le[OF assms(3)]
      by (simp add: div)
  next
    case 2
    note ty = t(1,2)[OF 2(1)]
    have nn: "sval (imin t) \<noteq> 0" "sval (imax t) \<noteq> 0" "\<not> negative (imin t)" "\<not> negative (imax t)"
      using 2 ty by (auto simp: negative_iff)
    note d = sval_div[OF assms(4) nn(1)] sval_div[OF assms(4) nn(2)] sval_div[OF ne nn(1)] sval_div[OF ne nn(2)]
    show ?thesis
    proof (cases "negative (imin r) \<or> negative (imax r)")
      case True
      then show ?thesis using nn tdiv_corners_pos[OF 2(2) ty x]
        by (auto simp: div d intro!: fromNumbers4_contains)
    next
      case False
      then have "0 \<le> sval (imin r)" by (simp add: negative_iff)
      moreover have "0 < y" using 2 ty by linarith
      ultimately have "tdiv (sval (imin r)) (sval (imax t)) \<le> tdiv x y"
        "tdiv x y \<le> tdiv (sval (imax r)) (sval (imin t))"
        using tdiv_anti[of y "sval (imax t)" "sval (imin r)"] tdiv_mono[of y "sval (imin r)" x]
          tdiv_anti[of "sval (imin t)" y "sval (imax r)"] tdiv_mono[of y x "sval (imax r)"] x ty 2
        by (auto intro: order_trans)
      then show ?thesis using False nn by (simp add: div d in_range_def)
    qed
  next
    case 3
    note ty = t(1,2)[OF 3(1)]
    have nn: "sval (imin t) \<noteq> 0" "sval (imax t) \<noteq> 0" "negative (imin t)" "negative (imax t)"
      using 3 ty by (auto simp: negative_iff)
    note d = sval_div[OF assms(4) nn(1)] sval_div[OF assms(4) nn(2)] sval_div[OF ne nn(1)] sval_div[OF ne nn(2)]
    show ?thesis using nn tdiv_corners_neg[OF 3(2) ty x]
      by (auto simp: div d intro!: fromNumbers4_contains)
  qed
qed

section \<open>Remainders\<close>

lemma absNeg_low: "in_range y s \<Longrightarrow> sval (imin (absNeg s)) \<le> - \<bar>y\<bar>"
  using in_range_bounds[of y s]
  by (auto simp: in_range_def absNeg_def Let_def sval_neg sen_less_iff negative_iff clamp_def)

lemma tmod_bounds:
  assumes "y \<noteq> 0"
  shows "\<bar>tmod x y\<bar> \<le> \<bar>y\<bar> - 1" and "\<bar>tmod x y\<bar> \<le> \<bar>x\<bar>"
    and "0 \<le> x \<Longrightarrow> 0 \<le> tmod x y" and "x \<le> 0 \<Longrightarrow> tmod x y \<le> 0"
proof -
  have "0 \<le> \<bar>x\<bar> mod \<bar>y\<bar>" "\<bar>x\<bar> mod \<bar>y\<bar> < \<bar>y\<bar>" "\<bar>x\<bar> mod \<bar>y\<bar> \<le> \<bar>x\<bar>"
    using assms by (simp_all add: zmod_le_nonneg_dividend)
  then show "\<bar>tmod x y\<bar> \<le> \<bar>y\<bar> - 1" "\<bar>tmod x y\<bar> \<le> \<bar>x\<bar>"
    "0 \<le> x \<Longrightarrow> 0 \<le> tmod x y" "x \<le> 0 \<Longrightarrow> tmod x y \<le> 0"
    by (auto simp: tmod_def)
qed

lemma range_mod_sound:
  assumes "in_range x r" and "in_range y s" and "y \<noteq> 0"
  shows "in_range (tmod x y) (range_mod r s)"
proof -
  define low where "low = sen_add (imin (absNeg s)) (SEN 1 False)"
  define m where "m = sval (imin (absNeg s))"
  have m: "m \<le> - \<bar>y\<bar>" "- 18446744073709551616 \<le> m"
    using absNeg_low[OF assms(2)] sval_bounds[of "imin (absNeg s)"] by (auto simp: m_def)
  have low: "sval low = m + 1" using m assms(3)
    by (simp add: low_def sval_add sval_def[of "SEN 1 False"] flip: m_def) (simp add: clamp_def)
  have high: "sval (sen_neg low) = - (m + 1)" using m assms(3) by (simp add: sval_neg low clamp_def)
  have b: "\<bar>tmod x y\<bar> \<le> \<bar>y\<bar> - 1" "\<bar>tmod x y\<bar> \<le> \<bar>x\<bar>" "x < 0 \<or> 0 \<le> tmod x y" "0 < x \<or> tmod x y \<le> 0"
    using tmod_bounds[OF assms(3), of x] by linarith+
  have x: "sval (imin r) \<le> x" "x \<le> sval (imax r)" using assms(1) by (auto simp: in_range_def)
  have "sval ((imin r)\<lparr>num := 0\<rparr>) = 0" if "\<not> negative (imin r)" using that by (simp add: sval_def)
  moreover have "sval (SEN 0 False) = 0" by (simp add: sval_def)
  ultimately show ?thesis
    using b x m low high negative_iff[of "imin r"] negative_iff[of "imax r"]
    unfolding range_mod_def in_range_def low_def[symmetric] Let_def sen_less_iff int_range.simps
    by (intro conjI) (cases "x < 0"; simp split: if_splits; linarith)+
qed

section \<open>Shifts\<close>

lemma shift_count_sound:
  assumes "in_range y s" and "0 \<le> y" and "y \<le> 64"
  shows "0 \<le> sval (imin (shift_count s))" "sval (imin (shift_count s)) \<le> y" "y \<le> sval (imax (shift_count s))"
proof -
  have "uv 64 = 64" by (simp add: uv_def)
  then show "0 \<le> sval (imin (shift_count s))" "sval (imin (shift_count s)) \<le> y" "y \<le> sval (imax (shift_count s))"
    using assms by (auto simp: shift_count_def in_range_def negative_iff[of "imin s"] sval_def[of "SEN v f" for v f])
qed

lemma mult_pow_mono:
  fixes a x :: int
  assumes "a \<le> x" "0 \<le> a" "i \<le> j"
  shows "a * 2 ^ i \<le> x * 2 ^ j"
  using assms by (intro mult_mono power_increasing) auto

lemma range_shl_sound:
  assumes "in_range x r" and "in_range y s" and "0 \<le> y" and "y \<le> 64"
  shows "in_range (clamp (x * 2 ^ nat y)) (range_shl r s)"
proof -
  define t where "t = shift_count s"
  have t: "0 \<le> sval (imin t)" "sval (imin t) \<le> y" "y \<le> sval (imax t)"
    using shift_count_sound[OF assms(2-4)] by (auto simp: t_def)
  then have n: "nat (sval (imin t)) \<le> nat y" "nat y \<le> nat (sval (imax t))" by auto
  have x: "sval (imin r) \<le> x" "x \<le> sval (imax r)" using assms(1) by (auto simp: in_range_def)
  have lo: "sval (imin r) * 2 ^ nat (sval (if negative (imin r) then imax t else imin t)) \<le> x * 2 ^ nat y"
  proof (cases "negative (imin r)")
    case True
    show ?thesis
    proof (cases "0 \<le> x")
      case True
      then have "0 \<le> x * 2 ^ nat y" by simp
      moreover have "sval (imin r) * 2 ^ nat (sval (imax t)) \<le> 0"
        using \<open>negative (imin r)\<close> by (simp add: negative_iff mult_le_0_iff)
      ultimately show ?thesis using \<open>negative (imin r)\<close> by simp
    next
      case False
      then show ?thesis using mult_pow_mono[of "- x" "- sval (imin r)" "nat y" "nat (sval (imax t))"] x n True by simp
    qed
  next
    case False
    then show ?thesis using mult_pow_mono[of "sval (imin r)" x "nat (sval (imin t))" "nat y"] x n
      by (simp add: negative_iff)
  qed
  have hi: "x * 2 ^ nat y \<le> sval (imax r) * 2 ^ nat (sval (if negative (imax r) then imin t else imax t))"
  proof (cases "negative (imax r)")
    case True
    then show ?thesis
      using mult_pow_mono[of "- sval (imax r)" "- x" "nat (sval (imin t))" "nat y"] x n by (simp add: negative_iff)
  next
    case False
    show ?thesis
    proof (cases "0 \<le> x")
      case True
      then show ?thesis using mult_pow_mono[of x "sval (imax r)" "nat y" "nat (sval (imax t))"] x n False by simp
    next
      case False
      then have "x * 2 ^ nat y \<le> 0" by (simp add: mult_le_0_iff)
      moreover have "0 \<le> sval (imax r) * 2 ^ nat (sval (imax t))"
        using \<open>\<not> negative (imax r)\<close> by (simp add: negative_iff)
      ultimately show ?thesis using \<open>\<not> negative (imax r)\<close> by simp
    qed
  qed
  have p: "0 \<le> sval (if b then imax t else imin t)" "0 \<le> sval (if b then imin t else imax t)" for b
    using t by auto
  show ?thesis
    unfolding range_shl_def in_range_def t_def[symmetric] Let_def int_range.simps sval_shl[OF p(1)] sval_shl[OF p(2)]
    using clamp_mono[OF lo] clamp_mono[OF hi] by simp
qed

lemma div_pow_anti: "0 \<le> (x :: int) \<Longrightarrow> i \<le> j \<Longrightarrow> x div 2 ^ j \<le> x div 2 ^ i"
  by (intro zdiv_mono2) auto

lemma div_pow_mono_neg:
  assumes "(x :: int) < 0" "i \<le> j"
  shows "x div 2 ^ i \<le> x div 2 ^ j"
  using div_pow_anti[of "- 1 - x" i j] assms int_not_div[of "2 ^ i" x] int_not_div[of "2 ^ j" x] by simp

lemma range_shr_sound:
  assumes "in_range x r" and "in_range y s" and "0 \<le> y" and "y \<le> 64"
  shows "in_range (x div 2 ^ nat y) (range_shr r s)"
proof -
  define t where "t = shift_count s"
  have t: "0 \<le> sval (imin t)" "sval (imin t) \<le> y" "y \<le> sval (imax t)"
    using shift_count_sound[OF assms(2-4)] by (auto simp: t_def)
  then have n: "nat (sval (imin t)) \<le> nat y" "nat y \<le> nat (sval (imax t))" by auto
  have x: "sval (imin r) div 2 ^ nat y \<le> x div 2 ^ nat y" "x div 2 ^ nat y \<le> sval (imax r) div 2 ^ nat y"
    using assms(1) by (auto simp: in_range_def intro!: zdiv_mono1)
  have lo: "sval (imin r) div 2 ^ nat (sval (if negative (imin r) then imin t else imax t)) \<le> x div 2 ^ nat y"
    using div_pow_anti[of "sval (imin r)", OF _ n(2)] div_pow_mono_neg[of "sval (imin r)", OF _ n(1)] x
    by (auto simp: negative_iff)
  have hi: "x div 2 ^ nat y \<le> sval (imax r) div 2 ^ nat (sval (if negative (imax r) then imax t else imin t))"
    using div_pow_anti[of "sval (imax r)", OF _ n(1)] div_pow_mono_neg[of "sval (imax r)", OF _ n(2)] x
    by (auto simp: negative_iff)
  have p: "0 \<le> sval (if b then imax t else imin t)" "0 \<le> sval (if b then imin t else imax t)" for b
    using t by auto
  show ?thesis
    unfolding range_shr_def in_range_def t_def[symmetric] Let_def int_range.simps sval_shr[OF p(1)] sval_shr[OF p(2)]
    using lo hi by simp
qed

lemma range_ushr_shr:
  "\<not> negative (imin r) \<Longrightarrow> \<not> negative (imax r) \<Longrightarrow> range_ushr r s = range_shr r s"
  by (simp add: range_ushr_def range_shr_def)

section \<open>Casts\<close>

lemma and_mask_take: "v AND mask n = take_bit n (v :: 64 word)"
  by (simp add: take_bit_eq_mask)

lemma uv_take_bit: "uv (take_bit n v) = uv v mod 2 ^ n"
  unfolding uv_def unsigned_take_bit_eq by (rule take_bit_eq_mod)

lemma and_not_mask_sub: "v AND NOT (mask n) = v - take_bit n (v :: 64 word)"
proof -
  have "v - take_bit n v = v AND NOT (take_bit n v)"
    by (rule disjunctive_diff_eq_and_not) (auto intro!: bit_eqI simp: bit_simps)
  also have "\<dots> = v AND NOT (mask n)"
    by (rule bit_eqI) (auto simp: bit_simps)
  finally show ?thesis by simp
qed

lemma uv_sub_le: "uv b \<le> uv a \<Longrightarrow> uv (a - b) = uv a - uv b"
  using uv_add[of "a - b" b] uv_bounds[of "a - b"] uv_bounds[of a] uv_bounds[of b] by (simp split: if_splits)

lemma uv_and_not_mask: "uv (v AND NOT (mask n)) = uv v - uv v mod 2 ^ n"
proof -
  have "uv v mod 2 ^ n \<le> uv v" using uv_bounds[of v] by (simp add: zmod_le_nonneg_dividend)
  then show ?thesis unfolding and_not_mask_sub by (subst uv_sub_le) (simp_all only: uv_take_bit)
qed

lemma dvd_pow64: "n \<le> 64 \<Longrightarrow> (2 :: int) ^ n dvd 18446744073709551616"
  using le_imp_power_dvd[of n 64 "2 :: int"] by simp

lemma sval_mod_pow:
  assumes "n \<le> 64"
  shows "sval a mod 2 ^ n = uv (num a) mod 2 ^ n"
proof -
  from dvd_pow64[OF assms] obtain c :: int where "18446744073709551616 = 2 ^ n * c" by (rule dvdE)
  then have "sval a = uv (num a) + 2 ^ n * (if negative a then - c else 0)" by (simp add: sval_def)
  then show ?thesis by (simp only: mod_mult_self2)
qed

text \<open>\<open>swrap k x\<close> is \<open>x\<close> cut to the integers of \<open>k + 1\<close> bits with sign.\<close>

definition swrap :: "nat \<Rightarrow> int \<Rightarrow> int" where
  "swrap k x = (x + 2 ^ k) mod 2 ^ Suc k - 2 ^ k"

lemma uv_mask: "n \<le> 64 \<Longrightarrow> uv (mask n) = 2 ^ n - 1"
  unfolding uv_def uint_mask_eq by (simp only: mask_eq_exp_minus_1 word_size min_def) simp

lemma div_between:
  fixes x :: int
  assumes "a \<le> x" "x \<le> b" "a div m = b div m" "0 < m"
  shows "x div m = a div m"
  using zdiv_mono1[OF assms(1,4)] zdiv_mono1[OF assms(2,4)] assms(3) by simp

lemma mod_between:
  fixes x :: int
  assumes "a \<le> x" "x \<le> b" "a div m = b div m" "0 < m"
  shows "a mod m \<le> x mod m" "x mod m \<le> b mod m"
  using div_between[OF assms] assms by (simp_all add: minus_mult_div_eq_mod[symmetric])

lemma castUnsigned_sound:
  assumes "in_range x r" and "n \<le> 64"
  shows "in_range (x mod 2 ^ n) (castUnsigned (mask n) r)"
proof (cases "num (imin r) AND NOT (mask n) = num (imax r) AND NOT (mask n) \<and> negative (imin r) = negative (imax r)")
  case True
  then have "uv (num (imin r)) - uv (num (imin r)) mod 2 ^ n = uv (num (imax r)) - uv (num (imax r)) mod 2 ^ n"
    by (metis uv_and_not_mask)
  then have "sval (imin r) - sval (imin r) mod 2 ^ n = sval (imax r) - sval (imax r) mod 2 ^ n"
    using True assms(2) by (simp add: sval_mod_pow) (simp add: sval_def)
  then have "sval (imin r) div 2 ^ n = sval (imax r) div 2 ^ n"
    by (simp add: minus_mod_eq_div_mult)
  then show ?thesis
    using True mod_between[of "sval (imin r)" x "sval (imax r)" "2 ^ n"] assms
    by (simp add: castUnsigned_def in_range_def and_mask_take uv_take_bit sval_mod_pow sval_def[of "SEN v False" for v])
next
  case False
  then show ?thesis using assms(2)
    by (auto simp: castUnsigned_def in_range_def Let_def sval_def[of "SEN v False" for v] uv_mask)
qed

lemma drop_mask: "drop_bit 1 (mask (Suc k) :: u64) = mask k" if "k < 64"
proof (rule bit_eqI)
  fix n assume "possible_bit TYPE(64 word) n"
  then show "bit (drop_bit 1 (mask (Suc k)) :: u64) n = bit (mask k :: u64) n"
    using that by (auto simp: bit_simps possible_bit_word)
qed

lemma mask_half: "mask k + 1 = (2 ^ k :: u64)" by (simp add: mask_eq_exp_minus_1)

lemma uv_pow: "k < 64 \<Longrightarrow> uv (2 ^ k) = 2 ^ k"
  using uv_push_bit[of 1 k] power_strict_increasing[of k 64 "2 :: int"] by (simp add: push_bit_eq_mult)

text \<open>The chunk that an end of the range lies in.\<close>

definition chunk :: "u64 \<Rightarrow> sen \<Rightarrow> u64 \<times> int" where
  "chunk m a =
     (let h = drop_bit 1 m; c0 = num a AND NOT h; n0 = (if negative a then 1 else 0 :: int) in
      if c0 AND m \<noteq> 0 then (let c = c0 + (h + 1) in (c, if c = 0 then n0 - 1 else n0)) else (c0, n0))"

lemma castSigned_chunk:
  "castSigned m r =
     (let h = drop_bit 1 m; half = h + 1 in
      if chunk m (imin r) = chunk m (imax r) then
        (let lo = num (imin r) AND m; hi = num (imax r) AND m in
         Range (SEN ((lo XOR half) - half) (lo AND NOT h \<noteq> 0))
               (SEN ((hi XOR half) - half) (hi AND NOT h \<noteq> 0)))
      else Range (SEN (NOT h) True) (SEN h False))"
  by (auto simp: castSigned_def chunk_def Let_def)

lemma mod_Suc_pow:
  fixes x :: int
  shows "x mod 2 ^ Suc k = x mod 2 ^ k + (if even (x div 2 ^ k) then 0 else 2 ^ k)"
proof -
  have "x mod 2 ^ Suc k = x mod 2 ^ k + 2 ^ k * (x div 2 ^ k mod 2)"
    using zmod_zmult2_eq[of 2 x "2 ^ k"] by (simp add: mult.commute)
  then show ?thesis by (auto simp: even_iff_mod_2_eq_zero odd_iff_mod_2_eq_one)
qed

lemma sval_add_mod: "k < 64 \<Longrightarrow> (sval a + p) mod 2 ^ Suc k = (uv (num a) + p) mod 2 ^ Suc k"
  by (metis Suc_leI mod_add_left_eq sval_mod_pow)

lemma chunk_value:
  assumes "k < 64"
  shows "uv (fst (chunk (mask (Suc k)) a)) - 18446744073709551616 * snd (chunk (mask (Suc k)) a)
    = sval a + 2 ^ k - (sval a + 2 ^ k) mod 2 ^ Suc k"
proof -
  define n where "n = uv (num a)"
  define P :: int where "P = 2 ^ k"
  define q where "q = n div P"
  define t where "t = n mod P"
  have n: "0 \<le> n" "n < 18446744073709551616" using uv_bounds[of "num a"] by (auto simp: n_def)
  have P: "0 < P" by (simp add: P_def)
  have nq: "n = P * q + t" by (simp add: q_def t_def)
  have t: "0 \<le> t" "t < P" using P by (simp_all add: t_def)
  define c0 where "c0 = num a AND NOT (mask k)"
  have "uv c0 = n - n mod 2 ^ k" by (simp only: c0_def uv_and_not_mask n_def)
  then have "uv c0 = n - t" by (simp only: P_def t_def)
  then have c0: "uv c0 = P * q" using nq by linarith
  have PP: "(2 :: int) ^ Suc k = P * 2" by (simp add: P_def)
  have "uv (c0 AND mask (Suc k)) = P * q mod (P * 2)"
    by (simp only: and_mask_take uv_take_bit c0 PP)
  also have "\<dots> = P * (q mod 2)" by (simp only: mult_mod_right)
  finally have cond: "c0 AND mask (Suc k) \<noteq> 0 \<longleftrightarrow> odd q"
    using P uv_0_iff[of "c0 AND mask (Suc k)"] by (auto simp: odd_iff_mod_2_eq_one)
  have "(n + P) mod (P * 2) = (P * (q + 1) + t) mod (P * 2)" by (simp add: nq algebra_simps)
  also have "\<dots> = t + P * ((q + 1) mod 2)"
    using zmod_zmult2_eq[of 2 "P * (q + 1) + t" P] P t by (simp only: mod_mult_self4 div_mult_self4) simp
  finally have md: "(sval a + P) mod (P * 2) = t + P * ((q + 1) mod 2)"
    using sval_add_mod[OF assms, of a P] by (simp only: PP n_def)
  obtain d where d: "18446744073709551616 = P * d" using dvd_pow64[of k] assms by (auto simp: P_def elim: dvdE)
  then have "P * q < P * d" using n t nq by linarith
  then have "q + 1 \<le> d" using P by simp
  then have "P * (q + 1) \<le> 18446744073709551616" using P by (simp add: d)
  then have le: "P * q + P \<le> 18446744073709551616" by (simp add: distrib_left)
  have up: "uv (2 ^ k) = P" using uv_pow[OF assms] by (simp add: P_def)
  have cu: "uv (c0 + 2 ^ k) = (if P * q + P = 18446744073709551616 then 0 else P * q + P)"
    using uv_add[of c0 "2 ^ k"] le by (simp add: up c0)
  then have cz: "c0 + 2 ^ k = 0 \<longleftrightarrow> P * q + P = 18446744073709551616"
    using uv_0_iff[of "c0 + 2 ^ k"] P c0 uv_bounds[of c0] by (auto split: if_splits)
  define n0 where "n0 = (if negative a then 1 else 0 :: int)"
  have sv: "sval a = P * q + t - 18446744073709551616 * n0"
    using nq by (simp add: sval_def n_def n0_def)
  have ch: "chunk (mask (Suc k)) a =
      (if odd q then (c0 + 2 ^ k, n0 - (if c0 + 2 ^ k = 0 then 1 else 0)) else (c0, n0))"
    by (simp only: chunk_def Let_def drop_mask[OF assms] mask_half c0_def[symmetric] n0_def[symmetric] cond) simp
  show ?thesis
  proof (cases "odd q")
    case True
    then have "(q + 1) mod 2 = 0" by simp
    then have "(sval a + P) mod (P * 2) = t" using md by simp
    moreover have "uv (c0 + 2 ^ k) + (if c0 + 2 ^ k = 0 then 18446744073709551616 else 0) = P * q + P"
      unfolding cz cu by simp
    ultimately show ?thesis unfolding PP P_def[symmetric] ch using True sv cz cu by (simp split: if_splits)
  next
    case False
    then have "(q + 1) mod 2 = 1" by (simp add: mod_2_eq_odd)
    then have "(sval a + P) mod (P * 2) = t + P" using md by simp
    then show ?thesis unfolding PP P_def[symmetric] ch using False sv c0 by simp
  qed
qed

lemma radix_unique:
  fixes u v s t :: int
  assumes "u - M * s = v - M * t" "0 \<le> u" "u < M" "0 \<le> v" "v < M"
  shows "u = v \<and> s = t"
proof -
  have "w mod M = (w - M * z) mod M" for w z :: int
    using mod_mult_self2[of w M "- z"] by simp
  from this[of u s] this[of v t] have "u mod M = v mod M" by (simp only: assms(1))
  then show ?thesis using assms by simp
qed

lemma chunk_eq_iff:
  assumes "k < 64"
  shows "chunk (mask (Suc k)) a = chunk (mask (Suc k)) b \<longleftrightarrow>
    (sval a + 2 ^ k) div 2 ^ Suc k = (sval b + 2 ^ k) div 2 ^ Suc k"
proof -
  let ?c = "\<lambda>a. chunk (mask (Suc k)) a"
  let ?v = "\<lambda>a. uv (fst (?c a)) - 18446744073709551616 * snd (?c a)"
  have "?c a = ?c b" if "?v a = ?v b"
    using radix_unique[OF that] uv_bounds[of "fst (?c a)"] uv_bounds[of "fst (?c b)"]
    by (simp add: prod_eq_iff uv_eq_iff)
  then have "?c a = ?c b \<longleftrightarrow> ?v a = ?v b" by auto
  then show ?thesis unfolding chunk_value[OF assms] minus_mod_eq_mult_div by simp
qed

lemma uv_sub: "uv (a - b) = (if uv b \<le> uv a then uv a - uv b else 18446744073709551616 + uv a - uv b)"
  using uv_add[of "a - b" b] uv_bounds[of "a - b"] uv_bounds[of a] uv_bounds[of b] by (simp split: if_splits)

lemma xor_half:
  assumes "k < 64" "lo = v AND mask (Suc k)"
  shows "sval (SEN ((lo XOR 2 ^ k) - 2 ^ k) (lo AND NOT (mask k) \<noteq> 0)) = (uv v + 2 ^ k) mod 2 ^ Suc k - 2 ^ k"
proof -
  define P :: int where "P = 2 ^ k"
  define q where "q = uv v div P"
  define t where "t = uv v mod P"
  have P: "0 < P" by (simp add: P_def)
  have nq: "uv v = P * q + t" by (simp add: q_def t_def)
  have t: "0 \<le> t" "t < P" using P by (simp_all add: t_def)
  have PP: "(2 :: int) ^ Suc k = P * 2" by (simp add: P_def)
  have wrap: "(P * j + t) mod (P * 2) = t + P * (j mod 2)" for j
    using zmod_zmult2_eq[of 2 "P * j + t" P] P t by (simp only: mod_mult_self4 div_mult_self4) simp
  have lo: "uv lo = t + P * (q mod 2)"
    by (simp only: assms(2) and_mask_take uv_take_bit PP nq wrap)
  have rhs: "(uv v + P) mod (P * 2) = t + P * ((q + 1) mod 2)"
    using wrap[of "q + 1"] by (simp add: nq algebra_simps)
  have "uv (lo AND NOT (mask k)) = uv lo - uv lo mod P" by (simp only: uv_and_not_mask P_def)
  also have "\<dots> = P * (q mod 2)" using lo t by simp
  finally have cond: "lo AND NOT (mask k) \<noteq> 0 \<longleftrightarrow> odd q"
    using P uv_0_iff[of "lo AND NOT (mask k)"] by (auto simp: odd_iff_mod_2_eq_one)
  have up: "uv (2 ^ k) = P" using uv_pow[OF assms(1)] by (simp add: P_def)
  have bits: "bit (lo AND NOT (mask k)) i \<longleftrightarrow> i = k \<and> bit lo k" if "i < 64" for i
    using that assms by (auto simp: bit_simps less_Suc_eq)
  have bitk: "bit lo k \<longleftrightarrow> odd q"
    unfolding cond[symmetric] using assms(1) bits by (auto simp: bit_eq_iff possible_bit_word)
  have xor: "lo XOR 2 ^ k = (if odd q then lo - 2 ^ k else lo + 2 ^ k)"
  proof (cases "odd q")
    case True
    then have "NOT lo AND 2 ^ k = 0" using bitk by (auto simp: bit_simps intro!: bit_eqI)
    then show ?thesis using True by (simp; metis disjunctive_and_not_eq_xor disjunctive_diff_eq_and_not)
  next
    case False
    then have "lo AND 2 ^ k = 0" using bitk by (auto simp: bit_simps intro!: bit_eqI)
    then show ?thesis using False by (simp add: disjunctive_add_eq_xor)
  qed
  show ?thesis
  proof (cases "odd q")
    case True
    then have "uv (lo - 2 ^ k) = t" using lo t by (simp add: uv_sub up odd_iff_mod_2_eq_one)
    then have "uv (lo - 2 ^ k - 2 ^ k) = 18446744073709551616 + t - P"
      using t up uv_sub[of "lo - 2 ^ k" "2 ^ k"] by (simp del: diff_diff_eq diff_diff_add)
    then show ?thesis unfolding PP P_def[symmetric] rhs using True
      by (simp add: xor cond sval_def mod_2_eq_odd)
  next
    case False
    then show ?thesis unfolding PP P_def[symmetric] rhs
      by (simp add: xor cond sval_def lo mod_2_eq_odd)
  qed
qed

lemma castSigned_sound:
  assumes "in_range x r" and k: "k < 64"
  shows "in_range (swrap k x) (castSigned (mask (Suc k)) r)"
proof (cases "chunk (mask (Suc k)) (imin r) = chunk (mask (Suc k)) (imax r)")
  case True
  have "(sval (imin r) + 2 ^ k) div 2 ^ Suc k = (sval (imax r) + 2 ^ k) div 2 ^ Suc k"
    using True by (simp only: chunk_eq_iff[OF k])
  then have "(sval (imin r) + 2 ^ k) mod 2 ^ Suc k \<le> (x + 2 ^ k) mod 2 ^ Suc k"
    "(x + 2 ^ k) mod 2 ^ Suc k \<le> (sval (imax r) + 2 ^ k) mod 2 ^ Suc k"
    using assms(1) mod_between[of "sval (imin r) + 2 ^ k" "x + 2 ^ k" "sval (imax r) + 2 ^ k" "2 ^ Suc k"]
    by (simp_all add: in_range_def del: power_Suc)
  then show ?thesis
    unfolding castSigned_chunk Let_def in_range_def drop_mask[OF k] mask_half
    using True by (simp add: swrap_def xor_half[OF k refl] sval_add_mod[OF k] del: power_Suc)
next
  case False
  have "uv (NOT (mask k)) = 18446744073709551616 - 2 ^ k" using uv_not[of "mask k"] uv_mask[of k] k by simp
  moreover have "- (2 ^ k) \<le> swrap k x" "swrap k x < 2 ^ k"
    by (simp_all add: swrap_def)
  ultimately show ?thesis
    unfolding castSigned_chunk Let_def in_range_def drop_mask[OF k] mask_half
    using False uv_mask[of k] k by (simp add: sval_def[of "SEN v f" for v f])
qed

end
