(* ===== verification/Int_Fold.thy ===== *)
theory Int_Fold
  imports Range_Laws
begin

text \<open>
  Integral expressions at compile time: their folding to constants (constfold.d, driven by
  optimize.d) and the propagation of value ranges through them (\<open>getIntRange\<close> of dcast.d),
  by which an implicit narrowing conversion is allowed when the range of the expression fits
  the target type.  An \<open>IntegerExp\<close> carries its value normalised to its type, as a
  \<open>dinteger_t\<close> of 64 bits; \<open>ival\<close> is the integer it stands for.  Variables have their type,
  a name and the range known of them (\<open>VarDeclaration.range\<close>), and a folded one has a value given
  by an environment; \<open>ConstE\<close> is a variable with a constant initialiser and no range.  The bitwise operators \<open>&\<close>, \<open>|\<close>,
  \<open>^\<close> on ranges are not modelled.
\<close>

unbundle bit_operations_syntax

section \<open>Integral types\<close>

datatype ity = Tbool | Tchar | Twchar | Tdchar | Tint8 | Tuns8 | Tint16 | Tuns16
  | Tint32 | Tuns32 | Tint64 | Tuns64

definition isUnsigned :: "ity \<Rightarrow> bool" where
  "isUnsigned ty \<longleftrightarrow> ty \<in> {Tuns8, Tuns16, Tuns32, Tuns64, Tbool, Tchar, Twchar, Tdchar}"

fun sizemask :: "ity \<Rightarrow> u64" where
  "sizemask Tbool = 1"
| "sizemask Tchar = 0xFF" | "sizemask Tint8 = 0xFF" | "sizemask Tuns8 = 0xFF"
| "sizemask Twchar = 0xFFFF" | "sizemask Tint16 = 0xFFFF" | "sizemask Tuns16 = 0xFFFF"
| "sizemask Tdchar = 0xFFFFFFFF" | "sizemask Tint32 = 0xFFFFFFFF" | "sizemask Tuns32 = 0xFFFFFFFF"
| "sizemask Tint64 = 0xFFFFFFFFFFFFFFFF" | "sizemask Tuns64 = 0xFFFFFFFFFFFFFFFF"

text \<open>The size of a type in bytes, as \<open>shift_optimize\<close> uses it.\<close>

fun type_size :: "ity \<Rightarrow> u64" where
  "type_size Tbool = 1" | "type_size Tchar = 1" | "type_size Tint8 = 1" | "type_size Tuns8 = 1"
| "type_size Twchar = 2" | "type_size Tint16 = 2" | "type_size Tuns16 = 2"
| "type_size Tdchar = 4" | "type_size Tint32 = 4" | "type_size Tuns32 = 4"
| "type_size Tint64 = 8" | "type_size Tuns64 = 8"

abbreviation cast_byte :: "u64 \<Rightarrow> 8 word" where "cast_byte v \<equiv> ucast v"
abbreviation cast_short :: "u64 \<Rightarrow> 16 word" where "cast_short v \<equiv> ucast v"
abbreviation cast_int :: "u64 \<Rightarrow> 32 word" where "cast_int v \<equiv> ucast v"

fun normalize :: "ity \<Rightarrow> u64 \<Rightarrow> u64" where
  "normalize Tbool v = (if v \<noteq> 0 then 1 else 0)"
| "normalize Tint8 v = scast (cast_byte v)"
| "normalize Tchar v = ucast (cast_byte v)" | "normalize Tuns8 v = ucast (cast_byte v)"
| "normalize Tint16 v = scast (cast_short v)"
| "normalize Twchar v = ucast (cast_short v)" | "normalize Tuns16 v = ucast (cast_short v)"
| "normalize Tint32 v = scast (cast_int v)"
| "normalize Tdchar v = ucast (cast_int v)" | "normalize Tuns32 v = ucast (cast_int v)"
| "normalize Tint64 v = v" | "normalize Tuns64 v = v"

section \<open>Folding of the operators\<close>

datatype fold_fault = Divide_By_Zero | Int_Min_Overflow | Long_Min_Overflow | Shift_Range | Unreachable

text \<open>The operators on the values of constant operands: \<open>ty\<close> is the type of the result,
  \<open>t1\<close> and \<open>t2\<close> those of the operands.\<close>

definition Neg :: "ity \<Rightarrow> u64 \<Rightarrow> u64" where "Neg ty v = normalize ty (- v)"
definition Com :: "ity \<Rightarrow> u64 \<Rightarrow> u64" where "Com ty v = normalize ty (NOT v)"
definition Add :: "ity \<Rightarrow> u64 \<Rightarrow> u64 \<Rightarrow> u64" where "Add ty v w = normalize ty (v + w)"
definition Min :: "ity \<Rightarrow> ity \<Rightarrow> u64 \<Rightarrow> u64 \<Rightarrow> u64" where "Min ty t2 v w = Add ty v (Neg t2 w)"
definition Mul :: "ity \<Rightarrow> u64 \<Rightarrow> u64 \<Rightarrow> u64" where "Mul ty v w = normalize ty (v * w)"

definition div_check :: "ity \<Rightarrow> u64 \<Rightarrow> u64 \<Rightarrow> fold_fault + unit" where
  "div_check ty n1 n2 =
     (if n2 = 0 then Inl Divide_By_Zero
      else if n2 = - 1 \<and> \<not> isUnsigned ty then
        (if n1 = 0xFFFFFFFF80000000 \<and> ty \<noteq> Tint64 then Inl Int_Min_Overflow
         else if n1 = 0x8000000000000000 then Inl Long_Min_Overflow else Inr ())
      else Inr ())"

definition Div :: "ity \<Rightarrow> ity \<Rightarrow> ity \<Rightarrow> u64 \<Rightarrow> u64 \<Rightarrow> fold_fault + u64" where
  "Div ty t1 t2 n1 n2 =
     rbind (div_check ty n1 n2) (\<lambda>_.
       Inr (normalize ty (if isUnsigned t1 \<or> isUnsigned t2 then n1 div n2
                          else word_of_int (tdiv (sint n1) (sint n2)))))"

definition Mod :: "ity \<Rightarrow> ity \<Rightarrow> ity \<Rightarrow> u64 \<Rightarrow> u64 \<Rightarrow> fold_fault + u64" where
  "Mod ty t1 t2 n1 n2 =
     rbind (div_check ty n1 n2) (\<lambda>_.
       Inr (normalize ty (if isUnsigned t1 \<or> isUnsigned t2 then n1 mod n2
                          else word_of_int (tmod (sint n1) (sint n2)))))"

definition Shl :: "ity \<Rightarrow> u64 \<Rightarrow> u64 \<Rightarrow> u64" where
  "Shl ty v c = normalize ty (push_bit (unat c) v)"

text \<open>An operand of less than 32 bits is promoted to \<open>int\<close> before the shift.\<close>

fun shr_value :: "ity \<Rightarrow> u64 \<Rightarrow> nat \<Rightarrow> fold_fault + u64" where
  "shr_value Tint8 v n = Inr (scast (signed_drop_bit n (scast (cast_byte v) :: 32 word)))"
| "shr_value Tuns8 v n = Inr (scast (signed_drop_bit n (ucast (cast_byte v) :: 32 word)))"
| "shr_value Tchar v n = Inr (scast (signed_drop_bit n (ucast (cast_byte v) :: 32 word)))"
| "shr_value Tint16 v n = Inr (scast (signed_drop_bit n (scast (cast_short v) :: 32 word)))"
| "shr_value Tuns16 v n = Inr (scast (signed_drop_bit n (ucast (cast_short v) :: 32 word)))"
| "shr_value Twchar v n = Inr (scast (signed_drop_bit n (ucast (cast_short v) :: 32 word)))"
| "shr_value Tint32 v n = Inr (scast (signed_drop_bit n (cast_int v)))"
| "shr_value Tuns32 v n = Inr (ucast (drop_bit n (cast_int v)))"
| "shr_value Tdchar v n = Inr (ucast (drop_bit n (cast_int v)))"
| "shr_value Tint64 v n = Inr (signed_drop_bit n v)"
| "shr_value Tuns64 v n = Inr (drop_bit n v)"
| "shr_value Tbool v n = Inl Unreachable"

definition Shr :: "ity \<Rightarrow> ity \<Rightarrow> u64 \<Rightarrow> u64 \<Rightarrow> fold_fault + u64" where
  "Shr ty t1 v c =
     rbind (if c \<le> 0xFFFFFFFF then Inr () else Inl Unreachable) (\<lambda>_.
     rbind (shr_value t1 v (unat c)) (\<lambda>x. Inr (normalize ty x)))"

fun ushr_value :: "ity \<Rightarrow> u64 \<Rightarrow> nat \<Rightarrow> fold_fault + u64" where
  "ushr_value Tint8 v n = Inr (drop_bit n (v AND 0xFF))"
| "ushr_value Tuns8 v n = Inr (drop_bit n (v AND 0xFF))"
| "ushr_value Tchar v n = Inr (drop_bit n (v AND 0xFF))"
| "ushr_value Tint16 v n = Inr (drop_bit n (v AND 0xFFFF))"
| "ushr_value Tuns16 v n = Inr (drop_bit n (v AND 0xFFFF))"
| "ushr_value Twchar v n = Inr (drop_bit n (v AND 0xFFFF))"
| "ushr_value Tint32 v n = Inr (drop_bit n (v AND 0xFFFFFFFF))"
| "ushr_value Tuns32 v n = Inr (drop_bit n (v AND 0xFFFFFFFF))"
| "ushr_value Tdchar v n = Inr (drop_bit n (v AND 0xFFFFFFFF))"
| "ushr_value Tint64 v n = Inr (drop_bit n v)"
| "ushr_value Tuns64 v n = Inr (drop_bit n v)"
| "ushr_value Tbool v n = Inl Unreachable"

definition Ushr :: "ity \<Rightarrow> ity \<Rightarrow> u64 \<Rightarrow> u64 \<Rightarrow> fold_fault + u64" where
  "Ushr ty t1 v c =
     rbind (if c \<le> 0xFFFFFFFF then Inr () else Inl Unreachable) (\<lambda>_.
     rbind (ushr_value t1 v (unat c)) (\<lambda>x. Inr (normalize ty x)))"

text \<open>A shift is folded only when its count is within the width of the left operand.\<close>

definition shift_optimize :: "ity \<Rightarrow> u64 \<Rightarrow> (fold_fault + u64) \<Rightarrow> fold_fault + u64" where
  "shift_optimize t1 c shifted =
     (if c <s 0 \<or> type_size t1 * 8 \<le> c then Inl Shift_Range else shifted)"

definition cast_integral :: "ity \<Rightarrow> u64 \<Rightarrow> u64" where
  "cast_integral to v = normalize to v"

definition Cast :: "ity \<Rightarrow> u64 \<Rightarrow> u64" where
  "Cast to v = (if to = Tbool then normalize to (of_flag (v \<noteq> 0)) else cast_integral to v)"

section \<open>Expressions\<close>

datatype binop = EXPadd | EXPmin | EXPmul | EXPdiv | EXPmod
  | EXPleftShift | EXPrightShift | EXPunsignedRightShift

datatype iexp =
    IntegerE ity u64
  | VarE ity string "int_range option"
  | ConstE ity string iexp
  | NegE ity iexp
  | ComE ity iexp
  | CastE ity iexp
  | BinE binop ity iexp iexp
  | CommaE ity iexp iexp
  | CondE ity iexp iexp iexp

fun type_of :: "iexp \<Rightarrow> ity" where
  "type_of (IntegerE ty v) = ty"
| "type_of (VarE ty x r) = ty"
| "type_of (ConstE ty x i) = ty"
| "type_of (NegE ty e) = ty"
| "type_of (ComE ty e) = ty"
| "type_of (CastE ty e) = ty"
| "type_of (BinE b ty e1 e2) = ty"
| "type_of (CommaE ty e1 e2) = ty"
| "type_of (CondE ty c e1 e2) = ty"

fun fold_bin :: "binop \<Rightarrow> ity \<Rightarrow> ity \<Rightarrow> ity \<Rightarrow> u64 \<Rightarrow> u64 \<Rightarrow> fold_fault + u64" where
  "fold_bin EXPadd ty t1 t2 v w = Inr (Add ty v w)"
| "fold_bin EXPmin ty t1 t2 v w = Inr (Min ty t2 v w)"
| "fold_bin EXPmul ty t1 t2 v w = Inr (Mul ty v w)"
| "fold_bin EXPdiv ty t1 t2 v w = Div ty t1 t2 v w"
| "fold_bin EXPmod ty t1 t2 v w = Mod ty t1 t2 v w"
| "fold_bin EXPleftShift ty t1 t2 v w = shift_optimize t1 w (Inr (Shl ty v w))"
| "fold_bin EXPrightShift ty t1 t2 v w = shift_optimize t1 w (Shr ty t1 v w)"
| "fold_bin EXPunsignedRightShift ty t1 t2 v w = shift_optimize t1 w (Ushr ty t1 v w)"

text \<open>\<open>optimize\<close> of an expression whose variables are all constants.  An initialiser of another type
  is cast to the type of the variable.\<close>

primrec optimize :: "(string \<Rightarrow> u64) \<Rightarrow> iexp \<Rightarrow> fold_fault + u64" where
  "optimize env (IntegerE ty v) = Inr v"
| "optimize env (VarE ty x r) = Inr (env x)"
| "optimize env (ConstE ty x i) =
     rbind (optimize env i) (\<lambda>v. Inr (if type_of i = ty then v else Cast ty v))"
| "optimize env (NegE ty e) = rbind (optimize env e) (\<lambda>v. Inr (Neg ty v))"
| "optimize env (ComE ty e) = rbind (optimize env e) (\<lambda>v. Inr (Com ty v))"
| "optimize env (CastE ty e) = rbind (optimize env e) (\<lambda>v. Inr (Cast ty v))"
| "optimize env (BinE b ty e1 e2) =
     rbind (optimize env e1) (\<lambda>v. rbind (optimize env e2) (\<lambda>w.
       fold_bin b ty (type_of e1) (type_of e2) v w))"
| "optimize env (CommaE ty e1 e2) = rbind (optimize env e1) (\<lambda>_. optimize env e2)"
| "optimize env (CondE ty c e1 e2) =
     rbind (optimize env c) (\<lambda>v. if v \<noteq> 0 then optimize env e1 else optimize env e2)"

section \<open>Value ranges\<close>

definition range_cast :: "int_range \<Rightarrow> ity \<Rightarrow> int_range" where
  "range_cast r ty =
     (if \<not> isUnsigned ty then castSigned (sizemask ty) r
      else if ty = Tdchar then castDchar r
      else castUnsigned (sizemask ty) r)"

definition range_castUnsigned :: "int_range \<Rightarrow> ity \<Rightarrow> int_range" where
  "range_castUnsigned r ty =
     (if ty = Tdchar then castDchar r else castUnsigned (sizemask ty) r)"

definition intRangeFromType :: "ity \<Rightarrow> int_range" where
  "intRangeFromType ty =
     (let m = sizemask ty in
      if ty = Tdchar then Range (SEN 0 False) (SEN 0x10FFFF False)
      else if \<not> isUnsigned ty then Range (SEN (NOT (drop_bit 1 m)) True) (SEN (drop_bit 1 m) False)
      else Range (SEN 0 False) (SEN m False))"

text \<open>The binary operators, on the ranges of the operands; \<open>t1\<close> is the type of the left one.\<close>

definition range_bin :: "binop \<Rightarrow> ity \<Rightarrow> ity \<Rightarrow> int_range \<Rightarrow> int_range \<Rightarrow> int_range" where
  "range_bin b ty t1 r s =
     (case b of
        EXPadd \<Rightarrow> range_cast (range_add r s) ty
      | EXPmin \<Rightarrow> range_cast (range_sub r s) ty
      | EXPmul \<Rightarrow> range_cast (range_mul r s) ty
      | EXPdiv \<Rightarrow> range_cast (range_div r s) ty
      | EXPmod \<Rightarrow> (if \<not> negative (imin (absNeg s)) then intRangeFromType ty
                   else range_cast (range_mod r s) ty)
      | EXPleftShift \<Rightarrow> range_cast (range_shl r s) ty
      | EXPrightShift \<Rightarrow> range_cast (range_shr r s) ty
      | EXPunsignedRightShift \<Rightarrow> range_cast (range_ushr (range_castUnsigned r t1) s) ty)"

text \<open>A literal starts as the 64-bit value read without sign (\<open>SignExtendedNumber(value)\<close> is not
  negative); the cast to its type gives it the sign.\<close>

primrec getIntRange :: "iexp \<Rightarrow> int_range" where
  "getIntRange (IntegerE ty v) = range_cast (Range (SEN v False) (SEN v False)) ty"
| "getIntRange (VarE ty x r) = (case r of Some r \<Rightarrow> range_cast r ty | None \<Rightarrow> intRangeFromType ty)"
| "getIntRange (ConstE ty x i) = getIntRange i"
| "getIntRange (NegE ty e) = range_cast (range_neg (getIntRange e)) ty"
| "getIntRange (ComE ty e) =
     (let r = getIntRange e in
      range_cast (Range (SEN (NOT (num (imax r))) (\<not> negative (imax r)))
                        (SEN (NOT (num (imin r))) (\<not> negative (imin r)))) ty)"
| "getIntRange (CastE ty e) = range_cast (getIntRange e) ty"
| "getIntRange (BinE b ty e1 e2) = range_bin b ty (type_of e1) (getIntRange e1) (getIntRange e2)"
| "getIntRange (CommaE ty e1 e2) = getIntRange e2"
| "getIntRange (CondE ty c e1 e2) = range_cast (unionWith (getIntRange e1) (getIntRange e2)) ty"

text \<open>The implicit conversion of an integral expression to a type that does not hold all values
  of its own type.\<close>

definition implicit_narrowing :: "iexp \<Rightarrow> ity \<Rightarrow> bool" where
  "implicit_narrowing e t \<longleftrightarrow> range_contains (intRangeFromType t) (getIntRange e)"

end
