(* ===== verification/Fold_Laws.thy ===== *)
theory Fold_Laws
  imports Int_Fold
begin

text \<open>
  The folding of integral expressions against the integers, and the soundness of the value
  ranges: the folded value of an expression lies in the range that \<open>getIntRange\<close> gives, so an
  implicit narrowing conversion keeps the value.  \<open>exact_ops\<close> names the operators for which this
  holds; the ones it leaves out (a sum of \<open>ulong\<close>, a product or left shift of 64 bits, casts to
  \<open>bool\<close> and \<open>dchar\<close>) are where the ranges of the code are too narrow.
\<close>

unbundle bit_operations_syntax

section \<open>Values\<close>

fun bits :: "ity \<Rightarrow> nat" where
  "bits Tbool = 1"
| "bits Tchar = 8" | "bits Tint8 = 8" | "bits Tuns8 = 8"
| "bits Twchar = 16" | "bits Tint16 = 16" | "bits Tuns16 = 16"
| "bits Tdchar = 32" | "bits Tint32 = 32" | "bits Tuns32 = 32"
| "bits Tint64 = 64" | "bits Tuns64 = 64"

definition ival :: "ity \<Rightarrow> u64 \<Rightarrow> int" where
  "ival ty v = (if isUnsigned ty then uint v else sint v)"

definition wrap :: "ity \<Rightarrow> int \<Rightarrow> int" where
  "wrap ty z = (if isUnsigned ty then z mod 2 ^ bits ty else swrap (bits ty - 1) z)"

lemma bits_cases: "bits ty \<in> {1, 8, 16, 32, 64}" "1 \<le> bits ty" "bits ty \<le> 64"
  by (cases ty; simp)+

lemma sizemask_mask: "sizemask ty = mask (bits ty)"
  by (cases ty) (simp_all add: mask_numeral)

lemma word_of_ival [simp]: "word_of_int (ival ty v) = v"
  by (simp add: ival_def)

lemma ival_normalize_unsigned:
  "isUnsigned ty \<Longrightarrow> ty \<noteq> Tbool \<Longrightarrow> uint (normalize ty (word_of_int z)) = z mod 2 ^ bits ty"
  by (cases ty) (simp_all add: isUnsigned_def unsigned_ucast_eq unsigned_of_int take_bit_eq_mod mod_mod_cancel)

lemma sint_scast:
  "sint (scast (b :: 8 word) :: u64) = sint b"
  "sint (scast (h :: 16 word) :: u64) = sint h"
  "sint (scast (i :: 32 word) :: u64) = sint i"
  "sint (scast (b :: 8 word) :: 32 word) = sint b"
  "sint (scast (h :: 16 word) :: 32 word) = sint h"
  by (rule sint_up_scast; simp add: is_up)+

lemma mod_mod_add: "m dvd n \<Longrightarrow> (z mod n + c) mod m = (z + c) mod (m :: int)"
  by (metis mod_add_left_eq mod_mod_cancel)

lemma sint_ucast_of_int:
  "sint (ucast (word_of_int z :: u64) :: 8 word) = swrap 7 z"
  "sint (ucast (word_of_int z :: u64) :: 16 word) = swrap 15 z"
  "sint (ucast (word_of_int z :: u64) :: 32 word) = swrap 31 z"
  "sint (word_of_int z :: u64) = swrap 63 z"
  by (simp_all add: unsigned_of_int signed_of_int signed_take_bit_eq_take_bit_shift swrap_def take_bit_eq_mod mod_mod_add)

lemma ival_normalize_signed:
  "\<not> isUnsigned ty \<Longrightarrow> sint (normalize ty (word_of_int z)) = swrap (bits ty - 1) z"
  by (cases ty) (simp_all add: isUnsigned_def sint_scast sint_ucast_of_int)

lemma ival_normalize: "ty \<noteq> Tbool \<Longrightarrow> ival ty (normalize ty (word_of_int z)) = wrap ty z"
  by (simp add: ival_def wrap_def ival_normalize_unsigned ival_normalize_signed)

lemma ival_inj: "ival ty v = ival ty w \<longleftrightarrow> v = w"
  by (metis word_of_ival)

lemma wrap_idem [simp]: "wrap ty (wrap ty z) = wrap ty z"
  by (simp add: wrap_def swrap_def)

lemma normalize_of_ival: "ty \<noteq> Tbool \<Longrightarrow> ival ty (normalize ty v) = wrap ty (ival ty v)"
  using ival_normalize[of ty "ival ty v"] by simp

lemma normalize_idem: "normalize ty (normalize ty v) = normalize ty v"
  by (cases "ty = Tbool") (simp_all add: ival_inj[symmetric, of _ _ ty] normalize_of_ival)

lemma normalize_ival: "normalize ty v = v \<Longrightarrow> wrap ty (ival ty v) = ival ty v"
proof (cases "ty = Tbool")
  case True
  moreover assume "normalize ty v = v"
  ultimately have "v = 0 \<or> v = 1" by (auto split: if_splits)
  then show ?thesis using True by (auto simp: wrap_def ival_def isUnsigned_def)
qed (metis normalize_of_ival)

section \<open>Casts of ranges\<close>

lemma range_cast_sound:
  assumes "in_range z r" and "ty \<noteq> Tdchar"
  shows "in_range (wrap ty z) (range_cast r ty)"
proof (cases "isUnsigned ty")
  case True
  then show ?thesis using castUnsigned_sound[OF assms(1) bits_cases(3)[of ty]] assms(2)
    by (simp add: range_cast_def wrap_def sizemask_mask)
next
  case False
  have "Suc (bits ty - 1) = bits ty" "bits ty - 1 < 64" using bits_cases(2,3)[of ty] by auto
  then show ?thesis using castSigned_sound[OF assms(1), of "bits ty - 1"] False
    by (simp add: range_cast_def wrap_def sizemask_mask)
qed

text \<open>The least and greatest value of a type.\<close>

definition low :: "ity \<Rightarrow> int" where "low ty = (if isUnsigned ty then 0 else - (2 ^ (bits ty - 1)))"
definition high :: "ity \<Rightarrow> int" where
  "high ty = (if ty = Tdchar then 0x10FFFF else if isUnsigned ty then 2 ^ bits ty - 1 else 2 ^ (bits ty - 1) - 1)"

definition within :: "int_range \<Rightarrow> ity \<Rightarrow> bool" where
  "within r ty \<longleftrightarrow> low ty \<le> sval (imin r) \<and> sval (imin r) \<le> high ty
     \<and> low ty \<le> sval (imax r) \<and> sval (imax r) \<le> high ty"

lemma uv_numerals:
  "uv 0xFF = 255" "uv 0xFFFF = 65535" "uv 0xFFFFFFFF = 4294967295" "uv 0x10FFFF = 1114111"
  "uv 0xFFFFFFFFFFFFFFFF = 18446744073709551615"
  by (simp_all add: uv_def)

lemma intRangeFromType_ends:
  "sval (imin (intRangeFromType ty)) = low ty" "sval (imax (intRangeFromType ty)) = high ty"
  by (cases ty; simp add: intRangeFromType_def isUnsigned_def low_def high_def sval_def uv_def)+

lemma low_bounds: "- 9223372036854775808 \<le> low ty" "low ty \<le> 0" "0 \<le> high ty" "high ty \<le> 18446744073709551615"
  by (cases ty; simp add: low_def high_def isUnsigned_def)+

lemma intRangeFromType_within: "within (intRangeFromType ty) ty"
  using low_bounds[of ty] by (simp add: within_def intRangeFromType_ends)

lemma castUnsigned_within:
  assumes "n \<le> 64"
  shows "0 \<le> sval (imin (castUnsigned (mask n) r)) \<and> sval (imin (castUnsigned (mask n) r)) \<le> 2 ^ n - 1
    \<and> 0 \<le> sval (imax (castUnsigned (mask n) r)) \<and> sval (imax (castUnsigned (mask n) r)) \<le> 2 ^ n - 1"
  using assms
  by (simp add: castUnsigned_def Let_def and_mask_take sval_def[of "SEN v False" for v] uv_take_bit uv_mask)

lemma castSigned_within:
  assumes k: "k < 64"
  shows "- (2 ^ k) \<le> sval (imin (castSigned (mask (Suc k)) r)) \<and> sval (imin (castSigned (mask (Suc k)) r)) \<le> 2 ^ k - 1
    \<and> - (2 ^ k) \<le> sval (imax (castSigned (mask (Suc k)) r)) \<and> sval (imax (castSigned (mask (Suc k)) r)) \<le> 2 ^ k - 1"
proof -
  have "uv (NOT (mask k)) = 18446744073709551616 - 2 ^ k" using uv_not[of "mask k"] uv_mask[of k] k by simp
  moreover have "0 \<le> (x :: int) mod 2 ^ Suc k" "x mod 2 ^ Suc k \<le> 2 * 2 ^ k - 1" for x
    using pos_mod_bound[of "2 ^ Suc k" x] by simp_all
  ultimately show ?thesis
    unfolding castSigned_chunk Let_def drop_mask[OF k] mask_half
    using uv_mask[of k] k
    by (cases "chunk (mask (Suc k)) (imin r) = chunk (mask (Suc k)) (imax r)")
      (simp_all add: xor_half[OF k refl] sval_def[of "SEN (NOT v) True" for v] sval_def[of "SEN v False" for v] del: power_Suc)
qed

lemma castDchar_within: "within (castDchar r) Tdchar"
  using uv_bounds
  by (auto simp: within_def low_def high_def isUnsigned_def castDchar_def castUnsigned_def Let_def sval_def uv_numerals
      uv_less not_less)

lemma range_cast_within: "within (range_cast r ty) ty"
proof (cases "isUnsigned ty")
  case True
  then show ?thesis
    using castUnsigned_within[OF bits_cases(3)[of ty], of r] castDchar_within[of r]
    by (auto simp: range_cast_def within_def low_def high_def sizemask_mask)
next
  case False
  have "Suc (bits ty - 1) = bits ty" "bits ty - 1 < 64" "ty = Tdchar \<Longrightarrow> isUnsigned ty"
    using bits_cases(2,3)[of ty] by (auto simp: isUnsigned_def)
  then show ?thesis using castSigned_within[of "bits ty - 1" r] False
    by (auto simp: range_cast_def within_def low_def high_def sizemask_mask)
qed

section \<open>The interface of value ranges\<close>

definition fits65 :: "int \<Rightarrow> bool" where
  "fits65 x \<longleftrightarrow> - 18446744073709551616 \<le> x \<and> x < 18446744073709551616"

locale value_ranges =
  fixes member :: "int \<Rightarrow> 'r \<Rightarrow> bool"
    and exact :: "int \<Rightarrow> bool"
    and neg_op :: "'r \<Rightarrow> 'r" and add_op :: "'r \<Rightarrow> 'r \<Rightarrow> 'r" and sub_op :: "'r \<Rightarrow> 'r \<Rightarrow> 'r"
    and mul_op :: "'r \<Rightarrow> 'r \<Rightarrow> 'r" and shl_op :: "'r \<Rightarrow> 'r \<Rightarrow> 'r" and shr_op :: "'r \<Rightarrow> 'r \<Rightarrow> 'r"
    and join :: "'r \<Rightarrow> 'r \<Rightarrow> 'r"
    and cast_to :: "'r \<Rightarrow> 't \<Rightarrow> 'r"
    and wrapped :: "'t \<Rightarrow> int \<Rightarrow> int" and castable :: "'t \<Rightarrow> bool"
  assumes neg_law: "member x r \<Longrightarrow> exact (- x) \<Longrightarrow> member (- x) (neg_op r)"
    and add_law: "member x r \<Longrightarrow> member y s \<Longrightarrow> exact (x + y) \<Longrightarrow> member (x + y) (add_op r s)"
    and sub_law: "member x r \<Longrightarrow> member y s \<Longrightarrow> exact (x - y) \<Longrightarrow> member (x - y) (sub_op r s)"
    and mul_law: "member x r \<Longrightarrow> member y s \<Longrightarrow> exact (x * y) \<Longrightarrow> member (x * y) (mul_op r s)"
    and shl_law: "member x r \<Longrightarrow> member y s \<Longrightarrow> 0 \<le> y \<Longrightarrow> y \<le> 64 \<Longrightarrow> exact (x * 2 ^ nat y) \<Longrightarrow>
        member (x * 2 ^ nat y) (shl_op r s)"
    and shr_law: "member x r \<Longrightarrow> member y s \<Longrightarrow> 0 \<le> y \<Longrightarrow> y \<le> 64 \<Longrightarrow> member (x div 2 ^ nat y) (shr_op r s)"
    and join_law: "member x r \<or> member x s \<Longrightarrow> member x (join r s)"
    and cast_law: "member x r \<Longrightarrow> castable t \<Longrightarrow> member (wrapped t x) (cast_to r t)"
begin

text \<open>Each operator followed by the cast to the type of the expression.\<close>

lemma neg_cast: "member x r \<Longrightarrow> exact (- x) \<Longrightarrow> castable t \<Longrightarrow> member (wrapped t (- x)) (cast_to (neg_op r) t)"
  by (intro cast_law neg_law)

lemma add_cast: "member x r \<Longrightarrow> member y s \<Longrightarrow> exact (x + y) \<Longrightarrow> castable t \<Longrightarrow>
    member (wrapped t (x + y)) (cast_to (add_op r s) t)"
  by (intro cast_law add_law)

lemma sub_cast: "member x r \<Longrightarrow> member y s \<Longrightarrow> exact (x - y) \<Longrightarrow> castable t \<Longrightarrow>
    member (wrapped t (x - y)) (cast_to (sub_op r s) t)"
  by (intro cast_law sub_law)

lemma mul_cast: "member x r \<Longrightarrow> member y s \<Longrightarrow> exact (x * y) \<Longrightarrow> castable t \<Longrightarrow>
    member (wrapped t (x * y)) (cast_to (mul_op r s) t)"
  by (intro cast_law mul_law)

lemma shl_cast: "member x r \<Longrightarrow> member y s \<Longrightarrow> 0 \<le> y \<Longrightarrow> y \<le> 64 \<Longrightarrow> exact (x * 2 ^ nat y) \<Longrightarrow> castable t \<Longrightarrow>
    member (wrapped t (x * 2 ^ nat y)) (cast_to (shl_op r s) t)"
  by (intro cast_law shl_law)

lemma shr_cast: "member x r \<Longrightarrow> member y s \<Longrightarrow> 0 \<le> y \<Longrightarrow> y \<le> 64 \<Longrightarrow> castable t \<Longrightarrow>
    member (wrapped t (x div 2 ^ nat y)) (cast_to (shr_op r s) t)"
  by (intro cast_law shr_law)

end

lemma clamp_fits: "fits65 x \<Longrightarrow> clamp x = x"
  by (simp add: fits65_def clamp_id)

interpretation vr: value_ranges in_range fits65 range_neg range_add range_sub range_mul range_shl range_shr
    unionWith range_cast wrap "\<lambda>ty. ty \<noteq> Tdchar"
proof unfold_locales
  show "in_range x r \<Longrightarrow> fits65 (- x) \<Longrightarrow> in_range (- x) (range_neg r)" for x r
    using range_neg_sound[of x r] by (simp add: clamp_fits)
  show "in_range x r \<Longrightarrow> in_range y s \<Longrightarrow> fits65 (x + y) \<Longrightarrow> in_range (x + y) (range_add r s)" for x r y s
    using range_add_sound[of x r y s] by (simp add: clamp_fits)
  show "in_range x r \<Longrightarrow> in_range y s \<Longrightarrow> fits65 (x - y) \<Longrightarrow> in_range (x - y) (range_sub r s)" for x r y s
    using range_sub_sound[of x r y s] by (simp add: clamp_fits)
  show "in_range x r \<Longrightarrow> in_range y s \<Longrightarrow> fits65 (x * y) \<Longrightarrow> in_range (x * y) (range_mul r s)" for x r y s
    using range_mul_sound[of x r y s] by (simp add: clamp_fits)
  show "in_range x r \<Longrightarrow> in_range y s \<Longrightarrow> 0 \<le> y \<Longrightarrow> y \<le> 64 \<Longrightarrow> fits65 (x * 2 ^ nat y) \<Longrightarrow>
      in_range (x * 2 ^ nat y) (range_shl r s)" for x r y s
    using range_shl_sound[of x r y s] by (simp add: clamp_fits)
qed (rule range_shr_sound unionWith_sound range_cast_sound; assumption)+

section \<open>Typed expressions\<close>

text \<open>What semantic analysis guarantees of an expression: literals are normalised and the
  operands of an arithmetic operator and the initialisers of constants have been promoted and
  brought to the type of the result.\<close>

definition promoted :: "ity \<Rightarrow> bool" where "promoted ty \<longleftrightarrow> ty \<in> {Tint32, Tuns32, Tint64, Tuns64}"

definition is_shift :: "binop \<Rightarrow> bool" where
  "is_shift b \<longleftrightarrow> b \<in> {EXPleftShift, EXPrightShift, EXPunsignedRightShift}"

definition proper :: "ity \<Rightarrow> u64 \<Rightarrow> bool" where
  "proper ty v \<longleftrightarrow> normalize ty v = v \<and> (ty = Tdchar \<longrightarrow> v \<le> 0x10FFFF)"

primrec well_typed :: "iexp \<Rightarrow> bool" where
  "well_typed (IntegerE ty v) \<longleftrightarrow> proper ty v"
| "well_typed (VarE ty x r) \<longleftrightarrow> True"
| "well_typed (ConstE ty x i) \<longleftrightarrow> well_typed i \<and> type_of i = ty"
| "well_typed (NegE ty e) \<longleftrightarrow> well_typed e \<and> type_of e = ty \<and> promoted ty"
| "well_typed (ComE ty e) \<longleftrightarrow> well_typed e \<and> type_of e = ty \<and> promoted ty"
| "well_typed (CastE ty e) \<longleftrightarrow> well_typed e"
| "well_typed (BinE b ty e1 e2) \<longleftrightarrow>
     well_typed e1 \<and> well_typed e2 \<and> type_of e1 = ty \<and> promoted ty \<and> (is_shift b \<or> type_of e2 = ty)"
| "well_typed (CommaE ty e1 e2) \<longleftrightarrow> well_typed e1 \<and> well_typed e2 \<and> type_of e2 = ty"
| "well_typed (CondE ty c e1 e2) \<longleftrightarrow>
     well_typed c \<and> well_typed e1 \<and> well_typed e2 \<and> type_of e1 = ty \<and> type_of e2 = ty"

text \<open>The variables hold values of their types, within the ranges known of them.\<close>

primrec env_ok :: "(string \<Rightarrow> u64) \<Rightarrow> iexp \<Rightarrow> bool" where
  "env_ok env (IntegerE ty v) \<longleftrightarrow> True"
| "env_ok env (VarE ty x r) \<longleftrightarrow>
     proper ty (env x) \<and> (case r of None \<Rightarrow> True | Some r \<Rightarrow> in_range (ival ty (env x)) r)"
| "env_ok env (ConstE ty x i) \<longleftrightarrow> env_ok env i"
| "env_ok env (NegE ty e) \<longleftrightarrow> env_ok env e"
| "env_ok env (ComE ty e) \<longleftrightarrow> env_ok env e"
| "env_ok env (CastE ty e) \<longleftrightarrow> env_ok env e"
| "env_ok env (BinE b ty e1 e2) \<longleftrightarrow> env_ok env e1 \<and> env_ok env e2"
| "env_ok env (CommaE ty e1 e2) \<longleftrightarrow> env_ok env e1 \<and> env_ok env e2"
| "env_ok env (CondE ty c e1 e2) \<longleftrightarrow> env_ok env c \<and> env_ok env e1 \<and> env_ok env e2"

text \<open>The operators whose results never leave the 65-bit numbers, and the casts that keep the
  value modulo the width.\<close>

definition exact_bin :: "binop \<Rightarrow> ity \<Rightarrow> bool" where
  "exact_bin b ty \<longleftrightarrow> (b = EXPadd \<longrightarrow> ty \<noteq> Tuns64) \<and> (b \<in> {EXPmul, EXPleftShift} \<longrightarrow> ty \<in> {Tint32, Tuns32})"

primrec exact_ops :: "iexp \<Rightarrow> bool" where
  "exact_ops (IntegerE ty v) \<longleftrightarrow> True"
| "exact_ops (VarE ty x r) \<longleftrightarrow> True"
| "exact_ops (ConstE ty x i) \<longleftrightarrow> exact_ops i"
| "exact_ops (NegE ty e) \<longleftrightarrow> exact_ops e"
| "exact_ops (ComE ty e) \<longleftrightarrow> exact_ops e"
| "exact_ops (CastE ty e) \<longleftrightarrow> exact_ops e \<and> ty \<noteq> Tbool \<and> ty \<noteq> Tdchar"
| "exact_ops (BinE b ty e1 e2) \<longleftrightarrow> exact_ops e1 \<and> exact_ops e2 \<and> exact_bin b ty"
| "exact_ops (CommaE ty e1 e2) \<longleftrightarrow> exact_ops e1 \<and> exact_ops e2"
| "exact_ops (CondE ty c e1 e2) \<longleftrightarrow> exact_ops c \<and> exact_ops e1 \<and> exact_ops e2"

section \<open>Ranges within the type\<close>

lemma getIntRange_within_type: "well_typed e \<Longrightarrow> within (getIntRange e) (type_of e)"
  by (induction e) (auto simp: range_cast_within intRangeFromType_within Let_def range_bin_def split: option.splits binop.splits)

lemma within_member: "in_range x r \<Longrightarrow> within r ty \<Longrightarrow> low ty \<le> x \<and> x \<le> high ty"
  by (auto simp: in_range_def within_def)

lemma promoted_bounds:
  "promoted ty \<Longrightarrow> low ty = (if ty = Tint32 then - 2147483648 else if ty = Tint64 then - 9223372036854775808 else 0)"
  "promoted ty \<Longrightarrow> high ty = (if ty = Tint32 then 2147483647 else if ty = Tint64 then 9223372036854775807
     else if ty = Tuns32 then 4294967295 else 18446744073709551615)"
  by (auto simp: promoted_def low_def high_def isUnsigned_def)

section \<open>Folding against the integers\<close>

lemma fold_bin_normalised: "fold_bin b ty t1 t2 v w = Inr u \<Longrightarrow> normalize ty u = u"
  by (cases b) (auto simp: Add_def Min_def Mul_def Div_def Mod_def Shl_def Shr_def Ushr_def shift_optimize_def
      rbind_Inr_iff normalize_idem split: if_splits)

lemma optimize_normalised:
  "well_typed e \<Longrightarrow> env_ok env e \<Longrightarrow> optimize env e = Inr v \<Longrightarrow> normalize (type_of e) v = v"
proof (induction e arbitrary: v)
  case (CastE ty e)
  then show ?case by (auto simp: rbind_Inr_iff Cast_def cast_integral_def normalize_idem)
qed (auto simp: proper_def rbind_Inr_iff Neg_def Com_def normalize_idem fold_bin_normalised split: if_splits)

text \<open>\<open>value ty v x\<close>: the word \<open>v\<close> of type \<open>ty\<close> stands for \<open>x\<close>.\<close>

lemma promoted_not: "promoted ty \<Longrightarrow> ty \<noteq> Tbool \<and> ty \<noteq> Tdchar"
  by (auto simp: promoted_def)

lemma ival_word_of_int:
  "promoted ty \<Longrightarrow> ival ty (normalize ty (word_of_int z)) = wrap ty z"
  by (simp add: ival_normalize promoted_not)

lemma swrap_add_right: "swrap k (x + swrap k y) = swrap k (x + y)"
  by (simp add: swrap_def algebra_simps) (metis (no_types, lifting) add.assoc add.commute mod_add_right_eq power_Suc)

lemma wrap_add_right: "wrap ty (x + wrap ty y) = wrap ty (x + y)"
  by (simp add: wrap_def swrap_add_right mod_add_right_eq)

lemma ival_Neg: "promoted ty \<Longrightarrow> ival ty (Neg ty v) = wrap ty (- ival ty v)"
  using ival_word_of_int[of ty "- ival ty v"] by (simp add: Neg_def)

lemma ival_Com: "promoted ty \<Longrightarrow> ival ty (Com ty v) = wrap ty (- ival ty v - 1)"
  using ival_word_of_int[of ty "- ival ty v - 1"] by (simp add: Com_def not_eq_complement)

lemma ival_Add: "promoted ty \<Longrightarrow> ival ty (Add ty v w) = wrap ty (ival ty v + ival ty w)"
  using ival_word_of_int[of ty "ival ty v + ival ty w"] by (simp add: Add_def)

lemma ival_Min: "promoted ty \<Longrightarrow> ival ty (Min ty ty v w) = wrap ty (ival ty v - ival ty w)"
  using wrap_add_right[of ty "ival ty v" "- ival ty w"] by (simp add: Min_def ival_Add ival_Neg)

lemma ival_Mul: "promoted ty \<Longrightarrow> ival ty (Mul ty v w) = wrap ty (ival ty v * ival ty w)"
  using ival_word_of_int[of ty "ival ty v * ival ty w"] by (simp add: Mul_def)

lemma ival_0_iff: "ival ty v = 0 \<longleftrightarrow> v = 0"
proof
  assume "ival ty v = 0"
  then have "v = word_of_int 0" by (metis word_of_ival)
  then show "v = 0" by simp
qed (simp add: ival_def)

lemma tdiv_nonneg: "0 \<le> x \<Longrightarrow> 0 \<le> y \<Longrightarrow> tdiv x y = x div y"
  and tmod_nonneg: "0 \<le> x \<Longrightarrow> 0 \<le> y \<Longrightarrow> tmod x y = x mod y"
  by (simp_all add: tdiv_def tmod_def)

lemma word_div_of_int: "(v :: u64) div w = word_of_int (uint v div uint w)"
  and word_mod_of_int: "(v :: u64) mod w = word_of_int (uint v mod uint w)"
  by (simp_all add: uint_div uint_mod flip: uint_div uint_mod)

lemma div_word:
  "(if isUnsigned ty then v div w else word_of_int (tdiv (sint v) (sint w))) = word_of_int (tdiv (ival ty v) (ival ty w))"
  "(if isUnsigned ty then v mod w else word_of_int (tmod (sint v) (sint w))) = word_of_int (tmod (ival ty v) (ival ty w))"
  by (simp_all add: ival_def word_div_of_int word_mod_of_int tdiv_nonneg tmod_nonneg)

lemma div_check_nonzero: "div_check ty v w = Inr u \<Longrightarrow> w \<noteq> 0"
  by (auto simp: div_check_def)

lemma ival_Div:
  assumes "promoted ty" and "Div ty ty ty v w = Inr u"
  shows "w \<noteq> 0" and "ival ty u = wrap ty (tdiv (ival ty v) (ival ty w))"
  using assms by (auto simp: Div_def div_word rbind_Inr_iff ival_word_of_int dest: div_check_nonzero)

lemma ival_Mod:
  assumes "promoted ty" and "Mod ty ty ty v w = Inr u"
  shows "w \<noteq> 0" and "ival ty u = wrap ty (tmod (ival ty v) (ival ty w))"
  using assms by (auto simp: Mod_def div_word rbind_Inr_iff ival_word_of_int dest: div_check_nonzero)

lemma ival_Shl: "promoted ty \<Longrightarrow> ival ty (Shl ty v c) = wrap ty (ival ty v * 2 ^ unat c)"
  using ival_word_of_int[of ty "ival ty v * 2 ^ unat c"] by (simp add: Shl_def push_bit_eq_mult)

text \<open>A count that passes the check is small, whatever its type.\<close>

lemma type_size_bits: "promoted ty \<Longrightarrow> uint (type_size ty * 8) = int (bits ty)"
  by (auto simp: promoted_def)

lemma sint_nonneg: "\<not> c <s 0 \<Longrightarrow> sint c = uint (c :: u64)"
  using sint_lt[of c] by (simp add: word_sless_alt uint_sint not_less) (simp add: take_bit_int_eq_self)

lemma shift_optimize_count:
  assumes "shift_optimize t1 c m = Inr u" and "promoted t1"
  shows "m = Inr u" and "0 \<le> ival ty c" and "ival ty c < int (bits t1)" and "unat c = nat (ival ty c)"
proof -
  have "\<not> (c <s 0 \<or> type_size t1 * 8 \<le> c)" using assms(1) by (metis Inl_Inr_False shift_optimize_def)
  then have c: "\<not> c <s 0" "c < type_size t1 * 8" by (simp_all add: not_le)
  have "ival ty c = uint c" by (simp add: ival_def sint_nonneg[OF c(1)])
  then show "0 \<le> ival ty c" and "ival ty c < int (bits t1)" and "unat c = nat (ival ty c)"
    using c(2)[unfolded word_less_def type_size_bits[OF assms(2)]] by (simp_all only: unat_eq_nat_uint) simp
  show "m = Inr u" using assms(1) by (metis Inl_Inr_False shift_optimize_def)
qed

text \<open>Right shifts of a normalised operand.\<close>

lemma sint_cast_int: "normalize Tint32 v = v \<Longrightarrow> sint (cast_int v) = sint v"
  by (metis normalize.simps(8) sint_scast(3))

lemma uint_cast_int:
  assumes "normalize Tuns32 v = v"
  shows "uint (cast_int v) = uint v"
proof -
  have "uint (ucast (cast_int v) :: u64) = uint (cast_int v)" by (rule uint_up_ucast) (simp add: is_up)
  then show ?thesis using assms by simp
qed

lemma word_of_sint: "(scast (w :: 32 word) :: u64) = word_of_int (sint w)"
  and word_of_uint: "(ucast (w :: 32 word) :: u64) = word_of_int (uint w)"
  by simp_all

lemma signed_drop_div: "sint (signed_drop_bit n (w :: 'a :: len word)) = sint w div 2 ^ n"
  by (simp add: sint_signed_drop_bit_eq drop_bit_eq_div)

lemma drop_div: "uint (drop_bit n (w :: 'a :: len word)) = uint w div 2 ^ n"
  by (simp only: unsigned_drop_bit_eq) (simp add: drop_bit_eq_div take_bit_int_eq_self)

lemma shr_value_div:
  assumes "promoted ty" "normalize ty v = v" "shr_value ty v n = Inr u"
  shows "u = word_of_int (ival ty v div 2 ^ n)"
proof -
  have "ty = Tint32 \<or> ty = Tuns32 \<or> ty = Tint64 \<or> ty = Tuns64" using assms(1) by (simp add: promoted_def)
  then show ?thesis
  proof (elim disjE)
    assume t: "ty = Tint32"
    have "u = word_of_int (sint (signed_drop_bit n (cast_int v)))"
      using assms(3) unfolding t shr_value.simps word_of_sint by simp
    then show ?thesis using sint_cast_int[of v] assms(2) t by (simp add: signed_drop_div ival_def isUnsigned_def)
  next
    assume t: "ty = Tuns32"
    have "u = word_of_int (uint (drop_bit n (cast_int v)))"
      using assms(3) unfolding t shr_value.simps word_of_uint by simp
    then show ?thesis using uint_cast_int[of v] assms(2) t by (simp add: drop_div ival_def isUnsigned_def)
  next
    assume t: "ty = Tint64"
    have "u = word_of_int (sint (signed_drop_bit n v))" using assms(3) t by simp
    then show ?thesis using t unfolding signed_drop_div by (simp add: ival_def isUnsigned_def)
  next
    assume t: "ty = Tuns64"
    have "u = word_of_int (uint (drop_bit n v))" using assms(3) t by simp
    then show ?thesis using t unfolding drop_div by (simp add: ival_def isUnsigned_def)
  qed
qed

lemma ival_mod_bits: "promoted ty \<Longrightarrow> ival ty v mod 2 ^ bits ty = uint v mod 2 ^ bits ty"
  by (auto simp: promoted_def ival_def isUnsigned_def uint_sint take_bit_eq_mod mod_mod_cancel)

lemma ushr_value_div:
  assumes "promoted ty" "ushr_value ty v n = Inr u"
  shows "u = word_of_int (ival ty v mod 2 ^ bits ty div 2 ^ n)"
proof -
  have "u = drop_bit n (v AND mask (bits ty))"
  proof (cases "bits ty = 64")
    case True
    then have "ty = Tint64 \<or> ty = Tuns64" by (cases ty) simp_all
    then have "u = drop_bit n v" using assms(2) by auto
    moreover have "v AND mask (bits ty) = v" unfolding True and_mask_take by (rule take_bit_word_eq_self) simp
    ultimately show ?thesis by (simp only:)
  next
    case False
    then show ?thesis using assms by (auto simp: promoted_def mask_numeral)
  qed
  then have "u = word_of_int (uint (drop_bit n (take_bit (bits ty) v)))"
    by (simp add: and_mask_take)
  then show ?thesis
    unfolding drop_div using uv_take_bit[of "bits ty" v] by (simp add: uv_def ival_mod_bits[OF assms(1)])
qed

section \<open>Soundness of the ranges\<close>

lemma range_com_sound:
  assumes "in_range x r"
  shows "in_range (- x - 1) (Range (SEN (NOT (num (imax r))) (\<not> negative (imax r)))
                        (SEN (NOT (num (imin r))) (\<not> negative (imin r))))"
  using assms by (auto simp: in_range_def sval_def uv_not)

lemma range_castDchar_sound:
  assumes "in_range x r" "0 \<le> x" "x \<le> 0x10FFFF"
  shows "in_range x (castDchar r)"
proof -
  have "in_range (x mod 2 ^ 32) (castUnsigned (mask 32) r)" using castUnsigned_sound[OF assms(1), of 32] by simp
  then have "in_range x (castUnsigned 0xFFFFFFFF r)" using assms(2,3) by (simp add: mask_numeral)
  moreover have "\<not> negative (imin (castUnsigned 0xFFFFFFFF r)) \<and> \<not> negative (imax (castUnsigned 0xFFFFFFFF r))"
    by (simp add: castUnsigned_def Let_def)
  ultimately show ?thesis using assms(3)
    by (auto simp: castDchar_def Let_def in_range_def sval_def uv_less uv_numerals)
qed

lemma wrap_id:
  assumes "low ty \<le> x" "x \<le> high ty"
  shows "wrap ty x = x"
proof (cases "isUnsigned ty")
  case True
  then show ?thesis using assms by (auto simp: wrap_def low_def high_def split: if_splits)
next
  case False
  then have "ty \<noteq> Tdchar" by (auto simp: isUnsigned_def)
  moreover have "bits ty = Suc (bits ty - 1)" using bits_cases(2)[of ty] by simp
  moreover from this have "(2 :: int) ^ bits ty = 2 * 2 ^ (bits ty - 1)" by (metis power_Suc)
  ultimately show ?thesis using False assms by (auto simp: wrap_def swrap_def low_def high_def)
qed

lemma range_cast_keeps:
  assumes "in_range x r" "low ty \<le> x" "x \<le> high ty"
  shows "in_range x (range_cast r ty)"
proof (cases "ty = Tdchar")
  case True
  then show ?thesis using range_castDchar_sound[OF assms(1)] assms(2,3)
    by (simp add: low_def high_def range_cast_def isUnsigned_def)
next
  case False
  then show ?thesis using range_cast_sound[OF assms(1) False] by (simp add: wrap_id assms)
qed

lemma proper_bounds: "proper ty v \<Longrightarrow> low ty \<le> ival ty v \<and> ival ty v \<le> high ty"
proof -
  assume p: "proper ty v"
  then have w: "wrap ty (ival ty v) = ival ty v" by (simp add: proper_def normalize_ival)
  show ?thesis
  proof (cases "ty = Tdchar")
    case True
    then show ?thesis using p by (simp add: proper_def low_def high_def ival_def isUnsigned_def word_le_def)
  next
    case False
    have "bits ty = Suc (bits ty - 1)" using bits_cases(2)[of ty] by simp
    then have b: "(2 :: int) ^ bits ty = 2 * 2 ^ (bits ty - 1)" by (metis power_Suc)
    have m: "0 \<le> (z :: int) mod 2 ^ bits ty" "z mod 2 ^ bits ty < 2 ^ bits ty" for z by simp_all
    show ?thesis using w m[of "ival ty v"] m[of "ival ty v + 2 ^ (bits ty - 1)"] False
      by (auto simp: wrap_def swrap_def low_def high_def b simp del: pos_mod_sign pos_mod_bound split: if_splits)
  qed
qed

lemma proper_in_type: "proper ty v \<Longrightarrow> in_range (ival ty v) (intRangeFromType ty)"
  using proper_bounds[of ty v] by (simp add: in_range_def intRangeFromType_ends)

lemma literal_sound:
  assumes "proper ty v"
  shows "in_range (ival ty v) (range_cast (Range (SEN v False) (SEN v False)) ty)"
proof (cases "ty = Tdchar")
  case True
  then have "in_range (ival ty v) (Range (SEN v False) (SEN v False))"
    by (simp add: in_range_def sval_def uv_def ival_def isUnsigned_def)
  then show ?thesis using proper_bounds[OF assms] by (blast intro: range_cast_keeps)
next
  case False
  have "in_range (uint v) (Range (SEN v False) (SEN v False))" by (simp add: in_range_def sval_def uv_def)
  from range_cast_sound[OF this False]
  have "in_range (wrap ty (uint v)) (range_cast (Range (SEN v False) (SEN v False)) ty)" .
  moreover have "wrap ty (uint v) = ival ty v"
    using assms ival_normalize[of ty "uint v"] normalize_ival[of ty v]
    by (cases "ty = Tbool") (simp_all add: proper_def ival_def isUnsigned_def)
  ultimately show ?thesis by simp
qed


text \<open>The bounds that keep the results of the operators within 65 bits.\<close>

lemma promoted_cases: "promoted ty \<longleftrightarrow> ty = Tint32 \<or> ty = Tuns32 \<or> ty = Tint64 \<or> ty = Tuns64"
  by (auto simp: promoted_def)

lemma operand_fits:
  assumes "promoted ty" "low ty \<le> x" "x \<le> high ty" "low ty \<le> y" "y \<le> high ty"
  shows "fits65 (- x)" and "fits65 (x - y)" and "ty \<noteq> Tuns64 \<Longrightarrow> fits65 (x + y)"
  using assms unfolding promoted_cases by (auto simp: fits65_def low_def high_def isUnsigned_def)

lemma product_fits:
  assumes "ty \<in> {Tint32, Tuns32}" "low ty \<le> x" "x \<le> high ty" "\<bar>y\<bar> \<le> 4294967295"
  shows "fits65 (x * y)"
proof -
  have "\<bar>x\<bar> \<le> 4294967295" using assms(1-3) by (auto simp: low_def high_def isUnsigned_def)
  then have "\<bar>x\<bar> * \<bar>y\<bar> \<le> 4294967295 * 4294967295" using assms(4) by (intro mult_mono) auto
  then show ?thesis by (simp add: fits65_def abs_mult[symmetric] abs_le_iff)
qed

lemma fold_bin_sound:
  assumes ty: "promoted ty" and ex: "exact_bin b ty" and t2: "is_shift b \<or> t2 = ty"
    and r: "in_range (ival ty v) r" "within r ty" and s: "in_range (ival t2 w) s" "within s t2"
    and n: "normalize ty v = v" and u: "fold_bin b ty ty t2 v w = Inr u"
    and R: "R = range_bin b ty ty r s"
  shows "in_range (ival ty u) R"
proof -
  define x where "x = ival ty v"
  define y where "y = ival t2 w"
  have x: "low ty \<le> x" "x \<le> high ty" using within_member[OF r] by (auto simp: x_def)
  have y: "low t2 \<le> y" "y \<le> high t2" using within_member[OF s] by (auto simp: y_def)
  have nd: "ty \<noteq> Tdchar" using ty by (simp add: promoted_not)
  note m = r(1)[folded x_def] s(1)[folded y_def]
  have ends: "sval (imin r) \<noteq> - 18446744073709551616" "sval (imin s) \<noteq> - 18446744073709551616"
    using r(2) s(2) low_bounds(1)[of ty] low_bounds(1)[of t2] by (auto simp: within_def)
  show ?thesis
  proof (cases b)
    case EXPadd
    then have t: "t2 = ty" "ty \<noteq> Tuns64" using t2 ex by (auto simp: is_shift_def exact_bin_def)
    have "ival ty u = wrap ty (x + y)" using u EXPadd ty t by (auto simp: ival_Add x_def y_def)
    then show ?thesis using vr.add_cast[OF m _ nd] operand_fits(3)[OF ty x y[unfolded t(1)] t(2)] by (simp add: R range_bin_def EXPadd)
  next
    case EXPmin
    then have t: "t2 = ty" using t2 by (auto simp: is_shift_def)
    have "ival ty u = wrap ty (x - y)" using u EXPmin ty t by (auto simp: ival_Min x_def y_def)
    then show ?thesis using vr.sub_cast[OF m _ nd] operand_fits(2)[OF ty x y[unfolded t(1)]] by (simp add: R range_bin_def EXPmin)
  next
    case EXPmul
    then have t: "t2 = ty" "ty \<in> {Tint32, Tuns32}" using t2 ex by (auto simp: is_shift_def exact_bin_def)
    have "\<bar>y\<bar> \<le> 4294967295" using y t by (auto simp: low_def high_def isUnsigned_def)
    moreover have "ival ty u = wrap ty (x * y)" using u EXPmul ty t(1) by (auto simp: ival_Mul x_def y_def)
    ultimately show ?thesis using vr.mul_cast[OF m _ nd] product_fits[OF t(2) x, of y] by (simp add: R range_bin_def EXPmul)
  next
    case EXPdiv
    then have t: "t2 = ty" using t2 by (auto simp: is_shift_def)
    have "Div ty ty ty v w = Inr u" using u EXPdiv t by simp
    from ival_Div[OF ty this] have "y \<noteq> 0" "ival ty u = wrap ty (tdiv x y)"
      by (simp_all add: x_def y_def t ival_0_iff)
    then show ?thesis using range_cast_sound[OF range_div_sound[OF m _ ends] nd] by (simp add: R range_bin_def EXPdiv)
  next
    case EXPmod
    then have t: "t2 = ty" using t2 by (auto simp: is_shift_def)
    have "Mod ty ty ty v w = Inr u" using u EXPmod t by simp
    from ival_Mod[OF ty this] have y0: "y \<noteq> 0" and uu: "ival ty u = wrap ty (tmod x y)"
      by (simp_all add: x_def y_def t ival_0_iff)
    have "negative (imin (absNeg s))" using absNeg_low[OF m(2)] y0 by (simp add: negative_iff)
    then show ?thesis using range_cast_sound[OF range_mod_sound[OF m y0] nd] uu by (simp add: R range_bin_def EXPmod)
  next
    case EXPleftShift
    then have t: "ty \<in> {Tint32, Tuns32}" using ex by (auto simp: exact_bin_def)
    have so: "shift_optimize ty w (Inr (Shl ty v w)) = Inr u" using u EXPleftShift by simp
    note c = shift_optimize_count(1)[OF so ty] shift_optimize_count(2-4)[OF so ty, where ty = t2, folded y_def]
    have u2: "ival ty u = wrap ty (x * 2 ^ nat y)" using c(1,4) by (auto simp: ival_Shl[OF ty] x_def)
    have "y \<le> 31" using c(3) t by auto
    then have "(2 :: int) ^ nat y \<le> 2 ^ 31" by (intro power_increasing) auto
    then have "fits65 (x * 2 ^ nat y)" by (intro product_fits[OF t x]) simp
    then show ?thesis using vr.shl_cast[OF m c(2) _ _ nd] u2 \<open>y \<le> 31\<close> by (simp add: R range_bin_def EXPleftShift)
  next
    case EXPrightShift
    have so: "shift_optimize ty w (Shr ty ty v w) = Inr u" using u EXPrightShift by simp
    note c = shift_optimize_count(1)[OF so ty] shift_optimize_count(2-4)[OF so ty, where ty = t2, folded y_def]
    have u2: "ival ty u = wrap ty (x div 2 ^ nat y)"
      using c(1,4) by (auto simp: Shr_def rbind_Inr_iff ival_word_of_int[OF ty] x_def dest!: shr_value_div[OF ty n])
    have "y \<le> 64" using c(3) bits_cases(3)[of ty] by simp
    then show ?thesis using vr.shr_cast[OF m c(2) _ nd] u2 by (simp add: R range_bin_def EXPrightShift)
  next
    case EXPunsignedRightShift
    have so: "shift_optimize ty w (Ushr ty ty v w) = Inr u" using u EXPunsignedRightShift by simp
    note c = shift_optimize_count(1)[OF so ty] shift_optimize_count(2-4)[OF so ty, where ty = t2, folded y_def]
    let ?z = "x mod 2 ^ bits ty"
    let ?r = "castUnsigned (mask (bits ty)) r"
    have u2: "ival ty u = wrap ty (?z div 2 ^ nat y)"
      using c(1,4) by (auto simp: Ushr_def rbind_Inr_iff ival_word_of_int[OF ty] x_def dest!: ushr_value_div[OF ty])
    have y64: "y \<le> 64" using c(3) bits_cases(3)[of ty] by simp
    have "\<not> negative (imin ?r) \<and> \<not> negative (imax ?r)" by (simp add: castUnsigned_def Let_def)
    then have "R = range_cast (range_shr ?r s) ty"
      by (simp add: R range_bin_def EXPunsignedRightShift range_castUnsigned_def nd sizemask_mask range_ushr_shr)
    then show ?thesis
      using vr.shr_cast[OF castUnsigned_sound[OF m(1) bits_cases(3)] m(2) c(2) y64 nd, of ty] u2 by simp
  qed
qed


text \<open>By induction on the expression, the values of the operands lying in their ranges.\<close>

lemma getIntRange_member:
  assumes "well_typed e" and "exact_ops e" and "env_ok env e" and "optimize env e = Inr v"
  shows "in_range (ival (type_of e) v) (getIntRange e)"
  using assms
proof (induction e arbitrary: v)
  case (IntegerE ty n)
  then show ?case by (simp add: literal_sound)
next
  case (VarE ty x r)
  then show ?case
    by (auto simp: proper_in_type intro: range_cast_keeps dest: proper_bounds split: option.splits)
next
  case (ConstE ty x i)
  then show ?case by (auto simp: rbind_Inr_iff)
next
  case (NegE ty e)
  then obtain w where w: "optimize env e = Inr w" "v = Neg ty w" by (auto simp: rbind_Inr_iff)
  have t: "type_of e = ty" "promoted ty" using NegE.prems by auto
  have i: "in_range (ival ty w) (getIntRange e)" using NegE w t by simp
  from within_member[OF i] getIntRange_within_type[of e] NegE.prems t
  have "fits65 (- ival ty w)" by (intro operand_fits(1)[of ty _ 0]) (use low_bounds[of ty] in auto)
  then show ?case using vr.neg_cast[OF i, of ty] t w by (simp add: ival_Neg promoted_not)
next
  case (ComE ty e)
  then obtain w where w: "optimize env e = Inr w" "v = Com ty w" by (auto simp: rbind_Inr_iff)
  have t: "type_of e = ty" "promoted ty" using ComE.prems by auto
  have i: "in_range (ival ty w) (getIntRange e)" using ComE w t by simp
  show ?case using range_cast_sound[OF range_com_sound[OF i], of ty] t w
    by (simp add: ival_Com promoted_not Let_def)
next
  case (CastE ty e)
  then obtain w where w: "optimize env e = Inr w" "v = Cast ty w" by (auto simp: rbind_Inr_iff)
  have t: "ty \<noteq> Tbool" "ty \<noteq> Tdchar" using CastE.prems by auto
  have i: "in_range (ival (type_of e) w) (getIntRange e)" using CastE w by simp
  have "ival ty v = wrap ty (ival (type_of e) w)"
    using ival_normalize[OF t(1), of "ival (type_of e) w"] t w by (simp add: Cast_def cast_integral_def)
  then show ?case using range_cast_sound[OF i t(2)] by simp
next
  case (BinE b ty e1 e2)
  then obtain w1 w2 where w: "optimize env e1 = Inr w1" "optimize env e2 = Inr w2"
    "fold_bin b ty (type_of e1) (type_of e2) w1 w2 = Inr v" by (auto simp: rbind_Inr_iff)
  have t: "type_of e1 = ty" "promoted ty" "is_shift b \<or> type_of e2 = ty" using BinE.prems by auto
  have n: "normalize ty w1 = w1" using optimize_normalised[OF _ _ w(1)] BinE.prems t(1) by auto
  have "in_range (ival ty w1) (getIntRange e1)" "in_range (ival (type_of e2) w2) (getIntRange e2)"
    using BinE w t by auto
  moreover have "within (getIntRange e1) ty" "within (getIntRange e2) (type_of e2)"
    using getIntRange_within_type[of e1] getIntRange_within_type[of e2] BinE.prems t by auto
  ultimately show ?case
    using fold_bin_sound[OF t(2) _ t(3) _ _ _ _ n, of "getIntRange e1" w2 "getIntRange e2" v] BinE.prems w(3) t(1)
    by simp
next
  case (CommaE ty e1 e2)
  then show ?case by (auto simp: rbind_Inr_iff)
next
  case (CondE ty c e1 e2)
  then obtain w where w: "optimize env c = Inr w"
    "(if w \<noteq> 0 then optimize env e1 else optimize env e2) = Inr v" by (auto simp: rbind_Inr_iff)
  define d where "d = (if w \<noteq> 0 then e1 else e2)"
  have i: "in_range (ival ty v) (getIntRange d)" "well_typed d" "type_of d = ty"
    using CondE w by (auto simp: d_def split: if_splits)
  then have "low ty \<le> ival ty v \<and> ival ty v \<le> high ty"
    using within_member[OF i(1)] getIntRange_within_type[of d] by simp
  moreover have "in_range (ival ty v) (unionWith (getIntRange e1) (getIntRange e2))"
    using i(1) by (intro unionWith_sound) (auto simp: d_def split: if_splits)
  ultimately show ?case by (auto intro: range_cast_keeps)
qed

section \<open>Division\<close>

lemma abs_tdiv: "\<bar>tdiv x y\<bar> = \<bar>x\<bar> div \<bar>y\<bar>"
  by (cases "y = 0") (simp_all add: tdiv_def pos_imp_zdiv_nonneg_iff)

lemma tdiv_minus_one: "tdiv x (- 1) = - x"
  by (simp add: tdiv_def)

lemma tdiv_half: "2 \<le> \<bar>y\<bar> \<Longrightarrow> \<bar>tdiv x y\<bar> \<le> \<bar>x\<bar> div 2"
  by (simp add: abs_tdiv zdiv_mono2)

lemma tdiv_in_type:
  assumes "promoted ty" "low ty \<le> x" "x \<le> high ty" "low ty \<le> y" "y \<noteq> 0" "y \<noteq> - 1 \<or> x \<noteq> low ty"
  shows "low ty \<le> tdiv x y \<and> tdiv x y \<le> high ty"
proof (cases "isUnsigned ty")
  case True
  then have "0 \<le> x" "0 \<le> y" using assms by (auto simp: low_def)
  moreover from this have "x div y \<le> x" "0 \<le> x div y"
    using zdiv_mono2[of x 1 y] assms(5) by (simp_all add: pos_imp_zdiv_nonneg_iff)
  ultimately show ?thesis using assms True by (simp add: tdiv_nonneg low_def)
next
  case False
  have h: "high ty = - low ty - 1" using assms(1) False by (auto simp: promoted_cases low_def high_def isUnsigned_def)
  consider "y = 1" | "y = - 1" | "2 \<le> \<bar>y\<bar>" using assms(5) by linarith
  then show ?thesis
  proof cases
    case 1
    then show ?thesis using assms(2,3) by (simp add: tdiv_def)
  next
    case 2
    then show ?thesis using assms(2,3,6) h by (simp add: tdiv_minus_one)
  next
    case 3
    then show ?thesis using tdiv_half[OF 3, of x] assms(2,3) h low_bounds[of ty] by linarith
  qed
qed

lemma signed_eq: "v = w \<longleftrightarrow> sint v = sint (w :: u64)"
  using ival_inj[of Tint64 v w] by (simp add: ival_def isUnsigned_def)

lemma div_check_iff:
  assumes "promoted ty" "proper ty v" "proper ty w"
  shows "div_check ty v w = Inr () \<longleftrightarrow> ival ty w \<noteq> 0 \<and> \<not> (\<not> isUnsigned ty \<and> ival ty w = - 1 \<and> ival ty v = low ty)"
proof -
  have c: "sint (0xFFFFFFFF80000000 :: u64) = - 2147483648" "sint (0x8000000000000000 :: u64) = - 9223372036854775808"
    "sint (- 1 :: u64) = - 1" by simp_all
  have b: "low ty \<le> ival ty v" using proper_bounds[OF assms(2)] by simp
  show ?thesis
    using assms(1) b signed_eq[of w "- 1"] signed_eq[of v "0xFFFFFFFF80000000"] signed_eq[of v "0x8000000000000000"]
      ival_0_iff[of ty w]
    unfolding promoted_cases c
    by (elim disjE) (auto simp: div_check_def ival_def isUnsigned_def low_def)
qed

section \<open>Properties\<close>

text \<open>C3: The value ranges are sound.  For an expression that semantic analysis accepts, over
  variables that hold values of their types and ranges, whenever folding gives a value, the
  integer it stands for lies in the range that \<open>getIntRange\<close> computes - wrap-around, truncated
  division, sign extension and shifts included - as long as the expression has no sum of
  \<open>ulong\<close>, no product or left shift of 64 bits and no cast to \<open>bool\<close> or \<open>dchar\<close>.\<close>

theorem getIntRange_sound:
  assumes "well_typed e" and "exact_ops e" and "env_ok env e" and "optimize env e = Inr v"
  shows "in_range (ival (type_of e) v) (getIntRange e)"
  using assms by (rule getIntRange_member)

text \<open>The expression \<open>(cast(int) b * 3) >> 2\<close> over a byte \<open>b\<close>.\<close>

definition shifted_byte :: iexp where
  "shifted_byte = BinE EXPrightShift Tint32
     (BinE EXPmul Tint32 (CastE Tint32 (VarE Tuns8 ''b'' None)) (IntegerE Tint32 3)) (IntegerE Tint32 2)"

lemma shifted_byte_ok:
  "well_typed shifted_byte" "exact_ops shifted_byte" "env_ok (\<lambda>_. 255) shifted_byte"
  "optimize (\<lambda>_. 255) shifted_byte = Inr 191" "type_of shifted_byte = Tint32"
  by code_simp+

theorem getIntRange_sound_witness:
  "in_range 191 (getIntRange shifted_byte) \<and> getIntRange shifted_byte = Range (SEN 0 False) (SEN 191 False)"
proof
  have "ival Tint32 191 = 191" by (simp add: ival_def isUnsigned_def)
  then show "in_range 191 (getIntRange shifted_byte)"
    using getIntRange_sound[OF shifted_byte_ok(1-4)] by (simp add: shifted_byte_ok(5))
  show "getIntRange shifted_byte = Range (SEN 0 False) (SEN 191 False)" by code_simp
qed

lemma normalize_in_type:
  assumes "low t \<le> x" "x \<le> high t"
  shows "ival t (normalize t (word_of_int x)) = x"
proof (cases "t = Tbool")
  case True
  then have "x = 0 \<or> x = 1" using assms by (auto simp: low_def high_def isUnsigned_def)
  then show ?thesis using True by (auto simp: ival_def isUnsigned_def)
next
  case False
  then show ?thesis by (simp add: ival_normalize wrap_id[OF assms])
qed

text \<open>C14: The implicit narrowing of integral expressions loses nothing, outside of the operations
  that the soundness of the ranges leaves out (sums of \<open>ulong\<close>, products and left shifts of 64 bits,
  casts to \<open>bool\<close> and \<open>dchar\<close>): when the range of an expression over variables within their ranges
  lets it convert to a type that cannot hold all values of its own type, the value that folding
  gives, normalised to the target, stands for the same integer.\<close>

theorem narrowing_keeps_value:
  assumes "well_typed e" and "exact_ops e" and "env_ok env e" and "optimize env e = Inr v"
    and "implicit_narrowing e t"
  shows "ival t (normalize t v) = ival (type_of e) v"
proof -
  have "in_range (ival (type_of e) v) (getIntRange e)" using assms(1-4) by (rule getIntRange_member)
  then have "low t \<le> ival (type_of e) v \<and> ival (type_of e) v \<le> high t"
    using assms(5) by (auto simp: implicit_narrowing_def range_contains_def sen_le_iff intRangeFromType_ends in_range_def)
  then show ?thesis using normalize_in_type[of t "ival (type_of e) v"] by simp
qed

lemma shifted_byte_narrow: "implicit_narrowing shifted_byte Tuns8"
  by code_simp

theorem narrowing_keeps_value_witness:
  "ival Tuns8 (normalize Tuns8 191) = ival Tint32 191 \<and> \<not> implicit_narrowing shifted_byte Tint8"
  using narrowing_keeps_value[OF shifted_byte_ok(1-4) shifted_byte_narrow]
  by (simp add: shifted_byte_ok(5)) code_simp

text \<open>Folding keeps values normalised: what folding an expression gives is a value of the
  type of the expression, so that a later reader of the literal sees no stray high bits.\<close>

lemma folded_value_normalised:
  assumes "well_typed e" and "env_ok env e" and "optimize env e = Inr v"
  shows "normalize (type_of e) v = v"
  using assms by (rule optimize_normalised)

text \<open>The expression \<open>(ulong.max - b + 256) - ulong.max\<close> over a byte \<open>b\<close>.\<close>

definition wrapping_sum :: iexp where
  "wrapping_sum = BinE EXPmin Tuns64
     (BinE EXPadd Tuns64
        (BinE EXPmin Tuns64 (IntegerE Tuns64 0xFFFFFFFFFFFFFFFF) (CastE Tuns64 (VarE Tuns8 ''b'' None)))
        (IntegerE Tuns64 256))
     (IntegerE Tuns64 0xFFFFFFFFFFFFFFFF)"

text \<open>A sum of \<open>ulong\<close> wraps while its range saturates.  The expression
  \<open>(ulong.max - b + 256) - ulong.max\<close> over a byte \<open>b\<close> has the range \<open>[0, 0]\<close> and converts to
  \<open>ubyte\<close> without a cast, and for \<open>b = 0\<close> its value is 256, which the conversion turns to 0.\<close>

lemma ulong_sum_narrowing_loses:
  "well_typed wrapping_sum \<and> env_ok (\<lambda>_. 0) wrapping_sum \<and> optimize (\<lambda>_. 0) wrapping_sum = Inr 256
   \<and> implicit_narrowing wrapping_sum Tuns8 \<and> normalize Tuns8 256 = 0"
  by code_simp

text \<open>The range of a cast to \<open>bool\<close> is cut with the mask 1, as if the cast took the lowest
  bit: for \<open>cast(bool) 2\<close> the range is \<open>[0, 0]\<close> while folding gives \<open>true\<close>.\<close>

lemma bool_cast_range_misses:
  "optimize env (CastE Tbool (IntegerE Tint32 2)) = Inr 1
   \<and> getIntRange (CastE Tbool (IntegerE Tint32 2)) = Range (SEN 0 False) (SEN 0 False)"
  by code_simp

text \<open>C29: The folding of a division is exact or reported.  For proper operands of the promoted
  type, \<open>Div\<close> fails exactly when the divisor is zero or the quotient is greater than the greatest
  value of the type (\<open>int.min / -1\<close>, \<open>long.min / -1\<close>), and otherwise gives the truncated
  quotient of the integers, with no wrap-around.\<close>

theorem division_exact_or_reported:
  assumes "promoted ty" and "proper ty v" and "proper ty w"
  shows "case Div ty ty ty v w of
      Inl f \<Rightarrow> ival ty w = 0 \<and> f = Divide_By_Zero
        \<or> ival ty w \<noteq> 0 \<and> high ty < tdiv (ival ty v) (ival ty w) \<and> f \<in> {Int_Min_Overflow, Long_Min_Overflow}
    | Inr u \<Rightarrow> ival ty w \<noteq> 0 \<and> ival ty u = tdiv (ival ty v) (ival ty w)"
proof (cases "Div ty ty ty v w")
  case (Inr u)
  then have "div_check ty v w = Inr ()" by (auto simp: Div_def rbind_Inr_iff)
  then have c: "ival ty w \<noteq> 0" "\<not> isUnsigned ty \<Longrightarrow> ival ty w = - 1 \<Longrightarrow> ival ty v \<noteq> low ty"
    using div_check_iff[OF assms] by auto
  have "isUnsigned ty \<Longrightarrow> ival ty w \<noteq> - 1" using proper_bounds[OF assms(3)] by (auto simp: low_def)
  then have "low ty \<le> tdiv (ival ty v) (ival ty w) \<and> tdiv (ival ty v) (ival ty w) \<le> high ty"
    using tdiv_in_type[OF assms(1)] proper_bounds[OF assms(2)] proper_bounds[OF assms(3)] c by blast
  then show ?thesis using Inr c(1) ival_Div(2)[OF assms(1) Inr] by (simp add: wrap_id)
next
  case (Inl f)
  then have f: "div_check ty v w = Inl f" by (cases "div_check ty v w") (auto simp: Div_def)
  show ?thesis
  proof (cases "ival ty w = 0")
    case True
    then show ?thesis using Inl f by (simp add: ival_0_iff div_check_def)
  next
    case False
    then have n: "\<not> isUnsigned ty" "ival ty w = - 1" "ival ty v = low ty" using div_check_iff[OF assms] f by auto
    then have "high ty < tdiv (ival ty v) (ival ty w)"
      using assms(1) by (auto simp: promoted_cases tdiv_minus_one low_def high_def isUnsigned_def)
    moreover have "f \<in> {Int_Min_Overflow, Long_Min_Overflow}"
      using f False by (auto simp: div_check_def ival_0_iff split: if_splits)
    ultimately show ?thesis using Inl False by simp
  qed
qed

theorem division_exact_or_reported_witness:
  "case Div Tint32 Tint32 Tint32 0xFFFFFFFF80000000 (- 1) of
      Inl f \<Rightarrow> ival Tint32 (- 1) = 0 \<and> f = Divide_By_Zero
        \<or> ival Tint32 (- 1) \<noteq> 0 \<and> high Tint32 < tdiv (ival Tint32 0xFFFFFFFF80000000) (ival Tint32 (- 1))
          \<and> f \<in> {Int_Min_Overflow, Long_Min_Overflow}
    | Inr u \<Rightarrow> ival Tint32 (- 1) \<noteq> 0 \<and> ival Tint32 u = tdiv (ival Tint32 0xFFFFFFFF80000000) (ival Tint32 (- 1))"
  by (rule division_exact_or_reported; code_simp)

text \<open>The range of an expression is a range of its type: both ends that \<open>getIntRange\<close>
  computes lie within \<open>intRangeFromType\<close> of the type of the expression, so that a conversion to
  the type itself is always allowed.\<close>

lemma range_within_type:
  assumes "well_typed e"
  shows "range_contains (intRangeFromType (type_of e)) (getIntRange e)"
  using getIntRange_within_type[OF assms]
  by (simp add: range_contains_def sen_le_iff intRangeFromType_ends within_def)

end
