(* ===== verification/Struct_Layout.thy ===== *)
theory Struct_Layout
  imports Prelude
begin

text \<open>
  The layout of the fields of structs and unions: alignments (struct \<open>structalign_t\<close> of globals.h,
  implemented in astenums.d), \<open>alignmember\<close> and \<open>placeField\<close> of aggregate.d, the placing of
  variables and of anonymous structs and unions by \<open>setFieldOffset\<close>, and the final size of the
  struct, by \<open>finalizeSize\<close> (dsymbolsem.d), on the counters \<open>structsize\<close>, \<open>alignsize\<close> and
  \<open>fields\<close> of \<open>AggregateDeclaration\<close> (aggregate.h).  Bit fields, tuples and the repeated visit
  of a field are not modelled; a \<open>D\<close> struct of size 0 gets size 1, the rules of other linkages
  are left out.
\<close>

unbundle bit_operations_syntax

section \<open>Alignments\<close>

record structalign =
  avalue :: u16
  aflags :: u8

definition STRUCTALIGN_DEFAULT :: u16 where "STRUCTALIGN_DEFAULT = 1234"
definition PACK :: u8 where "PACK = 1"
definition ALIGNAS :: u8 where "ALIGNAS = 2"
definition ALIGN_ATTRIB :: u8 where "ALIGN_ATTRIB = 4"

definition isDefault :: "structalign \<Rightarrow> bool" where "isDefault a \<longleftrightarrow> avalue a = STRUCTALIGN_DEFAULT"
definition setDefault :: "structalign \<Rightarrow> structalign" where "setDefault a = a\<lparr>avalue := STRUCTALIGN_DEFAULT\<rparr>"
definition isUnknown :: "structalign \<Rightarrow> bool" where "isUnknown a \<longleftrightarrow> avalue a = 0"
definition setUnknown :: "structalign \<Rightarrow> structalign" where "setUnknown a = a\<lparr>avalue := 0\<rparr>"
definition sa_set :: "u32 \<Rightarrow> structalign \<Rightarrow> structalign" where "sa_set v a = a\<lparr>avalue := ucast v\<rparr>"
definition sa_get :: "structalign \<Rightarrow> u32" where "sa_get a = ucast (avalue a)"
definition isPack :: "structalign \<Rightarrow> bool" where "isPack a \<longleftrightarrow> aflags a AND PACK \<noteq> 0"
definition setPack :: "structalign \<Rightarrow> structalign" where "setPack a = a\<lparr>aflags := aflags a OR PACK\<rparr>"
definition fromAlignas :: "structalign \<Rightarrow> bool" where "fromAlignas a \<longleftrightarrow> aflags a AND ALIGNAS \<noteq> 0"
definition setAlignas :: "structalign \<Rightarrow> structalign" where "setAlignas a = a\<lparr>aflags := aflags a OR ALIGNAS\<rparr>"
definition fromCAlignAttribute :: "structalign \<Rightarrow> bool" where
  "fromCAlignAttribute a \<longleftrightarrow> aflags a AND ALIGN_ATTRIB \<noteq> 0"
definition setCAlignAttribute :: "structalign \<Rightarrow> structalign" where
  "setCAlignAttribute a = a\<lparr>aflags := aflags a OR ALIGN_ATTRIB\<rparr>"

definition alignmember :: "structalign \<Rightarrow> u32 \<Rightarrow> u32 \<Rightarrow> fault + u32" where
  "alignmember alignment memalignsize ofs =
     (let align = (\<lambda>alignvalue.
            rbind (guard Assertion (alignvalue \<noteq> 0 \<and> alignvalue AND (alignvalue - 1) = 0)) (\<lambda>_.
              Inr ((ofs + alignvalue - 1) AND NOT (alignvalue - 1)))) in
      if isDefault alignment then align memalignsize
      else if isPack alignment then
        align (if memalignsize < sa_get alignment then memalignsize else sa_get alignment)
      else if sa_get alignment > 1 then align (sa_get alignment)
      else Inr ofs)"

section \<open>Fields\<close>

text \<open>A field that has been placed: its offset, with the size, the natural alignment and the
  alignment in effect for it.\<close>

record placed =
  poffset :: u32
  psize :: u32
  pmemalign :: u32
  palignment :: structalign

text \<open>The aggregate in the making, with the \<open>offset\<close> of the \<open>FieldState\<close>; \<open>exceeded\<close> tells that
  the error on the maximal object size has been reported.\<close>

record agg =
  next_offset :: u32
  structsize :: u32
  alignsize :: u32
  afields :: "placed list"
  exceeded :: bool

definition addu :: "u32 \<Rightarrow> u32 \<Rightarrow> bool \<Rightarrow> u32 \<times> bool" where
  "addu x y overflow = (let r = x + y in (r, r < x \<or> overflow))"

definition actual_alignment :: "structalign \<Rightarrow> u32 \<Rightarrow> u32" where
  "actual_alignment alignment memalignsize =
     (if isDefault alignment \<or> isPack alignment \<and> memalignsize < sa_get alignment
      then memalignsize else sa_get alignment)"

definition placeField :: "u32 \<Rightarrow> u32 \<Rightarrow> structalign \<Rightarrow> bool \<Rightarrow> agg \<Rightarrow> fault + (u32 \<times> agg)" where
  "placeField memsize memalignsize alignment isunion s =
     (let ofs = next_offset s; actual = actual_alignment alignment memalignsize;
          (sz, overflow) = addu memsize actual False;
          (_, overflow) = addu ofs sz overflow in
      if overflow then Inr (0, s\<lparr>exceeded := True\<rparr>)
      else
        rbind (if memalignsize \<noteq> 0 \<or> \<not> isDefault alignment then alignmember alignment memalignsize ofs
               else Inr ofs) (\<lambda>memoffset.
          let ofs = memoffset + memsize;
              s = (if ofs > structsize s then s\<lparr>structsize := ofs\<rparr> else s);
              s = (if \<not> isunion then s\<lparr>next_offset := ofs\<rparr> else s);
              s = (if alignsize s < actual then s\<lparr>alignsize := actual\<rparr> else s) in
          Inr (memoffset, s)))"

text \<open>A variable is given by the size and natural alignment of its type and the alignment in
  effect; an anonymous struct or union (the flag) by the alignment in effect and its members.\<close>

datatype member = Var u32 u32 structalign | Anon bool structalign "member list"

definition adjustBaseOffset :: "u32 \<Rightarrow> placed \<Rightarrow> placed" where
  "adjustBaseOffset ofs f = f\<lparr>poffset := poffset f + ofs\<rparr>"

text \<open>After the members of an anonymous aggregate: the counters of the enclosing aggregate
  \<open>s\<close> come back, and the anonymous one, whose members left \<open>t\<close>, is placed as one field.\<close>

definition place_anon :: "structalign \<Rightarrow> bool \<Rightarrow> agg \<Rightarrow> agg \<Rightarrow> fault + agg" where
  "place_anon alignment isunion s t =
     (let back = t\<lparr>next_offset := next_offset s, structsize := structsize s, alignsize := alignsize s\<rparr>;
          fieldstart = length (afields s) in
      if fieldstart = length (afields t) then Inr (back\<lparr>next_offset := structsize s\<rparr>)
      else
        (let size = (if structsize t = 0 then 1 else structsize t);
             align = (if structsize t = 0 then 1 else alignsize t) in
         rbind (placeField size align alignment isunion back) (\<lambda>(anonoffset, s').
           Inr (s'\<lparr>afields := take fieldstart (afields s') @
                  map (adjustBaseOffset anonoffset) (drop fieldstart (afields s'))\<rparr>))))"

fun setFieldOffset :: "bool \<Rightarrow> member \<Rightarrow> agg \<Rightarrow> fault + agg"
  and set_members :: "bool \<Rightarrow> bool \<Rightarrow> member list \<Rightarrow> agg \<Rightarrow> fault + agg" where
  "setFieldOffset isunion (Var memsize memalignsize alignment) s =
     rbind (placeField memsize memalignsize alignment isunion s) (\<lambda>(ofs, s).
       Inr (s\<lparr>afields := afields s @ [\<lparr>poffset = ofs, psize = memsize, pmemalign = memalignsize, palignment = alignment\<rparr>]\<rparr>))"
| "setFieldOffset isunion (Anon anonunion alignment ms) s =
     rbind (set_members anonunion anonunion ms (s\<lparr>next_offset := 0, structsize := 0, alignsize := 0\<rparr>)) (\<lambda>t.
       place_anon alignment isunion s t)"
| "set_members isunion reset [] s = Inr s"
| "set_members isunion reset (m # ms) s =
     rbind (setFieldOffset isunion m s) (\<lambda>s.
       set_members isunion reset ms (if reset then s\<lparr>next_offset := 0\<rparr> else s))"

section \<open>The size of the struct\<close>

definition empty_agg :: agg where
  "empty_agg = \<lparr>next_offset = 0, structsize = 0, alignsize = 0, afields = [], exceeded = False\<rparr>"

text \<open>\<open>alignment\<close> is the alignment applied outside of the struct.\<close>

definition round_size :: "structalign \<Rightarrow> agg \<Rightarrow> agg" where
  "round_size alignment s =
     (let alignment = (if fromCAlignAttribute alignment \<and> sa_get alignment < alignsize s
                       then setDefault alignment else alignment);
          alignTo = (if isDefault alignment \<or> isPack alignment then alignsize s else sa_get alignment) in
      s\<lparr>structsize := (structsize s + alignTo - 1) AND NOT (alignTo - 1)\<rparr>)"

definition finalizeSize :: "bool \<Rightarrow> structalign \<Rightarrow> member list \<Rightarrow> fault + agg" where
  "finalizeSize isunion alignment ms =
     rbind (set_members isunion False ms empty_agg) (\<lambda>s.
       let s = (if structsize s = 0 then
                  s\<lparr>alignsize := (if alignsize s = 0 then 1 else alignsize s), structsize := 1\<rparr>
                else s) in
       Inr (round_size alignment s))"

end
