(* ===== verification/Layout_Laws.thy ===== *)
theory Layout_Laws
  imports Struct_Layout
begin

text \<open>
  The layout of structs against the natural numbers: fields in order and disjoint, within the
  size of the aggregate, and, if they take room, at multiples of their natural alignments.  \<open>grows\<close>, \<open>stacks\<close> and
  \<open>aligns\<close> are what one step of the layout keeps, each proved by induction over members and
  lists of members together.  Two layouts show where the code goes wrong: the rounding of the
  size wraps, and a union goes on behind an anonymous aggregate without fields.
\<close>

unbundle bit_operations_syntax

section \<open>Rounding\<close>

definition round_up :: "nat \<Rightarrow> nat \<Rightarrow> nat" where
  "round_up n p = (n + p - 1) div p * p"

lemma round_up_ge: "0 < p \<Longrightarrow> n \<le> round_up n p"
  unfolding round_up_def using div_mult_mod_eq[of "n + p - 1" p] mod_less_divisor[of p "n + p - 1"] by linarith

lemma round_up_less: "0 < p \<Longrightarrow> round_up n p < n + p"
  unfolding round_up_def using div_times_less_eq_dividend[of "n + p - 1" p] by linarith

lemma round_up_dvd: "p dvd round_up n p"
  by (simp add: round_up_def)

lemma round_up_least: "0 < p \<Longrightarrow> p dvd m \<Longrightarrow> n \<le> m \<Longrightarrow> round_up n p \<le> m"
proof -
  assume p: "0 < p" and "p dvd m" "n \<le> m"
  then obtain c where c: "m = p * c" by auto
  show ?thesis
  proof (rule ccontr)
    assume "\<not> round_up n p \<le> m"
    moreover obtain d where "round_up n p = p * d" using round_up_dvd[of p n] by auto
    ultimately have "p * (c + 1) \<le> round_up n p" using p c by (metis Suc_eq_plus1 Suc_leI mult_le_mono2 mult_less_cancel1 not_le)
    then show False using round_up_less[OF p, of n] \<open>n \<le> m\<close> c by simp
  qed
qed

lemma round_up_1: "round_up n 1 = n"
  by (simp add: round_up_def)

definition pow2 :: "u32 \<Rightarrow> bool" where
  "pow2 a \<longleftrightarrow> a \<noteq> 0 \<and> a AND (a - 1) = 0"

lemma pow2_exp:
  assumes "pow2 a"
  obtains k where "k < 32" and "unat a = 2 ^ k"
proof -
  define n where "n = unat a"
  have n0: "0 < n" using assms by (simp add: n_def pow2_def unat_gt_0)
  obtain k where k: "2 ^ k \<le> n" "n < 2 ^ Suc k" using ex_power_ivl1[of 2 n] n0 by auto
  have k32: "k < 32"
  proof (rule ccontr)
    assume "\<not> k < 32"
    then have "(2 :: nat) ^ 32 \<le> 2 ^ k" by (intro power_increasing) auto
    then show False using k(1) unat_u32_lt[of a] by (simp add: n_def)
  qed
  have bitn: "bit w i \<longleftrightarrow> odd (unat w div 2 ^ i)" if "i < 32" for w :: u32 and i
    using that bit_unsigned_iff[of w i, where 'a = nat] by (simp add: bit_iff_odd[of "unat w"])
  have "n = 2 ^ k"
  proof (rule ccontr)
    assume "n \<noteq> 2 ^ k"
    then have "2 ^ k \<le> n - 1" "n - 1 < 2 ^ Suc k" using k by linarith+
    moreover have "m div 2 ^ k = 1" if "2 ^ k \<le> m" "m < 2 ^ Suc k" for m :: nat
      using that by (intro div_nat_eqI) auto
    moreover have "unat (a - 1) = n - 1" using n0 by (simp add: n_def unat_minus_one unat_gt_0)
    ultimately have "bit a k" "bit (a - 1) k" using k bitn[OF k32] by (auto simp: n_def)
    then have "bit (a AND (a - 1)) k" by (simp add: bit_and_iff)
    then show False using assms by (simp add: pow2_def)
  qed
  then show thesis using that k32 by (simp add: n_def)
qed

lemma pow2_pos: "pow2 a \<Longrightarrow> 0 < unat a"
  by (simp add: pow2_def unat_gt_0)

text \<open>The rounding of the code, when the sum does not wrap, and when it does.\<close>

lemma clear_low: "k < 32 \<Longrightarrow> unat (x AND NOT (mask k) :: u32) = unat x div 2 ^ k * 2 ^ k"
proof -
  assume k: "k < 32"
  have "x AND NOT (mask k) = push_bit k (drop_bit k x)"
    by (rule bit_eqI) (auto simp: bit_simps)
  moreover have "unat x div 2 ^ k * 2 ^ k \<le> unat x" by (rule div_times_less_eq_dividend)
  then have "unat x div 2 ^ k * 2 ^ k < 4294967296" using unat_u32_lt[of x] by linarith
  then have "take_bit 32 (push_bit k (drop_bit k (unat x))) = unat x div 2 ^ k * 2 ^ k"
    by (simp only: drop_bit_eq_div push_bit_eq_mult) (simp add: take_bit_nat_eq_self)
  ultimately show ?thesis by (simp only: unsigned_push_bit_eq unat_drop_bit_eq) simp
qed

lemma unat_minus1': "0 < unat a \<Longrightarrow> unat (a - 1 :: u32) = unat a - 1"
  by (simp add: unat_minus_one unat_gt_0)

lemma pow2_mask:
  assumes "unat (a :: u32) = 2 ^ k" and "k < 32"
  shows "a - 1 = mask k"
proof -
  have "a = of_nat (unat a)" by simp
  then have "a = of_nat (2 ^ k)" by (simp only: assms(1))
  then show ?thesis by (simp add: mask_eq_exp_minus_1)
qed

lemma align_up:
  assumes "pow2 a" and "unat n + unat a \<le> 2 ^ 32"
  shows "unat ((n + a - 1) AND NOT (a - 1)) = round_up (unat n) (unat a)"
proof -
  obtain k where k: "k < 32" "unat a = 2 ^ k" using assms(1) by (rule pow2_exp)
  have "unat (a - 1) = unat a - 1" using pow2_pos[OF assms(1)] by (rule unat_minus1')
  then have "unat (n + (a - 1)) = unat n + unat a - 1"
    using assms(2) pow2_pos[OF assms(1)] unat_plus_no_wrap[of n "a - 1"] by simp
  then show ?thesis
    using clear_low[of k "n + a - 1"] k pow2_mask[OF k(2,1)] by (simp add: round_up_def algebra_simps)
qed


lemma align_wrap:
  assumes "pow2 a" and "2 ^ 32 < unat n + unat a"
  shows "(n + a - 1) AND NOT (a - 1) = 0"
proof -
  obtain k where k: "k < 32" "unat a = 2 ^ k" using assms(1) by (rule pow2_exp)
  have m: "unat (a - 1) = unat a - 1" using pow2_pos[OF assms(1)] by (rule unat_minus1')
  have "unat (n + (a - 1)) = (unat n + (unat a - 1)) mod 2 ^ 32"
    using m by (simp add: unat_word_ariths)
  also have "\<dots> = unat n + (unat a - 1) - 2 ^ 32"
    using assms(2) unat_u32_lt[of n] unat_u32_lt[of a] by (simp add: mod_if)
  also have "\<dots> < unat a" using unat_u32_lt[of n] pow2_pos[OF assms(1)] by simp
  finally have "unat (n + a - 1) div 2 ^ k = 0" using k(2) by (simp add: algebra_simps)
  then have "unat ((n + a - 1) AND NOT (a - 1)) = 0"
    using clear_low[OF k(1), of "n + a - 1"] pow2_mask[OF k(2,1)] by simp
  then show ?thesis by (simp add: unat_eq_0)
qed

section \<open>Placing a field\<close>

text \<open>The alignment that a field really gets.\<close>

definition effective :: "structalign \<Rightarrow> u32 \<Rightarrow> nat" where
  "effective alignment memalignsize =
     (if isDefault alignment then (if memalignsize = 0 then 1 else unat memalignsize)
      else if isPack alignment then unat (min memalignsize (sa_get alignment))
      else if sa_get alignment > 1 then unat (sa_get alignment) else 1)"

lemma alignmember_result:
  assumes "alignmember alignment m ofs = Inr r" and "unat ofs + unat (actual_alignment alignment m) \<le> 2 ^ 32"
  shows "unat r = round_up (unat ofs) (effective alignment m)"
    and "0 < effective alignment m" and "actual_alignment alignment m = 0 \<or> pow2 (actual_alignment alignment m)"
proof -
  have step: "rbind (guard Assertion (a \<noteq> 0 \<and> a AND (a - 1) = 0)) (\<lambda>_. Inr ((ofs + a - 1) AND NOT (a - 1))) = Inr r
    \<longleftrightarrow> pow2 a \<and> r = (ofs + a - 1) AND NOT (a - 1)" for a
    by (auto simp: pow2_def rbind_guard_Inr)
  have p1: "pow2 1" by (simp add: pow2_def)
  consider "isDefault alignment" | "\<not> isDefault alignment" "isPack alignment"
    | "\<not> isDefault alignment" "\<not> isPack alignment" "sa_get alignment > 1"
    | "\<not> isDefault alignment" "\<not> isPack alignment" "\<not> sa_get alignment > 1" by blast
  then have "unat r = round_up (unat ofs) (effective alignment m) \<and> 0 < effective alignment m
    \<and> (actual_alignment alignment m = 0 \<or> pow2 (actual_alignment alignment m))"
  proof cases
    case 1
    then have "pow2 m" "r = (ofs + m - 1) AND NOT (m - 1)" using assms(1) by (simp_all add: alignmember_def step)
    then show ?thesis using 1 assms(2) align_up[of m ofs] pow2_pos[of m]
      by (simp add: effective_def actual_alignment_def pow2_def)
  next
    case 2
    let ?a = "min m (sa_get alignment)"
    have a: "(if m < sa_get alignment then m else sa_get alignment) = ?a" by (auto simp: min_def)
    have "actual_alignment alignment m = ?a" using 2 by (auto simp: actual_alignment_def min_def)
    moreover have "pow2 ?a" "r = (ofs + ?a - 1) AND NOT (?a - 1)"
      using assms(1) 2 by (simp_all only: alignmember_def step a Let_def if_False if_True)
    ultimately show ?thesis using 2 assms(2) align_up[of ?a ofs] pow2_pos[of ?a]
      by (simp add: effective_def)
  next
    case 3
    then have "pow2 (sa_get alignment)" "r = (ofs + sa_get alignment - 1) AND NOT (sa_get alignment - 1)"
      using assms(1) by (simp_all add: alignmember_def step)
    then show ?thesis using 3 assms(2) align_up[of "sa_get alignment" ofs] pow2_pos[of "sa_get alignment"]
      by (simp add: effective_def actual_alignment_def)
  next
    case 4
    then have "sa_get alignment = 0 \<or> sa_get alignment = 1"
      by (auto simp: word_unat_eq_iff word_less_nat_alt not_less le_Suc_eq)
    then show ?thesis using 4 assms(1) p1
      by (auto simp: alignmember_def effective_def actual_alignment_def round_up_1[unfolded One_nat_def])
  qed
  then show "unat r = round_up (unat ofs) (effective alignment m)"
    and "0 < effective alignment m" and "actual_alignment alignment m = 0 \<or> pow2 (actual_alignment alignment m)" by blast+
qed


text \<open>What a successful \<open>placeField\<close> does, over the natural numbers.\<close>

lemma addu_wraps: "x + y < (x :: u32) \<longleftrightarrow> 2 ^ 32 \<le> unat x + unat y"
  using no_olen_add_nat[of x y] by (simp add: not_le[symmetric])

lemma placeField_result:
  assumes "placeField memsize m alignment isunion s = Inr (o', s')" and "\<not> exceeded s'"
  shows "\<not> exceeded s" and "afields s' = afields s"
    and "unat o' = round_up (unat (next_offset s)) (effective alignment m)" and "0 < effective alignment m"
    and "unat o' + unat memsize < 2 ^ 32"
    and "unat (structsize s') = max (unat (structsize s)) (unat o' + unat memsize)"
    and "next_offset s' = (if isunion then next_offset s else o' + memsize)"
    and "alignsize s' = max (alignsize s) (actual_alignment alignment m)"
    and "actual_alignment alignment m = 0 \<or> pow2 (actual_alignment alignment m)"
proof -
  let ?a = "actual_alignment alignment m"
  define ofl where "ofl \<longleftrightarrow> next_offset s + (memsize + ?a) < next_offset s \<or> memsize + ?a < memsize"
  have "\<not> ofl" using assms by (auto simp: placeField_def addu_def Let_def ofl_def)
  then have fits: "unat (next_offset s) + (unat memsize + unat ?a) < 2 ^ 32"
    using unat_plus_no_wrap[of memsize ?a] by (auto simp: ofl_def addu_wraps not_le)
  define am where "am = (if m \<noteq> 0 \<or> \<not> isDefault alignment then alignmember alignment m (next_offset s)
               else Inr (next_offset s))"
  have am: "am = Inr o'" and s': "s' = (let ofs = o' + memsize;
              s = (if ofs > structsize s then s\<lparr>structsize := ofs\<rparr> else s);
              s = (if \<not> isunion then s\<lparr>next_offset := ofs\<rparr> else s) in
              (if alignsize s < ?a then s\<lparr>alignsize := ?a\<rparr> else s))"
    using assms(1) \<open>\<not> ofl\<close> by (auto simp: placeField_def addu_def Let_def ofl_def am_def rbind_Inr_iff)
  have *: "unat o' = round_up (unat (next_offset s)) (effective alignment m) \<and> 0 < effective alignment m
    \<and> (?a = 0 \<or> pow2 ?a)"
  proof (cases "m \<noteq> 0 \<or> \<not> isDefault alignment")
    case True
    then have "alignmember alignment m (next_offset s) = Inr o'" using am by (simp add: am_def)
    from alignmember_result[OF this] fits show ?thesis by auto
  next
    case False
    then show ?thesis using am round_up_1[of "unat (next_offset s)"]
      by (auto simp: am_def effective_def actual_alignment_def)
  qed
  then show "unat o' = round_up (unat (next_offset s)) (effective alignment m)" "0 < effective alignment m"
    "?a = 0 \<or> pow2 ?a" by blast+
  have "round_up (unat (next_offset s)) (effective alignment m) < unat (next_offset s) + effective alignment m"
    using * by (intro round_up_less) simp
  moreover have "effective alignment m \<le> max 1 (unat ?a)"
    by (auto simp: effective_def actual_alignment_def min_def)
  ultimately have o': "unat o' + unat memsize < 2 ^ 32" using * fits by linarith
  then show "unat o' + unat memsize < 2 ^ 32" .
  have sum: "unat (o' + memsize) = unat o' + unat memsize" using o' by (intro unat_plus_no_wrap) simp
  show "\<not> exceeded s" "afields s' = afields s"
    "next_offset s' = (if isunion then next_offset s else o' + memsize)"
    "alignsize s' = max (alignsize s) ?a"
    using assms(2) by (auto simp: s' Let_def max_def not_less split: if_splits)
  show "unat (structsize s') = max (unat (structsize s)) (unat o' + unat memsize)"
    using sum by (auto simp: s' Let_def max_def not_less word_less_nat_alt split: if_splits)
qed

section \<open>Placing members\<close>

definition fend :: "placed \<Rightarrow> nat" where "fend f = unat (poffset f) + unat (psize f)"

abbreviation alignsize_ok :: "agg \<Rightarrow> bool" where
  "alignsize_ok s \<equiv> alignsize s = 0 \<or> pow2 (alignsize s)"

abbreviation anon_size :: "agg \<Rightarrow> u32" where "anon_size t \<equiv> (if structsize t = 0 then 1 else structsize t)"
abbreviation anon_align :: "agg \<Rightarrow> u32" where "anon_align t \<equiv> (if structsize t = 0 then 1 else alignsize t)"

lemma place_anon_cases:
  assumes "place_anon alignment isunion s t = Inr s'" and "afields t = afields s @ F"
  obtains "F = []" "s' = t\<lparr>next_offset := structsize s, structsize := structsize s, alignsize := alignsize s\<rparr>"
  | o' r where "F \<noteq> []" and "s' = r\<lparr>afields := afields s @ map (adjustBaseOffset o') F\<rparr>"
      and "placeField (anon_size t) (anon_align t) alignment isunion
        (t\<lparr>next_offset := next_offset s, structsize := structsize s, alignsize := alignsize s\<rparr>) = Inr (o', r)"
      and "\<not> exceeded r \<Longrightarrow> afields r = afields t"
proof (cases "F = []")
  case True
  show thesis by (rule that(1)) (use True assms in \<open>auto simp: place_anon_def\<close>)
next
  case False
  then obtain o' r where r: "placeField (anon_size t) (anon_align t) alignment isunion
        (t\<lparr>next_offset := next_offset s, structsize := structsize s, alignsize := alignsize s\<rparr>) = Inr (o', r)"
    and s': "s' = r\<lparr>afields := take (length (afields s)) (afields r) @
        map (adjustBaseOffset o') (drop (length (afields s)) (afields r))\<rparr>"
    using assms by (auto simp: place_anon_def Let_def rbind_Inr_iff)
  have "afields r = afields t"
    using r by (auto simp: placeField_def Let_def rbind_Inr_iff split: prod.splits if_splits)
  then show thesis using that(2)[of o' r] False r s' assms(2) by simp
qed

lemma placeField_exceeded: "placeField sz m al isunion s = Inr (o', r) \<Longrightarrow> exceeded s \<Longrightarrow> exceeded r"
  by (auto simp: placeField_def Let_def rbind_Inr_iff split: prod.splits if_splits)

lemma place_anon_exceeded: "place_anon al isunion s t = Inr s' \<Longrightarrow> exceeded t \<Longrightarrow> exceeded s'"
  by (auto simp: place_anon_def Let_def rbind_Inr_iff split: if_splits dest!: placeField_exceeded)

lemma adjusted:
  assumes "unat o' + unat sz < 2 ^ 32" and "fend f \<le> unat sz"
  shows "unat (poffset (adjustBaseOffset o' f)) = unat o' + unat (poffset f)"
    and "fend (adjustBaseOffset o' f) = unat o' + fend f"
    and "psize (adjustBaseOffset o' f) = psize f" and "pmemalign (adjustBaseOffset o' f) = pmemalign f"
proof -
  have "unat (poffset f + o') = unat (poffset f) + unat o'"
    using assms by (intro unat_plus_no_wrap) (simp add: fend_def)
  then show "unat (poffset (adjustBaseOffset o' f)) = unat o' + unat (poffset f)"
    "fend (adjustBaseOffset o' f) = unat o' + fend f"
    "psize (adjustBaseOffset o' f) = psize f" "pmemalign (adjustBaseOffset o' f) = pmemalign f"
    by (simp_all add: adjustBaseOffset_def fend_def)
qed

lemma anon_size_unat: "unat (structsize t) \<le> unat (anon_size t)"
  by (simp add: unat_eq_0)

definition grows :: "agg \<Rightarrow> agg \<Rightarrow> bool" where
  "grows s s' \<longleftrightarrow> \<not> exceeded s \<and> unat (structsize s) \<le> unat (structsize s') \<and> (alignsize_ok s \<longrightarrow> alignsize_ok s') \<and>
     (\<exists>F. afields s' = afields s @ F \<and> (\<forall>f \<in> set F. fend f \<le> unat (structsize s')))"

lemma grows_trans:
  assumes "grows s t" "grows t u"
  shows "grows s u"
proof -
  obtain F where F: "afields t = afields s @ F" "\<And>f. f \<in> set F \<Longrightarrow> fend f \<le> unat (structsize t)"
    using assms(1) by (auto simp: grows_def)
  obtain G where G: "afields u = afields t @ G" "\<And>f. f \<in> set G \<Longrightarrow> fend f \<le> unat (structsize u)"
    using assms(2) by (auto simp: grows_def)
  have "fend f \<le> unat (structsize u)" if "f \<in> set (F @ G)" for f
    using F(2)[of f] G(2)[of f] that assms(2) by (auto simp: grows_def dest: order_trans)
  moreover have "afields u = afields s @ (F @ G)" using F(1) G(1) by simp
  moreover have "\<not> exceeded s" "unat (structsize s) \<le> unat (structsize u)" "alignsize_ok s \<longrightarrow> alignsize_ok u"
    using assms by (auto simp: grows_def)
  ultimately show ?thesis unfolding grows_def by blast
qed

lemma grows_reset: "grows (t\<lparr>next_offset := 0\<rparr>) s' \<longleftrightarrow> grows t s'"
  by (simp add: grows_def)

lemma members_grow:
  "setFieldOffset isunion m s = Inr s' \<Longrightarrow> \<not> exceeded s' \<Longrightarrow> grows s s'"
  "set_members isunion reset ms s = Inr s' \<Longrightarrow> \<not> exceeded s' \<Longrightarrow> grows s s'"
proof (induction isunion m s and isunion reset ms s arbitrary: s' and s' rule: setFieldOffset_set_members.induct)
  case (1 isunion sz al alignment s)
  then obtain o' r where r: "placeField sz al alignment isunion s = Inr (o', r)"
    and s': "s' = r\<lparr>afields := afields r @ [\<lparr>poffset = o', psize = sz, pmemalign = al, palignment = alignment\<rparr>]\<rparr>"
    by (auto simp: rbind_Inr_iff)
  have "\<not> exceeded r" using 1(2) s' by simp
  note p = placeField_result[OF r this]
  show ?case using p(1,2,6,8,9) s' by (auto simp: grows_def fend_def max_def)
next
  case (2 isunion u alignment ms s)
  then obtain t where t: "set_members u u ms (s\<lparr>next_offset := 0, structsize := 0, alignsize := 0\<rparr>) = Inr t"
    and s': "place_anon alignment isunion s t = Inr s'" by (auto simp: rbind_Inr_iff)
  have "\<not> exceeded t" using place_anon_exceeded[OF s'] 2 by blast
  from 2(1)[OF t this] obtain F where F: "afields t = afields s @ F" "\<forall>f \<in> set F. fend f \<le> unat (structsize t)"
    and ok: "\<not> exceeded s" "alignsize_ok t" by (auto simp: grows_def)
  from s' F(1) show ?case
  proof (cases rule: place_anon_cases)
    case 1
    then show ?thesis using ok F(1) by (simp add: grows_def)
  next
    case (2 o' r)
    then have "\<not> exceeded r" using \<open>\<not> exceeded s'\<close> by simp
    note p = placeField_result[OF 2(3) this]
    have "\<forall>f \<in> set F. fend (adjustBaseOffset o' f) \<le> unat (structsize r)"
      using F(2) adjusted(2)[OF p(5)] anon_size_unat[of t] p(6) by fastforce
    then show ?thesis using 2(2) p(6,8,9) ok by (auto simp: grows_def max_def)
  qed
next
  case (3 isunion reset s)
  then show ?case by (simp add: grows_def)
next
  case (4 isunion reset m ms s)
  then obtain t where t: "setFieldOffset isunion m s = Inr t"
    "set_members isunion reset ms (if reset then t\<lparr>next_offset := 0\<rparr> else t) = Inr s'" by (auto simp: rbind_Inr_iff)
  have g2: "grows (if reset then t\<lparr>next_offset := 0\<rparr> else t) s'" using 4(2)[OF t(2)] 4(4) by blast
  then have g2: "grows t s'" by (simp add: grows_reset split: if_splits)
  then have "\<not> exceeded t" by (simp add: grows_def)
  then have "grows s t" using 4(1) t(1) by blast
  then show ?case using g2 by (rule grows_trans)
qed


section \<open>Structs without unions\<close>

fun no_union :: "member \<Rightarrow> bool" and no_unions :: "member list \<Rightarrow> bool" where
  "no_union (Var sz m al) \<longleftrightarrow> True"
| "no_union (Anon u al ms) \<longleftrightarrow> \<not> u \<and> no_unions ms"
| "no_unions [] \<longleftrightarrow> True"
| "no_unions (m # ms) \<longleftrightarrow> no_union m \<and> no_unions ms"

abbreviation in_order :: "placed list \<Rightarrow> bool" where
  "in_order \<equiv> sorted_wrt (\<lambda>f g. fend f \<le> unat (poffset g))"

definition stacks :: "agg \<Rightarrow> agg \<Rightarrow> bool" where
  "stacks s s' \<longleftrightarrow> unat (next_offset s) \<le> unat (next_offset s') \<and> unat (next_offset s') \<le> unat (structsize s') \<and>
     (\<exists>F. afields s' = afields s @ F \<and> in_order F \<and>
        (\<forall>f \<in> set F. unat (next_offset s) \<le> unat (poffset f) \<and> fend f \<le> unat (next_offset s')))"

lemma set_members_exceeded: "set_members isunion reset ms s = Inr s' \<Longrightarrow> \<not> exceeded s' \<Longrightarrow> \<not> exceeded s"
  using members_grow(2) by (auto simp: grows_def)

lemma stacks_trans:
  assumes "stacks s t" "stacks t u"
  shows "stacks s u"
proof -
  obtain F where F: "afields t = afields s @ F" "in_order F"
    "\<And>f. f \<in> set F \<Longrightarrow> unat (next_offset s) \<le> unat (poffset f) \<and> fend f \<le> unat (next_offset t)"
    using assms(1) by (auto simp: stacks_def)
  obtain G where G: "afields u = afields t @ G" "in_order G"
    "\<And>f. f \<in> set G \<Longrightarrow> unat (next_offset t) \<le> unat (poffset f) \<and> fend f \<le> unat (next_offset u)"
    using assms(2) by (auto simp: stacks_def)
  have le: "unat (next_offset s) \<le> unat (next_offset t)" "unat (next_offset t) \<le> unat (next_offset u)"
    using assms by (auto simp: stacks_def)
  have "fend f \<le> unat (poffset g)" if "f \<in> set F" "g \<in> set G" for f g
    using F(3)[OF that(1)] G(3)[OF that(2)] by linarith
  then have "in_order (F @ G)" using F(2) G(2) by (simp add: sorted_wrt_append)
  moreover have "unat (next_offset s) \<le> unat (poffset f) \<and> fend f \<le> unat (next_offset u)" if "f \<in> set (F @ G)" for f
    using F(3)[of f] G(3)[of f] that le by auto
  moreover have "afields u = afields s @ (F @ G)" using F(1) G(1) by simp
  moreover have "unat (next_offset s) \<le> unat (next_offset u)" "unat (next_offset u) \<le> unat (structsize u)"
    using le assms(2) by (auto simp: stacks_def)
  ultimately show ?thesis unfolding stacks_def by blast
qed

lemma members_stack:
  "setFieldOffset isunion m s = Inr s' \<Longrightarrow> \<not> exceeded s' \<Longrightarrow> \<not> isunion \<Longrightarrow> no_union m \<Longrightarrow>
     unat (next_offset s) \<le> unat (structsize s) \<Longrightarrow> stacks s s'"
  "set_members isunion reset ms s = Inr s' \<Longrightarrow> \<not> exceeded s' \<Longrightarrow> \<not> isunion \<Longrightarrow> \<not> reset \<Longrightarrow> no_unions ms \<Longrightarrow>
     unat (next_offset s) \<le> unat (structsize s) \<Longrightarrow> stacks s s'"
proof (induction isunion m s and isunion reset ms s arbitrary: s' and s' rule: setFieldOffset_set_members.induct)
  case (1 isunion sz al alignment s)
  then obtain o' r where r: "placeField sz al alignment isunion s = Inr (o', r)"
    and s': "s' = r\<lparr>afields := afields r @ [\<lparr>poffset = o', psize = sz, pmemalign = al, palignment = alignment\<rparr>]\<rparr>"
    by (auto simp: rbind_Inr_iff)
  have "\<not> exceeded r" using 1(2) s' by simp
  note p = placeField_result[OF r this]
  have "unat (next_offset s) \<le> unat o'" unfolding p(3) by (rule round_up_ge[OF p(4)])
  moreover have "unat (o' + sz) = unat o' + unat sz" using p(5) by (intro unat_plus_no_wrap) simp
  ultimately show ?case using p(2,6,7) s' 1(3) by (auto simp: stacks_def fend_def)
next
  case (2 isunion u alignment ms s)
  then obtain t where t: "set_members u u ms (s\<lparr>next_offset := 0, structsize := 0, alignsize := 0\<rparr>) = Inr t"
    and s': "place_anon alignment isunion s t = Inr s'" by (auto simp: rbind_Inr_iff)
  have "\<not> exceeded t" using place_anon_exceeded[OF s'] 2 by blast
  from 2(1)[OF t this] 2(5) obtain F where F: "afields t = afields s @ F" "in_order F"
    "\<forall>f \<in> set F. fend f \<le> unat (structsize t)" by (fastforce simp: stacks_def)
  from s' F(1) show ?case
  proof (cases rule: place_anon_cases)
    case 1
    then show ?thesis using F(1) 2(6) by (simp add: stacks_def)
  next
    case (2 o' r)
    then have "\<not> exceeded r" using \<open>\<not> exceeded s'\<close> by simp
    note p = placeField_result[OF 2(3) this]
    have le: "fend f \<le> unat (anon_size t)" if "f \<in> set F" for f
      using F(3) that anon_size_unat[of t] by fastforce
    have o': "unat (next_offset s) \<le> unat o'" using round_up_ge[OF p(4)] unfolding p(3) by simp
    have n: "unat (next_offset r) = unat o' + unat (anon_size t)"
      using p(5,7) \<open>\<not> isunion\<close> unat_plus_no_wrap[of o' "anon_size t"] by simp
    have "in_order (map (adjustBaseOffset o') F)"
      using F(2) adjusted(1,2)[OF p(5) le] by (auto simp: sorted_wrt_map elim!: sorted_wrt_mono_rel[rotated])
    moreover have "unat (next_offset s) \<le> unat (poffset (adjustBaseOffset o' f))
        \<and> fend (adjustBaseOffset o' f) \<le> unat (next_offset r)" if "f \<in> set F" for f
      using adjusted(1,2)[OF p(5) le[OF that]] o' n le[OF that] by simp
    ultimately show ?thesis using 2(2) o' n p(6) by (auto simp: stacks_def)
  qed
next
  case (3 isunion reset s)
  then show ?case by (simp add: stacks_def)
next
  case (4 isunion reset m ms s)
  then obtain t where t: "setFieldOffset isunion m s = Inr t" "set_members isunion reset ms t = Inr s'"
    by (auto simp: rbind_Inr_iff)
  have "\<not> exceeded t" using set_members_exceeded[OF t(2)] 4 by blast
  then have g1: "stacks s t" using 4 t(1) by auto
  then have g2: "stacks t s'" using 4(2)[of t s'] t(2) 4 by (auto simp: stacks_def)
  from g1 g2 show ?case by (rule stacks_trans)
qed

section \<open>Natural alignment\<close>

fun default_align :: "member \<Rightarrow> bool" and default_aligns :: "member list \<Rightarrow> bool" where
  "default_align (Var sz m al) \<longleftrightarrow> isDefault al"
| "default_align (Anon u al ms) \<longleftrightarrow> isDefault al \<and> default_aligns ms"
| "default_aligns [] \<longleftrightarrow> True"
| "default_aligns (m # ms) \<longleftrightarrow> default_align m \<and> default_aligns ms"

text \<open>A field that takes room has a power of two as natural alignment, at most the alignment
  \<open>a\<close> of the aggregate, and an offset that is a multiple of it.\<close>

definition aligned :: "u32 \<Rightarrow> placed \<Rightarrow> bool" where
  "aligned a f \<longleftrightarrow> (psize f \<noteq> 0 \<and> pmemalign f \<noteq> 0 \<longrightarrow>
     pow2 (pmemalign f) \<and> pmemalign f \<le> a \<and> unat (pmemalign f) dvd unat (poffset f))"

definition aligns :: "agg \<Rightarrow> agg \<Rightarrow> bool" where
  "aligns s s' \<longleftrightarrow> alignsize s \<le> alignsize s' \<and>
     (\<exists>F. afields s' = afields s @ F \<and> (\<forall>f \<in> set F. aligned (alignsize s') f))"

lemma aligned_mono: "aligned a f \<Longrightarrow> a \<le> b \<Longrightarrow> aligned b f"
  by (auto simp: aligned_def)

lemma aligns_trans:
  assumes "aligns s t" "aligns t u"
  shows "aligns s u"
proof -
  obtain F where F: "afields t = afields s @ F" "\<And>f. f \<in> set F \<Longrightarrow> aligned (alignsize t) f"
    using assms(1) by (auto simp: aligns_def)
  obtain G where G: "afields u = afields t @ G" "\<And>f. f \<in> set G \<Longrightarrow> aligned (alignsize u) f"
    using assms(2) by (auto simp: aligns_def)
  have "alignsize t \<le> alignsize u" using assms(2) by (simp add: aligns_def)
  then have "aligned (alignsize u) f" if "f \<in> set (F @ G)" for f
    using F(2)[of f] G(2)[of f] that by (auto intro: aligned_mono)
  moreover have "afields u = afields s @ (F @ G)" using F(1) G(1) by simp
  moreover have "alignsize s \<le> alignsize u" using assms by (auto simp: aligns_def)
  ultimately show ?thesis unfolding aligns_def by blast
qed

lemma pow2_dvd:
  assumes "pow2 a" "pow2 b" "a \<le> b"
  shows "unat a dvd unat b"
proof -
  obtain i where i: "unat a = 2 ^ i" using assms(1) by (rule pow2_exp)
  obtain j where j: "unat b = 2 ^ j" using assms(2) by (rule pow2_exp)
  have "(2 :: nat) ^ i \<le> 2 ^ j" using assms(3) i j by (simp add: word_le_nat_alt)
  then have "i \<le> j" by simp
  then show ?thesis unfolding i j by (rule le_imp_power_dvd)
qed

lemma effective_default: "isDefault al \<Longrightarrow> m \<noteq> 0 \<Longrightarrow> effective al m = unat m"
  and actual_default: "isDefault al \<Longrightarrow> actual_alignment al m = m"
  by (simp_all add: effective_def actual_alignment_def)

lemma members_align:
  "setFieldOffset isunion m s = Inr s' \<Longrightarrow> \<not> exceeded s' \<Longrightarrow> default_align m \<Longrightarrow> aligns s s'"
  "set_members isunion reset ms s = Inr s' \<Longrightarrow> \<not> exceeded s' \<Longrightarrow> default_aligns ms \<Longrightarrow> aligns s s'"
proof (induction isunion m s and isunion reset ms s arbitrary: s' and s' rule: setFieldOffset_set_members.induct)
  case (1 isunion sz al alignment s)
  then obtain o' r where r: "placeField sz al alignment isunion s = Inr (o', r)"
    and s': "s' = r\<lparr>afields := afields r @ [\<lparr>poffset = o', psize = sz, pmemalign = al, palignment = alignment\<rparr>]\<rparr>"
    by (auto simp: rbind_Inr_iff)
  have "\<not> exceeded r" using 1(2) s' by simp
  note p = placeField_result[OF r this]
  have d: "isDefault alignment" using 1(3) by simp
  then have "unat al dvd unat o'" if "al \<noteq> 0"
    using p(3) that round_up_dvd[of "unat al"] by (simp add: effective_default)
  then show ?case using p(2,8,9) s' d by (auto simp: aligns_def aligned_def actual_default)
next
  case (2 isunion u alignment ms s)
  then obtain t where t: "set_members u u ms (s\<lparr>next_offset := 0, structsize := 0, alignsize := 0\<rparr>) = Inr t"
    and s': "place_anon alignment isunion s t = Inr s'" by (auto simp: rbind_Inr_iff)
  have nt: "\<not> exceeded t" using place_anon_exceeded[OF s'] 2 by blast
  have d: "isDefault alignment" using 2(4) by simp
  from 2(1)[OF t nt] 2(4) obtain F where F: "afields t = afields s @ F" "\<forall>f \<in> set F. aligned (alignsize t) f"
    by (auto simp: aligns_def)
  moreover from members_grow(2)[OF t nt] F(1) have G: "\<forall>f \<in> set F. fend f \<le> unat (structsize t)" "alignsize_ok t"
    by (auto simp: grows_def)
  from s' F(1) show ?case
  proof (cases rule: place_anon_cases)
    case 1
    then show ?thesis using F(1) by (simp add: aligns_def)
  next
    case (2 o' r)
    then have "\<not> exceeded r" using \<open>\<not> exceeded s'\<close> by simp
    note p = placeField_result[OF 2(3) this]
    have "aligned (alignsize r) (adjustBaseOffset o' f)" if f: "f \<in> set F" for f
    proof -
      have "fend f \<le> unat (anon_size t)" using G(1) f anon_size_unat[of t] by fastforce
      note a = adjusted[OF p(5) this]
      show ?thesis
      proof (cases "psize f \<noteq> 0 \<and> pmemalign f \<noteq> 0")
        case True
        then have "structsize t \<noteq> 0" using G(1) f by (fastforce simp: fend_def unat_eq_0)
        then have at: "anon_align t = alignsize t" by simp
        have m: "pow2 (pmemalign f)" "pmemalign f \<le> alignsize t" "unat (pmemalign f) dvd unat (poffset f)"
          using F(2) f True by (auto simp: aligned_def)
        then have a0: "alignsize t \<noteq> 0" using True by auto
        then have dv: "unat (pmemalign f) dvd unat (alignsize t)" using G(2) m by (intro pow2_dvd) auto
        have "unat (alignsize t) dvd unat o'"
          using p(3) a0 d round_up_dvd[of "unat (alignsize t)"] unfolding at by (simp add: effective_default)
        then have "unat (pmemalign f) dvd unat (poffset (adjustBaseOffset o' f))"
          unfolding a(1) using dv m(3) by (meson dvd_add dvd_trans)
        moreover have "alignsize t \<le> alignsize r" using p(8) d unfolding at by (simp add: actual_default)
        ultimately show ?thesis using m a(3,4) by (auto simp: aligned_def)
      next
        case False
        then show ?thesis using a(3,4) by (auto simp: aligned_def)
      qed
    qed
    then show ?thesis using 2(2) p(8) by (auto simp: aligns_def)
  qed
next
  case (3 isunion reset s)
  then show ?case by (simp add: aligns_def)
next
  case (4 isunion reset m ms s)
  then obtain t where t: "setFieldOffset isunion m s = Inr t"
    "set_members isunion reset ms (if reset then t\<lparr>next_offset := 0\<rparr> else t) = Inr s'" by (auto simp: rbind_Inr_iff)
  have g2: "aligns (if reset then t\<lparr>next_offset := 0\<rparr> else t) s'" using 4(2)[OF t(2)] 4 by simp
  then have g2: "aligns t s'" by (simp add: aligns_def split: if_splits)
  have "\<not> exceeded t" using set_members_exceeded[OF t(2)] 4(4) by (simp split: if_splits)
  then have "aligns s t" using 4(1) t(1) 4(5) by simp
  then show ?case using g2 by (rule aligns_trans)
qed

section \<open>The finished struct\<close>

definition outer_ok :: "structalign \<Rightarrow> bool" where
  "outer_ok al \<longleftrightarrow> isDefault al \<or> isPack al \<or> pow2 (sa_get al)"

lemma rounded: "a = 0 \<or> pow2 a \<Longrightarrow> (n + a - 1) AND NOT (a - 1) \<noteq> 0 \<Longrightarrow> unat n \<le> unat ((n + a - 1) AND NOT (a - 1))"
  using align_up[of a n] align_wrap[of a n] round_up_ge[of "unat a" "unat n"] pow2_pos[of a]
  by (cases "unat n + unat a \<le> 2 ^ 32") auto

lemma rounded_dvd: "pow2 a \<Longrightarrow> unat a dvd unat ((n + a - 1) AND NOT (a - 1))"
  using align_up[of a n] align_wrap[of a n] round_up_dvd[of "unat a" "unat n"]
  by (cases "unat n + unat a \<le> 2 ^ 32") auto

lemma finalizeSize_cases:
  assumes "finalizeSize isunion al ms = Inr s" and "\<not> exceeded s"
  obtains t a n where "set_members isunion False ms empty_agg = Inr t" and "\<not> exceeded t" and "afields s = afields t"
    and "structsize s = (n + a - 1) AND NOT (a - 1)" and "unat (structsize t) \<le> unat n"
    and "outer_ok al \<longrightarrow> a = 0 \<or> pow2 a" and "isDefault al \<and> alignsize t \<noteq> 0 \<longrightarrow> a = alignsize t"
proof -
  obtain t where t: "set_members isunion False ms empty_agg = Inr t"
    and s: "s = round_size al (if structsize t = 0 then
        t\<lparr>alignsize := (if alignsize t = 0 then 1 else alignsize t), structsize := 1\<rparr> else t)"
    using assms(1) by (auto simp: finalizeSize_def rbind_Inr_iff Let_def)
  define u where "u = (if structsize t = 0 then
        t\<lparr>alignsize := (if alignsize t = 0 then 1 else alignsize t), structsize := 1\<rparr> else t)"
  define al' where "al' = (if fromCAlignAttribute al \<and> sa_get al < alignsize u then setDefault al else al)"
  define a where "a = (if isDefault al' \<or> isPack al' then alignsize u else sa_get al')"
  have s': "s = u\<lparr>structsize := (structsize u + a - 1) AND NOT (a - 1)\<rparr>"
    unfolding s u_def[symmetric] by (simp add: round_size_def a_def al'_def Let_def)
  have ex: "\<not> exceeded t" "afields s = afields t" using assms(2) by (auto simp: s' u_def split: if_splits)
  have "alignsize_ok t" using members_grow(2)[OF t ex(1)] by (simp add: grows_def empty_agg_def)
  then have "alignsize_ok u" by (auto simp: u_def pow2_def)
  then have "outer_ok al \<longrightarrow> a = 0 \<or> pow2 a"
    by (auto simp: outer_ok_def a_def al'_def setDefault_def isDefault_def isPack_def)
  moreover have "isDefault al \<and> alignsize t \<noteq> 0 \<longrightarrow> a = alignsize t"
    by (auto simp: a_def al'_def u_def setDefault_def isDefault_def)
  moreover have "structsize s = (structsize u + a - 1) AND NOT (a - 1)" by (simp add: s')
  moreover have "unat (structsize t) \<le> unat (structsize u)" by (simp add: u_def unat_eq_0)
  ultimately show thesis using that[OF t ex] by blast
qed

section \<open>Properties\<close>

text \<open>The examples: alignment by default, a struct of a byte, an anonymous struct of a short and
  an int, an anonymous union of a byte and a long.\<close>

definition dflt :: structalign where "dflt = \<lparr>avalue = STRUCTALIGN_DEFAULT, aflags = 0\<rparr>"

definition nested_struct :: "member list" where
  "nested_struct = [Var 1 1 dflt, Anon False dflt [Var 2 2 dflt, Var 4 4 dflt]]"

definition struct_with_union :: "member list" where
  "struct_with_union = [Var 1 1 dflt, Anon True dflt [Var 1 1 dflt, Var 8 8 dflt], Var 1 1 dflt]"

abbreviation layout_of :: "fault + agg \<Rightarrow> (u32 \<times> (u32 \<times> u32) list \<times> bool) option" where
  "layout_of r \<equiv> (case r of Inl f \<Rightarrow> None
     | Inr s \<Rightarrow> Some (structsize s, map (\<lambda>f. (poffset f, psize f)) (afields s), exceeded s))"

lemma nested_struct_layout:
  "layout_of (finalizeSize False dflt nested_struct) = Some (12, [(0, 1), (4, 2), (8, 4)], False)"
  by code_simp

lemma struct_with_union_layout:
  "layout_of (finalizeSize False dflt struct_with_union) = Some (24, [(0, 1), (8, 1), (8, 8), (16, 1)], False)"
  by code_simp

lemma layout_of_Some:
  assumes "layout_of r = Some (n, xs, False)"
  obtains s where "r = Inr s" "\<not> exceeded s" "structsize s = n" "map (\<lambda>f. (poffset f, psize f)) (afields s) = xs"
  using assms by (auto split: sum.splits)

text \<open>C8: The fields of a struct do not overlap.  Whenever the layout of a struct whose members
  are variables and anonymous structs, nested at will and under whatever alignments, ends
  without the error on the maximal object size, every field ends, with no wrap-around of the
  32-bit offsets, at or before the start of the next one.\<close>

theorem struct_fields_disjoint:
  assumes "finalizeSize False alignment ms = Inr s" and "\<not> exceeded s" and "no_unions ms"
  shows "in_order (afields s)"
proof -
  from assms(1,2) obtain t where t: "set_members False False ms empty_agg = Inr t" "\<not> exceeded t"
    "afields s = afields t" by (rule finalizeSize_cases)
  have "stacks empty_agg t" using members_stack(2)[OF t(1,2)] assms(3) by (simp add: empty_agg_def)
  then show ?thesis using t(3) by (auto simp: stacks_def empty_agg_def)
qed

theorem struct_fields_disjoint_witness:
  "\<exists>s. finalizeSize False dflt nested_struct = Inr s \<and> in_order (afields s) \<and> length (afields s) = 3"
proof -
  obtain s where s: "finalizeSize False dflt nested_struct = Inr s" "\<not> exceeded s" "structsize s = 12"
    "map (\<lambda>f. (poffset f, psize f)) (afields s) = [(0, 1), (4, 2), (8, 4)]"
    by (rule layout_of_Some[OF nested_struct_layout])
  have "length (afields s) = 3" using arg_cong[OF s(4), of length] by simp
  moreover have "no_unions nested_struct" by (simp add: nested_struct_def)
  ultimately show ?thesis using struct_fields_disjoint[OF s(1,2)] s(1) by blast
qed

text \<open>C31: The size of an aggregate covers its fields.  If the layout of a struct or union, with
  anonymous unions as well, ends without the error on the maximal object size and its final
  size is not 0, every field lies within that size.\<close>

theorem fields_within_size:
  assumes "finalizeSize isunion alignment ms = Inr s" and "\<not> exceeded s" and "outer_ok alignment"
    and "structsize s \<noteq> 0"
  shows "\<forall>f \<in> set (afields s). unat (poffset f) + unat (psize f) \<le> unat (structsize s)"
proof -
  from assms(1,2) obtain t a n where t: "set_members isunion False ms empty_agg = Inr t" "\<not> exceeded t"
    "afields s = afields t" and r: "structsize s = (n + a - 1) AND NOT (a - 1)" "unat (structsize t) \<le> unat n"
    "outer_ok alignment \<longrightarrow> a = 0 \<or> pow2 a" "isDefault alignment \<and> alignsize t \<noteq> 0 \<longrightarrow> a = alignsize t"
    by (rule finalizeSize_cases)
  have "\<forall>f \<in> set (afields t). fend f \<le> unat (structsize t)"
    using members_grow(2)[OF t(1,2)] by (auto simp: grows_def empty_agg_def)
  moreover have "unat n \<le> unat (structsize s)" using rounded[of a n] r(1,3) assms(3,4) by simp
  ultimately show ?thesis using t(3) r(2) by (fastforce simp: fend_def)
qed

theorem fields_within_size_witness:
  "\<exists>s. finalizeSize False dflt struct_with_union = Inr s \<and> structsize s = 24
     \<and> (\<forall>f \<in> set (afields s). unat (poffset f) + unat (psize f) \<le> 24)"
proof -
  obtain s where s: "finalizeSize False dflt struct_with_union = Inr s" "\<not> exceeded s" "structsize s = 24"
    "map (\<lambda>f. (poffset f, psize f)) (afields s) = [(0, 1), (8, 1), (8, 8), (16, 1)]"
    by (rule layout_of_Some[OF struct_with_union_layout])
  have "outer_ok dflt" by (simp add: outer_ok_def isDefault_def dflt_def)
  then show ?thesis using fields_within_size[OF s(1,2)] s(1,3) by simp
qed

text \<open>C32: Natural alignment of the fields that take room.  When no alignment is set, every field whose
  size is not 0 and whose type has an alignment is placed at a multiple of that alignment, those
  inside of anonymous aggregates included, and the size of the struct is such a multiple too, so
  that the elements of an array of the struct are aligned.  A field of size 0 may be off: an
  anonymous aggregate of such fields only is placed with the alignment 1.\<close>

theorem default_layout_aligned:
  assumes "finalizeSize isunion alignment ms = Inr s" and "\<not> exceeded s" and "default_aligns ms"
    and "isDefault alignment"
  shows "\<forall>f \<in> set (afields s). psize f \<noteq> 0 \<longrightarrow>
     unat (pmemalign f) dvd unat (poffset f) \<and> unat (pmemalign f) dvd unat (structsize s) \<or> pmemalign f = 0"
proof
  fix f assume f: "f \<in> set (afields s)"
  from assms(1,2) obtain t a n where t: "set_members isunion False ms empty_agg = Inr t" "\<not> exceeded t"
    "afields s = afields t" and r: "structsize s = (n + a - 1) AND NOT (a - 1)"
    "unat (structsize t) \<le> unat n" "outer_ok alignment \<longrightarrow> a = 0 \<or> pow2 a"
    "isDefault alignment \<and> alignsize t \<noteq> 0 \<longrightarrow> a = alignsize t" by (rule finalizeSize_cases)
  have "aligned (alignsize t) f" using members_align(2)[OF t(1,2) assms(3)] f t(3) by (auto simp: aligns_def empty_agg_def)
  moreover have ok: "alignsize_ok t" using members_grow(2)[OF t(1,2)] by (simp add: grows_def empty_agg_def)
  moreover have "unat (pmemalign f) dvd unat (structsize s)" if "pow2 (pmemalign f)" "pmemalign f \<le> alignsize t"
  proof -
    have "alignsize t \<noteq> 0" using that by (auto simp: pow2_def)
    then have "a = alignsize t" "pow2 a" using r(4) assms(4) ok by auto
    then have "unat (pmemalign f) dvd unat a" using that by (simp add: pow2_dvd)
    then show ?thesis using rounded_dvd[OF \<open>pow2 a\<close>, of n] r(1) by (auto intro: dvd_trans)
  qed
  ultimately show "psize f \<noteq> 0 \<longrightarrow> unat (pmemalign f) dvd unat (poffset f)
    \<and> unat (pmemalign f) dvd unat (structsize s) \<or> pmemalign f = 0" by (auto simp: aligned_def)
qed

theorem default_layout_aligned_witness:
  "\<exists>s. finalizeSize False dflt struct_with_union = Inr s \<and> structsize s = 24 \<and>
     (\<forall>f \<in> set (afields s). psize f \<noteq> 0 \<longrightarrow> unat (pmemalign f) dvd unat (poffset f)
        \<and> unat (pmemalign f) dvd 24 \<or> pmemalign f = 0)"
proof -
  obtain s where s: "finalizeSize False dflt struct_with_union = Inr s" "\<not> exceeded s" "structsize s = 24"
    "map (\<lambda>f. (poffset f, psize f)) (afields s) = [(0, 1), (8, 1), (8, 8), (16, 1)]"
    by (rule layout_of_Some[OF struct_with_union_layout])
  have "isDefault dflt" by (simp add: isDefault_def dflt_def)
  moreover from this have "default_aligns struct_with_union" by (simp add: struct_with_union_def)
  ultimately show ?thesis using default_layout_aligned[OF s(1,2)] s(1,3) by simp
qed

text \<open>The size of a struct can wrap to zero.  The check on the maximal object size looks at
  each field where it is placed and not at the rounding of the size of the struct: with a
  \<open>long\<close> and two byte arrays of 2147483647 and 2147483635 elements no error is reported, the
  fields end at offset 4294967290, and the size is rounded up to 2^32, that is 0.\<close>

lemma struct_size_wraps:
  "layout_of (finalizeSize False dflt [Var 8 8 dflt, Var 0x7FFFFFFF 1 dflt, Var 0x7FFFFFF3 1 dflt])
   = Some (0, [(0, 8), (8, 0x7FFFFFFF), (0x80000007, 0x7FFFFFF3)], False)"
  by code_simp

text \<open>An anonymous struct without fields displaces the members of a union.  After an anonymous
  aggregate that holds no field the offset is set to the size so far, also in a union, whose
  offset is never set back: in a union of two ints with such a member between them, the
  second int is placed behind the first.\<close>

lemma union_member_displaced:
  "layout_of (finalizeSize True dflt [Var 4 4 dflt, Anon False dflt [], Var 4 4 dflt]) = Some (8, [(0, 4), (4, 4)], False)
   \<and> layout_of (finalizeSize True dflt [Var 4 4 dflt, Var 4 4 dflt]) = Some (4, [(0, 4), (0, 4)], False)"
  by code_simp

end
