(* ===== verification/Tokens.thy ===== *)
theory Tokens
  imports Prelude
begin

text \<open>
  The tokens and operators of the language: the enumerations \<open>TOK\<close> and \<open>EXP\<close> of tokens.h, the
  texts of tokens and the table of keywords of tokens.d, the texts of operators of hdrgen.d,
  and their precedences of parse.d.  \<open>TOK\<close> is split into the groups that the comments of its
  declaration name; the constructors of a group have the order of the header.
\<close>

section \<open>Tokens\<close>

datatype (plugins only:) other_token =
    TOK_reserved | TOK_leftParenthesis | TOK_rightParenthesis | TOK_leftBracket
    | TOK_rightBracket | TOK_leftCurly | TOK_rightCurly | TOK_colon | TOK_semicolon
    | TOK_dotDotDot | TOK_endOfFile | TOK_cast | TOK_null | TOK_assert | TOK_true | TOK_false
    | TOK_throw | TOK_new | TOK_variable | TOK_slice | TOK_version | TOK_module | TOK_dollar
    | TOK_template | TOK_typeof | TOK_pragma | TOK_typeid | TOK_comment

datatype (plugins only:) operator_token =
    TOK_lessThan | TOK_greaterThan | TOK_lessOrEqual | TOK_greaterOrEqual | TOK_equal
    | TOK_notEqual | TOK_identity | TOK_notIdentity | TOK_is | TOK_leftShift | TOK_rightShift
    | TOK_leftShiftAssign | TOK_rightShiftAssign | TOK_unsignedRightShift
    | TOK_unsignedRightShiftAssign | TOK_concatenateAssign | TOK_add | TOK_min | TOK_addAssign
    | TOK_minAssign | TOK_mul | TOK_div | TOK_mod | TOK_mulAssign | TOK_divAssign
    | TOK_modAssign | TOK_and | TOK_or | TOK_xor | TOK_andAssign | TOK_orAssign | TOK_xorAssign
    | TOK_assign | TOK_not | TOK_tilde | TOK_plusPlus | TOK_minusMinus | TOK_dot | TOK_comma
    | TOK_question | TOK_andAnd | TOK_orOr

datatype (plugins only:) number_token =
    TOK_int32Literal | TOK_uns32Literal | TOK_int64Literal | TOK_uns64Literal
    | TOK_int128Literal | TOK_uns128Literal | TOK_float32Literal | TOK_float64Literal
    | TOK_float80Literal | TOK_imaginary32Literal | TOK_imaginary64Literal
    | TOK_imaginary80Literal

datatype (plugins only:) char_token =
    TOK_charLiteral | TOK_wcharLiteral | TOK_dcharLiteral

datatype (plugins only:) leaf_token =
    TOK_identifier | TOK_string | TOK_interpolated | TOK_hexadecimalString | TOK_this
    | TOK_super | TOK_error

datatype (plugins only:) basic_token =
    TOK_void | TOK_int8 | TOK_uns8 | TOK_int16 | TOK_uns16 | TOK_int32 | TOK_uns32 | TOK_int64
    | TOK_uns64 | TOK_int128 | TOK_uns128 | TOK_float32 | TOK_float64 | TOK_float80
    | TOK_imaginary32 | TOK_imaginary64 | TOK_imaginary80 | TOK_complex32 | TOK_complex64
    | TOK_complex80 | TOK_char | TOK_wchar | TOK_dchar | TOK_bool

datatype (plugins only:) aggregate_token =
    TOK_struct | TOK_class | TOK_interface | TOK_union | TOK_enum | TOK_import | TOK_alias
    | TOK_override | TOK_delegate | TOK_function | TOK_mixin | TOK_align | TOK_extern
    | TOK_private | TOK_protected | TOK_public | TOK_export | TOK_static | TOK_final | TOK_const
    | TOK_abstract | TOK_debug | TOK_deprecated | TOK_in | TOK_out | TOK_inout | TOK_lazy
    | TOK_auto | TOK_package | TOK_immutable

datatype (plugins only:) statement_token =
    TOK_if | TOK_else | TOK_while | TOK_for | TOK_do | TOK_switch | TOK_case | TOK_default
    | TOK_break | TOK_continue | TOK_with | TOK_synchronized | TOK_return | TOK_goto | TOK_try
    | TOK_catch | TOK_finally | TOK_asm | TOK_foreach | TOK_foreach_reverse | TOK_scope
    | TOK_onScopeExit | TOK_onScopeFailure | TOK_onScopeSuccess | TOK_invariant | TOK_unittest

datatype (plugins only:) later_token =
    TOK_argumentTypes | TOK_ref | TOK_macro | TOK_parameters | TOK_traits | TOK_pure
    | TOK_nothrow | TOK_gshared | TOK_line | TOK_file | TOK_fileFullPath | TOK_moduleString
    | TOK_functionString | TOK_prettyFunction | TOK_shared | TOK_at | TOK_pow | TOK_powAssign
    | TOK_goesTo | TOK_vector | TOK_pound | TOK_arrow | TOK_colonColon | TOK_wchar_tLiteral
    | TOK_endOfLine | TOK_whitespace | TOK_rvalue

datatype (plugins only:) C_token =
    TOK_inline | TOK_register | TOK_restrict | TOK_signed | TOK_sizeof | TOK_typedef
    | TOK_unsigned | TOK_volatile | TOK_Alignas | TOK_Alignof | TOK_Atomic | TOK_Bool
    | TOK_Complex | TOK_Generic | TOK_Imaginary | TOK_Noreturn | TOK_Static_assert
    | TOK_Thread_local | TOK_c_assert | TOK_c_import | TOK_c_module | TOK_cdecl | TOK_declspec
    | TOK_stdcall | TOK_thread | TOK_cpragma | TOK_cint128 | TOK_attribute

datatype (plugins only:) TOK =
    Other_tok other_token | Operator_tok operator_token | Number_tok number_token
    | Char_tok char_token | Leaf_tok leaf_token | Basic_tok basic_token
    | Aggregate_tok aggregate_token | Statement_tok statement_token | Later_tok later_token
    | C_tok C_token

section \<open>The text of tokens\<close>

primrec other_chars :: "other_token \<Rightarrow> string" where
  "other_chars TOK_reserved = ''reserved''"
| "other_chars TOK_leftParenthesis = ''(''"
| "other_chars TOK_rightParenthesis = '')''"
| "other_chars TOK_leftBracket = ''[''"
| "other_chars TOK_rightBracket = '']''"
| "other_chars TOK_leftCurly = ''{''"
| "other_chars TOK_rightCurly = ''}''"
| "other_chars TOK_colon = '':''"
| "other_chars TOK_semicolon = '';''"
| "other_chars TOK_dotDotDot = ''...''"
| "other_chars TOK_endOfFile = ''End of File''"
| "other_chars TOK_cast = ''cast''"
| "other_chars TOK_null = ''null''"
| "other_chars TOK_assert = ''assert''"
| "other_chars TOK_true = ''true''"
| "other_chars TOK_false = ''false''"
| "other_chars TOK_throw = ''throw''"
| "other_chars TOK_new = ''new''"
| "other_chars TOK_variable = ''var''"
| "other_chars TOK_slice = ''..''"
| "other_chars TOK_version = ''version''"
| "other_chars TOK_module = ''module''"
| "other_chars TOK_dollar = ''$''"
| "other_chars TOK_template = ''template''"
| "other_chars TOK_typeof = ''typeof''"
| "other_chars TOK_pragma = ''pragma''"
| "other_chars TOK_typeid = ''typeid''"
| "other_chars TOK_comment = ''comment''"

primrec operator_chars :: "operator_token \<Rightarrow> string" where
  "operator_chars TOK_lessThan = ''<''"
| "operator_chars TOK_greaterThan = ''>''"
| "operator_chars TOK_lessOrEqual = ''<=''"
| "operator_chars TOK_greaterOrEqual = ''>=''"
| "operator_chars TOK_equal = ''==''"
| "operator_chars TOK_notEqual = ''!=''"
| "operator_chars TOK_identity = ''is''"
| "operator_chars TOK_notIdentity = ''!is''"
| "operator_chars TOK_is = ''is''"
| "operator_chars TOK_leftShift = ''<<''"
| "operator_chars TOK_rightShift = ''>>''"
| "operator_chars TOK_leftShiftAssign = ''<<=''"
| "operator_chars TOK_rightShiftAssign = ''>>=''"
| "operator_chars TOK_unsignedRightShift = ''>>>''"
| "operator_chars TOK_unsignedRightShiftAssign = ''>>>=''"
| "operator_chars TOK_concatenateAssign = ''~=''"
| "operator_chars TOK_add = ''+''"
| "operator_chars TOK_min = ''-''"
| "operator_chars TOK_addAssign = ''+=''"
| "operator_chars TOK_minAssign = ''-=''"
| "operator_chars TOK_mul = ''*''"
| "operator_chars TOK_div = ''/''"
| "operator_chars TOK_mod = ''%''"
| "operator_chars TOK_mulAssign = ''*=''"
| "operator_chars TOK_divAssign = ''/=''"
| "operator_chars TOK_modAssign = ''%=''"
| "operator_chars TOK_and = ''&''"
| "operator_chars TOK_or = ''|''"
| "operator_chars TOK_xor = ''^''"
| "operator_chars TOK_andAssign = ''&=''"
| "operator_chars TOK_orAssign = ''|=''"
| "operator_chars TOK_xorAssign = ''^=''"
| "operator_chars TOK_assign = ''=''"
| "operator_chars TOK_not = ''!''"
| "operator_chars TOK_tilde = ''~''"
| "operator_chars TOK_plusPlus = ''++''"
| "operator_chars TOK_minusMinus = ''--''"
| "operator_chars TOK_dot = ''.''"
| "operator_chars TOK_comma = '',''"
| "operator_chars TOK_question = ''?''"
| "operator_chars TOK_andAnd = ''&&''"
| "operator_chars TOK_orOr = ''||''"

primrec number_chars :: "number_token \<Rightarrow> string" where
  "number_chars TOK_int32Literal = ''int32v''"
| "number_chars TOK_uns32Literal = ''uns32v''"
| "number_chars TOK_int64Literal = ''int64v''"
| "number_chars TOK_uns64Literal = ''uns64v''"
| "number_chars TOK_int128Literal = ''int128v''"
| "number_chars TOK_uns128Literal = ''uns128v''"
| "number_chars TOK_float32Literal = ''float32v''"
| "number_chars TOK_float64Literal = ''float64v''"
| "number_chars TOK_float80Literal = ''float80v''"
| "number_chars TOK_imaginary32Literal = ''imaginary32v''"
| "number_chars TOK_imaginary64Literal = ''imaginary64v''"
| "number_chars TOK_imaginary80Literal = ''imaginary80v''"

primrec char_chars :: "char_token \<Rightarrow> string" where
  "char_chars TOK_charLiteral = ''charv''"
| "char_chars TOK_wcharLiteral = ''wcharv''"
| "char_chars TOK_dcharLiteral = ''dcharv''"

primrec leaf_chars :: "leaf_token \<Rightarrow> string" where
  "leaf_chars TOK_identifier = ''identifier''"
| "leaf_chars TOK_string = ''string''"
| "leaf_chars TOK_interpolated = ''interpolated string''"
| "leaf_chars TOK_hexadecimalString = ''xstring''"
| "leaf_chars TOK_this = ''this''"
| "leaf_chars TOK_super = ''super''"
| "leaf_chars TOK_error = ''error''"

primrec basic_chars :: "basic_token \<Rightarrow> string" where
  "basic_chars TOK_void = ''void''"
| "basic_chars TOK_int8 = ''byte''"
| "basic_chars TOK_uns8 = ''ubyte''"
| "basic_chars TOK_int16 = ''short''"
| "basic_chars TOK_uns16 = ''ushort''"
| "basic_chars TOK_int32 = ''int''"
| "basic_chars TOK_uns32 = ''uint''"
| "basic_chars TOK_int64 = ''long''"
| "basic_chars TOK_uns64 = ''ulong''"
| "basic_chars TOK_int128 = ''cent''"
| "basic_chars TOK_uns128 = ''ucent''"
| "basic_chars TOK_float32 = ''float''"
| "basic_chars TOK_float64 = ''double''"
| "basic_chars TOK_float80 = ''real''"
| "basic_chars TOK_imaginary32 = ''ifloat''"
| "basic_chars TOK_imaginary64 = ''idouble''"
| "basic_chars TOK_imaginary80 = ''ireal''"
| "basic_chars TOK_complex32 = ''cfloat''"
| "basic_chars TOK_complex64 = ''cdouble''"
| "basic_chars TOK_complex80 = ''creal''"
| "basic_chars TOK_char = ''char''"
| "basic_chars TOK_wchar = ''wchar''"
| "basic_chars TOK_dchar = ''dchar''"
| "basic_chars TOK_bool = ''bool''"

primrec aggregate_chars :: "aggregate_token \<Rightarrow> string" where
  "aggregate_chars TOK_struct = ''struct''"
| "aggregate_chars TOK_class = ''class''"
| "aggregate_chars TOK_interface = ''interface''"
| "aggregate_chars TOK_union = ''union''"
| "aggregate_chars TOK_enum = ''enum''"
| "aggregate_chars TOK_import = ''import''"
| "aggregate_chars TOK_alias = ''alias''"
| "aggregate_chars TOK_override = ''override''"
| "aggregate_chars TOK_delegate = ''delegate''"
| "aggregate_chars TOK_function = ''function''"
| "aggregate_chars TOK_mixin = ''mixin''"
| "aggregate_chars TOK_align = ''align''"
| "aggregate_chars TOK_extern = ''extern''"
| "aggregate_chars TOK_private = ''private''"
| "aggregate_chars TOK_protected = ''protected''"
| "aggregate_chars TOK_public = ''public''"
| "aggregate_chars TOK_export = ''export''"
| "aggregate_chars TOK_static = ''static''"
| "aggregate_chars TOK_final = ''final''"
| "aggregate_chars TOK_const = ''const''"
| "aggregate_chars TOK_abstract = ''abstract''"
| "aggregate_chars TOK_debug = ''debug''"
| "aggregate_chars TOK_deprecated = ''deprecated''"
| "aggregate_chars TOK_in = ''in''"
| "aggregate_chars TOK_out = ''out''"
| "aggregate_chars TOK_inout = ''inout''"
| "aggregate_chars TOK_lazy = ''lazy''"
| "aggregate_chars TOK_auto = ''auto''"
| "aggregate_chars TOK_package = ''package''"
| "aggregate_chars TOK_immutable = ''immutable''"

primrec statement_chars :: "statement_token \<Rightarrow> string" where
  "statement_chars TOK_if = ''if''"
| "statement_chars TOK_else = ''else''"
| "statement_chars TOK_while = ''while''"
| "statement_chars TOK_for = ''for''"
| "statement_chars TOK_do = ''do''"
| "statement_chars TOK_switch = ''switch''"
| "statement_chars TOK_case = ''case''"
| "statement_chars TOK_default = ''default''"
| "statement_chars TOK_break = ''break''"
| "statement_chars TOK_continue = ''continue''"
| "statement_chars TOK_with = ''with''"
| "statement_chars TOK_synchronized = ''synchronized''"
| "statement_chars TOK_return = ''return''"
| "statement_chars TOK_goto = ''goto''"
| "statement_chars TOK_try = ''try''"
| "statement_chars TOK_catch = ''catch''"
| "statement_chars TOK_finally = ''finally''"
| "statement_chars TOK_asm = ''asm''"
| "statement_chars TOK_foreach = ''foreach''"
| "statement_chars TOK_foreach_reverse = ''foreach_reverse''"
| "statement_chars TOK_scope = ''scope''"
| "statement_chars TOK_onScopeExit = ''scope(exit)''"
| "statement_chars TOK_onScopeFailure = ''scope(failure)''"
| "statement_chars TOK_onScopeSuccess = ''scope(success)''"
| "statement_chars TOK_invariant = ''invariant''"
| "statement_chars TOK_unittest = ''unittest''"

primrec later_chars :: "later_token \<Rightarrow> string" where
  "later_chars TOK_argumentTypes = ''__argTypes''"
| "later_chars TOK_ref = ''ref''"
| "later_chars TOK_macro = ''macro''"
| "later_chars TOK_parameters = ''__parameters''"
| "later_chars TOK_traits = ''__traits''"
| "later_chars TOK_pure = ''pure''"
| "later_chars TOK_nothrow = ''nothrow''"
| "later_chars TOK_gshared = ''__gshared''"
| "later_chars TOK_line = ''__LINE__''"
| "later_chars TOK_file = ''__FILE__''"
| "later_chars TOK_fileFullPath = ''__FILE_FULL_PATH__''"
| "later_chars TOK_moduleString = ''__MODULE__''"
| "later_chars TOK_functionString = ''__FUNCTION__''"
| "later_chars TOK_prettyFunction = ''__PRETTY_FUNCTION__''"
| "later_chars TOK_shared = ''shared''"
| "later_chars TOK_at = ''@''"
| "later_chars TOK_pow = ''^^''"
| "later_chars TOK_powAssign = ''^^=''"
| "later_chars TOK_goesTo = ''=>''"
| "later_chars TOK_vector = ''__vector''"
| "later_chars TOK_pound = ''#''"
| "later_chars TOK_arrow = ''->''"
| "later_chars TOK_colonColon = ''::''"
| "later_chars TOK_wchar_tLiteral = ''wchar_tv''"
| "later_chars TOK_endOfLine = [CHR 0x5C, CHR 0x6E]"
| "later_chars TOK_whitespace = ''whitespace''"
| "later_chars TOK_rvalue = ''__rvalue''"

primrec C_chars :: "C_token \<Rightarrow> string" where
  "C_chars TOK_inline = ''inline''"
| "C_chars TOK_register = ''register''"
| "C_chars TOK_restrict = ''restrict''"
| "C_chars TOK_signed = ''signed''"
| "C_chars TOK_sizeof = ''sizeof''"
| "C_chars TOK_typedef = ''typedef''"
| "C_chars TOK_unsigned = ''unsigned''"
| "C_chars TOK_volatile = ''volatile''"
| "C_chars TOK_Alignas = ''_Alignas''"
| "C_chars TOK_Alignof = ''_Alignof''"
| "C_chars TOK_Atomic = ''_Atomic''"
| "C_chars TOK_Bool = ''_Bool''"
| "C_chars TOK_Complex = ''_Complex''"
| "C_chars TOK_Generic = ''_Generic''"
| "C_chars TOK_Imaginary = ''_Imaginary''"
| "C_chars TOK_Noreturn = ''_Noreturn''"
| "C_chars TOK_Static_assert = ''_Static_assert''"
| "C_chars TOK_Thread_local = ''_Thread_local''"
| "C_chars TOK_c_assert = ''__check''"
| "C_chars TOK_c_import = ''__import''"
| "C_chars TOK_c_module = ''__module''"
| "C_chars TOK_cdecl = ''__cdecl''"
| "C_chars TOK_declspec = ''__declspec''"
| "C_chars TOK_stdcall = ''__stdcall''"
| "C_chars TOK_thread = ''__thread''"
| "C_chars TOK_cpragma = ''__pragma''"
| "C_chars TOK_cint128 = ''__int128''"
| "C_chars TOK_attribute = ''__attribute__''"

primrec tochars :: "TOK \<Rightarrow> string" where
  "tochars (Other_tok t) = other_chars t"
| "tochars (Operator_tok t) = operator_chars t"
| "tochars (Number_tok t) = number_chars t"
| "tochars (Char_tok t) = char_chars t"
| "tochars (Leaf_tok t) = leaf_chars t"
| "tochars (Basic_tok t) = basic_chars t"
| "tochars (Aggregate_tok t) = aggregate_chars t"
| "tochars (Statement_tok t) = statement_chars t"
| "tochars (Later_tok t) = later_chars t"
| "tochars (C_tok t) = C_chars t"

definition keyword_tokens :: "TOK list" where
  "keyword_tokens =
   [Leaf_tok TOK_this, Leaf_tok TOK_super, Other_tok TOK_assert, Other_tok TOK_null,
    Other_tok TOK_true, Other_tok TOK_false, Other_tok TOK_cast, Other_tok TOK_new,
    Other_tok TOK_throw, Other_tok TOK_module, Other_tok TOK_pragma, Other_tok TOK_typeof,
    Other_tok TOK_typeid, Other_tok TOK_template, Basic_tok TOK_void, Basic_tok TOK_int8,
    Basic_tok TOK_uns8, Basic_tok TOK_int16, Basic_tok TOK_uns16, Basic_tok TOK_int32,
    Basic_tok TOK_uns32, Basic_tok TOK_int64, Basic_tok TOK_uns64, Basic_tok TOK_int128,
    Basic_tok TOK_uns128, Basic_tok TOK_float32, Basic_tok TOK_float64, Basic_tok TOK_float80,
    Basic_tok TOK_bool, Basic_tok TOK_char, Basic_tok TOK_wchar, Basic_tok TOK_dchar,
    Basic_tok TOK_imaginary32, Basic_tok TOK_imaginary64, Basic_tok TOK_imaginary80,
    Basic_tok TOK_complex32, Basic_tok TOK_complex64, Basic_tok TOK_complex80,
    Aggregate_tok TOK_delegate, Aggregate_tok TOK_function, Operator_tok TOK_is,
    Statement_tok TOK_if, Statement_tok TOK_else, Statement_tok TOK_while, Statement_tok TOK_for,
    Statement_tok TOK_do, Statement_tok TOK_switch, Statement_tok TOK_case,
    Statement_tok TOK_default, Statement_tok TOK_break, Statement_tok TOK_continue,
    Statement_tok TOK_synchronized, Statement_tok TOK_return, Statement_tok TOK_goto,
    Statement_tok TOK_try, Statement_tok TOK_catch, Statement_tok TOK_finally,
    Statement_tok TOK_with, Statement_tok TOK_asm, Statement_tok TOK_foreach,
    Statement_tok TOK_foreach_reverse, Statement_tok TOK_scope, Aggregate_tok TOK_struct,
    Aggregate_tok TOK_class, Aggregate_tok TOK_interface, Aggregate_tok TOK_union,
    Aggregate_tok TOK_enum, Aggregate_tok TOK_import, Aggregate_tok TOK_mixin,
    Aggregate_tok TOK_static, Aggregate_tok TOK_final, Aggregate_tok TOK_const,
    Aggregate_tok TOK_alias, Aggregate_tok TOK_override, Aggregate_tok TOK_abstract,
    Aggregate_tok TOK_debug, Aggregate_tok TOK_deprecated, Aggregate_tok TOK_in,
    Aggregate_tok TOK_out, Aggregate_tok TOK_inout, Aggregate_tok TOK_lazy,
    Aggregate_tok TOK_auto, Aggregate_tok TOK_align, Aggregate_tok TOK_extern,
    Aggregate_tok TOK_private, Aggregate_tok TOK_package, Aggregate_tok TOK_protected,
    Aggregate_tok TOK_public, Aggregate_tok TOK_export, Statement_tok TOK_invariant,
    Statement_tok TOK_unittest, Other_tok TOK_version, Later_tok TOK_argumentTypes,
    Later_tok TOK_parameters, Later_tok TOK_ref, Later_tok TOK_macro, Later_tok TOK_pure,
    Later_tok TOK_nothrow, Later_tok TOK_gshared, Later_tok TOK_traits, Later_tok TOK_vector,
    Later_tok TOK_file, Later_tok TOK_fileFullPath, Later_tok TOK_line,
    Later_tok TOK_moduleString, Later_tok TOK_functionString, Later_tok TOK_prettyFunction,
    Later_tok TOK_shared, Aggregate_tok TOK_immutable, Later_tok TOK_rvalue, C_tok TOK_inline,
    C_tok TOK_register, C_tok TOK_restrict, C_tok TOK_signed, C_tok TOK_sizeof,
    C_tok TOK_typedef, C_tok TOK_unsigned, C_tok TOK_volatile, C_tok TOK_Alignas,
    C_tok TOK_Alignof, C_tok TOK_Atomic, C_tok TOK_Bool, C_tok TOK_Complex, C_tok TOK_Generic,
    C_tok TOK_Imaginary, C_tok TOK_Noreturn, C_tok TOK_Static_assert, C_tok TOK_Thread_local,
    C_tok TOK_c_assert, C_tok TOK_c_import, C_tok TOK_c_module, C_tok TOK_cdecl,
    C_tok TOK_declspec, C_tok TOK_stdcall, C_tok TOK_thread, C_tok TOK_cpragma,
    C_tok TOK_cint128, C_tok TOK_attribute]"

section \<open>Operators of expressions\<close>

datatype (plugins only:) EXP =
    EXP_reserved | EXP_negate | EXP_cast | EXP_null | EXP_assert | EXP_array | EXP_call
    | EXP_address | EXP_type | EXP_throw | EXP_new | EXP_delete | EXP_star | EXP_symbolOffset
    | EXP_variable | EXP_dotVariable | EXP_dotIdentifier | EXP_dotTemplateInstance | EXP_dotType
    | EXP_slice | EXP_arrayLength | EXP_dollar | EXP_template | EXP_dotTemplateDeclaration
    | EXP_declaration | EXP_dSymbol | EXP_typeid | EXP_uadd | EXP_remove | EXP_newAnonymousClass
    | EXP_arrayLiteral | EXP_assocArrayLiteral | EXP_structLiteral | EXP_classReference
    | EXP_thrownException | EXP_delegatePointer | EXP_delegateFunctionPointer | EXP_lessThan
    | EXP_greaterThan | EXP_lessOrEqual | EXP_greaterOrEqual | EXP_equal | EXP_notEqual
    | EXP_identity | EXP_notIdentity | EXP_index | EXP_is | EXP_leftShift | EXP_rightShift
    | EXP_leftShiftAssign | EXP_rightShiftAssign | EXP_unsignedRightShift
    | EXP_unsignedRightShiftAssign | EXP_concatenate | EXP_concatenateAssign
    | EXP_concatenateElemAssign | EXP_concatenateDcharAssign | EXP_add | EXP_min | EXP_addAssign
    | EXP_minAssign | EXP_mul | EXP_div | EXP_mod | EXP_mulAssign | EXP_divAssign
    | EXP_modAssign | EXP_and | EXP_or | EXP_xor | EXP_andAssign | EXP_orAssign | EXP_xorAssign
    | EXP_assign | EXP_not | EXP_tilde | EXP_plusPlus | EXP_minusMinus | EXP_construct
    | EXP_blit | EXP_dot | EXP_comma | EXP_question | EXP_andAnd | EXP_orOr | EXP_prePlusPlus
    | EXP_preMinusMinus | EXP_identifier | EXP_string | EXP_interpolated | EXP_this | EXP_super
    | EXP_halt | EXP_tuple | EXP_error | EXP_void | EXP_int64 | EXP_float64 | EXP_complex80
    | EXP_import | EXP_delegate | EXP_function | EXP_mixin | EXP_in | EXP_break | EXP_continue
    | EXP_goto | EXP_scope | EXP_traits | EXP_overloadSet | EXP_defaultInit | EXP_pow
    | EXP_powAssign | EXP_vector | EXP_voidExpression | EXP_cantExpression | EXP_showCtfeContext
    | EXP_objcClassReference | EXP_vectorArray | EXP_compoundLiteral | EXP_Generic
    | EXP_interval | EXP_loweredAssignExp | EXP_rvalue

text \<open>An operator without a string is reported and printed as \<open>XXXXX\<close>.\<close>

primrec EXPtoString :: "EXP \<Rightarrow> string" where
  "EXPtoString EXP_reserved = ''XXXXX''"
| "EXPtoString EXP_negate = ''-''"
| "EXPtoString EXP_cast = ''cast''"
| "EXPtoString EXP_null = ''null''"
| "EXPtoString EXP_assert = ''assert''"
| "EXPtoString EXP_array = ''[]''"
| "EXPtoString EXP_call = ''call''"
| "EXPtoString EXP_address = ''&''"
| "EXPtoString EXP_type = ''type''"
| "EXPtoString EXP_throw = ''XXXXX''"
| "EXPtoString EXP_new = ''new''"
| "EXPtoString EXP_delete = ''delete''"
| "EXPtoString EXP_star = ''*''"
| "EXPtoString EXP_symbolOffset = ''symoff''"
| "EXPtoString EXP_variable = ''var''"
| "EXPtoString EXP_dotVariable = ''dotvar''"
| "EXPtoString EXP_dotIdentifier = ''dotid''"
| "EXPtoString EXP_dotTemplateInstance = ''dotti''"
| "EXPtoString EXP_dotType = ''dottype''"
| "EXPtoString EXP_slice = ''..''"
| "EXPtoString EXP_arrayLength = ''arraylength''"
| "EXPtoString EXP_dollar = ''XXXXX''"
| "EXPtoString EXP_template = ''template''"
| "EXPtoString EXP_dotTemplateDeclaration = ''dottd''"
| "EXPtoString EXP_declaration = ''declaration''"
| "EXPtoString EXP_dSymbol = ''symbol''"
| "EXPtoString EXP_typeid = ''typeid''"
| "EXPtoString EXP_uadd = ''+''"
| "EXPtoString EXP_remove = ''remove''"
| "EXPtoString EXP_newAnonymousClass = ''newanonclass''"
| "EXPtoString EXP_arrayLiteral = ''arrayliteral''"
| "EXPtoString EXP_assocArrayLiteral = ''assocarrayliteral''"
| "EXPtoString EXP_structLiteral = ''structLiteral''"
| "EXPtoString EXP_classReference = ''classreference''"
| "EXPtoString EXP_thrownException = ''CTFE ThrownException''"
| "EXPtoString EXP_delegatePointer = ''delegateptr''"
| "EXPtoString EXP_delegateFunctionPointer = ''delegatefuncptr''"
| "EXPtoString EXP_lessThan = ''<''"
| "EXPtoString EXP_greaterThan = ''>''"
| "EXPtoString EXP_lessOrEqual = ''<=''"
| "EXPtoString EXP_greaterOrEqual = ''>=''"
| "EXPtoString EXP_equal = ''==''"
| "EXPtoString EXP_notEqual = ''!=''"
| "EXPtoString EXP_identity = ''is''"
| "EXPtoString EXP_notIdentity = ''!is''"
| "EXPtoString EXP_index = ''[i]''"
| "EXPtoString EXP_is = ''is''"
| "EXPtoString EXP_leftShift = ''<<''"
| "EXPtoString EXP_rightShift = ''>>''"
| "EXPtoString EXP_leftShiftAssign = ''<<=''"
| "EXPtoString EXP_rightShiftAssign = ''>>=''"
| "EXPtoString EXP_unsignedRightShift = ''>>>''"
| "EXPtoString EXP_unsignedRightShiftAssign = ''>>>=''"
| "EXPtoString EXP_concatenate = ''~''"
| "EXPtoString EXP_concatenateAssign = ''~=''"
| "EXPtoString EXP_concatenateElemAssign = ''~=''"
| "EXPtoString EXP_concatenateDcharAssign = ''~=''"
| "EXPtoString EXP_add = ''+''"
| "EXPtoString EXP_min = ''-''"
| "EXPtoString EXP_addAssign = ''+=''"
| "EXPtoString EXP_minAssign = ''-=''"
| "EXPtoString EXP_mul = ''*''"
| "EXPtoString EXP_div = ''/''"
| "EXPtoString EXP_mod = ''%''"
| "EXPtoString EXP_mulAssign = ''*=''"
| "EXPtoString EXP_divAssign = ''/=''"
| "EXPtoString EXP_modAssign = ''%=''"
| "EXPtoString EXP_and = ''&''"
| "EXPtoString EXP_or = ''|''"
| "EXPtoString EXP_xor = ''^''"
| "EXPtoString EXP_andAssign = ''&=''"
| "EXPtoString EXP_orAssign = ''|=''"
| "EXPtoString EXP_xorAssign = ''^=''"
| "EXPtoString EXP_assign = ''=''"
| "EXPtoString EXP_not = ''!''"
| "EXPtoString EXP_tilde = ''~''"
| "EXPtoString EXP_plusPlus = ''++''"
| "EXPtoString EXP_minusMinus = ''--''"
| "EXPtoString EXP_construct = ''=''"
| "EXPtoString EXP_blit = ''=''"
| "EXPtoString EXP_dot = ''.''"
| "EXPtoString EXP_comma = '',''"
| "EXPtoString EXP_question = ''?''"
| "EXPtoString EXP_andAnd = ''&&''"
| "EXPtoString EXP_orOr = ''||''"
| "EXPtoString EXP_prePlusPlus = ''++''"
| "EXPtoString EXP_preMinusMinus = ''--''"
| "EXPtoString EXP_identifier = ''identifier''"
| "EXPtoString EXP_string = ''string''"
| "EXPtoString EXP_interpolated = ''XXXXX''"
| "EXPtoString EXP_this = ''this''"
| "EXPtoString EXP_super = ''super''"
| "EXPtoString EXP_halt = ''halt''"
| "EXPtoString EXP_tuple = ''sequence''"
| "EXPtoString EXP_error = ''error''"
| "EXPtoString EXP_void = ''void''"
| "EXPtoString EXP_int64 = ''long''"
| "EXPtoString EXP_float64 = ''double''"
| "EXPtoString EXP_complex80 = ''creal''"
| "EXPtoString EXP_import = ''import''"
| "EXPtoString EXP_delegate = ''delegate''"
| "EXPtoString EXP_function = ''function''"
| "EXPtoString EXP_mixin = ''mixin''"
| "EXPtoString EXP_in = ''in''"
| "EXPtoString EXP_break = ''<break>''"
| "EXPtoString EXP_continue = ''<continue>''"
| "EXPtoString EXP_goto = ''<goto>''"
| "EXPtoString EXP_scope = ''scope''"
| "EXPtoString EXP_traits = ''__traits''"
| "EXPtoString EXP_overloadSet = ''__overloadset''"
| "EXPtoString EXP_defaultInit = ''defaultinit''"
| "EXPtoString EXP_pow = ''^^''"
| "EXPtoString EXP_powAssign = ''^^=''"
| "EXPtoString EXP_vector = ''__vector''"
| "EXPtoString EXP_voidExpression = ''cast(void)0''"
| "EXPtoString EXP_cantExpression = ''<cant>''"
| "EXPtoString EXP_showCtfeContext = ''<error>''"
| "EXPtoString EXP_objcClassReference = ''class''"
| "EXPtoString EXP_vectorArray = ''vectorarray''"
| "EXPtoString EXP_compoundLiteral = ''compoundliteral''"
| "EXPtoString EXP_Generic = ''_Generic''"
| "EXPtoString EXP_interval = ''interval''"
| "EXPtoString EXP_loweredAssignExp = ''=''"
| "EXPtoString EXP_rvalue = ''XXXXX''"

type_synonym PREC = nat

definition PREC_zero :: PREC where "PREC_zero = 0"
definition PREC_expr :: PREC where "PREC_expr = 1"
definition PREC_assign :: PREC where "PREC_assign = 2"
definition PREC_cond :: PREC where "PREC_cond = 3"
definition PREC_oror :: PREC where "PREC_oror = 4"
definition PREC_andand :: PREC where "PREC_andand = 5"
definition PREC_or :: PREC where "PREC_or = 6"
definition PREC_xor :: PREC where "PREC_xor = 7"
definition PREC_and :: PREC where "PREC_and = 8"
definition PREC_equal :: PREC where "PREC_equal = 9"
definition PREC_rel :: PREC where "PREC_rel = 10"
definition PREC_shift :: PREC where "PREC_shift = 11"
definition PREC_add :: PREC where "PREC_add = 12"
definition PREC_mul :: PREC where "PREC_mul = 13"
definition PREC_pow :: PREC where "PREC_pow = 14"
definition PREC_unary :: PREC where "PREC_unary = 15"
definition PREC_primary :: PREC where "PREC_primary = 16"

lemmas PREC_defs = PREC_zero_def PREC_expr_def PREC_assign_def PREC_cond_def PREC_oror_def PREC_andand_def
  PREC_or_def PREC_xor_def PREC_and_def PREC_equal_def PREC_rel_def PREC_shift_def
  PREC_add_def PREC_mul_def PREC_pow_def PREC_unary_def PREC_primary_def

text \<open>An operator that the table does not list has \<open>PREC.zero\<close>.\<close>

primrec precedence :: "EXP \<Rightarrow> PREC" where
  "precedence EXP_reserved = PREC_zero"
| "precedence EXP_negate = PREC_unary"
| "precedence EXP_cast = PREC_unary"
| "precedence EXP_null = PREC_primary"
| "precedence EXP_assert = PREC_primary"
| "precedence EXP_array = PREC_primary"
| "precedence EXP_call = PREC_primary"
| "precedence EXP_address = PREC_unary"
| "precedence EXP_type = PREC_expr"
| "precedence EXP_throw = PREC_unary"
| "precedence EXP_new = PREC_unary"
| "precedence EXP_delete = PREC_unary"
| "precedence EXP_star = PREC_unary"
| "precedence EXP_symbolOffset = PREC_primary"
| "precedence EXP_variable = PREC_primary"
| "precedence EXP_dotVariable = PREC_primary"
| "precedence EXP_dotIdentifier = PREC_primary"
| "precedence EXP_dotTemplateInstance = PREC_primary"
| "precedence EXP_dotType = PREC_primary"
| "precedence EXP_slice = PREC_primary"
| "precedence EXP_arrayLength = PREC_primary"
| "precedence EXP_dollar = PREC_zero"
| "precedence EXP_template = PREC_primary"
| "precedence EXP_dotTemplateDeclaration = PREC_primary"
| "precedence EXP_declaration = PREC_expr"
| "precedence EXP_dSymbol = PREC_primary"
| "precedence EXP_typeid = PREC_primary"
| "precedence EXP_uadd = PREC_unary"
| "precedence EXP_remove = PREC_primary"
| "precedence EXP_newAnonymousClass = PREC_unary"
| "precedence EXP_arrayLiteral = PREC_primary"
| "precedence EXP_assocArrayLiteral = PREC_primary"
| "precedence EXP_structLiteral = PREC_primary"
| "precedence EXP_classReference = PREC_primary"
| "precedence EXP_thrownException = PREC_zero"
| "precedence EXP_delegatePointer = PREC_primary"
| "precedence EXP_delegateFunctionPointer = PREC_primary"
| "precedence EXP_lessThan = PREC_rel"
| "precedence EXP_greaterThan = PREC_rel"
| "precedence EXP_lessOrEqual = PREC_rel"
| "precedence EXP_greaterOrEqual = PREC_rel"
| "precedence EXP_equal = PREC_rel"
| "precedence EXP_notEqual = PREC_rel"
| "precedence EXP_identity = PREC_rel"
| "precedence EXP_notIdentity = PREC_rel"
| "precedence EXP_index = PREC_primary"
| "precedence EXP_is = PREC_primary"
| "precedence EXP_leftShift = PREC_shift"
| "precedence EXP_rightShift = PREC_shift"
| "precedence EXP_leftShiftAssign = PREC_assign"
| "precedence EXP_rightShiftAssign = PREC_assign"
| "precedence EXP_unsignedRightShift = PREC_shift"
| "precedence EXP_unsignedRightShiftAssign = PREC_assign"
| "precedence EXP_concatenate = PREC_add"
| "precedence EXP_concatenateAssign = PREC_assign"
| "precedence EXP_concatenateElemAssign = PREC_assign"
| "precedence EXP_concatenateDcharAssign = PREC_assign"
| "precedence EXP_add = PREC_add"
| "precedence EXP_min = PREC_add"
| "precedence EXP_addAssign = PREC_assign"
| "precedence EXP_minAssign = PREC_assign"
| "precedence EXP_mul = PREC_mul"
| "precedence EXP_div = PREC_mul"
| "precedence EXP_mod = PREC_mul"
| "precedence EXP_mulAssign = PREC_assign"
| "precedence EXP_divAssign = PREC_assign"
| "precedence EXP_modAssign = PREC_assign"
| "precedence EXP_and = PREC_and"
| "precedence EXP_or = PREC_or"
| "precedence EXP_xor = PREC_xor"
| "precedence EXP_andAssign = PREC_assign"
| "precedence EXP_orAssign = PREC_assign"
| "precedence EXP_xorAssign = PREC_assign"
| "precedence EXP_assign = PREC_assign"
| "precedence EXP_not = PREC_unary"
| "precedence EXP_tilde = PREC_unary"
| "precedence EXP_plusPlus = PREC_primary"
| "precedence EXP_minusMinus = PREC_primary"
| "precedence EXP_construct = PREC_assign"
| "precedence EXP_blit = PREC_assign"
| "precedence EXP_dot = PREC_primary"
| "precedence EXP_comma = PREC_expr"
| "precedence EXP_question = PREC_cond"
| "precedence EXP_andAnd = PREC_andand"
| "precedence EXP_orOr = PREC_oror"
| "precedence EXP_prePlusPlus = PREC_primary"
| "precedence EXP_preMinusMinus = PREC_primary"
| "precedence EXP_identifier = PREC_primary"
| "precedence EXP_string = PREC_primary"
| "precedence EXP_interpolated = PREC_zero"
| "precedence EXP_this = PREC_primary"
| "precedence EXP_super = PREC_primary"
| "precedence EXP_halt = PREC_primary"
| "precedence EXP_tuple = PREC_primary"
| "precedence EXP_error = PREC_expr"
| "precedence EXP_void = PREC_primary"
| "precedence EXP_int64 = PREC_primary"
| "precedence EXP_float64 = PREC_primary"
| "precedence EXP_complex80 = PREC_primary"
| "precedence EXP_import = PREC_primary"
| "precedence EXP_delegate = PREC_unary"
| "precedence EXP_function = PREC_primary"
| "precedence EXP_mixin = PREC_primary"
| "precedence EXP_in = PREC_rel"
| "precedence EXP_break = PREC_zero"
| "precedence EXP_continue = PREC_zero"
| "precedence EXP_goto = PREC_zero"
| "precedence EXP_scope = PREC_primary"
| "precedence EXP_traits = PREC_primary"
| "precedence EXP_overloadSet = PREC_primary"
| "precedence EXP_defaultInit = PREC_primary"
| "precedence EXP_pow = PREC_pow"
| "precedence EXP_powAssign = PREC_assign"
| "precedence EXP_vector = PREC_unary"
| "precedence EXP_voidExpression = PREC_zero"
| "precedence EXP_cantExpression = PREC_zero"
| "precedence EXP_showCtfeContext = PREC_zero"
| "precedence EXP_objcClassReference = PREC_expr"
| "precedence EXP_vectorArray = PREC_primary"
| "precedence EXP_compoundLiteral = PREC_primary"
| "precedence EXP_Generic = PREC_primary"
| "precedence EXP_interval = PREC_assign"
| "precedence EXP_loweredAssignExp = PREC_assign"
| "precedence EXP_rvalue = PREC_zero"

end
