(* ===== verification/Chars.thy ===== *)
theory Chars
  imports Prelude
begin

text \<open>
  Characters and names: the tests of common/charactertables.d on ASCII, and strings as lists of
  characters whose end stands for the terminating 0.
\<close>

definition char_code :: "char \<Rightarrow> nat" where "char_code c = of_char c"

definition isdigit :: "char \<Rightarrow> bool" where "isdigit c \<longleftrightarrow> 48 \<le> char_code c \<and> char_code c \<le> 57"

definition isidstart :: "char \<Rightarrow> bool" where
  "isidstart c \<longleftrightarrow> 97 \<le> char_code c \<and> char_code c \<le> 122 \<or> 65 \<le> char_code c \<and> char_code c \<le> 90 \<or>
     c = CHR ''_''"

definition isidchar :: "char \<Rightarrow> bool" where "isidchar c \<longleftrightarrow> isidstart c \<or> isdigit c"

definition iswhite :: "char \<Rightarrow> bool" where
  "iswhite c \<longleftrightarrow> c \<in> {CHR '' '', CHR 0x09, CHR 0x0A, CHR 0x0B, CHR 0x0C, CHR 0x0D}"

text \<open>The character under the cursor.\<close>

definition at :: "string \<Rightarrow> char" where "at p = (case p of [] \<Rightarrow> CHR 0x00 | c # cs \<Rightarrow> c)"

lemma at_simps [simp]: "at [] = CHR 0x00" "at (c # p) = c"
  by (simp_all add: at_def)

end
