(* ===== verification/Lexer.thy ===== *)
theory Lexer
  imports Tokens Chars
begin

text \<open>
  The scanner of lexer.d on the part of the language that operator expressions use: white
  space, operators and punctuation by longest match, identifiers and keywords.  The text is a
  list of characters, whose end stands for the terminating 0.  Numbers, characters, strings,
  comments, special token sequences and characters outside ASCII give \<open>Not_modelled\<close>.
\<close>

section \<open>Tokens and errors\<close>

datatype text_error = Bad_character | Bad_syntax | Not_modelled | Out_of_fuel

datatype Token = Token (tok_value: TOK) (tok_ident: string)

abbreviation EOF_token :: Token where "EOF_token \<equiv> Token (Other_tok TOK_endOfFile) []"

section \<open>Operators\<close>

type_synonym scanned = "text_error + TOK \<times> string"

abbreviation ok :: "TOK \<Rightarrow> string \<Rightarrow> scanned" where "ok t p \<equiv> Inr (t, p)"

definition scan_less :: "string \<Rightarrow> scanned" where
  "scan_less p =
     (if at p = CHR ''='' then ok (Operator_tok TOK_lessOrEqual) (tl p)
      else if at p = CHR ''<'' then
        (if at (tl p) = CHR ''='' then ok (Operator_tok TOK_leftShiftAssign) (tl (tl p))
         else ok (Operator_tok TOK_leftShift) (tl p))
      else ok (Operator_tok TOK_lessThan) p)"

definition scan_greater :: "string \<Rightarrow> scanned" where
  "scan_greater p =
     (if at p = CHR ''='' then ok (Operator_tok TOK_greaterOrEqual) (tl p)
      else if at p = CHR ''>'' then
        (if at (tl p) = CHR ''='' then ok (Operator_tok TOK_rightShiftAssign) (tl (tl p))
         else if at (tl p) = CHR ''>'' then
           (if at (tl (tl p)) = CHR ''='' then ok (Operator_tok TOK_unsignedRightShiftAssign) (tl (tl (tl p)))
            else ok (Operator_tok TOK_unsignedRightShift) (tl (tl p)))
         else ok (Operator_tok TOK_rightShift) (tl p))
      else ok (Operator_tok TOK_greaterThan) p)"

definition scan_minus :: "string \<Rightarrow> scanned" where
  "scan_minus p =
     (if at p = CHR ''='' then ok (Operator_tok TOK_minAssign) (tl p)
      else if at p = CHR ''-'' then ok (Operator_tok TOK_minusMinus) (tl p)
      else if at p = CHR ''>'' then ok (Later_tok TOK_arrow) (tl p)
      else ok (Operator_tok TOK_min) p)"

definition scan_plus :: "string \<Rightarrow> scanned" where
  "scan_plus p =
     (if at p = CHR ''='' then ok (Operator_tok TOK_addAssign) (tl p)
      else if at p = CHR ''+'' then ok (Operator_tok TOK_plusPlus) (tl p)
      else ok (Operator_tok TOK_add) p)"

definition scan_and :: "string \<Rightarrow> scanned" where
  "scan_and p =
     (if at p = CHR ''='' then ok (Operator_tok TOK_andAssign) (tl p)
      else if at p = CHR ''&'' then ok (Operator_tok TOK_andAnd) (tl p)
      else ok (Operator_tok TOK_and) p)"

definition scan_or :: "string \<Rightarrow> scanned" where
  "scan_or p =
     (if at p = CHR ''='' then ok (Operator_tok TOK_orAssign) (tl p)
      else if at p = CHR ''|'' then ok (Operator_tok TOK_orOr) (tl p)
      else ok (Operator_tok TOK_or) p)"

definition scan_caret :: "string \<Rightarrow> scanned" where
  "scan_caret p =
     (if at p = CHR ''^'' then
        (if at (tl p) = CHR ''='' then ok (Later_tok TOK_powAssign) (tl (tl p))
         else ok (Later_tok TOK_pow) (tl p))
      else if at p = CHR ''='' then ok (Operator_tok TOK_xorAssign) (tl p)
      else ok (Operator_tok TOK_xor) p)"

definition scan_not :: "string \<Rightarrow> scanned" where
  "scan_not p =
     (if at p = CHR ''='' then ok (Operator_tok TOK_notEqual) (tl p)
      else ok (Operator_tok TOK_not) p)"

definition scan_assign :: "string \<Rightarrow> scanned" where
  "scan_assign p =
     (if at p = CHR ''='' then ok (Operator_tok TOK_equal) (tl p)
      else if at p = CHR ''>'' then ok (Later_tok TOK_goesTo) (tl p)
      else ok (Operator_tok TOK_assign) p)"

definition scan_tilde :: "string \<Rightarrow> scanned" where
  "scan_tilde p =
     (if at p = CHR ''='' then ok (Operator_tok TOK_concatenateAssign) (tl p)
      else ok (Operator_tok TOK_tilde) p)"

definition scan_mul :: "string \<Rightarrow> scanned" where
  "scan_mul p =
     (if at p = CHR ''='' then ok (Operator_tok TOK_mulAssign) (tl p) else ok (Operator_tok TOK_mul) p)"

definition scan_mod :: "string \<Rightarrow> scanned" where
  "scan_mod p =
     (if at p = CHR ''='' then ok (Operator_tok TOK_modAssign) (tl p) else ok (Operator_tok TOK_mod) p)"

definition scan_div :: "string \<Rightarrow> scanned" where
  "scan_div p =
     (if at p = CHR ''='' then ok (Operator_tok TOK_divAssign) (tl p)
      else if at p \<in> {CHR ''*'', CHR ''/'', CHR ''+''} then Inl Not_modelled
      else ok (Operator_tok TOK_div) p)"

definition scan_dot :: "string \<Rightarrow> scanned" where
  "scan_dot p =
     (if isdigit (at p) then Inl Not_modelled
      else if at p = CHR ''.'' then
        (if at (tl p) = CHR ''.'' then ok (Other_tok TOK_dotDotDot) (tl (tl p))
         else ok (Other_tok TOK_slice) (tl p))
      else ok (Operator_tok TOK_dot) p)"

definition scan_colon :: "string \<Rightarrow> scanned" where
  "scan_colon p =
     (if at p = CHR '':'' then ok (Later_tok TOK_colonColon) (tl p) else ok (Other_tok TOK_colon) p)"

text \<open>The cases of one character, and the characters that start what is not modelled.\<close>

definition scan_single :: "char \<Rightarrow> TOK option" where
  "scan_single c =
     (if c = CHR ''('' then Some (Other_tok TOK_leftParenthesis)
      else if c = CHR '')'' then Some (Other_tok TOK_rightParenthesis)
      else if c = CHR ''['' then Some (Other_tok TOK_leftBracket)
      else if c = CHR '']'' then Some (Other_tok TOK_rightBracket)
      else if c = CHR ''{'' then Some (Other_tok TOK_leftCurly)
      else if c = CHR ''}'' then Some (Other_tok TOK_rightCurly)
      else if c = CHR ''?'' then Some (Operator_tok TOK_question)
      else if c = CHR '','' then Some (Operator_tok TOK_comma)
      else if c = CHR '';'' then Some (Other_tok TOK_semicolon)
      else if c = CHR ''$'' then Some (Other_tok TOK_dollar)
      else if c = CHR ''@'' then Some (Later_tok TOK_at)
      else None)"

definition scan_operator :: "char \<Rightarrow> string \<Rightarrow> scanned" where
  "scan_operator c p =
     (if c = CHR ''/'' then scan_div p
      else if c = CHR ''.'' then scan_dot p
      else if c = CHR ''&'' then scan_and p
      else if c = CHR ''|'' then scan_or p
      else if c = CHR ''-'' then scan_minus p
      else if c = CHR ''+'' then scan_plus p
      else if c = CHR ''<'' then scan_less p
      else if c = CHR ''>'' then scan_greater p
      else if c = CHR ''!'' then scan_not p
      else if c = CHR ''='' then scan_assign p
      else if c = CHR ''~'' then scan_tilde p
      else if c = CHR ''^'' then scan_caret p
      else if c = CHR '':'' then scan_colon p
      else if c = CHR ''*'' then scan_mul p
      else if c = CHR ''%'' then scan_mod p
      else if isdigit c \<or> c \<in> {CHR 0x22, CHR 0x27, CHR 0x60, CHR ''#''} \<or> 128 \<le> char_code c then Inl Not_modelled
      else (case scan_single c of Some t \<Rightarrow> ok t p | None \<Rightarrow> Inl Bad_character))"

section \<open>Identifiers and keywords\<close>

definition keyword :: "string \<Rightarrow> TOK option" where
  "keyword s = find (\<lambda>k. tochars k = s) keyword_tokens"

definition special_identifiers :: "string list" where
  "special_identifiers = [''__DATE__'', ''__TIME__'', ''__VENDOR__'', ''__TIMESTAMP__'', ''__VERSION__'', ''__EOF__'']"

primrec is_C_token :: "TOK \<Rightarrow> bool" where
  "is_C_token (Other_tok t) \<longleftrightarrow> False" | "is_C_token (Operator_tok t) \<longleftrightarrow> False"
| "is_C_token (Number_tok t) \<longleftrightarrow> False" | "is_C_token (Char_tok t) \<longleftrightarrow> False"
| "is_C_token (Leaf_tok t) \<longleftrightarrow> False" | "is_C_token (Basic_tok t) \<longleftrightarrow> False"
| "is_C_token (Aggregate_tok t) \<longleftrightarrow> False" | "is_C_token (Statement_tok t) \<longleftrightarrow> False"
| "is_C_token (Later_tok t) \<longleftrightarrow> False" | "is_C_token (C_tok t) \<longleftrightarrow> True"

text \<open>The keywords of C are identifiers; \<open>__DATE__\<close> and the like become literals.\<close>

definition scan_identifier :: "string \<Rightarrow> text_error + Token \<times> string" where
  "scan_identifier s =
     (let x = takeWhile isidchar s; p = dropWhile isidchar s in
      if 128 \<le> char_code (at p) then Inl Not_modelled
      else (case keyword x of
          Some k \<Rightarrow> Inr (Token (if is_C_token k then Leaf_tok TOK_identifier else k) x, p)
        | None \<Rightarrow> if x \<in> set special_identifiers then Inl Not_modelled
                  else Inr (Token (Leaf_tok TOK_identifier) x, p)))"

text \<open>The prefixes of string literals.\<close>

definition string_prefix :: "char \<Rightarrow> string \<Rightarrow> bool" where
  "string_prefix c p \<longleftrightarrow>
     c \<in> {CHR ''r'', CHR ''x''} \<and> at p = CHR 0x22 \<or>
     c = CHR ''q'' \<and> at p \<in> {CHR 0x22, CHR ''{''} \<or>
     c = CHR ''i'' \<and> (at p \<in> {CHR 0x22, CHR 0x60} \<or> at p = CHR ''q'' \<and> at (tl p) = CHR ''{'')"

section \<open>Scanning\<close>

primrec scan :: "string \<Rightarrow> text_error + Token \<times> string" where
  "scan [] = Inr (EOF_token, [])"
| "scan (c # p) =
     (if c = CHR 0x00 \<or> c = CHR 0x1A then Inr (EOF_token, c # p)
      else if iswhite c then scan p
      else if isidstart c then (if string_prefix c p then Inl Not_modelled else scan_identifier (c # p))
      else rbind (scan_operator c p) (\<lambda>(t, r). Inr (Token t [], r)))"

lemma length_tl_less [simp]: "length (tl p) \<le> length p" "length (tl (tl p)) \<le> length p"
    "length (tl (tl (tl p))) \<le> length p"
  by auto

lemmas scan_defs = scan_less_def scan_greater_def scan_minus_def scan_plus_def scan_and_def scan_or_def
  scan_caret_def scan_not_def scan_assign_def scan_tilde_def scan_mul_def scan_mod_def scan_div_def
  scan_dot_def scan_colon_def

lemma scan_operator_shorter: "scan_operator c p = Inr (t, r) \<Longrightarrow> length r \<le> length p"
  unfolding scan_operator_def scan_defs by (auto split: if_splits option.splits)

lemma scan_identifier_shorter:
  "isidstart c \<Longrightarrow> scan_identifier (c # p) = Inr (t, r) \<Longrightarrow> length r \<le> length p"
  unfolding scan_identifier_def
  by (auto simp: Let_def isidchar_def split: if_splits option.splits intro: length_dropWhile_le)

lemma scan_shorter: "scan s = Inr (t, r) \<Longrightarrow> t \<noteq> EOF_token \<Longrightarrow> length r < length s"
proof (induction s)
  case (Cons c p)
  then show ?case
    using scan_identifier_shorter[of c p t r] scan_operator_shorter[of c p _ r]
    by (force simp: rbind_Inr_iff split: if_splits)
qed simp

text \<open>All tokens of a text; \<open>TOK.endOfFile\<close> is left out.\<close>

function lex :: "string \<Rightarrow> text_error + Token list" where
  "lex s = (case scan s of
       Inl e \<Rightarrow> Inl e
     | Inr (t, r) \<Rightarrow> if t = EOF_token then Inr [] else rbind (lex r) (\<lambda>ts. Inr (t # ts)))"
  by pat_completeness auto
termination by (relation "measure length") (auto dest: scan_shorter)

declare lex.simps [simp del]

end
