(* ===== verification/Expr_Text.thy ===== *)
theory Expr_Text
  imports Lexer
begin

text \<open>
  Operator expressions: printing them (hdrgen.d) and parsing them (parse.d).  An expression is a
  leaf, or an operator \<open>EXP\<close> over its operands; \<open>Parens e\<close> is \<open>e\<close> with the flag \<open>parens\<close> set,
  as the parser leaves it.  The levels of the parser are one definition each, over the parser of
  the next level; those that recurse through parentheses, operands and branches take fuel, which
  \<open>Parse_Laws\<close> shows to be enough.  Calls, indexing, casts, \<open>new\<close>, literals of numbers and
  strings, lambdas and template instances are \<open>Not_modelled\<close>; the first error ends parsing.
\<close>

section \<open>Expressions\<close>

datatype expr =
    IdentifierE string
  | ThisE | SuperE | NullE
  | BoolE bool
  | Una EXP expr
  | Pre EXP expr
  | Post EXP expr
  | DotId expr string
  | Bin EXP expr expr
  | Cond expr expr expr
  | Parens expr

text \<open>The tag \<open>Expression::op\<close> and the flag \<open>parens\<close>.\<close>

primrec op_of :: "expr \<Rightarrow> EXP" where
  "op_of (IdentifierE x) = EXP_identifier"
| "op_of ThisE = EXP_this" | "op_of SuperE = EXP_super" | "op_of NullE = EXP_null"
| "op_of (BoolE b) = EXP_int64"
| "op_of (Una p e) = p" | "op_of (Pre p e) = p" | "op_of (Post p e) = p"
| "op_of (DotId e x) = EXP_dotIdentifier"
| "op_of (Bin p a b) = p"
| "op_of (Cond c a b) = EXP_question"
| "op_of (Parens e) = op_of e"

primrec parens :: "expr \<Rightarrow> bool" where
  "parens (IdentifierE x) = False"
| "parens ThisE = False" | "parens SuperE = False" | "parens NullE = False" | "parens (BoolE b) = False"
| "parens (Una p e) = False" | "parens (Pre p e) = False" | "parens (Post p e) = False"
| "parens (DotId e x) = False" | "parens (Bin p a b) = False" | "parens (Cond c a b) = False"
| "parens (Parens e) = True"

definition set_parens :: "expr \<Rightarrow> expr" where "set_parens e = (if parens e then e else Parens e)"

text \<open>The expression without the flags.\<close>

primrec strip :: "expr \<Rightarrow> expr" where
  "strip (IdentifierE x) = IdentifierE x"
| "strip ThisE = ThisE" | "strip SuperE = SuperE" | "strip NullE = NullE" | "strip (BoolE b) = BoolE b"
| "strip (Una p e) = Una p (strip e)" | "strip (Pre p e) = Pre p (strip e)"
| "strip (Post p e) = Post p (strip e)" | "strip (DotId e x) = DotId (strip e) x"
| "strip (Bin p a b) = Bin p (strip a) (strip b)"
| "strip (Cond c a b) = Cond (strip c) (strip a) (strip b)"
| "strip (Parens e) = strip e"

section \<open>Printing\<close>

text \<open>When \<open>expToBuffer\<close> puts parentheses around an expression of precedence \<open>prec\<close>.\<close>

definition needs_parens :: "PREC \<Rightarrow> PREC \<Rightarrow> bool" where
  "needs_parens pr prec \<longleftrightarrow> prec < pr \<or> pr = PREC_rel \<and> prec = pr \<or>
     PREC_or \<le> pr \<and> pr \<le> PREC_and \<and> prec = PREC_rel"

definition put_parens :: "bool \<Rightarrow> string \<Rightarrow> string" where
  "put_parens b s = (if b then ''('' @ s @ '')'' else s)"

definition exp_prec :: "expr \<Rightarrow> PREC" where "exp_prec e = precedence (op_of e)"

abbreviation wrap_parens :: "PREC \<Rightarrow> expr \<Rightarrow> string \<Rightarrow> string" where
  "wrap_parens pr e s \<equiv> put_parens (needs_parens pr (exp_prec e)) s"

primrec expressionToBuffer :: "expr \<Rightarrow> string" where
  "expressionToBuffer (IdentifierE x) = x"
| "expressionToBuffer ThisE = ''this''"
| "expressionToBuffer SuperE = ''super''"
| "expressionToBuffer NullE = ''null''"
| "expressionToBuffer (BoolE b) = (if b then ''true'' else ''false'')"
| "expressionToBuffer (Una p e) =
     EXPtoString p @ wrap_parens (precedence p) e (expressionToBuffer e)"
| "expressionToBuffer (Pre p e) =
     EXPtoString p @ wrap_parens (precedence p) e (expressionToBuffer e)"
| "expressionToBuffer (Post p e) =
     wrap_parens (precedence p) e (expressionToBuffer e) @ EXPtoString p"
| "expressionToBuffer (DotId e x) = wrap_parens PREC_primary e (expressionToBuffer e) @ ''.'' @ x"
| "expressionToBuffer (Bin p a b) =
     wrap_parens (precedence p) a (expressionToBuffer a) @ '' '' @ EXPtoString p @ '' '' @
     wrap_parens (precedence p + 1) b (expressionToBuffer b)"
| "expressionToBuffer (Cond c a b) =
     wrap_parens PREC_oror c (expressionToBuffer c) @ '' ? '' @
     wrap_parens PREC_expr a (expressionToBuffer a) @ '' : '' @
     wrap_parens PREC_cond b (expressionToBuffer b)"
| "expressionToBuffer (Parens e) = expressionToBuffer e"

text \<open>\<open>expToBuffer\<close>, with its assertions that neither precedence is \<open>PREC.zero\<close>.\<close>

definition expToBuffer :: "PREC \<Rightarrow> expr \<Rightarrow> fault + string" where
  "expToBuffer pr e =
     (if exp_prec e = PREC_zero \<or> pr = PREC_zero then Inl Assertion
      else Inr (wrap_parens pr e (expressionToBuffer e)))"

section \<open>Parsing\<close>

type_synonym tokens = "Token list"
type_synonym 'a parsed = "text_error + 'a \<times> tokens"

text \<open>The current token and the next one.\<close>

definition tok :: "tokens \<Rightarrow> TOK" where
  "tok ts = (case ts of [] \<Rightarrow> Other_tok TOK_endOfFile | t # r \<Rightarrow> tok_value t)"

abbreviation peekNext :: "tokens \<Rightarrow> TOK" where "peekNext ts \<equiv> tok (tl ts)"

lemma tok_simps [simp]: "tok [] = Other_tok TOK_endOfFile" "tok (t # r) = tok_value t"
  by (simp_all add: tok_def)

text \<open>\<open>check\<close>: the expected token, or an error.\<close>

definition check :: "TOK \<Rightarrow> tokens \<Rightarrow> text_error + tokens" where
  "check t ts = (if tok ts = t then Inr (tl ts) else Inl Bad_syntax)"

text \<open>\<open>checkParens\<close>: a comparison next to a bitwise operator needs parentheses.\<close>

definition checkParens :: "expr \<Rightarrow> text_error + unit" where
  "checkParens e = guard Bad_syntax (\<not> (precedence (op_of e) = PREC_rel \<and> \<not> parens e))"

text \<open>The loops of the levels: operands joined to the left while an operator of the level
  follows.  \<open>chk\<close> says whether the operands go through \<open>checkParens\<close>.\<close>

primrec left_loop ::
    "(TOK \<Rightarrow> EXP option) \<Rightarrow> bool \<Rightarrow> (tokens \<Rightarrow> expr parsed) \<Rightarrow> nat \<Rightarrow> expr \<Rightarrow> tokens \<Rightarrow> expr parsed" where
  "left_loop ops chk p 0 e ts = Inl Out_of_fuel"
| "left_loop ops chk p (Suc n) e ts =
     (case ops (tok ts) of
        None \<Rightarrow> Inr (e, ts)
      | Some b \<Rightarrow>
          rbind (if chk then checkParens e else Inr ()) (\<lambda>_.
          rbind (p (tl ts)) (\<lambda>(e2, r).
          rbind (if chk then checkParens e2 else Inr ()) (\<lambda>_.
          left_loop ops chk p n (Bin b e e2) r))))"

definition left_chain ::
    "(TOK \<Rightarrow> EXP option) \<Rightarrow> bool \<Rightarrow> (tokens \<Rightarrow> expr parsed) \<Rightarrow> tokens \<Rightarrow> expr parsed" where
  "left_chain ops chk p ts = rbind (p ts) (\<lambda>(e, r). left_loop ops chk p (Suc (length r)) e r)"

text \<open>The operators of the levels.\<close>

definition mul_op :: "TOK \<Rightarrow> EXP option" where
  "mul_op t = (if t = Operator_tok TOK_mul then Some EXP_mul
     else if t = Operator_tok TOK_div then Some EXP_div
     else if t = Operator_tok TOK_mod then Some EXP_mod else None)"

definition add_op :: "TOK \<Rightarrow> EXP option" where
  "add_op t = (if t = Operator_tok TOK_add then Some EXP_add
     else if t = Operator_tok TOK_min then Some EXP_min
     else if t = Operator_tok TOK_tilde then Some EXP_concatenate else None)"

definition shift_op :: "TOK \<Rightarrow> EXP option" where
  "shift_op t = (if t = Operator_tok TOK_leftShift then Some EXP_leftShift
     else if t = Operator_tok TOK_rightShift then Some EXP_rightShift
     else if t = Operator_tok TOK_unsignedRightShift then Some EXP_unsignedRightShift else None)"

definition the_op :: "TOK \<Rightarrow> EXP \<Rightarrow> TOK \<Rightarrow> EXP option" where
  "the_op s b t = (if t = s then Some b else None)"

definition assign_op :: "TOK \<Rightarrow> EXP option" where
  "assign_op t = (if t = Operator_tok TOK_assign then Some EXP_assign
     else if t = Operator_tok TOK_addAssign then Some EXP_addAssign
     else if t = Operator_tok TOK_minAssign then Some EXP_minAssign
     else if t = Operator_tok TOK_mulAssign then Some EXP_mulAssign
     else if t = Operator_tok TOK_divAssign then Some EXP_divAssign
     else if t = Operator_tok TOK_modAssign then Some EXP_modAssign
     else if t = Later_tok TOK_powAssign then Some EXP_powAssign
     else if t = Operator_tok TOK_andAssign then Some EXP_andAssign
     else if t = Operator_tok TOK_orAssign then Some EXP_orAssign
     else if t = Operator_tok TOK_xorAssign then Some EXP_xorAssign
     else if t = Operator_tok TOK_leftShiftAssign then Some EXP_leftShiftAssign
     else if t = Operator_tok TOK_rightShiftAssign then Some EXP_rightShiftAssign
     else if t = Operator_tok TOK_unsignedRightShiftAssign then Some EXP_unsignedRightShiftAssign
     else if t = Operator_tok TOK_concatenateAssign then Some EXP_concatenateAssign
     else None)"

definition parseMulExp :: "(tokens \<Rightarrow> expr parsed) \<Rightarrow> tokens \<Rightarrow> expr parsed" where
  "parseMulExp u = left_chain mul_op False u"

definition parseAddExp :: "(tokens \<Rightarrow> expr parsed) \<Rightarrow> tokens \<Rightarrow> expr parsed" where
  "parseAddExp u = left_chain add_op False (parseMulExp u)"

definition parseShiftExp :: "(tokens \<Rightarrow> expr parsed) \<Rightarrow> tokens \<Rightarrow> expr parsed" where
  "parseShiftExp u = left_chain shift_op False (parseAddExp u)"

text \<open>Comparisons do not chain; \<open>!is\<close> and \<open>!in\<close> are two tokens.\<close>

definition cmp_op :: "TOK \<Rightarrow> EXP option" where
  "cmp_op t = (if t = Operator_tok TOK_equal then Some EXP_equal
     else if t = Operator_tok TOK_notEqual then Some EXP_notEqual
     else if t = Operator_tok TOK_is then Some EXP_identity
     else if t = Operator_tok TOK_lessThan then Some EXP_lessThan
     else if t = Operator_tok TOK_lessOrEqual then Some EXP_lessOrEqual
     else if t = Operator_tok TOK_greaterThan then Some EXP_greaterThan
     else if t = Operator_tok TOK_greaterOrEqual then Some EXP_greaterOrEqual
     else if t = Aggregate_tok TOK_in then Some EXP_in
     else None)"

definition parseCmpExp :: "(tokens \<Rightarrow> expr parsed) \<Rightarrow> tokens \<Rightarrow> expr parsed" where
  "parseCmpExp u ts =
     rbind (parseShiftExp u ts) (\<lambda>(e, r).
     if tok r = Operator_tok TOK_not then
       (if peekNext r = Aggregate_tok TOK_in then
          rbind (parseShiftExp u (tl (tl r))) (\<lambda>(e2, r2). Inr (Una EXP_not (Bin EXP_in e e2), r2))
        else if peekNext r = Operator_tok TOK_is then
          rbind (parseShiftExp u (tl (tl r))) (\<lambda>(e2, r2). Inr (Bin EXP_notIdentity e e2, r2))
        else Inr (e, r))
     else (case cmp_op (tok r) of
         None \<Rightarrow> Inr (e, r)
       | Some b \<Rightarrow> rbind (parseShiftExp u (tl r)) (\<lambda>(e2, r2). Inr (Bin b e e2, r2))))"

definition parseAndExp :: "(tokens \<Rightarrow> expr parsed) \<Rightarrow> tokens \<Rightarrow> expr parsed" where
  "parseAndExp u = left_chain (the_op (Operator_tok TOK_and) EXP_and) True (parseCmpExp u)"

definition parseXorExp :: "(tokens \<Rightarrow> expr parsed) \<Rightarrow> tokens \<Rightarrow> expr parsed" where
  "parseXorExp u = left_chain (the_op (Operator_tok TOK_xor) EXP_xor) True (parseAndExp u)"

definition parseOrExp :: "(tokens \<Rightarrow> expr parsed) \<Rightarrow> tokens \<Rightarrow> expr parsed" where
  "parseOrExp u = left_chain (the_op (Operator_tok TOK_or) EXP_or) True (parseXorExp u)"

definition parseAndAndExp :: "(tokens \<Rightarrow> expr parsed) \<Rightarrow> tokens \<Rightarrow> expr parsed" where
  "parseAndAndExp u = left_chain (the_op (Operator_tok TOK_andAnd) EXP_andAnd) False (parseOrExp u)"

definition parseOrOrExp :: "(tokens \<Rightarrow> expr parsed) \<Rightarrow> tokens \<Rightarrow> expr parsed" where
  "parseOrOrExp u = left_chain (the_op (Operator_tok TOK_orOr) EXP_orOr) False (parseAndAndExp u)"

text \<open>A postfix \<open>.x\<close>, \<open>++\<close> or \<open>--\<close>; the loop of \<open>parsePostExp\<close> ends with the tokens.\<close>

definition is_template_bang :: "tokens \<Rightarrow> bool" where
  "is_template_bang r \<longleftrightarrow> tok r = Operator_tok TOK_not \<and>
     peekNext r \<noteq> Operator_tok TOK_is \<and> peekNext r \<noteq> Aggregate_tok TOK_in"

primrec post_loop :: "nat \<Rightarrow> expr \<Rightarrow> tokens \<Rightarrow> expr parsed" where
  "post_loop 0 e ts = Inl Out_of_fuel"
| "post_loop (Suc n) e ts =
     (if tok ts = Operator_tok TOK_dot then
        (if peekNext ts = Leaf_tok TOK_identifier then
           (if is_template_bang (tl (tl ts)) then Inl Not_modelled
            else post_loop n (DotId e (tok_ident (hd (tl ts)))) (tl (tl ts)))
         else if peekNext ts = Other_tok TOK_new then Inl Not_modelled
         else Inl Bad_syntax)
      else if tok ts = Operator_tok TOK_plusPlus then post_loop n (Post EXP_plusPlus e) (tl ts)
      else if tok ts = Operator_tok TOK_minusMinus then post_loop n (Post EXP_minusMinus e) (tl ts)
      else if tok ts \<in> {Other_tok TOK_leftParenthesis, Other_tok TOK_leftBracket} then Inl Not_modelled
      else Inr (e, ts))"

definition parsePostExp :: "expr \<Rightarrow> tokens \<Rightarrow> expr parsed" where
  "parsePostExp e ts = post_loop (Suc (length ts)) e ts"

text \<open>After a parenthesised expression: the tokens on which \<open>parseUnaryExp\<close> takes it neither
  for a type to cast to nor for the parameters of a lambda.\<close>

definition plain_follow :: "tokens \<Rightarrow> bool" where
  "plain_follow r \<longleftrightarrow>
     tok r \<in> {Other_tok TOK_endOfFile, Other_tok TOK_rightParenthesis, Other_tok TOK_rightBracket,
       Other_tok TOK_colon, Other_tok TOK_semicolon, Operator_tok TOK_comma, Operator_tok TOK_question,
       Later_tok TOK_pow, Operator_tok TOK_and, Operator_tok TOK_xor, Operator_tok TOK_or,
       Operator_tok TOK_andAnd, Operator_tok TOK_orOr} \<or>
     mul_op (tok r) \<noteq> None \<or> add_op (tok r) \<noteq> None \<or> shift_op (tok r) \<noteq> None \<or>
     cmp_op (tok r) \<noteq> None \<or> assign_op (tok r) \<noteq> None \<or>
     tok r = Operator_tok TOK_not \<and> \<not> is_template_bang r"

text \<open>The leaves; \<open>pe\<close> parses the expression in parentheses.\<close>

definition parsePrimaryExp :: "(tokens \<Rightarrow> expr parsed) \<Rightarrow> tokens \<Rightarrow> expr parsed" where
  "parsePrimaryExp pe ts =
     (if tok ts = Leaf_tok TOK_identifier then
        (if peekNext ts \<in> {Later_tok TOK_arrow, Later_tok TOK_goesTo} \<or> is_template_bang (tl ts)
         then Inl Not_modelled
         else Inr (IdentifierE (tok_ident (hd ts)), tl ts))
      else if tok ts = Leaf_tok TOK_this then Inr (ThisE, tl ts)
      else if tok ts = Leaf_tok TOK_super then Inr (SuperE, tl ts)
      else if tok ts = Other_tok TOK_null then Inr (NullE, tl ts)
      else if tok ts = Other_tok TOK_true then Inr (BoolE True, tl ts)
      else if tok ts = Other_tok TOK_false then Inr (BoolE False, tl ts)
      else if tok ts = Other_tok TOK_leftParenthesis then
        rbind (pe (tl ts)) (\<lambda>(e, r).
        rbind (check (Other_tok TOK_rightParenthesis) r) (\<lambda>r2.
        if plain_follow r2 then Inr (set_parens e, r2) else Inl Not_modelled))
      else if tok ts \<in> {Other_tok TOK_rightParenthesis, Other_tok TOK_rightBracket, Other_tok TOK_rightCurly,
          Other_tok TOK_colon, Other_tok TOK_semicolon, Other_tok TOK_endOfFile, Operator_tok TOK_comma,
          Operator_tok TOK_question, Later_tok TOK_pow, Operator_tok TOK_xor, Operator_tok TOK_or,
          Operator_tok TOK_andAnd, Operator_tok TOK_orOr} \<or>
          mul_op (tok ts) \<noteq> None \<or> shift_op (tok ts) \<noteq> None \<or> assign_op (tok ts) \<noteq> None then Inl Bad_syntax
      else Inl Not_modelled)"

text \<open>The prefix operators, and the class of expression they give.\<close>

definition prefix_op :: "TOK \<Rightarrow> (expr \<Rightarrow> expr) option" where
  "prefix_op t = (if t = Operator_tok TOK_and then Some (Una EXP_address)
     else if t = Operator_tok TOK_plusPlus then Some (Pre EXP_prePlusPlus)
     else if t = Operator_tok TOK_minusMinus then Some (Pre EXP_preMinusMinus)
     else if t = Operator_tok TOK_mul then Some (Una EXP_star)
     else if t = Operator_tok TOK_min then Some (Una EXP_negate)
     else if t = Operator_tok TOK_add then Some (Una EXP_uadd)
     else if t = Operator_tok TOK_not then Some (Una EXP_not)
     else if t = Operator_tok TOK_tilde then Some (Una EXP_tilde)
     else None)"

fun parseExpression :: "nat \<Rightarrow> tokens \<Rightarrow> expr parsed"
  and parseAssignExp :: "nat \<Rightarrow> tokens \<Rightarrow> expr parsed"
  and parseCondExp :: "nat \<Rightarrow> tokens \<Rightarrow> expr parsed"
  and parseUnaryExp :: "nat \<Rightarrow> tokens \<Rightarrow> expr parsed" where
  "parseExpression 0 ts = Inl Out_of_fuel"
| "parseExpression (Suc n) ts =
     left_chain (the_op (Operator_tok TOK_comma) EXP_comma) False (parseAssignExp n) ts"
| "parseAssignExp 0 ts = Inl Out_of_fuel"
| "parseAssignExp (Suc n) ts =
     rbind (parseCondExp n ts) (\<lambda>(e, r).
     case assign_op (tok r) of
       None \<Rightarrow> Inr (e, r)
     | Some b \<Rightarrow>
         rbind (guard Bad_syntax (\<not> (op_of e = EXP_question \<and> \<not> parens e))) (\<lambda>_.
         rbind (parseAssignExp n (tl r)) (\<lambda>(e2, r2). Inr (Bin b e e2, r2))))"
| "parseCondExp 0 ts = Inl Out_of_fuel"
| "parseCondExp (Suc n) ts =
     rbind (parseOrOrExp (parseUnaryExp n) ts) (\<lambda>(e, r).
     if tok r = Operator_tok TOK_question then
       rbind (parseExpression n (tl r)) (\<lambda>(e1, r1).
       rbind (check (Other_tok TOK_colon) r1) (\<lambda>r2.
       rbind (parseCondExp n r2) (\<lambda>(e2, r3). Inr (Cond e e1 e2, r3))))
     else Inr (e, r))"
| "parseUnaryExp 0 ts = Inl Out_of_fuel"
| "parseUnaryExp (Suc n) ts =
     rbind (case prefix_op (tok ts) of
         Some f \<Rightarrow> rbind (parseUnaryExp n (tl ts)) (\<lambda>(e, r). Inr (f e, r))
       | None \<Rightarrow> rbind (parsePrimaryExp (parseExpression n) ts) (\<lambda>(e, r). parsePostExp e r))
       (\<lambda>(e, r). left_loop (the_op (Later_tok TOK_pow) EXP_pow) False (parseUnaryExp n) (Suc (length r)) e r)"

text \<open>The parse of a whole text, with fuel for its tokens.\<close>

definition parse_fuel :: "tokens \<Rightarrow> nat" where "parse_fuel ts = 4 * length ts + 4"

definition parse_text :: "string \<Rightarrow> text_error + expr" where
  "parse_text s =
     rbind (lex s) (\<lambda>ts.
     rbind (parseExpression (parse_fuel ts) ts) (\<lambda>(e, r).
     if r = [] then Inr e else Inl Bad_syntax))"

end
