(* ===== verification/Parse_Laws.thy ===== *)
theory Parse_Laws
  imports Expr_Text
begin

text \<open>
  The parser of operator expressions returns: every level consumes at least one token, so that
  fuel linear in the number of tokens is enough, and more fuel does not change the result.  The
  locale \<open>operand_parser\<close> is what a level asks of the parser of its operands.
\<close>

declare left_loop.simps(2) [simp del] post_loop.simps(2) [simp del]

lemmas loop_simps = left_loop.simps(2) post_loop.simps(2)

section \<open>Consuming tokens\<close>

definition consumes :: "(tokens \<Rightarrow> expr parsed) \<Rightarrow> bool" where
  "consumes p \<longleftrightarrow> (\<forall>ts e r. p ts = Inr (e, r) \<longrightarrow> length r < length ts)"

lemma consumesD: "consumes p \<Longrightarrow> p ts = Inr (e, r) \<Longrightarrow> length r < length ts"
  by (simp add: consumes_def)

text \<open>A parser returns on a list of tokens, whether with an error or not.\<close>

definition returns :: "text_error + 'a \<Rightarrow> bool" where "returns x \<longleftrightarrow> x \<noteq> Inl Out_of_fuel"

lemma returns_simps [simp]:
  "returns (Inr x)" "returns (Inl Bad_syntax)" "returns (Inl Not_modelled)" "\<not> returns (Inl Out_of_fuel)"
  by (simp_all add: returns_def)

lemma returns_rbind:
  "returns x \<Longrightarrow> (\<And>e r. x = Inr (e, r) \<Longrightarrow> returns (f (e, r))) \<Longrightarrow> returns (rbind x f)"
  by (cases x) (auto simp: returns_def)

lemma returns_rbind_error:
  "x \<noteq> Inl Out_of_fuel \<Longrightarrow> (\<And>a. x = Inr a \<Longrightarrow> returns (f a)) \<Longrightarrow> returns (rbind x f)"
  by (cases x) (auto simp: returns_def)

lemma checkParens_cases: "checkParens e = Inr () \<or> checkParens e = Inl Bad_syntax"
  by (simp add: checkParens_def guard_def)

lemma checkParens_returns [simp]: "checkParens e \<noteq> Inl Out_of_fuel"
  using checkParens_cases[of e] by auto

lemma check_returns: "check t ts \<noteq> Inl Out_of_fuel"
  by (simp add: check_def)

lemma left_loop_length:
  "consumes p \<Longrightarrow> left_loop ops chk p n e ts = Inr (e', r) \<Longrightarrow> length r \<le> length ts"
proof (induction n arbitrary: e ts)
  case (Suc n)
  show ?case
  proof (cases "ops (tok ts)")
    case (Some b)
    then obtain e2 r2 where p: "p (tl ts) = Inr (e2, r2)" "left_loop ops chk p n (Bin b e e2) r2 = Inr (e', r)"
      using Suc.prems(2) by (auto simp: loop_simps rbind_Inr_iff)
    have "length r2 < length (tl ts)" by (rule consumesD[OF Suc.prems(1) p(1)])
    with Suc.IH[OF Suc.prems(1) p(2)] show ?thesis by simp
  qed (use Suc.prems in \<open>auto simp: loop_simps\<close>)
qed simp

lemma left_chain_consumes: "consumes p \<Longrightarrow> consumes (left_chain ops chk p)"
  unfolding consumes_def[of "left_chain ops chk p"] left_chain_def
  by (auto simp: rbind_Inr_iff) (metis consumesD left_loop_length le_less_trans)

lemma left_loop_returns:
  assumes "consumes p" "\<And>us. length us < length ts \<Longrightarrow> returns (p us)" "length ts < n"
    "ops (Other_tok TOK_endOfFile) = None"
  shows "returns (left_loop ops chk p n e ts)"
  using assms(2,3)
proof (induction n arbitrary: e ts)
  case (Suc n)
  show ?case
  proof (cases "ops (tok ts)")
    case (Some b)
    with assms(4) have ne: "ts \<noteq> []" by auto
    have "returns (left_loop ops chk p n (Bin b e e2) r)" if "p (tl ts) = Inr (e2, r)" for e2 r
    proof (rule Suc.IH)
      have l: "length r < length ts" using consumesD[OF assms(1) that] by simp
      show "returns (p us)" if "length us < length r" for us
        using Suc.prems(1) l that by simp
      show "length r < n" using l Suc.prems(2) by simp
    qed
    moreover have "returns (p (tl ts))" using Suc.prems(1) ne by simp
    ultimately show ?thesis using Some
      by (auto intro!: returns_rbind returns_rbind_error simp: loop_simps)
  qed (simp add: loop_simps)
qed simp

lemma left_chain_returns:
  assumes "consumes p" "\<And>us. length us \<le> length ts \<Longrightarrow> returns (p us)"
    "ops (Other_tok TOK_endOfFile) = None"
  shows "returns (left_chain ops chk p ts)"
  unfolding left_chain_def
proof (rule returns_rbind)
  show "returns (p ts)" by (rule assms(2)) simp
  show "returns (case (e, r) of (e, r) \<Rightarrow> left_loop ops chk p (Suc (length r)) e r)" if "p ts = Inr (e, r)" for e r
    using consumesD[OF assms(1) that] by (auto intro!: left_loop_returns assms)
qed

section \<open>The levels\<close>

lemma consumes_add: "consumes u \<Longrightarrow> consumes (parseMulExp u)" "consumes u \<Longrightarrow> consumes (parseAddExp u)"
    "consumes u \<Longrightarrow> consumes (parseShiftExp u)"
  unfolding parseShiftExp_def parseAddExp_def parseMulExp_def by (intro left_chain_consumes; assumption)+

lemma consumes_cmp: "consumes u \<Longrightarrow> consumes (parseCmpExp u)"
proof -
  assume "consumes u"
  note shift = consumesD[OF consumes_add(3)[OF this]]
  show ?thesis unfolding consumes_def parseCmpExp_def
    by (fastforce simp: rbind_Inr_iff split: if_splits option.splits dest: shift)
qed

lemma consumes_oror: "consumes u \<Longrightarrow> consumes (parseOrOrExp u)"
  unfolding parseOrOrExp_def parseAndAndExp_def parseOrExp_def parseXorExp_def parseAndExp_def
  by (intro left_chain_consumes consumes_cmp)

locale operand_parser =
  fixes u :: "tokens \<Rightarrow> expr parsed" and k :: nat
  assumes consume: "consumes u" and return: "length ts \<le> k \<Longrightarrow> returns (u ts)"
begin

lemma shift_returns: "length ts \<le> k \<Longrightarrow> returns (parseShiftExp u ts)"
  unfolding parseShiftExp_def parseAddExp_def parseMulExp_def
  by (intro left_chain_returns left_chain_consumes consume return)
    (simp_all add: mul_op_def add_op_def shift_op_def)

lemma cmp_returns:
  assumes "length ts \<le> k" shows "returns (parseCmpExp u ts)"
proof -
  have s: "returns (parseShiftExp u us)" if "length us \<le> length ts" for us
    using that assms by (simp add: shift_returns)
  have "length r < length ts" if "parseShiftExp u ts = Inr (e, r)" for e r
    using consumesD[OF consumes_add(3)[OF consume] that] .
  then show ?thesis unfolding parseCmpExp_def
    by (force intro!: returns_rbind s split: option.split)
qed

lemma oror_returns: "length ts \<le> k \<Longrightarrow> returns (parseOrOrExp u ts)"
  unfolding parseOrOrExp_def parseAndAndExp_def parseOrExp_def parseXorExp_def parseAndExp_def
  by (intro left_chain_returns left_chain_consumes consumes_cmp[OF consume] cmp_returns)
    (simp_all add: the_op_def)

end

lemma post_loop_length: "post_loop n e ts = Inr (e', r) \<Longrightarrow> length r \<le> length ts"
proof (induction n arbitrary: e ts)
  case (Suc n)
  from Suc.prems Suc.IH[of _ "tl ts"] Suc.IH[of _ "tl (tl ts)"] show ?case
    by (fastforce simp: loop_simps split: if_splits)
qed simp

lemma post_loop_returns: "length ts < n \<Longrightarrow> returns (post_loop n e ts)"
proof (induction n arbitrary: e ts)
  case (Suc n)
  then show ?case by (cases ts) (auto simp: loop_simps)
qed simp

lemma parsePostExp_laws:
  "parsePostExp e ts = Inr (e', r) \<Longrightarrow> length r \<le> length ts" "returns (parsePostExp e ts)"
  unfolding parsePostExp_def by (rule post_loop_length, assumption) (simp add: post_loop_returns)

lemma parsePrimaryExp_length:
  assumes "parsePrimaryExp pe ts = Inr (e, r)" "\<forall>us e r. pe us = Inr (e, r) \<longrightarrow> length r \<le> length us"
  shows "length r < length ts"
proof (cases ts)
  case Nil
  then show ?thesis using assms(1) by (simp add: parsePrimaryExp_def)
next
  case (Cons t us)
  then show ?thesis using assms
    by (fastforce simp: parsePrimaryExp_def check_def rbind_Inr_iff split: if_splits)
qed

lemma parsePrimaryExp_returns:
  assumes "\<And>us. length us < length ts \<Longrightarrow> returns (pe us)"
  shows "returns (parsePrimaryExp pe ts)"
proof -
  have "returns (pe (tl ts))" if "tok ts = Other_tok TOK_leftParenthesis"
    using assms[of "tl ts"] that by (cases ts) auto
  then show ?thesis unfolding parsePrimaryExp_def
    by (auto intro!: returns_rbind returns_rbind_error simp: check_returns)
qed

section \<open>Fuel\<close>

text \<open>With fuel \<open>n\<close>, expressions of \<open>k\<close> tokens return; \<open>j\<close> counts the levels above an operand.\<close>

lemma unary_step_consumes:
  assumes "consumes (parseUnaryExp n)" "consumes (parseExpression n)"
  shows "consumes (parseUnaryExp (Suc n))"
  unfolding consumes_def
proof (intro allI impI)
  fix ts e r
  assume "parseUnaryExp (Suc n) ts = Inr (e, r)"
  then obtain e1 r1 where a: "(case prefix_op (tok ts) of
         Some f \<Rightarrow> rbind (parseUnaryExp n (tl ts)) (\<lambda>(e, r). Inr (f e, r))
       | None \<Rightarrow> rbind (parsePrimaryExp (parseExpression n) ts) (\<lambda>(e, r). parsePostExp e r)) = Inr (e1, r1)"
      "left_loop (the_op (Later_tok TOK_pow) EXP_pow) False (parseUnaryExp n) (Suc (length r1)) e1 r1 = Inr (e, r)"
    by (auto simp: rbind_Inr_iff)
  have "\<forall>us e r. parseExpression n us = Inr (e, r) \<longrightarrow> length r \<le> length us"
    using assms(2) by (auto dest: consumesD)
  with a(1) have "length r1 < length ts"
    by (force simp: rbind_Inr_iff split: option.splits
        dest: consumesD[OF assms(1)] parsePostExp_laws(1) parsePrimaryExp_length)
  with left_loop_length[OF assms(1) a(2)] show "length r < length ts" by simp
qed

lemma parse_consumes:
  "consumes (parseExpression n) \<and> consumes (parseAssignExp n) \<and> consumes (parseCondExp n) \<and>
   consumes (parseUnaryExp n)"
proof (induction n)
  case (Suc n)
  then have c: "consumes (parseExpression n)" "consumes (parseAssignExp n)" "consumes (parseCondExp n)"
    "consumes (parseUnaryExp n)" "consumes (parseOrOrExp (parseUnaryExp n))"
    by (simp_all add: consumes_oror)
  have "consumes (parseExpression (Suc n))"
    using left_chain_consumes[OF c(2)] by (simp add: consumes_def)
  moreover have "consumes (parseAssignExp (Suc n))"
    unfolding consumes_def
    by (fastforce simp: rbind_Inr_iff rbind_guard_Inr split: option.splits
        dest: consumesD[OF c(2)] consumesD[OF c(3)])
  moreover have "consumes (parseCondExp (Suc n))"
    unfolding consumes_def
    by (fastforce simp: rbind_Inr_iff check_def split: if_splits
        dest: consumesD[OF c(1)] consumesD[OF c(3)] consumesD[OF c(5)])
  ultimately show ?case using unary_step_consumes[OF c(4,1)] by blast
qed (simp add: consumes_def)

lemmas parse_consume = parse_consumes[THEN conjunct1] parse_consumes[THEN conjunct2, THEN conjunct1]
  parse_consumes[THEN conjunct2, THEN conjunct2, THEN conjunct1]
  parse_consumes[THEN conjunct2, THEN conjunct2, THEN conjunct2]

lemma unary_step_returns:
  assumes "\<And>us. length us < length ts \<Longrightarrow> returns (parseUnaryExp n us)"
    "\<And>us. length us < length ts \<Longrightarrow> returns (parseExpression n us)"
  shows "returns (parseUnaryExp (Suc n) ts)"
proof -
  have pe: "\<forall>us e r. parseExpression n us = Inr (e, r) \<longrightarrow> length r \<le> length us"
    using parse_consume(1)[of n] by (auto dest: consumesD)
  let ?x = "case prefix_op (tok ts) of
         Some f \<Rightarrow> rbind (parseUnaryExp n (tl ts)) (\<lambda>(e, r). Inr (f e, r))
       | None \<Rightarrow> rbind (parsePrimaryExp (parseExpression n) ts) (\<lambda>(e, r). parsePostExp e r)"
  have u: "returns (parseUnaryExp n (tl ts))" if "prefix_op (tok ts) = Some f" for f
    using that by (intro assms(1)) (cases ts; simp add: prefix_op_def)
  have "returns ?x"
    using u parsePrimaryExp_returns[of ts "parseExpression n"] assms(2) parsePostExp_laws(2)
    by (auto intro!: returns_rbind split: option.split)
  moreover have "length r < length ts" if "?x = Inr (e, r)" for e r
    using that pe by (force simp: rbind_Inr_iff split: option.splits
        dest: consumesD[OF parse_consume(4)] parsePostExp_laws(1) parsePrimaryExp_length)
  ultimately show ?thesis unfolding parseUnaryExp.simps
    by (auto intro!: returns_rbind left_loop_returns parse_consume(4) assms(1) simp: the_op_def)
qed

lemma parse_returns:
  "(4 * length ts + 4 \<le> n \<longrightarrow> returns (parseExpression n ts)) \<and>
   (4 * length ts + 3 \<le> n \<longrightarrow> returns (parseAssignExp n ts)) \<and>
   (4 * length ts + 2 \<le> n \<longrightarrow> returns (parseCondExp n ts)) \<and>
   (4 * length ts + 1 \<le> n \<longrightarrow> returns (parseUnaryExp n ts))"
proof (induction n arbitrary: ts)
  case (Suc n)
  have x: "4 * length us + 4 \<le> n \<Longrightarrow> returns (parseExpression n us)"
    and a: "4 * length us + 3 \<le> n \<Longrightarrow> returns (parseAssignExp n us)"
    and c: "4 * length us + 2 \<le> n \<Longrightarrow> returns (parseCondExp n us)"
    and u: "4 * length us + 1 \<le> n \<Longrightarrow> returns (parseUnaryExp n us)" for us
    using Suc.IH[of us] by simp_all
  have "returns (parseExpression (Suc n) ts)" if "4 * length ts + 4 \<le> Suc n"
    using that by (auto intro!: left_chain_returns parse_consume a simp: the_op_def)
  moreover have "returns (parseAssignExp (Suc n) ts)" if l: "4 * length ts + 3 \<le> Suc n"
  proof -
    have rc: "returns (parseCondExp n ts)" using l by (intro c) simp
    have "returns (parseAssignExp n (tl r))" if "parseCondExp n ts = Inr (e, r)" for e r
      using consumesD[OF parse_consume(3) that] l by (intro a) simp
    then show ?thesis unfolding parseAssignExp.simps
      by (intro returns_rbind rc) (auto intro!: returns_rbind returns_rbind_error split: option.split simp: guard_def)
  qed
  moreover have "returns (parseCondExp (Suc n) ts)" if l: "4 * length ts + 2 \<le> Suc n"
  proof -
    have o: "operand_parser (parseUnaryExp n) (length ts)"
      using l by unfold_locales (auto intro: parse_consume u)
    have ro: "returns (parseOrOrExp (parseUnaryExp n) ts)"
      by (rule operand_parser.oror_returns[OF o]) simp
    have lo: "length r < length ts" if "parseOrOrExp (parseUnaryExp n) ts = Inr (e, r)" for e r
      using that consumesD consumes_oror[OF parse_consume(4)] by blast
    have lx: "length r < length us" if "parseExpression n us = Inr (e, r)" for us e r
      using that consumesD parse_consume(1) by blast
    have "returns (parseExpression n (tl r)) \<and>
        (\<forall>e1 r1. parseExpression n (tl r) = Inr (e1, r1) \<longrightarrow> returns (parseCondExp n (tl r1)))"
      if "parseOrOrExp (parseUnaryExp n) ts = Inr (e, r)" for e r
      using lo[OF that] l by (auto intro!: x c dest: lx)
    then show ?thesis unfolding parseCondExp.simps
      by (intro returns_rbind ro) (auto intro!: returns_rbind simp: check_def)
  qed
  moreover have "returns (parseUnaryExp (Suc n) ts)" if "4 * length ts + 1 \<le> Suc n"
    using that by (intro unary_step_returns u x) auto
  ultimately show ?case by blast
qed simp

interpretation unary: operand_parser "parseUnaryExp (4 * k + 1)" k for k
  by unfold_locales (rule parse_consume(4), use parse_returns in \<open>simp del: parseUnaryExp.simps\<close>)

text \<open>More fuel gives the same result.\<close>

definition agrees :: "(tokens \<Rightarrow> expr parsed) \<Rightarrow> (tokens \<Rightarrow> expr parsed) \<Rightarrow> bool" where
  "agrees p q \<longleftrightarrow> (\<forall>ts. returns (p ts) \<longrightarrow> q ts = p ts)"

lemma agreesD: "agrees p q \<Longrightarrow> returns (p ts) \<Longrightarrow> q ts = p ts"
  unfolding agrees_def by blast

lemma rbind_agree:
  assumes "returns (rbind a f)" "returns a \<Longrightarrow> b = a" "\<And>x. returns (f x) \<Longrightarrow> g x = f x"
  shows "rbind b g = rbind a f"
  using assms by (cases a) (auto simp: returns_def)

lemma left_loop_agrees:
  assumes "agrees p q"
  shows "returns (left_loop ops chk p n e ts) \<Longrightarrow> left_loop ops chk q n e ts = left_loop ops chk p n e ts"
proof (induction n arbitrary: e ts)
  case (Suc n)
  show ?case
  proof (cases "ops (tok ts)")
    case (Some b)
    have r: "returns (rbind (if chk then checkParens e else Inr ()) (\<lambda>_. rbind (p (tl ts)) (\<lambda>(e2, r).
          rbind (if chk then checkParens e2 else Inr ()) (\<lambda>_. left_loop ops chk p n (Bin b e e2) r))))"
      using Suc.prems Some by (simp only: loop_simps option.case)
    show ?thesis unfolding loop_simps Some option.case
      by (rule rbind_agree[OF r], simp, erule rbind_agree, erule agreesD[OF assms],
          clarify, erule rbind_agree, simp, erule Suc.IH)
  qed (simp add: loop_simps)
qed simp

lemma left_chain_agrees: "agrees p q \<Longrightarrow> agrees (left_chain ops chk p) (left_chain ops chk q)"
  unfolding agrees_def[of "left_chain ops chk p"] left_chain_def
  by (intro allI impI, erule rbind_agree) (auto intro: agreesD left_loop_agrees)

lemma shift_agrees: "agrees u v \<Longrightarrow> agrees (parseShiftExp u) (parseShiftExp v)"
  unfolding parseShiftExp_def parseAddExp_def parseMulExp_def by (intro left_chain_agrees)

lemma cmp_agrees: "agrees u v \<Longrightarrow> agrees (parseCmpExp u) (parseCmpExp v)"
proof -
  assume "agrees u v"
  note s = agreesD[OF shift_agrees[OF this]]
  show ?thesis unfolding agrees_def parseCmpExp_def
    by (intro allI impI, erule rbind_agree, erule s)
      (auto split: if_splits option.splits elim!: rbind_agree intro!: s)
qed

lemma oror_agrees: "agrees u v \<Longrightarrow> agrees (parseOrOrExp u) (parseOrOrExp v)"
  unfolding parseOrOrExp_def parseAndAndExp_def parseOrExp_def parseXorExp_def parseAndExp_def
  by (intro left_chain_agrees cmp_agrees)

lemma primary_agrees:
  assumes "agrees p q" shows "agrees (parsePrimaryExp p) (parsePrimaryExp q)"
  unfolding agrees_def parsePrimaryExp_def
  by (auto elim!: rbind_agree intro!: agreesD[OF assms])

lemma unary_agrees:
  assumes u: "agrees (parseUnaryExp n) (parseUnaryExp m)" and x: "agrees (parseExpression n) (parseExpression m)"
  shows "agrees (parseUnaryExp (Suc n)) (parseUnaryExp (Suc m))"
  unfolding agrees_def parseUnaryExp.simps(2)
proof (intro allI impI, erule rbind_agree)
  fix ts
  assume r: "returns (case prefix_op (tok ts) of
      Some f \<Rightarrow> rbind (parseUnaryExp n (tl ts)) (\<lambda>(e, r). Inr (f e, r))
    | None \<Rightarrow> rbind (parsePrimaryExp (parseExpression n) ts) (\<lambda>(e, r). parsePostExp e r))"
  show "(case prefix_op (tok ts) of
      Some f \<Rightarrow> rbind (parseUnaryExp m (tl ts)) (\<lambda>(e, r). Inr (f e, r))
    | None \<Rightarrow> rbind (parsePrimaryExp (parseExpression m) ts) (\<lambda>(e, r). parsePostExp e r)) =
    (case prefix_op (tok ts) of
      Some f \<Rightarrow> rbind (parseUnaryExp n (tl ts)) (\<lambda>(e, r). Inr (f e, r))
    | None \<Rightarrow> rbind (parsePrimaryExp (parseExpression n) ts) (\<lambda>(e, r). parsePostExp e r))"
  proof (cases "prefix_op (tok ts)")
    case None
    from r[unfolded None option.case] show ?thesis unfolding None option.case
      by (rule rbind_agree) (rule agreesD[OF primary_agrees[OF x]], assumption, rule refl)
  next
    case (Some f)
    from r[unfolded Some option.case] show ?thesis unfolding Some option.case
      by (rule rbind_agree) (rule agreesD[OF u], assumption, rule refl)
  qed
next
  show "(case x of (e, r) \<Rightarrow>
      left_loop (the_op (Later_tok TOK_pow) EXP_pow) False (parseUnaryExp m) (Suc (length r)) e r) =
    (case x of (e, r) \<Rightarrow>
      left_loop (the_op (Later_tok TOK_pow) EXP_pow) False (parseUnaryExp n) (Suc (length r)) e r)"
    if "returns (case x of (e, r) \<Rightarrow>
      left_loop (the_op (Later_tok TOK_pow) EXP_pow) False (parseUnaryExp n) (Suc (length r)) e r)"
    for x :: "expr \<times> tokens"
    using that left_loop_agrees[OF u] by (cases x) (simp del: parseUnaryExp.simps)
qed

lemma assign_agrees:
  assumes a: "agrees (parseAssignExp n) (parseAssignExp m)" and c: "agrees (parseCondExp n) (parseCondExp m)"
  shows "agrees (parseAssignExp (Suc n)) (parseAssignExp (Suc m))"
  unfolding agrees_def parseAssignExp.simps(2)
  by (intro allI impI, erule rbind_agree, erule agreesD[OF c])
    (auto split: option.splits elim!: rbind_agree intro!: agreesD[OF a]
      simp del: parseAssignExp.simps parseCondExp.simps)

lemma cond_agrees:
  assumes x: "agrees (parseExpression n) (parseExpression m)" and c: "agrees (parseCondExp n) (parseCondExp m)"
    and u: "agrees (parseUnaryExp n) (parseUnaryExp m)"
  shows "agrees (parseCondExp (Suc n)) (parseCondExp (Suc m))"
  unfolding agrees_def parseCondExp.simps(2)
  by (intro allI impI, erule rbind_agree, erule agreesD[OF oror_agrees[OF u]])
    (auto split: if_splits elim!: rbind_agree intro!: agreesD[OF x] agreesD[OF c]
      simp del: parseExpression.simps parseCondExp.simps)

lemma parse_agrees:
  "agrees (parseExpression n) (parseExpression (Suc n)) \<and> agrees (parseAssignExp n) (parseAssignExp (Suc n)) \<and>
   agrees (parseCondExp n) (parseCondExp (Suc n)) \<and> agrees (parseUnaryExp n) (parseUnaryExp (Suc n))"
proof (induction n)
  case (Suc n)
  then have r: "agrees (parseExpression n) (parseExpression (Suc n))"
    "agrees (parseAssignExp n) (parseAssignExp (Suc n))"
    "agrees (parseCondExp n) (parseCondExp (Suc n))" "agrees (parseUnaryExp n) (parseUnaryExp (Suc n))"
    by blast+
  have "agrees (parseExpression (Suc n)) (parseExpression (Suc (Suc n)))"
    using left_chain_agrees[OF r(2)] unfolding agrees_def parseExpression.simps by blast
  then show ?case using assign_agrees[OF r(2,3)] cond_agrees[OF r(1,3,4)] unary_agrees[OF r(4,1)] by blast
qed (simp add: agrees_def)

lemma agrees_trans: "agrees p q \<Longrightarrow> agrees q r \<Longrightarrow> agrees p r"
  unfolding agrees_def by auto

lemma parse_more_fuel:
  assumes "n \<le> m" shows "agrees (parseExpression n) (parseExpression m)"
  using assms
proof (induction m rule: dec_induct)
  case (step m)
  then show ?case using parse_agrees agrees_trans by blast
qed (simp add: agrees_def)

end
