(* ===== verification/Print_Parse.thy ===== *)
theory Print_Parse
  imports Parse_Laws
begin

text \<open>
  What is printed parses back.  \<open>ptoks\<close> are the tokens of the printed expression and \<open>mark\<close>
  is the expression with the flags \<open>parens\<close> that the printed parentheses leave; the printed
  text scans to the tokens, and these parse to the marked expression, for the expressions that
  \<open>reparses\<close> admits.  Most of those it leaves out are printed without parentheses or a space that
  the parser needs, which is shown at the end; members of an operand in parentheses are outside
  the modelled part of the parser.
\<close>

section \<open>Printed tokens\<close>

text \<open>The binary operators that the parser reads, with their tokens.\<close>

definition bin_ops :: "(EXP \<times> TOK list) list" where
  "bin_ops =
   [(EXP_comma, [Operator_tok TOK_comma]),
    (EXP_assign, [Operator_tok TOK_assign]), (EXP_addAssign, [Operator_tok TOK_addAssign]),
    (EXP_minAssign, [Operator_tok TOK_minAssign]), (EXP_mulAssign, [Operator_tok TOK_mulAssign]),
    (EXP_divAssign, [Operator_tok TOK_divAssign]), (EXP_modAssign, [Operator_tok TOK_modAssign]),
    (EXP_powAssign, [Later_tok TOK_powAssign]), (EXP_andAssign, [Operator_tok TOK_andAssign]),
    (EXP_orAssign, [Operator_tok TOK_orAssign]), (EXP_xorAssign, [Operator_tok TOK_xorAssign]),
    (EXP_leftShiftAssign, [Operator_tok TOK_leftShiftAssign]),
    (EXP_rightShiftAssign, [Operator_tok TOK_rightShiftAssign]),
    (EXP_unsignedRightShiftAssign, [Operator_tok TOK_unsignedRightShiftAssign]),
    (EXP_concatenateAssign, [Operator_tok TOK_concatenateAssign]),
    (EXP_orOr, [Operator_tok TOK_orOr]), (EXP_andAnd, [Operator_tok TOK_andAnd]),
    (EXP_or, [Operator_tok TOK_or]), (EXP_xor, [Operator_tok TOK_xor]), (EXP_and, [Operator_tok TOK_and]),
    (EXP_equal, [Operator_tok TOK_equal]), (EXP_notEqual, [Operator_tok TOK_notEqual]),
    (EXP_identity, [Operator_tok TOK_is]), (EXP_notIdentity, [Operator_tok TOK_not, Operator_tok TOK_is]),
    (EXP_lessThan, [Operator_tok TOK_lessThan]), (EXP_lessOrEqual, [Operator_tok TOK_lessOrEqual]),
    (EXP_greaterThan, [Operator_tok TOK_greaterThan]), (EXP_greaterOrEqual, [Operator_tok TOK_greaterOrEqual]),
    (EXP_in, [Aggregate_tok TOK_in]),
    (EXP_leftShift, [Operator_tok TOK_leftShift]), (EXP_rightShift, [Operator_tok TOK_rightShift]),
    (EXP_unsignedRightShift, [Operator_tok TOK_unsignedRightShift]),
    (EXP_add, [Operator_tok TOK_add]), (EXP_min, [Operator_tok TOK_min]),
    (EXP_concatenate, [Operator_tok TOK_tilde]),
    (EXP_mul, [Operator_tok TOK_mul]), (EXP_div, [Operator_tok TOK_div]), (EXP_mod, [Operator_tok TOK_mod]),
    (EXP_pow, [Later_tok TOK_pow])]"

definition una_ops :: "(EXP \<times> TOK) list" where
  "una_ops = [(EXP_address, Operator_tok TOK_and), (EXP_star, Operator_tok TOK_mul),
    (EXP_negate, Operator_tok TOK_min), (EXP_uadd, Operator_tok TOK_add),
    (EXP_not, Operator_tok TOK_not), (EXP_tilde, Operator_tok TOK_tilde)]"

definition pre_ops :: "(EXP \<times> TOK) list" where
  "pre_ops = [(EXP_prePlusPlus, Operator_tok TOK_plusPlus), (EXP_preMinusMinus, Operator_tok TOK_minusMinus)]"

definition post_ops :: "(EXP \<times> TOK) list" where
  "post_ops = [(EXP_plusPlus, Operator_tok TOK_plusPlus), (EXP_minusMinus, Operator_tok TOK_minusMinus)]"

definition name_token :: "string \<Rightarrow> Token" where "name_token x = Token (Leaf_tok TOK_identifier) x"

definition op_token :: "TOK \<Rightarrow> Token" where
  "op_token t = Token t (if t = Operator_tok TOK_is then ''is'' else if t = Aggregate_tok TOK_in then ''in'' else [])"

lemma tok_value_op_token [simp]: "tok_value (op_token t) = t" "tok_value (name_token x) = Leaf_tok TOK_identifier"
  "tok_ident (name_token x) = x"
  by (simp_all add: op_token_def name_token_def)

definition bin_tokens :: "EXP \<Rightarrow> tokens" where
  "bin_tokens p = (case map_of bin_ops p of Some ts \<Rightarrow> map op_token ts | None \<Rightarrow> [])"

definition op1_tokens :: "(EXP \<times> TOK) list \<Rightarrow> EXP \<Rightarrow> tokens" where
  "op1_tokens ops p = (case map_of ops p of Some t \<Rightarrow> [op_token t] | None \<Rightarrow> [])"

definition tparens :: "bool \<Rightarrow> tokens \<Rightarrow> tokens" where
  "tparens b ts = (if b then op_token (Other_tok TOK_leftParenthesis) # ts @ [op_token (Other_tok TOK_rightParenthesis)]
     else ts)"

abbreviation wrap_toks :: "PREC \<Rightarrow> expr \<Rightarrow> tokens \<Rightarrow> tokens" where
  "wrap_toks pr e ts \<equiv> tparens (needs_parens pr (exp_prec e)) ts"

primrec ptoks :: "expr \<Rightarrow> tokens" where
  "ptoks (IdentifierE x) = [name_token x]"
| "ptoks ThisE = [Token (Leaf_tok TOK_this) ''this'']"
| "ptoks SuperE = [Token (Leaf_tok TOK_super) ''super'']"
| "ptoks NullE = [Token (Other_tok TOK_null) ''null'']"
| "ptoks (BoolE b) = [if b then Token (Other_tok TOK_true) ''true'' else Token (Other_tok TOK_false) ''false'']"
| "ptoks (Una p e) = op1_tokens una_ops p @ wrap_toks (precedence p) e (ptoks e)"
| "ptoks (Pre p e) = op1_tokens pre_ops p @ wrap_toks (precedence p) e (ptoks e)"
| "ptoks (Post p e) = wrap_toks (precedence p) e (ptoks e) @ op1_tokens post_ops p"
| "ptoks (DotId e x) = wrap_toks PREC_primary e (ptoks e) @ [op_token (Operator_tok TOK_dot), name_token x]"
| "ptoks (Bin p a b) = wrap_toks (precedence p) a (ptoks a) @ bin_tokens p @
     wrap_toks (precedence p + 1) b (ptoks b)"
| "ptoks (Cond c a b) = wrap_toks PREC_oror c (ptoks c) @ [op_token (Operator_tok TOK_question)] @
     wrap_toks PREC_expr a (ptoks a) @ [op_token (Other_tok TOK_colon)] @ wrap_toks PREC_cond b (ptoks b)"
| "ptoks (Parens e) = ptoks e"

text \<open>The expression as it comes back.\<close>

definition wrap :: "PREC \<Rightarrow> PREC \<Rightarrow> expr \<Rightarrow> expr" where
  "wrap pr prec e = (if needs_parens pr prec then Parens e else e)"

primrec mark :: "expr \<Rightarrow> expr" where
  "mark (IdentifierE x) = IdentifierE x"
| "mark ThisE = ThisE" | "mark SuperE = SuperE" | "mark NullE = NullE" | "mark (BoolE b) = BoolE b"
| "mark (Una p e) = Una p (wrap (precedence p) (exp_prec e) (mark e))"
| "mark (Pre p e) = Pre p (wrap (precedence p) (exp_prec e) (mark e))"
| "mark (Post p e) = Post p (wrap (precedence p) (exp_prec e) (mark e))"
| "mark (DotId e x) = DotId (wrap PREC_primary (exp_prec e) (mark e)) x"
| "mark (Bin p a b) = Bin p (wrap (precedence p) (exp_prec a) (mark a)) (wrap (precedence p + 1) (exp_prec b) (mark b))"
| "mark (Cond c a b) = Cond (wrap PREC_oror (exp_prec c) (mark c)) (wrap PREC_expr (exp_prec a) (mark a))
     (wrap PREC_cond (exp_prec b) (mark b))"
| "mark (Parens e) = mark e"

lemma strip_wrap [simp]: "strip (wrap k p e) = strip e" by (simp add: wrap_def)

lemma strip_mark: "strip (mark e) = strip e" by (induction e) simp_all

lemma op_of_strip: "op_of (strip e) = op_of e" by (induction e) simp_all

lemma op_of_wrap [simp]: "op_of (wrap k p e) = op_of e" by (simp add: wrap_def)

lemma op_of_mark [simp]: "op_of (mark e) = op_of e" by (metis op_of_strip strip_mark)

lemma parens_mark [simp]: "\<not> parens (mark e)" by (induction e) simp_all

lemma parens_wrap [simp]: "parens (wrap k p (mark e)) \<longleftrightarrow> needs_parens k p" by (simp add: wrap_def)

section \<open>Expressions that parse back\<close>

definition is_name :: "string \<Rightarrow> bool" where
  "is_name x \<longleftrightarrow> x \<noteq> [] \<and> isidstart (hd x) \<and> list_all isidchar x \<and> keyword x = None \<and>
     x \<notin> set special_identifiers"

text \<open>Leaves and postfix operators, which never get parentheses.\<close>

primrec is_base :: "expr \<Rightarrow> bool" where
  "is_base (IdentifierE x) = True"
| "is_base ThisE = True" | "is_base SuperE = True" | "is_base NullE = True" | "is_base (BoolE b) = True"
| "is_base (Una p e) = False" | "is_base (Pre p e) = False"
| "is_base (Post p e) = True" | "is_base (DotId e x) = True"
| "is_base (Bin p a b) = False" | "is_base (Cond c a b) = False" | "is_base (Parens e) = False"

definition operand_ok :: "EXP \<Rightarrow> expr \<Rightarrow> expr \<Rightarrow> bool" where
  "operand_ok p a b \<longleftrightarrow>
     (p = EXP_pow \<longrightarrow> is_base a \<or> needs_parens PREC_pow (exp_prec a)) \<and>
     (precedence p = PREC_assign \<longrightarrow> exp_prec a \<noteq> PREC_assign \<and> exp_prec a \<noteq> PREC_cond) \<and>
     (p = EXP_and \<longrightarrow> exp_prec b \<noteq> PREC_rel)"

definition glued :: "EXP \<Rightarrow> string \<Rightarrow> bool" where
  "glued p s \<longleftrightarrow> p \<in> {EXP_negate, EXP_uadd, EXP_address} \<and> at s = at (EXPtoString p)"

primrec reparses :: "expr \<Rightarrow> bool" where
  "reparses (IdentifierE x) = is_name x"
| "reparses ThisE = True" | "reparses SuperE = True" | "reparses NullE = True" | "reparses (BoolE b) = True"
| "reparses (Una p e) = (p \<in> fst ` set una_ops \<and> reparses e \<and>
     \<not> glued p (wrap_parens PREC_unary e (expressionToBuffer e)))"
| "reparses (Pre p e) = (p \<in> fst ` set pre_ops \<and> reparses e)"
| "reparses (Post p e) = (p \<in> fst ` set post_ops \<and> reparses e \<and> is_base e)"
| "reparses (DotId e x) = (reparses e \<and> is_base e \<and> is_name x)"
| "reparses (Bin p a b) = (p \<in> fst ` set bin_ops \<and> reparses a \<and> reparses b \<and> operand_ok p a b)"
| "reparses (Cond c a b) = (reparses c \<and> reparses a \<and> reparses b)"
| "reparses (Parens e) = False"

text \<open>What scanning needs of an expression: names, operators with a text, no two signs together.\<close>

primrec scannable :: "expr \<Rightarrow> bool" where
  "scannable (IdentifierE x) = is_name x"
| "scannable ThisE = True" | "scannable SuperE = True" | "scannable NullE = True" | "scannable (BoolE b) = True"
| "scannable (Una p e) = (p \<in> fst ` set una_ops \<and> scannable e \<and>
     \<not> glued p (wrap_parens PREC_unary e (expressionToBuffer e)))"
| "scannable (Pre p e) = (p \<in> fst ` set pre_ops \<and> scannable e)"
| "scannable (Post p e) = (p \<in> fst ` set post_ops \<and> scannable e)"
| "scannable (DotId e x) = (scannable e \<and> is_name x)"
| "scannable (Bin p a b) = (p \<in> fst ` set bin_ops \<and> scannable a \<and> scannable b)"
| "scannable (Cond c a b) = (scannable c \<and> scannable a \<and> scannable b)"
| "scannable (Parens e) = False"

lemma reparses_scannable: "reparses e \<Longrightarrow> scannable e"
  by (induction e) simp_all

section \<open>Reading at a level\<close>

definition infix_prec :: "TOK \<Rightarrow> nat" where
  "infix_prec t = (if t = Operator_tok TOK_comma then 1 else if assign_op t \<noteq> None then 2
     else if t = Operator_tok TOK_question then 3 else if t = Operator_tok TOK_orOr then 4
     else if t = Operator_tok TOK_andAnd then 5 else if t = Operator_tok TOK_or then 6
     else if t = Operator_tok TOK_xor then 7 else if t = Operator_tok TOK_and then 8
     else if cmp_op t \<noteq> None \<or> t = Operator_tok TOK_not then 10 else if shift_op t \<noteq> None then 11
     else if add_op t \<noteq> None then 12 else if mul_op t \<noteq> None then 13
     else if t = Later_tok TOK_pow then 14 else 0)"

definition stop :: "nat \<Rightarrow> tokens \<Rightarrow> bool" where
  "stop k r \<longleftrightarrow> plain_follow r \<and> infix_prec (tok r) < k"

definition level :: "nat \<Rightarrow> nat \<Rightarrow> tokens \<Rightarrow> expr parsed" where
  "level k n = (if k = 1 then parseExpression (Suc n) else if k = 2 then parseAssignExp n
     else if k = 3 then parseCondExp n
     else if k = 4 then parseOrOrExp (parseUnaryExp n) else if k = 5 then parseAndAndExp (parseUnaryExp n)
     else if k = 6 then parseOrExp (parseUnaryExp n) else if k = 7 then parseXorExp (parseUnaryExp n)
     else if k = 8 then parseAndExp (parseUnaryExp n) else if k = 9 \<or> k = 10 then parseCmpExp (parseUnaryExp n)
     else if k = 11 then parseShiftExp (parseUnaryExp n) else if k = 12 then parseAddExp (parseUnaryExp n)
     else if k = 13 then parseMulExp (parseUnaryExp n) else parseUnaryExp n)"

definition chain_op :: "nat \<Rightarrow> TOK \<Rightarrow> EXP option" where
  "chain_op k = (if k = 1 then the_op (Operator_tok TOK_comma) EXP_comma
     else if k = 4 then the_op (Operator_tok TOK_orOr) EXP_orOr
     else if k = 5 then the_op (Operator_tok TOK_andAnd) EXP_andAnd
     else if k = 6 then the_op (Operator_tok TOK_or) EXP_or
     else if k = 7 then the_op (Operator_tok TOK_xor) EXP_xor
     else if k = 8 then the_op (Operator_tok TOK_and) EXP_and
     else if k = 11 then shift_op else if k = 12 then add_op else mul_op)"

definition chain_chk :: "nat \<Rightarrow> bool" where "chain_chk k \<longleftrightarrow> 6 \<le> k \<and> k \<le> 8"

definition chains :: "nat \<Rightarrow> bool" where "chains k \<longleftrightarrow> k \<in> {1, 4, 5, 6, 7, 8, 11, 12, 13}"

lemma level_chain: "chains k \<Longrightarrow> level k n = left_chain (chain_op k) (chain_chk k) (level (k + 1) n)"
  by (auto simp: chains_def level_def chain_op_def chain_chk_def parseOrOrExp_def parseAndAndExp_def
      parseOrExp_def parseXorExp_def parseAndExp_def parseShiftExp_def parseAddExp_def parseMulExp_def
      fun_eq_iff simp del: parseAssignExp.simps)

lemma level_consumes: "consumes (level k n)"
  by (auto simp: level_def parse_consume consumes_add consumes_cmp consumes_oror left_chain_consumes
      parseAndAndExp_def parseOrExp_def parseXorExp_def parseAndExp_def
      simp del: parseExpression.simps parseAssignExp.simps parseCondExp.simps parseUnaryExp.simps)

definition reads :: "nat \<Rightarrow> tokens \<Rightarrow> expr \<Rightarrow> bool" where
  "reads k ts e \<longleftrightarrow> (\<exists>N. \<forall>n\<ge>N. \<forall>r. stop (min k 14) r \<longrightarrow> level k n (ts @ r) = Inr (e, r))"

definition reads_chain :: "nat \<Rightarrow> tokens \<Rightarrow> expr \<Rightarrow> bool" where
  "reads_chain k ts e \<longleftrightarrow> (\<exists>N. \<forall>n\<ge>N. \<forall>r. stop (k + 1) r \<longrightarrow> level k n (ts @ r) =
     left_loop (chain_op k) (chain_chk k) (level (k + 1) n) (Suc (length r)) e r)"

lemma readsI:
  assumes "\<And>n r. N \<le> n \<Longrightarrow> stop (min k 14) r \<Longrightarrow> level k n (ts @ r) = Inr (e, r)"
  shows "reads k ts e"
  using assms unfolding reads_def by blast

lemma chain_op_prec: "chains k \<Longrightarrow> chain_op k t = Some p \<Longrightarrow> infix_prec t = k"
  by (auto simp: chains_def chain_op_def infix_prec_def the_op_def mul_op_def add_op_def shift_op_def
      cmp_op_def assign_op_def split: if_splits)

lemma chain_op_stop: "chains k \<Longrightarrow> infix_prec t < k \<Longrightarrow> chain_op k t = None"
  using chain_op_prec by (metis less_irrefl option.exhaust)

lemma infix_prec_question: "infix_prec (Operator_tok TOK_question) = 3"
  by (simp add: infix_prec_def assign_op_def)

lemma infix_prec_pow: "infix_prec (Later_tok TOK_pow) = 14"
  by (simp add: infix_prec_def assign_op_def cmp_op_def shift_op_def add_op_def mul_op_def)

lemma cmp_op_prec: "cmp_op t = Some p \<Longrightarrow> infix_prec t = 10"
  by (auto simp: infix_prec_def cmp_op_def assign_op_def split: if_splits)

lemma infix_prec_not: "infix_prec (Operator_tok TOK_not) = 10"
  by (simp add: infix_prec_def assign_op_def)

lemma cmp_op_stop: "infix_prec t < 10 \<Longrightarrow> cmp_op t = None \<and> t \<noteq> Operator_tok TOK_not"
  using cmp_op_prec infix_prec_not by (metis less_irrefl option.exhaust)

lemma assign_op_prec: "assign_op t = Some p \<Longrightarrow> infix_prec t = 2"
  by (auto simp: infix_prec_def assign_op_def)

lemma assign_op_stop: "infix_prec t < 2 \<Longrightarrow> assign_op t = None"
  by (auto simp: infix_prec_def assign_op_def split: if_splits)

lemma infix_prec_follow: "infix_prec (tok r) \<noteq> 0 \<Longrightarrow> tok r \<noteq> Operator_tok TOK_not \<Longrightarrow> plain_follow r"
  by (auto simp: infix_prec_def plain_follow_def split: if_splits)

lemma stop_mono: "stop j r \<Longrightarrow> j \<le> k \<Longrightarrow> stop k r" by (simp add: stop_def)

text \<open>The loop ends with enough fuel, whatever the fuel is.\<close>

lemma left_loop_fuel:
  assumes "consumes p"
  shows "length ts < n \<Longrightarrow> length ts < m \<Longrightarrow> left_loop ops chk p n e ts = left_loop ops chk p m e ts"
proof (induction n arbitrary: m e ts)
  case (Suc n)
  then obtain m' where m: "m = Suc m'" by (cases m) auto
  show ?case
  proof (cases "ops (tok ts)")
    case (Some b)
    have "left_loop ops chk p n (Bin b e e2) r = left_loop ops chk p m' (Bin b e e2) r"
      if "p (tl ts) = Inr (e2, r)" for e2 r
      using consumesD[OF assms that] Suc.prems m by (intro Suc.IH) (simp_all add: less_Suc_eq_le)
    then show ?thesis using Some unfolding m
      by (cases "p (tl ts)") (auto simp: loop_simps)
  qed (simp add: m loop_simps)
qed simp

lemma reads_chain_intro:
  assumes "chains k" "reads (k + 1) ts e" shows "reads_chain k ts e"
proof -
  obtain N where N: "\<forall>n\<ge>N. \<forall>r. stop (min (k + 1) 14) r \<longrightarrow> level (k + 1) n (ts @ r) = Inr (e, r)"
    using assms(2) unfolding reads_def by blast
  have "min (k + 1) 14 = k + 1" using assms(1) by (auto simp: chains_def)
  then show ?thesis unfolding reads_chain_def level_chain[OF assms(1)] left_chain_def
    by (intro exI[of _ N]) (use N in simp)
qed

lemma reads_chain_final:
  assumes "chains k" "reads_chain k ts e" shows "reads k ts e"
proof -
  have m: "min k 14 = k" using assms(1) by (auto simp: chains_def)
  have "left_loop (chain_op k) c p (Suc (length r)) e r = Inr (e, r)" if "stop k r" for c p r
    using chain_op_stop[OF assms(1)] that by (simp add: loop_simps stop_def)
  then show ?thesis using assms(2) stop_mono[of k _ "k + 1"]
    unfolding reads_chain_def reads_def m by (metis le_add1)
qed

lemma reads_chain_step:
  assumes k: "chains k" and a: "reads_chain k ta a" and b: "reads (k + 1) tb b"
    and p: "chain_op k t = Some p"
    and chk: "chain_chk k \<Longrightarrow> checkParens a = Inr () \<and> checkParens b = Inr ()"
  shows "reads_chain k (ta @ Token t x # tb) (Bin p a b)"
proof -
  obtain N where N: "\<forall>n\<ge>N. \<forall>r. stop (k + 1) r \<longrightarrow> level k n (ta @ r) =
     left_loop (chain_op k) (chain_chk k) (level (k + 1) n) (Suc (length r)) a r"
    using a unfolding reads_chain_def by blast
  obtain M where M: "\<forall>n\<ge>M. \<forall>r. stop (min (k + 1) 14) r \<longrightarrow> level (k + 1) n (tb @ r) = Inr (b, r)"
    using b unfolding reads_def by blast
  have m: "min (k + 1) 14 = k + 1" using k by (auto simp: chains_def)
  have t: "infix_prec t = k" using chain_op_prec[OF k p] .
  have nt: "t \<noteq> Operator_tok TOK_not" using p k
    by (auto simp: chain_op_def chains_def the_op_def mul_op_def add_op_def shift_op_def)
  have k0: "k \<noteq> 0" using k by (auto simp: chains_def)
  show ?thesis unfolding reads_chain_def
  proof (intro exI allI impI)
    fix n r assume n: "max N M \<le> n" and r: "stop (k + 1) r"
    let ?q = "Token t x # tb @ r"
    have "stop (k + 1) ?q" using t k0 nt infix_prec_follow[of ?q] by (simp add: stop_def)
    then have "level k n (ta @ ?q) =
        left_loop (chain_op k) (chain_chk k) (level (k + 1) n) (Suc (length ?q)) a ?q"
      using N n by simp
    also have "\<dots> = left_loop (chain_op k) (chain_chk k) (level (k + 1) n) (length ?q) (Bin p a b) r"
      using M n r m chk p by (simp add: loop_simps)
    also have "\<dots> = left_loop (chain_op k) (chain_chk k) (level (k + 1) n) (Suc (length r)) (Bin p a b) r"
      by (rule left_loop_fuel[OF level_consumes]) simp_all
    finally show "level k n ((ta @ Token t x # tb) @ r) =
        left_loop (chain_op k) (chain_chk k) (level (k + 1) n) (Suc (length r)) (Bin p a b) r" by simp
  qed
qed

text \<open>An expression read at a level is read at the levels above.\<close>

lemma reads_up:
  assumes "reads (Suc k) ts e" "1 \<le> k" "k \<le> 13" shows "reads k ts e"
proof (cases "chains k")
  case True
  then show ?thesis using assms(1) reads_chain_final reads_chain_intro by simp
next
  case False
  with assms(2,3) have k: "k \<in> {2, 3, 9, 10}" by (simp add: chains_def) arith
  obtain N where N: "\<forall>n\<ge>N. \<forall>r. stop (min (Suc k) 14) r \<longrightarrow> level (Suc k) n (ts @ r) = Inr (e, r)"
    using assms(1) unfolding reads_def by blast
  have N': "level (Suc k) n (ts @ r) = Inr (e, r)" if "N \<le> n" "stop k r" for n r
    using N that k stop_mono[of k r "Suc k"] by auto
  show ?thesis
  proof (rule readsI[where N = "Suc N"])
    fix n r assume n: "Suc N \<le> n" and "stop (min k 14) r"
    then have r: "stop k r" using k by auto
    obtain m where m: "n = Suc m" "N \<le> m" using n by (cases n) auto
    consider "k = 2" | "k = 3" | "k = 9" | "k = 10" using k by blast
    then show "level k n (ts @ r) = Inr (e, r)"
    proof cases
      case 1
      then show ?thesis using N'[OF m(2) r] r m(1)
        by (simp add: level_def stop_def assign_op_stop)
    next
      case 2
      then show ?thesis using N'[OF m(2) r] r m(1)
        by (auto simp: level_def stop_def infix_prec_question)
    next
      case 3
      then show ?thesis using N'[of n, OF _ r] n by (simp add: level_def)
    next
      case 4
      then show ?thesis using N'[of n, OF _ r] n r
        by (auto simp: level_def parseCmpExp_def stop_def dest: cmp_op_stop)
    qed
  qed
qed

lemma reads_lower:
  assumes "reads j ts e" "1 \<le> k" "k \<le> j" "j \<le> 14" shows "reads k ts e"
  using assms(3,1,2,4)
proof (induction k rule: inc_induct)
  case (step k)
  then show ?case using reads_up[of k] by simp
qed simp

section \<open>Operands\<close>

abbreviation parse_operand :: "(tokens \<Rightarrow> expr parsed) \<Rightarrow> tokens \<Rightarrow> expr parsed" where
  "parse_operand pe ts \<equiv> rbind (parsePrimaryExp pe ts) (\<lambda>(e, r). parsePostExp e r)"

lemma post_loop_fuel: "length ts < n \<Longrightarrow> length ts < m \<Longrightarrow> post_loop n e ts = post_loop m e ts"
proof (induction n arbitrary: m e ts)
  case (Suc n)
  then obtain m' where m: "m = Suc m'" by (cases m) auto
  have "post_loop n e' us = post_loop m' e' us" if "length us < length ts" for e' us
    using that Suc.prems m by (intro Suc.IH) simp_all
  then show ?case unfolding m by (cases ts) (simp_all add: loop_simps)
qed simp

lemma parsePostExp_step:
  "parsePostExp e (Token (Operator_tok TOK_plusPlus) x # r) = parsePostExp (Post EXP_plusPlus e) r"
  "parsePostExp e (Token (Operator_tok TOK_minusMinus) x # r) = parsePostExp (Post EXP_minusMinus e) r"
  "\<not> is_template_bang r \<Longrightarrow>
     parsePostExp e (op_token (Operator_tok TOK_dot) # name_token y # r) = parsePostExp (DotId e y) r"
  unfolding parsePostExp_def
  using post_loop_fuel[of r "Suc (Suc (length r))" "Suc (length r)" "DotId e y"]
  by (simp_all add: loop_simps)

lemma plain_follow_not:
  "t \<in> {Operator_tok TOK_dot, Operator_tok TOK_plusPlus, Operator_tok TOK_minusMinus,
     Other_tok TOK_leftParenthesis, Other_tok TOK_leftBracket, Later_tok TOK_arrow, Later_tok TOK_goesTo}
   \<Longrightarrow> plain_follow r \<Longrightarrow> tok r \<noteq> t"
  by (auto simp: plain_follow_def mul_op_def add_op_def shift_op_def cmp_op_def assign_op_def)

lemma plain_follow_bang: "plain_follow r \<Longrightarrow> \<not> is_template_bang r"
proof
  assume f: "plain_follow r" and t: "is_template_bang r"
  then have "tok r = Operator_tok TOK_not" by (simp add: is_template_bang_def)
  with f t show False by (simp add: plain_follow_def mul_op_def add_op_def shift_op_def cmp_op_def assign_op_def)
qed

lemma plain_follow_post:
  assumes "plain_follow r"
  shows "parsePostExp e r = Inr (e, r)" "\<not> is_template_bang r"
    "tok r \<noteq> Later_tok TOK_arrow" "tok r \<noteq> Later_tok TOK_goesTo"
  using plain_follow_not[OF _ assms] plain_follow_bang[OF assms]
  by (simp_all add: parsePostExp_def loop_simps)

lemma base_prec: "is_base e \<Longrightarrow> reparses e \<Longrightarrow> exp_prec e = 16"
  by (cases e) (auto simp: exp_prec_def post_ops_def PREC_defs)

lemma base_wrap:
  "is_base e \<Longrightarrow> reparses e \<Longrightarrow> wrap_toks 16 e ts = ts" "is_base e \<Longrightarrow> reparses e \<Longrightarrow> wrap 16 (exp_prec e) f = f"
  by (simp_all add: base_prec needs_parens_def PREC_defs tparens_def wrap_def)

lemma base_reads:
  "is_base e \<Longrightarrow> reparses e \<Longrightarrow> \<not> is_template_bang r \<Longrightarrow> tok r \<noteq> Later_tok TOK_arrow \<Longrightarrow>
   tok r \<noteq> Later_tok TOK_goesTo \<Longrightarrow> parse_operand pe (ptoks e @ r) = parsePostExp (mark e) r"
proof (induction e arbitrary: r)
  case (Post p e)
  then have b: "is_base e" "reparses e" "p = EXP_plusPlus \<or> p = EXP_minusMinus" by (auto simp: post_ops_def)
  then have "precedence p = 16" by (auto simp: PREC_defs)
  then show ?case using Post.IH[OF b(1,2)] b(3)
    by (auto simp: base_wrap[OF b(1,2)] op1_tokens_def post_ops_def op_token_def is_template_bang_def parsePostExp_step)
next
  case (DotId e x)
  then have b: "is_base e" "reparses e" by auto
  show ?case using DotId.IH[OF b, of "op_token (Operator_tok TOK_dot) # name_token x # r"] DotId.prems
    by (simp add: PREC_defs base_wrap[OF b] is_template_bang_def parsePostExp_step(3))
qed (simp_all add: parsePrimaryExp_def name_token_def)

definition reads_operand :: "tokens \<Rightarrow> expr \<Rightarrow> bool" where
  "reads_operand ts e \<longleftrightarrow> (\<exists>N. \<forall>n\<ge>N. \<forall>r. plain_follow r \<longrightarrow>
     prefix_op (tok (ts @ r)) = None \<and> parse_operand (parseExpression n) (ts @ r) = Inr (e, r))"

lemma base_start: "is_base e \<Longrightarrow> reparses e \<Longrightarrow> prefix_op (tok (ptoks e @ r)) = None"
proof (induction e arbitrary: r)
  case (Post p e)
  then have b: "is_base e" "reparses e" "precedence p = 16" by (auto simp: post_ops_def PREC_defs)
  then show ?case using Post.IH[OF b(1,2)] by (simp add: base_wrap)
next
  case (DotId e x)
  then show ?case by (simp add: base_wrap PREC_defs)
qed (simp_all add: prefix_op_def)

lemma base_operand: "is_base e \<Longrightarrow> reparses e \<Longrightarrow> reads_operand (ptoks e) (mark e)"
  unfolding reads_operand_def
  by (intro exI[of _ 0]) (use base_reads plain_follow_post base_start in auto)

lemma parens_operand:
  assumes "reads 1 ts e" "\<not> parens e"
  shows "reads_operand (tparens True ts) (Parens e)"
proof -
  obtain N where N: "\<forall>n\<ge>N. \<forall>r. stop (min 1 14) r \<longrightarrow> level 1 n (ts @ r) = Inr (e, r)"
    using assms(1) unfolding reads_def by blast
  show ?thesis unfolding reads_operand_def
  proof (intro exI allI impI conjI)
    fix n r assume n: "Suc N \<le> n" and r: "plain_follow r"
    let ?rp = "op_token (Other_tok TOK_rightParenthesis) # r"
    obtain m where m: "n = Suc m" "N \<le> m" using n by (cases n) auto
    have "stop 1 ?rp" by (simp add: stop_def plain_follow_def infix_prec_def assign_op_def cmp_op_def
          shift_op_def add_op_def mul_op_def)
    then have "parseExpression n (ts @ ?rp) = Inr (e, ?rp)" using N m by (simp add: level_def)
    then show "parse_operand (parseExpression n) (tparens True ts @ r) = Inr (Parens e, r)"
      using r assms(2) plain_follow_post(1)[OF r]
      by (simp add: tparens_def parsePrimaryExp_def check_def set_parens_def del: parseExpression.simps)
  qed (simp add: tparens_def prefix_op_def)
qed

lemma level_14: "14 \<le> k \<Longrightarrow> level k n = parseUnaryExp n" by (simp add: level_def)

lemma reads_14: "14 \<le> k \<Longrightarrow> reads k ts e \<longleftrightarrow> reads 14 ts e"
  by (simp add: reads_def level_14)

lemma pow_loop_stop:
  "stop 14 r \<Longrightarrow> left_loop (the_op (Later_tok TOK_pow) EXP_pow) False p (Suc m) e r = Inr (e, r)"
  by (auto simp: loop_simps stop_def the_op_def infix_prec_pow)

lemma operand_reads: "reads_operand ts e \<Longrightarrow> reads 14 ts e"
proof -
  assume "reads_operand ts e"
  then obtain N where N: "\<forall>n\<ge>N. \<forall>r. plain_follow r \<longrightarrow>
     prefix_op (tok (ts @ r)) = None \<and> parse_operand (parseExpression n) (ts @ r) = Inr (e, r)"
    unfolding reads_operand_def by blast
  show ?thesis
  proof (rule readsI[where N = "Suc N"])
    fix n r assume n: "Suc N \<le> n" and r: "stop (min 14 14) r"
    then obtain m where m: "n = Suc m" "N \<le> m" by (cases n) auto
    from r have "plain_follow r" by (simp add: stop_def)
    with N m r show "level 14 n (ts @ r) = Inr (e, r)" by (simp add: level_14 pow_loop_stop)
  qed
qed

lemma pow_reads:
  assumes "reads_operand ta a" "reads 14 tb b"
  shows "reads 14 (ta @ Token (Later_tok TOK_pow) x # tb) (Bin EXP_pow a b)"
proof -
  obtain N where N: "\<forall>n\<ge>N. \<forall>r. plain_follow r \<longrightarrow>
     prefix_op (tok (ta @ r)) = None \<and> parse_operand (parseExpression n) (ta @ r) = Inr (a, r)"
    using assms(1) unfolding reads_operand_def by blast
  obtain M where M: "\<forall>n\<ge>M. \<forall>r. stop (min 14 14) r \<longrightarrow> level 14 n (tb @ r) = Inr (b, r)"
    using assms(2) unfolding reads_def by blast
  show ?thesis
  proof (rule readsI[where N = "Suc (max N M)"])
    fix n r assume n: "Suc (max N M) \<le> n" and r: "stop (min 14 14) r"
    let ?q = "Token (Later_tok TOK_pow) x # tb @ r"
    obtain m where m: "n = Suc m" "N \<le> m" "M \<le> m" using n by (cases n) auto
    have a: "prefix_op (tok (ta @ ?q)) = None" "parse_operand (parseExpression m) (ta @ ?q) = Inr (a, ?q)"
      using N m by (simp_all add: plain_follow_def)
    have b: "parseUnaryExp m (tb @ r) = Inr (b, r)" using M m(3) r by (simp add: level_14)
    have "left_loop (the_op (Later_tok TOK_pow) EXP_pow) False (parseUnaryExp m) (Suc (length ?q)) a ?q = Inr (Bin EXP_pow a b, r)"
      using b r pow_loop_stop[of r] by (simp add: left_loop.simps(2)[where n = "Suc (length tb + length r)"] the_op_def)
    with a show "level 14 n ((ta @ Token (Later_tok TOK_pow) x # tb) @ r) = Inr (Bin EXP_pow a b, r)"
      unfolding level_14[OF order_refl] m(1) parseUnaryExp.simps by simp
  qed
qed

lemma prefix_reads:
  assumes "reads 14 ts e" "prefix_op t = Some f" shows "reads 14 (Token t x # ts) (f e)"
proof -
  obtain N where N: "\<forall>n\<ge>N. \<forall>r. stop (min 14 14) r \<longrightarrow> level 14 n (ts @ r) = Inr (e, r)"
    using assms(1) unfolding reads_def by blast
  show ?thesis
  proof (rule readsI[where N = "Suc N"])
    fix n r assume n: "Suc N \<le> n" and r: "stop (min 14 14) r"
    obtain m where m: "n = Suc m" "N \<le> m" using n by (cases n) auto
    with N r have "parseUnaryExp m (ts @ r) = Inr (e, r)" by (simp add: level_14)
    then show "level 14 n ((Token t x # ts) @ r) = Inr (f e, r)"
      unfolding level_14[OF order_refl] m(1) parseUnaryExp.simps using assms(2) r by (simp add: pow_loop_stop)
  qed
qed

section \<open>Levels that do not chain\<close>

lemma cmp_reads:
  assumes "reads 11 ta a" "reads 11 tb b" "cmp_op t = Some p"
  shows "reads 10 (ta @ Token t x # tb) (Bin p a b)"
proof -
  obtain N where N: "\<forall>n\<ge>N. \<forall>r. stop (min 11 14) r \<longrightarrow> level 11 n (ta @ r) = Inr (a, r)"
    using assms(1) unfolding reads_def by blast
  obtain M where M: "\<forall>n\<ge>M. \<forall>r. stop (min 11 14) r \<longrightarrow> level 11 n (tb @ r) = Inr (b, r)"
    using assms(2) unfolding reads_def by blast
  have "t \<noteq> Operator_tok TOK_not" using assms(3) by (auto simp: cmp_op_def)
  moreover have "stop 11 (Token t x # us)" for us
    using cmp_op_prec[OF assms(3)] assms(3) by (auto simp: stop_def plain_follow_def)
  ultimately show ?thesis using N M assms(3) stop_mono[of 10 _ 11]
    by (intro readsI[where N = "max N M"]) (simp add: level_def parseCmpExp_def)
qed

lemma not_is_reads:
  assumes "reads 11 ta a" "reads 11 tb b"
  shows "reads 10 (ta @ Token (Operator_tok TOK_not) x # Token (Operator_tok TOK_is) y # tb) (Bin EXP_notIdentity a b)"
proof -
  obtain N where N: "\<forall>n\<ge>N. \<forall>r. stop (min 11 14) r \<longrightarrow> level 11 n (ta @ r) = Inr (a, r)"
    using assms(1) unfolding reads_def by blast
  obtain M where M: "\<forall>n\<ge>M. \<forall>r. stop (min 11 14) r \<longrightarrow> level 11 n (tb @ r) = Inr (b, r)"
    using assms(2) unfolding reads_def by blast
  have "stop 11 (Token (Operator_tok TOK_not) x # Token (Operator_tok TOK_is) y # us)" for us
    by (simp add: stop_def plain_follow_def is_template_bang_def infix_prec_not)
  with N M stop_mono[of 10 _ 11] show ?thesis
    by (intro readsI[where N = "max N M"]) (simp add: level_def parseCmpExp_def)
qed

lemma assign_reads:
  assumes "reads 3 ta a" "reads 2 tb b" "assign_op t = Some p" "\<not> (op_of a = EXP_question \<and> \<not> parens a)"
  shows "reads 2 (ta @ Token t x # tb) (Bin p a b)"
proof -
  obtain N where N: "\<forall>n\<ge>N. \<forall>r. stop (min 3 14) r \<longrightarrow> level 3 n (ta @ r) = Inr (a, r)"
    using assms(1) unfolding reads_def by blast
  obtain M where M: "\<forall>n\<ge>M. \<forall>r. stop (min 2 14) r \<longrightarrow> level 2 n (tb @ r) = Inr (b, r)"
    using assms(2) unfolding reads_def by blast
  have s: "stop 3 (Token t x # us)" for us
    using assign_op_prec[OF assms(3)] assms(3) by (auto simp: stop_def plain_follow_def)
  show ?thesis
  proof (rule readsI[where N = "Suc (max N M)"])
    fix n r assume n: "Suc (max N M) \<le> n" and r: "stop (min 2 14) r"
    obtain m where m: "n = Suc m" "N \<le> m" "M \<le> m" using n by (cases n) auto
    have "parseCondExp m (ta @ Token t x # tb @ r) = Inr (a, Token t x # tb @ r)"
      using N m(2) s by (simp add: level_def)
    moreover have "parseAssignExp m (tb @ r) = Inr (b, r)" using M m(3) r by (simp add: level_def)
    ultimately show "level 2 n ((ta @ Token t x # tb) @ r) = Inr (Bin p a b, r)"
      using assms(3,4) unfolding level_def m(1) by simp
  qed
qed

lemma cond_reads:
  assumes "reads 4 tc c" "reads 1 ta a" "reads 3 tb b"
  shows "reads 3 (tc @ [op_token (Operator_tok TOK_question)] @ ta @ [op_token (Other_tok TOK_colon)] @ tb) (Cond c a b)"
proof -
  obtain N where N: "\<forall>n\<ge>N. \<forall>r. stop (min 4 14) r \<longrightarrow> level 4 n (tc @ r) = Inr (c, r)"
    using assms(1) unfolding reads_def by blast
  obtain M where M: "\<forall>n\<ge>M. \<forall>r. stop (min 1 14) r \<longrightarrow> level 1 n (ta @ r) = Inr (a, r)"
    using assms(2) unfolding reads_def by blast
  obtain L where L: "\<forall>n\<ge>L. \<forall>r. stop (min 3 14) r \<longrightarrow> level 3 n (tb @ r) = Inr (b, r)"
    using assms(3) unfolding reads_def by blast
  show ?thesis
  proof (rule readsI[where N = "Suc (Suc (N + M + L))"])
    fix n r assume n: "Suc (Suc (N + M + L)) \<le> n" and r: "stop (min 3 14) r"
    obtain m where m: "n = Suc (Suc m)" "N \<le> Suc m" "M \<le> m" "L \<le> Suc m"
      using n by (cases n; cases "n - 1") auto
    let ?q2 = "op_token (Other_tok TOK_colon) # tb @ r"
    let ?q1 = "op_token (Operator_tok TOK_question) # ta @ ?q2"
    have "stop 4 ?q1" by (simp add: stop_def plain_follow_def infix_prec_question)
    then have c: "parseOrOrExp (parseUnaryExp (Suc m)) (tc @ ?q1) = Inr (c, ?q1)"
      using N m(2) by (simp add: level_def del: parseUnaryExp.simps)
    have "stop 1 ?q2" by (simp add: stop_def plain_follow_def infix_prec_def assign_op_def cmp_op_def
          shift_op_def add_op_def mul_op_def)
    then have a: "parseExpression (Suc m) (ta @ ?q2) = Inr (a, ?q2)"
      using M m(3) by (simp add: level_def del: parseExpression.simps)
    have b: "parseCondExp (Suc m) (tb @ r) = Inr (b, r)"
      using L m(4) r by (simp add: level_def del: parseCondExp.simps)
    from a b c show "level 3 n ((tc @ [op_token (Operator_tok TOK_question)] @ ta @
        [op_token (Other_tok TOK_colon)] @ tb) @ r) = Inr (Cond c a b, r)"
      unfolding level_def m(1)
      by (simp add: parseCondExp.simps(2)[of "Suc m"] check_def
          del: parseExpression.simps parseCondExp.simps parseUnaryExp.simps)
  qed
qed

section \<open>The tokens of an expression parse\<close>

definition bin_op_ok :: "EXP \<Rightarrow> TOK \<Rightarrow> bool" where
  "bin_op_ok p t \<longleftrightarrow> chains (precedence p) \<and> chain_op (precedence p) t = Some p \<or>
     precedence p = 2 \<and> assign_op t = Some p \<or> precedence p = 10 \<and> cmp_op t = Some p"

lemma bin_ops_ok:
  "list_all (\<lambda>(p, ts). p = EXP_pow \<or> p = EXP_notIdentity \<or> ts = [hd ts] \<and> bin_op_ok p (hd ts)) bin_ops"
  unfolding bin_ops_def
  by (simp add: bin_op_ok_def PREC_defs chains_def chain_op_def the_op_def mul_op_def add_op_def
      shift_op_def assign_op_def cmp_op_def)

lemma bin_ops_distinct: "distinct (map fst bin_ops)"
  by (simp add: bin_ops_def)

lemma bin_op_cases:
  assumes "p \<in> fst ` set bin_ops"
  shows "p = EXP_pow \<or> p = EXP_notIdentity \<or> (\<exists>t. bin_tokens p = [op_token t] \<and> bin_op_ok p t)"
proof -
  obtain ts where ts: "(p, ts) \<in> set bin_ops" using assms by auto
  then have "bin_tokens p = map op_token ts"
    by (simp add: bin_tokens_def map_of_is_SomeI[OF bin_ops_distinct])
  moreover have "p = EXP_pow \<or> p = EXP_notIdentity \<or> ts = [hd ts] \<and> bin_op_ok p (hd ts)"
    using bin_ops_ok ts by (auto simp: list_all_iff)
  ultimately show ?thesis by (metis list.simps(8,9))
qed

lemma prec_bounds: "reparses e \<Longrightarrow> 1 \<le> exp_prec e \<and> exp_prec e \<le> 16"
  by (cases e) (auto simp: exp_prec_def PREC_defs bin_ops_def una_ops_def pre_ops_def post_ops_def)

definition parses_back :: "expr \<Rightarrow> bool" where
  "parses_back e \<longleftrightarrow> reads (exp_prec e) (ptoks e) (mark e) \<and>
     (chains (exp_prec e) \<longrightarrow> reads_chain (exp_prec e) (ptoks e) (mark e))"

lemma reads_below:
  assumes "reads j ts e" "1 \<le> k" "k \<le> j" shows "reads k ts e"
proof (cases "14 \<le> j")
  case True
  then have "reads 14 ts e" using assms(1) reads_14 by blast
  then show ?thesis using assms(2) reads_lower[of 14 ts e k] reads_14[of k] by (cases "14 \<le> k") auto
next
  case False
  then show ?thesis using assms reads_lower by auto
qed

lemma wrapped_operand:
  assumes "parses_back e" "reparses e" "needs_parens k (exp_prec e)"
  shows "reads_operand (wrap_toks k e (ptoks e)) (wrap k (exp_prec e) (mark e))"
proof -
  have "reads 1 (ptoks e) (mark e)"
    using assms(1) prec_bounds[OF assms(2)] by (auto simp: parses_back_def intro: reads_below)
  then show ?thesis using parens_operand assms(3) by (simp add: wrap_def)
qed

lemma wrapped_reads:
  assumes "parses_back e" "reparses e" "needs_parens k (exp_prec e) \<or> j \<le> exp_prec e" "1 \<le> j"
  shows "reads j (wrap_toks k e (ptoks e)) (wrap k (exp_prec e) (mark e))"
proof (cases "needs_parens k (exp_prec e)")
  case True
  then have "reads 14 (wrap_toks k e (ptoks e)) (wrap k (exp_prec e) (mark e))"
    using wrapped_operand[OF assms(1,2)] operand_reads by blast
  then show ?thesis using assms(4) reads_below[of 14 _ _ j] reads_14[of j] by (cases "14 \<le> j") auto
next
  case False
  then show ?thesis using assms by (auto simp: parses_back_def tparens_def wrap_def intro: reads_below)
qed

lemma wrapped_reads_at:
  "parses_back e \<Longrightarrow> reparses e \<Longrightarrow> 1 \<le> k \<Longrightarrow> reads k (wrap_toks k e (ptoks e)) (wrap k (exp_prec e) (mark e))"
  by (rule wrapped_reads) (auto simp: needs_parens_def)

lemma wrapped_chain:
  assumes "parses_back e" "reparses e" "chains k"
  shows "reads_chain k (wrap_toks k e (ptoks e)) (wrap k (exp_prec e) (mark e))"
proof (cases "needs_parens k (exp_prec e) \<or> exp_prec e \<noteq> k")
  case True
  then have "needs_parens k (exp_prec e) \<or> k + 1 \<le> exp_prec e" by (auto simp: needs_parens_def)
  then show ?thesis using wrapped_reads[OF assms(1,2)] by (intro reads_chain_intro[OF assms(3)]) simp
next
  case False
  then show ?thesis using assms by (auto simp: parses_back_def tparens_def wrap_def)
qed

lemma checkParens_wrap:
  "exp_prec e \<noteq> PREC_rel \<or> needs_parens k PREC_rel \<Longrightarrow> checkParens (wrap k (exp_prec e) (mark e)) = Inr ()"
  by (auto simp: checkParens_def guard_def exp_prec_def)

lemma chain_back:
  assumes "parses_back a" "parses_back b" "reparses (Bin p a b)"
    and k: "chains (precedence p)" "chain_op (precedence p) t = Some p" and t: "bin_tokens p = [op_token t]"
  shows "parses_back (Bin p a b)"
proof -
  let ?k = "precedence p"
  have chk: "checkParens (wrap ?k (exp_prec a) (mark a)) = Inr () \<and>
      checkParens (wrap (?k + 1) (exp_prec b) (mark b)) = Inr ()" if c: "chain_chk ?k"
  proof -
    have "?k = 6 \<or> ?k = 7 \<or> ?k = 8 \<and> p = EXP_and" using c k
      by (auto simp: chain_chk_def chain_op_def the_op_def chains_def split: if_splits)
    then have "needs_parens ?k PREC_rel" "exp_prec b \<noteq> PREC_rel \<or> needs_parens (?k + 1) PREC_rel"
      using assms(3) by (auto simp: needs_parens_def PREC_defs operand_ok_def)
    then show ?thesis by (simp add: checkParens_wrap)
  qed
  have r: "reparses a" "reparses b" using assms(3) by simp_all
  have "reads_chain ?k (ptoks (Bin p a b)) (mark (Bin p a b))"
    using reads_chain_step[OF k(1) wrapped_chain[OF assms(1) r(1) k(1)]
        wrapped_reads_at[OF assms(2) r(2)] k(2) chk, of "tok_ident (op_token t)"] t
    by (simp add: op_token_def)
  then show ?thesis using reads_chain_final[OF k(1)] by (simp add: parses_back_def exp_prec_def)
qed

lemma parses_backI: "reads (exp_prec e) (ptoks e) (mark e) \<Longrightarrow> \<not> chains (exp_prec e) \<Longrightarrow> parses_back e"
  by (simp add: parses_back_def)

lemma assign_back:
  assumes "parses_back a" "parses_back b" "reparses (Bin p a b)"
    and p: "precedence p = 2" "assign_op t = Some p" and t: "bin_tokens p = [op_token t]"
  shows "parses_back (Bin p a b)"
proof (rule parses_backI)
  have r: "reparses a" "reparses b" using assms(3) by simp_all
  have a: "exp_prec a \<noteq> 2" "exp_prec a \<noteq> 3" using assms(3) p(1) by (auto simp: operand_ok_def PREC_defs)
  then have "op_of a \<noteq> EXP_question" by (auto simp: exp_prec_def PREC_defs)
  moreover have "reads 3 (wrap_toks 2 a (ptoks a)) (wrap 2 (exp_prec a) (mark a))"
    using a by (intro wrapped_reads assms r) (auto simp: needs_parens_def)
  moreover have "reads 2 (wrap_toks 3 b (ptoks b)) (wrap 3 (exp_prec b) (mark b))"
    by (intro wrapped_reads assms r) (auto simp: needs_parens_def)
  ultimately show "reads (exp_prec (Bin p a b)) (ptoks (Bin p a b)) (mark (Bin p a b))"
    using assign_reads[OF _ _ p(2), of _ _ _ _ "tok_ident (op_token t)"] p(1) t
    by (simp add: exp_prec_def op_token_def)
qed (use p in \<open>simp add: exp_prec_def chains_def\<close>)

lemma cmp_back:
  assumes "parses_back a" "parses_back b" "reparses a" "reparses b"
    and p: "precedence p = 10" "cmp_op t = Some p \<and> bin_tokens p = [op_token t] \<or> p = EXP_notIdentity"
  shows "parses_back (Bin p a b)"
proof (rule parses_backI)
  have a: "reads 11 (wrap_toks 10 a (ptoks a)) (wrap 10 (exp_prec a) (mark a))"
    by (intro wrapped_reads assms) (auto simp: needs_parens_def PREC_defs)
  have b: "reads 11 (wrap_toks 11 b (ptoks b)) (wrap 11 (exp_prec b) (mark b))"
    by (intro wrapped_reads assms) (auto simp: needs_parens_def)
  have "bin_tokens EXP_notIdentity = [op_token (Operator_tok TOK_not), op_token (Operator_tok TOK_is)]"
    by (simp add: bin_tokens_def bin_ops_def)
  then show "reads (exp_prec (Bin p a b)) (ptoks (Bin p a b)) (mark (Bin p a b))"
    using p(2) cmp_reads[OF a b, of t p "tok_ident (op_token t)"] not_is_reads[OF a b] p(1)
    by (auto simp: exp_prec_def op_token_def)
qed (use p in \<open>simp add: exp_prec_def chains_def\<close>)

lemma pow_back:
  assumes "parses_back a" "parses_back b" "reparses (Bin EXP_pow a b)"
  shows "parses_back (Bin EXP_pow a b)"
proof (rule parses_backI)
  have r: "reparses a" "reparses b" using assms(3) by simp_all
  have "reads_operand (wrap_toks 14 a (ptoks a)) (wrap 14 (exp_prec a) (mark a))"
  proof (cases "needs_parens 14 (exp_prec a)")
    case False
    then have "is_base a" using assms(3) by (simp add: operand_ok_def PREC_defs)
    then show ?thesis using False base_operand r(1) by (simp add: tparens_def wrap_def)
  qed (use assms(1) r(1) in \<open>rule wrapped_operand\<close>)
  moreover have "reads 14 (wrap_toks 15 b (ptoks b)) (wrap 15 (exp_prec b) (mark b))"
    by (intro wrapped_reads assms r) (auto simp: needs_parens_def)
  moreover have "bin_tokens EXP_pow = [op_token (Later_tok TOK_pow)]"
    by (simp add: bin_tokens_def bin_ops_def)
  ultimately show "reads (exp_prec (Bin EXP_pow a b)) (ptoks (Bin EXP_pow a b)) (mark (Bin EXP_pow a b))"
    using pow_reads by (simp add: exp_prec_def PREC_defs op_token_def)
qed (simp add: exp_prec_def PREC_defs chains_def)

lemma base_back: "is_base e \<Longrightarrow> reparses e \<Longrightarrow> parses_back e"
  using operand_reads[OF base_operand, of e]
  by (intro parses_backI) (simp_all add: base_prec chains_def reads_14[of 16])

lemma una_ops_prefix:
  "list_all (\<lambda>(p, t). op1_tokens una_ops p = [op_token t] \<and> prefix_op t = Some (Una p) \<and> precedence p = 15) una_ops"
  by (simp add: una_ops_def op1_tokens_def prefix_op_def PREC_defs)

lemma pre_ops_prefix:
  "list_all (\<lambda>(p, t). op1_tokens pre_ops p = [op_token t] \<and> prefix_op t = Some (Pre p) \<and> precedence p = 16) pre_ops"
  by (simp add: pre_ops_def op1_tokens_def prefix_op_def PREC_defs)

lemma prefix_back:
  assumes "parses_back e" "reparses e" "prefix_op t = Some f" "14 \<le> k"
  shows "reads k (op_token t # wrap_toks k e (ptoks e)) (f (wrap k (exp_prec e) (mark e)))"
proof -
  have "reads k (wrap_toks k e (ptoks e)) (wrap k (exp_prec e) (mark e))"
    using wrapped_reads_at[OF assms(1,2)] assms(4) by simp
  then show ?thesis
    using prefix_reads[OF _ assms(3), of _ _ "tok_ident (op_token t)"]
    unfolding reads_14[OF assms(4)] by (simp add: op_token_def)
qed

lemma reparses_parses_back: "reparses e \<Longrightarrow> parses_back e"
proof (induction e)
  case (Una p e)
  then obtain t where t: "op1_tokens una_ops p = [op_token t]" "prefix_op t = Some (Una p)" "precedence p = 15"
    using una_ops_prefix by (fastforce simp: list_all_iff)
  then show ?case using prefix_back[of e t "Una p" 15] Una
    by (intro parses_backI) (simp_all add: exp_prec_def chains_def)
next
  case (Pre p e)
  then obtain t where t: "op1_tokens pre_ops p = [op_token t]" "prefix_op t = Some (Pre p)" "precedence p = 16"
    using pre_ops_prefix by (fastforce simp: list_all_iff)
  then show ?case using prefix_back[of e t "Pre p" 16] Pre
    by (intro parses_backI) (simp_all add: exp_prec_def chains_def)
next
  case (Bin p a b)
  then have r: "reparses a" "reparses b" "parses_back a" "parses_back b" "p \<in> fst ` set bin_ops" by simp_all
  from bin_op_cases[OF r(5)] show ?case
  proof (elim disjE exE conjE)
    assume "p = EXP_pow" then show ?thesis using pow_back Bin r by blast
  next
    assume "p = EXP_notIdentity" then show ?thesis using cmp_back[OF r(3,4,1,2)] by (simp add: PREC_defs)
  next
    fix t assume t: "bin_tokens p = [op_token t]" "bin_op_ok p t"
    then show ?thesis using chain_back[OF r(3,4) Bin.prems _ _ t(1)] assign_back[OF r(3,4) Bin.prems _ _ t(1)]
        cmp_back[OF r(3,4,1,2)] unfolding bin_op_ok_def by blast
  qed
next
  case (Cond c a b)
  then show ?case using cond_reads[OF wrapped_reads_at wrapped_reads_at wrapped_reads_at, of c a b]
    by (intro parses_backI) (simp_all add: exp_prec_def PREC_defs chains_def)
next
  case (Post p e)
  then show ?case using base_back[of "Post p e"] by simp
next
  case (DotId e x)
  then show ?case using base_back[of "DotId e x"] by simp
qed (simp_all add: base_back)

lemma reads_parse_tokens:
  assumes "reads 1 ts e"
  shows "parseExpression (parse_fuel ts) ts = Inr (e, [])"
proof -
  obtain N where N: "\<forall>n\<ge>N. \<forall>r. stop (min 1 14) r \<longrightarrow> level 1 n (ts @ r) = Inr (e, r)"
    using assms unfolding reads_def by blast
  let ?n = "max (Suc N) (parse_fuel ts)"
  have "stop 1 []" by (simp add: stop_def plain_follow_def infix_prec_def assign_op_def cmp_op_def
        shift_op_def add_op_def mul_op_def)
  moreover obtain m where m: "?n = Suc m" "N \<le> m" by (metis Suc_le_D Suc_le_mono max.cobounded1)
  ultimately have "parseExpression ?n ts = Inr (e, [])"
    using N[rule_format, of m "[]"] by (simp add: level_def del: parseExpression.simps)
  moreover have "returns (parseExpression (parse_fuel ts) ts)"
    using parse_returns by (simp add: parse_fuel_def del: parseExpression.simps)
  ultimately show ?thesis using agreesD[OF parse_more_fuel] by (metis max.cobounded2)
qed

lemma reparses_reads: "reparses e \<Longrightarrow> reads 1 (ptoks e) (mark e)"
  using reparses_parses_back[of e] prec_bounds[of e] reads_below[of "exp_prec e" "ptoks e" "mark e" 1]
  by (simp add: parses_back_def)

section \<open>The text of an expression scans to its tokens\<close>

definition bd :: "string \<Rightarrow> bool" where
  "bd s \<longleftrightarrow> s = [] \<or> hd s \<in> {CHR '' '', CHR '')'', CHR ''.'', CHR ''+'', CHR ''-''}"

definition scans :: "string \<Rightarrow> tokens \<Rightarrow> string \<Rightarrow> bool" where
  "scans x ts s \<longleftrightarrow> lex (x @ s) = rbind (lex s) (\<lambda>us. Inr (ts @ us))"

lemma scans_append: "scans x ts (y @ s) \<Longrightarrow> scans y us s \<Longrightarrow> scans (x @ y) (ts @ us) s"
  unfolding scans_def by (simp add: rbind_assoc)

lemma scans_token: "scan (x @ s) = Inr (t, s) \<Longrightarrow> t \<noteq> EOF_token \<Longrightarrow> scans x [t] s"
  unfolding scans_def by (simp add: lex.simps[of "x @ s"])

lemma lex_space: "lex (CHR '' '' # s) = lex s"
  by (subst (1 2) lex.simps) (simp add: iswhite_def)

lemma rbind_Inr [simp]: "rbind x Inr = x" by (cases x) simp_all

lemma scans_space: "scans (CHR '' '' # x) ts s \<longleftrightarrow> scans x ts s" "scans '' '' [] s"
  unfolding scans_def by (simp_all add: lex_space)

lemmas char_class_defs = iswhite_def isidstart_def isidchar_def isdigit_def char_code_def

lemma scan_word:
  assumes "x \<noteq> []" "isidstart (hd x)" "list_all isidchar x" "bd s"
  shows "scan (x @ s) = (case keyword x of
      Some k \<Rightarrow> Inr (Token (if is_C_token k then Leaf_tok TOK_identifier else k) x, s)
    | None \<Rightarrow> if x \<in> set special_identifiers then Inl Not_modelled
              else Inr (Token (Leaf_tok TOK_identifier) x, s))"
proof -
  obtain c p where x: "x = c # p" using assms(1) by (cases x) auto
  have s: "s = [] \<or> \<not> isidchar (hd s)" "128 > char_code (at s)"
    using assms(4) by (auto simp: bd_def char_class_defs at_def split: list.splits)
  have tw: "takeWhile isidchar (x @ s) = x" "dropWhile isidchar (x @ s) = s"
    using assms(3) s(1) by (cases s; simp add: list_all_iff)+
  have q: "at (y @ s) \<notin> {CHR 0x22, CHR 0x60, CHR ''{''}" if "list_all isidchar y" for y
    using that assms(4) by (cases y; cases s) (auto simp: bd_def char_class_defs)
  have "\<not> string_prefix c (p @ s)"
    using q[of p] q[of "tl p"] assms(3,4) unfolding x string_prefix_def
    by (cases p; cases s) (auto simp: bd_def)
  moreover have "c \<noteq> CHR 0x00" "c \<noteq> CHR 0x1A" "\<not> iswhite c"
    using assms(2) unfolding x by (auto simp: char_class_defs)
  moreover have "scan_identifier (x @ s) = (case keyword x of
      Some k \<Rightarrow> Inr (Token (if is_C_token k then Leaf_tok TOK_identifier else k) x, s)
    | None \<Rightarrow> if x \<in> set special_identifiers then Inl Not_modelled
              else Inr (Token (Leaf_tok TOK_identifier) x, s))"
    unfolding scan_identifier_def tw Let_def using s(2) by simp
  ultimately show ?thesis using assms(2) unfolding x by simp
qed

lemma scans_name: "is_name x \<Longrightarrow> bd s \<Longrightarrow> scans x [name_token x] s"
  by (rule scans_token) (simp_all add: scan_word is_name_def name_token_def)

lemma keyword_evals:
  "keyword ''this'' = Some (Leaf_tok TOK_this)" "keyword ''super'' = Some (Leaf_tok TOK_super)"
  "keyword ''null'' = Some (Other_tok TOK_null)" "keyword ''true'' = Some (Other_tok TOK_true)"
  "keyword ''false'' = Some (Other_tok TOK_false)" "keyword ''is'' = Some (Operator_tok TOK_is)"
  "keyword ''in'' = Some (Aggregate_tok TOK_in)"
  by (simp_all add: keyword_def keyword_tokens_def)

lemma scans_keyword:
  "keyword x = Some k \<Longrightarrow> \<not> is_C_token k \<Longrightarrow> k \<noteq> Other_tok TOK_endOfFile \<Longrightarrow> x \<noteq> [] \<Longrightarrow>
   isidstart (hd x) \<Longrightarrow> list_all isidchar x \<Longrightarrow> bd s \<Longrightarrow> scans x [Token k x] s"
  by (rule scans_token) (simp_all add: scan_word)

lemma scans_leaf_keywords:
  "bd s \<Longrightarrow> scans ''this'' [Token (Leaf_tok TOK_this) ''this''] s"
  "bd s \<Longrightarrow> scans ''super'' [Token (Leaf_tok TOK_super) ''super''] s"
  "bd s \<Longrightarrow> scans ''null'' [Token (Other_tok TOK_null) ''null''] s"
  "bd s \<Longrightarrow> scans ''true'' [Token (Other_tok TOK_true) ''true''] s"
  "bd s \<Longrightarrow> scans ''false'' [Token (Other_tok TOK_false) ''false''] s"
  "bd s \<Longrightarrow> scans ''is'' [op_token (Operator_tok TOK_is)] s"
  "bd s \<Longrightarrow> scans ''in'' [op_token (Aggregate_tok TOK_in)] s"
  by (auto intro!: scans_keyword simp: keyword_evals char_class_defs op_token_def)

lemma scans_parens:
  "scans ''('' [op_token (Other_tok TOK_leftParenthesis)] s"
  "scans '')'' [op_token (Other_tok TOK_rightParenthesis)] s"
  by (rule scans_token; simp add: op_token_def char_class_defs scan_operator_def scan_single_def)+

lemma scan_operator_evals:
  "scan_operator (CHR ''/'') p = scan_div p" "scan_operator (CHR ''.'') p = scan_dot p"
  "scan_operator (CHR ''&'') p = scan_and p" "scan_operator (CHR ''|'') p = scan_or p"
  "scan_operator (CHR ''-'') p = scan_minus p" "scan_operator (CHR ''+'') p = scan_plus p"
  "scan_operator (CHR ''<'') p = scan_less p" "scan_operator (CHR ''>'') p = scan_greater p"
  "scan_operator (CHR ''!'') p = scan_not p" "scan_operator (CHR ''='') p = scan_assign p"
  "scan_operator (CHR ''~'') p = scan_tilde p" "scan_operator (CHR ''^'') p = scan_caret p"
  "scan_operator (CHR '':'') p = scan_colon p" "scan_operator (CHR ''*'') p = scan_mul p"
  "scan_operator (CHR ''%'') p = scan_mod p" "scan_operator (CHR '','') p = ok (Operator_tok TOK_comma) p"
  "scan_operator (CHR ''?'') p = ok (Operator_tok TOK_question) p"
  by (simp_all add: scan_operator_def scan_single_def isdigit_def char_code_def)

definition op_char :: "char \<Rightarrow> bool" where
  "op_char c \<longleftrightarrow> c \<in> set ''/.&|-+<>!=~^:*%,?''"

lemma op_char_class: "op_char c \<Longrightarrow> c \<notin> {CHR 0x00, CHR 0x1A} \<and> \<not> iswhite c \<and> \<not> isidstart c"
  by (auto simp: op_char_def char_class_defs)

lemma scans_op:
  assumes "scan_operator c (x @ s) = Inr (t, s)" "op_char c"
    "t \<notin> {Other_tok TOK_endOfFile, Operator_tok TOK_is, Aggregate_tok TOK_in}"
  shows "scans (c # x) [op_token t] s"
  using op_char_class[OF assms(2)] assms(1,3) by (intro scans_token) (auto simp: op_token_def)

lemmas op_evals = scan_operator_evals scan_defs op_char_def

lemma scans_bin_ops:
  "list_all (\<lambda>(p, ts). p \<in> {EXP_identity, EXP_notIdentity, EXP_in} \<or>
     (\<forall>s. scans (EXPtoString p) (map op_token ts) (CHR '' '' # s))) bin_ops"
  unfolding bin_ops_def by (simp add: scans_op op_evals isdigit_def char_code_def)

lemma scans_bin_op:
  assumes "p \<in> fst ` set bin_ops"
  shows "scans (EXPtoString p) (bin_tokens p) (CHR '' '' # s)"
proof -
  obtain ts where ts: "(p, ts) \<in> set bin_ops" using assms by auto
  then have b: "bin_tokens p = map op_token ts"
    by (simp add: bin_tokens_def map_of_is_SomeI[OF bin_ops_distinct])
  have "scans ''!'' [op_token (Operator_tok TOK_not)] (''is'' @ CHR '' '' # s)"
    by (rule scans_op) (simp_all add: op_evals)
  from scans_append[OF this scans_leaf_keywords(6)]
  have "scans ''!is'' [op_token (Operator_tok TOK_not), op_token (Operator_tok TOK_is)] (CHR '' '' # s)"
    by (simp add: bd_def)
  then have "p \<in> {EXP_identity, EXP_notIdentity, EXP_in} \<longrightarrow> ?thesis"
    using scans_leaf_keywords(6,7)[of "CHR '' '' # s"]
    by (auto simp: bin_tokens_def bin_ops_def bd_def)
  then show ?thesis using scans_bin_ops ts b by (auto simp: list_all_iff)
qed

lemma scans_pre_op:
  "p \<in> fst ` set pre_ops \<Longrightarrow> scans (EXPtoString p) (op1_tokens pre_ops p) s"
  by (auto simp: pre_ops_def op1_tokens_def scans_op op_evals)

lemma scans_post_op:
  "p \<in> fst ` set post_ops \<Longrightarrow> scans (EXPtoString p) (op1_tokens post_ops p) s"
  by (auto simp: post_ops_def op1_tokens_def scans_op op_evals)

lemma scans_una_op:
  assumes "p \<in> fst ` set una_ops" "\<not> glued p s" "at s \<notin> {CHR ''='', CHR ''>''}"
  shows "scans (EXPtoString p) (op1_tokens una_ops p) s"
  using assms by (auto simp: una_ops_def op1_tokens_def glued_def scans_op op_evals)

lemma scans_dot_name:
  assumes "is_name x" "bd s" shows "scans (''.'' @ x) [op_token (Operator_tok TOK_dot), name_token x] s"
proof -
  have "\<not> isdigit (at (x @ s))" "at (x @ s) \<noteq> CHR ''.''"
    using assms(1) by (cases x; auto simp: is_name_def char_class_defs)+
  then have "scans ''.'' [op_token (Operator_tok TOK_dot)] (x @ s)"
    by (intro scans_op) (simp_all add: op_evals)
  from scans_append[OF this scans_name[OF assms]] show ?thesis by simp
qed

lemma scans_cond_ops:
  "scans ''?'' [op_token (Operator_tok TOK_question)] (CHR '' '' # s)"
  "scans '':'' [op_token (Other_tok TOK_colon)] (CHR '' '' # s)"
  by (rule scans_op; simp add: op_evals)+

lemma bd_simps [simp]: "bd []" "bd (CHR '' '' # s)" "bd (CHR '')'' # s)" "bd (CHR ''.'' # s)"
  by (simp_all add: bd_def)

lemma scans_wrap:
  assumes "\<And>s. bd s \<Longrightarrow> scans x ts s" "bd s"
  shows "scans (put_parens b x) (tparens b ts) s"
proof (cases b)
  case True
  have "scans (x @ '')'') (ts @ [op_token (Other_tok TOK_rightParenthesis)]) s"
    by (rule scans_append[OF assms(1) scans_parens(2)]) simp
  from scans_append[OF scans_parens(1) this] show ?thesis using True by (simp add: put_parens_def tparens_def)
qed (simp add: put_parens_def tparens_def assms)

definition starts :: "string \<Rightarrow> bool" where
  "starts x \<longleftrightarrow> x \<noteq> [] \<and> at x \<notin> {CHR ''='', CHR ''>''}"

lemma starts_append: "starts x \<Longrightarrow> starts (x @ y)" by (cases x) (simp_all add: starts_def)

lemma starts_wrap: "starts x \<Longrightarrow> starts (put_parens b x)" by (simp add: put_parens_def starts_def)

lemma starts_expr: "scannable e \<Longrightarrow> starts (expressionToBuffer e)"
proof (induction e)
  case (IdentifierE x)
  then show ?case by (cases x) (auto simp: starts_def is_name_def char_class_defs)
next
  case (Una p e)
  then show ?case by (auto simp: starts_def una_ops_def)
next
  case (Pre p e)
  then show ?case by (auto simp: starts_def pre_ops_def)
qed (simp_all add: starts_append starts_wrap, simp_all add: starts_def)

lemma glued_append: "x \<noteq> [] \<Longrightarrow> glued p (x @ s) \<longleftrightarrow> glued p x" "x \<noteq> [] \<Longrightarrow> at (x @ s) = at x"
  by (cases x; simp add: glued_def)+

lemma scans_spaced:
  assumes "\<And>u. scans p ts (CHR '' '' # u)" "scans x us s"
  shows "scans ('' '' @ p @ '' '' @ x) (ts @ us) s"
proof -
  have x: "scans ('' '' @ x) us s" using assms(2) by (simp add: scans_space)
  have "scans p ts (('' '' @ x) @ s)" using assms(1) by simp
  from scans_append[OF this x] have "scans (p @ '' '' @ x) (ts @ us) s" .
  then show ?thesis using scans_space(1)[of "p @ '' '' @ x" "ts @ us" s] by simp
qed

lemma scans_expr: "scannable e \<Longrightarrow> bd s \<Longrightarrow> scans (expressionToBuffer e) (ptoks e) s"
proof (induction e arbitrary: s)
  case (IdentifierE x)
  then show ?case by (simp add: scans_name)
next
  case (BoolE b)
  then show ?case by (simp add: scans_leaf_keywords)
next
  case (Una p e)
  let ?w = "wrap_parens PREC_unary e (expressionToBuffer e)"
  have p: "precedence p = PREC_unary" using Una.prems by (auto simp: una_ops_def)
  have w: "starts ?w" using starts_wrap starts_expr Una.prems by simp
  have "scans ?w (wrap_toks PREC_unary e (ptoks e)) s" using Una by (intro scans_wrap) auto
  moreover have "scans (EXPtoString p) (op1_tokens una_ops p) (?w @ s)"
    using Una.prems w by (intro scans_una_op) (auto simp: glued_append starts_def)
  ultimately show ?case unfolding expressionToBuffer.simps ptoks.simps p by (rule scans_append[rotated])
next
  case (Pre p e)
  then show ?case unfolding expressionToBuffer.simps ptoks.simps
    by (intro scans_append scans_pre_op scans_wrap) auto
next
  case (Post p e)
  have "bd (EXPtoString p @ s)" using Post.prems by (auto simp: post_ops_def bd_def)
  with Post show ?case unfolding expressionToBuffer.simps ptoks.simps
    by (intro scans_append scans_post_op scans_wrap) auto
next
  case (DotId e x)
  have "scans (''.'' @ x) [op_token (Operator_tok TOK_dot), name_token x] s"
    using DotId.prems by (intro scans_dot_name) auto
  with DotId show ?case unfolding expressionToBuffer.simps ptoks.simps
    by (intro scans_append scans_wrap) auto
next
  case (Bin p a b)
  have "scans (wrap_parens (precedence p + 1) b (expressionToBuffer b)) (wrap_toks (precedence p + 1) b (ptoks b)) s"
    using Bin by (intro scans_wrap) auto
  then have b: "scans ('' '' @ EXPtoString p @ '' '' @ wrap_parens (precedence p + 1) b (expressionToBuffer b))
      (bin_tokens p @ wrap_toks (precedence p + 1) b (ptoks b)) s"
    using Bin.prems scans_bin_op by (intro scans_spaced) auto
  show ?case unfolding expressionToBuffer.simps ptoks.simps
    by (rule scans_append[OF scans_wrap b]) (use Bin in auto)
next
  case (Cond c a b)
  have "scans (wrap_parens PREC_cond b (expressionToBuffer b)) (wrap_toks PREC_cond b (ptoks b)) s"
    using Cond by (intro scans_wrap) auto
  from scans_spaced[OF scans_cond_ops(2) this]
  have b: "scans ('' '' @ '':'' @ '' '' @ wrap_parens PREC_cond b (expressionToBuffer b))
      ([op_token (Other_tok TOK_colon)] @ wrap_toks PREC_cond b (ptoks b)) s" .
  have "scans (wrap_parens PREC_expr a (expressionToBuffer a) @ '' '' @ '':'' @ '' '' @ wrap_parens PREC_cond b (expressionToBuffer b))
      (wrap_toks PREC_expr a (ptoks a) @ [op_token (Other_tok TOK_colon)] @ wrap_toks PREC_cond b (ptoks b)) s"
    by (rule scans_append[OF scans_wrap b]) (use Cond in auto)
  from scans_spaced[OF scans_cond_ops(1) this]
  have a: "scans ('' ? '' @ wrap_parens PREC_expr a (expressionToBuffer a) @ '' : '' @ wrap_parens PREC_cond b (expressionToBuffer b))
      ([op_token (Operator_tok TOK_question)] @ wrap_toks PREC_expr a (ptoks a) @
       [op_token (Other_tok TOK_colon)] @ wrap_toks PREC_cond b (ptoks b)) s" by simp
  show ?case unfolding expressionToBuffer.simps ptoks.simps
    by (rule scans_append[OF scans_wrap a]) (use Cond in auto)
qed (simp_all add: scans_leaf_keywords)

section \<open>Properties\<close>

lemma strip_reparses: "reparses e \<Longrightarrow> strip e = e"
  by (induction e) simp_all

lemma lex_expr: "scannable e \<Longrightarrow> lex (expressionToBuffer e) = Inr (ptoks e)"
  using scans_expr[of e "[]"] by (simp add: scans_def lex.simps[of "[]"])

lemma parse_text_reads:
  assumes "scannable e" "reads 1 (ptoks e) f" shows "parse_text (expressionToBuffer e) = Inr f"
  by (simp add: parse_text_def lex_expr[OF assms(1)] reads_parse_tokens[OF assms(2)] del: parseExpression.simps)

text \<open>C2: Printing an expression that \<open>reparses\<close> and parsing the text gives the expression back:
  \<open>expToBuffer\<close> prints it without failing an assertion, and the scanner and the parser read the text
  as the same expression, with the flag \<open>parens\<close> set exactly on the operands that were printed in
  parentheses.  \<open>reparses\<close> admits names, \<open>this\<close>, \<open>super\<close>, \<open>null\<close>, the truth values, and the unary,
  binary, conditional and postfix operators over them, except: the signs and \<open>&\<close> before an operand
  whose text starts with the same character (the text of \<open>-(-x)\<close> is \<open>--x\<close>); members and postfix
  operators on anything but a leaf, a member or a postfix expression; a power whose left operand is
  printed without parentheses and is none of these; an assignment or a conditional on the left
  of an assignment; and a comparison on the right of \<open>&\<close>.\<close>
theorem printed_expression_parses:
  assumes "reparses e"
  shows "\<exists>s. expToBuffer PREC_expr e = Inr s \<and> parse_text s = Inr (mark e) \<and> strip (mark e) = e"
proof -
  have "expToBuffer PREC_expr e = Inr (expressionToBuffer e)"
    using prec_bounds[OF assms] by (simp add: expToBuffer_def PREC_defs needs_parens_def put_parens_def)
  moreover have "parse_text (expressionToBuffer e) = Inr (mark e)"
    by (rule parse_text_reads[OF reparses_scannable[OF assms] reparses_reads[OF assms]])
  ultimately show ?thesis using strip_reparses[OF assms] by (simp add: strip_mark)
qed

theorem printed_expression_parses_witness:
  "\<exists>e s. e = Bin EXP_assign (DotId (IdentifierE ''x'') ''y'')
      (Bin EXP_mul (Una EXP_negate (IdentifierE ''a'')) (Bin EXP_add (IdentifierE ''b'') (Post EXP_plusPlus (IdentifierE ''c'')))) \<and>
    s = ''x.y = -a * (b + c++)'' \<and> expToBuffer PREC_expr e = Inr s \<and>
    (\<exists>f. parse_text s = Inr f \<and> f \<noteq> e \<and> strip f = e)"
proof -
  let ?e = "Bin EXP_assign (DotId (IdentifierE ''x'') ''y'')
      (Bin EXP_mul (Una EXP_negate (IdentifierE ''a'')) (Bin EXP_add (IdentifierE ''b'') (Post EXP_plusPlus (IdentifierE ''c''))))"
  have n: "is_name ''x''" "is_name ''y''" "is_name ''a''" "is_name ''b''" "is_name ''c''"
    by (simp_all add: is_name_def keyword_def keyword_tokens_def char_class_defs special_identifiers_def)
  have r: "reparses ?e"
    by (simp add: n bin_ops_def una_ops_def post_ops_def glued_def operand_ok_def exp_prec_def needs_parens_def
        PREC_defs put_parens_def)
  have s: "expToBuffer PREC_expr ?e = Inr ''x.y = -a * (b + c++)''"
    by (simp add: expToBuffer_def exp_prec_def needs_parens_def PREC_defs put_parens_def)
  have "mark ?e \<noteq> ?e" by (simp add: wrap_def exp_prec_def needs_parens_def PREC_defs)
  with printed_expression_parses[OF r] s show ?thesis by auto
qed

lemma scan_not_out_of_fuel: "scan s \<noteq> Inl Out_of_fuel"
proof (induction s)
  case (Cons c p)
  have "scan_operator c p \<noteq> Inl Out_of_fuel" unfolding scan_operator_def scan_defs by (simp split: option.split)
  then have "rbind (scan_operator c p) (\<lambda>(t, r). Inr (Token t [], r)) \<noteq> Inl Out_of_fuel"
    by (cases "scan_operator c p") auto
  moreover have "scan_identifier (c # p) \<noteq> Inl Out_of_fuel"
    by (simp add: scan_identifier_def Let_def split: option.split)
  ultimately show ?case using Cons by simp
qed simp

lemma lex_not_out_of_fuel: "lex s \<noteq> Inl Out_of_fuel"
proof (induction s rule: lex.induct)
  case (1 s)
  then show ?case using scan_not_out_of_fuel[of s] unfolding lex.simps[of s]
    by (cases "scan s") (auto simp: rbind_def split: sum.split, metis rbind.simps sum.exhaust sum.distinct(1) sum.inject(1))
qed

text \<open>C15: Scanning and parsing terminate on every text, valid or not: the fuel that \<open>parse_text\<close>
  gives, four for each token, never runs out, because every level of the parser consumes a token
  before it comes back to the same level.  What it gives is an expression, an error of the code,
  or \<open>Not_modelled\<close> where the text leaves the modelled language (literals, calls, casts, lambdas).\<close>
theorem parsing_returns: "parse_text s \<noteq> Inl Out_of_fuel"
proof -
  have "returns (parseExpression (parse_fuel ts) ts)" for ts
    using parse_returns by (simp add: parse_fuel_def del: parseExpression.simps)
  then have "returns (parse_text s)" unfolding parse_text_def
    by (intro returns_rbind_error[OF lex_not_out_of_fuel] returns_rbind) simp_all
  then show ?thesis by (simp add: returns_def)
qed

text \<open>Operands that never get parentheses.\<close>

lemma base_plain:
  assumes "is_base e" "reparses e" "k \<le> 16"
  shows "tparens (needs_parens k (exp_prec e)) ts = ts" "wrap k (exp_prec e) f = f"
  using base_prec[OF assms(1,2)] assms(3) by (auto simp: tparens_def wrap_def needs_parens_def PREC_defs)

lemma base_reads_at: "is_base e \<Longrightarrow> reparses e \<Longrightarrow> 1 \<le> k \<Longrightarrow> k \<le> 14 \<Longrightarrow> reads k (ptoks e) (mark e)"
  using operand_reads[OF base_operand] reads_below by blast

lemma base_op: "is_base e \<Longrightarrow> reparses e \<Longrightarrow> op_of e \<noteq> EXP_question"
  by (cases e) (auto simp: post_ops_def)

lemma plain_tokens [simp]: "bin_tokens EXP_pow = [op_token (Later_tok TOK_pow)]"
  "bin_tokens EXP_assign = [op_token (Operator_tok TOK_assign)]"
  "bin_tokens EXP_and = [op_token (Operator_tok TOK_and)]"
  "op1_tokens pre_ops EXP_prePlusPlus = [op_token (Operator_tok TOK_plusPlus)]"
  by (simp_all add: bin_tokens_def bin_ops_def op1_tokens_def pre_ops_def)

lemma op_tokens_bin [simp]: "{EXP_pow, EXP_assign, EXP_and} \<subseteq> fst ` set bin_ops"
  by (simp add: bin_ops_def)

lemma prefixed_power:
  assumes "is_base x" "is_base y" "reparses x" "reparses y" "reparses (Una p x)"
  shows "parse_text (expressionToBuffer (Bin EXP_pow (Una p x) y)) = Inr (Una p (Bin EXP_pow (mark x) (mark y)))"
proof (rule parse_text_reads)
  have p: "p \<in> fst ` set una_ops" using assms(5) by simp
  then obtain t where t: "op1_tokens una_ops p = [op_token t]" "prefix_op t = Some (Una p)" "precedence p = 15"
    using una_ops_prefix by (fastforce simp: list_all_iff)
  have e: "exp_prec (Una p x) = 15" using t(3) by (simp add: exp_prec_def)
  have "reads 14 (op_token t # ptoks x @ op_token (Later_tok TOK_pow) # ptoks y) (Una p (Bin EXP_pow (mark x) (mark y)))"
    using prefix_reads[OF pow_reads[OF base_operand[OF assms(1,3)] base_reads_at[OF assms(2,4)]] t(2)]
    by (simp add: op_token_def)
  then have "reads 1 (op_token t # ptoks x @ op_token (Later_tok TOK_pow) # ptoks y) (Una p (Bin EXP_pow (mark x) (mark y)))"
    by (rule reads_below) simp_all
  then show "reads 1 (ptoks (Bin EXP_pow (Una p x) y)) (Una p (Bin EXP_pow (mark x) (mark y)))"
    by (simp add: e t PREC_defs base_plain assms) (simp add: tparens_def needs_parens_def PREC_defs)
qed (use assms in \<open>simp add: reparses_scannable bin_ops_def\<close>)

lemma power_of_power:
  assumes "is_base x" "is_base y" "is_base z" "reparses x" "reparses y" "reparses z"
  shows "parse_text (expressionToBuffer (Bin EXP_pow (Bin EXP_pow x y) z)) =
    Inr (Bin EXP_pow (mark x) (Bin EXP_pow (mark y) (mark z)))"
proof (rule parse_text_reads)
  have "reads 14 (ptoks y @ op_token (Later_tok TOK_pow) # ptoks z) (Bin EXP_pow (mark y) (mark z))"
    using pow_reads[OF base_operand base_reads_at] assms by (simp add: op_token_def)
  from pow_reads[OF base_operand[OF assms(1,4)] this]
  have "reads 14 (ptoks x @ op_token (Later_tok TOK_pow) # ptoks y @ op_token (Later_tok TOK_pow) # ptoks z)
      (Bin EXP_pow (mark x) (Bin EXP_pow (mark y) (mark z)))" by (simp add: op_token_def)
  then have "reads 1 (ptoks x @ op_token (Later_tok TOK_pow) # ptoks y @ op_token (Later_tok TOK_pow) # ptoks z)
      (Bin EXP_pow (mark x) (Bin EXP_pow (mark y) (mark z)))"
    by (rule reads_below) simp_all
  moreover have "exp_prec (Bin EXP_pow x y) = 14" by (simp add: exp_prec_def PREC_defs)
  ultimately show "reads 1 (ptoks (Bin EXP_pow (Bin EXP_pow x y) z)) (Bin EXP_pow (mark x) (Bin EXP_pow (mark y) (mark z)))"
    by (simp add: PREC_defs base_plain assms) (simp add: tparens_def needs_parens_def PREC_defs)
qed (use assms in \<open>simp add: reparses_scannable bin_ops_def\<close>)

lemma assigned_assignment:
  assumes "is_base x" "is_base y" "is_base z" "reparses x" "reparses y" "reparses z"
  shows "parse_text (expressionToBuffer (Bin EXP_assign (Bin EXP_assign x y) z)) =
    Inr (Bin EXP_assign (mark x) (Bin EXP_assign (mark y) (mark z)))"
proof (rule parse_text_reads)
  let ?t = "Operator_tok TOK_assign"
  have t: "assign_op ?t = Some EXP_assign" by (simp add: assign_op_def)
  have q: "\<not> (op_of (mark e) = EXP_question \<and> \<not> parens (mark e))" if "is_base e" "reparses e" for e
    using base_op[OF that] by simp
  have "reads 2 (ptoks y @ op_token ?t # ptoks z) (Bin EXP_assign (mark y) (mark z))"
    using assign_reads[OF base_reads_at base_reads_at t q] assms by (simp add: op_token_def)
  from assign_reads[OF base_reads_at this t q, of x] assms
  have "reads 2 (ptoks x @ op_token ?t # ptoks y @ op_token ?t # ptoks z)
      (Bin EXP_assign (mark x) (Bin EXP_assign (mark y) (mark z)))" by (simp add: op_token_def)
  then have "reads 1 (ptoks x @ op_token ?t # ptoks y @ op_token ?t # ptoks z)
      (Bin EXP_assign (mark x) (Bin EXP_assign (mark y) (mark z)))"
    by (rule reads_below) simp_all
  moreover have "exp_prec (Bin EXP_assign x y) = 2" by (simp add: exp_prec_def PREC_defs)
  ultimately show "reads 1 (ptoks (Bin EXP_assign (Bin EXP_assign x y) z)) (Bin EXP_assign (mark x) (Bin EXP_assign (mark y) (mark z)))"
    by (simp add: PREC_defs base_plain assms) (simp add: tparens_def needs_parens_def PREC_defs)
qed (use assms in \<open>simp add: reparses_scannable bin_ops_def\<close>)

lemma member_of_preincrement:
  assumes "is_base x" "reparses x" "is_name n"
  shows "parse_text (expressionToBuffer (DotId (Pre EXP_prePlusPlus x) n)) = Inr (Pre EXP_prePlusPlus (DotId (mark x) n))"
proof (rule parse_text_reads)
  have d: "is_base (DotId x n)" "reparses (DotId x n)" using assms by simp_all
  have t: "prefix_op (Operator_tok TOK_plusPlus) = Some (Pre EXP_prePlusPlus)" by (simp add: prefix_op_def)
  have "reads 14 (op_token (Operator_tok TOK_plusPlus) # ptoks (DotId x n)) (Pre EXP_prePlusPlus (mark (DotId x n)))"
    using prefix_reads[OF base_reads_at[OF d] t] by (simp add: op_token_def del: ptoks.simps mark.simps)
  then have "reads 1 (op_token (Operator_tok TOK_plusPlus) # ptoks (DotId x n)) (Pre EXP_prePlusPlus (mark (DotId x n)))"
    by (rule reads_below) simp_all
  moreover have "exp_prec (Pre EXP_prePlusPlus x) = 16" by (simp add: exp_prec_def PREC_defs)
  ultimately show "reads 1 (ptoks (DotId (Pre EXP_prePlusPlus x) n)) (Pre EXP_prePlusPlus (DotId (mark x) n))"
    by (simp add: PREC_defs base_plain assms) (simp add: tparens_def needs_parens_def PREC_defs)
qed (use assms in \<open>simp add: reparses_scannable pre_ops_def\<close>)

text \<open>C33: On four kinds of expression the printer leaves out parentheses that the parser needs,
  and the text is read as another expression.  A power whose left operand is a prefixed expression
  comes back as the prefix of the power, a power whose left operand is a power associates to the
  right, an assignment to an assignment becomes one of an assigned value, and the member of a
  preincremented operand becomes the preincrement of the member.\<close>
theorem printing_changes_expression:
  assumes "is_base x" "is_base y" "is_base z" "reparses x" "reparses y" "reparses z" "is_name n"
    "reparses (Una p x)"
  shows "parse_text (expressionToBuffer (Bin EXP_pow (Una p x) y)) = Inr (Una p (Bin EXP_pow (mark x) (mark y))) \<and>
    parse_text (expressionToBuffer (Bin EXP_pow (Bin EXP_pow x y) z)) =
      Inr (Bin EXP_pow (mark x) (Bin EXP_pow (mark y) (mark z))) \<and>
    parse_text (expressionToBuffer (Bin EXP_assign (Bin EXP_assign x y) z)) =
      Inr (Bin EXP_assign (mark x) (Bin EXP_assign (mark y) (mark z))) \<and>
    parse_text (expressionToBuffer (DotId (Pre EXP_prePlusPlus x) n)) =
      Inr (Pre EXP_prePlusPlus (DotId (mark x) n))"
  using prefixed_power[OF assms(1,2,4,5,8)] power_of_power[OF assms(1-6)] assigned_assignment[OF assms(1-6)]
    member_of_preincrement[OF assms(1,4,7)] by blast

theorem printing_changes_expression_witness:
  "parse_text ''-x ^^ y'' = Inr (Una EXP_negate (Bin EXP_pow (IdentifierE ''x'') (IdentifierE ''y''))) \<and>
   parse_text ''x ^^ y ^^ z'' = Inr (Bin EXP_pow (IdentifierE ''x'') (Bin EXP_pow (IdentifierE ''y'') (IdentifierE ''z''))) \<and>
   parse_text ''x = y = z'' = Inr (Bin EXP_assign (IdentifierE ''x'') (Bin EXP_assign (IdentifierE ''y'') (IdentifierE ''z''))) \<and>
   parse_text ''++x.y'' = Inr (Pre EXP_prePlusPlus (DotId (IdentifierE ''x'') ''y''))"
proof -
  have n: "is_name ''x''" "is_name ''y''" "is_name ''z''"
    by (simp_all add: is_name_def keyword_def keyword_tokens_def char_class_defs special_identifiers_def)
  then have "reparses (Una EXP_negate (IdentifierE ''x''))"
    by (simp add: una_ops_def glued_def put_parens_def exp_prec_def needs_parens_def PREC_defs)
  with n show ?thesis
    using printing_changes_expression[of "IdentifierE ''x''" "IdentifierE ''y''" "IdentifierE ''z''" "''y''" EXP_negate]
    by (simp add: put_parens_def exp_prec_def needs_parens_def PREC_defs)
qed

section \<open>Rejected texts\<close>

definition fails :: "nat \<Rightarrow> tokens \<Rightarrow> bool" where
  "fails k ts \<longleftrightarrow> (\<exists>N. \<forall>n\<ge>N. level k n ts = Inl Bad_syntax)"

lemma fails_up:
  assumes "fails (Suc k) ts" "1 \<le> k" "k \<le> 7" shows "fails k ts"
proof -
  obtain N where N: "\<forall>n\<ge>N. level (Suc k) n ts = Inl Bad_syntax" using assms(1) unfolding fails_def by blast
  have "level k (Suc n) ts = Inl Bad_syntax" if "N \<le> n" for n
  proof (cases "chains k")
    case True
    have "level (Suc k) (Suc n) ts = Inl Bad_syntax" using N that by simp
    then show ?thesis by (simp add: level_chain[OF True] left_chain_def)
  next
    case False
    then have "k = 2 \<or> k = 3" using assms(2,3) by (simp add: chains_def) arith
    moreover have "level (Suc k) n ts = Inl Bad_syntax" using N that by simp
    ultimately show ?thesis by (auto simp: level_def simp del: parseUnaryExp.simps)
  qed
  then show ?thesis unfolding fails_def by (metis Suc_le_D Suc_le_mono)
qed

lemma fails_text:
  assumes "scannable e" "fails 8 (ptoks e)" shows "parse_text (expressionToBuffer e) = Inl Bad_syntax"
proof -
  have "fails 1 (ptoks e)"
    using fails_up[of 1] fails_up[of 2] fails_up[of 3] fails_up[of 4] fails_up[of 5] fails_up[of 6]
      fails_up[of 7] assms(2) by (simp add: eval_nat_numeral)
  then obtain N where N: "\<forall>n\<ge>N. level 1 n (ptoks e) = Inl Bad_syntax" unfolding fails_def by blast
  let ?n = "max (Suc N) (parse_fuel (ptoks e))"
  obtain m where m: "?n = Suc m" "N \<le> m" by (metis Suc_le_D Suc_le_mono max.cobounded1)
  then have "parseExpression ?n (ptoks e) = Inl Bad_syntax"
    using N by (simp add: level_def del: parseExpression.simps)
  moreover have "returns (parseExpression (parse_fuel (ptoks e)) (ptoks e))"
    using parse_returns by (simp add: parse_fuel_def del: parseExpression.simps)
  ultimately have "parseExpression (parse_fuel (ptoks e)) (ptoks e) = Inl Bad_syntax"
    using agreesD[OF parse_more_fuel] by (metis max.cobounded2)
  then show ?thesis by (simp add: parse_text_def lex_expr[OF assms(1)] del: parseExpression.simps)
qed

text \<open>C34: A comparison as the right operand of \<open>&\<close> is printed without the parentheses that the
  parser asks for, because the precedence that \<open>visitBin\<close> passes on, one above that of \<open>&\<close>, is
  outside of the range that \<open>expToBuffer\<close> looks at: the text of \<open>a & (b == c)\<close> is a syntax error,
  for all operands that parse back themselves.\<close>
theorem printed_comparison_rejected:
  assumes "reparses a" "reparses b" "precedence (op_of b) = PREC_rel"
  shows "parse_text (expressionToBuffer (Bin EXP_and a b)) = Inl Bad_syntax"
proof (rule fails_text)
  let ?a = "wrap 8 (exp_prec a) (mark a)" and ?b = "wrap 9 (exp_prec b) (mark b)"
  let ?ta = "wrap_toks 8 a (ptoks a)" and ?tb = "wrap_toks 9 b (ptoks b)"
  let ?q = "op_token (Operator_tok TOK_and) # ?tb"
  have c: "chains 8" "chain_op 8 (Operator_tok TOK_and) = Some EXP_and" "chain_chk 8"
    by (simp_all add: chains_def chain_op_def the_op_def chain_chk_def)
  obtain N where N: "\<forall>n\<ge>N. \<forall>r. stop (8 + 1) r \<longrightarrow> level 8 n (?ta @ r) =
      left_loop (chain_op 8) (chain_chk 8) (level (8 + 1) n) (Suc (length r)) ?a r"
    using wrapped_chain[OF reparses_parses_back[OF assms(1)] assms(1) c(1)] unfolding reads_chain_def by blast
  obtain M where M: "\<forall>n\<ge>M. \<forall>r. stop (min 9 14) r \<longrightarrow> level 9 n (?tb @ r) = Inr (?b, r)"
    using wrapped_reads_at[OF reparses_parses_back[OF assms(2)] assms(2), of 9] unfolding reads_def by auto
  have "infix_prec (Operator_tok TOK_and) = 8"
    using chain_op_prec[OF c(1,2)] .
  then have q: "stop (8 + 1) ?q" by (simp add: stop_def plain_follow_def)
  have e: "stop 9 []" by (simp add: stop_def plain_follow_def infix_prec_def assign_op_def cmp_op_def
        shift_op_def add_op_def mul_op_def)
  have a: "checkParens ?a = Inr ()" by (rule checkParens_wrap) (simp add: needs_parens_def PREC_defs)
  have b: "checkParens ?b = Inl Bad_syntax"
    using assms(3) by (simp add: checkParens_def exp_prec_def needs_parens_def PREC_defs guard_def)
  have "level 8 n (?ta @ ?q) = Inl Bad_syntax" if "max N M \<le> n" for n
  proof -
    have "level 9 n ?tb = Inr (?b, [])" using M[rule_format, of n "[]"] that e by simp
    then show ?thesis using N[rule_format, of n ?q] that q a b c by (simp add: loop_simps)
  qed
  then have "fails 8 (?ta @ ?q)" unfolding fails_def by blast
  then show "fails 8 (ptoks (Bin EXP_and a b))" by (simp add: PREC_defs)
qed (use assms in \<open>simp add: reparses_scannable bin_ops_def\<close>)

theorem printed_comparison_rejected_witness:
  "parse_text ''a & b == c'' = Inl Bad_syntax"
proof -
  have n: "is_name ''a''" "is_name ''b''" "is_name ''c''"
    by (simp_all add: is_name_def keyword_def keyword_tokens_def char_class_defs special_identifiers_def)
  then show ?thesis
    using printed_comparison_rejected[of "IdentifierE ''a''" "Bin EXP_equal (IdentifierE ''b'') (IdentifierE ''c'')"]
    by (simp add: bin_ops_def operand_ok_def put_parens_def exp_prec_def needs_parens_def PREC_defs)
qed

end
