(* ===== verification/Deferred.thy ===== *)
theory Deferred
  imports Diagnostics
begin

text \<open>
  Deferred semantic analysis: the queues \<open>Module::deferred\<close>, \<open>deferred2\<close> and \<open>deferred3\<close> of
  module.h and the functions of dsymbolsem.d that fill and run them.  A symbol whose semantic
  pass meets a forward reference puts itself into the queue, and the queue is run in rounds
  until a round leaves as many symbols as it found.  The passes themselves are virtual calls,
  given as functions on the whole state; \<open>orderly\<close> says what the queue may rely on.  Errors are
  reported to the sink of \<open>Diagnostics\<close>.
\<close>

section \<open>State\<close>

text \<open>The queues, the flags \<open>deferred\<close>, \<open>deferred2\<close>, \<open>deferred3\<close> of the symbols as sets, the
  counter of active runs and the counters of the error sink; the rest of the compiler is the
  extension.\<close>

record 'd sema =
  queue1 :: "'d list"
  queue2 :: "'d list"
  queue3 :: "'d list"
  flagged1 :: "'d set"
  flagged2 :: "'d set"
  flagged3 :: "'d set"
  nested :: int
  reported :: diag

section \<open>Operations\<close>

definition addDeferredSemantic :: "'d \<Rightarrow> ('d, 'z) sema_scheme \<Rightarrow> ('d, 'z) sema_scheme" where
  "addDeferredSemantic d s =
     (if d \<in> flagged1 s then s else s\<lparr>flagged1 := insert d (flagged1 s), queue1 := queue1 s @ [d]\<rparr>)"

definition addDeferredSemantic2 :: "'d \<Rightarrow> ('d, 'z) sema_scheme \<Rightarrow> ('d, 'z) sema_scheme" where
  "addDeferredSemantic2 d s =
     (if d \<in> flagged2 s then s else s\<lparr>flagged2 := insert d (flagged2 s), queue2 := queue2 s @ [d]\<rparr>)"

definition addDeferredSemantic3 :: "'d \<Rightarrow> ('d, 'z) sema_scheme \<Rightarrow> ('d, 'z) sema_scheme" where
  "addDeferredSemantic3 d s =
     (if d \<in> flagged3 s then s else s\<lparr>flagged3 := insert d (flagged3 s), queue3 := queue3 s @ [d]\<rparr>)"

text \<open>One round: the queue is copied and emptied, and the pass is run on the copy.\<close>

definition run_round :: "('d \<Rightarrow> ('d, 'z) sema_scheme \<Rightarrow> ('d, 'z) sema_scheme) \<Rightarrow>
    ('d, 'z) sema_scheme \<Rightarrow> ('d, 'z) sema_scheme" where
  "run_round sem s = fold sem (queue1 s) (s\<lparr>flagged1 := flagged1 s - set (queue1 s), queue1 := []\<rparr>)"

partial_function (option) run_rounds :: "('d \<Rightarrow> ('d, 'z) sema_scheme \<Rightarrow> ('d, 'z) sema_scheme) \<Rightarrow>
    ('d, 'z) sema_scheme \<Rightarrow> ('d, 'z) sema_scheme option" where
  "run_rounds sem s =
     (if queue1 s = [] then Some s
      else let s2 = run_round sem s in
        if length (queue1 s2) \<noteq> length (queue1 s) then run_rounds sem s2 else Some s2)"

definition runDeferredSemantic :: "('d \<Rightarrow> ('d, 'z) sema_scheme \<Rightarrow> ('d, 'z) sema_scheme) \<Rightarrow>
    ('d, 'z) sema_scheme \<Rightarrow> ('d, 'z) sema_scheme option" where
  "runDeferredSemantic sem s =
     (if nested s \<noteq> 0 then Some s
      else map_option (\<lambda>s2. s2\<lparr>nested := nested s2 - 1\<rparr>) (run_rounds sem (s\<lparr>nested := nested s + 1\<rparr>)))"

text \<open>The second and third queue grow while they are run; an error ends the loop.\<close>

partial_function (option) run_queue2 :: "('d \<Rightarrow> ('d, 'z) sema_scheme \<Rightarrow> ('d, 'z) sema_scheme) \<Rightarrow> nat \<Rightarrow>
    ('d, 'z) sema_scheme \<Rightarrow> ('d, 'z) sema_scheme option" where
  "run_queue2 sem i s =
     (if i < length (queue2 s) then
        (let d = queue2 s ! i; s2 = sem d (s\<lparr>flagged2 := flagged2 s - {d}\<rparr>) in
         if errors (reported s2) \<noteq> 0 then Some s2 else run_queue2 sem (i + 1) s2)
      else Some s)"

partial_function (option) run_queue3 :: "('d \<Rightarrow> ('d, 'z) sema_scheme \<Rightarrow> ('d, 'z) sema_scheme) \<Rightarrow> nat \<Rightarrow>
    ('d, 'z) sema_scheme \<Rightarrow> ('d, 'z) sema_scheme option" where
  "run_queue3 sem i s =
     (if i < length (queue3 s) then
        (let d = queue3 s ! i; s2 = sem d (s\<lparr>flagged3 := flagged3 s - {d}\<rparr>) in
         if errors (reported s2) \<noteq> 0 then Some s2 else run_queue3 sem (i + 1) s2)
      else Some s)"

definition runDeferredSemantic2 where
  "runDeferredSemantic2 sem sem2 s =
     Option.bind (runDeferredSemantic sem s) (\<lambda>s1. map_option (\<lambda>s2. s2\<lparr>queue2 := []\<rparr>) (run_queue2 sem2 0 s1))"

definition runDeferredSemantic3 where
  "runDeferredSemantic3 sem sem2 sem3 s =
     Option.bind (runDeferredSemantic2 sem sem2 s)
       (\<lambda>s1. map_option (\<lambda>s2. s2\<lparr>queue3 := []\<rparr>) (run_queue3 sem3 0 s1))"

text \<open>What main.d reports after the first run: a forward reference for each symbol left, until the
  error limit ends the compiler (the left injection).\<close>

definition report_unresolved :: "error_sink \<Rightarrow> ('d, 'z) sema_scheme \<Rightarrow> ('d, 'z) sema_scheme + ('d, 'z) sema_scheme" where
  "report_unresolved k s =
     (case run k (map (\<lambda>_. Error) (queue1 s)) (reported s) of
        Inl d \<Rightarrow> Inl (s\<lparr>reported := d\<rparr>)
      | Inr d \<Rightarrow> Inr (s\<lparr>reported := d\<rparr>))"

section \<open>Invariant\<close>

text \<open>A symbol is in a queue once, and its flag says so.\<close>

definition queued1 :: "('d, 'z) sema_scheme \<Rightarrow> bool" where
  "queued1 s \<longleftrightarrow> distinct (queue1 s) \<and> flagged1 s = set (queue1 s)"

definition queued2 :: "('d, 'z) sema_scheme \<Rightarrow> bool" where
  "queued2 s \<longleftrightarrow> distinct (queue2 s) \<and> flagged2 s = set (queue2 s)"

lemma addDeferredSemantic_queued: "queued1 s \<Longrightarrow> queued1 (addDeferredSemantic d s)"
  by (auto simp: queued1_def addDeferredSemantic_def)

lemma addDeferredSemantic_queue: "queued1 s \<Longrightarrow> set (queue1 (addDeferredSemantic d s)) = insert d (set (queue1 s))"
  by (auto simp: queued1_def addDeferredSemantic_def)

section \<open>Passes\<close>

text \<open>A pass on \<open>d\<close> finishes \<open>d\<close> or defers it; it finishes it when all the symbols that
  \<open>d\<close> needs are finished; and it keeps what is finished.  \<open>fin d z\<close> says so of the rest \<open>z\<close>
  of the state.\<close>

definition orderly :: "('d \<Rightarrow> 'z \<Rightarrow> bool) \<Rightarrow> ('d \<Rightarrow> 'd set) \<Rightarrow>
    ('d \<Rightarrow> ('d, 'z) sema_scheme \<Rightarrow> ('d, 'z) sema_scheme) \<Rightarrow> bool" where
  "orderly fin needs sem \<longleftrightarrow> (\<forall>d s. \<exists>z.
     (\<forall>e. fin e (sema.more s) \<longrightarrow> fin e z) \<and>
     (fin d z \<and> sem d s = s\<lparr>sema.more := z\<rparr> \<or>
      z = sema.more s \<and> sem d s = addDeferredSemantic d s \<and> (\<exists>e \<in> needs d. \<not> fin e (sema.more s))))"

lemma orderlyE:
  assumes "orderly fin needs sem"
  obtains (finish) z where "fin d z" "sem d s = s\<lparr>sema.more := z\<rparr>" "\<forall>e. fin e (sema.more s) \<longrightarrow> fin e z"
  | (postpone) e where "sem d s = addDeferredSemantic d s" "e \<in> needs d" "\<not> fin e (sema.more s)"
  using assms unfolding orderly_def by metis

lemma more_addDeferredSemantic [simp]: "sema.more (addDeferredSemantic d s) = sema.more s"
  "nested (addDeferredSemantic d s) = nested s"
  by (simp_all add: addDeferredSemantic_def)

text \<open>What a run of the pass over some symbols does to the queue.\<close>

definition ran :: "('d \<Rightarrow> 'z \<Rightarrow> bool) \<Rightarrow> ('d \<Rightarrow> 'd set) \<Rightarrow> 'd set \<Rightarrow> ('d, 'z) sema_scheme \<Rightarrow> ('d, 'z) sema_scheme \<Rightarrow> bool" where
  "ran fin needs D s t \<longleftrightarrow> queued1 t \<and> nested t = nested s \<and>
     set (queue1 s) \<subseteq> set (queue1 t) \<and> set (queue1 t) \<subseteq> set (queue1 s) \<union> D \<and>
     (\<forall>e. fin e (sema.more s) \<longrightarrow> fin e (sema.more t)) \<and>
     (\<forall>d \<in> D. d \<in> set (queue1 t) \<or> fin d (sema.more t)) \<and>
     (\<forall>d \<in> D. (\<forall>e \<in> needs d. fin e (sema.more s)) \<and> d \<notin> set (queue1 s) \<longrightarrow> d \<notin> set (queue1 t))"

lemma ran_one:
  assumes "orderly fin needs sem" "queued1 s" shows "ran fin needs {d} s (sem d s)"
  using assms(1)
proof (cases rule: orderlyE[of fin needs sem d s])
  case (finish z)
  then show ?thesis using assms(2) by (auto simp: ran_def queued1_def)
next
  case (postpone e)
  then show ?thesis using addDeferredSemantic_queued[OF assms(2), of d] addDeferredSemantic_queue[OF assms(2), of d]
    by (auto simp: ran_def)
qed

lemma ran_trans:
  assumes "ran fin needs C s t" "ran fin needs D t u" "C \<inter> D = {}"
  shows "ran fin needs (C \<union> D) s u"
  using assms unfolding ran_def by (intro conjI) (fastforce+)

lemma ran_fold:
  assumes "orderly fin needs sem"
  shows "queued1 s \<Longrightarrow> distinct ds \<Longrightarrow> ran fin needs (set ds) s (fold sem ds s)"
proof (induction ds arbitrary: s)
  case (Cons d ds)
  have one: "ran fin needs {d} s (sem d s)" by (rule ran_one[OF assms Cons.prems(1)])
  then have "ran fin needs (set ds) (sem d s) (fold sem ds (sem d s))"
    using Cons.IH Cons.prems by (simp add: ran_def)
  from ran_trans[OF one this] show ?case using Cons.prems(2) by simp
qed (simp add: ran_def)

section \<open>Rounds\<close>

text \<open>What the queue needs in a symbol is itself in the queue or finished.\<close>

definition needs_closed :: "('d \<Rightarrow> 'z \<Rightarrow> bool) \<Rightarrow> ('d \<Rightarrow> 'd set) \<Rightarrow> ('d, 'z) sema_scheme \<Rightarrow> bool" where
  "needs_closed fin needs s \<longleftrightarrow> (\<forall>d \<in> set (queue1 s). \<forall>e \<in> needs d. e \<in> set (queue1 s) \<or> fin e (sema.more s))"

text \<open>A round keeps the invariant, drops only finished symbols, and drops a symbol at least.\<close>

lemma round_ran:
  assumes "orderly fin needs sem" "queued1 s"
  shows "ran fin needs (set (queue1 s)) (s\<lparr>flagged1 := {}, queue1 := []\<rparr>) (run_round sem s)"
  using ran_fold[OF assms(1), of "s\<lparr>flagged1 := {}, queue1 := []\<rparr>" "queue1 s"] assms(2)
  by (simp add: run_round_def queued1_def)

lemma round_queue:
  assumes "orderly fin needs sem" "queued1 s" "needs_closed fin needs s"
  shows "queued1 (run_round sem s)" "needs_closed fin needs (run_round sem s)"
    "nested (run_round sem s) = nested s"
    "set (queue1 (run_round sem s)) \<subseteq> set (queue1 s)"
    "\<forall>e. fin e (sema.more s) \<longrightarrow> fin e (sema.more (run_round sem s))"
    "\<forall>d \<in> set (queue1 s). d \<in> set (queue1 (run_round sem s)) \<or> fin d (sema.more (run_round sem s))"
proof -
  note r = round_ran[OF assms(1,2), unfolded ran_def]
  show "queued1 (run_round sem s)" by (rule conjunct1[OF r])
  show "nested (run_round sem s) = nested s" by (rule conjunct1[OF conjunct2[OF r], simplified])
  show sub: "set (queue1 (run_round sem s)) \<subseteq> set (queue1 s)"
    using conjunct1[OF conjunct2[OF conjunct2[OF conjunct2[OF r]]]] by simp
  note rest = conjunct2[OF conjunct2[OF conjunct2[OF conjunct2[OF r]]]]
  show keep: "\<forall>e. fin e (sema.more s) \<longrightarrow> fin e (sema.more (run_round sem s))"
    using conjunct1[OF rest] by simp
  show split: "\<forall>d \<in> set (queue1 s). d \<in> set (queue1 (run_round sem s)) \<or> fin d (sema.more (run_round sem s))"
    by (rule conjunct1[OF conjunct2[OF rest]])
  show "needs_closed fin needs (run_round sem s)"
    using sub keep split assms(3) unfolding needs_closed_def by blast
qed

lemma round_shrinks:
  assumes "orderly fin needs sem" "queued1 s" "needs_closed fin needs s"
    and "wf {(e, d). e \<in> needs d}" and "queue1 s \<noteq> []"
  shows "length (queue1 (run_round sem s)) < length (queue1 s)"
proof -
  from assms(5) obtain q where "q \<in> set (queue1 s)" by (cases "queue1 s") auto
  then obtain d where d: "d \<in> set (queue1 s)" and low: "\<And>e. (e, d) \<in> {(e, d). e \<in> needs d} \<Longrightarrow> e \<notin> set (queue1 s)"
    by (rule wfE_min[OF assms(4)]) blast
  then have "\<forall>e \<in> needs d. e \<notin> set (queue1 s)" by simp
  with d assms(3) have "\<forall>e \<in> needs d. fin e (sema.more s)" unfolding needs_closed_def by blast
  with d have "d \<notin> set (queue1 (run_round sem s))"
    using round_ran[OF assms(1,2)] by (simp add: ran_def)
  with d round_queue(4)[OF assms(1-3)] have "set (queue1 (run_round sem s)) \<subset> set (queue1 s)" by blast
  then have "card (set (queue1 (run_round sem s))) < card (set (queue1 s))" by (simp add: psubset_card_mono)
  then show ?thesis
    using assms(2) round_queue(1)[OF assms(1-3)] by (simp add: queued1_def distinct_card)
qed

lemma rounds_finish:
  assumes "orderly fin needs sem" "wf {(e, d). e \<in> needs d}"
  shows "queued1 s \<Longrightarrow> needs_closed fin needs s \<Longrightarrow>
    \<exists>t. run_rounds sem s = Some t \<and> queue1 t = [] \<and> flagged1 t = {} \<and> nested t = nested s \<and>
      (\<forall>e. fin e (sema.more s) \<longrightarrow> fin e (sema.more t)) \<and> (\<forall>d \<in> set (queue1 s). fin d (sema.more t))"
proof (induction "length (queue1 s)" arbitrary: s rule: less_induct)
  case less
  show ?case
  proof (cases "queue1 s = []")
    case True
    then show ?thesis using less.prems by (simp add: run_rounds.simps[of sem s] queued1_def)
  next
    case False
    note step = round_queue[OF assms(1) less.prems]
    have short: "length (queue1 (run_round sem s)) < length (queue1 s)"
      by (rule round_shrinks[OF assms(1) less.prems assms(2) False])
    from less.hyps[OF short step(1,2)] obtain t where t:
      "run_rounds sem (run_round sem s) = Some t" "queue1 t = []" "flagged1 t = {}" "nested t = nested (run_round sem s)"
      "\<forall>e. fin e (sema.more (run_round sem s)) \<longrightarrow> fin e (sema.more t)"
      "\<forall>d \<in> set (queue1 (run_round sem s)). fin d (sema.more t)" by blast
    have "run_rounds sem s = Some t"
      using short False t(1) by (simp add: run_rounds.simps[of sem s] Let_def)
    with t step(3,5,6) show ?thesis by (metis (no_types, lifting))
  qed
qed

section \<open>Theorems\<close>

text \<open>C4: Under orderly passes without cyclic needs, deferred semantic analysis gets everything done.
  Suppose that the pass on a symbol either finishes it, undoing nothing and leaving the queues alone, or
  only defers that symbol because a symbol it needs is not finished (\<open>orderly\<close>),
  that the needs are well-founded (they have no cycle),
  and that what a queued symbol needs is queued or finished (\<open>needs_closed\<close>).  Then
  \<open>runDeferredSemantic\<close> returns, whatever the order of the queue, with every queued symbol finished,
  nothing lost of what was finished, an empty queue and all flags and the nesting counter reset, so
  main.d reports no forward reference.\<close>

theorem deferred_all_done:
  assumes "orderly fin needs sem" "wf {(e, d). e \<in> needs d}"
    and "queued1 s" "needs_closed fin needs s" "nested s = 0"
  shows "\<exists>t. runDeferredSemantic sem s = Some t \<and> queue1 t = [] \<and> flagged1 t = {} \<and> nested t = 0 \<and>
    (\<forall>e. fin e (sema.more s) \<longrightarrow> fin e (sema.more t)) \<and>
    (\<forall>d \<in> set (queue1 s). fin d (sema.more t)) \<and> report_unresolved k t = Inr t"
proof -
  from rounds_finish[OF assms(1,2), of "s\<lparr>nested := nested s + 1\<rparr>"] assms(3-5)
  obtain t where "run_rounds sem (s\<lparr>nested := nested s + 1\<rparr>) = Some t" "queue1 t = []" "flagged1 t = {}" "nested t = 1"
    "\<forall>e. fin e (sema.more s) \<longrightarrow> fin e (sema.more t)" "\<forall>d \<in> set (queue1 s). fin d (sema.more t)"
    by (auto simp: queued1_def needs_closed_def)
  then show ?thesis
    using assms(5) by (simp add: runDeferredSemantic_def report_unresolved_def)
qed

text \<open>The passes of a small compilation: the finished symbols are a set, \<open>countdown d\<close> needs the
  symbol \<open>d - 1\<close>.\<close>

definition countdown :: "nat \<Rightarrow> (nat, nat set) sema_scheme \<Rightarrow> (nat, nat set) sema_scheme" where
  "countdown d s =
     (if d = 0 \<or> d - 1 \<in> sema.more s then s\<lparr>sema.more := insert d (sema.more s)\<rparr> else addDeferredSemantic d s)"

definition needs_pred :: "nat \<Rightarrow> nat set" where
  "needs_pred d = (if d = 0 then {} else {d - 1})"

lemma countdown_orderly: "orderly (\<in>) needs_pred countdown"
proof -
  have "\<exists>z. (\<forall>e. e \<in> sema.more s \<longrightarrow> e \<in> z) \<and>
     (d \<in> z \<and> countdown d s = s\<lparr>sema.more := z\<rparr> \<or>
      z = sema.more s \<and> countdown d s = addDeferredSemantic d s \<and> (\<exists>e \<in> needs_pred d. e \<notin> sema.more s))" for d s
    by (rule exI[of _ "if d = 0 \<or> d - 1 \<in> sema.more s then insert d (sema.more s) else sema.more s"])
      (simp add: countdown_def needs_pred_def)
  then show ?thesis by (simp add: orderly_def)
qed

lemma needs_pred_wf: "wf {(e, d). e \<in> needs_pred d}"
  by (rule wf_subset[OF wf_less]) (auto simp: needs_pred_def split: if_splits)

definition three_queued :: "(nat, nat set) sema_scheme" where
  "three_queued = \<lparr>queue1 = [2, 1, 0], queue2 = [], queue3 = [], flagged1 = {0, 1, 2}, flagged2 = {}, flagged3 = {},
     nested = 0, reported = fresh_diag, \<dots> = {}\<rparr>"

theorem deferred_all_done_witness:
  "\<exists>t. runDeferredSemantic countdown three_queued = Some t \<and> queue1 t = [] \<and> flagged1 t = {} \<and> nested t = 0 \<and>
    (\<forall>e. e \<in> sema.more three_queued \<longrightarrow> e \<in> sema.more t) \<and>
    (\<forall>d \<in> set (queue1 three_queued). d \<in> sema.more t) \<and> report_unresolved default_sink t = Inr t"
  by (rule deferred_all_done[OF countdown_orderly needs_pred_wf])
    (auto simp: queued1_def needs_closed_def needs_pred_def three_queued_def)

lemma last_round:
  assumes "queue1 s \<noteq> []" "queue1 (run_round sem s) = []"
  shows "run_rounds sem s = Some (run_round sem s)"
  using assms by (simp add: run_rounds.simps[of sem s] run_rounds.simps[of sem "run_round sem s"] Let_def)

text \<open>The counters after the reports, whether or not they ended the compiler.\<close>

definition diag_of :: "('d, 'z) sema_scheme + ('d, 'z) sema_scheme \<Rightarrow> diag" where
  "diag_of r = reported (case r of Inl s \<Rightarrow> s | Inr s \<Rightarrow> s)"

lemma single_report:
  "queue1 t = [b] \<Longrightarrow> errors (diag_of (report_unresolved k t)) = errors (reported t) + 1"
  by (auto simp: report_unresolved_def diag_of_def verror_def count_error_def Let_def rbind_def split: sum.splits if_splits)

text \<open>C35: the loop mistakes progress for a standstill.  When the only queued symbol \<open>a\<close> is finished
  by its round but the pass defers another symbol \<open>b\<close> meanwhile, the queue is as long as before, so
  \<open>runDeferredSemantic\<close> stops and main.d reports a forward reference for \<open>b\<close>, although one more
  round would have emptied the queue.\<close>

theorem progress_missed:
  assumes "queue1 s = [a]" "nested s = 0"
    and "queue1 (sem a (s\<lparr>nested := 1, flagged1 := flagged1 s - {a}, queue1 := []\<rparr>)) = [b]"
    and "nested (sem a (s\<lparr>nested := 1, flagged1 := flagged1 s - {a}, queue1 := []\<rparr>)) = 1"
    and "\<And>t. queue1 t = [] \<Longrightarrow> queue1 (sem b t) = []"
  shows "\<exists>t. runDeferredSemantic sem s = Some t \<and> queue1 t = [b] \<and> nested t = 0 \<and>
    errors (diag_of (report_unresolved k t)) = errors (reported t) + 1 \<and>
    (\<exists>u. runDeferredSemantic sem t = Some u \<and> queue1 u = [])"
proof -
  let ?t = "(run_round sem (s\<lparr>nested := 1\<rparr>))\<lparr>nested := 0\<rparr>"
  have round: "queue1 (run_round sem (s\<lparr>nested := 1\<rparr>)) = [b]" "nested (run_round sem (s\<lparr>nested := 1\<rparr>)) = 1"
    using assms(1,3,4) by (simp_all add: run_round_def)
  have first: "runDeferredSemantic sem s = Some ?t"
    using assms(1,2) round by (simp add: runDeferredSemantic_def run_rounds.simps[of sem "s\<lparr>nested := 1\<rparr>"] Let_def)
  have again: "queue1 (run_round sem (?t\<lparr>nested := 1\<rparr>)) = []"
    using round assms(5) by (simp add: run_round_def)
  have "run_rounds sem (?t\<lparr>nested := 1\<rparr>) = Some (run_round sem (?t\<lparr>nested := 1\<rparr>))"
    by (rule last_round[OF _ again]) (use round(1) in simp)
  then have "\<exists>u. runDeferredSemantic sem ?t = Some u \<and> queue1 u = []"
    using again by (simp add: runDeferredSemantic_def)
  with first round(1) show ?thesis by (simp add: single_report)
qed

text \<open>A pass that finishes every symbol, and defers the symbol 1 when it runs on the symbol 0.\<close>

definition spawning :: "nat \<Rightarrow> (nat, nat set) sema_scheme \<Rightarrow> (nat, nat set) sema_scheme" where
  "spawning d s =
     (let s2 = s\<lparr>sema.more := insert d (sema.more s)\<rparr> in if d = 0 then addDeferredSemantic 1 s2 else s2)"

definition one_queued :: "(nat, nat set) sema_scheme" where
  "one_queued = \<lparr>queue1 = [0], queue2 = [], queue3 = [], flagged1 = {0}, flagged2 = {}, flagged3 = {},
     nested = 0, reported = fresh_diag, \<dots> = {}\<rparr>"

theorem progress_missed_witness:
  "\<exists>t. runDeferredSemantic spawning one_queued = Some t \<and> queue1 t = [1] \<and> nested t = 0 \<and>
    errors (diag_of (report_unresolved default_sink t)) = errors (reported t) + 1 \<and>
    (\<exists>u. runDeferredSemantic spawning t = Some u \<and> queue1 u = [])"
  by (rule progress_missed[of one_queued 0])
    (auto simp: one_queued_def spawning_def addDeferredSemantic_def Let_def)

end
