(* ===== verification/Cmd_State.thy ===== *)
theory Cmd_State
  imports Chars Diagnostics
begin

text \<open>
  What the command line sets: struct \<open>Param\<close> of globals.h with \<open>Help\<close>, \<open>Verbose\<close> and \<open>Output\<close>, the
  enumerations of its fields, \<open>DMDparams\<close> of dmdparams.d and the part of \<open>Target\<close> that switches
  change.  The fields of \<open>Param\<close> are grouped into records in the order of the header.  Strings and
  arrays that are null in the code are empty lists here.
\<close>

section \<open>Enumerations\<close>

datatype CHECKENABLE = CHECKENABLEdefault | CHECKENABLEoff | CHECKENABLEon | CHECKENABLEsafeonly

datatype CHECKACTION = CHECKACTION_D | CHECKACTION_C | CHECKACTION_halt | CHECKACTION_context

datatype FeatureState = Feature_default | Feature_disabled | Feature_enabled

datatype CLIIdentifierTable = Table_default | Table_C99 | Table_C11 | Table_UAX31 | Table_All

datatype MessageStyle = Style_digitalmars | Style_gnu | Style_sarif

datatype ErrorPrintMode = Print_simpleError | Print_printErrorContext

datatype CppStdRevision = CppStdRevisionCpp98 | CppStdRevisionCpp11 | CppStdRevisionCpp14
  | CppStdRevisionCpp17 | CppStdRevisionCpp20 | CppStdRevisionCpp23

type_synonym Edition = u16

definition Edition_v2023 :: Edition where "Edition_v2023 = 2023"
definition Edition_v2025 :: Edition where "Edition_v2025 = 2025"

text \<open>\<open>JsonFieldFlags\<close> by name; 0 is the answer for an unknown one.\<close>

definition tryParseJsonField :: "string \<Rightarrow> u32" where
  "tryParseJsonField s =
     (if s = ''compilerInfo'' then 1 else if s = ''buildInfo'' then 2 else if s = ''modules'' then 4
      else if s = ''semantics'' then 8 else 0)"

datatype PIC = PIC_fixed | PIC_pic | PIC_pie

datatype ExpVis = ExpVis_default | ExpVis_hidden | ExpVis_public

datatype SymImport = SymImport_none | SymImport_defaultLibsOnly | SymImport_externalOnly | SymImport_all

datatype CPU = CPU_x87 | CPU_mmx | CPU_sse | CPU_sse2 | CPU_sse3 | CPU_ssse3 | CPU_sse4_1 | CPU_sse4_2
  | CPU_avx | CPU_avx2 | CPU_avx512 | CPU_baseline | CPU_native

type_synonym OS = u8

definition OS_linux :: OS where "OS_linux = 1"
definition OS_Windows :: OS where "OS_Windows = 2"
definition OS_OSX :: OS where "OS_OSX = 4"
definition OS_OpenBSD :: OS where "OS_OpenBSD = 8"
definition OS_FreeBSD :: OS where "OS_FreeBSD = 0x10"
definition OS_Solaris :: OS where "OS_Solaris = 0x20"
definition OS_DragonFlyBSD :: OS where "OS_DragonFlyBSD = 0x40"
definition OS_Hurd :: OS where "OS_Hurd = 0x80"

text \<open>The compiler is taken to run on linux.\<close>

definition defaultTargetOS :: OS where "defaultTargetOS = OS_linux"

lemmas OS_defs = OS_linux_def OS_Windows_def OS_OSX_def OS_OpenBSD_def OS_FreeBSD_def OS_Solaris_def
  OS_DragonFlyBSD_def OS_Hurd_def

section \<open>Parameters\<close>

record output_file =
  doOutput :: bool
  fullOutput :: bool
  output_dir :: string
  output_name :: string
  output_files :: "string list"
  output_buffer :: bool
  bufferLines :: int

record help_switches =
  help_manual :: bool
  help_usage :: bool
  help_mcpu :: bool
  help_transition :: bool
  help_check :: bool
  help_checkAction :: bool
  help_revert :: bool
  help_preview :: bool
  help_externStd :: bool
  help_hc :: bool

record verbosity =
  v_verbose :: bool
  v_showColumns :: bool
  v_tls :: bool
  v_nanInit :: bool
  v_templates :: bool
  v_templatesListInstances :: bool
  v_gc :: bool
  v_field :: bool
  v_complex :: bool
  v_vin :: bool
  v_logo :: bool
  v_color :: bool
  v_cov :: bool
  v_errorPrintMode :: ErrorPrintMode
  v_messageStyle :: MessageStyle
  v_errorLimit :: u32
  v_errorSupplementLimit :: u32

record generation =
  obj :: bool
  readStdin :: bool
  multiobj :: bool
  trace :: bool
  tracegc :: bool
  vcg_ast :: bool
  useUnitTests :: bool
  useUnitTestsRootOnly :: bool
  useInline :: bool
  release :: bool
  preservePaths :: bool
  cov :: bool
  covPercent :: u8
  ctfe_cov :: bool
  ignoreUnsupportedPragmas :: bool
  useModuleInfo :: bool
  useTypeInfo :: bool
  useExceptions :: bool
  useGC :: bool
  betterC :: bool
  addMain :: bool
  allInst :: bool
  bitfields :: bool
  nothrowOptimizations :: bool
  cplusplus :: CppStdRevision

record features =
  edition :: Edition
  editionFiles :: "(string \<times> Edition) list"
  useDIP25 :: FeatureState
  useDIP1000 :: FeatureState
  ehnogc :: bool
  useDIP1021 :: bool
  fieldwise :: FeatureState
  fixAliasThis :: bool
  rvalueRefParam :: FeatureState
  safer :: FeatureState
  noSharedAccess :: FeatureState
  previewIn :: bool
  inclusiveInContracts :: bool
  shortenedMethods :: bool
  fixImmutableConv :: bool
  fix16997 :: bool
  dtorFields :: FeatureState
  systemVariables :: FeatureState
  useFastDFA :: bool

record checks =
  useInvariants :: CHECKENABLE
  useIn :: CHECKENABLE
  useOut :: CHECKENABLE
  useArrayBounds :: CHECKENABLE
  useNullCheck :: CHECKENABLE
  useAssert :: CHECKENABLE
  useSwitchError :: CHECKENABLE
  boundscheck :: CHECKENABLE
  checkAction :: CHECKACTION

datatype ImportPathInfo = ImportPathInfo (import_path: string) (isOutOfBinary: bool)

record paths =
  dIdentifierTable :: CLIIdentifierTable
  cIdentifierTable :: CLIIdentifierTable
  argv0 :: string
  modFileAliasStrings :: "string list"
  imppath :: "ImportPathInfo list"
  fileImppath :: "string list"
  objdir :: string
  objname :: string
  libname :: string

record outputs =
  ddoc :: output_file
  dihdr :: output_file
  cxxhdr :: output_file
  json :: output_file
  jsonFieldFlags :: u32
  makeDeps :: output_file
  mixinOut :: output_file
  moduleDeps :: output_file

record running =
  debugEnabled :: bool
  run_program :: bool
  runargs :: "string list"
  cppswitches :: "string list"
  cpp :: string

record linking =
  objfiles :: "string list"
  linkswitches :: "string list"
  linkswitchIsForCC :: "bool list"
  libfiles :: "string list"
  dllfiles :: "string list"
  deffile :: string
  resfile :: string
  exefile :: string
  mapfile :: string
  fullyQualifiedObjectFiles :: bool
  timeTrace :: bool
  timeTraceGranularityUs :: u32
  timeTraceFile :: string

record Param =
  generation_of :: generation
  help_of :: help_switches
  verbosity_of :: verbosity
  features_of :: features
  checks_of :: checks
  paths_of :: paths
  outputs_of :: outputs
  running_of :: running
  linking_of :: linking

record DMDparams =
  alwaysframe :: bool
  dwarf :: u8
  linker_map :: bool
  vasm :: bool
  dll :: bool
  lib :: bool
  link :: bool
  oneobj :: bool
  optimize_code :: bool
  nofloat :: bool
  ibt :: bool
  pic :: PIC
  stackstomp :: bool
  exportVisibility :: ExpVis
  symImport :: SymImport
  symdebug :: bool
  symdebugref :: bool
  vasmName :: string
  defaultlibname :: string
  debuglibname :: string
  mscrtlib :: string
  debugb :: bool
  debugc :: bool
  debugf :: bool
  debugr :: bool
  debugx :: bool
  debugy :: bool

record Target =
  os :: OS
  cpu :: CPU
  isAArch64 :: bool
  isX86_64 :: bool
  isX86 :: bool

text \<open>The number of supplemental messages of an error; 0 means unlimited.\<close>

definition errorSupplementCount :: "verbosity \<Rightarrow> u32" where
  "errorSupplementCount v = (if v_verbose v then - 1 else if v_errorSupplementLimit v = 0 then - 1
     else v_errorSupplementLimit v)"

section \<open>The state of the driver\<close>

text \<open>What the error sink is told, without the texts.\<close>

datatype report = Unrecognized_switch | Argument_expected | Invalid_switch | Requires_value
  | Bad_argument | Reserved_version | No_longer_effective | Conflict

record cmd =
  params :: Param
  driver :: DMDparams
  target :: Target
  sink :: error_sink
  files :: "string list"
  includeImports :: bool
  includeModulePatterns :: "string list"
  debugids :: "string list"
  versionids :: "string list"
  reports :: "report list"
  errors_found :: bool

abbreviation on_generation where "on_generation f \<equiv> params_update (generation_of_update f)"
abbreviation on_help where "on_help f \<equiv> params_update (help_of_update f)"
abbreviation on_verbosity where "on_verbosity f \<equiv> params_update (verbosity_of_update f)"
abbreviation on_features where "on_features f \<equiv> params_update (features_of_update f)"
abbreviation on_checks where "on_checks f \<equiv> params_update (checks_of_update f)"
abbreviation on_paths where "on_paths f \<equiv> params_update (paths_of_update f)"
abbreviation on_outputs where "on_outputs f \<equiv> params_update (outputs_of_update f)"
abbreviation on_running where "on_running f \<equiv> params_update (running_of_update f)"
abbreviation on_linking where "on_linking f \<equiv> params_update (linking_of_update f)"

abbreviation yes :: "bool \<Rightarrow> bool" where "yes \<equiv> \<lambda>_. True"
abbreviation no :: "bool \<Rightarrow> bool" where "no \<equiv> \<lambda>_. False"
abbreviation put :: "'a \<Rightarrow> 'a \<Rightarrow> 'a" where "put x \<equiv> \<lambda>_. x"
abbreviation push :: "'a \<Rightarrow> 'a list \<Rightarrow> 'a list" where "push x \<equiv> \<lambda>xs. xs @ [x]"

abbreviation params_generation where "params_generation s \<equiv> generation_of (params s)"
abbreviation params_verbosity where "params_verbosity s \<equiv> verbosity_of (params s)"
abbreviation params_features where "params_features s \<equiv> features_of (params s)"
abbreviation params_checks where "params_checks s \<equiv> checks_of (params s)"
abbreviation params_outputs where "params_outputs s \<equiv> outputs_of (params s)"
abbreviation params_linking where "params_linking s \<equiv> linking_of (params s)"

text \<open>The sink reports without ending the switch; \<open>error\<close> also marks the command line as bad.\<close>

definition tell :: "report \<Rightarrow> cmd \<Rightarrow> cmd" where "tell k s = s\<lparr>reports := reports s @ [k]\<rparr>"

definition error :: "report \<Rightarrow> cmd \<Rightarrow> cmd" where "error k s = (tell k s)\<lparr>errors_found := True\<rparr>"

section \<open>Initial values\<close>

definition no_output :: output_file where
  "no_output = \<lparr>doOutput = False, fullOutput = False, output_dir = [], output_name = [], output_files = [],
     output_buffer = False, bufferLines = 0\<rparr>"

definition Param_init :: Param where
  "Param_init = \<lparr>
     generation_of = \<lparr>obj = True, readStdin = False, multiobj = False, trace = False, tracegc = False,
       vcg_ast = False, useUnitTests = False, useUnitTestsRootOnly = False, useInline = False, release = False,
       preservePaths = False, cov = False, covPercent = 0, ctfe_cov = False, ignoreUnsupportedPragmas = True,
       useModuleInfo = True, useTypeInfo = True, useExceptions = True, useGC = True, betterC = False,
       addMain = False, allInst = False, bitfields = True, nothrowOptimizations = False,
       cplusplus = CppStdRevisionCpp11\<rparr>,
     help_of = \<lparr>help_manual = False, help_usage = False, help_mcpu = False, help_transition = False,
       help_check = False, help_checkAction = False, help_revert = False, help_preview = False,
       help_externStd = False, help_hc = False\<rparr>,
     verbosity_of = \<lparr>v_verbose = False, v_showColumns = False, v_tls = False, v_nanInit = False,
       v_templates = False, v_templatesListInstances = False, v_gc = False, v_field = False, v_complex = True,
       v_vin = False, v_logo = False, v_color = False, v_cov = False, v_errorPrintMode = Print_simpleError,
       v_messageStyle = Style_digitalmars, v_errorLimit = 20, v_errorSupplementLimit = 6\<rparr>,
     features_of = \<lparr>edition = Edition_v2023, editionFiles = [], useDIP25 = Feature_enabled,
       useDIP1000 = Feature_default, ehnogc = False, useDIP1021 = False, fieldwise = Feature_default,
       fixAliasThis = False, rvalueRefParam = Feature_default, safer = Feature_default,
       noSharedAccess = Feature_default, previewIn = False, inclusiveInContracts = False,
       shortenedMethods = True, fixImmutableConv = False, fix16997 = True, dtorFields = Feature_default,
       systemVariables = Feature_default, useFastDFA = False\<rparr>,
     checks_of = \<lparr>useInvariants = CHECKENABLEdefault, useIn = CHECKENABLEdefault, useOut = CHECKENABLEdefault,
       useArrayBounds = CHECKENABLEdefault, useNullCheck = CHECKENABLEdefault, useAssert = CHECKENABLEdefault,
       useSwitchError = CHECKENABLEdefault, boundscheck = CHECKENABLEdefault, checkAction = CHECKACTION_D\<rparr>,
     paths_of = \<lparr>dIdentifierTable = Table_default, cIdentifierTable = Table_default, argv0 = [],
       modFileAliasStrings = [], imppath = [], fileImppath = [], objdir = [], objname = [], libname = []\<rparr>,
     outputs_of = \<lparr>ddoc = no_output, dihdr = no_output, cxxhdr = no_output, json = no_output,
       jsonFieldFlags = 0, makeDeps = no_output, mixinOut = no_output, moduleDeps = no_output\<rparr>,
     running_of = \<lparr>debugEnabled = False, run_program = False, runargs = [], cppswitches = [], cpp = []\<rparr>,
     linking_of = \<lparr>objfiles = [], linkswitches = [], linkswitchIsForCC = [], libfiles = [], dllfiles = [],
       deffile = [], resfile = [], exefile = [], mapfile = [], fullyQualifiedObjectFiles = False,
       timeTrace = False, timeTraceGranularityUs = 500, timeTraceFile = []\<rparr>\<rparr>"

definition DMDparams_init :: DMDparams where
  "DMDparams_init = \<lparr>alwaysframe = False, dwarf = 0, linker_map = False, vasm = False, dll = False, lib = False,
     link = True, oneobj = False, optimize_code = False, nofloat = False, ibt = False, pic = PIC_fixed,
     stackstomp = False, exportVisibility = ExpVis_hidden, symImport = SymImport_none, symdebug = False,
     symdebugref = False, vasmName = [], defaultlibname = [], debuglibname = [], mscrtlib = [],
     debugb = False, debugc = False, debugf = False, debugr = False, debugx = False, debugy = False\<rparr>"

definition cmd_init :: cmd where
  "cmd_init = \<lparr>params = Param_init, driver = DMDparams_init,
     target = \<lparr>os = OS_linux, cpu = CPU_baseline, isAArch64 = False, isX86_64 = True, isX86 = False\<rparr>,
     sink = \<lparr>errorLimit = 20, useWarnings = Diag_off, useDeprecated = Diag_inform, showGaggedErrors = False\<rparr>,
     files = [], includeImports = False, includeModulePatterns = [], debugids = [], versionids = [],
     reports = [], errors_found = False\<rparr>"

end
