(* ===== verification/Cmd_Line.thy ===== *)
theory Cmd_Line
  imports Cmd_State
begin

text \<open>
  \<open>parseCommandLine\<close> of mars.d and \<open>reconcileCommands\<close> of main.d.  The chain of \<open>else if\<close> of the
  former is cut into groups of switches, in the order of the code; a group gives \<open>None\<close> for a
  switch that is not its own.  A read behind the terminating 0 of an argument, and an index or a
  slice out of range, is the fault \<open>Out_Of_Bounds\<close>.  \<open>-target=\<close> with a triple and names with
  characters outside ASCII are \<open>Not_in_model\<close>.
\<close>

section \<open>Strings\<close>

text \<open>\<open>p + k\<close>, or the slice from \<open>k\<close> on, and the character there.\<close>

definition suffix_at :: "string \<Rightarrow> nat \<Rightarrow> fault + string" where
  "suffix_at p k = (if k \<le> length p then Inr (drop k p) else Inl Out_Of_Bounds)"

abbreviation (input) char_at :: "string \<Rightarrow> nat \<Rightarrow> fault + char" where
  "char_at p k \<equiv> rbind (suffix_at p k) (\<lambda>q. Inr (at q))"

definition startsWith :: "string \<Rightarrow> string \<Rightarrow> bool" where
  "startsWith p needle \<longleftrightarrow> take (length needle) p = needle"

text \<open>\<open>Identifier.isValidIdentifier\<close>; \<open>None\<close> when the answer depends on characters outside ASCII.\<close>

primrec valid_rest :: "string \<Rightarrow> bool option" where
  "valid_rest [] = Some True"
| "valid_rest (c # cs) =
     (if isidchar c then valid_rest cs else if 128 \<le> char_code c then None else Some False)"

definition isValidIdentifier :: "string \<Rightarrow> bool option" where
  "isValidIdentifier s = (if s = [] \<or> isdigit (hd s) then Some False else valid_rest s)"

text \<open>\<open>FileName.ext\<close> on a Posix host; \<open>None\<close> is null.\<close>

primrec ext_rev :: "string \<Rightarrow> string \<Rightarrow> string option" where
  "ext_rev [] e = None"
| "ext_rev (c # cs) e = (if c = CHR ''.'' then Some e else if c = CHR ''/'' then None else ext_rev cs (c # e))"

definition ext :: "string \<Rightarrow> string option" where "ext s = ext_rev (rev s) []"

section \<open>Numbers\<close>

text \<open>\<open>parseDigits\<close> of utils.d for \<open>uint\<close>, and for types below the size of \<open>int\<close>.\<close>

definition addu32 :: "u32 \<Rightarrow> u32 \<Rightarrow> bool \<Rightarrow> u32 \<times> bool" where
  "addu32 x y overflow = (let r = x + y in (r, overflow \<or> r < x))"

definition mulu32 :: "u32 \<Rightarrow> u32 \<Rightarrow> bool \<Rightarrow> u32 \<times> bool" where
  "mulu32 x y overflow = (let r = (ucast x :: u64) * ucast y in (ucast r, overflow \<or> drop_bit 32 r \<noteq> 0))"

definition adds32 :: "u32 \<Rightarrow> u32 \<Rightarrow> bool \<Rightarrow> u32 \<times> bool" where
  "adds32 x y overflow =
     (let r = (scast x :: u64) + scast y in (ucast r, overflow \<or> sint r < - (2 ^ 31) \<or> 2 ^ 31 - 1 < sint r))"

definition muls32 :: "u32 \<Rightarrow> u32 \<Rightarrow> bool \<Rightarrow> u32 \<times> bool" where
  "muls32 x y overflow =
     (let r = (scast x :: u64) * scast y in (ucast r, overflow \<or> sint r < - (2 ^ 31) \<or> 2 ^ 31 - 1 < sint r))"

primrec digits_loop :: "(u32 \<Rightarrow> u32 \<Rightarrow> bool \<Rightarrow> u32 \<times> bool) \<Rightarrow> (u32 \<Rightarrow> u32 \<Rightarrow> bool \<Rightarrow> u32 \<times> bool) \<Rightarrow>
    string \<Rightarrow> u32 \<Rightarrow> bool \<Rightarrow> (u32 \<times> bool) option" where
  "digits_loop add mul [] v overflow = Some (v, overflow)"
| "digits_loop add mul (c # cs) v overflow =
     (if \<not> isdigit c then None
      else (let (v1, o1) = mul v 10 overflow; (v2, o2) = add v1 (of_nat (char_code c - 48)) o1 in
        digits_loop add mul cs v2 o2))"

text \<open>The variable is written even when the number is too large; the flag says whether it is not.\<close>

definition parseDigits_uint :: "u32 \<Rightarrow> string \<Rightarrow> u32 \<Rightarrow> u32 \<times> bool" where
  "parseDigits_uint old p m =
     (case digits_loop addu32 mulu32 p 0 False of
        None \<Rightarrow> (old, False)
      | Some (v, overflow) \<Rightarrow> (v, \<not> overflow \<and> v \<le> m))"

definition parseDigits_small :: "'a::len word \<Rightarrow> string \<Rightarrow> 'a word \<Rightarrow> 'a word \<times> bool" where
  "parseDigits_small old p m =
     (case digits_loop adds32 muls32 p 0 False of
        None \<Rightarrow> (old, False)
      | Some (v, overflow) \<Rightarrow> (ucast v, \<not> overflow \<and> sint v \<le> uint m))"

section \<open>Outcomes\<close>

text \<open>After a switch: the next argument, the end of the loop, or the end of the function.\<close>

datatype cmd_error = Fault fault | Not_in_model

datatype step = Next cmd | Leave cmd | Return bool cmd

type_synonym outcome = "cmd_error + step"

definition reading :: "fault + 'a \<Rightarrow> ('a \<Rightarrow> outcome) \<Rightarrow> outcome" where
  "reading m f = (case m of Inl e \<Rightarrow> Inl (Fault e) | Inr x \<Rightarrow> f x)"

abbreviation go :: "cmd \<Rightarrow> outcome" where "go s \<equiv> Inr (Next s)"
abbreviation quit :: "bool \<Rightarrow> cmd \<Rightarrow> outcome" where "quit b s \<equiv> Inr (Return b s)"

text \<open>The labels at the end of the chain.\<close>

definition Lerror :: "cmd \<Rightarrow> outcome" where "Lerror s = go (error Unrecognized_switch s)"
definition Lnoarg :: "cmd \<Rightarrow> outcome" where "Lnoarg s = go (error Argument_expected s)"

text \<open>\<open>checkOptions\<close> with its mixin: \<open>q\<close> is the argument from before the \<open>=\<close> on.\<close>

definition checkOptions :: "string \<Rightarrow> ((bool \<Rightarrow> bool) \<Rightarrow> help_switches \<Rightarrow> help_switches) \<Rightarrow> cmd \<Rightarrow> outcome \<Rightarrow> outcome" where
  "checkOptions q usage s k =
     (if q = [] \<or> q = ''='' then quit False (on_help (usage yes) (error Requires_value s))
      else if hd q \<noteq> CHR ''='' then Lerror s
      else if tl q \<in> {''h'', ''?'', ''help''} then quit False (on_help (usage yes) s)
      else k)"

text \<open>A choice among names.\<close>

definition pick_option :: "string \<Rightarrow> (string \<times> (cmd \<Rightarrow> cmd)) list \<Rightarrow> cmd \<Rightarrow> outcome \<Rightarrow> outcome" where
  "pick_option q options s fallback = (case map_of options q of Some f \<Rightarrow> go (f s) | None \<Rightarrow> fallback)"

definition with_identifier :: "string \<Rightarrow> outcome \<Rightarrow> outcome \<Rightarrow> outcome" where
  "with_identifier q valid invalid =
     (case isValidIdentifier q of None \<Rightarrow> Inl Not_in_model | Some b \<Rightarrow> if b then valid else invalid)"

section \<open>Switches\<close>

text \<open>\<open>-check=\<close>: one of the seven checks, or all of them.\<close>

definition check_value :: "string \<Rightarrow> CHECKENABLE option" where
  "check_value q = (if q = [] \<or> q = ''=on'' then Some CHECKENABLEon
     else if q = ''=off'' then Some CHECKENABLEoff
     else if q = ''=safeonly'' then Some CHECKENABLEsafeonly else None)"

definition check_named :: "string \<Rightarrow> string \<Rightarrow> CHECKENABLE option" where
  "check_named q x = (if startsWith q x then check_value (drop (length x) q) else None)"

definition check_names :: "(string \<times> (CHECKENABLE \<Rightarrow> checks \<Rightarrow> checks)) list" where
  "check_names = [
     (''assert'', \<lambda>c. useAssert_update (put c)), (''bounds'', \<lambda>c. useArrayBounds_update (put c)),
     (''in'', \<lambda>c. useIn_update (put c)), (''invariant'', \<lambda>c. useInvariants_update (put c)),
     (''out'', \<lambda>c. useOut_update (put c)), (''switch'', \<lambda>c. useSwitchError_update (put c)),
     (''nullderef'', \<lambda>c. useNullCheck_update (put c))]"

definition check_all :: "CHECKENABLE \<Rightarrow> checks \<Rightarrow> checks" where
  "check_all c k = k\<lparr>useAssert := c, useArrayBounds := c, useIn := c, useInvariants := c, useOut := c,
     useSwitchError := c, useNullCheck := c\<rparr>"

primrec check_search :: "string \<Rightarrow> (string \<times> (CHECKENABLE \<Rightarrow> checks \<Rightarrow> checks)) list \<Rightarrow> (checks \<Rightarrow> checks) option" where
  "check_search q [] = None"
| "check_search q (x # xs) =
     (case check_named q (fst x) of Some c \<Rightarrow> Some (snd x c) | None \<Rightarrow> check_search q xs)"

definition check_switch :: "string \<Rightarrow> cmd \<Rightarrow> outcome" where
  "check_switch q s =
     (if q = ''on'' then go (on_checks (check_all CHECKENABLEon) s)
      else if q = ''off'' then go (on_checks (check_all CHECKENABLEoff) s)
      else (case check_search q check_names of
          Some f \<Rightarrow> go (on_checks f s)
        | None \<Rightarrow> quit False (on_help (help_check_update yes) (error Invalid_switch s))))"

definition checkaction_switch :: "string \<Rightarrow> cmd \<Rightarrow> outcome" where
  "checkaction_switch q s = pick_option q [
     (''D'', on_checks (checkAction_update (put CHECKACTION_D))),
     (''C'', on_checks (checkAction_update (put CHECKACTION_C))),
     (''halt'', on_checks (checkAction_update (put CHECKACTION_halt))),
     (''context'', on_checks (checkAction_update (put CHECKACTION_context)))] s
     (quit False (on_help (help_checkAction_update yes) (error Invalid_switch s)))"

definition color_switch :: "string \<Rightarrow> cmd \<Rightarrow> outcome" where
  "color_switch p s =
     reading (char_at p 6) (\<lambda>c.
     if c = CHR ''='' then
       reading (suffix_at p 7) (\<lambda>q. pick_option q [(''on'', on_verbosity (v_color_update yes)),
         (''off'', on_verbosity (v_color_update no)), (''auto'', id)] s (quit True (error Invalid_switch s)))
     else if c \<noteq> CHR 0x00 then Lerror s
     else go (on_verbosity (v_color_update yes) s))"

definition cov_switch :: "string \<Rightarrow> cmd \<Rightarrow> outcome" where
  "cov_switch p s0 =
     (let s = on_generation (cov_update yes) s0 in
      if p = ''-cov=ctfe'' then go (on_generation (ctfe_cov_update yes) s)
      else reading (char_at p 4) (\<lambda>c.
        if c = CHR ''='' then
          reading (suffix_at p 5) (\<lambda>q.
            let (v, ok) = parseDigits_small (covPercent (params_generation s)) q 100;
                s2 = on_generation (covPercent_update (put v)) s in
            if ok then go s2 else quit True (error Invalid_switch s2))
        else if c \<noteq> CHR 0x00 then Lerror s
        else go s))"

definition visibility_switch :: "string \<Rightarrow> cmd \<Rightarrow> outcome" where
  "visibility_switch q s = pick_option q [
     (''default'', driver_update (exportVisibility_update (put ExpVis_default))),
     (''hidden'', driver_update (exportVisibility_update (put ExpVis_hidden))),
     (''public'', driver_update (exportVisibility_update (put ExpVis_public)))] s (go (error Bad_argument s))"

definition dllimport_switch :: "string \<Rightarrow> cmd \<Rightarrow> outcome" where
  "dllimport_switch q s = pick_option q [
     (''none'', driver_update (symImport_update (put SymImport_none))),
     (''defaultLibsOnly'', driver_update (symImport_update (put SymImport_defaultLibsOnly))),
     (''externalOnly'', driver_update (symImport_update (put SymImport_externalOnly))),
     (''all'', driver_update (symImport_update (put SymImport_all)))] s (go (error Bad_argument s))"

definition edition_switch :: "string \<Rightarrow> cmd \<Rightarrow> outcome" where
  "edition_switch p s =
     (let (v, ok) = (if 9 + 4 \<le> length p
            then parseDigits_small (edition (params_features s)) (take 4 (drop 9 p)) Edition_v2025
            else (edition (params_features s), True));
          s1 = on_features (edition_update (put v)) s;
          s2 = (if \<not> ok \<or> v < Edition_v2023 then error Bad_argument s1 else s1) in
      if 1 + 7 + 1 + 4 < length p then
        reading (suffix_at p (1 + 7 + 1 + 4)) (\<lambda>filename.
          go (error Bad_argument (on_features (editionFiles_update (push (filename, v)))
            (files_update (push filename) s2))))
      else go s2)"

definition switches_1 :: "string \<Rightarrow> cmd \<Rightarrow> outcome option" where
  "switches_1 p s =
     (if p = ''-allinst'' then Some (go (on_generation (allInst_update yes) s))
      else if startsWith (tl p) ''cpp='' then Some (reading (suffix_at p 5) (\<lambda>q.
        if q \<noteq> [] then go (on_running (cpp_update (put q)) s) else quit False (error Invalid_switch s)))
      else if p = ''-de'' then Some (go (sink_update (useDeprecated_update (put Diag_error)) s))
      else if p = ''-d'' then Some (go (sink_update (useDeprecated_update (put Diag_off)) s))
      else if p = ''-dw'' then Some (go (sink_update (useDeprecated_update (put Diag_inform)) s))
      else if p = ''-c'' then Some (go (driver_update (link_update no) s))
      else if startsWith (tl p) ''checkaction'' then Some (reading (suffix_at p 12) (\<lambda>q.
        checkOptions q help_checkAction_update s (reading (suffix_at p 13) (\<lambda>b. checkaction_switch b s))))
      else if startsWith (tl p) ''check'' then Some (reading (suffix_at p 6) (\<lambda>q.
        checkOptions q help_check_update s (reading (suffix_at p 7) (\<lambda>b. check_switch b s))))
      else if startsWith (tl p) ''color'' then Some (color_switch p s)
      else if startsWith (tl p) ''conf='' then Some (go s)
      else if startsWith (tl p) ''cov'' then Some (cov_switch p s)
      else if p = ''-shared'' then Some (go (driver_update (dll_update yes) s))
      else if startsWith (tl p) ''visibility='' then Some (reading (suffix_at p 12) (\<lambda>q. visibility_switch q s))
      else if startsWith (tl p) ''dllimport='' then Some (reading (suffix_at p 11) (\<lambda>q. dllimport_switch q s))
      else if p = ''-edition'' then Some (go (on_features (edition_update (put Edition_v2023)) s))
      else if startsWith (tl p) ''edition='' then Some (edition_switch p s)
      else None)"

definition granularity_switch :: "string \<Rightarrow> cmd \<Rightarrow> outcome" where
  "granularity_switch p s =
     (if length p < 25 then quit False (error Bad_argument s)
      else reading (suffix_at p 25) (\<lambda>q.
        let (v, ok) = parseDigits_uint (timeTraceGranularityUs (params_linking s)) q (- 1);
            s2 = on_linking (timeTraceGranularityUs_update (put v)) s in
        if ok then go s2 else quit False (error Bad_argument s2)))"

definition gdwarf_switch :: "string \<Rightarrow> cmd \<Rightarrow> outcome" where
  "gdwarf_switch p s =
     (if dwarf (driver s) \<noteq> 0 then Inr (Leave (error Bad_argument s))
      else (let s1 = driver_update (symdebug_update yes) s in
        if length p < 8 then quit False (error Bad_argument s1)
        else reading (suffix_at p 8) (\<lambda>q.
          let (v, ok) = parseDigits_small (dwarf (driver s)) q 5;
              s2 = driver_update (dwarf_update (put v)) s1 in
          if ok \<and> \<not> v < 3 then go s2 else quit False (error Bad_argument s2))))"

definition profile_switch :: "string \<Rightarrow> cmd \<Rightarrow> outcome" where
  "profile_switch p s =
     reading (char_at p 8) (\<lambda>c.
     if c = CHR ''='' then
       reading (suffix_at p 9) (\<lambda>q. if q = ''gc'' then go (on_generation (tracegc_update yes) s)
         else quit True (error Invalid_switch s))
     else if c \<noteq> CHR 0x00 then Lerror s
     else go (on_generation (trace_update yes) s))"

definition machine :: "bool \<Rightarrow> bool \<Rightarrow> bool \<Rightarrow> cmd \<Rightarrow> cmd" where
  "machine a x x64 = target_update (\<lambda>t. t\<lparr>isAArch64 := a, isX86 := x, isX86_64 := x64\<rparr>)"

definition switches_2 :: "string \<Rightarrow> cmd \<Rightarrow> outcome option" where
  "switches_2 p s =
     (if p = ''-fIBT'' then Some (go (driver_update (ibt_update yes) s))
      else if p = ''-fPIC'' then Some (go (driver_update (pic_update (put PIC_pic)) s))
      else if p = ''-fPIE'' then Some (go (driver_update (pic_update (put PIC_pie)) s))
      else if p = ''-ftime-trace'' then Some (go (on_linking (timeTrace_update yes) s))
      else if startsWith (tl p) ''ftime-trace-granularity='' then Some (granularity_switch p s)
      else if startsWith (tl p) ''ftime-trace-file='' then Some (reading (suffix_at p 18) (\<lambda>q.
        if q = [] then Lnoarg s else go (on_linking (timeTraceFile_update (put q)) s)))
      else if p = ''-map'' then Some (go (driver_update (linker_map_update yes) s))
      else if p = ''-multiobj'' then Some (go (on_generation (multiobj_update yes) s))
      else if startsWith (tl p) ''mixin='' then Some (reading (suffix_at p 7) (\<lambda>q.
        if q = [] then Lnoarg s
        else go (on_outputs (mixinOut_update (\<lambda>f. f\<lparr>doOutput := True, output_name := q\<rparr>)) s)))
      else if p = ''-g'' then Some (go (driver_update (symdebug_update yes) s))
      else if startsWith (tl p) ''gdwarf'' then Some (gdwarf_switch p s)
      else if p = ''-gf'' then Some (go (driver_update (symdebug_update yes \<circ> symdebugref_update yes) s))
      else if p = ''-gs'' then Some (go (driver_update (alwaysframe_update yes) s))
      else if p = ''-gx'' then Some (go (driver_update (stackstomp_update yes) s))
      else if p = ''-lowmem'' then Some (go s)
      else if 6 < length p \<and> take 6 p = ''--DRT-'' then Some (go s)
      else if p = ''-marm64'' then Some (go (machine True False False s))
      else if p = ''-m32'' then Some (go (machine False True False s))
      else if p = ''-m64'' then Some (go (machine False False True s))
      else if p = ''-m32mscoff'' then Some (go (machine False True False s))
      else if startsWith (tl p) ''mscrtlib='' then Some (reading (suffix_at p 10) (\<lambda>q.
        go (driver_update (mscrtlib_update (put q)) s)))
      else if startsWith (tl p) ''profile'' then Some (profile_switch p s)
      else None)"

definition vasm_switch :: "string \<Rightarrow> cmd \<Rightarrow> outcome" where
  "vasm_switch p s0 =
     (let s = driver_update (vasm_update yes) s0 in
      reading (char_at p 5) (\<lambda>c.
      if c = CHR 0x00 then go s
      else if c \<noteq> CHR ''='' then quit True (error Invalid_switch s)
      else reading (suffix_at p 6) (\<lambda>q. go (driver_update (vasmName_update (put q)) s))))"

definition vtemplates_switch :: "string \<Rightarrow> cmd \<Rightarrow> outcome" where
  "vtemplates_switch p s0 =
     (let s = on_verbosity (v_templates_update yes) s0 in
      reading (char_at p 11) (\<lambda>c.
      if c = CHR ''='' then
        reading (suffix_at p 12) (\<lambda>q.
          if q = ''list-instances'' then go (on_verbosity (v_templatesListInstances_update yes) s)
          else go (error Bad_argument s))
      else go s))"

definition verrors_switch :: "string \<Rightarrow> cmd \<Rightarrow> outcome" where
  "verrors_switch p s =
     reading (char_at p 8) (\<lambda>c.
     if c \<noteq> CHR ''='' then quit True (error Invalid_switch s)
     else reading (suffix_at p 9) (\<lambda>q.
       if startsWith q ''spec'' then go (sink_update (showGaggedErrors_update yes) s)
       else if startsWith q ''simple'' then go (on_verbosity (v_errorPrintMode_update (put Print_simpleError)) s)
       else if startsWith q ''context'' then
         go (on_verbosity (v_errorPrintMode_update (put Print_printErrorContext)) s)
       else (let (v, ok) = parseDigits_uint (v_errorLimit (params_verbosity s)) q (- 1);
                 s2 = on_verbosity (v_errorLimit_update (put v)) s in
         if ok then go (sink_update (errorLimit_update (put v)) s2)
         else quit True (error Invalid_switch s2))))"

definition supplements_switch :: "string \<Rightarrow> cmd \<Rightarrow> outcome" where
  "supplements_switch p s =
     reading (suffix_at p 20) (\<lambda>q.
       let (v, ok) = parseDigits_uint (v_errorSupplementLimit (params_verbosity s)) q (- 1);
           s2 = on_verbosity (v_errorSupplementLimit_update (put v)) s in
       if ok then go s2 else quit True (error Invalid_switch s2))"

definition style_switch :: "string \<Rightarrow> cmd \<Rightarrow> outcome" where
  "style_switch q s = pick_option q [
     (''digitalmars'', on_verbosity (v_messageStyle_update (put Style_digitalmars))),
     (''gnu'', on_verbosity (v_messageStyle_update (put Style_gnu))),
     (''sarif'', on_verbosity (v_messageStyle_update (put Style_sarif)))] s (go (error Bad_argument s))"

definition switches_3 :: "string \<Rightarrow> cmd \<Rightarrow> outcome option" where
  "switches_3 p s =
     (if p = ''-v'' then Some (go (on_verbosity (v_verbose_update yes) s))
      else if startsWith (tl p) ''vasm'' then Some (vasm_switch p s)
      else if p = ''-vcg-ast'' then Some (go (on_generation (vcg_ast_update yes) s))
      else if p = ''-vnan'' then Some (go (on_verbosity (v_nanInit_update yes) s))
      else if p = ''-vtls'' then Some (go (on_verbosity (v_tls_update yes) s))
      else if startsWith (tl p) ''vtemplates'' then Some (vtemplates_switch p s)
      else if p = ''-vcolumns'' then Some (go (on_verbosity (v_showColumns_update yes) s))
      else if p = ''-vgc'' then Some (go (on_verbosity (v_gc_update yes) s))
      else if startsWith (tl p) ''verrors'' then Some (verrors_switch p s)
      else if startsWith (tl p) ''verror-supplements'' then Some (supplements_switch p s)
      else if startsWith (tl p) ''verror-style='' then Some (reading (suffix_at p 14) (\<lambda>q. style_switch q s))
      else None)"

text \<open>The features that \<open>-transition=\<close>, \<open>-preview=\<close> and \<open>-revert=\<close> name, with the flag \<open>deprecated_\<close>.
  \<open>setFlagFor\<close> sets a feature for the first two and resets it for the last.\<close>

definition setFlag :: "bool \<Rightarrow> bool" where "setFlag revert = (\<not> revert)"
definition setFeature :: "bool \<Rightarrow> FeatureState" where
  "setFeature revert = (if revert then Feature_disabled else Feature_enabled)"

definition transitions :: "(string \<times> bool \<times> (cmd \<Rightarrow> cmd)) list" where
  "transitions = [
     (''field'', False, on_verbosity (v_field_update yes)),
     (''complex'', True, on_verbosity (v_complex_update yes)),
     (''tls'', False, on_verbosity (v_tls_update yes)),
     (''in'', False, on_verbosity (v_vin_update yes))]"

definition reverts :: "(string \<times> bool \<times> (cmd \<Rightarrow> cmd)) list" where
  "reverts = [
     (''dip25'', True, on_features (useDIP25_update (put (setFeature True)))),
     (''dip1000'', False, on_features (useDIP1000_update (put (setFeature True)))),
     (''intpromote'', False, on_features (fix16997_update (put (setFlag True)))),
     (''dtorfields'', False, on_features (dtorFields_update (put (setFeature True))))]"

definition previews :: "(string \<times> bool \<times> (cmd \<Rightarrow> cmd)) list" where
  "previews = [
     (''dip25'', True, on_features (useDIP25_update (put (setFeature False)))),
     (''dip1000'', False, on_features (useDIP1000_update (put (setFeature False)))),
     (''dip1008'', False, on_features (ehnogc_update (put (setFlag False)))),
     (''dip1021'', False, on_features (useDIP1021_update (put (setFlag False)))),
     (''bitfields'', False, on_generation (bitfields_update (put (setFlag False)))),
     (''fieldwise'', False, on_features (fieldwise_update (put (setFeature False)))),
     (''fixAliasThis'', False, on_features (fixAliasThis_update (put (setFlag False)))),
     (''intpromote'', True, on_features (fix16997_update (put (setFlag False)))),
     (''dtorfields'', False, on_features (dtorFields_update (put (setFeature False)))),
     (''rvaluerefparam'', False, on_features (rvalueRefParam_update (put (setFeature False)))),
     (''safer'', False, on_features (safer_update (put (setFeature False)))),
     (''nosharedaccess'', False, on_features (noSharedAccess_update (put (setFeature False)))),
     (''in'', False, on_features (previewIn_update (put (setFlag False)))),
     (''inclusiveincontracts'', False, on_features (inclusiveInContracts_update (put (setFlag False)))),
     (''shortenedMethods'', True, on_features (shortenedMethods_update (put (setFlag False)))),
     (''fixImmutableConv'', False, on_features (fixImmutableConv_update (put (setFlag False)))),
     (''systemVariables'', False, on_features (systemVariables_update (put (setFeature False)))),
     (''fastdfa'', False, on_features (useFastDFA_update (put (setFlag False))))]"

text \<open>\<open>parseCLIOption\<close>, on the name after the \<open>=\<close>; \<open>None\<close> is its result \<open>false\<close>.\<close>

definition set_feature :: "bool \<times> (cmd \<Rightarrow> cmd) \<Rightarrow> cmd \<Rightarrow> cmd" where
  "set_feature x s = snd x (if fst x then tell No_longer_effective s else s)"

definition set_all :: "(string \<times> bool \<times> (cmd \<Rightarrow> cmd)) list \<Rightarrow> cmd \<Rightarrow> cmd" where
  "set_all fs s = fold (\<lambda>x s. if fst (snd x) then s else snd (snd x) s) fs s"

definition parseCLIOption :: "(string \<times> bool \<times> (cmd \<Rightarrow> cmd)) list \<Rightarrow> string \<Rightarrow> cmd \<Rightarrow> cmd option" where
  "parseCLIOption fs ident s =
     (if isValidIdentifier ident = Some True then
        (if ident = ''all'' then Some (set_all fs s)
         else map_option (\<lambda>x. set_feature x s) (map_of fs ident))
      else None)"

definition mcpu_switch :: "string \<Rightarrow> cmd \<Rightarrow> outcome" where
  "mcpu_switch q s =
     (let invalid = quit False (on_help (help_mcpu_update yes) (error Invalid_switch s)) in
      with_identifier q
        (pick_option q [
          (''baseline'', target_update (cpu_update (put CPU_baseline))),
          (''avx'', target_update (cpu_update (put CPU_avx))),
          (''avx2'', target_update (cpu_update (put CPU_avx2))),
          (''native'', target_update (cpu_update (put CPU_native)))] s invalid)
        invalid)"

definition os_switch :: "string \<Rightarrow> cmd \<Rightarrow> outcome" where
  "os_switch q s =
     (let invalid = quit False (error Invalid_switch s) in
      with_identifier q
        (pick_option q [
          (''host'', target_update (os_update (put defaultTargetOS))),
          (''linux'', target_update (os_update (put OS_linux))),
          (''windows'', target_update (os_update (put OS_Windows))),
          (''osx'', target_update (os_update (put OS_OSX))),
          (''openbsd'', target_update (os_update (put OS_OpenBSD))),
          (''freebsd'', target_update (os_update (put OS_FreeBSD))),
          (''solaris'', target_update (os_update (put OS_Solaris))),
          (''dragonflybsd'', target_update (os_update (put OS_DragonFlyBSD))),
          (''hurd'', target_update (os_update (put OS_Hurd)))] s invalid)
        invalid)"

definition extern_std_switch :: "string \<Rightarrow> cmd \<Rightarrow> outcome" where
  "extern_std_switch q s = pick_option q [
     (''c++98'', on_generation (cplusplus_update (put CppStdRevisionCpp98))),
     (''c++11'', on_generation (cplusplus_update (put CppStdRevisionCpp11))),
     (''c++14'', on_generation (cplusplus_update (put CppStdRevisionCpp14))),
     (''c++17'', on_generation (cplusplus_update (put CppStdRevisionCpp17))),
     (''c++20'', on_generation (cplusplus_update (put CppStdRevisionCpp20))),
     (''c++23'', on_generation (cplusplus_update (put CppStdRevisionCpp23)))] s
     (quit False (on_help (help_externStd_update yes) (error Invalid_switch s)))"

text \<open>The legacy names of \<open>-transition=\<close>.  Each \<open>break\<close> leaves the inner \<open>switch\<close> only.\<close>

definition transition_help :: "report \<Rightarrow> cmd \<Rightarrow> outcome" where
  "transition_help k s = quit False (on_help (help_transition_update yes) (error k s))"

definition legacy_number :: "u32 \<Rightarrow> cmd \<Rightarrow> cmd option" where
  "legacy_number n s =
     (if n = 3449 then Some (on_verbosity (v_field_update yes) s)
      else if n = 14246 then Some (on_features (dtorFields_update (put Feature_enabled)) s)
      else if n = 14488 then Some s
      else if n = 16997 then Some (tell No_longer_effective s)
      else None)"

definition legacy_name :: "string \<Rightarrow> cmd \<Rightarrow> cmd option" where
  "legacy_name q s =
     (if q = ''dtorfields'' then Some (on_features (dtorFields_update (put Feature_enabled)) s)
      else if q = ''intpromote'' then Some (tell No_longer_effective s)
      else None)"

definition transition_switch :: "string \<Rightarrow> cmd \<Rightarrow> outcome" where
  "transition_switch q s =
     (case parseCLIOption transitions q s of
        Some s2 \<Rightarrow> go s2
      | None \<Rightarrow>
          if isdigit (at q) then
            (let (n, ok) = parseDigits_uint 0 q (- 1) in
             if \<not> ok then Lerror s
             else (case legacy_number n s of
                 None \<Rightarrow> transition_help Bad_argument s
               | Some s2 \<Rightarrow> transition_help Invalid_switch s2))
          else with_identifier q
            (case legacy_name q s of
               None \<Rightarrow> transition_help Bad_argument s
             | Some s2 \<Rightarrow> transition_help Invalid_switch s2)
            (transition_help Invalid_switch s))"

definition imply_dips :: "features \<Rightarrow> features" where
  "imply_dips f0 =
     (let f = (if useDIP1021 f0 then f0\<lparr>useDIP1000 := Feature_enabled\<rparr> else f0) in
      if useDIP1000 f = Feature_enabled then f\<lparr>useDIP25 := Feature_enabled\<rparr> else f)"

definition preview_switch :: "string \<Rightarrow> cmd \<Rightarrow> outcome" where
  "preview_switch q s =
     (case parseCLIOption previews q s of
        None \<Rightarrow> quit False (on_help (help_preview_update yes) (error Bad_argument s))
      | Some s2 \<Rightarrow> go (on_features imply_dips s2))"

definition revert_switch :: "string \<Rightarrow> cmd \<Rightarrow> outcome" where
  "revert_switch q s =
     (case parseCLIOption reverts q s of
        None \<Rightarrow> quit False (on_help (help_revert_update yes) (error Bad_argument s))
      | Some s2 \<Rightarrow> go s2)"

definition switches_4 :: "string \<Rightarrow> cmd \<Rightarrow> outcome option" where
  "switches_4 p s =
     (if startsWith (tl p) ''target'' then Some (reading (suffix_at p 8) (\<lambda>q. Inl Not_in_model))
      else if startsWith (tl p) ''mcpu'' then Some (reading (suffix_at p 5) (\<lambda>q.
        checkOptions q help_mcpu_update s (reading (suffix_at p 6) (\<lambda>b. mcpu_switch b s))))
      else if startsWith (tl p) ''os'' then Some (reading (suffix_at p 4) (\<lambda>q. os_switch q s))
      else if startsWith (tl p) ''extern-std'' then Some (reading (suffix_at p 11) (\<lambda>q.
        checkOptions q help_externStd_update s (reading (suffix_at p 12) (\<lambda>b. extern_std_switch b s))))
      else if startsWith (tl p) ''transition'' then Some (reading (suffix_at p 11) (\<lambda>q.
        checkOptions q help_transition_update s (reading (suffix_at p 12) (\<lambda>b. transition_switch b s))))
      else if startsWith (tl p) ''preview'' then Some (reading (suffix_at p 8) (\<lambda>q.
        checkOptions q help_preview_update s (reading (suffix_at p 9) (\<lambda>b. preview_switch b s))))
      else if startsWith (tl p) ''revert'' then Some (reading (suffix_at p 7) (\<lambda>q.
        checkOptions q help_revert_update s (reading (suffix_at p 8) (\<lambda>b. revert_switch b s))))
      else None)"

text \<open>\<open>p + k + (p[k] == '=')\<close>: a value with or without \<open>=\<close>.\<close>

definition value_at :: "string \<Rightarrow> nat \<Rightarrow> fault + string" where
  "value_at p k = rbind (suffix_at p k) (\<lambda>q. Inr (if at q = CHR ''='' then tl q else q))"

text \<open>The letters of the switches \<open>-o\<close>, \<open>-D\<close>, \<open>-H\<close>, \<open>-HC\<close> and \<open>-X\<close>.\<close>

definition path_value :: "string \<Rightarrow> nat \<Rightarrow> (string \<Rightarrow> cmd \<Rightarrow> cmd) \<Rightarrow> cmd \<Rightarrow> outcome" where
  "path_value p k f s =
     reading (char_at p k) (\<lambda>c. if c = CHR 0x00 then Lnoarg s else reading (value_at p k) (\<lambda>q. go (f q s)))"

definition o_switch :: "string \<Rightarrow> cmd \<Rightarrow> outcome" where
  "o_switch p s =
     reading (char_at p 2) (\<lambda>c.
     if c = CHR ''d'' then path_value p 3 (\<lambda>q. on_paths (objdir_update (put q))) s
     else if c = CHR ''f'' then path_value p 3 (\<lambda>q. on_paths (objname_update (put q))) s
     else if c = CHR ''p'' then reading (char_at p 3) (\<lambda>d.
       if d \<noteq> CHR 0x00 then Lerror s else go (on_generation (preservePaths_update yes) s))
     else if c = CHR ''q'' then reading (char_at p 3) (\<lambda>d.
       if d \<noteq> CHR 0x00 then Lerror s else go (on_linking (fullyQualifiedObjectFiles_update yes) s))
     else if c = CHR 0x00 then go (error Bad_argument s)
     else Lerror s)"

text \<open>The directory and the file name of an output, at position \<open>k\<close>.\<close>

definition output_switch ::
    "string \<Rightarrow> nat \<Rightarrow> ((output_file \<Rightarrow> output_file) \<Rightarrow> outputs \<Rightarrow> outputs) \<Rightarrow> cmd \<Rightarrow> outcome \<Rightarrow> outcome" where
  "output_switch p k which s fallback =
     reading (char_at p k) (\<lambda>c.
     if c = CHR ''d'' then path_value p (k + 1) (\<lambda>q. on_outputs (which (output_dir_update (put q)))) s
     else if c = CHR ''f'' then path_value p (k + 1) (\<lambda>q. on_outputs (which (output_name_update (put q)))) s
     else if c = CHR 0x00 then go s
     else fallback)"

definition D_switch :: "string \<Rightarrow> cmd \<Rightarrow> outcome" where
  "D_switch p s0 =
     (let s = on_outputs (ddoc_update (doOutput_update yes)) s0 in output_switch p 2 ddoc_update s (Lerror s))"

definition hc_mode :: "string \<Rightarrow> cmd \<Rightarrow> outcome" where
  "hc_mode q s = pick_option q [(''silent'', id), (''verbose'', on_outputs (cxxhdr_update (fullOutput_update yes)))] s
     (quit False (on_help (help_hc_update yes) (error Invalid_switch s)))"

definition HC_switch :: "string \<Rightarrow> cmd \<Rightarrow> outcome" where
  "HC_switch p s0 =
     (let s = on_outputs (cxxhdr_update (doOutput_update yes)) s0 in
      output_switch p 3 cxxhdr_update s
        (reading (char_at p 3) (\<lambda>c. if c = CHR ''='' then
            reading (suffix_at p 3) (\<lambda>q. checkOptions q help_hc_update s (reading (suffix_at p 4) (\<lambda>b. hc_mode b s)))
          else Lerror s)))"

definition H_switch :: "string \<Rightarrow> cmd \<Rightarrow> outcome" where
  "H_switch p s0 =
     (let s = on_outputs (dihdr_update (doOutput_update yes)) s0 in output_switch p 2 dihdr_update s (Lerror s))"

definition X_switch :: "string \<Rightarrow> cmd \<Rightarrow> outcome" where
  "X_switch p s0 =
     (let s = on_outputs (json_update (doOutput_update yes)) s0 in
      reading (char_at p 2) (\<lambda>c.
      if c = CHR ''f'' then path_value p 3 (\<lambda>q. on_outputs (json_update (output_name_update (put q)))) s
      else if c = CHR ''i'' then reading (char_at p 3) (\<lambda>d.
        if d = CHR 0x00 then Lnoarg s
        else if d \<noteq> CHR ''='' then Lerror s
        else reading (suffix_at p 4) (\<lambda>q.
          if q = [] then Lnoarg s
          else if tryParseJsonField q = 0 then go (error Bad_argument s)
          else go (on_outputs (jsonFieldFlags_update (\<lambda>w. or w (tryParseJsonField q))) s)))
      else if c = CHR 0x00 then go s
      else Lerror s))"

definition identifier_table :: "string \<Rightarrow> (CLIIdentifierTable \<Rightarrow> paths \<Rightarrow> paths) \<Rightarrow> cmd \<Rightarrow> outcome" where
  "identifier_table q which s =
     (let invalid = quit False (error Invalid_switch s) in
      with_identifier q
        (pick_option q [
          (''c99'', on_paths (which Table_C99)), (''c11'', on_paths (which Table_C11)),
          (''UAX31'', on_paths (which Table_UAX31)), (''all'', on_paths (which Table_All))] s invalid)
        invalid)"

definition switches_5 :: "string \<Rightarrow> cmd \<Rightarrow> outcome option" where
  "switches_5 p s =
     (if p = ''-w'' then Some (go (sink_update (useWarnings_update (put Diag_error)) s))
      else if p = ''-wi'' then Some (go (sink_update (useWarnings_update (put Diag_inform)) s))
      else if p = ''-wo'' then Some (go s)
      else if p = ''-O'' then Some (go (driver_update (optimize_code_update yes) s))
      else if p = ''-o-'' then Some (go (on_generation (obj_update no) s))
      else if startsWith (tl p) ''o'' then Some (o_switch p s)
      else if startsWith (tl p) ''D'' then Some (D_switch p s)
      else if startsWith (tl p) ''HC'' then Some (HC_switch p s)
      else if startsWith (tl p) ''H'' then Some (H_switch p s)
      else if startsWith (tl p) ''Xcc='' then Some (reading (suffix_at p 5) (\<lambda>q.
        go (on_linking (linkswitches_update (push q) \<circ> linkswitchIsForCC_update (push True)) s)))
      else if startsWith (tl p) ''X'' then Some (X_switch p s)
      else if p = ''-ignore'' then Some (go (on_generation (ignoreUnsupportedPragmas_update yes) s))
      else if p = ''-inline'' then
        Some (go (on_outputs (dihdr_update (fullOutput_update yes)) (on_generation (useInline_update yes) s)))
      else if startsWith (tl p) ''identifiers-importc'' then
        Some (reading (suffix_at p 21) (\<lambda>q. identifier_table q (\<lambda>t. cIdentifierTable_update (put t)) s))
      else if startsWith (tl p) ''identifiers'' then
        Some (reading (suffix_at p 13) (\<lambda>q. identifier_table q (\<lambda>t. dIdentifierTable_update (put t)) s))
      else if p = ''-i'' then Some (go (includeImports_update yes s))
      else if startsWith (tl p) ''i='' then Some (reading (suffix_at p 3) (\<lambda>q.
        let s1 = includeImports_update yes s in
        if q = [] then go (error Bad_argument s1) else go (includeModulePatterns_update (push q) s1)))
      else None)"

definition boundscheck_switch :: "string \<Rightarrow> cmd \<Rightarrow> outcome" where
  "boundscheck_switch p s =
     reading (char_at p 12) (\<lambda>c.
     if c = CHR ''='' then reading (suffix_at p 13) (\<lambda>q. pick_option q [
       (''on'', on_checks (boundscheck_update (put CHECKENABLEon))),
       (''safeonly'', on_checks (boundscheck_update (put CHECKENABLEsafeonly))),
       (''off'', on_checks (boundscheck_update (put CHECKENABLEoff)))] s (Lerror s))
     else Lerror s)"

definition mv_switch :: "string \<Rightarrow> cmd \<Rightarrow> outcome" where
  "mv_switch p s =
     reading (suffix_at p 4) (\<lambda>q.
     if q \<noteq> [] \<and> CHR ''='' \<in> set (tl q) then go (on_paths (modFileAliasStrings_update (push q)) s)
     else Lerror s)"

definition debug_switch :: "string \<Rightarrow> cmd \<Rightarrow> outcome" where
  "debug_switch p s =
     reading (char_at p 6) (\<lambda>c.
     if c = CHR ''='' then
       reading (suffix_at p 7) (\<lambda>q. with_identifier q (go (debugids_update (push q) s)) (Lerror s))
     else if c \<noteq> CHR 0x00 then Lerror s
     else go (on_running (debugEnabled_update yes) s))"

text \<open>Version identifiers that are predefined.\<close>

definition reserved_versions :: "string list" where
  "reserved_versions =
    [''AArch64'', ''AIX'', ''all'', ''Alpha'', ''Alpha_HardFloat'', ''Alpha_SoftFloat'',
     ''Android'', ''Apple'', ''ARM'', ''ARM_HardFloat'', ''ARM_SoftFloat'', ''ARM_SoftFP'',
     ''ARM_Thumb'', ''AsmJS'', ''assert'', ''AVR'', ''BigEndian'', ''BSD'', ''CppRuntime_LLVM'',
     ''CppRuntime_DigitalMars'', ''CppRuntime_GNU'', ''CppRuntime_Microsoft'', ''CppRuntime_Sun'',
     ''CRuntime_Bionic'', ''CRuntime_DigitalMars'', ''CRuntime_Glibc'', ''CRuntime_Microsoft'',
     ''CRuntime_Musl'', ''CRuntime_Newlib'', ''CRuntime_UClibc'', ''CRuntime_WASI'', ''Cygwin'',
     ''DigitalMars'', ''DragonFlyBSD'', ''Emscripten'', ''ELFv1'', ''ELFv2'', ''Epiphany'',
     ''FreeBSD'', ''FreeStanding'', ''GNU'', ''Haiku'', ''HPPA'', ''HPPA64'', ''Hurd'', ''IA64'',
     ''iOS'', ''LDC'', ''linux'', ''LittleEndian'', ''LoongArch32'', ''LoongArch64'',
     ''LoongArch_HardFloat'', ''LoongArch_SoftFloat'', ''MinGW'', ''MIPS32'', ''MIPS64'',
     ''MIPS_EABI'', ''MIPS_HardFloat'', ''MIPS_N32'', ''MIPS_N64'', ''MIPS_O32'', ''MIPS_O64'',
     ''MIPS_SoftFloat'', ''MSP430'', ''NetBSD'', ''none'', ''NVPTX'', ''NVPTX64'', ''OpenBSD'',
     ''OSX'', ''PlayStation'', ''PlayStation4'', ''Posix'', ''PPC'', ''PPC64'', ''PPC_HardFloat'',
     ''PPC_SoftFloat'', ''RISCV32'', ''RISCV64'', ''S390'', ''S390X'', ''SDC'', ''SH'', ''SkyOS'',
     ''Solaris'', ''SPARC'', ''SPARC64'', ''SPARC_HardFloat'', ''SPARC_SoftFloat'',
     ''SPARC_V8Plus'', ''SystemZ'', ''SysV3'', ''SysV4'', ''TVOS'', ''unittest'', ''VisionOS'',
     ''WASI'', ''WASIp1'', ''WASIp2'', ''WASIp3'', ''WatchOS'', ''WebAssembly'', ''Win32'',
     ''Win64'', ''Windows'', ''Xtensa'', ''X86'', ''X86_64'']"


definition isReserved :: "string \<Rightarrow> bool" where
  "isReserved x \<longleftrightarrow> x \<in> set reserved_versions \<or> startsWith x ''D_''"

definition addGlobalIdent :: "string \<Rightarrow> cmd \<Rightarrow> cmd" where
  "addGlobalIdent x s = versionids_update (push x) (if isReserved x then tell Reserved_version s else s)"

definition version_switch :: "string \<Rightarrow> cmd \<Rightarrow> outcome" where
  "version_switch p s =
     reading (char_at p 8) (\<lambda>c.
     if c = CHR ''='' then
       reading (suffix_at p 9) (\<lambda>q. with_identifier q (go (addGlobalIdent q s)) (Lerror s))
     else Lerror s)"

definition switches_6 :: "string \<Rightarrow> cmd \<Rightarrow> outcome option" where
  "switches_6 p s =
     (if p = ''-dip25'' then
        Some (go (on_features (useDIP25_update (put Feature_enabled)) (tell No_longer_effective s)))
      else if p = ''-dip1000'' then Some (go (on_features
        (useDIP25_update (put Feature_enabled) \<circ> useDIP1000_update (put Feature_enabled)) s))
      else if p = ''-dip1008'' then Some (go (on_features (ehnogc_update yes) s))
      else if p = ''-lib'' then
        Some (go (on_linking (fullyQualifiedObjectFiles_update yes) (driver_update (lib_update yes) s)))
      else if p = ''-nofloat'' then Some (go (driver_update (nofloat_update yes) s))
      else if p = ''-quiet'' then Some (go s)
      else if p = ''-release'' then Some (go (on_generation (release_update yes) s))
      else if p = ''-betterC'' then Some (go (on_generation (betterC_update yes \<circ> allInst_update yes) s))
      else if p = ''-noboundscheck'' then
        Some (go (on_checks (boundscheck_update (put CHECKENABLEoff)) (tell No_longer_effective s)))
      else if startsWith (tl p) ''boundscheck'' then Some (boundscheck_switch p s)
      else if p = ''-nothrow'' then Some (go (on_generation (useExceptions_update no) s))
      else if p = ''-nothrow-optimizations'' then Some (go (on_generation (nothrowOptimizations_update yes) s))
      else if p = ''-unittest'' then Some (go (on_generation (useUnitTests_update yes) s))
      else if p = ''-unittest-roots'' then
        Some (go (on_generation (useUnitTests_update yes \<circ> useUnitTestsRootOnly_update yes) s))
      else if startsWith (tl p) ''I'' then Some (reading (value_at p 2) (\<lambda>q.
        go (on_paths (imppath_update (push (ImportPathInfo q False))) s)))
      else if startsWith (tl p) ''extI'' then Some (reading (value_at p 5) (\<lambda>q.
        go (on_paths (imppath_update (push (ImportPathInfo q True))) s)))
      else if startsWith (tl p) ''mv='' then Some (mv_switch p s)
      else if startsWith (tl p) ''J'' then Some (reading (value_at p 2) (\<lambda>q.
        go (on_paths (fileImppath_update (push q)) s)))
      else if startsWith (tl p) ''debug'' \<and> \<not> startsWith (tl p) ''debugl'' then Some (debug_switch p s)
      else if startsWith (tl p) ''version'' then Some (version_switch p s)
      else None)"

definition deps_switch :: "string \<Rightarrow> cmd \<Rightarrow> outcome" where
  "deps_switch p s =
     (let buffered = on_outputs (moduleDeps_update (output_buffer_update yes)) in
      if doOutput (moduleDeps (params_outputs s)) then Inr (Leave (error Bad_argument s))
      else reading (char_at p 5) (\<lambda>c.
        if c = CHR ''='' then reading (suffix_at p 6) (\<lambda>q.
          if q = [] then Inl (Fault Out_Of_Bounds)
          else go (buffered (on_outputs (moduleDeps_update (output_name_update (put q))) s)))
        else if c \<noteq> CHR 0x00 then Lerror s
        else go (buffered s)))"

definition makedeps_switch :: "string \<Rightarrow> cmd \<Rightarrow> outcome" where
  "makedeps_switch p s =
     (let enabled = on_outputs (makeDeps_update (doOutput_update yes)) in
      if output_name (makeDeps (params_outputs s)) \<noteq> [] then Inr (Leave (error Bad_argument s))
      else reading (char_at p 9) (\<lambda>c.
        if c = CHR ''='' then reading (suffix_at p 10) (\<lambda>q.
          if q = [] then Inr (Leave (error Bad_argument s))
          else go (enabled (on_outputs (makeDeps_update (output_name_update (put q))) s)))
        else if c \<noteq> CHR 0x00 then Lerror s
        else go (enabled s)))"

definition switches_7 :: "string \<Rightarrow> cmd \<Rightarrow> outcome option" where
  "switches_7 p s =
     (if p = ''--b'' then Some (go (driver_update (debugb_update yes) s))
      else if p = ''--c'' then Some (go (driver_update (debugc_update yes) s))
      else if p = ''--f'' then Some (go (driver_update (debugf_update yes) s))
      else if p = ''--help'' \<or> p = ''-h'' then Some (quit False (on_help (help_usage_update yes) s))
      else if p = ''--r'' then Some (go (driver_update (debugr_update yes) s))
      else if p = ''--version'' then Some (quit False (on_verbosity (v_logo_update yes) s))
      else if p = ''--x'' then Some (go (driver_update (debugx_update yes) s))
      else if p = ''--y'' then Some (go (driver_update (debugy_update yes) s))
      else if startsWith (tl p) ''L'' then Some (reading (value_at p 2) (\<lambda>q.
        go (on_linking (linkswitches_update (push q) \<circ> linkswitchIsForCC_update (push False)) s)))
      else if startsWith (tl p) ''P'' then Some (reading (value_at p 2) (\<lambda>q.
        go (on_running (cppswitches_update (push q)) s)))
      else if startsWith (tl p) ''defaultlib='' then Some (reading (suffix_at p 12) (\<lambda>q.
        go (driver_update (defaultlibname_update (put q)) s)))
      else if startsWith (tl p) ''debuglib='' then Some (reading (suffix_at p 10) (\<lambda>q.
        go (driver_update (debuglibname_update (put q)) s)))
      else if startsWith (tl p) ''deps'' then Some (deps_switch p s)
      else if startsWith (tl p) ''makedeps'' then Some (makedeps_switch p s)
      else if p = ''-main'' then Some (go (on_generation (addMain_update yes) s))
      else if startsWith (tl p) ''man'' then Some (quit False (on_help (help_manual_update yes) s))
      else None)"

section \<open>The loop over the arguments\<close>

text \<open>\<open>-run\<close> takes all the arguments up to \<open>argc\<close>, the count before those of \<open>DFLAGS\<close> were added.
  \<open>i\<close> is its own index; the result has the index of the last argument taken.\<close>

definition source_extensions :: "string list" where
  "source_extensions = [''d'', ''di'', ''i'', ''h'', ''c'']"

text \<open>\<open>-run\<close> takes the arguments behind it.  \<open>runargs.setDim\<close> asserts that the number of entries
  fits in 32 bits (\<open>reserve\<close> of root/array.d).\<close>

definition run_switch :: "string list \<Rightarrow> nat \<Rightarrow> nat \<Rightarrow> cmd \<Rightarrow> cmd_error + nat \<times> step" where
  "run_switch args argc i s0 =
     (let s = on_running (run_program_update yes) s0;
          length_taken = (of_nat argc - of_nat i - 1 :: u64) in
      if length_taken = 0 then rbind (Lnoarg (on_running (run_program_update no) s)) (\<lambda>r. Inr (i, r))
      else if length args \<le> i + 1 then Inl (Fault Out_Of_Bounds)
      else (let runarg = args ! (i + 1) in
        if (case ext runarg of None \<Rightarrow> False | Some e \<Rightarrow> e \<notin> set source_extensions)
        then Inr (i, Leave (error Bad_argument s))
        else if 0xFFFFFFFF < length_taken - 1 then Inl (Fault Assertion)
        else if length args \<le> i + unat length_taken then Inl (Fault Out_Of_Bounds)
        else (let s1 = (if runarg = ''-'' then on_generation (readStdin_update yes) s else files_update (push runarg) s)
          in Inr (i + unat length_taken,
            Next (on_running (runargs_update (put (take (unat length_taken - 1) (drop (i + 2) args)))) s1)))))"

definition orelse :: "'a option \<Rightarrow> 'a option \<Rightarrow> 'a option" where
  "orelse a b = (case a of Some x \<Rightarrow> Some x | None \<Rightarrow> b)"

definition find_switch :: "string \<Rightarrow> cmd \<Rightarrow> outcome option" where
  "find_switch p s =
     orelse (switches_1 p s) (orelse (switches_2 p s) (orelse (switches_3 p s) (orelse (switches_4 p s)
       (orelse (switches_5 p s) (orelse (switches_6 p s) (switches_7 p s))))))"

definition parse_switch :: "string list \<Rightarrow> nat \<Rightarrow> nat \<Rightarrow> string \<Rightarrow> cmd \<Rightarrow> cmd_error + nat \<times> step" where
  "parse_switch args argc i p s =
     (case find_switch p s of
        Some r \<Rightarrow> rbind r (\<lambda>x. Inr (i, x))
      | None \<Rightarrow>
          if p = ''-run'' then run_switch args argc i s
          else if length p = 1 then Inr (i, Next (on_generation (readStdin_update yes) s))
          else rbind (Lerror s) (\<lambda>x. Inr (i, x)))"

text \<open>An argument that is no switch is a file; on Windows targets it may name the program.\<close>

definition parse_file :: "string \<Rightarrow> cmd \<Rightarrow> step" where
  "parse_file p s =
     (if os (target s) = OS_Windows \<and> ext p = Some ''exe'' then Next (on_paths (objname_update (put p)) s)
      else if os (target s) = OS_Windows \<and> p = ''/?'' then Return False (on_help (help_usage_update yes) s)
      else Next (files_update (push p) s))"

definition parse_arg :: "string list \<Rightarrow> nat \<Rightarrow> nat \<Rightarrow> cmd \<Rightarrow> cmd_error + nat \<times> step" where
  "parse_arg args argc i s =
     (let p = args ! i in
      if at p \<noteq> CHR ''-'' then Inr (i, parse_file p s) else parse_switch args argc i p s)"

lemma run_switch_index: "run_switch args argc i s = Inr (j, x) \<Longrightarrow> i \<le> j"
  by (auto simp: run_switch_def Let_def Lnoarg_def split: if_splits)

lemma parse_arg_index: "parse_arg args argc i s = Inr (j, x) \<Longrightarrow> i \<le> j"
  by (auto simp: parse_arg_def parse_switch_def Let_def rbind_Inr_iff split: if_splits option.splits
      dest: run_switch_index)

function parse_args :: "string list \<Rightarrow> nat \<Rightarrow> nat \<Rightarrow> cmd \<Rightarrow> cmd_error + bool \<times> cmd" where
  "parse_args args argc i s =
     (if i < length args then
        (case parse_arg args argc i s of
           Inl e \<Rightarrow> Inl e
         | Inr (j, Next s2) \<Rightarrow> parse_args args argc (j + 1) s2
         | Inr (j, Leave s2) \<Rightarrow> Inr (errors_found s2, s2)
         | Inr (j, Return b s2) \<Rightarrow> Inr (b, s2))
      else Inr (errors_found s, s))"
  by pat_completeness auto
termination
  by (relation "measure (\<lambda>(args, argc, i, s). length args - i)") (auto dest!: parse_arg_index)

declare parse_args.simps [simp del]

text \<open>\<open>color\<close> is what the detection of a terminal says.\<close>

definition cmd_start :: "string list \<Rightarrow> bool \<Rightarrow> cmd \<Rightarrow> cmd" where
  "cmd_start args color s =
     on_paths (argv0_update (put (hd args)))
       (on_verbosity (v_errorPrintMode_update (put Print_printErrorContext) \<circ> v_color_update (put color))
         (s\<lparr>params := Param_init, errors_found := False\<rparr>))"

definition parseCommandLine :: "string list \<Rightarrow> nat \<Rightarrow> bool \<Rightarrow> cmd \<Rightarrow> cmd_error + bool \<times> cmd" where
  "parseCommandLine args argc color s = parse_args args argc 1 (cmd_start args color s)"

section \<open>Reconciling the switches\<close>

definition tell_if :: "bool \<Rightarrow> report \<Rightarrow> cmd \<Rightarrow> cmd" where "tell_if b k s = (if b then tell k s else s)"

definition Posix_without_OSX :: OS where
  "Posix_without_OSX = or OS_linux (or OS_FreeBSD (or OS_OpenBSD (or OS_Solaris (or OS_DragonFlyBSD OS_Hurd))))"

definition reconcile_target :: "cmd \<Rightarrow> cmd" where
  "reconcile_target s0 =
     (let d = driver s0; o0 = os (target s0);
          s1 = (if o0 = OS_OSX then driver_update (pic_update (put PIC_pic)) s0
            else if o0 = OS_Windows then
              tell_if (dwarf d \<noteq> 0) Conflict (tell_if (pic d \<noteq> PIC_fixed) Conflict s0)
            else if o0 = OS_DragonFlyBSD then tell_if (\<not> isX86_64 (target s0)) Conflict s0
            else s0);
          s2 = tell_if (and o0 Posix_without_OSX \<noteq> 0 \<and> lib d \<and> dll d) Conflict s1 in
      if o0 = OS_Windows then tell_if (True \<in> set (linkswitchIsForCC (params_linking s2))) Conflict s2
      else tell_if (mscrtlib d \<noteq> []) Conflict s2)"

text \<open>A check that no switch has set gets the value \<open>c\<close>.\<close>

definition unset :: "CHECKENABLE \<Rightarrow> CHECKENABLE \<Rightarrow> CHECKENABLE" where
  "unset c x = (if x = CHECKENABLEdefault then c else x)"

definition reconcile_checks :: "generation \<Rightarrow> checks \<Rightarrow> checks" where
  "reconcile_checks g k0 =
     (let k1 = (if boundscheck k0 \<noteq> CHECKENABLEdefault then useArrayBounds_update (unset (boundscheck k0)) k0 else k0);
          k2 = (if useUnitTests g then useAssert_update (unset CHECKENABLEon) k1 else k1) in
      if release g then
        (useInvariants_update (unset CHECKENABLEoff) \<circ> useIn_update (unset CHECKENABLEoff) \<circ>
         useOut_update (unset CHECKENABLEoff) \<circ> useArrayBounds_update (unset CHECKENABLEsafeonly) \<circ>
         useAssert_update (unset CHECKENABLEoff) \<circ> useSwitchError_update (unset CHECKENABLEoff) \<circ>
         useNullCheck_update (unset CHECKENABLEoff)) k2
      else
        (useInvariants_update (unset CHECKENABLEon) \<circ> useIn_update (unset CHECKENABLEon) \<circ>
         useOut_update (unset CHECKENABLEon) \<circ> useArrayBounds_update (unset CHECKENABLEon) \<circ>
         useAssert_update (unset CHECKENABLEon) \<circ> useSwitchError_update (unset CHECKENABLEon) \<circ>
         useNullCheck_update (unset CHECKENABLEoff)) k2)"

definition reconcile_betterC :: "cmd \<Rightarrow> cmd" where
  "reconcile_betterC s =
     (if betterC (params_generation s) then
        on_generation (\<lambda>g. g\<lparr>useModuleInfo := False, useTypeInfo := False, useExceptions := False, useGC := False\<rparr>)
          (if checkAction (params_checks s) \<noteq> CHECKACTION_halt
           then on_checks (checkAction_update (put CHECKACTION_C)) s else s)
      else s)"

definition reconcileCommands :: "cmd \<Rightarrow> cmd" where
  "reconcileCommands s =
     (let s1 = reconcile_target s in
      reconcile_betterC (on_checks (reconcile_checks (params_generation s1)) s1))"

end
