(* ===== verification/Cmd_Laws.thy ===== *)
theory Cmd_Laws
  imports Cmd_Line
begin

text \<open>
  What the command line parser does: it reads within its arguments except on a few switches, the
  switches keep what is not theirs, \<open>-preview\<close> keeps the order of the DIPs, the numbers are read
  exactly, and \<open>reconcileCommands\<close> gives every check a value.
\<close>

section \<open>Outcomes\<close>

primrec step_state :: "step \<Rightarrow> cmd" where
  "step_state (Next s) = s" | "step_state (Leave s) = s" | "step_state (Return b s) = s"

text \<open>\<open>fine E P r\<close>: the fault of \<open>r\<close> satisfies \<open>E\<close>, or its state satisfies \<open>P\<close>.\<close>

definition fine :: "(cmd_error \<Rightarrow> bool) \<Rightarrow> (cmd \<Rightarrow> bool) \<Rightarrow> outcome \<Rightarrow> bool" where
  "fine E P r = (case r of Inl e \<Rightarrow> E e | Inr x \<Rightarrow> P (step_state x))"

definition fine_opt :: "(cmd_error \<Rightarrow> bool) \<Rightarrow> (cmd \<Rightarrow> bool) \<Rightarrow> outcome option \<Rightarrow> bool" where
  "fine_opt E P r = (case r of None \<Rightarrow> True | Some x \<Rightarrow> fine E P x)"

lemma fine_simps [simp]:
  "fine E P (Inl e) = E e" "fine E P (Inr x) = P (step_state x)"
  "fine_opt E P None" "fine_opt E P (Some r) = fine E P r"
  by (simp_all add: fine_def fine_opt_def)

lemma fine_reading [simp]:
  "fine E P (reading (suffix_at p k) f) =
     (if k \<le> length p then fine E P (f (drop k p)) else E (Fault Out_Of_Bounds))"
  "fine E P (reading (char_at p k) g) =
     (if k \<le> length p then fine E P (g (at (drop k p))) else E (Fault Out_Of_Bounds))"
  "fine E P (reading (value_at p k) f) =
     (if k \<le> length p then fine E P (f (if at (drop k p) = CHR ''='' then drop (Suc k) p else drop k p))
      else E (Fault Out_Of_Bounds))"
  by (simp_all add: reading_def suffix_at_def value_at_def drop_Suc tl_drop)

lemma fine_pick_option:
  assumes "\<And>f. f \<in> snd ` set options \<Longrightarrow> P (f s)" "fine E P fallback"
  shows "fine E P (pick_option q options s fallback)"
  using assms by (force simp: pick_option_def dest: map_of_SomeD split: option.split)

lemma fine_with_identifier:
  "fine E P (with_identifier q a b) \<longleftrightarrow>
     (case isValidIdentifier q of None \<Rightarrow> E Not_in_model | Some c \<Rightarrow> fine E P (if c then a else b))"
  by (simp add: with_identifier_def split: option.split)

lemma fine_orelse [simp]: "fine_opt E P a \<Longrightarrow> fine_opt E P b \<Longrightarrow> fine_opt E P (orelse a b)"
  by (cases a) (simp_all add: orelse_def)

text \<open>The parts of the state that most switches keep: the language changes that imply one another,
  and the seven checks.\<close>

definition dips :: "cmd \<Rightarrow> FeatureState \<times> FeatureState \<times> bool" where
  "dips s = (useDIP25 (params_features s), useDIP1000 (params_features s), useDIP1021 (params_features s))"

definition seven_checks :: "checks \<Rightarrow> CHECKENABLE list" where
  "seven_checks k = [useAssert k, useArrayBounds k, useIn k, useInvariants k, useOut k, useSwitchError k, useNullCheck k]"

definition keeps :: "cmd \<Rightarrow> cmd \<Rightarrow> bool" where
  "keeps s t \<longleftrightarrow> dips t = dips s \<and> seven_checks (params_checks t) = seven_checks (params_checks s)"

lemmas keep_defs = keeps_def dips_def seven_checks_def error_def tell_def Lerror_def Lnoarg_def

lemma checkOptions_fine:
  assumes "P (on_help (usage yes) (error Requires_value s))" "P (error Unrecognized_switch s)"
    "P (on_help (usage yes) s)" "q \<noteq> [] \<Longrightarrow> fine E P k"
  shows "fine E P (checkOptions q usage s k)"
  using assms by (simp add: checkOptions_def Lerror_def)

text \<open>Reading behind the name of a switch.\<close>

lemma startsWith_length: "startsWith (tl p) n \<Longrightarrow> n \<noteq> [] \<Longrightarrow> length n < length p"
  unfolding startsWith_def by (cases p) (auto dest: arg_cong[of _ _ length])

lemma startsWith_longer:
  assumes "startsWith (tl p) n" "at p = CHR ''-''" "p \<noteq> CHR ''-'' # n"
  shows "Suc (length n) < length p"
proof -
  from assms(1,3) have "length n \<le> length (tl p)" unfolding startsWith_def by (auto dest: arg_cong[of _ _ length])
  moreover have "length n \<noteq> length (tl p)"
  proof
    assume "length n = length (tl p)"
    with assms(1) have "tl p = n" by (simp add: startsWith_def)
    with assms(2,3) show False by (cases p) (auto simp: at_def)
  qed
  moreover have "p \<noteq> []" using assms(2) by (auto simp: at_def)
  ultimately show ?thesis by (cases p) auto
qed

lemma startsWith_split:
  assumes "startsWith (tl p) n" "at p = CHR ''-''" shows "\<exists>r. p = CHR ''-'' # n @ r"
proof -
  from assms(1) have "tl p = n @ drop (length n) (tl p)"
    unfolding startsWith_def by (metis append_take_drop_id)
  moreover from assms(2) have "p = CHR ''-'' # tl p" by (cases p) (auto simp: at_def)
  ultimately show ?thesis by metis
qed

section \<open>The switches\<close>

abbreviation within :: "cmd \<Rightarrow> outcome \<Rightarrow> bool" where "within s \<equiv> fine (\<lambda>e. e = Not_in_model) (keeps s)"

lemma at_drop: "at (drop k p) = c \<Longrightarrow> c \<noteq> CHR 0x00 \<Longrightarrow> k < length p"
  by (cases "k < length p") auto

lemma checkOptions_within:
  "keeps s t \<Longrightarrow> (q \<noteq> [] \<Longrightarrow> within s k) \<Longrightarrow> within s (checkOptions q usage t k)"
  by (rule checkOptions_fine) (simp_all add: keep_defs)

lemma checkaction_within [simp]: "within s (checkaction_switch q s)"
  unfolding checkaction_switch_def by (rule fine_pick_option) (auto simp: keep_defs)

lemma visibility_within [simp]: "within s (visibility_switch q s)"
  unfolding visibility_switch_def by (rule fine_pick_option) (auto simp: keep_defs)

lemma dllimport_within [simp]: "within s (dllimport_switch q s)"
  unfolding dllimport_switch_def by (rule fine_pick_option) (auto simp: keep_defs)

lemma color_within: "startsWith (tl p) ''color'' \<Longrightarrow> within s (color_switch p s)"
  by (auto simp: color_switch_def keep_defs intro!: fine_pick_option dest!: startsWith_length at_drop)

lemma cov_within: "startsWith (tl p) ''cov'' \<Longrightarrow> within s (cov_switch p s)"
  by (auto simp: cov_switch_def keep_defs Let_def dest!: startsWith_length at_drop split: prod.split)

lemma edition_within [simp]: "within s (edition_switch p s)"
  by (auto simp: edition_switch_def keep_defs Let_def split: prod.split)

lemma granularity_within [simp]: "within s (granularity_switch p s)"
  by (auto simp: granularity_switch_def keep_defs Let_def split: prod.split)

lemma gdwarf_within [simp]: "within s (gdwarf_switch p s)"
  by (auto simp: gdwarf_switch_def keep_defs Let_def split: prod.split)

lemma profile_within: "startsWith (tl p) ''profile'' \<Longrightarrow> within s (profile_switch p s)"
  by (auto simp: profile_switch_def keep_defs dest!: startsWith_length at_drop)

lemma machine_within [simp]: "keeps s (machine a b c s)"
  by (simp add: machine_def keep_defs)

lemma vasm_within: "startsWith (tl p) ''vasm'' \<Longrightarrow> within s (vasm_switch p s)"
  by (auto simp: vasm_switch_def keep_defs Let_def dest!: startsWith_length at_drop)

lemma vtemplates_within: "startsWith (tl p) ''vtemplates'' \<Longrightarrow> within s (vtemplates_switch p s)"
  by (auto simp: vtemplates_switch_def keep_defs Let_def dest!: startsWith_length at_drop)

lemma verrors_within: "startsWith (tl p) ''verrors'' \<Longrightarrow> within s (verrors_switch p s)"
  by (auto simp: verrors_switch_def keep_defs Let_def dest!: startsWith_length at_drop split: prod.split)

lemma supplements_within: "20 \<le> length p \<Longrightarrow> within s (supplements_switch p s)"
  by (auto simp: supplements_switch_def keep_defs Let_def split: prod.split)

lemma style_within [simp]: "within s (style_switch q s)"
  unfolding style_switch_def by (rule fine_pick_option) (auto simp: keep_defs)

lemma mcpu_within [simp]: "within s (mcpu_switch q s)"
  by (auto simp: mcpu_switch_def Let_def fine_with_identifier keep_defs intro!: fine_pick_option split: option.split)

lemma os_within [simp]: "within s (os_switch q s)"
  by (auto simp: os_switch_def Let_def fine_with_identifier keep_defs intro!: fine_pick_option split: option.split)

lemma extern_std_within [simp]: "within s (extern_std_switch q s)"
  unfolding extern_std_switch_def by (rule fine_pick_option) (auto simp: keep_defs)

lemma path_value_within:
  "k \<le> length p \<Longrightarrow> (\<And>q. keeps s (f q t)) \<Longrightarrow> keeps s t \<Longrightarrow> within s (path_value p k f t)"
  by (auto simp: path_value_def keep_defs dest!: at_drop)

lemma o_within: "startsWith (tl p) ''o'' \<Longrightarrow> within s (o_switch p s)"
  by (auto simp: o_switch_def keep_defs intro!: path_value_within dest!: startsWith_length at_drop)

lemma mv_within: "startsWith (tl p) ''mv='' \<Longrightarrow> within s (mv_switch p s)"
  by (auto simp: mv_switch_def keep_defs dest!: startsWith_length)

lemma boundscheck_within: "startsWith (tl p) ''boundscheck'' \<Longrightarrow> within s (boundscheck_switch p s)"
  by (auto simp: boundscheck_switch_def keep_defs intro!: fine_pick_option dest!: startsWith_length at_drop)

lemma debug_within: "startsWith (tl p) ''debug'' \<Longrightarrow> within s (debug_switch p s)"
  by (auto simp: debug_switch_def keep_defs fine_with_identifier dest!: startsWith_length at_drop split: option.split)

lemma version_within: "startsWith (tl p) ''version'' \<Longrightarrow> within s (version_switch p s)"
  by (auto simp: version_switch_def addGlobalIdent_def keep_defs fine_with_identifier
      dest!: startsWith_length at_drop split: option.split)

lemma identifier_table_within:
  "(\<And>t. keeps s (on_paths (which t) s)) \<Longrightarrow> within s (identifier_table q which s)"
  by (auto simp: identifier_table_def Let_def fine_with_identifier keep_defs intro!: fine_pick_option split: option.split)

lemma makedeps_within: "startsWith (tl p) ''makedeps'' \<Longrightarrow> within s (makedeps_switch p s)"
  by (auto simp: makedeps_switch_def Let_def keep_defs dest!: startsWith_length at_drop)

lemma deps_within:
  assumes "startsWith (tl p) ''deps''" "p \<noteq> ''-deps=''" "at p = CHR ''-''"
  shows "within s (deps_switch p s)"
proof -
  obtain r where p: "p = ''-deps'' @ r" using startsWith_split[OF assms(1,3)] by auto
  have "r \<noteq> ''=''" using p assms(2) by auto
  then show ?thesis
    by (cases r) (auto simp: p deps_switch_def Let_def keep_defs)
qed

text \<open>What a switch may change: only \<open>-check\<close> the seven checks, and only \<open>-revert\<close> undoes what
  a language change implies.\<close>

definition is_check :: "string \<Rightarrow> bool" where
  "is_check p \<longleftrightarrow> at p = CHR ''-'' \<and> startsWith (tl p) ''check'' \<and> \<not> startsWith (tl p) ''checkaction''"

definition is_revert :: "string \<Rightarrow> bool" where "is_revert p \<longleftrightarrow> at p = CHR ''-'' \<and> startsWith (tl p) ''revert''"

definition dips_ordered :: "features \<Rightarrow> bool" where
  "dips_ordered f \<longleftrightarrow> (useDIP1021 f \<longrightarrow> useDIP1000 f = Feature_enabled) \<and>
     (useDIP1000 f = Feature_enabled \<longrightarrow> useDIP25 f = Feature_enabled)"

definition allowed :: "string \<Rightarrow> cmd \<Rightarrow> cmd \<Rightarrow> bool" where
  "allowed p s t \<longleftrightarrow>
     (is_check p \<or> seven_checks (params_checks t) = seven_checks (params_checks s)) \<and>
     (dips_ordered (params_features s) \<longrightarrow> is_revert p \<or> dips_ordered (params_features t))"

lemma keeps_allowed: "keeps s t \<Longrightarrow> allowed p s t"
  by (simp add: keeps_def allowed_def dips_def dips_ordered_def)

lemma within_allowed: "within s r \<Longrightarrow> fine (\<lambda>e. e = Not_in_model) (allowed p s) r"
  by (cases r) (auto intro: keeps_allowed)

abbreviation obeys :: "string \<Rightarrow> cmd \<Rightarrow> outcome \<Rightarrow> bool" where
  "obeys p s \<equiv> fine (\<lambda>e. e = Not_in_model) (allowed p s)"

lemma fine_mono: "fine E P r \<Longrightarrow> (\<And>t. P t \<Longrightarrow> Q t) \<Longrightarrow> fine E Q r"
  by (cases r) simp_all

text \<open>The switches that change more.\<close>

definition keeps_dips :: "cmd \<Rightarrow> cmd \<Rightarrow> bool" where "keeps_dips s t \<longleftrightarrow> params_features t = params_features s"

lemma check_switch_dips: "fine E (keeps_dips s) (check_switch q s)"
  by (auto simp: check_switch_def keeps_dips_def error_def tell_def split: option.split)

lemma set_all_keeps:
  "\<forall>x \<in> set fs. \<forall>s. g (snd (snd x) s) = g s \<Longrightarrow> g (set_all fs s) = g s"
  unfolding set_all_def by (induction fs arbitrary: s) simp_all

lemma parseCLIOption_keeps:
  assumes "parseCLIOption fs q s = Some t" "\<forall>x \<in> set fs. \<forall>s. g (snd (snd x) s) = g s" "\<And>k s. g (tell k s) = g s"
  shows "g t = g s"
proof (cases "q = ''all''")
  case True
  then show ?thesis using assms(1) set_all_keeps[OF assms(2)] by (auto simp: parseCLIOption_def split: if_splits)
next
  case False
  then obtain x where x: "map_of fs q = Some x" "t = set_feature x s"
    using assms(1) by (auto simp: parseCLIOption_def split: if_splits)
  then have "(q, x) \<in> set fs" by (rule_tac map_of_SomeD)
  then show ?thesis using x(2) assms(2,3) by (force simp: set_feature_def)
qed

lemma preview_checks: "parseCLIOption previews q s = Some t \<Longrightarrow> params_checks t = params_checks s"
  by (erule parseCLIOption_keeps) (simp_all add: previews_def tell_def)

lemma revert_checks: "parseCLIOption reverts q s = Some t \<Longrightarrow> params_checks t = params_checks s"
  by (erule parseCLIOption_keeps) (simp_all add: reverts_def tell_def)

lemma transition_keeps:
  assumes "parseCLIOption transitions q s = Some t" shows "keeps s t"
proof -
  have "(\<lambda>s. (params_features s, params_checks s)) t = (\<lambda>s. (params_features s, params_checks s)) s"
    by (rule parseCLIOption_keeps[OF assms]) (simp_all add: transitions_def tell_def)
  then show ?thesis by (simp add: keeps_def dips_def)
qed

lemma imply_dips_ordered: "dips_ordered (imply_dips f)"
  by (simp add: imply_dips_def dips_ordered_def Let_def)

lemma preview_allowed: "fine E (allowed p s) (preview_switch q s)"
  using preview_checks[of q s] imply_dips_ordered
  by (auto simp: preview_switch_def allowed_def error_def tell_def split: option.split)

lemma revert_allowed: "is_revert p \<Longrightarrow> fine E (allowed p s) (revert_switch q s)"
  using revert_checks[of q s]
  by (auto simp: revert_switch_def allowed_def error_def tell_def split: option.split)

lemma legacy_keeps: "legacy_number n s = Some t \<Longrightarrow> keeps s t" "legacy_name q s = Some t \<Longrightarrow> keeps s t"
  by (auto simp: legacy_number_def legacy_name_def keep_defs split: if_splits)

lemma transition_help_within: "keeps s t \<Longrightarrow> within s (transition_help k t)"
  by (simp add: transition_help_def keep_defs)

lemma transition_within [simp]: "within s (transition_switch q s)"
  by (auto simp: transition_switch_def fine_with_identifier Lerror_def intro!: transition_help_within
      intro: transition_keeps legacy_keeps split: option.split prod.split) (simp_all add: keep_defs)

text \<open>The seven groups.\<close>

lemma checkOptions_obeys:
  assumes "q \<noteq> [] \<Longrightarrow> obeys p s k" shows "obeys p s (checkOptions q usage s k)"
  by (rule checkOptions_fine) (simp_all add: assms keeps_allowed keep_defs)

lemma check_obeys: "is_check p \<Longrightarrow> obeys p s (check_switch q s)"
  by (rule fine_mono[OF check_switch_dips]) (simp add: allowed_def keeps_dips_def)

lemma leaf_allowed: "keeps s t \<Longrightarrow> fine E (allowed p s) (Inr (Next t))" "keeps s t \<Longrightarrow> fine E (allowed p s) (Inr (Return b t))"
  by (simp_all add: keeps_allowed)

lemmas obeys_intros = checkOptions_obeys check_obeys preview_allowed revert_allowed
  within_allowed[OF checkaction_within] within_allowed[OF color_within] within_allowed[OF cov_within]
  within_allowed[OF visibility_within] within_allowed[OF dllimport_within] within_allowed[OF edition_within]
  within_allowed[OF granularity_within] within_allowed[OF gdwarf_within] within_allowed[OF profile_within]
  within_allowed[OF vasm_within] within_allowed[OF vtemplates_within] within_allowed[OF verrors_within]
  within_allowed[OF supplements_within] within_allowed[OF style_within] within_allowed[OF mcpu_within]
  within_allowed[OF os_within] within_allowed[OF extern_std_within] within_allowed[OF transition_within]

lemma fine_opt_if: "(b \<Longrightarrow> fine E P x) \<Longrightarrow> fine_opt E P y \<Longrightarrow> fine_opt E P (if b then Some x else y)"
  by simp

lemma fine_opt_check:
  "(a \<Longrightarrow> fine E P x) \<Longrightarrow> (\<not> a \<Longrightarrow> b \<Longrightarrow> fine E P y) \<Longrightarrow> fine_opt E P z \<Longrightarrow>
    fine_opt E P (if a then Some x else if b then Some y else z)"
  by simp

text \<open>The switches behind whose end the code reads.\<close>

definition short_switches :: "string list" where
  "short_switches = [''-verror-supplements'', ''-target'', ''-os'', ''-identifiers-importc'', ''-identifiers'', ''-deps='']"

abbreviation obeys_opt :: "string \<Rightarrow> cmd \<Rightarrow> outcome option \<Rightarrow> bool" where
  "obeys_opt p s \<equiv> fine_opt (\<lambda>e. e = Not_in_model) (allowed p s)"

lemma output_switch_within:
  assumes "k \<le> length p" "keeps s t" "\<And>f. keeps s (on_outputs (which f) t)" "within s fallback"
  shows "within s (output_switch p k which t fallback)"
  unfolding output_switch_def using assms by (auto intro!: path_value_within dest!: at_drop)

lemma D_within: "startsWith (tl p) ''D'' \<Longrightarrow> within s (D_switch p s)"
  unfolding D_switch_def Let_def
  by (rule output_switch_within) (auto simp: keep_defs dest!: startsWith_length)

lemma H_within: "startsWith (tl p) ''H'' \<Longrightarrow> within s (H_switch p s)"
  unfolding H_switch_def Let_def
  by (rule output_switch_within) (auto simp: keep_defs dest!: startsWith_length)

lemma hc_mode_within: "keeps s t \<Longrightarrow> within s (hc_mode q t)"
  unfolding hc_mode_def by (rule fine_pick_option) (auto simp: keep_defs)

lemma HC_within: "startsWith (tl p) ''HC'' \<Longrightarrow> within s (HC_switch p s)"
  unfolding HC_switch_def Let_def
  by (rule output_switch_within)
    (auto simp: keep_defs intro!: checkOptions_within hc_mode_within dest!: startsWith_length at_drop)

lemma X_within: "startsWith (tl p) ''X'' \<Longrightarrow> within s (X_switch p s)"
  unfolding X_switch_def Let_def
  by (auto simp: keep_defs intro!: path_value_within dest!: startsWith_length at_drop)

lemmas more_intros = within_allowed[OF o_within] within_allowed[OF D_within] within_allowed[OF H_within]
  within_allowed[OF HC_within] within_allowed[OF X_within] within_allowed[OF mv_within]
  within_allowed[OF boundscheck_within] within_allowed[OF debug_within] within_allowed[OF version_within]
  within_allowed[OF identifier_table_within] within_allowed[OF makedeps_within] within_allowed[OF deps_within]

lemma obeys_1:
  assumes "at p = CHR ''-''" shows "obeys_opt p s (switches_1 p s)"
  unfolding switches_1_def
  using assms
  by (intro fine_opt_check[where a = "startsWith (tl p) ''checkaction''"] fine_opt_if fine_simps(3))
    (auto intro!: obeys_intros keeps_allowed dest: startsWith_length simp: keep_defs is_check_def)

lemma obeys_2: "obeys_opt p s (switches_2 p s)"
  unfolding switches_2_def
  by (intro fine_opt_if fine_simps(3))
    (auto intro!: obeys_intros keeps_allowed dest: startsWith_length simp: keep_defs machine_def)

lemma obeys_3:
  assumes "at p = CHR ''-''" "p \<notin> set short_switches" shows "obeys_opt p s (switches_3 p s)"
  unfolding switches_3_def
  using startsWith_longer[OF _ assms(1), of "''verror-supplements''"] assms(2)
  by (intro fine_opt_if fine_simps(3))
    (auto intro!: obeys_intros keeps_allowed dest: startsWith_length simp: keep_defs short_switches_def)

lemma obeys_4:
  assumes "at p = CHR ''-''" "p \<notin> set short_switches" shows "obeys_opt p s (switches_4 p s)"
  unfolding switches_4_def
  using startsWith_longer[OF _ assms(1), of "''target''"] startsWith_longer[OF _ assms(1), of "''os''"] assms
  by (intro fine_opt_if fine_simps(3))
    (auto intro!: obeys_intros keeps_allowed dest: startsWith_length simp: keep_defs short_switches_def is_revert_def)

lemma obeys_5:
  assumes "at p = CHR ''-''" "p \<notin> set short_switches" shows "obeys_opt p s (switches_5 p s)"
  unfolding switches_5_def
  using startsWith_longer[OF _ assms(1), of "''identifiers''"]
    startsWith_longer[OF _ assms(1), of "''identifiers-importc''"] assms
  by (intro fine_opt_if fine_simps(3))
    (auto intro!: obeys_intros more_intros keeps_allowed dest: startsWith_length simp: keep_defs short_switches_def Let_def)

lemma dip_switches_allowed:
  "allowed p s (on_features (useDIP25_update (put Feature_enabled)) (tell k s))"
  "allowed p s (on_features (useDIP25_update (put Feature_enabled) \<circ> useDIP1000_update (put Feature_enabled)) s)"
  by (simp_all add: allowed_def dips_ordered_def seven_checks_def tell_def)

lemma obeys_6: "obeys_opt p s (switches_6 p s)"
  unfolding switches_6_def
  by (intro fine_opt_if fine_simps(3))
    (simp_all only: fine_simps step_state.simps dip_switches_allowed,
     auto intro!: obeys_intros more_intros keeps_allowed dest: startsWith_length simp: keep_defs)

lemma deps_obeys:
  assumes "at p = CHR ''-''" "p \<notin> set short_switches" "startsWith (tl p) ''deps''" shows "obeys p s (deps_switch p s)"
  using assms by (intro more_intros) (auto simp: short_switches_def)

lemma obeys_7:
  assumes "at p = CHR ''-''" "p \<notin> set short_switches" shows "obeys_opt p s (switches_7 p s)"
  unfolding switches_7_def
  by (intro fine_opt_if fine_simps(3) deps_obeys[OF assms] more_intros(11))
    (auto intro!: keeps_allowed dest: startsWith_length simp: keep_defs)

lemma find_switch_obeys:
  assumes "at p = CHR ''-''" "p \<notin> set short_switches" shows "obeys_opt p s (find_switch p s)"
  unfolding find_switch_def
  by (intro fine_orelse obeys_1 obeys_2 obeys_3 obeys_4 obeys_5 obeys_6 obeys_7 assms)

section \<open>The arguments\<close>

text \<open>Arguments from \<open>DFLAGS\<close> have an index from \<open>argc\<close> on; \<open>-run\<close> must not be one of them.  The
  arguments are an \<open>Array\<close>, whose length has 32 bits.\<close>

definition run_in_range :: "string list \<Rightarrow> nat \<Rightarrow> bool" where
  "run_in_range args argc \<longleftrightarrow> argc \<le> length args \<and> length args < 2 ^ 32 \<and>
     ''-run'' \<notin> set (drop argc args)"

lemma run_before_argc:
  assumes "run_in_range args argc" "i < length args" "args ! i = ''-run''" shows "i < argc"
proof (rule ccontr)
  assume "\<not> i < argc"
  then have "args ! i = drop argc args ! (i - argc)" "i - argc < length (drop argc args)"
    using assms(2) by simp_all
  then show False using assms(1,3) nth_mem unfolding run_in_range_def by metis
qed

lemma length_taken:
  assumes "i < argc" "argc < 2 ^ 64"
  shows "unat (of_nat argc - of_nat i - 1 :: u64) = argc - i - 1"
proof -
  have e: "of_nat argc - of_nat i - 1 = (of_nat (argc - i - 1) :: u64)" using assms(1) by (simp add: of_nat_diff)
  have u: "unat (of_nat n :: u64) = n" if "n < 2 ^ 64" for n using that by (simp add: unat_of_nat)
  show ?thesis unfolding e by (rule u) (use assms in simp)
qed

definition obeys_arg :: "string \<Rightarrow> cmd \<Rightarrow> cmd_error + nat \<times> step \<Rightarrow> bool" where
  "obeys_arg p s r = (case r of Inl e \<Rightarrow> e = Not_in_model | Inr (j, x) \<Rightarrow> allowed p s (step_state x))"

lemma run_switch_obeys:
  assumes "i < argc" "argc \<le> length args" "length args < 2 ^ 32"
  shows "obeys_arg p s (run_switch args argc i s)"
proof -
  define w :: u64 where "w = of_nat argc - of_nat i - 1"
  have n: "unat w = argc - i - 1" unfolding w_def by (rule length_taken) (use assms in simp_all)
  have z: "w = 0 \<longleftrightarrow> argc = Suc i" using n assms(1) by (simp add: unat_eq_zero[symmetric]) arith
  have "\<not> 0xFFFFFFFF < w - 1" if "w \<noteq> 0"
    using that n assms z by (simp add: word_less_nat_alt unat_minus_one)
  with z show ?thesis
    unfolding run_switch_def w_def[symmetric]
    using assms by (auto simp: Let_def n obeys_arg_def keep_defs intro!: keeps_allowed)
qed

text \<open>One argument.\<close>

lemma parse_file_allowed: "allowed p s (step_state (parse_file p s))"
  by (auto simp: parse_file_def keep_defs intro!: keeps_allowed)

lemma parse_arg_obeys:
  assumes "i < length args" "run_in_range args argc" "args ! i \<notin> set short_switches"
  shows "obeys_arg (args ! i) s (parse_arg args argc i s)"
proof (cases "at (args ! i) = CHR ''-''")
  case True
  show ?thesis
  proof (cases "find_switch (args ! i) s")
    case (Some r)
    then have "obeys (args ! i) s r" using find_switch_obeys[OF True assms(3), of s] by simp
    then show ?thesis using True Some
      by (cases r) (simp_all add: parse_arg_def parse_switch_def obeys_arg_def Let_def)
  next
    case None
    have "i < argc" if "args ! i = ''-run''"
      using run_before_argc[OF assms(2,1) that] .
    then have "args ! i = ''-run'' \<Longrightarrow> obeys_arg (args ! i) s (run_switch args argc i s)"
      using assms(2) by (auto simp: run_in_range_def intro!: run_switch_obeys)
    then show ?thesis using True None
      by (auto simp: parse_arg_def parse_switch_def Let_def)
        (auto simp: obeys_arg_def keep_defs intro!: keeps_allowed)
  qed
qed (simp add: parse_arg_def Let_def obeys_arg_def parse_file_allowed)

text \<open>Arguments that are read within their bounds.\<close>

definition safe_args :: "string list \<Rightarrow> nat \<Rightarrow> bool" where
  "safe_args args argc \<longleftrightarrow> run_in_range args argc \<and> (\<forall>p \<in> set (tl args). p \<notin> set short_switches)"

lemma nth_tl_mem: "Suc 0 \<le> j \<Longrightarrow> j < length args \<Longrightarrow> args ! j \<in> set (tl args)"
  by (cases args; cases j) simp_all

lemma nth_drop_mem: "i \<le> j \<Longrightarrow> j < length xs \<Longrightarrow> xs ! j \<in> set (drop i xs)"
  by (simp add: in_set_conv_nth) (rule exI[of _ "j - i"], simp)

text \<open>Invariants of the loop over the arguments: what every argument keeps.\<close>

locale argument_invariant =
  fixes Q :: "cmd \<Rightarrow> bool" and ok :: "string \<Rightarrow> bool"
  assumes allowed_keeps: "allowed p s t \<Longrightarrow> ok p \<Longrightarrow> Q s \<Longrightarrow> Q t"
begin

lemma loop_keeps:
  assumes "run_in_range args argc" "\<And>j. i \<le> j \<Longrightarrow> j < length args \<Longrightarrow> args ! j \<notin> set short_switches \<and> ok (args ! j)"
    and "Q s"
  shows "case parse_args args argc i s of Inl e \<Rightarrow> e = Not_in_model | Inr (b, t) \<Rightarrow> Q t"
  using assms
proof (induction args argc i s rule: parse_args.induct)
  case (1 args argc i s)
  show ?case
  proof (cases "i < length args")
    case True
    with 1(2,3) have arg: "obeys_arg (args ! i) s (parse_arg args argc i s)" by (intro parse_arg_obeys) simp_all
    show ?thesis
    proof (cases "parse_arg args argc i s")
      case (Inl e)
      then show ?thesis using arg True by (simp add: parse_args.simps[of args] obeys_arg_def)
    next
      case (Inr a)
      obtain j x where a: "a = (j, x)" by (cases a)
      have Q: "Q (step_state x)"
        using arg Inr a allowed_keeps[of "args ! i" s "step_state x"] 1(3)[of i] 1(4) True
        by (simp add: obeys_arg_def)
      have "i \<le> j" using parse_arg_index Inr a by blast
      then have "\<And>k. j + 1 \<le> k \<Longrightarrow> k < length args \<Longrightarrow> args ! k \<notin> set short_switches \<and> ok (args ! k)"
        using 1(3) by simp
      then show ?thesis
        using 1(1)[OF True Inr a[symmetric] _ 1(2)] Q True Inr a
        by (cases x) (simp_all add: parse_args.simps[of args argc i])
    qed
  qed (simp add: parse_args.simps[of args argc i] 1(4))
qed

lemma rest_keeps:
  assumes "safe_args args argc" "1 \<le> i" "list_all ok (drop i args)" "Q s"
  shows "case parse_args args argc i s of Inl e \<Rightarrow> e = Not_in_model | Inr (b, t) \<Rightarrow> Q t"
proof (rule loop_keeps)
  show "args ! j \<notin> set short_switches \<and> ok (args ! j)" if "i \<le> j" "j < length args" for j
    using assms(1-3) that nth_tl_mem[of j args] nth_drop_mem[OF that] by (simp add: safe_args_def list_all_iff)
qed (use assms in \<open>simp_all add: safe_args_def\<close>)

lemma command_line_keeps:
  assumes "safe_args args argc" "list_all ok (tl args)" "Q (cmd_start args color s)"
  shows "case parseCommandLine args argc color s of Inl e \<Rightarrow> e = Not_in_model | Inr (b, t) \<Rightarrow> Q t"
  unfolding parseCommandLine_def
  by (rule rest_keeps) (use assms in \<open>simp_all add: drop_Suc\<close>)

end

end
