(* ===== verification/Cmd_Digits.thy ===== *)
theory Cmd_Digits
  imports Cmd_Line
begin

text \<open>\<open>parseDigits\<close> with its checked machine arithmetic reads decimal numbers exactly.\<close>

definition decimal_from :: "nat \<Rightarrow> string \<Rightarrow> nat" where
  "decimal_from = foldl (\<lambda>n c. 10 * n + (char_code c - 48))"

abbreviation decimal :: "string \<Rightarrow> nat" where "decimal \<equiv> decimal_from 0"

lemma decimal_simps [simp]:
  "decimal_from n [] = n" "decimal_from n (c # cs) = decimal_from (10 * n + (char_code c - 48)) cs"
  by (simp_all add: decimal_from_def)

lemma decimal_from_ge: "n \<le> decimal_from n p"
proof (induction p arbitrary: n)
  case (Cons c p)
  have "n \<le> 10 * n + (char_code c - 48)" by simp
  then show ?case using Cons[of "10 * n + (char_code c - 48)"] by simp
qed simp

text \<open>The operations of checkedint by the values of their operands.\<close>

lemma mulu32_10: "mulu32 x 10 ov = (10 * x, ov \<or> 2 ^ 32 \<le> 10 * unat x)"
proof -
  let ?r = "(ucast x :: u64) * ucast (10 :: u32)"
  have u: "unat ?r = 10 * unat x"
    using unat_u32_lt[of x] by (simp add: unat_word_ariths)
  have "drop_bit 32 ?r = 0 \<longleftrightarrow> unat (drop_bit 32 ?r) = 0" by (simp only: unat_eq_zero)
  also have "\<dots> \<longleftrightarrow> 10 * unat x div 2 ^ 32 = 0" unfolding unat_drop_bit_eq u by (simp only: drop_bit_eq_div)
  finally have "drop_bit 32 ?r \<noteq> 0 \<longleftrightarrow> 2 ^ 32 \<le> 10 * unat x" by (simp add: div_eq_0_iff not_less)
  moreover have "(ucast ?r :: u32) = 10 * x"
    using arg_cong[OF u, of "\<lambda>n. of_nat n :: u32"] by simp
  ultimately show ?thesis by (simp add: mulu32_def Let_def)
qed

lemma addu32_digit:
  assumes "d < 10" shows "addu32 x (of_nat d) ov = (x + of_nat d, ov \<or> 2 ^ 32 \<le> unat x + d)"
proof -
  have d: "unat (of_nat d :: u32) = d" using assms by (simp add: unat_of_nat)
  show ?thesis
    using unat_u32_lt[of x] assms
    by (auto simp: addu32_def Let_def word_less_nat_alt unat_word_ariths d mod_if)
qed

text \<open>The accumulator holds the number modulo \<open>2 ^ 32\<close>, the flag whether it has exceeded it.\<close>

lemma digits_loop_uint:
  assumes "\<forall>c \<in> set p. isdigit c"
  shows "digits_loop addu32 mulu32 p (of_nat n) (2 ^ 32 \<le> n) =
    Some (of_nat (decimal_from n p), 2 ^ 32 \<le> decimal_from n p)"
  using assms
proof (induction p arbitrary: n)
  case (Cons c p)
  define d where "d = char_code c - 48"
  have d: "d < 10" using Cons.prems unfolding d_def isdigit_def by (simp, linarith)
  have m: "mulu32 (of_nat n) 10 (2 ^ 32 \<le> n) = (of_nat (10 * n), 2 ^ 32 \<le> 10 * n)"
    by (cases "n < 2 ^ 32") (simp_all add: mulu32_10 unat_of_nat)
  have a: "addu32 (of_nat (10 * n)) (of_nat d) (2 ^ 32 \<le> 10 * n) = (of_nat (10 * n + d), 2 ^ 32 \<le> 10 * n + d)"
    using d by (cases "10 * n < 2 ^ 32") (simp_all add: addu32_digit unat_of_nat del: of_nat_mult)
  have c: "isdigit c" "\<forall>c \<in> set p. isdigit c" using Cons.prems by simp_all
  show ?case
    unfolding digits_loop.simps m d_def[symmetric] prod.case Let_def a Cons.IH[OF c(2)] decimal_simps
    using c(1) by simp
qed simp

lemma digits_loop_bad: "\<not> (\<forall>c \<in> set p. isdigit c) \<Longrightarrow> digits_loop add mul p v ov = None"
  by (induction p arbitrary: v ov) (auto split: prod.split)

text \<open>The signed operations, on the values of the accumulator.\<close>

lemma sint_of_nat: "n < 2 ^ 31 \<Longrightarrow> sint (of_nat n :: u32) = int n"
  by (simp add: sint_sbintrunc' signed_take_bit_int_eq_self signed_of_nat)

lemma small_u64: "n < 2 ^ 35 \<Longrightarrow> sint (of_nat n :: u64) = int n" "n < 2 ^ 35 \<Longrightarrow> (ucast (of_nat n :: u64) :: u32) = of_nat n"
  by (simp_all add: signed_of_nat signed_take_bit_int_eq_self unsigned_of_nat take_bit_nat_eq_self)

lemma scast_of_nat: "n < 2 ^ 31 \<Longrightarrow> (scast (of_nat n :: u32) :: u64) = of_nat n"
  by (metis sint_of_nat of_int_of_nat_eq of_int_sint)

lemma muls32_10:
  assumes "n < 2 ^ 31" shows "muls32 (of_nat n) 10 False = (of_nat (10 * n), 2 ^ 31 \<le> 10 * n)"
proof -
  have m: "(scast (of_nat n :: u32) :: u64) * scast (10 :: u32) = of_nat (10 * n)"
    using scast_of_nat[OF assms] scast_of_nat[of 10] by simp
  have "sint (of_nat (10 * n) :: u64) = int (10 * n)" "(ucast (of_nat (10 * n) :: u64) :: u32) = of_nat (10 * n)"
    using small_u64[of "10 * n"] assms by simp_all
  then show ?thesis unfolding muls32_def m Let_def by auto
qed

lemma adds32_digit:
  assumes "n < 2 ^ 31" "d < 10" shows "adds32 (of_nat n) (of_nat d) False = (of_nat (n + d), 2 ^ 31 \<le> n + d)"
proof -
  have m: "(scast (of_nat n :: u32) :: u64) + scast (of_nat d :: u32) = of_nat (n + d)"
    using scast_of_nat[OF assms(1)] scast_of_nat[of d] assms(2) by simp
  have "sint (of_nat (n + d) :: u64) = int (n + d)" "(ucast (of_nat (n + d) :: u64) :: u32) = of_nat (n + d)"
    using small_u64[of "n + d"] assms by simp_all
  then show ?thesis unfolding adds32_def m Let_def by auto
qed

text \<open>Once the flag is set it stays, and the accumulator goes on modulo \<open>2 ^ 32\<close>.\<close>

lemma ucast_of_int: "(ucast (word_of_int k :: u64) :: u32) = word_of_int k"
  by transfer (simp add: take_bit_take_bit)

lemma signed_wrap: "muls32 x y True = (x * y, True)" "adds32 x y True = (x + y, True)"
proof -
  have "(scast x :: u64) * scast y = word_of_int (sint x * sint y)" "(scast x :: u64) + scast y = word_of_int (sint x + sint y)"
    by simp_all
  then have "(ucast ((scast x :: u64) * scast y) :: u32) = x * y" "(ucast ((scast x :: u64) + scast y) :: u32) = x + y"
    by (simp_all only: ucast_of_int) simp_all
  then show "muls32 x y True = (x * y, True)" "adds32 x y True = (x + y, True)"
    by (simp_all add: muls32_def adds32_def Let_def)
qed

lemma digits_loop_small:
  assumes "\<forall>c \<in> set p. isdigit c"
  shows "digits_loop adds32 muls32 p (of_nat n) (2 ^ 31 \<le> n) =
    Some (of_nat (decimal_from n p), 2 ^ 31 \<le> decimal_from n p)"
  using assms
proof (induction p arbitrary: n)
  case (Cons c p)
  define d where "d = char_code c - 48"
  have d: "d < 10" using Cons.prems unfolding d_def isdigit_def by (simp, linarith)
  have m: "muls32 (of_nat n) 10 (2 ^ 31 \<le> n) = (of_nat (10 * n), 2 ^ 31 \<le> 10 * n)"
  proof (cases "n < 2 ^ 31")
    case True
    then have "\<not> 2 ^ 31 \<le> n" by simp
    then show ?thesis using muls32_10[OF True] by simp
  qed (simp add: signed_wrap)
  have a: "adds32 (of_nat (10 * n)) (of_nat d) (2 ^ 31 \<le> 10 * n) = (of_nat (10 * n + d), 2 ^ 31 \<le> 10 * n + d)"
  proof (cases "10 * n < 2 ^ 31")
    case True
    then have "\<not> 2 ^ 31 \<le> 10 * n" by simp
    then show ?thesis using adds32_digit[OF True d] by simp
  qed (simp add: signed_wrap)
  have c: "isdigit c" "\<forall>c \<in> set p. isdigit c" using Cons.prems by simp_all
  show ?case
    unfolding digits_loop.simps m d_def[symmetric] prod.case Let_def a Cons.IH[OF c(2)] decimal_simps
    using c(1) by simp
qed simp

lemma parseDigits_uint_result:
  "parseDigits_uint old p m =
     (if \<forall>c \<in> set p. isdigit c then (of_nat (decimal p), decimal p \<le> unat m) else (old, False))"
proof (cases "\<forall>c \<in> set p. isdigit c")
  case True
  have "decimal p < 2 ^ 32 \<Longrightarrow> (of_nat (decimal p) \<le> m) = (decimal p \<le> unat m)"
    by (simp add: word_le_nat_alt unat_of_nat)
  then show ?thesis using digits_loop_uint[OF True, of 0] True unat_u32_lt[of m]
    by (cases "decimal p < 2 ^ 32") (auto simp: parseDigits_uint_def)
qed (subst if_not_P, simp_all only: parseDigits_uint_def digits_loop_bad[of p] option.case simp_thms)

lemma parseDigits_small_result:
  fixes old m :: "'a::len word"
  assumes "LENGTH('a) < 32"
  shows "parseDigits_small old p m =
     (if \<forall>c \<in> set p. isdigit c then (of_nat (decimal p), decimal p \<le> unat m) else (old, False))"
proof (cases "\<forall>c \<in> set p. isdigit c")
  case True
  have w: "(ucast (of_nat n :: u32) :: 'a word) = of_nat n" for n
    using assms by transfer (simp add: take_bit_take_bit min_def)
  have "unat m < 2 ^ LENGTH('a)" by (rule unsigned_less)
  also have "(2::nat) ^ LENGTH('a) \<le> 2 ^ 31" by (rule power_increasing) (use assms in simp_all)
  finally have m: "unat m < 2 ^ 31" .
  have "decimal p < 2 ^ 31 \<Longrightarrow> (sint (of_nat (decimal p) :: u32) \<le> uint m) = (decimal p \<le> unat m)"
    by (simp only: sint_of_nat) (metis of_nat_le_iff uint_nat)
  then show ?thesis using digits_loop_small[OF True, of 0] True m
    by (cases "decimal p < 2 ^ 31") (auto simp: parseDigits_small_def w)
qed (subst if_not_P, simp_all only: parseDigits_small_def digits_loop_bad[of p] option.case simp_thms)

end
