(* ===== verification/Cmd_Results.thy ===== *)
theory Cmd_Results
  imports Cmd_Laws Cmd_Digits
begin

text \<open>
  The properties of the command line: where reading an argument stays within its text, what the
  later switches keep, the numbers, the legacy transitions, and what \<open>reconcileCommands\<close> resolves.
\<close>

lemmas group_defs = find_switch_def switches_1_def switches_2_def switches_3_def switches_4_def switches_5_def
  switches_6_def switches_7_def startsWith_def orelse_def

section \<open>Invariants of the arguments\<close>

interpretation any: argument_invariant "\<lambda>_. True" "\<lambda>_. True"
  by unfold_locales simp

interpretation ordered: argument_invariant "\<lambda>s. dips_ordered (params_features s)" "\<lambda>p. \<not> is_revert p"
  by unfold_locales (simp add: allowed_def)

interpretation checked: argument_invariant "\<lambda>s. seven_checks (params_checks s) = k" "\<lambda>p. \<not> is_check p" for k
  by unfold_locales (simp add: allowed_def)

text \<open>C11: If no argument is one of six switches without their values (-os, -target, -identifiers,
  -identifiers-importc, -verror-supplements, -deps=) and -run is not among the arguments from
  DFLAGS, then the command line parser never reads or slices outside an argument or the list.\<close>

theorem command_line_in_bounds:
  assumes "safe_args args argc" shows "parseCommandLine args argc color s \<noteq> Inl (Fault f)"
  using any.command_line_keeps[OF assms, of color s] by (auto simp: list_all_iff)

theorem command_line_in_bounds_witness:
  "parseCommandLine [''dmd'', ''-os=linux'', ''-run'', ''a.d'', ''b''] 5 True cmd_init \<noteq> Inl (Fault Out_Of_Bounds)"
  by (rule command_line_in_bounds) (simp add: safe_args_def run_in_range_def short_switches_def)

text \<open>C12: As long as no -revert is given, the safety language changes stay ordered: DIP1021 comes with
  DIP1000, and DIP1000 with DIP25, whatever the order of the switches.\<close>

theorem previews_ordered:
  assumes "safe_args args argc" "list_all (\<lambda>p. \<not> is_revert p) (tl args)"
    and "parseCommandLine args argc color s = Inr (b, t)"
  shows "(useDIP1021 (params_features t) \<longrightarrow> useDIP1000 (params_features t) = Feature_enabled) \<and>
    (useDIP1000 (params_features t) = Feature_enabled \<longrightarrow> useDIP25 (params_features t) = Feature_enabled)"
  using ordered.command_line_keeps[OF assms(1,2), of color s] assms(3)
  by (simp add: dips_ordered_def cmd_start_def Param_init_def)

theorem previews_ordered_witness:
  "\<exists>t. parseCommandLine [''dmd'', ''-dip1000'', ''x.d''] 3 True cmd_init = Inr (False, t) \<and>
    useDIP25 (params_features t) = Feature_enabled \<and> useDIP1000 (params_features t) = Feature_enabled"
proof -
  obtain t where t: "parseCommandLine [''dmd'', ''-dip1000'', ''x.d''] 3 True cmd_init = Inr (False, t)"
    "useDIP1000 (params_features t) = Feature_enabled"
    by (simp add: parseCommandLine_def parse_args.simps parse_arg_def parse_switch_def group_defs
      cmd_start_def parse_file_def cmd_init_def Let_def OS_defs)
  with previews_ordered[OF _ _ t(1)] show ?thesis
    by (simp add: safe_args_def run_in_range_def short_switches_def is_revert_def startsWith_def)
qed

section \<open>Single switches\<close>

text \<open>The first argument decides, unless its switch goes on to the next.\<close>

lemma first_argument:
  assumes "at p = CHR ''-''" "find_switch p (cmd_start (x # p # rest) color s) = Some r"
  shows "parseCommandLine (x # p # rest) argc color s =
    (case r of Inl e \<Rightarrow> Inl e | Inr (Next t) \<Rightarrow> parse_args (x # p # rest) argc 2 t
      | Inr (Leave t) \<Rightarrow> Inr (errors_found t, t) | Inr (Return b t) \<Rightarrow> Inr (b, t))"
  unfolding parseCommandLine_def
  by (subst parse_args.simps) (use assms in
    \<open>auto simp: parse_arg_def parse_switch_def Let_def numeral_2_eq_2 split: step.split sum.split\<close>)

abbreviation (input) faults :: "string \<Rightarrow> cmd \<Rightarrow> bool" where
  "faults p s \<equiv> find_switch p s = Some (Inl (Fault Out_Of_Bounds))"

lemma supplements_fault: "faults ''-verror-supplements'' s"
  by (simp add: group_defs suffix_at_def reading_def supplements_switch_def)

lemma target_fault: "faults ''-target'' s"
  by (simp add: group_defs suffix_at_def reading_def)

lemma os_fault: "faults ''-os'' s"
  by (simp add: group_defs suffix_at_def reading_def)

lemma identifiers_importc_fault: "faults ''-identifiers-importc'' s"
  by (simp add: group_defs suffix_at_def reading_def)

lemma identifiers_fault: "faults ''-identifiers'' s"
  by (simp add: group_defs suffix_at_def reading_def)

lemma deps_fault: "\<not> doOutput (moduleDeps (params_outputs s)) \<Longrightarrow> faults ''-deps='' s"
  by (simp add: group_defs suffix_at_def reading_def deps_switch_def)

lemma transition_found: "find_switch (''-transition='' @ q) s =
    Some (checkOptions (CHR ''='' # q) help_transition_update s (transition_switch q s))"
  by (simp add: group_defs suffix_at_def reading_def)

lemma run_found: "find_switch ''-run'' s = None"
  by (simp add: group_defs)

lemma no_deps_yet: "\<not> doOutput (moduleDeps (params_outputs (cmd_start args color s)))"
  by (simp add: cmd_start_def Param_init_def no_output_def)

text \<open>A number of arguments that wraps around.\<close>

lemma unat_negative:
  assumes "0 < k" "k < 2 ^ 64" shows "unat (- of_nat k :: u64) = 2 ^ 64 - k"
proof -
  have "- of_nat k = (of_nat (2 ^ 64 - k) :: u64)" using assms(2) by (simp add: of_nat_diff)
  moreover have "unat (of_nat (2 ^ 64 - k) :: u64) = 2 ^ 64 - k" using assms by (simp only: unat_of_nat) simp
  ultimately show ?thesis by simp
qed

lemma wrapped_length:
  assumes "argc \<le> i" "i < 2 ^ 32" "0 < k" "k < 2 ^ 32"
  shows "0xFFFFFFFF < of_nat argc - of_nat i - (of_nat k :: u64)"
proof -
  have e: "of_nat argc - of_nat i - of_nat k = (- of_nat (i - argc + k) :: u64)" using assms(1) by (simp add: of_nat_diff)
  have "unat (- of_nat (i - argc + k) :: u64) = 2 ^ 64 - (i - argc + k)"
    by (rule unat_negative) (use assms in simp_all)
  then show ?thesis unfolding e using assms by (simp add: word_less_nat_alt)
qed

lemma run_after_argc:
  assumes "argc \<le> i" "i < length args" "length args < 2 ^ 32" "args ! i = ''-run''"
  shows "i + 1 = length args \<Longrightarrow> parse_arg args argc i t = Inl (Fault Out_Of_Bounds)"
    and "i + 1 < length args \<Longrightarrow> ext (args ! (i + 1)) = None \<Longrightarrow> parse_arg args argc i t = Inl (Fault Assertion)"
proof -
  have w: "0xFFFFFFFF < of_nat argc - of_nat i - (2 :: u64)" using wrapped_length[of argc i 2] assms by simp
  have "of_nat argc - of_nat i - (1 :: u64) \<noteq> 0"
    using wrapped_length[of argc i 1] assms by auto
  then show "i + 1 = length args \<Longrightarrow> parse_arg args argc i t = Inl (Fault Out_Of_Bounds)"
    "i + 1 < length args \<Longrightarrow> ext (args ! (i + 1)) = None \<Longrightarrow> parse_arg args argc i t = Inl (Fault Assertion)"
    using assms(4) w by (simp_all add: parse_arg_def parse_switch_def run_found run_switch_def Let_def)
qed

text \<open>C36: -os, -target, -identifiers, -identifiers-importc and -verror-supplements without a value
  and -deps= with an empty one make the parser read behind the end of the argument.  So does \<open>-run\<close>
  as the last of the arguments from DFLAGS behind the end of the list: the number of the
  arguments it takes is counted from those before and wraps around, so that it is not 0.  With a
  source file behind it (here one without extension) the wrapped number fails the assertion of
  \<open>runargs.setDim\<close>.\<close>

theorem command_line_reads_out:
  assumes "argc \<le> i" "i < length args" "length args < 2 ^ 32" "args ! i = ''-run''"
  shows "list_all (\<lambda>p. parseCommandLine (x # p # rest) n color s = Inl (Fault Out_Of_Bounds)) short_switches \<and>
    (i + 1 = length args \<longrightarrow> parse_arg args argc i t = Inl (Fault Out_Of_Bounds)) \<and>
    (i + 1 < length args \<and> ext (args ! (i + 1)) = None \<longrightarrow> parse_arg args argc i t = Inl (Fault Assertion))"
proof (intro conjI)
  show "list_all (\<lambda>p. parseCommandLine (x # p # rest) n color s = Inl (Fault Out_Of_Bounds)) short_switches"
    unfolding short_switches_def
    by (simp add: first_argument supplements_fault target_fault os_fault identifiers_importc_fault identifiers_fault
        deps_fault no_deps_yet)
qed (use run_after_argc[OF assms] in auto)

theorem command_line_reads_out_witness:
  "parseCommandLine [''dmd'', ''-os''] 2 True cmd_init = Inl (Fault Out_Of_Bounds) \<and>
   parse_arg [''dmd'', ''-run''] 1 1 cmd_init = Inl (Fault Out_Of_Bounds)"
  using command_line_reads_out[of 1 1 "[''dmd'', ''-run'']" "''dmd''" "[]" 2 True cmd_init cmd_init]
  by (simp add: short_switches_def)

lemma legacy_number_rejected:
  assumes "map_of transitions q = None" "q \<noteq> ''all''" "isdigit (at q)"
    and "parseDigits_uint 0 q (- 1) = (n, True)" "legacy_number n s \<noteq> None"
  shows "\<exists>t. transition_switch q s = transition_help Invalid_switch t"
  using assms by (auto simp: transition_switch_def parseCLIOption_def)

lemma legacy_name_rejected:
  assumes "map_of transitions q = None" "q \<noteq> ''all''" "\<not> isdigit (at q)"
    and "isValidIdentifier q = Some True" "legacy_name q s \<noteq> None"
  shows "\<exists>t. transition_switch q s = transition_help Invalid_switch t"
  using assms by (auto simp: transition_switch_def parseCLIOption_def with_identifier_def)

lemmas char_defs = isdigit_def isidchar_def isidstart_def char_code_def

lemma legacy_rejected:
  "list_all (\<lambda>q. \<forall>s. \<exists>t. transition_switch q s = transition_help Invalid_switch t)
     [''3449'', ''14246'', ''14488'', ''16997'', ''dtorfields'', ''intpromote'']"
proof -
  note number = legacy_number_rejected and name = legacy_name_rejected
  note defs = transitions_def parseDigits_uint_result legacy_number_def legacy_name_def isValidIdentifier_def char_defs
  have "\<exists>t. transition_switch ''3449'' s = transition_help Invalid_switch t" for s
    by (rule number[where n = 3449]) (simp_all add: defs)
  moreover have "\<exists>t. transition_switch ''14246'' s = transition_help Invalid_switch t" for s
    by (rule number[where n = 14246]) (simp_all add: defs)
  moreover have "\<exists>t. transition_switch ''14488'' s = transition_help Invalid_switch t" for s
    by (rule number[where n = 14488]) (simp_all add: defs)
  moreover have "\<exists>t. transition_switch ''16997'' s = transition_help Invalid_switch t" for s
    by (rule number[where n = 16997]) (simp_all add: defs)
  moreover have "\<exists>t. transition_switch ''dtorfields'' s = transition_help Invalid_switch t" for s
    by (rule name) (simp_all add: defs)
  moreover have "\<exists>t. transition_switch ''intpromote'' s = transition_help Invalid_switch t" for s
    by (rule name) (simp_all add: defs)
  ultimately show ?thesis by simp
qed

text \<open>C37: The legacy values of -transition= that are meant to be kept for backwards compatibility
  are rejected: parsing ends with an error for an invalid switch and asks for the usage.\<close>

theorem legacy_transitions_rejected:
  "list_all (\<lambda>q. \<exists>t. parseCommandLine (x # (''-transition='' @ q) # rest) argc color s = Inr (False, t) \<and>
       last (reports t) = Invalid_switch \<and> errors_found t \<and> help_transition (help_of (params t)))
     [''3449'', ''14246'', ''14488'', ''16997'', ''dtorfields'', ''intpromote'']"
proof -
  have "\<exists>t. parseCommandLine (x # (''-transition='' @ q) # rest) argc color s = Inr (False, t) \<and>
       last (reports t) = Invalid_switch \<and> errors_found t \<and> help_transition (help_of (params t))"
    if q: "\<forall>s. \<exists>t. transition_switch q s = transition_help Invalid_switch t" "q \<noteq> []" "q \<notin> {''h'', ''?'', ''help''}" for q
  proof -
    let ?s = "cmd_start (x # (''-transition='' @ q) # rest) color s"
    obtain t where t: "transition_switch q ?s = transition_help Invalid_switch t" using q(1) by blast
    have "find_switch (''-transition='' @ q) ?s = Some (transition_help Invalid_switch t)"
      unfolding transition_found using t q(2,3) by (simp add: checkOptions_def)
    from first_argument[OF _ this, of argc] show ?thesis
      by (simp add: transition_help_def error_def tell_def)
  qed
  with legacy_rejected show ?thesis by (simp add: list_all_iff)
qed

section \<open>Checks\<close>

definition resolved :: "CHECKENABLE \<Rightarrow> CHECKENABLE \<Rightarrow> CHECKENABLE" where
  "resolved explicit fallback = (if explicit \<noteq> CHECKENABLEdefault then explicit else fallback)"

lemma reconcile_target_keeps [simp]: "params_checks (reconcile_target s) = params_checks s"
  "params_generation (reconcile_target s) = params_generation s"
  by (simp_all add: reconcile_target_def Let_def tell_if_def tell_def)

lemma reconcileCommands_checks: "seven_checks (params_checks (reconcileCommands s)) =
    seven_checks (reconcile_checks (params_generation s) (params_checks s))"
  by (simp add: reconcileCommands_def reconcile_betterC_def seven_checks_def Let_def)

text \<open>C38: \<open>reconcileCommands\<close> gives every check a definite value: the explicit one if there is one,
  else the one that -boundscheck, -unittest and -release imply, in this order.\<close>

theorem reconcile_resolves:
  "seven_checks (params_checks (reconcileCommands s)) =
    (let k = params_checks s; g = params_generation s;
         on_unless_release = (if release g then CHECKENABLEoff else CHECKENABLEon) in
     [resolved (useAssert k) (if useUnitTests g then CHECKENABLEon else on_unless_release),
      resolved (useArrayBounds k)
        (resolved (boundscheck k) (if release g then CHECKENABLEsafeonly else CHECKENABLEon)),
      resolved (useIn k) on_unless_release, resolved (useInvariants k) on_unless_release,
      resolved (useOut k) on_unless_release, resolved (useSwitchError k) on_unless_release,
      resolved (useNullCheck k) CHECKENABLEoff]) \<and>
    CHECKENABLEdefault \<notin> set (seven_checks (params_checks (reconcileCommands s)))"
  unfolding reconcileCommands_checks
  by (simp add: reconcile_checks_def seven_checks_def resolved_def unset_def Let_def)

text \<open>C39: Explicit checks survive: from any point of a command line that has no further -check, the
  values given so far are those after parsing and reconciling.\<close>

theorem explicit_checks_survive:
  assumes "safe_args args argc" "list_all (\<lambda>p. \<not> is_check p) (drop i args)" "1 \<le> i"
    and "parse_args args argc i s = Inr (b, t)"
  shows "list_all2 (\<lambda>c d. c \<noteq> CHECKENABLEdefault \<longrightarrow> d = c) (seven_checks (params_checks s))
    (seven_checks (params_checks (reconcileCommands t)))"
proof -
  have "seven_checks (params_checks t) = seven_checks (params_checks s)"
    using checked.rest_keeps[where s = s, OF assms(1,3,2) refl] assms(4) by simp
  then show ?thesis unfolding reconcileCommands_checks
    by (simp add: reconcile_checks_def seven_checks_def unset_def Let_def)
qed

theorem explicit_checks_survive_witness:
  "\<exists>t. parse_args [''dmd'', ''-release''] 2 1 (on_checks (useAssert_update (put CHECKENABLEon)) cmd_init) = Inr (False, t) \<and>
    useAssert (params_checks (reconcileCommands t)) = CHECKENABLEon"
proof -
  let ?s = "on_checks (useAssert_update (put CHECKENABLEon)) cmd_init"
  have "parse_args [''dmd'', ''-release''] 2 1 ?s = Inr (False, on_generation (release_update yes) ?s)"
    by (simp add: parse_args.simps parse_arg_def parse_switch_def group_defs cmd_init_def)
  with explicit_checks_survive[OF _ _ _ this] show ?thesis
    by (simp add: safe_args_def run_in_range_def short_switches_def is_check_def startsWith_def
        seven_checks_def cmd_init_def Param_init_def)
qed

section \<open>Numbers\<close>

text \<open>C13: A number in a switch is read exactly: for \<open>uint\<close> and for the smaller types, parsing succeeds
  just on digits whose decimal value does not exceed the limit, although the arithmetic wraps.\<close>

theorem parseDigits_decimal:
  fixes old m :: "'a::len word" and old' m' :: u32
  assumes "LENGTH('a) < 32"
  shows "parseDigits_uint old' p m' =
      (if list_all isdigit p then (of_nat (decimal p), decimal p \<le> unat m') else (old', False)) \<and>
    parseDigits_small old p m =
      (if list_all isdigit p then (of_nat (decimal p), decimal p \<le> unat m) else (old, False))"
  using parseDigits_uint_result[of old' p m'] parseDigits_small_result[OF assms, of old p m]
  by (simp add: list_all_iff)

theorem parseDigits_decimal_witness:
  "parseDigits_uint 7 ''4294967295'' (- 1) = (- 1, True) \<and> parseDigits_uint 7 ''4294967296'' (- 1) = (0, False) \<and>
   parseDigits_small (5 :: u8) ''100'' 100 = (100, True) \<and> parseDigits_small (5 :: u8) ''12a'' 100 = (5, False)"
  using parseDigits_decimal[where 'a = 8, of 7 "''4294967295''" "- 1" 5 100]
    parseDigits_decimal[where 'a = 8, of 7 "''4294967296''" "- 1" 5 100]
    parseDigits_decimal[where 'a = 8, of 7 "''100''" "- 1" 5 100]
    parseDigits_decimal[where 'a = 8, of 7 "''12a''" "- 1" 5 100]
  by (simp add: char_defs)

end
