(* ===== verification/Utf.thy ===== *)
theory Utf
  imports Prelude
begin

unbundle bit_operations_syntax

text \<open>
  The encodings of Unicode in root/utf.d: encoding and decoding of UTF-8 and UTF-16.  Code units
  are words of 8 and 16 bits, code points (\<open>dchar\<close>) words of 32.  Decoding gives the error, the
  index after what was read, and the code point.  A failed \<open>assert\<close> is a fault.
\<close>

section \<open>Code points\<close>

definition utf_isValidDchar :: "u32 \<Rightarrow> bool" where
  "utf_isValidDchar c \<longleftrightarrow> c < 0xD800 \<or> 0xDFFF < c \<and> c \<le> 0x10FFFF"

definition utf_codeLengthChar :: "u32 \<Rightarrow> fault + nat" where
  "utf_codeLengthChar c =
     (if c \<le> 0x7F then Inr 1 else if c \<le> 0x7FF then Inr 2 else if c \<le> 0xFFFF then Inr 3
      else if c \<le> 0x10FFFF then Inr 4 else Inl Assertion)"

definition utf_codeLengthWchar :: "u32 \<Rightarrow> nat" where
  "utf_codeLengthWchar c = (if c \<le> 0xFFFF then 1 else 2)"

definition utf_codeLength :: "int \<Rightarrow> u32 \<Rightarrow> fault + nat" where
  "utf_codeLength sz c =
     (if sz = 1 then utf_codeLengthChar c else if sz = 2 then Inr (utf_codeLengthWchar c)
      else if sz = 4 then Inr 1 else Inl Assertion)"

definition isBidiControl :: "u32 \<Rightarrow> bool" where
  "isBidiControl c \<longleftrightarrow> c = 0x061C \<or> c = 0x200E \<or> c = 0x200F \<or>
     0x202A \<le> c \<and> c \<le> 0x202E \<or> 0x2066 \<le> c \<and> c \<le> 0x2069"

section \<open>Encoding\<close>

definition utf_encodeChar :: "u32 \<Rightarrow> fault + u8 list" where
  "utf_encodeChar c =
     (if \<not> utf_isValidDchar c then Inl Assertion
      else if c \<le> 0x7F then Inr [ucast c]
      else if c \<le> 0x7FF then Inr [ucast (0xC0 OR drop_bit 6 c), ucast (0x80 OR (c AND 0x3F))]
      else if c \<le> 0xFFFF then Inr [ucast (0xE0 OR drop_bit 12 c), ucast (0x80 OR (drop_bit 6 c AND 0x3F)),
        ucast (0x80 OR (c AND 0x3F))]
      else if c \<le> 0x10FFFF then Inr [ucast (0xF0 OR drop_bit 18 c), ucast (0x80 OR (drop_bit 12 c AND 0x3F)),
        ucast (0x80 OR (drop_bit 6 c AND 0x3F)), ucast (0x80 OR (c AND 0x3F))]
      else Inl Assertion)"

definition utf_encodeWchar :: "u32 \<Rightarrow> fault + u16 list" where
  "utf_encodeWchar c =
     (if \<not> utf_isValidDchar c then Inl Assertion
      else if c \<le> 0xFFFF then Inr [ucast c]
      else Inr [ucast ((drop_bit 10 (c - 0x010000) AND 0x03FF) + 0xD800),
        ucast (((c - 0x010000) AND 0x03FF) + 0xDC00)])"

section \<open>Decoding\<close>

datatype utf_error = Outside_code_space | Truncated | Overlong | Invalid_trailer | Invalid_code_point
  | Invalid_surrogate | Unpaired_surrogate

definition UTF8_STRIDE :: "nat list" where
  "UTF8_STRIDE = replicate 128 1 @ replicate 64 0xFF @ replicate 32 2 @ replicate 16 3 @ replicate 8 4 @
     [5, 5, 5, 5, 6, 6, 0xFF, 0xFF]"

text \<open>The \<open>k\<close> trailing bytes from index \<open>i\<close> on; \<open>None\<close> when one of them is none.\<close>

primrec decode_trailers :: "u8 list \<Rightarrow> nat \<Rightarrow> u32 \<Rightarrow> nat \<Rightarrow> u32 option" where
  "decode_trailers s i c 0 = Some c"
| "decode_trailers s i c (Suc k) =
     (if s ! i AND 0xC0 \<noteq> 0x80 then None
      else decode_trailers s (Suc i) (push_bit 6 c OR (ucast (s ! i) AND 0x3F)) k)"

definition overlong :: "u8 \<Rightarrow> u8 \<Rightarrow> bool" where
  "overlong u u2 \<longleftrightarrow> u AND 0xFE = 0xC0 \<or> u = 0xE0 \<and> u2 AND 0xE0 = 0x80 \<or> u = 0xF0 \<and> u2 AND 0xF0 = 0x80 \<or>
     u = 0xF8 \<and> u2 AND 0xF8 = 0x80 \<or> u = 0xFC \<and> u2 AND 0xFC = 0x80"

definition utf_decodeChar :: "u8 list \<Rightarrow> nat \<Rightarrow> fault + utf_error option \<times> nat \<times> u32" where
  "utf_decodeChar s i =
     (if length s \<le> i then Inl Out_Of_Bounds else
      let u = s ! i; n = UTF8_STRIDE ! unat u; failed = \<lambda>e. Inr (Some e, Suc i, ucast u) in
      if n = 1 then Inr (None, Suc i, ucast u)
      else if n \<notin> {2, 3, 4} then failed Outside_code_space
      else if length s < i + n then failed Truncated
      else if overlong u (s ! Suc i) then failed Overlong
      else (case decode_trailers s (Suc i) (ucast u AND (push_bit (7 - n) 1 - 1)) (n - 1) of
          None \<Rightarrow> failed Invalid_trailer
        | Some c \<Rightarrow> if utf_isValidDchar c then Inr (None, i + n, c) else failed Invalid_code_point))"

definition utf_decodeWchar :: "u16 list \<Rightarrow> nat \<Rightarrow> fault + utf_error option \<times> nat \<times> u32" where
  "utf_decodeWchar s i =
     (if length s \<le> i then Inl Out_Of_Bounds else
      let u = ucast (s ! i); failed = \<lambda>e. Inr (Some e, Suc i, u) in
      if u < 0xD800 then Inr (None, Suc i, u)
      else if 0xD800 \<le> u \<and> u \<le> 0xDBFF then
        (if length s \<le> i + 1 then failed Truncated
         else (let u2 = s ! (i + 1) in
           if u2 < 0xDC00 \<or> 0xDFFF < u2 then failed Invalid_surrogate
           else (let c = push_bit 10 (u - 0xD7C0) + (ucast u2 - 0xDC00) in
             if utf_isValidDchar c then Inr (None, i + 2, c) else Inr (Some Invalid_code_point, i + 2, u))))
      else if 0xDC00 \<le> u \<and> u \<le> 0xDFFF then failed Unpaired_surrogate
      else if utf_isValidDchar u then Inr (None, Suc i, u) else failed Invalid_code_point)"

section \<open>Values of code units\<close>

lemma unat_or_low:
  fixes h y :: "'a::len word"
  assumes "take_bit k h = 0" "unat y < 2 ^ k" shows "unat (h OR y) = unat h + unat y"
proof -
  have y: "take_bit k y = y" using assms(2) by (simp add: word_unat_eq_iff unsigned_take_bit_eq take_bit_nat_eq_self)
  have "h AND y = take_bit k h AND take_bit k y" by (subst y[symmetric]) (auto simp: bit_eq_iff bit_simps)
  then have "h AND y = 0" using assms(1) by simp
  then have "unat h AND unat y = 0" by (simp add: unsigned_and_eq[symmetric])
  then show ?thesis by (simp only: unsigned_or_eq disjunctive_add_eq_or)
qed

lemma unat_and_mask: "unat (x AND mask k) = unat (x :: 'a::len word) mod 2 ^ k"
  unfolding take_bit_eq_mask[symmetric] unsigned_take_bit_eq by (rule take_bit_eq_mod)

lemma unat_drop: "unat (drop_bit k (x :: 'a::len word)) = unat x div 2 ^ k"
  unfolding unat_drop_bit_eq by (rule drop_bit_eq_div)

lemma unat_byte: "unat (ucast (x :: u32) :: u8) = unat x mod 256"
  by (simp add: unsigned_ucast_eq take_bit_eq_mod)

lemma ascii_byte: "unat c < 256 \<Longrightarrow> unat (ucast (c :: u32) :: u8) = unat c"
  by (simp add: unat_byte)

lemma masks: "(0x3F :: u32) = mask 6" "(0x3FF :: u32) = mask 10"
  by (simp_all add: mask_eq_exp_minus_1)

text \<open>UTF-8 on numbers.\<close>

definition utf8 :: "nat \<Rightarrow> nat list" where
  "utf8 n =
     (if n < 128 then [n] else if n < 2048 then [192 + n div 64, 128 + n mod 64]
      else if n < 65536 then [224 + n div 64 div 64, 128 + n div 64 mod 64, 128 + n mod 64]
      else [240 + n div 64 div 64 div 64, 128 + n div 64 div 64 mod 64, 128 + n div 64 mod 64, 128 + n mod 64])"

lemma lead_byte:
  assumes "unat x < 2 ^ k" "take_bit k h = 0" "unat h + 2 ^ k \<le> 256"
  shows "unat (ucast (h OR x :: u32) :: u8) = unat h + unat x"
  using assms by (simp add: unat_byte unat_or_low)

lemma trail_byte: "unat (ucast (0x80 OR (x AND 0x3F) :: u32) :: u8) = 128 + unat x mod 64"
proof -
  have "unat (x AND 0x3F) = unat x mod 64" unfolding masks by (simp add: unat_and_mask)
  then show ?thesis by (subst lead_byte[of _ 6]) simp_all
qed

lemma encode_utf8:
  assumes "utf_isValidDchar c"
  shows "\<exists>bs. utf_encodeChar c = Inr bs \<and> map unat bs = utf8 (unat c)"
proof -
  have c: "unat c \<le> 0x10FFFF" using assms by (auto simp: utf_isValidDchar_def word_le_nat_alt word_less_nat_alt)
  have "unat (ucast (0xC0 OR drop_bit 6 c) :: u8) = 192 + unat c div 64" if "unat c < 2048"
    using that by (subst lead_byte[of _ 5]) (simp_all add: unat_drop div_less_iff_less_mult)
  moreover have "unat (ucast (0xE0 OR drop_bit 12 c) :: u8) = 224 + unat c div 4096" if "unat c < 65536"
    using that by (subst lead_byte[of _ 4]) (simp_all add: unat_drop div_less_iff_less_mult)
  moreover have "unat (ucast (0xF0 OR drop_bit 18 c) :: u8) = 240 + unat c div 262144"
    using c by (subst lead_byte[of _ 3]) (simp_all add: unat_drop div_less_iff_less_mult)
  ultimately show ?thesis
    using assms c
    by (auto simp: utf_encodeChar_def utf8_def word_le_nat_alt trail_byte unat_drop ascii_byte div_mult2_eq[of _ 64 64, simplified] div_mult2_eq[of _ 4096 64, simplified])
qed

lemma map_unat_inj: "map unat bs = map unat (cs :: 'a::len word list) \<Longrightarrow> bs = cs"
  by (erule list.inj_map_strong[rotated]) (simp add: word_unat_eq_iff)

lemma utf_encodeChar_Inr: "utf_encodeChar c = Inr bs \<longleftrightarrow> utf_isValidDchar c \<and> map unat bs = utf8 (unat c)"
proof (cases "utf_isValidDchar c")
  case True
  obtain as where "utf_encodeChar c = Inr as" "map unat as = utf8 (unat c)" using encode_utf8[OF True] by blast
  then show ?thesis using True map_unat_inj[of as bs] by auto
qed (simp add: utf_encodeChar_def)

text \<open>Decoding on numbers.\<close>

lemma stride: "UTF8_STRIDE ! unat (u :: u8) =
    (if unat u < 128 then 1 else if unat u < 192 then 255 else if unat u < 224 then 2 else if unat u < 240 then 3
     else if unat u < 248 then 4 else [5, 5, 5, 5, 6, 6, 255, 255] ! (unat u - 248))"
proof -
  consider "unat u < 128" | "128 \<le> unat u" "unat u < 192" | "192 \<le> unat u" "unat u < 224"
    | "224 \<le> unat u" "unat u < 240" | "240 \<le> unat u" "unat u < 248" | "248 \<le> unat u"
    by linarith
  then show ?thesis unfolding UTF8_STRIDE_def by cases (simp_all add: nth_append, arith+)
qed

lemma high_bits: "x AND NOT (mask k) = push_bit k (drop_bit k (x :: 'a::len word))"
  by (auto simp: bit_eq_iff bit_simps)

lemma top_bits: "(0xC0 :: u8) = NOT (mask 6)" "(0xE0 :: u8) = NOT (mask 5)" "(0xF0 :: u8) = NOT (mask 4)"
  "(0xF8 :: u8) = NOT (mask 3)" "(0xFC :: u8) = NOT (mask 2)" "(0xFE :: u8) = NOT (mask 1)"
  by (simp_all add: mask_eq_exp_minus_1)


lemma top_eq:
  fixes x :: u8
  assumes "k \<le> 8" "take_bit k y = 0"
  shows "x AND NOT (mask k) = y \<longleftrightarrow> unat x div 2 ^ k = unat y div 2 ^ k"
proof -
  have y: "push_bit k (drop_bit k y) = y"
    using assms(2) bits_ident[of k y] by simp
  have "x AND NOT (mask k) = y \<longleftrightarrow> push_bit k (drop_bit k x) = push_bit k (drop_bit k y)"
    using y by (simp add: high_bits)
  also have "\<dots> \<longleftrightarrow> drop_bit k x = drop_bit k y"
  proof
    have d: "drop_bit k (push_bit k (drop_bit k z)) = drop_bit k z" for z :: u8
      by (auto simp: bit_eq_iff bit_simps dest: bit_imp_le_length)
    assume "push_bit k (drop_bit k x) = push_bit k (drop_bit k y)"
    from arg_cong[OF this, of "drop_bit k"] show "drop_bit k x = drop_bit k y" unfolding d .
  qed simp
  finally show ?thesis by (simp only: word_unat_eq_iff unat_drop)
qed

lemma is_trailer: "s AND 0xC0 = (0x80 :: u8) \<longleftrightarrow> 128 \<le> unat s \<and> unat s < 192"
  unfolding top_bits by (subst top_eq) (simp_all, linarith)


lemma overlong_values:
  assumes "192 \<le> unat u" "unat u < 248"
  shows "overlong u u2 \<longleftrightarrow> unat u < 194 \<or> unat u = 224 \<and> 128 \<le> unat u2 \<and> unat u2 < 160 \<or>
    unat u = 240 \<and> 128 \<le> unat u2 \<and> unat u2 < 144"
proof -
  have "u AND 0xFE = 0xC0 \<longleftrightarrow> unat u < 194"
    unfolding top_bits using assms by (subst top_eq) (simp_all add: mask_eq_exp_minus_1, arith)
  moreover have "u2 AND 0xE0 = 0x80 \<longleftrightarrow> 128 \<le> unat u2 \<and> unat u2 < 160"
    unfolding top_bits by (subst top_eq) (simp_all, arith)
  moreover have "u2 AND 0xF0 = 0x80 \<longleftrightarrow> 128 \<le> unat u2 \<and> unat u2 < 144"
    unfolding top_bits by (subst top_eq) (simp_all, arith)
  moreover have "u \<noteq> 0xF8" "u \<noteq> 0xFC" "u = 0xE0 \<longleftrightarrow> unat u = 224" "u = 0xF0 \<longleftrightarrow> unat u = 240"
    using assms by (auto simp: word_unat_eq_iff)
  ultimately show ?thesis unfolding overlong_def by blast
qed

lemma unat_wide: "unat (ucast (x :: u8) :: u32) = unat x"
proof -
  have "unat x < 2 ^ 32" using unsigned_less[of x, where 'a = nat] by simp
  then show ?thesis unfolding unsigned_ucast_eq by (intro take_bit_nat_eq_self) simp
qed

lemma next_bits:
  assumes "unat c < 2 ^ 26"
  shows "unat (push_bit 6 c OR (ucast (x :: u8) AND 0x3F) :: u32) = 64 * unat c + unat x mod 64"
proof -
  have x: "unat (ucast x AND 0x3F :: u32) = unat x mod 64"
    unfolding masks by (simp add: unat_and_mask unat_wide)
  have "unat (push_bit 6 c) = 64 * unat c"
    using assms by (simp add: push_bit_eq_mult unat_word_ariths)
  moreover have "take_bit 6 (push_bit 6 c) = 0" by (simp add: take_bit_push_bit)
  ultimately show ?thesis using x by (simp add: unat_or_low[of 6])
qed

lemma first_bits: "unat (ucast (u :: u8) AND (push_bit k 1 - 1) :: u32) = unat u mod 2 ^ k"
proof -
  have "(push_bit k 1 - 1 :: u32) = mask k" by (simp add: mask_eq_exp_minus_1 push_bit_eq_mult)
  then show ?thesis
    by (simp add: unat_and_mask unat_wide)
qed

text \<open>Two and three digits to the base 64.\<close>

definition trailer :: "nat \<Rightarrow> bool" where "trailer b \<longleftrightarrow> 128 \<le> b \<and> b < 192"

lemma trailer_digit:
  assumes "trailer b" obtains r where "b = 128 + r" "r < 64"
  by (rule that[of "b - 128"]) (use assms in \<open>auto simp: trailer_def\<close>)

lemma trailer_mod [simp]: "trailer (128 + n mod 64)" "r < 64 \<Longrightarrow> trailer (128 + r)"
  by (simp_all add: trailer_def)

lemma utf8_two: "utf8 n = [b, b1] \<longleftrightarrow> 194 \<le> b \<and> b < 224 \<and> trailer b1 \<and> n = 64 * (b - 192) + (b1 - 128)"
proof
  assume r: "194 \<le> b \<and> b < 224 \<and> trailer b1 \<and> n = 64 * (b - 192) + (b1 - 128)"
  then obtain q where "b = 192 + q" "q < 32" "2 \<le> q" by (intro that[of "b - 192"]) auto
  moreover obtain d where "b1 = 128 + d" "d < 64" using r by (auto elim: trailer_digit)
  ultimately show "utf8 n = [b, b1]" using r by (simp add: utf8_def)
qed (auto simp: utf8_def split: if_splits)

lemma last_digit: "e < 64 \<Longrightarrow> n = 64 * m + e \<Longrightarrow> n div 64 = m \<and> n mod 64 = (e :: nat)"
  by simp

lemma digits_less: "n div 64 = 64 * q + d \<Longrightarrow> d < 64 \<Longrightarrow> q < 16 \<Longrightarrow> n < (65536 :: nat)"
  by linarith

lemma utf8_three: "utf8 n = [b, b1, b2] \<longleftrightarrow> 2048 \<le> n \<and> 224 \<le> b \<and> b < 240 \<and> trailer b1 \<and> trailer b2 \<and>
    n = 64 * (64 * (b - 224) + (b1 - 128)) + (b2 - 128)"
proof
  assume r: "2048 \<le> n \<and> 224 \<le> b \<and> b < 240 \<and> trailer b1 \<and> trailer b2 \<and>
    n = 64 * (64 * (b - 224) + (b1 - 128)) + (b2 - 128)"
  then obtain q where "b = 224 + q" "q < 16" by (intro that[of "b - 224"]) auto
  moreover obtain d e where "b1 = 128 + d" "d < 64" "b2 = 128 + e" "e < 64" using r by (auto elim!: trailer_digit)
  moreover from calculation have "n div 64 = 64 * q + d" "n mod 64 = e" using r last_digit[of e n "64 * q + d"] by simp_all
  moreover have "2048 \<le> n" using r by simp
  ultimately show "utf8 n = [b, b1, b2]" using r digits_less[of n q d] by (simp add: utf8_def)
next
  assume "utf8 n = [b, b1, b2]"
  then have v: "2048 \<le> n" "n < 65536" "b = 224 + n div 64 div 64" "b1 = 128 + n div 64 mod 64" "b2 = 128 + n mod 64"
    by (auto simp: utf8_def split: if_splits)
  have "64 * (64 * (b - 224) + (b1 - 128)) + (b2 - 128) = n"
    unfolding v(3-5) add_diff_cancel_left' mult_div_mod_eq ..
  with v show "2048 \<le> n \<and> 224 \<le> b \<and> b < 240 \<and> trailer b1 \<and> trailer b2 \<and>
    n = 64 * (64 * (b - 224) + (b1 - 128)) + (b2 - 128)" by simp
qed

lemma utf8_four: "utf8 n = [b, b1, b2, b3] \<longleftrightarrow> 65536 \<le> n \<and> 240 \<le> b \<and> trailer b1 \<and> trailer b2 \<and> trailer b3 \<and>
    n = 64 * (64 * (64 * (b - 240) + (b1 - 128)) + (b2 - 128)) + (b3 - 128)"
proof
  assume r: "65536 \<le> n \<and> 240 \<le> b \<and> trailer b1 \<and> trailer b2 \<and> trailer b3 \<and>
    n = 64 * (64 * (64 * (b - 240) + (b1 - 128)) + (b2 - 128)) + (b3 - 128)"
  then obtain q where "b = 240 + q" by (intro that[of "b - 240"]) auto
  moreover obtain d e f where "b1 = 128 + d" "d < 64" "b2 = 128 + e" "e < 64" "b3 = 128 + f" "f < 64"
    using r by (auto elim!: trailer_digit)
  moreover from calculation have "n div 64 = 64 * (64 * q + d) + e" "n mod 64 = f"
    using r last_digit[of f n "64 * (64 * q + d) + e"] by simp_all
  moreover have "65536 \<le> n" using r by simp
  moreover from calculation have "n div 64 div 64 = 64 * q + d" "n div 64 mod 64 = e"
    using last_digit[of e "n div 64" "64 * q + d"] by blast+
  ultimately show "utf8 n = [b, b1, b2, b3]" by (simp add: utf8_def)
next
  assume "utf8 n = [b, b1, b2, b3]"
  then have v: "65536 \<le> n" "b = 240 + n div 64 div 64 div 64" "b1 = 128 + n div 64 div 64 mod 64"
    "b2 = 128 + n div 64 mod 64" "b3 = 128 + n mod 64"
    by (auto simp: utf8_def split: if_splits)
  have "64 * (64 * (64 * (b - 240) + (b1 - 128)) + (b2 - 128)) + (b3 - 128) = n"
    unfolding v(2-5) add_diff_cancel_left' mult_div_mod_eq ..
  with v show "65536 \<le> n \<and> 240 \<le> b \<and> trailer b1 \<and> trailer b2 \<and> trailer b3 \<and>
    n = 64 * (64 * (64 * (b - 240) + (b1 - 128)) + (b2 - 128)) + (b3 - 128)" by simp
qed

lemma utf8_one: "utf8 n = [b] \<longleftrightarrow> b < 128 \<and> n = b"
  by (auto simp: utf8_def)


lemma low_part:
  assumes "a \<le> x" "x < a + d" "d dvd a" shows "x mod d = x - (a :: nat)"
proof -
  obtain r where r: "x = a + r" using assms(1) le_Suc_ex by blast
  from assms(3) obtain q where "a = d * q" ..
  with r assms(2) show ?thesis by simp
qed

lemma trailers_value:
  assumes "Suc (unat c) * 64 ^ k \<le> 2 ^ 32"
  shows "decode_trailers s i c k = Some d \<longleftrightarrow>
    (\<forall>j < k. trailer (unat (s ! (i + j)))) \<and>
    unat d = foldl (\<lambda>n j. 64 * n + (unat (s ! (i + j)) - 128)) (unat c) [0..<k]"
  using assms
proof (induction k arbitrary: i c)
  case 0
  show ?case by (auto simp: word_unat_eq_iff)
next
  case (Suc k)
  define c2 where "c2 = push_bit 6 c OR (ucast (s ! i) AND 0x3F)"
  have l: "[0..<Suc k] = 0 # map Suc [0..<k]" by (simp add: upt_conv_Cons map_Suc_upt del: upt_Suc)
  show ?case
  proof (cases "trailer (unat (s ! i))")
    case True
    have "unat c < 2 ^ 26"
    proof -
      have "Suc (unat c) * 64 * 1 \<le> Suc (unat c) * 64 * 64 ^ k" by (rule mult_le_mono2) simp
      also have "\<dots> = Suc (unat c) * 64 ^ Suc k" by (simp only: power_Suc mult.assoc)
      also note Suc.prems
      finally show ?thesis by simp
    qed
    moreover have m: "unat (s ! i) mod 64 = unat (s ! i) - 128" using True low_part[of 128 _ 64] by (simp add: trailer_def)
    ultimately have c2: "unat c2 = 64 * unat c + (unat (s ! i) - 128)" unfolding c2_def by (simp add: next_bits)
    have "Suc (unat c2) \<le> Suc (unat c) * 64" using c2 True by (auto simp: trailer_def)
    then have "Suc (unat c2) * 64 ^ k \<le> Suc (unat c) * 64 * 64 ^ k" by (rule mult_le_mono1)
    also have "\<dots> = Suc (unat c) * 64 ^ Suc k" by (simp only: power_Suc mult.assoc)
    also note Suc.prems
    finally have "Suc (unat c2) * 64 ^ k \<le> 2 ^ 32" .
    note IH = Suc.IH[OF this, of "Suc i"]
    have "(\<forall>j<Suc k. trailer (unat (s ! (i + j)))) \<longleftrightarrow> (\<forall>j<k. trailer (unat (s ! (Suc i + j))))"
      using True by (auto simp: less_Suc_eq_0_disj)
    then show ?thesis
      using True IH unfolding l foldl_Cons foldl_map
      by (simp add: is_trailer trailer_def c2_def[symmetric] c2)
  next
    case False
    then have "decode_trailers s i c (Suc k) = None" by (simp add: is_trailer trailer_def)
    moreover have "\<not> (\<forall>j<Suc k. trailer (unat (s ! (i + j))))" using False by (auto intro!: exI[of _ 0])
    ultimately show ?thesis by simp
  qed
qed


declare decode_trailers.simps [simp del]

text \<open>The outcome by the value of the first byte.\<close>

lemma decode_success:
  assumes "i < length s" "UTF8_STRIDE ! unat (s ! i) = n" "n \<in> {2, 3, 4}"
  shows "utf_decodeChar s i = Inr (None, j, c) \<longleftrightarrow>
    i + n \<le> length s \<and> \<not> overlong (s ! i) (s ! Suc i) \<and> utf_isValidDchar c \<and> j = i + n \<and>
    decode_trailers s (Suc i) (ucast (s ! i) AND (push_bit (7 - n) 1 - 1)) (n - 1) = Some c"
  using assms by (auto simp: utf_decodeChar_def Let_def split: option.splits if_splits)

lemma upt_numerals: "[0..<2] = [0, 1 :: nat]" "[0..<3] = [0, 1, 2 :: nat]" "[0..<1] = [0 :: nat]"
  by (simp_all add: upt_rec)

lemma less_numerals: "(\<forall>j<1. P j) \<longleftrightarrow> P (0 :: nat)" "(\<forall>j<2. P j) \<longleftrightarrow> P 0 \<and> P (1 :: nat)"
  "(\<forall>j<3. P j) \<longleftrightarrow> P 0 \<and> P 1 \<and> P (2 :: nat)"
  by (auto simp: numeral_2_eq_2 numeral_3_eq_3 less_Suc_eq)

lemma decode_two:
  assumes "i < length s" "192 \<le> unat (s ! i)" "unat (s ! i) < 224"
  shows "utf_decodeChar s i = Inr (None, j, c) \<longleftrightarrow> i + 2 \<le> length s \<and> utf_isValidDchar c \<and> j = i + 2 \<and>
    utf8 (unat c) = [unat (s ! i), unat (s ! Suc i)]"
proof -
  have "unat (ucast (s ! i) AND (push_bit 5 1 - 1) :: u32) = unat (s ! i) - 192"
    unfolding first_bits using assms low_part[of 192 "unat (s ! i)" 32] by simp
  then show ?thesis
    using assms
    by (subst decode_success[of _ _ 2])
      (auto simp: stride trailers_value overlong_values utf8_two less_numerals upt_numerals trailer_def)
qed


lemma decode_three:
  assumes "i < length s" "224 \<le> unat (s ! i)" "unat (s ! i) < 240"
  shows "utf_decodeChar s i = Inr (None, j, c) \<longleftrightarrow> i + 3 \<le> length s \<and> utf_isValidDchar c \<and> j = i + 3 \<and>
    utf8 (unat c) = [unat (s ! i), unat (s ! Suc i), unat (s ! Suc (Suc i))]"
proof -
  have "unat (ucast (s ! i) AND (push_bit 4 1 - 1) :: u32) = unat (s ! i) - 224"
    unfolding first_bits using assms low_part[of 224 "unat (s ! i)" 16] by simp
  then show ?thesis
    using assms
    by (subst decode_success[of _ _ 3])
      (auto simp: stride trailers_value overlong_values utf8_three less_numerals upt_numerals trailer_def)
qed

lemma decode_four:
  assumes "i < length s" "240 \<le> unat (s ! i)" "unat (s ! i) < 248"
  shows "utf_decodeChar s i = Inr (None, j, c) \<longleftrightarrow> i + 4 \<le> length s \<and> utf_isValidDchar c \<and> j = i + 4 \<and>
    utf8 (unat c) = [unat (s ! i), unat (s ! Suc i), unat (s ! Suc (Suc i)), unat (s ! Suc (Suc (Suc i)))]"
proof -
  have "unat (ucast (s ! i) AND (push_bit 3 1 - 1) :: u32) = unat (s ! i) - 240"
    unfolding first_bits using assms low_part[of 240 "unat (s ! i)" 8] by simp
  then show ?thesis
    using assms
    by (subst decode_success[of _ _ 4])
      (auto simp: stride trailers_value overlong_values utf8_four less_numerals upt_numerals trailer_def)
qed

lemma decode_ascii:
  "i < length s \<Longrightarrow> unat (s ! i) < 128 \<Longrightarrow> utf_decodeChar s i = Inr (None, Suc i, ucast (s ! i))"
  by (simp add: utf_decodeChar_def stride Let_def)

lemma decode_outside:
  assumes "i < length s" "128 \<le> unat (s ! i) \<and> unat (s ! i) < 192 \<or> 248 \<le> unat (s ! i)"
  shows "utf_decodeChar s i = Inr (Some Outside_code_space, Suc i, ucast (s ! i))"
proof -
  have "[5, 5, 5, 5, 6, 6, 255, 255] ! (unat (s ! i) - 248) \<in> set [5, 5, 5, 5, 6, 6, 255, 255 :: nat]" if "248 \<le> unat (s ! i)"
    using unsigned_less[of "s ! i", where 'a = nat] that by (intro nth_mem) simp
  then show ?thesis using assms by (auto simp: utf_decodeChar_def stride Let_def)
qed


section \<open>Decoding accepts the encodings and nothing else\<close>

lemma utf8_length: "length (utf8 n) = (if hd (utf8 n) < 128 then 1 else if hd (utf8 n) < 224 then 2
    else if hd (utf8 n) < 240 then 3 else 4)"
  "n \<le> 0x10FFFF \<Longrightarrow> hd (utf8 n) < 128 \<or> 192 \<le> hd (utf8 n) \<and> hd (utf8 n) < 248"
  by (auto simp: utf8_def)

lemma take_drop_nth: "k + i < length s \<Longrightarrow> take (Suc k) (drop i s) = take k (drop i s) @ [s ! (i + k)]"
  by (simp add: take_Suc_conv_app_nth)

lemma take_drop_units:
  assumes "length xs = m" "i < length s"
  shows "map unat (take m (drop i s)) = xs \<longleftrightarrow> i + m \<le> length s \<and> map (\<lambda>k. unat (s ! (i + k))) [0..<m] = xs"
proof (cases "i + m \<le> length s")
  case True
  have "map unat (take m (drop i s)) = map (\<lambda>k. unat (s ! (i + k))) [0..<m]"
    using True by (intro nth_equalityI) auto
  then show ?thesis using True by simp
next
  case False
  then have "length (take m (drop i s)) \<noteq> m" using assms(2) by auto
  with assms show ?thesis using False by (metis length_map)
qed

lemma valid_range: "utf_isValidDchar c \<Longrightarrow> unat c \<le> 0x10FFFF"
  by (auto simp: utf_isValidDchar_def word_le_nat_alt word_less_nat_alt)

lemma utf8_decode_exactly:
  assumes "i < length s"
  shows "utf_decodeChar s i = Inr (None, j, c) \<longleftrightarrow>
      (\<exists>bs. utf_encodeChar c = Inr bs \<and> take (length bs) (drop i s) = bs \<and> j = i + length bs)"
    and "utf_decodeChar s i \<noteq> Inl f"
proof -
  let ?n = "unat c" and ?u = "unat (s ! i)"
  let ?m = "length (utf8 ?n)"
  let ?R = "utf_isValidDchar c \<and> i + ?m \<le> length s \<and> map (\<lambda>k. unat (s ! (i + k))) [0..<?m] = utf8 ?n \<and> j = i + ?m"
  have "(\<exists>bs. utf_encodeChar c = Inr bs \<and> take (length bs) (drop i s) = bs \<and> j = i + length bs) \<longleftrightarrow>
      utf_isValidDchar c \<and> map unat (take ?m (drop i s)) = utf8 ?n \<and> j = i + ?m"
    unfolding utf_encodeChar_Inr by (metis length_map)
  also have "\<dots> \<longleftrightarrow> ?R" using assms by (simp add: take_drop_units)
  finally have R: "(\<exists>bs. utf_encodeChar c = Inr bs \<and> take (length bs) (drop i s) = bs \<and> j = i + length bs) \<longleftrightarrow> ?R" .
  have head: "hd (utf8 ?n) = ?u" if ?R
  proof -
    have "0 < ?m" by (simp add: utf8_def)
    then have "hd (map (\<lambda>k. unat (s ! (i + k))) [0..<?m]) = ?u" by (simp add: hd_map)
    then show ?thesis using that by simp
  qed
  have units: "map (\<lambda>k. unat (s ! (i + k))) [0..<2] = [?u, unat (s ! Suc i)]"
    "map (\<lambda>k. unat (s ! (i + k))) [0..<3] = [?u, unat (s ! Suc i), unat (s ! Suc (Suc i))]"
    "map (\<lambda>k. unat (s ! (i + k))) [0..<4] = [?u, unat (s ! Suc i), unat (s ! Suc (Suc i)), unat (s ! Suc (Suc (Suc i)))]"
    by (simp_all add: upt_rec)
  consider "?u < 128" | "192 \<le> ?u" "?u < 224" | "224 \<le> ?u" "?u < 240" | "240 \<le> ?u" "?u < 248"
    | "128 \<le> ?u \<and> ?u < 192 \<or> 248 \<le> ?u" by linarith
  then have "utf_decodeChar s i = Inr (None, j, c) \<longleftrightarrow> ?R"
  proof cases
    case 1
    have "?R \<longleftrightarrow> ?n = ?u \<and> j = Suc i"
    proof
      assume R: ?R
      then have "?m = 1" using head[OF R] 1 utf8_length(1)[of ?n] by simp
      with R show "?n = ?u \<and> j = Suc i" using utf8_one[of ?n ?u] by simp
    next
      assume r: "?n = ?u \<and> j = Suc i"
      then have "utf8 ?n = [?u]" using 1 by (simp add: utf8_one)
      moreover have "utf_isValidDchar c" using r 1 by (simp add: utf_isValidDchar_def word_less_nat_alt)
      ultimately show ?R using r assms by simp
    qed
    moreover have "utf_decodeChar s i = Inr (None, j, c) \<longleftrightarrow> ?n = ?u \<and> j = Suc i"
      using decode_ascii[OF assms 1] by (auto simp: word_unat_eq_iff unat_wide)
    ultimately show ?thesis by simp
  next
    case 2
    have "?m = 2" if ?R using head[OF that] 2 utf8_length(1)[of ?n] by simp
    then show ?thesis unfolding decode_two[OF assms 2] using units(1) by (auto simp: numeral_2_eq_2)
  next
    case 3
    have "?m = 3" if ?R using head[OF that] 3 utf8_length(1)[of ?n] by simp
    then show ?thesis unfolding decode_three[OF assms 3] using units(2) by (auto simp: numeral_3_eq_3)
  next
    case 4
    have "?m = 4" if ?R using head[OF that] 4 utf8_length(1)[of ?n] by simp
    then show ?thesis unfolding decode_four[OF assms 4] using units(3) by (auto simp: eval_nat_numeral)
  next
    case 5
    have "\<not> ?R" using head utf8_length(2)[OF valid_range, of c] 5 by auto
    then show ?thesis using decode_outside[OF assms 5] by simp
  qed
  then show "utf_decodeChar s i = Inr (None, j, c) \<longleftrightarrow>
      (\<exists>bs. utf_encodeChar c = Inr bs \<and> take (length bs) (drop i s) = bs \<and> j = i + length bs)" using R by simp
  show "utf_decodeChar s i \<noteq> Inl f"
    using assms by (simp add: utf_decodeChar_def Let_def split: option.split)
qed


text \<open>C17: Decoding UTF-8 at a position of the text accepts exactly the encodings of valid code points: it
  gives a code point without an error just when the bytes there are what the encoder writes for
  it, and it never fails otherwise than by an error.\<close>

theorem utf8_decode_exact:
  assumes "i < length s"
  shows "(utf_decodeChar s i = Inr (None, j, c) \<longleftrightarrow>
      (\<exists>bs. utf_encodeChar c = Inr bs \<and> take (length bs) (drop i s) = bs \<and> j = i + length bs)) \<and>
    utf_decodeChar s i \<noteq> Inl f"
  using utf8_decode_exactly[OF assms] by simp

theorem utf8_decode_exact_witness:
  "utf_decodeChar [0x61, 0xE2, 0x82, 0xAC] 1 = Inr (None, 4, 0x20AC)"
proof -
  have "utf_encodeChar 0x20AC = Inr [0xE2, 0x82, 0xAC]" by (simp add: utf_encodeChar_def utf_isValidDchar_def)
  with conjunct1[OF utf8_decode_exact[of 1 "[0x61, 0xE2, 0x82, 0xAC]" 4 "0x20AC"]] show ?thesis by simp
qed

section \<open>UTF-16\<close>

definition utf16 :: "nat \<Rightarrow> nat list" where
  "utf16 n = (if n < 65536 then [n] else [0xD800 + (n - 65536) div 1024, 0xDC00 + (n - 65536) mod 1024])"

lemma unat_wide16: "unat (ucast (x :: u16) :: u32) = unat x"
proof -
  have "unat x < 2 ^ 32" using unsigned_less[of x, where 'a = nat] by simp
  then show ?thesis unfolding unsigned_ucast_eq by (intro take_bit_nat_eq_self) simp
qed

lemma unit_plus:
  assumes "unat x + unat y < 65536" shows "unat (ucast (x + y :: u32) :: u16) = unat x + unat y"
  using assms by (simp add: unsigned_ucast_eq take_bit_nat_eq_self unat_word_ariths)

lemma encode_utf16:
  assumes "utf_isValidDchar c"
  shows "\<exists>us. utf_encodeWchar c = Inr us \<and> map unat us = utf16 (unat c)"
proof (cases "unat c < 65536")
  case True
  then show ?thesis using assms
    by (auto simp: utf_encodeWchar_def utf16_def word_le_nat_alt unsigned_ucast_eq take_bit_nat_eq_self)
next
  case False
  have d: "unat (c - 0x010000) = unat c - 65536" using False by (simp add: unat_sub word_le_nat_alt)
  have m: "unat (x AND 0x3FF :: u32) = unat x mod 1024" for x unfolding masks by (simp add: unat_and_mask)
  have q: "(unat c - 65536) div 1024 < 1024" using valid_range[OF assms] by simp
  have "unat (ucast ((drop_bit 10 (c - 0x010000) AND 0x3FF) + 0xD800) :: u16) = (unat c - 65536) div 1024 + 0xD800"
    by (subst unit_plus) (use q in \<open>simp_all only: m unat_drop d, simp_all\<close>)
  moreover have "unat (ucast (((c - 0x010000) AND 0x3FF) + 0xDC00) :: u16) = (unat c - 65536) mod 1024 + 0xDC00"
    by (subst unit_plus) (simp_all only: m d, simp_all add: less_Suc_eq_le)
  moreover have "\<not> c \<le> 0xFFFF" using False by (simp add: word_le_nat_alt)
  ultimately show ?thesis using assms False by (auto simp: utf_encodeWchar_def utf16_def add.commute)
qed

lemma utf_encodeWchar_Inr: "utf_encodeWchar c = Inr us \<longleftrightarrow> utf_isValidDchar c \<and> map unat us = utf16 (unat c)"
proof (cases "utf_isValidDchar c")
  case True
  obtain as where "utf_encodeWchar c = Inr as" "map unat as = utf16 (unat c)" using encode_utf16[OF True] by blast
  then show ?thesis using True map_unat_inj[of as us] by auto
qed (simp add: utf_encodeWchar_def)

lemma utf16_two:
  "utf16 n = [u, u2] \<longleftrightarrow> 0xD800 \<le> u \<and> 0xDC00 \<le> u2 \<and> u2 < 0xE000 \<and> n = (u - 0xD7C0) * 1024 + (u2 - 0xDC00)"
proof
  assume "utf16 n = [u, u2]"
  then have v: "\<not> n < 65536" "u = 0xD800 + (n - 65536) div 1024" "u2 = 0xDC00 + (n - 65536) mod 1024"
    by (auto simp: utf16_def split: if_splits)
  define m where "m = n - 65536"
  have n: "n = 65536 + m" using v(1) by (simp add: m_def)
  have "(u - 0xD7C0) * 1024 + (u2 - 0xDC00) = n"
    using mult_div_mod_eq[of 1024 m] unfolding v(2,3) n by (simp add: algebra_simps)
  then show "0xD800 \<le> u \<and> 0xDC00 \<le> u2 \<and> u2 < 0xE000 \<and> n = (u - 0xD7C0) * 1024 + (u2 - 0xDC00)"
    using v by simp
next
  assume r: "0xD800 \<le> u \<and> 0xDC00 \<le> u2 \<and> u2 < 0xE000 \<and> n = (u - 0xD7C0) * 1024 + (u2 - 0xDC00)"
  then obtain q d where "u = 0xD800 + q" "u2 = 0xDC00 + d" "d < 1024"
    by (intro that[of "u - 0xD800" "u2 - 0xDC00"]) auto
  with r show "utf16 n = [u, u2]" by (simp add: utf16_def)
qed

lemma utf16_one: "utf16 n = [u] \<longleftrightarrow> u < 65536 \<and> n = u"
  by (auto simp: utf16_def)

text \<open>C18: Decoding UTF-16 at a position accepts exactly the encodings of valid code points.\<close>

theorem utf16_decode_exact:
  assumes "i < length s"
  shows "(utf_decodeWchar s i = Inr (None, j, c) \<longleftrightarrow>
      (\<exists>us. utf_encodeWchar c = Inr us \<and> take (length us) (drop i s) = us \<and> j = i + length us)) \<and>
    utf_decodeWchar s i \<noteq> Inl f"
proof -
  let ?n = "unat c" and ?u = "unat (s ! i)"
  let ?m = "length (utf16 ?n)"
  let ?R = "utf_isValidDchar c \<and> i + ?m \<le> length s \<and> map (\<lambda>k. unat (s ! (i + k))) [0..<?m] = utf16 ?n \<and> j = i + ?m"
  have "(\<exists>us. utf_encodeWchar c = Inr us \<and> take (length us) (drop i s) = us \<and> j = i + length us) \<longleftrightarrow>
      utf_isValidDchar c \<and> map unat (take ?m (drop i s)) = utf16 ?n \<and> j = i + ?m"
    unfolding utf_encodeWchar_Inr by (metis length_map)
  also have "\<dots> \<longleftrightarrow> ?R" using assms by (simp add: take_drop_units)
  finally have R: "(\<exists>us. utf_encodeWchar c = Inr us \<and> take (length us) (drop i s) = us \<and> j = i + length us) \<longleftrightarrow> ?R" .
  have m: "?m = 1 \<or> ?m = 2" by (simp add: utf16_def)
  have units: "map (\<lambda>k. unat (s ! (i + k))) [0..<2] = [?u, unat (s ! Suc i)]" by (simp add: upt_rec)
  note ords = word_less_nat_alt word_le_nat_alt unat_wide16
  have "utf_decodeWchar s i = Inr (None, j, c) \<longleftrightarrow> ?R"
  proof (cases "0xD800 \<le> ?u \<and> ?u < 0xDC00")
    case True
    let ?u2 = "unat (s ! Suc i)"
    have c: "unat (push_bit 10 (ucast (s ! i) - 0xD7C0) + (ucast (s ! Suc i) - 0xDC00) :: u32) =
        (?u - 0xD7C0) * 1024 + (?u2 - 0xDC00)" if "0xDC00 \<le> ?u2" "?u2 < 0xE000"
      using that True by (simp add: push_bit_eq_mult unat_word_ariths unat_sub ords diff_mult_distrib)
    have "utf_decodeWchar s i = Inr (None, j, c) \<longleftrightarrow> Suc i < length s \<and> 0xDC00 \<le> ?u2 \<and> ?u2 < 0xE000 \<and>
        utf_isValidDchar c \<and> j = Suc (Suc i) \<and> ?n = (?u - 0xD7C0) * 1024 + (?u2 - 0xDC00)"
      using assms True by (auto simp: utf_decodeWchar_def Let_def ords c word_unat_eq_iff utf_isValidDchar_def)
    also have "\<dots> \<longleftrightarrow> utf_isValidDchar c \<and> Suc i < length s \<and> utf16 ?n = [?u, ?u2] \<and> j = Suc (Suc i)"
      using True by (auto simp: utf16_two)
    also have "\<dots> \<longleftrightarrow> ?R"
    proof
      assume R: ?R
      have "?m \<noteq> 1"
      proof
        assume "?m = 1"
        with R have "utf16 ?n = [?u]" by simp
        with R True show False by (auto simp: utf16_one utf_isValidDchar_def ords)
      qed
      then have "?m = 2" using m by blast
      with R show "utf_isValidDchar c \<and> Suc i < length s \<and> utf16 ?n = [?u, ?u2] \<and> j = Suc (Suc i)"
        using units by simp
    qed (use units in \<open>auto simp: numeral_2_eq_2\<close>)
    finally show ?thesis .
  next
    case False
    have "utf_decodeWchar s i = Inr (None, j, c) \<longleftrightarrow> utf_isValidDchar c \<and> ?n = ?u \<and> j = Suc i"
      using assms False by (auto simp: utf_decodeWchar_def Let_def ords word_unat_eq_iff utf_isValidDchar_def)
    also have "\<dots> \<longleftrightarrow> ?R"
    proof
      assume R: ?R
      have "?m \<noteq> 2"
      proof
        assume "?m = 2"
        with R have "utf16 ?n = [?u, unat (s ! Suc i)]" using units by simp
        then have u: "0xDC00 \<le> ?u" "?n = (?u - 0xD7C0) * 1024 + (unat (s ! Suc i) - 0xDC00)"
          using False by (auto simp: utf16_two)
        have "(0xDC00 - 0xD7C0) * 1024 \<le> (?u - 0xD7C0) * 1024" using u(1) by (intro mult_le_mono1 diff_le_mono)
        then have "0x10FFFF < ?n" using u(2) by simp
        then show False using valid_range[of c] R by simp
      qed
      then have "?m = 1" using m by blast
      with R show "utf_isValidDchar c \<and> ?n = ?u \<and> j = Suc i" using utf16_one[of ?n ?u] by simp
    next
      assume r: "utf_isValidDchar c \<and> ?n = ?u \<and> j = Suc i"
      moreover have "?u < 65536" using unsigned_less[of "s ! i", where 'a = nat] by simp
      ultimately have "utf16 ?n = [?u]" by (simp add: utf16_one)
      with r assms show ?R by simp
    qed
    finally show ?thesis .
  qed
  moreover have "utf_decodeWchar s i \<noteq> Inl f"
    using assms by (simp add: utf_decodeWchar_def Let_def)
  ultimately show ?thesis using R by simp
qed

theorem utf16_decode_exact_witness: "utf_decodeWchar [0x61, 0xD83D, 0xDE00] 1 = Inr (None, 3, 0x1F600)"
proof -
  have "utf_encodeWchar 0x1F600 = Inr [0xD83D, 0xDE00]" by (simp add: utf_encodeWchar_def utf_isValidDchar_def)
  with conjunct1[OF utf16_decode_exact[of 1 "[0x61, 0xD83D, 0xDE00]" 3 "0x1F600"]] show ?thesis by simp
qed

end
