(* ===== verification/Out_Buffer.thy ===== *)
theory Out_Buffer
  imports Utf
begin

text \<open>
  \<open>OutBuffer\<close> of common/outbuffer.h, with the bodies of common/outbuffer.d: a growing block of
  bytes of which the first \<open>offset\<close> are the text, and the indentation that is written before the
  first byte of a line.  A buffer mapped to a file and \<open>printf\<close> are left out; the allocator always
  succeeds; newlines are those of Posix and words are little-endian.
\<close>

section \<open>State\<close>

record outbuf =
  bytes :: "u8 block"
  offset :: u64
  notlinehead :: bool
  doindent :: bool
  spaces :: bool
  level :: u32

definition OutBuffer_new :: outbuf where
  "OutBuffer_new = \<lparr>bytes = [], offset = 0, notlinehead = False, doindent = False, spaces = False, level = 0\<rparr>"

definition extent :: "outbuf \<Rightarrow> u64" where "extent b = of_nat (length (bytes b))"

section \<open>Room\<close>

text \<open>\<open>memset\<close>.\<close>

definition fill :: "u8 block \<Rightarrow> nat \<Rightarrow> nat \<Rightarrow> u8 \<Rightarrow> fault + u8 block" where
  "fill b dst n v =
     (if n = 0 then Inr b
      else if dst + n \<le> length b then Inr (blit b dst (replicate n (Some v))) else Inl Out_Of_Bounds)"

definition reserve :: "u64 \<Rightarrow> outbuf \<Rightarrow> fault + outbuf" where
  "reserve nbytes b =
     (let minSize = offset b + nbytes in
      if minSize \<le> extent b then Inr b
      else (let size = ((minSize * 3 + 30) div 2) AND NOT 15 in
        rbind (fill (mem_realloc (bytes b) (unat size)) (unat (offset b + nbytes)) (unat (size - offset b - nbytes)) 0xFF)
          (\<lambda>d. Inr (b\<lparr>bytes := d\<rparr>))))"

definition setsize :: "u64 \<Rightarrow> outbuf \<Rightarrow> fault + outbuf" where
  "setsize n b = (if n \<le> extent b then Inr (b\<lparr>offset := n\<rparr>) else Inl Assertion)"

definition reset :: "outbuf \<Rightarrow> outbuf" where "reset b = b\<lparr>offset := 0\<rparr>"

definition position :: "u64 \<Rightarrow> u64 \<Rightarrow> outbuf \<Rightarrow> fault + outbuf" where
  "position at n b =
     rbind (if extent b < at + n then reserve (at + n - offset b) b else Inr b) (\<lambda>b. Inr (b\<lparr>offset := at\<rparr>))"

text \<open>The slice of \<open>data\<close> behind the text is assigned.\<close>

definition indent :: "outbuf \<Rightarrow> fault + outbuf" where
  "indent b =
     rbind (if level b \<noteq> 0 then
         (let indentLevel = scast (if spaces b then level b * 4 else level b) in
          rbind (reserve indentLevel b) (\<lambda>b.
          let upper = offset b + indentLevel in
          if offset b \<le> upper \<and> upper \<le> extent b then
            rbind (fill (bytes b) (unat (offset b)) (unat (upper - offset b)) (if spaces b then 0x20 else 0x09)) (\<lambda>d.
            Inr (b\<lparr>bytes := d, offset := upper\<rparr>))
          else Inl Out_Of_Bounds))
       else Inr b) (\<lambda>b. Inr (b\<lparr>notlinehead := True\<rparr>))"

definition indent_if :: "bool \<Rightarrow> outbuf \<Rightarrow> fault + outbuf" where
  "indent_if c b = (if doindent b \<and> \<not> notlinehead b \<and> c then indent b else Inr b)"

section \<open>Writing\<close>

text \<open>Bytes stored from \<open>offset\<close> on, with no reserve check: \<open>writen\<close>, \<open>writeByten\<close> and \<open>write16n\<close>.\<close>

definition writen :: "u8 list \<Rightarrow> outbuf \<Rightarrow> fault + outbuf" where
  "writen bs b =
     rbind (mem_copy_in (bytes b) (unat (offset b)) (map Some bs) 0 (length bs)) (\<lambda>d.
     Inr (b\<lparr>bytes := d, offset := offset b + of_nat (length bs)\<rparr>))"

definition little_endian16 :: "u16 \<Rightarrow> u8 list" where "little_endian16 w = [ucast w, ucast (drop_bit 8 w)]"

definition little_endian32 :: "u32 \<Rightarrow> u8 list" where
  "little_endian32 w = [ucast w, ucast (drop_bit 8 w), ucast (drop_bit 16 w), ucast (drop_bit 24 w)]"

definition write_bytes :: "u8 list \<Rightarrow> outbuf \<Rightarrow> fault + outbuf" where
  "write_bytes bs b = rbind (indent_if True b) (\<lambda>b. rbind (reserve (of_nat (length bs)) b) (writen bs))"

definition writeByte :: "u8 \<Rightarrow> outbuf \<Rightarrow> fault + outbuf" where
  "writeByte c b = rbind (indent_if (c \<noteq> 0x0A) b) (\<lambda>b. rbind (reserve 1 b) (writen [c]))"

definition write16 :: "u32 \<Rightarrow> outbuf \<Rightarrow> fault + outbuf" where "write16 v = write_bytes (little_endian16 (ucast v))"

definition write32 :: "u32 \<Rightarrow> outbuf \<Rightarrow> fault + outbuf" where "write32 v = write_bytes (little_endian32 v)"

definition writeStringz :: "u8 list \<Rightarrow> outbuf \<Rightarrow> fault + outbuf" where
  "writeStringz s b = rbind (write_bytes s b) (writeByte 0)"

definition writestring :: "u8 list \<Rightarrow> outbuf \<Rightarrow> fault + outbuf" where "writestring s b = write_bytes s b"

primrec strip_blanks :: "u8 block \<Rightarrow> nat \<Rightarrow> fault + nat" where
  "strip_blanks d 0 = Inr 0"
| "strip_blanks d (Suc k) =
     rbind (mem_read d k) (\<lambda>c. if c = 0x20 \<or> c = 0x09 then strip_blanks d k else Inr (Suc k))"

definition writenl :: "outbuf \<Rightarrow> fault + outbuf" where
  "writenl b =
     rbind (strip_blanks (bytes b) (unat (offset b))) (\<lambda>k.
     rbind (writeByte 0x0A (b\<lparr>offset := of_nat k\<rparr>)) (\<lambda>b.
     Inr (if doindent b then b\<lparr>notlinehead := False\<rparr> else b)))"

definition writestringln :: "u8 list \<Rightarrow> outbuf \<Rightarrow> fault + outbuf" where
  "writestringln s b = rbind (writestring s b) writenl"

definition prependstring :: "u8 list \<Rightarrow> outbuf \<Rightarrow> fault + outbuf" where
  "prependstring s b0 =
     (let len = of_nat (length s) in
      rbind (reserve len b0) (\<lambda>b.
      rbind (mem_move (bytes b) (unat len) 0 (unat (offset b))) (\<lambda>d.
      rbind (mem_copy_in d 0 (map Some s) 0 (unat len)) (\<lambda>d.
      Inr (b\<lparr>bytes := d, offset := offset b + len\<rparr>)))))"

definition prependbyte :: "u32 \<Rightarrow> outbuf \<Rightarrow> fault + outbuf" where
  "prependbyte c b0 =
     rbind (reserve 1 b0) (\<lambda>b.
     rbind (mem_move (bytes b) 1 0 (unat (offset b))) (\<lambda>d.
     rbind (mem_write d 0 (ucast c)) (\<lambda>d.
     Inr (b\<lparr>bytes := d, offset := offset b + 1\<rparr>))))"

definition writeUTF8 :: "u32 \<Rightarrow> outbuf \<Rightarrow> fault + outbuf" where
  "writeUTF8 c b0 =
     rbind (reserve 6 b0) (\<lambda>b.
     if c \<le> 0x7F then writen [ucast c] b
     else if c \<le> 0x7FF then writen [ucast (drop_bit 6 c OR 0xC0), ucast ((c AND 0x3F) OR 0x80)] b
     else if c \<le> 0xFFFF then writen [ucast (drop_bit 12 c OR 0xE0), ucast ((drop_bit 6 c AND 0x3F) OR 0x80),
       ucast ((c AND 0x3F) OR 0x80)] b
     else if c \<le> 0x1FFFFF then writen [ucast (drop_bit 18 c OR 0xF0), ucast ((drop_bit 12 c AND 0x3F) OR 0x80),
       ucast ((drop_bit 6 c AND 0x3F) OR 0x80), ucast ((c AND 0x3F) OR 0x80)] b
     else Inl Assertion)"

definition writeword :: "u32 \<Rightarrow> outbuf \<Rightarrow> fault + outbuf" where
  "writeword w b = rbind (indent_if (w \<noteq> 0x0A) b) (\<lambda>b. rbind (reserve 2 b) (writen (little_endian16 (ucast w))))"

definition write4 :: "u32 \<Rightarrow> outbuf \<Rightarrow> fault + outbuf" where
  "write4 w b = rbind (indent_if True b) (\<lambda>b. rbind (reserve 4 b) (writen (little_endian32 w)))"

definition writewchar :: "u32 \<Rightarrow> outbuf \<Rightarrow> fault + outbuf" where "writewchar w b = write4 w b"

definition writeUTF16 :: "u32 \<Rightarrow> outbuf \<Rightarrow> fault + outbuf" where
  "writeUTF16 w b0 =
     rbind (reserve 4 b0) (\<lambda>b.
     if w \<le> 0xFFFF then writen (little_endian16 (ucast w)) b
     else if w \<le> 0x10FFFF then writen (little_endian16 (ucast (drop_bit 10 w + 0xD7C0)) @
       little_endian16 (ucast ((w AND 0x3FF) OR 0xDC00))) b
     else Inl Assertion)"

definition write_buffer :: "outbuf \<Rightarrow> outbuf \<Rightarrow> fault + outbuf" where
  "write_buffer src b0 =
     rbind (reserve (offset src) b0) (\<lambda>b.
     rbind (mem_copy_in (bytes b) (unat (offset b)) (bytes src) 0 (unat (offset src))) (\<lambda>d.
     Inr (b\<lparr>bytes := d, offset := offset b + offset src\<rparr>)))"

definition fill0 :: "u64 \<Rightarrow> outbuf \<Rightarrow> fault + outbuf" where
  "fill0 n b0 =
     rbind (reserve n b0) (\<lambda>b.
     rbind (fill (bytes b) (unat (offset b)) (unat n) 0) (\<lambda>d.
     Inr (b\<lparr>bytes := d, offset := offset b + n\<rparr>)))"

text \<open>The slice of \<open>data\<close> that is returned is given by its first index.\<close>

definition allocate :: "u64 \<Rightarrow> outbuf \<Rightarrow> fault + outbuf \<times> u64" where
  "allocate n b0 =
     rbind (reserve n b0) (\<lambda>b.
     let upper = offset b + n in
     if upper - n \<le> upper \<and> upper \<le> extent b then Inr (b\<lparr>offset := upper\<rparr>, upper - n) else Inl Out_Of_Bounds)"

definition hex_digit :: "bool \<Rightarrow> u8 \<Rightarrow> u8" where
  "hex_digit upperCase d = (if d < 10 then d + 0x30 else d - 10 + (if upperCase then 0x41 else 0x61))"

definition hex_text :: "bool \<Rightarrow> u8 list \<Rightarrow> u8 list" where
  "hex_text upperCase ds =
     concat (map (\<lambda>c. [hex_digit upperCase (drop_bit 4 c AND 0xF), hex_digit upperCase (c AND 0xF)]) ds)"

definition writeHexString :: "u8 list \<Rightarrow> bool \<Rightarrow> outbuf \<Rightarrow> fault + outbuf" where
  "writeHexString ds upperCase b0 =
     rbind (allocate (2 * of_nat (length ds)) b0) (\<lambda>(b, lower).
     rbind (mem_copy_in (bytes b) (unat lower) (map Some (hex_text upperCase ds)) 0 (2 * length ds)) (\<lambda>d.
     Inr (b\<lparr>bytes := d\<rparr>)))"

section \<open>Editing\<close>

definition bracket :: "u8 \<Rightarrow> u8 \<Rightarrow> outbuf \<Rightarrow> fault + outbuf" where
  "bracket left right b0 =
     rbind (reserve 2 b0) (\<lambda>b.
     rbind (mem_move (bytes b) 1 0 (unat (offset b))) (\<lambda>d.
     rbind (mem_write d 0 left) (\<lambda>d.
     rbind (mem_write d (unat (offset b + 1)) right) (\<lambda>d.
     Inr (b\<lparr>bytes := d, offset := offset b + 2\<rparr>)))))"

definition spread :: "u64 \<Rightarrow> u64 \<Rightarrow> outbuf \<Rightarrow> fault + outbuf" where
  "spread i n b0 =
     rbind (reserve n b0) (\<lambda>b.
     rbind (mem_move (bytes b) (unat (i + n)) (unat i) (unat (offset b - i))) (\<lambda>d.
     Inr (b\<lparr>bytes := d, offset := offset b + n\<rparr>)))"

definition insert_bytes :: "u64 \<Rightarrow> u8 list \<Rightarrow> outbuf \<Rightarrow> fault + outbuf" where
  "insert_bytes i bs b0 =
     rbind (spread i (of_nat (length bs)) b0) (\<lambda>b.
     rbind (mem_copy_in (bytes b) (unat i) (map Some bs) 0 (length bs)) (\<lambda>d.
     Inr (b\<lparr>bytes := d\<rparr>)))"

definition bracket_at :: "u64 \<Rightarrow> u8 list \<Rightarrow> u64 \<Rightarrow> u8 list \<Rightarrow> outbuf \<Rightarrow> fault + outbuf \<times> u64" where
  "bracket_at i left j right b =
     (let leftlen = of_nat (length left); rightlen = of_nat (length right) in
      rbind (reserve (leftlen + rightlen) b) (\<lambda>b.
      rbind (insert_bytes i left b) (\<lambda>b.
      rbind (insert_bytes (j + leftlen) right b) (\<lambda>b. Inr (b, j + leftlen + rightlen)))))"

definition remove_bytes :: "u64 \<Rightarrow> u64 \<Rightarrow> outbuf \<Rightarrow> fault + outbuf" where
  "remove_bytes i n b =
     rbind (mem_move (bytes b) (unat i) (unat (i + n)) (unat (offset b - (i + n)))) (\<lambda>d.
     Inr (b\<lparr>bytes := d, offset := offset b - n\<rparr>))"

section \<open>Reading\<close>

text \<open>The last byte of the text, if it is there and is 0, saves the terminator.\<close>

definition needs_terminator :: "outbuf \<Rightarrow> fault + bool" where
  "needs_terminator b =
     (if offset b = 0 then Inr True else rbind (mem_read (bytes b) (unat (offset b - 1))) (\<lambda>c. Inr (c \<noteq> 0)))"

definition peekChars :: "outbuf \<Rightarrow> fault + outbuf" where
  "peekChars b =
     rbind (needs_terminator b) (\<lambda>n.
     if n then rbind (writeByte 0 b) (\<lambda>b. Inr (b\<lparr>offset := offset b - 1\<rparr>)) else Inr b)"

definition extractData :: "outbuf \<Rightarrow> u8 block \<times> outbuf" where
  "extractData b = (bytes b, b\<lparr>bytes := [], offset := 0\<rparr>)"

definition destroy :: "outbuf \<Rightarrow> outbuf" where "destroy b = b\<lparr>bytes := [], offset := 0\<rparr>"

definition extractChars :: "outbuf \<Rightarrow> fault + u8 block \<times> outbuf" where
  "extractChars b =
     rbind (needs_terminator b) (\<lambda>n.
     rbind (if n then writeByte 0 b else Inr b) (\<lambda>b. Inr (extractData b)))"

definition extractSlice :: "bool \<Rightarrow> outbuf \<Rightarrow> fault + u8 block \<times> outbuf" where
  "extractSlice nullTerminate b =
     (let n = unat (offset b) in
      if \<not> nullTerminate then (let (d, b) = extractData b in Inr (take n d, b))
      else rbind (needs_terminator b) (\<lambda>t.
        if \<not> t then (let (d, b) = extractData b in Inr (take (n - 1) d, b))
        else rbind (writeByte 0 b) (\<lambda>b. let (d, b) = extractData b in Inr (take n d, b))))"


section \<open>Numbers\<close>

text \<open>The shift of \<open>value\<close> ends the loops; the one of a signed value is arithmetic.\<close>

function writeuLEB128 :: "u32 \<Rightarrow> outbuf \<Rightarrow> fault + outbuf" where
  "writeuLEB128 v b =
     (let c = ucast v AND 0x7F; v2 = drop_bit 7 v in
      if v2 \<noteq> 0 then rbind (writeByte (c OR 0x80) b) (writeuLEB128 v2) else writeByte c b)"
  by pat_completeness auto
termination
proof (relation "measure (\<lambda>(v, b). unat v)", goal_cases)
  case (2 v b c v2 b2)
  then have "v \<noteq> 0" by auto
  then have "0 < unat v" by (simp add: unat_gt_0)
  then show ?case using 2 by (simp add: unat_drop)
qed simp

lemma sint_shift: "sint (signed_drop_bit 7 v) = sint (v :: u32) div 128"
  by (simp add: sint_signed_drop_bit_eq drop_bit_eq_div)

definition magnitude :: "u32 \<Rightarrow> nat" where "magnitude v = nat (if sint v < 0 then - sint v - 1 else sint v)"

lemma magnitude_shift: "v \<noteq> 0 \<Longrightarrow> v \<noteq> - 1 \<Longrightarrow> magnitude (signed_drop_bit 7 v) < magnitude v"
proof -
  assume "v \<noteq> 0" "v \<noteq> - 1"
  then have "sint v \<noteq> 0" "sint v \<noteq> - 1" by (metis sint_0 signed_word_eqI) (metis \<open>v \<noteq> - 1\<close> sint_n1 signed_word_eqI)
  then show ?thesis unfolding magnitude_def sint_shift by (auto; linarith)
qed

function writesLEB128 :: "u32 \<Rightarrow> outbuf \<Rightarrow> fault + outbuf" where
  "writesLEB128 v b =
     (let c = ucast v AND 0x7F; v2 = signed_drop_bit 7 v in
      if v2 = 0 \<and> c AND 0x40 = 0 \<or> v2 = - 1 \<and> c AND 0x40 \<noteq> 0 then writeByte c b
      else rbind (writeByte (c OR 0x80) b) (writesLEB128 v2))"
  by pat_completeness auto
termination
proof (relation "measure (\<lambda>(v, b). magnitude v)", goal_cases)
  case (2 v b c v2 b2)
  have "(ucast (- 1 :: u32) :: u8) = - 1" by (auto simp: bit_eq_iff bit_simps)
  then have "v \<noteq> 0" "v \<noteq> - 1" using 2 by auto
  then show ?case using 2 magnitude_shift by simp
qed simp

text \<open>\<open>unsignedToTempString\<close> with the radix 10 fills its buffer of 20 characters from the end; \<open>i\<close> is
  the index of the last one written.\<close>

function unsignedToTempString :: "u64 \<Rightarrow> nat \<Rightarrow> u8 list \<Rightarrow> fault + u8 list" where
  "unsignedToTempString v i ds =
     (if i = 0 then Inl Out_Of_Bounds
      else if v < 10 then Inr ((ucast v + 48) # ds)
      else unsignedToTempString (v div 10) (i - 1) ((ucast (v mod 10) + 48) # ds))"
  by pat_completeness auto
termination by (relation "measure (\<lambda>(v, i, ds). i)") auto

declare writeuLEB128.simps [simp del] writesLEB128.simps [simp del] unsignedToTempString.simps [simp del]

definition print :: "u64 \<Rightarrow> outbuf \<Rightarrow> fault + outbuf" where
  "print u b = rbind (unsignedToTempString u 20 []) (\<lambda>ds. writestring ds b)"

end
