(* ===== verification/Buffer_Laws.thy ===== *)
theory Buffer_Laws
  imports Out_Buffer
begin

text \<open>
  What the operations of \<open>OutBuffer\<close> do to the text.  \<open>delivers m Q\<close> says that \<open>m\<close> is no fault and
  its result satisfies \<open>Q\<close>; \<open>holds y h t b\<close> that the buffer \<open>b\<close> has the layout \<open>y\<close>, the flag
  \<open>notlinehead\<close> \<open>h\<close> and the text \<open>t\<close>.
\<close>

section \<open>Results\<close>

definition delivers :: "fault + 'a \<Rightarrow> ('a \<Rightarrow> bool) \<Rightarrow> bool" where
  "delivers m Q = (case m of Inl _ \<Rightarrow> False | Inr x \<Rightarrow> Q x)"

lemma delivers_simps [simp]: "delivers (Inr x) Q = Q x" "\<not> delivers (Inl e) Q"
  by (simp_all add: delivers_def)

lemma delivers_bind: "delivers m R \<Longrightarrow> (\<And>x. R x \<Longrightarrow> delivers (f x) Q) \<Longrightarrow> delivers (rbind m f) Q"
  by (cases m) simp_all

lemma delivers_mono: "delivers m R \<Longrightarrow> (\<And>x. R x \<Longrightarrow> Q x) \<Longrightarrow> delivers m Q"
  by (cases m) simp_all

lemma deliversD: "delivers m Q \<Longrightarrow> \<exists>x. m = Inr x \<and> Q x"
  by (cases m) simp_all

section \<open>Layout and text\<close>

record layout =
  indenting :: bool
  by_spaces :: bool
  depth :: nat

definition layout_ok :: "layout \<Rightarrow> bool" where "layout_ok y \<longleftrightarrow> 4 * depth y < 2 ^ 31"

definition margin :: "layout \<Rightarrow> u8 list" where
  "margin y = (if by_spaces y then replicate (4 * depth y) 0x20 else replicate (depth y) 0x09)"

text \<open>The margin that comes before a byte other than a newline.\<close>

definition lead :: "layout \<Rightarrow> bool \<Rightarrow> u8 list" where
  "lead y h = (if indenting y \<and> \<not> h then margin y else [])"

definition has_layout :: "layout \<Rightarrow> outbuf \<Rightarrow> bool" where
  "has_layout y b \<longleftrightarrow> doindent b = indenting y \<and> spaces b = by_spaces y \<and> unat (level b) = depth y \<and> layout_ok y"

definition holds :: "layout \<Rightarrow> bool \<Rightarrow> u8 list \<Rightarrow> outbuf \<Rightarrow> bool" where
  "holds y h t b \<longleftrightarrow> has_layout y b \<and> notlinehead b = h \<and> length (bytes b) < 2 ^ 64 \<and>
     unat (offset b) = length t \<and> length t \<le> length (bytes b) \<and> take (length t) (bytes b) = map Some t"

text \<open>Below this many bytes the arithmetic of \<open>reserve\<close> does not wrap.\<close>

definition out_limit :: nat where "out_limit = 6148914691236517195"

definition space_for :: "nat \<Rightarrow> outbuf \<Rightarrow> bool" where "space_for n b \<longleftrightarrow> n \<le> length (bytes b)"

lemma unat_nat: "n < 2 ^ 64 \<Longrightarrow> unat (of_nat n :: u64) = n"
  by (simp add: unat_of_nat)

lemma unat_extent: "holds y h t b \<Longrightarrow> unat (extent b) = length (bytes b)"
  by (simp add: holds_def extent_def unat_nat)

lemma offset_plus:
  assumes "holds y h t b" "length t + unat n < 2 ^ 64" shows "unat (offset b + n) = length t + unat n"
  using assms by (simp add: holds_def unat_word_ariths)

section \<open>Room\<close>

lemma grown_size:
  fixes m :: u64
  assumes "unat m \<le> out_limit"
  shows "unat m \<le> unat (((m * 3 + 30) div 2) AND NOT 15)"
proof -
  have m: "unat (m * 3 + 30) = unat m * 3 + 30"
    using assms by (simp add: out_limit_def unat_word_ariths)
  have f: "(15 :: u64) = mask 4" by (simp add: mask_eq_exp_minus_1)
  have "unat (push_bit 4 (drop_bit 4 x)) = unat x div 16 * 16" for x :: u64
  proof -
    have "unat (drop_bit 4 x) * 16 \<le> unat x" by (simp add: unat_drop)
    then have "unat (drop_bit 4 x) * 16 < 2 ^ 64" using unat_u64_lt[of x] by simp
    then show ?thesis by (simp add: push_bit_eq_mult unat_word_ariths unat_drop)
  qed
  then have "unat (((m * 3 + 30) div 2) AND NOT 15) = unat ((m * 3 + 30) div 2) div 16 * 16"
    unfolding f high_bits .
  also have "\<dots> = (unat m * 3 + 30) div 2 div 16 * 16" by (simp add: unat_div m)
  finally show ?thesis by simp
qed

lemma fill_in: "dst + n \<le> length b \<Longrightarrow> fill b dst n v = Inr (blit b dst (replicate n (Some v)))"
  by (simp add: fill_def blit_def)

lemma reserve_returns:
  assumes "holds y h t b" "length t + unat n \<le> out_limit"
  shows "delivers (reserve n b) (\<lambda>b'. holds y h t b' \<and> space_for (length t + unat n) b')"
proof -
  have l: "length t + unat n < 2 ^ 64" using assms(2) by (simp add: out_limit_def)
  note o = offset_plus[OF assms(1) l]
  show ?thesis
  proof (cases "offset b + n \<le> extent b")
    case True
    then have "length t + unat n \<le> length (bytes b)"
      using o unat_extent[OF assms(1)] by (simp add: word_le_nat_alt)
    then show ?thesis using True assms(1) by (simp add: reserve_def space_for_def)
  next
    case False
    define s where "s = (((offset b + n) * 3 + 30) div 2) AND NOT 15"
    have s: "length t + unat n \<le> unat s" unfolding s_def using grown_size[of "offset b + n"] assms(2) o by simp
    have "unat (s - (offset b + n)) = unat s - unat (offset b + n)"
      by (rule unat_sub) (use s o in \<open>simp add: word_le_nat_alt\<close>)
    then have d: "unat (s - offset b - n) = unat s - (length t + unat n)" unfolding o by (simp only: diff_diff_add)
    let ?p = "mem_realloc (bytes b) (unat s)"
    have f: "fill ?p (unat (offset b + n)) (unat (s - offset b - n)) 0xFF =
        Inr (blit ?p (length t + unat n) (replicate (unat s - (length t + unat n)) (Some 0xFF)))"
      unfolding o d by (rule fill_in) (use s in simp)
    have "holds y h t (b\<lparr>bytes := blit ?p (length t + unat n) (replicate (unat s - (length t + unat n)) (Some 0xFF))\<rparr>)"
      using assms(1) s unat_u64_lt[of s]
      by (auto simp: holds_def has_layout_def length_blit take_blit_before take_mem_realloc)
    then show ?thesis
      unfolding reserve_def Let_def s_def[symmetric] if_not_P[OF False] f using s
      by (simp add: space_for_def length_blit)
  qed
qed

lemma writen_returns:
  assumes "holds y h t b" "space_for (length t + length bs) b"
  shows "delivers (writen bs b) (\<lambda>b'. holds y h (t @ bs) b' \<and> length (bytes b') = length (bytes b))"
proof -
  have l: "length t + length bs < 2 ^ 64" "length t + length bs \<le> length (bytes b)"
    using assms by (simp_all add: holds_def space_for_def)
  have o: "unat (offset b) = length t" using assms(1) by (simp add: holds_def)
  have c: "mem_copy_in (bytes b) (length t) (map Some bs) 0 (length bs) = Inr (blit (bytes b) (length t) (map Some bs))"
    using l(2) by (subst mem_copy_in_in) (simp_all add: slice_def)
  have "unat (offset b + of_nat (length bs)) = length t + length bs"
    using offset_plus[OF assms(1), of "of_nat (length bs)"] l by (simp add: unat_nat)
  then show ?thesis
    using assms(1) l(2) take_blit_all[of "length t" "bytes b" "map Some bs"]
    by (auto simp: writen_def o c holds_def has_layout_def length_blit)
qed


section \<open>Indentation\<close>

lemma margin_length: "length (margin y) = (if by_spaces y then 4 * depth y else depth y)"
  by (simp add: margin_def)

lemma indent_width:
  assumes "has_layout y b"
  shows "scast (if spaces b then level b * 4 else level b) = (of_nat (length (margin y)) :: u64)"
proof -
  have y: "unat (level b) = depth y" "4 * depth y < 2 ^ 31" "spaces b = by_spaces y"
    using assms by (simp_all add: has_layout_def layout_ok_def)
  let ?w = "if spaces b then level b * 4 else level b"
  have "?w = of_nat (length (margin y))" using y by (simp add: margin_length flip: y(1))
  moreover have "length (margin y) < 2 ^ 31" using y(2) by (simp add: margin_length)
  moreover have "(scast (of_nat n :: u32) :: u64) = of_nat n" if "n < 2 ^ 31" for n
  proof -
    have "sint (of_nat n :: u32) = int n" using that by (simp add: signed_of_nat signed_take_bit_int_eq_self)
    then show ?thesis by (metis of_int_of_nat_eq of_int_sint)
  qed
  ultimately show ?thesis by simp
qed

lemma indent_returns:
  assumes "holds y h t b" "length t + length (margin y) \<le> out_limit"
  shows "delivers (indent b) (holds y True (t @ margin y))"
proof (cases "level b = 0")
  case True
  then have "margin y = []" using assms(1) by (auto simp: holds_def has_layout_def margin_def unat_eq_zero)
  then show ?thesis using True assms(1) by (auto simp: indent_def holds_def has_layout_def)
next
  case False
  let ?m = "margin y" let ?n = "of_nat (length ?m) :: u64"
  have l: "length t + length ?m < 2 ^ 64" using assms(2) by (simp add: out_limit_def)
  then have n: "unat ?n = length ?m" by (simp add: unat_nat)
  have w: "scast (if spaces b then level b * 4 else level b) = ?n"
    using assms(1) indent_width by (simp add: holds_def)
  have "delivers (rbind (reserve ?n b) (\<lambda>b'. let upper = offset b' + ?n in
      if offset b' \<le> upper \<and> upper \<le> extent b' then
        rbind (fill (bytes b') (unat (offset b')) (unat (upper - offset b')) (if spaces b' then 0x20 else 0x09))
          (\<lambda>d. Inr (b'\<lparr>bytes := d, offset := upper\<rparr>))
      else Inl Out_Of_Bounds)) (holds y h (t @ ?m))" (is "delivers (rbind _ ?f) _")
  proof (rule delivers_bind[OF reserve_returns[OF assms(1)]])
    show "length t + unat ?n \<le> out_limit" using assms(2) n by simp
    fix b' assume b': "holds y h t b' \<and> space_for (length t + unat ?n) b'"
    let ?c = "if spaces b' then 0x20 else 0x09 :: u8"
    have c: "?m = replicate (length ?m) ?c" using b' by (simp add: holds_def has_layout_def margin_def)
    have o: "unat (offset b' + ?n) = length t + length ?m" "unat (offset b') = length t"
      using b' l n offset_plus[of y h t b' ?n] by (simp_all add: holds_def)
    have r: "length t + length ?m \<le> length (bytes b')" using b' n by (simp add: space_for_def)
    have g: "offset b' \<le> offset b' + ?n \<and> offset b' + ?n \<le> extent b'"
      using o r unat_extent[of y h t b'] b' by (simp add: word_le_nat_alt)
    have f: "fill (bytes b') (length t) (length ?m) ?c = Inr (blit (bytes b') (length t) (map Some ?m))"
      using r fill_in[of "length t" "length ?m" "bytes b'" ?c] c by (metis map_replicate)
    show "delivers (?f b') (holds y h (t @ ?m))"
      unfolding Let_def if_P[OF g] add_diff_cancel_left' n o(2) f
      using b' o(1) r l take_blit_all[of "length t" "bytes b'" "map Some ?m"]
      by (auto simp: holds_def has_layout_def length_blit)
  qed
  moreover have "indent b = rbind (rbind (reserve ?n b) ?f) (\<lambda>b. Inr (b\<lparr>notlinehead := True\<rparr>))"
    unfolding indent_def w[symmetric] Let_def using False by simp
  ultimately show ?thesis
    by (auto elim!: delivers_bind simp: holds_def has_layout_def)
qed

lemma indent_if_returns:
  assumes "holds y h t b" "length t + length (lead y h) \<le> out_limit"
  shows "delivers (indent_if c b) (holds y (h \<or> indenting y \<and> c) (if c then t @ lead y h else t))"
proof (cases "indenting y \<and> \<not> h \<and> c")
  case True
  then show ?thesis using assms indent_returns[of y h t b]
    by (simp add: indent_if_def lead_def holds_def has_layout_def)
next
  case False
  then have "indent_if c b = Inr b" using assms(1) by (auto simp: indent_if_def holds_def has_layout_def)
  then show ?thesis using False assms(1) by (auto simp: lead_def)
qed


section \<open>Writing\<close>

lemma reserve_writen:
  assumes "holds y h t b" "length t + n \<le> out_limit" "length bs \<le> n"
  shows "delivers (rbind (reserve (of_nat n) b) (writen bs)) (holds y h (t @ bs))"
proof (rule delivers_bind[OF reserve_returns[OF assms(1)]])
  have n: "unat (of_nat n :: u64) = n" using assms(2) by (simp add: unat_nat out_limit_def)
  then show "length t + unat (of_nat n :: u64) \<le> out_limit" using assms(2) by simp
  fix b' assume "holds y h t b' \<and> space_for (length t + unat (of_nat n :: u64)) b'"
  then have "holds y h t b'" "space_for (length t + length bs) b'" using n assms(3) by (auto simp: space_for_def)
  from writen_returns[OF this] show "delivers (writen bs b') (holds y h (t @ bs))" by (rule delivers_mono) simp
qed

lemma indent_writen:
  assumes "holds y h t b" "length t + length (lead y h) + n \<le> out_limit" "length bs \<le> n"
  shows "delivers (rbind (indent_if c b) (\<lambda>b. rbind (reserve (of_nat n) b) (writen bs)))
    (holds y (h \<or> indenting y \<and> c) ((if c then t @ lead y h else t) @ bs))"
  using assms by (intro delivers_bind[OF indent_if_returns] reserve_writen) auto

lemma write_bytes_returns:
  assumes "holds y h t b" "length t + length (lead y h) + length bs \<le> out_limit"
  shows "delivers (write_bytes bs b) (holds y (h \<or> indenting y) (t @ lead y h @ bs))"
  using indent_writen[OF assms, of bs True] by (simp add: write_bytes_def)

lemma writeByte_returns:
  assumes "holds y h t b" "length t + length (lead y h) + 1 \<le> out_limit"
  shows "delivers (writeByte c b) (holds y (h \<or> indenting y \<and> c \<noteq> 0x0A) (t @ (if c \<noteq> 0x0A then lead y h else []) @ [c]))"
  using indent_writen[OF assms, of "[c]" "c \<noteq> 0x0A"] by (simp add: writeByte_def split: if_splits)

lemma writeword_returns:
  assumes "holds y h t b" "length t + length (lead y h) + 2 \<le> out_limit"
  shows "delivers (writeword w b) (holds y (h \<or> indenting y \<and> w \<noteq> 0x0A)
    (t @ (if w \<noteq> 0x0A then lead y h else []) @ little_endian16 (ucast w)))"
  using indent_writen[OF assms, of "little_endian16 (ucast w)" "w \<noteq> 0x0A"]
  by (simp add: writeword_def little_endian16_def split: if_splits)

lemma write4_returns:
  assumes "holds y h t b" "length t + length (lead y h) + 4 \<le> out_limit"
  shows "delivers (write4 w b) (holds y (h \<or> indenting y) (t @ lead y h @ little_endian32 w))"
  using indent_writen[OF assms, of "little_endian32 w" True] by (simp add: write4_def little_endian32_def)

text \<open>What \<open>writeUTF8\<close> writes; it is the encoding of a valid code point.\<close>

definition utf8_bytes :: "u32 \<Rightarrow> u8 list" where
  "utf8_bytes c =
     (if c \<le> 0x7F then [ucast c]
      else if c \<le> 0x7FF then [ucast (drop_bit 6 c OR 0xC0), ucast ((c AND 0x3F) OR 0x80)]
      else if c \<le> 0xFFFF then [ucast (drop_bit 12 c OR 0xE0), ucast ((drop_bit 6 c AND 0x3F) OR 0x80),
        ucast ((c AND 0x3F) OR 0x80)]
      else [ucast (drop_bit 18 c OR 0xF0), ucast ((drop_bit 12 c AND 0x3F) OR 0x80),
        ucast ((drop_bit 6 c AND 0x3F) OR 0x80), ucast ((c AND 0x3F) OR 0x80)])"

lemma utf8_bytes_encode: "utf_isValidDchar c \<Longrightarrow> utf_encodeChar c = Inr (utf8_bytes c)"
  by (auto simp: utf_encodeChar_def utf8_bytes_def utf_isValidDchar_def or.commute word_le_nat_alt word_less_nat_alt)

lemma writeUTF8_returns:
  assumes "holds y h t b" "length t + 6 \<le> out_limit" "c \<le> 0x1FFFFF"
  shows "delivers (writeUTF8 c b) (holds y h (t @ utf8_bytes c))"
proof -
  have "writeUTF8 c b = rbind (reserve (of_nat 6) b) (writen (utf8_bytes c))"
    using assms(3) by (auto simp: writeUTF8_def utf8_bytes_def intro!: arg_cong[of _ _ "rbind _"])
  then show ?thesis using reserve_writen[OF assms(1,2)] by (simp add: utf8_bytes_def)
qed

definition utf16_bytes :: "u32 \<Rightarrow> u8 list" where
  "utf16_bytes w = (if w \<le> 0xFFFF then little_endian16 (ucast w)
     else little_endian16 (ucast (drop_bit 10 w + 0xD7C0)) @ little_endian16 (ucast ((w AND 0x3FF) OR 0xDC00)))"

lemma writeUTF16_returns:
  assumes "holds y h t b" "length t + 4 \<le> out_limit" "w \<le> 0x10FFFF"
  shows "delivers (writeUTF16 w b) (holds y h (t @ utf16_bytes w))"
proof -
  have "writeUTF16 w b = rbind (reserve (of_nat 4) b) (writen (utf16_bytes w))"
    using assms(3) by (auto simp: writeUTF16_def utf16_bytes_def intro!: arg_cong[of _ _ "rbind _"])
  then show ?thesis using reserve_writen[OF assms(1,2)] by (simp add: utf16_bytes_def little_endian16_def)
qed

section \<open>Lines\<close>

definition blank :: "u8 \<Rightarrow> bool" where "blank c \<longleftrightarrow> c = 0x20 \<or> c = 0x09"

definition stripped :: "u8 list \<Rightarrow> u8 list" where "stripped t = rev (dropWhile blank (rev t))"

lemma stripped_snoc: "stripped (t @ [c]) = (if blank c then stripped t else t @ [c])"
  by (simp add: stripped_def)

lemma strip_blanks_text:
  "length t \<le> length d \<Longrightarrow> take (length t) d = map Some t \<Longrightarrow>
    strip_blanks d (length t) = Inr (length (stripped t)) \<and> take (length (stripped t)) d = map Some (stripped t) \<and> length (stripped t) \<le> length t"
proof (induction t rule: rev_induct)
  case (snoc c t)
  then have "d ! length t = Some c" "take (length t) d = map Some t"
    by (auto simp: take_Suc_conv_app_nth)
  then show ?case using snoc by (simp add: stripped_snoc mem_read_def blank_def)
qed (simp add: stripped_def)

lemma writenl_returns:
  assumes "holds y h t b" "length t + length (lead y h) + 1 \<le> out_limit"
  shows "delivers (writenl b) (holds y (h \<and> \<not> indenting y) (stripped t @ [0x0A]))"
proof -
  have t: "length t \<le> length (bytes b)" "take (length t) (bytes b) = map Some t" "unat (offset b) = length t"
    using assms(1) by (simp_all add: holds_def)
  note s = strip_blanks_text[OF t(1,2)]
  have "length (stripped t) < 2 ^ 64" using s assms(2) by (simp add: out_limit_def)
  then have "holds y h (stripped t) (b\<lparr>offset := of_nat (length (stripped t))\<rparr>)"
    using assms(1) s by (simp add: holds_def has_layout_def unat_nat)
  from writeByte_returns[OF this, of "0x0A"] s assms(2)
  have "delivers (writeByte 0x0A (b\<lparr>offset := of_nat (length (stripped t))\<rparr>)) (holds y h (stripped t @ [0x0A]))"
    by simp
  then show ?thesis unfolding writenl_def t(3) using s
    by (auto elim!: delivers_bind simp: holds_def has_layout_def)
qed


section \<open>Editing\<close>

text \<open>A gap of \<open>length xs\<close> bytes at \<open>i\<close>, filled with \<open>xs\<close>.\<close>

lemma gap_text:
  assumes "i \<le> length t" "length t + length xs \<le> length d" "take (length t) d = map Some t"
  shows "take (length t + length xs) (blit (blit d (i + length xs) (slice d i (length t - i))) i (map Some xs)) =
      map Some (take i t @ xs @ drop i t)"
    and "mem_move d (i + length xs) i (length t - i) = Inr (blit d (i + length xs) (slice d i (length t - i)))"
    and "length (blit d (i + length xs) (slice d i (length t - i))) = length d"
proof -
  show "take (length t + length xs) (blit (blit d (i + length xs) (slice d i (length t - i))) i (map Some xs)) =
      map Some (take i t @ xs @ drop i t)"
    using take_open_gap[of i "length t" "map Some xs" d] assms by (simp add: take_map drop_map)
  show "mem_move d (i + length xs) i (length t - i) = Inr (blit d (i + length xs) (slice d i (length t - i)))"
    by (rule mem_move_in) (use assms in simp_all)
  show "length (blit d (i + length xs) (slice d i (length t - i))) = length d"
    by (rule length_open_gap) (use assms in simp_all)
qed

lemma spread_returns:
  assumes "holds y h t b" "length t + length xs \<le> out_limit" "unat i \<le> length t"
  shows "delivers (rbind (spread i (of_nat (length xs)) b) (\<lambda>b.
      rbind (mem_copy_in (bytes b) (unat i) (map Some xs) 0 (length xs)) (\<lambda>d. Inr (b\<lparr>bytes := d\<rparr>))))
    (holds y h (take (unat i) t @ xs @ drop (unat i) t))"
proof -
  have n: "unat (of_nat (length xs) :: u64) = length xs" using assms(2) by (simp add: unat_nat out_limit_def)
  have l: "length t + length xs < 2 ^ 64" using assms(2) by (simp add: out_limit_def)
  have i: "unat (i + of_nat (length xs)) = unat i + length xs"
    using assms(3) l n by (simp add: unat_word_ariths)
  show ?thesis unfolding spread_def rbind_assoc
  proof (rule delivers_bind[OF reserve_returns[OF assms(1)]])
    show "length t + unat (of_nat (length xs) :: u64) \<le> out_limit" using assms(2) n by simp
    fix b' assume b': "holds y h t b' \<and> space_for (length t + unat (of_nat (length xs) :: u64)) b'"
    have o: "unat (offset b' + of_nat (length xs)) = length t + length xs" "unat (offset b' - i) = length t - unat i"
      using b' l n assms(3) offset_plus[of y h t b' "of_nat (length xs)"]
      by (simp_all add: holds_def unat_sub word_le_nat_alt)
    have d: "length t + length xs \<le> length (bytes b')" "take (length t) (bytes b') = map Some t"
      using b' n by (simp_all add: holds_def space_for_def)
    note g = gap_text[OF assms(3) d]
    have c: "mem_copy_in (blit (bytes b') (unat i + length xs) (slice (bytes b') (unat i) (length t - unat i)))
        (unat i) (map Some xs) 0 (length xs) =
      Inr (blit (blit (bytes b') (unat i + length xs) (slice (bytes b') (unat i) (length t - unat i))) (unat i) (map Some xs))"
      using g(3) d(1) assms(3) by (subst mem_copy_in_in) (simp_all add: slice_def)
    have len: "length (blit (blit (bytes b') (unat i + length xs) (slice (bytes b') (unat i) (length t - unat i)))
        (unat i) (map Some xs)) = length (bytes b')"
      using g(3) d(1) assms(3) by (subst length_blit) simp_all
    show "delivers (rbind (mem_move (bytes b') (unat (i + of_nat (length xs))) (unat i) (unat (offset b' - i)))
          (\<lambda>d. rbind (Inr (b'\<lparr>bytes := d, offset := offset b' + of_nat (length xs)\<rparr>))
        (\<lambda>b. rbind (mem_copy_in (bytes b) (unat i) (map Some xs) 0 (length xs)) (\<lambda>d. Inr (b\<lparr>bytes := d\<rparr>)))))
      (holds y h (take (unat i) t @ xs @ drop (unat i) t))"
      unfolding i o g(2) using c b' o(1) d(1) g(1)[unfolded add.commute[of "length t"]] len assms(3)
      by (simp add: holds_def has_layout_def)
  qed
qed

lemma insert_returns:
  assumes "holds y h t b" "length t + length xs \<le> out_limit" "unat i \<le> length t"
  shows "delivers (insert_bytes i xs b) (holds y h (take (unat i) t @ xs @ drop (unat i) t))"
  using spread_returns[OF assms] by (simp add: insert_bytes_def)

text \<open>\<open>prependstring\<close> and \<open>prependbyte\<close> are insertions at the start.\<close>

lemma updates_commute: "(b :: outbuf)\<lparr>offset := n, bytes := d\<rparr> = b\<lparr>bytes := d, offset := n\<rparr>"
  by simp

lemma prependstring_insert: "length s < 2 ^ 64 \<Longrightarrow> prependstring s b = insert_bytes 0 s b"
  by (simp add: prependstring_def insert_bytes_def spread_def Let_def rbind_assoc unat_nat updates_commute)

lemma mem_write_copy: "mem_write d i x = mem_copy_in d i [Some x] 0 1"
  by (simp add: mem_write_def mem_copy_in_def slice_def list_update_blit)

lemma prependbyte_insert: "prependbyte c b = insert_bytes 0 [ucast c] b"
  by (simp add: prependbyte_def insert_bytes_def spread_def rbind_assoc mem_write_copy updates_commute)

lemma prependstring_returns:
  assumes "holds y h t b" "length t + length s \<le> out_limit"
  shows "delivers (prependstring s b) (holds y h (s @ t))"
  using insert_returns[OF assms, of 0] assms(2) by (simp add: prependstring_insert out_limit_def)

lemma prependbyte_returns:
  assumes "holds y h t b" "length t + 1 \<le> out_limit"
  shows "delivers (prependbyte c b) (holds y h (ucast c # t))"
  using insert_returns[OF assms(1), of "[ucast c]" 0] assms(2) by (simp add: prependbyte_insert)

lemma bracket_returns:
  assumes "holds y h t b" "length t + 2 \<le> out_limit"
  shows "delivers (bracket left right b) (holds y h (left # t @ [right]))"
  unfolding bracket_def
proof (rule delivers_bind[OF reserve_returns[OF assms(1)]])
  show "length t + unat (2 :: u64) \<le> out_limit" using assms(2) by simp
  fix b' assume b': "holds y h t b' \<and> space_for (length t + unat (2 :: u64)) b'"
  have l: "length t + 2 < 2 ^ 64" using assms(2) by (simp add: out_limit_def)
  have o: "unat (offset b' + 1) = length t + 1" "unat (offset b' + 2) = length t + 2" "unat (offset b') = length t"
    using b' l offset_plus[of y h t b' 1] offset_plus[of y h t b' 2] by (simp_all add: holds_def)
  have d: "length t + 2 \<le> length (bytes b')" "take (length t) (bytes b') = map Some t"
    using b' by (simp_all add: holds_def space_for_def)
  let ?d = "blit (bytes b') 1 (slice (bytes b') 0 (length t))"
  have g: "take (length t + 1) (blit ?d 0 [Some left]) = map Some (left # t)"
    "mem_move (bytes b') 1 0 (length t) = Inr ?d" "length ?d = length (bytes b')"
    using gap_text[of 0 t "[left]" "bytes b'"] d by simp_all
  have w: "mem_write ?d 0 left = Inr (blit ?d 0 [Some left])"
    using g(3) d(1) by (auto simp: mem_write_def list_update_blit)
  let ?e = "blit ?d 0 [Some left]"
  have e: "length ?e = length (bytes b')" using g(3) d(1) by (simp add: length_blit)
  have "take (Suc (Suc (length t))) (?e[Suc (length t) := Some right]) = take (Suc (length t)) ?e @ [Some right]"
    using e d(1) by (simp add: take_Suc_conv_app_nth)
  then have "take (length (left # t @ [right])) (?e[length t + 1 := Some right]) = map Some (left # t @ [right])"
    using g(1) by simp
  then have h: "holds y h (left # t @ [right]) (b'\<lparr>bytes := ?e[length t + 1 := Some right], offset := offset b' + 2\<rparr>)"
    using b' e d(1) o by (simp add: holds_def has_layout_def)
  have "mem_write ?e (length t + 1) right = Inr (?e[length t + 1 := Some right])"
    using e d(1) by (simp add: mem_write_def)
  then show "delivers (rbind (mem_move (bytes b') 1 0 (unat (offset b'))) (\<lambda>d. rbind (mem_write d 0 left)
      (\<lambda>d. rbind (mem_write d (unat (offset b' + 1)) right) (\<lambda>d. Inr (b'\<lparr>bytes := d, offset := offset b' + 2\<rparr>)))))
    (holds y h (left # t @ [right]))"
    unfolding o using g(2) w h by simp
qed

lemma remove_returns:
  assumes "holds y h t b" "unat i + unat n \<le> length t"
  shows "delivers (remove_bytes i n b) (holds y h (take (unat i) t @ drop (unat i + unat n) t))"
proof -
  have b: "unat (offset b) = length t" "length t \<le> length (bytes b)" "length (bytes b) < 2 ^ 64"
    "take (length t) (bytes b) = map Some t" using assms(1) by (simp_all add: holds_def)
  have i: "unat (i + n) = unat i + unat n" using assms(2) b by (simp add: unat_word_ariths)
  let ?k = "length t - (unat i + unat n)"
  have o: "unat (offset b - (i + n)) = ?k" "unat (offset b - n) = length t - unat n"
    using assms(2) b i by (simp_all add: unat_sub word_le_nat_alt)
  let ?s = "slice (bytes b) (unat i + unat n) ?k"
  have "?s = drop (unat i + unat n) (map Some t)"
    unfolding b(4)[symmetric] by (simp add: slice_def drop_take)
  then have s: "?s = map Some (drop (unat i + unat n) t)" by (simp add: drop_map)
  have e: "unat i + length ?s = length t - unat n" using assms(2) b(2) by (simp add: length_slice)
  have "take (length t - unat n) (blit (bytes b) (unat i) ?s) = take (unat i) (bytes b) @ ?s"
    using take_blit_all[of "unat i" "bytes b" ?s] assms(2) b(2) e by simp
  also have "take (unat i) (bytes b) = map Some (take (unat i) t)"
    using b(4) assms(2) by (metis add_leD1 min.absorb1 take_map take_take)
  finally have "take (length t - unat n) (blit (bytes b) (unat i) ?s) = map Some (take (unat i) t @ drop (unat i + unat n) t)"
    unfolding s by simp
  moreover have "mem_move (bytes b) (unat i) (unat i + unat n) ?k = Inr (blit (bytes b) (unat i) ?s)"
    by (rule mem_move_in) (use assms(2) b(2) in simp_all)
  moreover have "length (blit (bytes b) (unat i) ?s) = length (bytes b)"
    using e b(2) assms(2) by (intro length_blit) simp
  ultimately show ?thesis
    unfolding remove_bytes_def i o using assms b o(2) by (simp add: holds_def has_layout_def)
qed

lemma fill0_returns:
  assumes "holds y h t b" "length t + unat n \<le> out_limit"
  shows "delivers (fill0 n b) (holds y h (t @ replicate (unat n) 0))"
  unfolding fill0_def
proof (rule delivers_bind[OF reserve_returns[OF assms]])
  fix b' assume b': "holds y h t b' \<and> space_for (length t + unat n) b'"
  have l: "length t + unat n < 2 ^ 64" using assms(2) by (simp add: out_limit_def)
  have o: "unat (offset b' + n) = length t + unat n" "unat (offset b') = length t"
    using b' offset_plus[of y h t b' n] l by (simp_all add: holds_def)
  have r: "length t + unat n \<le> length (bytes b')" using b' by (simp add: space_for_def)
  show "delivers (rbind (fill (bytes b') (unat (offset b')) (unat n) 0) (\<lambda>d. Inr (b'\<lparr>bytes := d, offset := offset b' + n\<rparr>)))
    (holds y h (t @ replicate (unat n) 0))"
    using b' o r take_blit_all[of "length t" "bytes b'" "replicate (unat n) (Some 0)"]
    by (simp add: fill_in holds_def has_layout_def length_blit)
qed

lemma write_buffer_returns:
  assumes "holds y h t b" "holds z k s src" "length t + length s \<le> out_limit"
  shows "delivers (write_buffer src b) (holds y h (t @ s))"
  unfolding write_buffer_def
proof (rule delivers_bind[OF reserve_returns[OF assms(1)]])
  have s: "unat (offset src) = length s" "slice (bytes src) 0 (length s) = map Some s" "length s \<le> length (bytes src)"
    using assms(2) by (simp_all add: holds_def slice_def)
  show "length t + unat (offset src) \<le> out_limit" using s assms(3) by simp
  fix b' assume b': "holds y h t b' \<and> space_for (length t + unat (offset src)) b'"
  have l: "length t + unat (offset src) < 2 ^ 64" using assms(3) s by (simp add: out_limit_def)
  have o: "unat (offset b' + offset src) = length t + length s" "unat (offset b') = length t"
    using b' offset_plus[of y h t b' "offset src"] l s by (simp_all add: holds_def)
  have r: "length t + length s \<le> length (bytes b')" using b' s by (simp add: space_for_def)
  show "delivers (rbind (mem_copy_in (bytes b') (unat (offset b')) (bytes src) 0 (unat (offset src)))
      (\<lambda>d. Inr (b'\<lparr>bytes := d, offset := offset b' + offset src\<rparr>))) (holds y h (t @ s))"
    using b' o r s take_blit_all[of "length t" "bytes b'" "map Some s"]
    by (simp add: mem_copy_in_in holds_def has_layout_def length_blit)
qed

lemma setsize_returns:
  assumes "holds y h t b" "unat n \<le> length t"
  shows "delivers (setsize n b) (holds y h (take (unat n) t))"
proof -
  have "n \<le> extent b" using assms unat_extent[OF assms(1)] by (simp add: word_le_nat_alt holds_def)
  then show ?thesis using assms by (auto simp: setsize_def holds_def has_layout_def min_def take_map dest: arg_cong[of _ _ "take (unat n)"])
qed

lemma hex_text_length: "length (hex_text u ds) = 2 * length ds"
  by (induction ds) (simp_all add: hex_text_def)

lemma writeHexString_returns:
  assumes "holds y h t b" "length t + 2 * length ds \<le> out_limit"
  shows "delivers (writeHexString ds u b) (holds y h (t @ hex_text u ds))"
  unfolding writeHexString_def allocate_def rbind_assoc
proof (rule delivers_bind[OF reserve_returns[OF assms(1)]])
  let ?n = "2 * of_nat (length ds) :: u64"
  have n: "unat ?n = 2 * length ds"
    using unat_nat[of "2 * length ds"] assms(2) by (simp add: out_limit_def)
  show "length t + unat ?n \<le> out_limit" using n assms(2) by simp
  fix b' assume b': "holds y h t b' \<and> space_for (length t + unat ?n) b'"
  have l: "length t + unat ?n < 2 ^ 64" using assms(2) n by (simp add: out_limit_def)
  have o: "unat (offset b' + ?n) = length t + 2 * length ds" "unat (offset b') = length t"
    using b' offset_plus[of y h t b' ?n] l n by (simp_all add: holds_def)
  have r: "length t + 2 * length ds \<le> length (bytes b')" using b' n by (simp add: space_for_def)
  have e: "offset b' \<le> offset b' + ?n" "offset b' + ?n \<le> extent b'"
    using o r unat_extent[of y h t b'] b' by (simp_all add: word_le_nat_alt)
  have c: "mem_copy_in (bytes b') (length t) (map Some (hex_text u ds)) 0 (2 * length ds) =
      Inr (blit (bytes b') (length t) (map Some (hex_text u ds)))"
    using r by (subst mem_copy_in_in) (simp_all add: hex_text_length slice_def)
  show "delivers (rbind (let upper = offset b' + ?n in
        if upper - ?n \<le> upper \<and> upper \<le> extent b' then Inr (b'\<lparr>offset := upper\<rparr>, upper - ?n) else Inl Out_Of_Bounds)
      (\<lambda>(b, lower). rbind (mem_copy_in (bytes b) (unat lower) (map Some (hex_text u ds)) 0 (2 * length ds))
        (\<lambda>d. Inr (b\<lparr>bytes := d\<rparr>)))) (holds y h (t @ hex_text u ds))"
    using b' o r e c take_blit_all[of "length t" "bytes b'" "map Some (hex_text u ds)"]
    by (simp add: Let_def holds_def has_layout_def length_blit hex_text_length)
qed

lemma bracket_at_returns:
  assumes "holds y h t b" "length t + length l + length r \<le> out_limit" "unat i \<le> length t" "unat j \<le> length t"
  shows "delivers (bracket_at i l j r b) (\<lambda>(b', k). k = j + of_nat (length l + length r) \<and>
    holds y h (let s = take (unat i) t @ l @ drop (unat i) t; m = unat j + length l in take m s @ r @ drop m s) b')"
proof -
  let ?s = "take (unat i) t @ l @ drop (unat i) t"
  have n: "unat (of_nat (length l) + of_nat (length r) :: u64) = length l + length r"
    using unat_nat[of "length l + length r"] assms(2) by (simp add: out_limit_def)
  have j: "unat (j + of_nat (length l)) = unat j + length l"
    using unat_nat[of "length l"] assms by (simp add: out_limit_def unat_word_ariths)
  show ?thesis unfolding bracket_at_def Let_def
  proof (rule delivers_bind[OF reserve_returns[OF assms(1)]])
    show "length t + unat (of_nat (length l) + of_nat (length r) :: u64) \<le> out_limit" using n assms(2) by simp
    fix c assume "holds y h t c \<and> space_for (length t + unat (of_nat (length l) + of_nat (length r) :: u64)) c"
    then have c: "holds y h t c" by simp
    have l: "delivers (insert_bytes i l c) (holds y h ?s)"
      by (rule insert_returns[OF c]) (use assms in simp_all)
    show "delivers (rbind (insert_bytes i l c) (\<lambda>b. rbind (insert_bytes (j + of_nat (length l)) r b)
        (\<lambda>b. Inr (b, j + of_nat (length l) + of_nat (length r))))) (\<lambda>(b', k). k = j + of_nat (length l + length r) \<and>
      holds y h (take (unat j + length l) ?s @ r @ drop (unat j + length l) ?s) b')"
    proof (rule delivers_bind[OF l])
      fix d assume d: "holds y h ?s d"
      have "delivers (insert_bytes (j + of_nat (length l)) r d)
          (holds y h (take (unat j + length l) ?s @ r @ drop (unat j + length l) ?s))"
        using insert_returns[OF d, of r "j + of_nat (length l)"] assms(2-4) unfolding j by simp
      then show "delivers (rbind (insert_bytes (j + of_nat (length l)) r d)
          (\<lambda>b. Inr (b, j + of_nat (length l) + of_nat (length r)))) (\<lambda>(b', k). k = j + of_nat (length l + length r) \<and>
        holds y h (take (unat j + length l) ?s @ r @ drop (unat j + length l) ?s) b')"
        by (rule delivers_bind) (simp add: add.assoc)
    qed
  qed
qed

end
