(* ===== verification/Buffer_Numbers.thy ===== *)
theory Buffer_Numbers
  imports Buffer_Laws
begin

text \<open>
  The numbers that \<open>OutBuffer\<close> writes, against readers of the three notations: LEB128 unsigned and
  signed, and decimal.
\<close>

section \<open>Reading LEB128\<close>

fun uleb_decode :: "u8 list \<Rightarrow> (nat \<times> u8 list) option" where
  "uleb_decode [] = None"
| "uleb_decode (c # cs) =
     (if unat c < 128 then Some (unat c, cs)
      else map_option (\<lambda>(n, r). (unat c - 128 + 128 * n, r)) (uleb_decode cs))"

fun sleb_decode :: "u8 list \<Rightarrow> (int \<times> u8 list) option" where
  "sleb_decode [] = None"
| "sleb_decode (c # cs) =
     (if unat c < 128 then Some (if unat c < 64 then int (unat c) else int (unat c) - 128, cs)
      else map_option (\<lambda>(n, r). (int (unat c) - 128 + 128 * n, r)) (sleb_decode cs))"

section \<open>Writing LEB128\<close>

lemma low_byte: "unat (ucast (v :: u32) AND 0x7F :: u8) = unat v mod 128"
proof -
  have "(0x7F :: u8) = mask 7" by (simp add: mask_eq_exp_minus_1)
  then show ?thesis unfolding unat_byte by (simp only: unat_and_mask unat_byte) (simp add: mod_mod_cancel)
qed

lemma more_byte: "unat c < 128 \<Longrightarrow> unat (c OR 0x80 :: u8) = unat c + 128"
  using unat_or_low[of 7 "0x80 :: u8" c] by (simp add: or.commute)

lemma sign_bit: "unat (c :: u8) < 128 \<Longrightarrow> c AND 0x40 = 0 \<longleftrightarrow> unat c < 64"
proof -
  assume c: "unat c < 128"
  have "c AND 0x40 = c AND NOT (mask 6) AND mask 7" by (simp add: mask_eq_exp_minus_1 and.assoc)
  also have "c AND NOT (mask 6) AND mask 7 = c AND NOT (mask 6)"
  proof -
    have "c AND mask 7 = c" using c by (simp add: word_unat_eq_iff unat_and_mask)
    then show ?thesis by (metis and.commute and.left_commute)
  qed
  finally have "c AND 0x40 = 0 \<longleftrightarrow> c AND NOT (mask 6) = 0" by simp
  also have "\<dots> \<longleftrightarrow> unat c div 64 = 0" by (subst top_eq) simp_all
  finally show ?thesis using c by auto
qed

text \<open>A byte when lines are not indented.\<close>

lemma plain_byte:
  assumes "holds y h t b" "\<not> indenting y" "length t < out_limit"
  shows "\<exists>b'. writeByte c b = Inr b' \<and> holds y h (t @ [c]) b'"
proof -
  have l: "lead y h = []" using assms(2) by (simp add: lead_def)
  have "delivers (writeByte c b) (holds y h (t @ [c]))"
    using writeByte_returns[OF assms(1), of c] assms(2,3) l by (cases "c = 0x0A") simp_all
  then show ?thesis by (rule deliversD)
qed

lemma writeuLEB128_text:
  assumes "unat v < 128 ^ Suc k" "holds y h t b" "\<not> indenting y" "length t + k < out_limit"
  shows "\<exists>bs b'. writeuLEB128 v b = Inr b' \<and> holds y h (t @ bs) b' \<and> (\<forall>r. uleb_decode (bs @ r) = Some (unat v, r))"
  using assms
proof (induction k arbitrary: v t b)
  case 0
  then have "drop_bit 7 v = 0" "unat (ucast v AND 0x7F :: u8) = unat v"
    by (simp_all add: word_unat_eq_iff unat_drop low_byte)
  moreover obtain b' where "writeByte (ucast v AND 0x7F) b = Inr b'" "holds y h (t @ [ucast v AND 0x7F]) b'"
    using plain_byte[OF 0(2,3)] 0(4) by auto
  ultimately show ?case using 0(1)
    by (intro exI[of _ "[ucast v AND 0x7F]"] exI[of _ b']) (simp add: writeuLEB128.simps Let_def)
next
  case (Suc k)
  let ?c = "ucast v AND 0x7F :: u8"
  show ?case
  proof (cases "drop_bit 7 v = 0")
    case True
    then have "unat v div 128 = 0" using arg_cong[OF True, of unat] unfolding unat_drop by simp
    then have "unat ?c = unat v" "unat v < 128" by (auto simp: low_byte)
    moreover obtain b' where "writeByte ?c b = Inr b'" "holds y h (t @ [?c]) b'"
      using plain_byte[OF Suc.prems(2,3)] Suc.prems(4) by auto
    ultimately show ?thesis using True
      by (intro exI[of _ "[?c]"] exI[of _ b']) (simp add: writeuLEB128.simps[of v] Let_def)
  next
    case False
    obtain b1 where b1: "writeByte (?c OR 0x80) b = Inr b1" "holds y h (t @ [?c OR 0x80]) b1"
      using plain_byte[OF Suc.prems(2,3)] Suc.prems(4) by auto
    have "unat (drop_bit 7 v) < 128 ^ Suc k" using Suc.prems(1) by (simp add: unat_drop less_mult_imp_div_less mult.commute)
    from Suc.IH[OF this b1(2) Suc.prems(3)] Suc.prems(4)
    obtain bs b' where "writeuLEB128 (drop_bit 7 v) b1 = Inr b'" "holds y h (t @ (?c OR 0x80) # bs) b'"
      "\<forall>r. uleb_decode (bs @ r) = Some (unat v div 128, r)" by (auto simp: unat_drop)
    then show ?thesis using False b1(1) more_byte[of ?c]
      by (intro exI[of _ "(?c OR 0x80) # bs"] exI[of _ b'])
        (simp add: writeuLEB128.simps[of v] Let_def low_byte mod_mult_div_eq)
  qed
qed


lemma signed_low: "int (unat (v :: u32)) mod 128 = sint v mod 128"
proof -
  have "take_bit 32 (uint v) = uint v"
    by (rule take_bit_int_eq_self) (use unsigned_less[of v, where 'a = int] in simp_all)
  then have "uint v = take_bit 32 (sint v)" by (simp add: take_bit_signed_take_bit sint_uint)
  then have "uint v mod 128 = sint v mod 128" by (simp add: take_bit_eq_mod mod_mod_cancel)
  then show ?thesis by simp
qed

lemma minus_one_sint: "v = - 1 \<longleftrightarrow> sint (v :: u32) = - 1"
  by (metis signed_word_eqI sint_n1)

lemma zero_sint: "v = 0 \<longleftrightarrow> sint (v :: u32) = 0"
  by (metis signed_word_eqI sint_0)

text \<open>The last byte: the value has seven bits.\<close>

lemma sleb_last:
  fixes v :: u32 defines "c \<equiv> ucast v AND 0x7F :: u8"
  shows "(signed_drop_bit 7 v = 0 \<and> c AND 0x40 = 0 \<or> signed_drop_bit 7 v = - 1 \<and> c AND 0x40 \<noteq> 0) \<longleftrightarrow>
    - 64 \<le> sint v \<and> sint v < 64"
    and "- 64 \<le> sint v \<and> sint v < 64 \<Longrightarrow> (if unat c < 64 then int (unat c) else int (unat c) - 128) = sint v"
proof -
  have c: "int (unat c) = sint v mod 128" unfolding c_def low_byte using signed_low[of v] by (simp add: zmod_int)
  then have l: "unat c < 128" by (metis nat_int nat_less_iff pos_mod_bound pos_mod_sign zero_less_numeral of_nat_less_iff of_nat_numeral)
  have s: "unat c < 64 \<longleftrightarrow> sint v mod 128 < 64" using c by linarith
  show "(signed_drop_bit 7 v = 0 \<and> c AND 0x40 = 0 \<or> signed_drop_bit 7 v = - 1 \<and> c AND 0x40 \<noteq> 0) \<longleftrightarrow>
    - 64 \<le> sint v \<and> sint v < 64"
    unfolding sign_bit[OF l] s zero_sint minus_one_sint sint_shift by presburger
  show "- 64 \<le> sint v \<and> sint v < 64 \<Longrightarrow> (if unat c < 64 then int (unat c) else int (unat c) - 128) = sint v"
    unfolding s c by presburger
qed

lemma div_bounds: "- (8192 * m) \<le> x \<Longrightarrow> - (64 * m) \<le> x div 128" "x < 8192 * m \<Longrightarrow> x div 128 < 64 * (m :: int)"
  using mult_div_mod_eq[of 128 x] pos_mod_bound[of 128 x] pos_mod_sign[of 128 x] by linarith+

lemma writesLEB128_text:
  assumes "- (64 * 128 ^ k) \<le> sint v" "sint v < 64 * 128 ^ k"
    and "holds y h t b" "\<not> indenting y" "length t + k < out_limit"
  shows "\<exists>bs b'. writesLEB128 v b = Inr b' \<and> holds y h (t @ bs) b' \<and> (\<forall>r. sleb_decode (bs @ r) = Some (sint v, r))"
  using assms
proof (induction k arbitrary: v t b)
  case 0
  let ?c = "ucast v AND 0x7F :: u8"
  have r: "- 64 \<le> sint v \<and> sint v < 64" using 0(1,2) by simp
  obtain b' where "writeByte ?c b = Inr b'" "holds y h (t @ [?c]) b'" using plain_byte[OF 0(3,4)] 0(5) by auto
  then show ?case using sleb_last[of v] r
    by (intro exI[of _ "[?c]"] exI[of _ b']) (simp add: writesLEB128.simps[of v] Let_def low_byte)
next
  case (Suc k)
  let ?c = "ucast v AND 0x7F :: u8"
  show ?case
  proof (cases "- 64 \<le> sint v \<and> sint v < 64")
    case True
    obtain b' where "writeByte ?c b = Inr b'" "holds y h (t @ [?c]) b'"
      using plain_byte[OF Suc.prems(3,4)] Suc.prems(5) by auto
    then show ?thesis using sleb_last[of v] True
      by (intro exI[of _ "[?c]"] exI[of _ b']) (simp add: writesLEB128.simps[of v] Let_def low_byte)
  next
    case False
    obtain b1 where b1: "writeByte (?c OR 0x80) b = Inr b1" "holds y h (t @ [?c OR 0x80]) b1"
      using plain_byte[OF Suc.prems(3,4)] Suc.prems(5) by auto
    have "- (64 * 128 ^ k) \<le> sint (signed_drop_bit 7 v)" "sint (signed_drop_bit 7 v) < 64 * 128 ^ k"
      unfolding sint_shift using Suc.prems(1,2) div_bounds[of "128 ^ k" "sint v"] by simp_all
    from Suc.IH[OF this b1(2) Suc.prems(4)] Suc.prems(5)
    obtain bs b' where n: "writesLEB128 (signed_drop_bit 7 v) b1 = Inr b'" "holds y h (t @ (?c OR 0x80) # bs) b'"
      "\<forall>r. sleb_decode (bs @ r) = Some (sint v div 128, r)" by (auto simp: sint_shift)
    have m: "unat (?c OR 0x80) = unat v mod 128 + 128" by (subst more_byte) (simp_all add: low_byte)
    have "int (unat v mod 128) + 128 * (sint v div 128) = sint v"
      using signed_low[of v] by (simp add: zmod_int)
    with n m have "\<forall>r. sleb_decode (((?c OR 0x80) # bs) @ r) = Some (sint v, r)" by simp
    moreover have "writesLEB128 v b = Inr b'"
      unfolding writesLEB128.simps[of v] Let_def sleb_last(1) using False b1(1) n(1) by auto
    ultimately show ?thesis using n(2) by blast
  qed
qed

section \<open>Decimal\<close>

definition decimal_value :: "u8 list \<Rightarrow> nat" where
  "decimal_value = foldl (\<lambda>n c. 10 * n + (unat c - 48)) 0"

definition is_decimal :: "u8 list \<Rightarrow> bool" where
  "is_decimal ds \<longleftrightarrow> ds \<noteq> [] \<and> list_all (\<lambda>c. 48 \<le> unat c \<and> unat c \<le> 57) ds \<and> (hd ds = 48 \<longrightarrow> length ds = 1)"

lemma digit_byte: "unat (v :: u64) < 10 \<Longrightarrow> unat (ucast v + 48 :: u8) = unat v + 48"
  by (simp add: unat_word_ariths unsigned_ucast_eq take_bit_eq_mod)

lemma temp_string:
  assumes "unat v < 10 ^ i" "0 < i"
  shows "\<exists>ds. unsignedToTempString v i r = Inr (ds @ r) \<and> length ds \<le> i \<and> decimal_value ds = unat v \<and> is_decimal ds \<and>
    (unat v \<noteq> 0 \<longrightarrow> hd ds \<noteq> 48)"
  using assms
proof (induction v i r rule: unsignedToTempString.induct)
  case (1 v i r)
  show ?case
  proof (cases "v < 10")
    case True
    then have "unat v < 10" by (simp add: word_less_nat_alt)
    note d = digit_byte[OF this]
    have "hd [ucast v + 48 :: u8] \<noteq> 48" if "unat v \<noteq> 0" using that d by (auto simp: word_unat_eq_iff)
    then show ?thesis using True 1(3) d \<open>unat v < 10\<close>
      by (intro exI[of _ "[ucast v + 48]"]) (simp add: unsignedToTempString.simps[of v] decimal_value_def is_decimal_def)
  next
    case False
    then have v: "10 \<le> unat v" by (simp add: word_less_nat_alt)
    have m: "unat (v mod 10) = unat v mod 10" "unat (v div 10) = unat v div 10" by (simp_all add: unat_mod unat_div)
    have i: "1 < i"
    proof (rule ccontr)
      assume "\<not> 1 < i"
      with 1(3) have "i = 1" by simp
      with 1(2) v show False by simp
    qed
    then have "10 ^ i = 10 * (10 :: nat) ^ (i - 1)" by (simp add: power_eq_if)
    then have "unat (v div 10) < 10 ^ (i - 1)" using 1(2) m by (simp add: less_mult_imp_div_less mult.commute)
    from 1(1)[OF _ False this] i 1(3) obtain ds where ds:
      "unsignedToTempString (v div 10) (i - 1) ((ucast (v mod 10) + 48) # r) = Inr (ds @ (ucast (v mod 10) + 48) # r)"
      "length ds \<le> i - 1" "decimal_value ds = unat v div 10" "is_decimal ds" "unat v div 10 \<noteq> 0 \<longrightarrow> hd ds \<noteq> 48"
      unfolding m(2) by auto
    have d: "unat (ucast (v mod 10) + 48 :: u8) = unat v mod 10 + 48" using digit_byte[of "v mod 10"] m by simp
    have ne: "ds \<noteq> []" using ds(4) by (simp add: is_decimal_def)
    have z: "hd ds \<noteq> 48" using ds(5) v by simp
    let ?ds = "ds @ [ucast (v mod 10) + 48]"
    have "decimal_value ?ds = unat v" using ds(3) d by (simp add: decimal_value_def)
    moreover have "is_decimal ?ds" using ds(4) d z ne by (simp add: is_decimal_def)
    moreover have "unsignedToTempString v i r = Inr (?ds @ r)"
      using ds(1) False i by (simp add: unsignedToTempString.simps[of v])
    ultimately show ?thesis using ds(2) z ne i by (intro exI[of _ ?ds]) simp
  qed
qed

lemma print_text:
  assumes "holds y h t b" "length t + length (lead y h) + 20 \<le> out_limit"
  shows "\<exists>ds b'. print u b = Inr b' \<and> holds y (h \<or> indenting y) (t @ lead y h @ ds) b' \<and>
    length ds \<le> 20 \<and> is_decimal ds \<and> decimal_value ds = unat u"
proof -
  have "unat u < 10 ^ 20" using unat_u64_lt[of u] by simp
  from temp_string[OF this, of "[]"] obtain ds where ds: "unsignedToTempString u 20 [] = Inr ds"
    "length ds \<le> 20" "decimal_value ds = unat u" "is_decimal ds" by auto
  have "delivers (write_bytes ds b) (holds y (h \<or> indenting y) (t @ lead y h @ ds))"
    using write_bytes_returns[OF assms(1), of ds] ds(2) assms(2) by simp
  then show ?thesis using ds by (auto simp: print_def writestring_def dest!: deliversD)
qed

end
