(* ===== verification/Text_Output.thy ===== *)
theory Text_Output
  imports Buffer_Numbers
begin

text \<open>
  \<open>OutBuffer\<close> refines a page: a text, whether its last line has begun, and the layout.  Then what
  the numbers and code points that are written read as, and the terminating 0.
\<close>

section \<open>Pages\<close>

record page =
  content :: "u8 list"
  begun :: bool
  page_layout :: layout


definition page_new :: page where
  "page_new = \<lparr>content = [], begun = False, page_layout = \<lparr>indenting = False, by_spaces = False, depth = 0\<rparr>\<rparr>"

text \<open>What comes before a byte, what the page has after writing, and the space_for needed.\<close>

definition page_lead :: "page \<Rightarrow> u8 list" where "page_lead p = lead (page_layout p) (begun p)"


definition appended :: "bool \<Rightarrow> u8 list \<Rightarrow> page \<Rightarrow> page" where
  "appended c bs p = p\<lparr>content := content p @ (if c then page_lead p else []) @ bs,
     begun := begun p \<or> indenting (page_layout p) \<and> c\<rparr>"





definition shows_page :: "page \<Rightarrow> outbuf \<Rightarrow> bool" where
  "shows_page p = holds (page_layout p) (begun p) (content p)"

section \<open>Simulation of a list of operations\<close>








lemma new_page: "shows_page page_new OutBuffer_new"
  by (simp add: shows_page_def page_new_def OutBuffer_new_def holds_def has_layout_def layout_ok_def)



section \<open>Code points\<close>

text \<open>What \<open>writeUTF8\<close> writes is UTF-8 on numbers, also for surrogates and beyond Unicode.\<close>

lemma lead_byte': "unat x < 2 ^ k \<Longrightarrow> take_bit k h = 0 \<Longrightarrow> unat h + 2 ^ k \<le> 256 \<Longrightarrow>
    unat (ucast (x OR h :: u32) :: u8) = unat h + unat x"
  using lead_byte[of x k h] by (simp add: or.commute)

lemma utf8_bytes_values:
  assumes "c \<le> 0x1FFFFF" shows "map unat (utf8_bytes c) = utf8 (unat c)"
proof -
  have c: "unat c \<le> 0x1FFFFF" using assms by (simp add: word_le_nat_alt)
  have "unat (ucast (drop_bit 6 c OR 0xC0) :: u8) = 192 + unat c div 64" if "unat c < 2048"
    using that by (subst lead_byte'[of _ 5]) (simp_all add: unat_drop div_less_iff_less_mult)
  moreover have "unat (ucast (drop_bit 12 c OR 0xE0) :: u8) = 224 + unat c div 4096" if "unat c < 65536"
    using that by (subst lead_byte'[of _ 4]) (simp_all add: unat_drop div_less_iff_less_mult)
  moreover have "unat (ucast (drop_bit 18 c OR 0xF0) :: u8) = 240 + unat c div 262144"
    using c by (subst lead_byte'[of _ 3]) (simp_all add: unat_drop div_less_iff_less_mult)
  moreover have "unat (ucast ((x AND 0x3F) OR 0x80 :: u32) :: u8) = 128 + unat x mod 64" for x
    using trail_byte[of x] by (simp add: or.commute)
  ultimately show ?thesis
    using c by (auto simp: utf8_bytes_def utf8_def word_le_nat_alt unat_drop ascii_byte
        div_mult2_eq[of _ 64 64, simplified] div_mult2_eq[of _ 4096 64, simplified])
qed

lemma utf8_inj: "utf8 n = utf8 m \<Longrightarrow> n = m"
  unfolding utf8_def[of n] by (auto simp: utf8_one utf8_two utf8_three utf8_four split: if_splits dest!: sym[of _ "utf8 m"])


lemma shows_pageD: "shows_page p b \<Longrightarrow> holds (page_layout p) (begun p) (content p) b"
  by (simp add: shows_page_def)

lemma utf8_prefix:
  assumes "take (length (utf8 m)) (utf8 n) = utf8 m" shows "n = m"
proof -
  have "utf8 m \<noteq> []" "utf8 n \<noteq> []" by (simp_all add: utf8_def)
  then have "hd (utf8 n) = hd (utf8 m)" using assms by (metis hd_take length_greater_0_conv)
  then have "length (utf8 n) = length (utf8 m)" by (simp only: utf8_length(1))
  then show ?thesis using assms utf8_inj by simp
qed

lemma invalid_bytes:
  assumes "c \<le> 0x1FFFFF" "\<not> utf_isValidDchar c"
  shows "\<exists>e k d. utf_decodeChar (t @ utf8_bytes c) (length t) = Inr (Some e, k, d)"
proof -
  let ?s = "t @ utf8_bytes c"
  have l: "length t < length ?s" by (simp add: utf8_bytes_def)
  note exact = utf8_decode_exactly[OF l]
  obtain eo k d where r: "utf_decodeChar ?s (length t) = Inr (eo, k, d)"
    using exact(2) by (metis prod_cases3 sum.exhaust_sel)
  have "eo \<noteq> None"
  proof
    assume "eo = None"
    then obtain bs where "utf_encodeChar d = Inr bs" "take (length bs) (utf8_bytes c) = bs"
      using r exact(1) by auto
    then have "utf_isValidDchar d" "map unat bs = utf8 (unat d)" "take (length bs) (map unat (utf8_bytes c)) = map unat bs"
      by (simp_all add: utf_encodeChar_Inr take_map)
    then have "unat c = unat d" using utf8_prefix utf8_bytes_values[OF assms(1)] by (metis length_map)
    then have "c = d" by (simp add: word_unat_eq_iff)
    then show False using assms(2) \<open>utf_isValidDchar d\<close> by simp
  qed
  then show ?thesis using r by auto
qed

text \<open>C40: A code point written with \<open>writeUTF8\<close> is decoded again if it is valid; a surrogate or a number
  up to 0x1FFFFF, which \<open>writeUTF8\<close> accepts, gives bytes that decoding rejects.\<close>

theorem written_code_point_decodes:
  assumes "shows_page p b" "length (content p) + 6 \<le> out_limit" "c \<le> 0x1FFFFF"
  shows "\<exists>b' bs. writeUTF8 c b = Inr b' \<and> shows_page (p\<lparr>content := content p @ bs\<rparr>) b' \<and>
    (if utf_isValidDchar c
     then utf_decodeChar (content p @ bs) (length (content p)) = Inr (None, length (content p) + length bs, c)
     else \<exists>e k d. utf_decodeChar (content p @ bs) (length (content p)) = Inr (Some e, k, d))"
proof -
  let ?t = "content p"
  obtain b' where "writeUTF8 c b = Inr b'" "holds (page_layout p) (begun p) (?t @ utf8_bytes c) b'"
    using deliversD[OF writeUTF8_returns[OF shows_pageD[OF assms(1)] assms(2,3)]] by auto
  moreover have "utf_decodeChar (?t @ utf8_bytes c) (length ?t) = Inr (None, length ?t + length (utf8_bytes c), c)"
    if "utf_isValidDchar c"
    by (subst utf8_decode_exactly) (simp_all add: utf8_bytes_encode[OF that] utf8_bytes_def)
  ultimately show ?thesis using invalid_bytes[OF assms(3)] by (auto simp: shows_page_def)
qed

theorem written_code_point_decodes_witness:
  "\<exists>b' bs. writeUTF8 0x20AC OutBuffer_new = Inr b' \<and> shows_page (page_new\<lparr>content := content page_new @ bs\<rparr>) b' \<and>
    utf_decodeChar (content page_new @ bs) (length (content page_new)) =
      Inr (None, length (content page_new) + length bs, 0x20AC)"
  using written_code_point_decodes[OF new_page, of "0x20AC"]
  by (simp add: page_new_def out_limit_def utf_isValidDchar_def)

section \<open>Numbers\<close>

text \<open>C19: The LEB128 bytes of an unsigned and of a signed number, written without indentation, are read
  back to the number, and end by themselves whatever follows.\<close>

theorem leb128_roundtrip:
  assumes "shows_page p b" "\<not> indenting (page_layout p)" "length (content p) + 5 \<le> out_limit"
  shows "(\<exists>b' bs. writeuLEB128 v b = Inr b' \<and> shows_page (p\<lparr>content := content p @ bs\<rparr>) b' \<and>
      uleb_decode (bs @ r) = Some (unat v, r)) \<and>
    (\<exists>b' bs. writesLEB128 v b = Inr b' \<and> shows_page (p\<lparr>content := content p @ bs\<rparr>) b' \<and>
      sleb_decode (bs @ r) = Some (sint v, r))"
proof
  have "unat v < 128 ^ Suc 4" using unat_u32_lt[of v] by simp
  from writeuLEB128_text[OF this shows_pageD[OF assms(1)] assms(2)] assms(3)
  show "\<exists>b' bs. writeuLEB128 v b = Inr b' \<and> shows_page (p\<lparr>content := content p @ bs\<rparr>) b' \<and>
      uleb_decode (bs @ r) = Some (unat v, r)"
    by (fastforce simp: shows_page_def)
  have "- (64 * 128 ^ 4) \<le> sint v" "sint v < 64 * 128 ^ 4"
    using sint_ge[of v] sint_lt[of v] by simp_all
  from writesLEB128_text[OF this shows_pageD[OF assms(1)] assms(2)] assms(3)
  show "\<exists>b' bs. writesLEB128 v b = Inr b' \<and> shows_page (p\<lparr>content := content p @ bs\<rparr>) b' \<and>
      sleb_decode (bs @ r) = Some (sint v, r)"
    by (fastforce simp: shows_page_def)
qed

theorem leb128_roundtrip_witness:
  "\<exists>b' bs. writesLEB128 (- 129) OutBuffer_new = Inr b' \<and> shows_page (page_new\<lparr>content := content page_new @ bs\<rparr>) b' \<and>
    sleb_decode (bs @ [0x80, 0x01]) = Some (sint (- 129 :: u32), [0x80, 0x01])"
  using conjunct2[OF leb128_roundtrip[OF new_page, of "- 129" "[0x80, 0x01]"]] by (simp add: page_new_def out_limit_def)

text \<open>\<open>print\<close> writes the decimal digits of any 64-bit number, at most 20 of them and without leading
  zeros: the buffer of 20 characters is never overrun.\<close>

lemma print_decimal:
  assumes "shows_page p b" "length (content p) + length (page_lead p) + 20 \<le> out_limit"
  shows "\<exists>b' ds. print u b = Inr b' \<and> shows_page (appended True ds p) b' \<and> length ds \<le> 20 \<and> is_decimal ds \<and>
    decimal_value ds = unat u"
  using print_text[OF shows_pageD[OF assms(1)], of u] assms(2)
  by (fastforce simp: shows_page_def appended_def page_lead_def)

section \<open>The terminating 0\<close>

lemma needs_terminator_text:
  assumes "holds y h t b" shows "needs_terminator b = Inr (t = [] \<or> last t \<noteq> 0)"
proof (cases t rule: rev_cases)
  case (snoc s c)
  then have "take (Suc (length s)) (bytes b) = map Some s @ [Some c]" "Suc (length s) \<le> length (bytes b)"
    "unat (offset b) = Suc (length s)"
    using assms by (simp_all add: holds_def)
  then have "bytes b ! length s = Some c" "unat (offset b - 1) = length s" "offset b \<noteq> 0"
    by (auto simp: take_Suc_conv_app_nth unat_sub word_le_nat_alt)
  then show ?thesis using snoc \<open>Suc (length s) \<le> length (bytes b)\<close> by (simp add: needs_terminator_def mem_read_def)
qed (use assms in \<open>simp add: needs_terminator_def holds_def unat_eq_zero\<close>)

text \<open>\<open>peekChars\<close> leaves a text that ends with 0 alone and terminates any other behind its end; but at
  the start of an indented line the margin becomes part of the text.\<close>

lemma peek_terminates:
  assumes "shows_page p b" "length (content p) + length (page_lead p) + 1 \<le> out_limit"
  shows "\<exists>b'. peekChars b = Inr b' \<and>
    (if content p \<noteq> [] \<and> last (content p) = 0 then b' = b
     else shows_page (appended True [] p) b' \<and> bytes b' ! length (content p @ page_lead p) = Some 0)"
proof (cases "content p \<noteq> [] \<and> last (content p) = 0")
  case True
  then show ?thesis using needs_terminator_text[OF shows_pageD[OF assms(1)]] by (simp add: peekChars_def)
next
  case False
  let ?y = "page_layout p" let ?h = "begun p" let ?t = "content p @ page_lead p"
  have "delivers (writeByte 0 b) (holds ?y (?h \<or> indenting ?y) (?t @ [0]))"
    using writeByte_returns[OF shows_pageD[OF assms(1)], of 0] assms(2) by (simp add: page_lead_def)
  then obtain c where c: "writeByte 0 b = Inr c" "holds ?y (?h \<or> indenting ?y) (?t @ [0]) c"
    using deliversD by blast
  then have u: "unat (offset c) = Suc (length ?t)" "Suc (length ?t) \<le> length (bytes c)"
    "take (Suc (length ?t)) (bytes c) = map Some ?t @ [Some 0]"
    by (simp_all add: holds_def)
  then have n: "take (length ?t) (bytes c) = map Some ?t" "bytes c ! length ?t = Some 0" "unat (offset c - 1) = length ?t"
    by (simp_all add: take_Suc_conv_app_nth unat_sub word_le_nat_alt)
  have "holds ?y (?h \<or> indenting ?y) ?t (c\<lparr>offset := offset c - 1\<rparr>)"
    using c(2) n u(2) by (simp add: holds_def has_layout_def)
  then have "shows_page (appended True [] p) (c\<lparr>offset := offset c - 1\<rparr>)" by (simp add: shows_page_def appended_def)
  moreover have "needs_terminator b = Inr True"
    using False needs_terminator_text[OF shows_pageD[OF assms(1)]] by auto
  ultimately show ?thesis unfolding if_not_P[OF False] using c(1) n(2) by (simp add: peekChars_def)
qed

end
