(* ===== verification/Spec2Isabelle.thy ===== *)
theory Spec2Isabelle
  imports Dmd_Array Type_Mods Ctor_Flow Visitor Downcasts Diagnostics Aa_Table Fold_Laws Layout_Laws
    Print_Parse Deferred Cmd_Results Text_Output
begin

text \<open>
  A verification library of the D compiler dmd: of the interface that its C++ headers declare
  (src/compiler/include/dmd), and of the operations behind that interface that can be modelled
  whole, whose bodies are in the headers (the array, the visitors) or in the D sources
  (src/compiler/src/dmd).

  \<^bold>\<open>The program and its parts.\<close>  The headers describe the syntax tree on which the passes of
  the compiler and the back ends of gdc and ldc work: class hierarchies of expressions,
  statements, types and symbols below \<open>ASTNode\<close>, traversed by double dispatch to visitors and
  by downcasts that compare tags.  Nodes keep their children in growable arrays.  Types carry
  the qualifiers \<open>const\<close>, \<open>immutable\<close>, \<open>shared\<close> and \<open>inout\<close> as bits.  Symbol tables are
  associative arrays keyed by pointers.  The semantic passes report through an error sink,
  which a speculative pass gags; they fold constants, bound the values of expressions by
  intervals to allow narrowing conversions, place the fields of aggregates, and check that
  every path through a constructor calls another constructor exactly once; a symbol that meets
  a forward reference is queued and analysed again.  The parser gives the tree, and the
  printer turns expressions back into text, for headers and for messages; all text that the
  compiler makes grows in an output buffer, in one of the encodings of Unicode.  All of this is
  steered by parameters that the command line sets.

  \<^bold>\<open>Theories, and what they model.\<close>

  \<^item> \<open>Prelude\<close>: the names of the machine types (\<open>u8\<close> to \<open>u64\<close>), the error sums, and lemmas on
    words, lists and maps that several components use.

  \<^item> \<open>Dmd_Array\<close>: struct \<open>Array\<close> of root/array.h.  The record holds \<open>length\<close>, \<open>data\<close> and
    \<open>smallarray\<close>; the memory is a map of blocks of cells that may be uninitialised.  One
    definition for each method (\<open>push\<close>, \<open>pushSlice\<close>, \<open>append\<close>, \<open>reserve\<close>, \<open>remove\<close>, \<open>insert\<close>,
    \<open>setDim\<close>, \<open>find\<close>, \<open>pop\<close>, \<open>toChars\<close>, \<open>copy\<close> and so on); an access that is out of range,
    overlapping or of the wrong kind is a fault.  Proved: the array refines a list, on every
    operation, while it has fewer elements than \<open>array_limit\<close>, 2863311531: from there on the
    32-bit product by which \<open>reserve\<close> grows the block wraps, which a theorem shows.

  \<^item> \<open>Type_Mods\<close>: the \<open>MOD\<close> bits of mtype.h with \<open>MODimplicitConv\<close>, \<open>MODmethodConv\<close>, \<open>MODmerge\<close>,
    \<open>deduceWildHelper\<close>, \<open>substWildTo\<close>, \<open>castMod\<close> and \<open>addMod\<close>.  Proved: merging is the least upper
    bound of the implicit conversion, and when an argument converts to the qualifier deduced for
    \<open>inout\<close>.

  \<^item> \<open>Ctor_Flow\<close>: the \<open>CSX\<close> flags of scope.h and \<open>mergeCallSuper\<close> of ctorflow.d, over a statement
    language of calls, returns, labels, \<open>halt\<close> and \<open>if\<close>.  A constructor that is accepted calls
    another one exactly once on every run that returns, as long as no halt makes the analysis
    forget what it saw (\<open>keeps_history\<close>); a theorem shows what a final halt hides.

  \<^item> \<open>Cpp_Class\<close>, \<open>Ast_Names\<close>, \<open>Ast_Nodes\<close>, \<open>Ast_Statements\<close>, \<open>Ast_Types\<close>, \<open>Ast_Dsymbols\<close>,
    \<open>Ast_Expressions\<close>, \<open>Class_Table\<close>: every class below \<open>RootObject\<close> in the headers, as a
    declaration with its base, its members in order and the inline bodies that are constants,
    visits or casts.  The locale \<open>class_table\<close> says when declarations are well formed and shows
    that lookup along the bases agrees with the virtual table; \<open>Class_Table\<close> interprets it on
    the classes of the headers.

  \<^item> \<open>Visitor_Methods\<close>, \<open>Visitor\<close>: the bodies of all methods of the two visitors of visitor.h,
    \<open>accept\<close>, and visitors that override any of them.  \<open>Downcasts\<close>: \<open>dyncast\<close> on every class,
    and the \<open>is...Statement\<close> methods against the tags that the constructors of statement.d store.

  \<^item> \<open>Diagnostics\<close>: \<open>ErrorSinkCompiler\<close> of errors.h, and the counters of \<open>Global\<close> (globals.h)
    with \<open>startGagging\<close>, \<open>endGagging\<close> and \<open>Ungag\<close>.  Proved: gagged regions leave the error count
    as it was and print nothing but messages.

  \<^item> \<open>Aa_Table\<close>: struct \<open>AA\<close> and the functions of root/aav.d.  The loops of the code have no
    bound; they are partial functions (\<open>partial_function (option)\<close>), and that they end is proved
    from the table having a power of two of buckets, one of them empty.  Proved: the table
    refines a finite map, for fewer than \<open>aa_limit\<close>, 2 to the 56, keys.

  \<^item> \<open>Int_Range\<close>, \<open>Range_Laws\<close>: the 65-bit numbers and the intervals of intrange.d.  Proved: the
    arithmetic is that of the integers, cut off at both ends, and each operation on intervals
    contains every result.  \<open>Int_Fold\<close>, \<open>Fold_Laws\<close>: integral folding of constfold.d and
    optimize.d, and \<open>getIntRange\<close> of dcast.d.  The locale \<open>value_ranges\<close> is the interface
    between the two; its interpretation on the intervals gives that a folded value lies in the
    range of its expression, and that an implicit narrowing keeps the value, for the operators
    of \<open>exact_ops\<close>.

  \<^item> \<open>Struct_Layout\<close>, \<open>Layout_Laws\<close>: \<open>structalign_t\<close>, \<open>alignmember\<close>, \<open>placeField\<close>, the
    \<open>setFieldOffset\<close> of variables and anonymous aggregates, and \<open>finalizeSize\<close>.  Proved: fields
    are disjoint, within the size of the aggregate, and aligned if they take room.

  \<^item> \<open>Tokens\<close>: the enumerations \<open>TOK\<close> and \<open>EXP\<close> of tokens.h in full, with the texts, the table of
    keywords (tokens.d), \<open>EXPtoString\<close> (hdrgen.d) and the precedences (parse.d).  \<open>Lexer\<close>: the
    scanner of lexer.d on operators, identifiers and keywords.  \<open>Expr_Text\<close>: operator
    expressions, \<open>expToBuffer\<close> with its cases in hdrgen.d, and one definition for each level of
    the parser, from \<open>parseExpression\<close> to \<open>parsePrimaryExp\<close> (parse.d).  \<open>Parse_Laws\<close>: every level
    consumes a token and returns (locale \<open>operand_parser\<close>, interpreted on \<open>parseUnaryExp\<close>).
    \<open>Print_Parse\<close>: printed expressions parse back, and the forms for which they do not.

  \<^item> \<open>Deferred\<close>: the queues of module.h and \<open>addDeferredSemantic\<close>, \<open>runDeferredSemantic\<close> and their
    variants (dsymbolsem.d), and the report of main.d, which goes to the sink of \<open>Diagnostics\<close>.
    The passes over a symbol are functions on the whole state; for passes that finish a symbol
    once its needs are finished and otherwise only defer it, and for needs without a cycle, every
    queued symbol is finished.

  \<^item> \<open>Chars\<close>: the tests of characters that the scanner and the command line share.  \<open>Cmd_State\<close>:
    struct \<open>Param\<close> of globals.h with all its fields, \<open>DMDparams\<close> (dmdparams.d), and what switches
    change of \<open>Target\<close>.  \<open>Cmd_Line\<close>: \<open>parseCommandLine\<close> (mars.d), one definition for each switch
    with a value and seven groups for the chain of tests in its order, \<open>parseDigits\<close> (utils.d)
    over the checked arithmetic of druntime, the tables of cli.d, and \<open>reconcileCommands\<close>
    (main.d).  \<open>Cmd_Laws\<close>: what each switch reads and keeps; the locale \<open>argument_invariant\<close>
    carries an invariant through the loop over the arguments.  \<open>Cmd_Digits\<close>: the numbers.
    \<open>Cmd_Results\<close> interprets the locale and proves that the parser reads within the arguments
    but for a few switches, that explicit checks survive, and that the language changes which
    imply one another stay ordered.

  \<^item> \<open>Utf\<close>: encoding and decoding of UTF-8 and UTF-16 (root/utf.d).  Proved: decoding accepts
    exactly what encoding gives.  \<open>Out_Buffer\<close>: struct \<open>OutBuffer\<close> of common/outbuffer.h with its
    methods (common/outbuffer.d): the block of bytes with uninitialised cells, growth, indentation,
    insertion and removal, numbers and code points.  \<open>Buffer_Laws\<close>: what each method does to the
    text, for texts below \<open>out_limit\<close>, about 2 to the 62.4 bytes, where the product by which
    \<open>reserve\<close> grows the block does not wrap.  \<open>Buffer_Numbers\<close>: LEB128 and decimal numbers.
    \<open>Text_Output\<close>: the locale \<open>stepwise_refinement\<close>, interpreted on the operations of the buffer
    against those of a page of text, gives that any list of operations refines the page.

  \<^bold>\<open>Bounds and fuel.\<close>  Chains of base classes and of visitor casts take fuel \<open>class_depth\<close>, 8;
  no chain of the headers is longer, which the interpretation of \<open>class_table\<close> proves, so the
  fuel never runs out on a class of the headers.  The parser takes fuel \<open>parse_fuel\<close>, four for
  each token and four more: there are four recursive levels, each of which returns to itself
  only after a token; a theorem shows that it never runs out, on any text.  The rounds of
  \<open>runDeferredSemantic\<close> and the growing queues are partial functions.  Machine integers keep
  the width of the code.  The value ranges hold for the operators of
  \<open>exact_ops\<close>; the ones left out are where a theorem shows that the code's ranges are too narrow,
  or where 64-bit arithmetic wraps and the ranges saturate.

  \<^bold>\<open>Not modelled.\<close> The parser of declarations, statements and types, and of
  C; literals of numbers and strings, comments, calls, indexing, casts, \<open>new\<close> and
  lambdas in the text of expressions, which are the error \<open>Not_modelled\<close> there;
  semantic analysis beyond the parts above, which works on the whole object graph; the CTFE
  interpreter; the back end; the run-time library. Of the parts above: floating point, strings
  and pointers in folding; the bitwise operators on ranges and in folding; bit fields and tuples
  in layouts; loops, \<open>switch\<close>, \<open>try\<close> and the field flags in
  constructors; the downcasts of expressions, types and symbols; the text of diagnostics; in the
  command line, the triples of \<open>-target\<close> and names outside ASCII, which are
  \<open>Not_in_model\<close> there, hosts other than Linux, response and configuration files,
  and the reconciliation of the link switches; in the output buffer, \<open>printf\<close>, buffers mapped to
  files and the newlines of Windows; \<open>goto\<close> in constructors. Vendored macros (valgrind.h), the prelude of
  ImportC and the shims for Visual C++ hold no code of the compiler.
\<close>

end
